(* ===== verification/Prelude.thy ===== *)
theory Prelude
  imports Main "HOL-Library.Word" "HOL-Library.Monad_Syntax"
begin

text \<open>
  Shared vocabulary of the development.  Machine integers are words; the small C++ integers of
  the CPU core (\<open>uint8_t\<close>, \<open>uint16_t\<close>) are promoted to \<open>int\<close> in every C++ expression and
  truncated again at the typed assignment, so an expression is a 32-bit word here and the
  assignment is the function \<open>cast\<close> at the width of the variable.

  Every operation that touches the machine is a function of the state into
  \<open>('a \<times> 's) option\<close>: \<open>Some (r, s')\<close> is the returned value with the new state, and \<open>None\<close> is
  an execution whose C++ behaviour is undefined (a null or out-of-range pointer, a null
  function pointer).  \<open>runs I m\<close> says that \<open>m\<close> has an outcome and that its state satisfies \<open>I\<close>.
\<close>

unbundle bit_operations_syntax

type_synonym u8 = "8 word"
type_synonym u16 = "16 word"
type_synonym u32 = "32 word"
type_synonym u64 = "64 word"
type_synonym cpuaddr = "32 word"

named_theorems runs_intros \<open>rules for the operations of the model that run and keep the invariant\<close>

section \<open>Widths of the template parameters\<close>

datatype width = W8 | W16

primrec bits :: "width \<Rightarrow> nat" where
  "bits W8 = 8"
| "bits W16 = 16"

primrec sizeof :: "width \<Rightarrow> nat" where
  "sizeof W8 = 1"
| "sizeof W16 = 2"

primrec cast :: "width \<Rightarrow> u32 \<Rightarrow> u32" where
  "cast W8 v = v AND 0xFF"
| "cast W16 v = v AND 0xFFFF"

primrec high_bit :: "width \<Rightarrow> u32" where
  "high_bit W8 = 0x80"
| "high_bit W16 = 0x8000"

section \<open>Bytes of words\<close>

definition lo8 :: "u16 \<Rightarrow> u8" where
  "lo8 r = ucast r"

definition hi8 :: "u16 \<Rightarrow> u8" where
  "hi8 r = ucast (drop_bit 8 r)"

definition set_lo8 :: "u8 \<Rightarrow> u16 \<Rightarrow> u16" where
  "set_lo8 b r = (r AND 0xFF00) OR ucast b"

definition set_hi8 :: "u8 \<Rightarrow> u16 \<Rightarrow> u16" where
  "set_hi8 b r = (r AND 0x00FF) OR push_bit 8 (ucast b)"

definition le16 :: "u8 \<Rightarrow> u8 \<Rightarrow> u32" where
  "le16 low high = ucast low OR push_bit 8 (ucast high)"

definition of_flag :: "bool \<Rightarrow> u32" where
  "of_flag b = (if b then 1 else 0)"

lemma u8_less: "unat (b :: u8) < 256"
  using unsigned_less [of b, where 'a = nat] by simp

lemma unat_ucast_u8:
  "unat (ucast (b :: u8) :: u16) = unat b" "unat (ucast (b :: u8) :: u32) = unat b"
  using u8_less [of b] by (simp_all add: unsigned_ucast_eq take_bit_nat_eq_self)

lemma unat_drop_bit_div: "unat (drop_bit k a :: 'a::len word) = unat a div 2 ^ k"
  by (simp only: unat_drop_bit_eq) (simp only: drop_bit_eq_div)

lemma unat_and_mask_mod: "unat (a AND mask k :: 'a::len word) = unat a mod 2 ^ k"
  by (simp only: take_bit_eq_mask [symmetric] unsigned_take_bit_eq) (simp only: take_bit_eq_mod)

text \<open>The masks of the code as bit sets, for proofs by \<open>bit_word_eqI\<close>.\<close>

lemma bit_0xFF: "bit (0xFF :: int) n \<longleftrightarrow> n < 8"
  using bit_mask_iff [of 8 n, where 'a = int] by (simp add: mask_eq_exp_minus_1)

lemma bit_0xFFFF: "bit (0xFFFF :: int) n \<longleftrightarrow> n < 16"
  using bit_mask_iff [of 16 n, where 'a = int] by (simp add: mask_eq_exp_minus_1)

lemma bit_0xFF00: "bit (0xFF00 :: int) n \<longleftrightarrow> 8 \<le> n \<and> n < 16"
proof -
  have "(0xFF00 :: int) = push_bit 8 (mask 8)"
    by (simp add: mask_eq_exp_minus_1)
  then show ?thesis
    by (simp only: bit_push_bit_iff bit_mask_iff) auto
qed

lemmas mask_bits = bit_0xFF bit_0xFFFF bit_0xFF00

lemma lo8_set_lo8 [simp]: "lo8 (set_lo8 b r) = b"
  by (rule bit_word_eqI) (auto simp: lo8_def set_lo8_def bit_simps mask_bits)

lemma hi8_set_lo8 [simp]: "hi8 (set_lo8 b r) = hi8 r"
  by (rule bit_word_eqI)
    (auto simp: hi8_def set_lo8_def bit_simps mask_bits dest: bit_imp_le_length)

lemma lo8_set_hi8 [simp]: "lo8 (set_hi8 b r) = lo8 r"
  by (rule bit_word_eqI) (auto simp: lo8_def set_hi8_def bit_simps mask_bits)

lemma hi8_set_hi8 [simp]: "hi8 (set_hi8 b r) = b"
  by (rule bit_word_eqI)
    (auto simp: hi8_def set_hi8_def bit_simps mask_bits dest: bit_imp_le_length)

lemma set_lo8_twice [simp]: "set_lo8 b (set_lo8 c r) = set_lo8 b r"
  by (rule bit_word_eqI) (auto simp: set_lo8_def bit_simps mask_bits dest: bit_imp_le_length)

lemma set_lo8_lo8 [simp]: "set_lo8 (lo8 r) r = r"
  by (rule bit_word_eqI) (auto simp: lo8_def set_lo8_def bit_simps mask_bits)

lemma ucast_u8_u32 [simp]: "ucast (ucast (b :: u8) :: u32) = b"
  by (rule bit_word_eqI) (auto simp: bit_simps)

lemma ucast_u16_u32 [simp]: "ucast (ucast (b :: u16) :: u32) = b"
  by (rule bit_word_eqI) (auto simp: bit_simps)

lemma word16_eqI: "lo8 a = lo8 b \<Longrightarrow> hi8 a = hi8 b \<Longrightarrow> a = b"
proof (rule bit_word_eqI, goal_cases)
  case (1 n)
  have "bit (lo8 a) n = bit (lo8 b) n" "bit (hi8 a) (n - 8) = bit (hi8 b) (n - 8)"
    using 1 by simp_all
  with 1(3) show ?case
    by (cases "n < 8") (auto simp: lo8_def hi8_def bit_simps)
qed

lemma cast_W8_ucast: "cast W8 v = ucast (ucast v :: u8)"
  by (rule bit_word_eqI) (auto simp: bit_simps mask_bits)

lemma cast_W16_ucast: "cast W16 v = ucast (ucast v :: u16)"
  by (rule bit_word_eqI) (auto simp: bit_simps mask_bits)

lemma cast_idem [simp]: "cast w (cast w v) = cast w v"
  by (cases w) (simp_all add: and.assoc)

lemma unat_cast: "unat (cast w v) = unat v mod 2 ^ bits w"
  by (cases w) (simp_all add: cast_W8_ucast cast_W16_ucast unsigned_ucast_eq take_bit_eq_mod unat_mod
      del: cast.simps)

lemma cast_small: "unat v < 2 ^ bits w \<Longrightarrow> cast w v = v"
  by (simp add: word_unat_eq_iff unat_cast)

lemma unat_cast_less: "unat (cast w v) < 2 ^ bits w"
  by (simp add: unat_cast)

lemma le16_lo: "ucast (le16 a b) = a"
  by (rule bit_word_eqI) (auto simp: le16_def bit_simps)

lemma le16_hi: "ucast (drop_bit 8 (le16 a b)) = b"
  by (rule bit_word_eqI) (auto simp: le16_def bit_simps dest: bit_imp_le_length)

lemma le16_bytes: "le16 (ucast v) (ucast (drop_bit 8 v)) = cast W16 v"
  by (rule bit_word_eqI) (auto simp: le16_def bit_simps mask_bits)

section \<open>Outcomes\<close>

definition runs :: "('s \<Rightarrow> bool) \<Rightarrow> ('a \<times> 's) option \<Rightarrow> bool" where
  "runs I m = (case m of None \<Rightarrow> False | Some (x, s) \<Rightarrow> I s)"

lemma runs_simps [simp]:
  "\<not> runs I None"
  "runs I (Some (x, s)) \<longleftrightarrow> I s"
  by (simp_all add: runs_def)

lemma runs_iff: "runs I m \<longleftrightarrow> (\<exists>x s. m = Some (x, s) \<and> I s)"
  by (auto simp: runs_def split: option.splits)

lemma runsE:
  assumes "runs I m"
  obtains x s where "m = Some (x, s)" and "I s"
  using assms by (auto simp: runs_iff)

lemma runs_weaken: "runs I m \<Longrightarrow> (\<And>s. I s \<Longrightarrow> J s) \<Longrightarrow> runs J m"
  by (auto simp: runs_iff)

lemma runs_bind:
  assumes "runs I m" and "\<And>x s. I s \<Longrightarrow> runs J (g (x, s))"
  shows "runs J (m \<bind> g)"
  using assms by (auto simp: runs_iff)

lemma runs_if [runs_intros]:
  "(c \<Longrightarrow> runs I a) \<Longrightarrow> (\<not> c \<Longrightarrow> runs I b) \<Longrightarrow> runs I (if c then a else b)"
  by simp

lemma runs_case_option [runs_intros]:
  "(m = None \<Longrightarrow> runs I a) \<Longrightarrow> (\<And>x. m = Some x \<Longrightarrow> runs I (f x)) \<Longrightarrow>
    runs I (case m of None \<Rightarrow> a | Some x \<Rightarrow> f x)"
  by (cases m) auto

lemma runs_case_prod [runs_intros]:
  "(\<And>a b. p = (a, b) \<Longrightarrow> runs I (f a b)) \<Longrightarrow> runs I (case p of (a, b) \<Rightarrow> f a b)"
  by (cases p) auto

lemma runs_case_width [runs_intros]:
  "(w = W8 \<Longrightarrow> runs I a) \<Longrightarrow> (w = W16 \<Longrightarrow> runs I b) \<Longrightarrow>
    runs I (case w of W8 \<Rightarrow> a | W16 \<Rightarrow> b)"
  by (cases w) auto

lemma runs_Let [runs_intros]: "runs I (f e) \<Longrightarrow> runs I (let x = e in f x)"
  by simp

lemmas runs_control = runs_if runs_case_option runs_case_prod runs_case_width runs_Let

end
