(* ===== verification/Bus.thy ===== *)
theory Bus
  imports Prelude
begin

text \<open>
  Host memory and \<open>SystemBus\<close> (cpu.h, cpu.cc).  A C++ pointer into memory the program has
  allocated is a block number with an offset; reading or writing outside the block is undefined
  behaviour, the outcome \<open>None\<close>.  A page of the bus holds such a pointer (or null), its flags
  and the I/O match; the callbacks of \<open>SystemBus::IODevices\<close> are an argument of the bus
  operations, because they act on the whole machine they are a part of.
\<close>

section \<open>Host memory\<close>

type_synonym host_ptr = "nat \<times> nat"

record host_mem =
  blk_size :: "nat \<Rightarrow> nat"
  blk_data :: "nat \<Rightarrow> nat \<Rightarrow> u8"

definition ptr_add :: "host_ptr \<Rightarrow> nat \<Rightarrow> host_ptr" where
  "ptr_add p n = (fst p, snd p + n)"

definition valid_ptr :: "host_mem \<Rightarrow> host_ptr \<Rightarrow> bool" where
  "valid_ptr h p \<longleftrightarrow> snd p < blk_size h (fst p)"

definition load_byte :: "host_mem \<Rightarrow> host_ptr \<Rightarrow> u8 option" where
  "load_byte h p = (if valid_ptr h p then Some (blk_data h (fst p) (snd p)) else None)"

definition store_byte :: "host_ptr \<Rightarrow> u8 \<Rightarrow> host_mem \<Rightarrow> host_mem option" where
  "store_byte p v h =
     (if valid_ptr h p
      then Some (h\<lparr>blk_data := (blk_data h)(fst p := (blk_data h (fst p))(snd p := v))\<rparr>)
      else None)"

section \<open>Pages, memory map and bus state\<close>

definition kReadOnly :: u32 where
  "kReadOnly = 1"

record page =
  ptr :: "host_ptr option"
  flags :: u32
  io_mask :: cpuaddr
  io_eq :: cpuaddr
  cycles_per_access :: u32

record memory_map =
  page_size :: u32
  page_shift :: nat
  page_mask :: u32
  pages :: "page list"

record system_bus =
  memory :: memory_map
  mem_mask :: u32
  open_bus_is_data :: bool
  open_bus :: u8

record 'd bus_sys =
  host :: host_mem
  sysbus :: system_bus
  dev :: 'd

text \<open>
  The callbacks.  \<open>read\<close> is given the current value of the byte its data pointer refers to
  and yields the value it leaves there.
\<close>

record 's io_devices =
  is_io_device_address :: "cpuaddr \<Rightarrow> 's \<Rightarrow> bool"
  io_read :: "cpuaddr \<Rightarrow> u8 \<Rightarrow> 's \<Rightarrow> (u8 \<times> 's) option"
  io_write :: "cpuaddr \<Rightarrow> u8 \<Rightarrow> 's \<Rightarrow> (unit \<times> 's) option"
  irq_taken :: "u32 \<Rightarrow> 's \<Rightarrow> (unit \<times> 's) option"

definition page_index :: "('d, 'm) bus_sys_scheme \<Rightarrow> cpuaddr \<Rightarrow> nat" where
  "page_index s addr = unat (drop_bit (page_shift (memory (sysbus s))) addr)"

definition page_at :: "nat \<Rightarrow> ('d, 'm) bus_sys_scheme \<Rightarrow> page option" where
  "page_at i s =
     (let ps = pages (memory (sysbus s)) in if i < length ps then Some (ps ! i) else None)"

definition page_offset :: "('d, 'm) bus_sys_scheme \<Rightarrow> cpuaddr \<Rightarrow> nat" where
  "page_offset s addr = unat (addr AND page_mask (memory (sysbus s)))"

definition set_open_bus :: "u8 \<Rightarrow> ('d, 'm) bus_sys_scheme \<Rightarrow> ('d, 'm) bus_sys_scheme" where
  "set_open_bus v s = s\<lparr>sysbus := (sysbus s)\<lparr>open_bus := v\<rparr>\<rparr>"

section \<open>Operations\<close>

definition QueryIo ::
  "('d, 'm) bus_sys_scheme io_devices \<Rightarrow> cpuaddr \<Rightarrow> ('d, 'm) bus_sys_scheme \<Rightarrow> bool option" where
  "QueryIo io addr s =
     (let a = addr AND mem_mask (sysbus s) in do {
        p \<leftarrow> page_at (page_index s a) s;
        Some (if io_mask p AND a = io_eq p then is_io_device_address io a s else False)
      })"

definition ReadByte ::
  "('d, 'm) bus_sys_scheme io_devices \<Rightarrow> cpuaddr \<Rightarrow> ('d, 'm) bus_sys_scheme \<Rightarrow>
    ((u8 \<times> u32) \<times> ('d, 'm) bus_sys_scheme) option" where
  "ReadByte io addr s0 =
     (let s = (if open_bus_is_data (sysbus s0) then s0 else set_open_bus (ucast (addr AND 0xFF)) s0);
          a = addr AND mem_mask (sysbus s);
          i = page_index s a
      in do {
        p \<leftarrow> page_at i s;
        (_, s) \<leftarrow>
          (if io_mask p AND a = io_eq p then do {
             (v, s) \<leftarrow> io_read io a (open_bus (sysbus s)) s;
             Some ((), set_open_bus v s)
           }
           else (case ptr p of
             None \<Rightarrow> Some ((), s)
           | Some q \<Rightarrow> do {
               v \<leftarrow> load_byte (host s) (ptr_add q (page_offset s a));
               Some ((), set_open_bus v s)
             }));
        p \<leftarrow> page_at i s;
        Some ((open_bus (sysbus s), cycles_per_access p), s)
      })"

definition ReadByteNoIo ::
  "cpuaddr \<Rightarrow> ('d, 'm) bus_sys_scheme \<Rightarrow> ((u8 \<times> u32) \<times> ('d, 'm) bus_sys_scheme) option" where
  "ReadByteNoIo addr s =
     (let a = addr AND mem_mask (sysbus s) in do {
        p \<leftarrow> page_at (page_index s a) s;
        q \<leftarrow> ptr p;
        v \<leftarrow> load_byte (host s) (ptr_add q (page_offset s a));
        Some ((v, cycles_per_access p), s)
      })"

definition WriteByte ::
  "('d, 'm) bus_sys_scheme io_devices \<Rightarrow> cpuaddr \<Rightarrow> u8 \<Rightarrow> ('d, 'm) bus_sys_scheme \<Rightarrow>
    (u32 \<times> ('d, 'm) bus_sys_scheme) option" where
  "WriteByte io addr v s =
     (let a = addr AND mem_mask (sysbus s);
          i = page_index s a
      in do {
        p \<leftarrow> page_at i s;
        (_, s) \<leftarrow>
          (if io_mask p AND a = io_eq p then io_write io a v s
           else (case ptr p of
             Some q \<Rightarrow>
               if flags p AND kReadOnly = 0 then do {
                 h \<leftarrow> store_byte (ptr_add q (page_offset s a)) v (host s);
                 Some ((), s\<lparr>host := h\<rparr>)
               }
               else Some ((), s)
           | None \<Rightarrow> Some ((), s)));
        s \<leftarrow> Some (set_open_bus (if open_bus_is_data (sysbus s) then v else ucast (a AND 0xFF)) s);
        p \<leftarrow> page_at i s;
        Some (cycles_per_access p, s)
      })"

definition WriteByteNoIo ::
  "cpuaddr \<Rightarrow> u8 \<Rightarrow> ('d, 'm) bus_sys_scheme \<Rightarrow> (u32 \<times> ('d, 'm) bus_sys_scheme) option" where
  "WriteByteNoIo addr v s =
     (let a = addr AND mem_mask (sysbus s) in do {
        p \<leftarrow> page_at (page_index s a) s;
        (_, s) \<leftarrow>
          (if flags p AND kReadOnly = 0 then do {
             q \<leftarrow> ptr p;
             h \<leftarrow> store_byte (ptr_add q (page_offset s a)) v (host s);
             Some ((), s\<lparr>host := h\<rparr>)
           }
           else Some ((), s));
        Some (cycles_per_access p, s)
      })"

text \<open>The loop of \<open>SystemBus::Map\<close>: \<open>n\<close> pages are left, \<open>i\<close> is the loop variable.\<close>

fun Map_loop :: "nat \<Rightarrow> host_ptr \<Rightarrow> nat \<Rightarrow> bool \<Rightarrow> nat \<Rightarrow> nat \<Rightarrow> page list \<Rightarrow> page list option" where
  "Map_loop first p psize readonly i 0 ps = Some ps"
| "Map_loop first p psize readonly i (Suc n) ps =
     (if first + i < length ps
      then Map_loop first p psize readonly (Suc i) n
             (ps[first + i := (ps ! (first + i))
                \<lparr>ptr := Some (ptr_add p (i * psize)),
                 flags := (if readonly then flags (ps ! (first + i)) OR kReadOnly
                           else flags (ps ! (first + i)))\<rparr>])
      else None)"

definition Map :: "cpuaddr \<Rightarrow> host_ptr \<Rightarrow> u32 \<Rightarrow> bool \<Rightarrow> system_bus \<Rightarrow> system_bus option" where
  "Map addr p len readonly b =
     (let m = memory b in
      if page_size m = 0 then None
      else do {
        ps \<leftarrow> Map_loop (unat (addr div page_size m)) p (unat (page_size m)) readonly 0
               (unat (len div page_size m)) (pages m);
        Some (b\<lparr>memory := m\<lparr>pages := ps\<rparr>\<rparr>)
      })"

text \<open>\<open>1U << size_shift\<close> is a 32-bit shift, \<open>1UL << addr_bus_bits\<close> a 64-bit one.\<close>

definition bus_Init :: "nat \<Rightarrow> nat \<Rightarrow> page list \<Rightarrow> system_bus \<Rightarrow> system_bus" where
  "bus_Init size_shift addr_bus_bits ps b =
     b\<lparr>memory := \<lparr>page_size = push_bit size_shift 1, page_shift = size_shift,
                   page_mask = push_bit size_shift 1 - 1, pages = ps\<rparr>,
       mem_mask := ucast (push_bit addr_bus_bits 1 - 1 :: u64)\<rparr>"

section \<open>Little-endian words on the bus\<close>

definition ReadByte_value ::
  "('d, 'm) bus_sys_scheme io_devices \<Rightarrow> cpuaddr \<Rightarrow> ('d, 'm) bus_sys_scheme \<Rightarrow>
    (u8 \<times> ('d, 'm) bus_sys_scheme) option" where
  "ReadByte_value io addr s = do {
     ((v, n), s) \<leftarrow> ReadByte io addr s;
     Some (v, s)
   }"

definition PeekU16LE ::
  "('d, 'm) bus_sys_scheme io_devices \<Rightarrow> cpuaddr \<Rightarrow> ('d, 'm) bus_sys_scheme \<Rightarrow>
    (u16 \<times> ('d, 'm) bus_sys_scheme) option" where
  "PeekU16LE io addr s = do {
     (lo, s) \<leftarrow> ReadByte_value io addr s;
     (hi, s) \<leftarrow> ReadByte_value io (addr + 1) s;
     Some (ucast (le16 lo hi), s)
   }"

definition PeekU32LE ::
  "('d, 'm) bus_sys_scheme io_devices \<Rightarrow> cpuaddr \<Rightarrow> ('d, 'm) bus_sys_scheme \<Rightarrow>
    (u32 \<times> ('d, 'm) bus_sys_scheme) option" where
  "PeekU32LE io addr s = do {
     (b0, s) \<leftarrow> ReadByte_value io addr s;
     (b1, s) \<leftarrow> ReadByte_value io (addr + 1) s;
     (b2, s) \<leftarrow> ReadByte_value io (addr + 2) s;
     (b3, s) \<leftarrow> ReadByte_value io (addr + 3) s;
     Some (ucast b0 OR push_bit 8 (ucast b1) OR push_bit 16 (ucast b2) OR push_bit 24 (ucast b3), s)
   }"

definition PokeU16LE ::
  "('d, 'm) bus_sys_scheme io_devices \<Rightarrow> cpuaddr \<Rightarrow> u16 \<Rightarrow> ('d, 'm) bus_sys_scheme \<Rightarrow>
    (unit \<times> ('d, 'm) bus_sys_scheme) option" where
  "PokeU16LE io addr v s = do {
     (_, s) \<leftarrow> WriteByte io addr (ucast (v AND 0xFF)) s;
     (_, s) \<leftarrow> WriteByte io (addr + 1) (ucast (drop_bit 8 v)) s;
     Some ((), s)
   }"

definition PokeU32LE ::
  "('d, 'm) bus_sys_scheme io_devices \<Rightarrow> cpuaddr \<Rightarrow> u32 \<Rightarrow> ('d, 'm) bus_sys_scheme \<Rightarrow>
    (unit \<times> ('d, 'm) bus_sys_scheme) option" where
  "PokeU32LE io addr v s = do {
     (_, s) \<leftarrow> WriteByte io addr (ucast (v AND 0xFF)) s;
     (_, s) \<leftarrow> WriteByte io (addr + 1) (ucast (drop_bit 8 v)) s;
     (_, s) \<leftarrow> WriteByte io (addr + 2) (ucast (drop_bit 16 v)) s;
     (_, s) \<leftarrow> WriteByte io (addr + 3) (ucast (drop_bit 24 v)) s;
     Some ((), s)
   }"

section \<open>The bus over one linear memory\<close>

text \<open>
  The constructor of \<open>SimpleSystemBus\<close>: one page over the array \<open>mem\<close>, here the block \<open>blk\<close> of
  \<open>2 ^ AddressBusBits\<close> bytes.  \<open>io_mask = 0\<close> with \<open>io_eq = 1\<close> matches no address.
\<close>

definition simple_page :: "nat \<Rightarrow> page" where
  "simple_page blk = \<lparr>ptr = Some (blk, 0), flags = 0, io_mask = 0, io_eq = 1, cycles_per_access = 1\<rparr>"

definition SimpleSystemBus :: "nat \<Rightarrow> nat \<Rightarrow> system_bus \<Rightarrow> system_bus" where
  "SimpleSystemBus AddressBusBits blk b =
     bus_Init AddressBusBits AddressBusBits [simple_page blk]
       (b\<lparr>open_bus_is_data := True, open_bus := 0\<rparr>)"

definition SetIo :: "u32 \<Rightarrow> u32 \<Rightarrow> system_bus \<Rightarrow> system_bus" where
  "SetIo m e b =
     b\<lparr>memory := (memory b)\<lparr>pages := map (\<lambda>p. p\<lparr>io_mask := m, io_eq := e\<rparr>) (pages (memory b))\<rparr>\<rparr>"

end
