(* ===== verification/Bus_Laws.thy ===== *)
theory Bus_Laws
  imports Bus
begin

text \<open>
  What the bus guarantees.  \<open>bus_ok\<close> is the well-formedness of the page table; under it no bus
  operation leaves the table or a host block.  \<open>ram_ptr\<close> names the host byte an address that is
  not an I/O address stands for, so that mirrored pages are the addresses with equal \<open>ram_ptr\<close>.
\<close>

section \<open>Well-formed page tables\<close>

definition page_ok :: "(nat \<Rightarrow> nat) \<Rightarrow> nat \<Rightarrow> page \<Rightarrow> bool" where
  "page_ok sizes n p = (case ptr p of None \<Rightarrow> True | Some q \<Rightarrow> snd q + n \<le> sizes (fst q))"

definition bus_ok :: "('d, 'm) bus_sys_scheme \<Rightarrow> bool" where
  "bus_ok s =
     (let m = memory (sysbus s) in
      unat (drop_bit (page_shift m) (mem_mask (sysbus s))) < length (pages m) \<and>
      unat (page_mask m) < unat (page_size m) \<and>
      list_all (page_ok (blk_size (host s)) (unat (page_size m))) (pages m))"

lemma unat_and_mask_le: "unat (a AND m :: 'a::len word) \<le> unat m"
  by (metis word_and_le1 word_le_nat_alt)

lemma unat_drop_and_le: "unat (drop_bit k (a AND m :: 'a::len word)) \<le> unat (drop_bit k m)"
  by (simp add: unat_and_mask_le)

lemma page_index_less:
  assumes "bus_ok s"
  shows "page_index s (a AND mem_mask (sysbus s)) < length (pages (memory (sysbus s)))"
proof -
  have "page_index s (a AND mem_mask (sysbus s))
      \<le> unat (drop_bit (page_shift (memory (sysbus s))) (mem_mask (sysbus s)))"
    unfolding page_index_def by (rule unat_drop_and_le)
  with assms show ?thesis
    by (simp add: bus_ok_def Let_def)
qed

lemma page_at_ok:
  assumes "bus_ok s"
  obtains p where "page_at (page_index s (a AND mem_mask (sysbus s))) s = Some p"
    and "p \<in> set (pages (memory (sysbus s)))"
    and "page_ok (blk_size (host s)) (unat (page_size (memory (sysbus s)))) p"
  using page_index_less [OF assms, of a] assms
  by (fastforce simp: page_at_def bus_ok_def Let_def list_all_iff)

lemma page_offset_less:
  "bus_ok s \<Longrightarrow> page_offset s a < unat (page_size (memory (sysbus s)))"
  using unat_and_mask_le [of a "page_mask (memory (sysbus s))"]
  by (simp add: page_offset_def bus_ok_def Let_def)

lemma valid_page_ptr:
  assumes "bus_ok s" "page_ok (blk_size (host s)) (unat (page_size (memory (sysbus s)))) p"
    and "ptr p = Some q"
  shows "valid_ptr (host s) (ptr_add q (page_offset s a))"
  using page_offset_less [OF assms(1), of a] assms(2,3)
  by (simp add: valid_ptr_def ptr_add_def page_ok_def)

lemma load_byte_valid: "valid_ptr h p \<Longrightarrow> load_byte h p = Some (blk_data h (fst p) (snd p))"
  by (simp add: load_byte_def)

lemma store_byte_valid:
  "valid_ptr h p \<Longrightarrow> \<exists>h'. store_byte p v h = Some h' \<and> blk_size h' = blk_size h"
  by (simp add: store_byte_def)

lemma store_byte_size: "store_byte p v h = Some h' \<Longrightarrow> blk_size h' = blk_size h"
  by (auto simp: store_byte_def split: if_splits)

lemma load_store_byte:
  "store_byte p v h = Some h' \<Longrightarrow> load_byte h' q = (if q = p then Some v else load_byte h q)"
  by (cases p; cases q) (auto simp: store_byte_def load_byte_def valid_ptr_def split: if_splits)

text \<open>The open-bus latch and the contents of host blocks are irrelevant to \<open>bus_ok\<close>.\<close>

lemma set_open_bus_simps [simp]:
  "host (set_open_bus v s) = host s"
  "dev (set_open_bus v s) = dev s"
  "memory (sysbus (set_open_bus v s)) = memory (sysbus s)"
  "mem_mask (sysbus (set_open_bus v s)) = mem_mask (sysbus s)"
  "open_bus_is_data (sysbus (set_open_bus v s)) = open_bus_is_data (sysbus s)"
  "open_bus (sysbus (set_open_bus v s)) = v"
  "page_index (set_open_bus v s) = page_index s"
  "page_at i (set_open_bus v s) = page_at i s"
  "page_offset (set_open_bus v s) = page_offset s"
  "bus_ok (set_open_bus v s) = bus_ok s"
  by (auto simp: set_open_bus_def page_index_def page_at_def page_offset_def bus_ok_def Let_def)

lemma host_update_simps [simp]:
  "page_index (s\<lparr>host := h\<rparr>) = page_index s"
  "page_at i (s\<lparr>host := h\<rparr>) = page_at i s"
  "page_offset (s\<lparr>host := h\<rparr>) = page_offset s"
  by (auto simp: page_index_def page_at_def page_offset_def)

lemma bus_ok_host:
  "blk_size h = blk_size (host s) \<Longrightarrow> bus_ok (s\<lparr>host := h\<rparr>) = bus_ok s"
  by (simp add: bus_ok_def Let_def)

section \<open>Accesses of plain memory\<close>

text \<open>The host byte behind an address, when the address is not an I/O address.\<close>

definition ram_ptr :: "('d, 'm) bus_sys_scheme \<Rightarrow> cpuaddr \<Rightarrow> host_ptr option" where
  "ram_ptr s addr =
     (let a = addr AND mem_mask (sysbus s) in
      case page_at (page_index s a) s of
        None \<Rightarrow> None
      | Some p \<Rightarrow>
          if io_mask p AND a = io_eq p then None
          else (case ptr p of None \<Rightarrow> None | Some q \<Rightarrow>
                  let r = ptr_add q (page_offset s a)
                  in if valid_ptr (host s) r then Some r else None))"

definition page_flags :: "('d, 'm) bus_sys_scheme \<Rightarrow> cpuaddr \<Rightarrow> u32" where
  "page_flags s addr =
     (case page_at (page_index s (addr AND mem_mask (sysbus s))) s of None \<Rightarrow> 0 | Some p \<Rightarrow> flags p)"

definition page_cycles :: "('d, 'm) bus_sys_scheme \<Rightarrow> cpuaddr \<Rightarrow> u32" where
  "page_cycles s addr =
     (case page_at (page_index s (addr AND mem_mask (sysbus s))) s of
        None \<Rightarrow> 0 | Some p \<Rightarrow> cycles_per_access p)"

definition ram_byte :: "('d, 'm) bus_sys_scheme \<Rightarrow> host_ptr \<Rightarrow> u8" where
  "ram_byte s q = blk_data (host s) (fst q) (snd q)"

lemma ram_ptr_set_open_bus [simp]: "ram_ptr (set_open_bus v s) = ram_ptr s"
  by (rule ext) (simp add: ram_ptr_def Let_def cong: option.case_cong if_cong)

lemma ram_ptr_host:
  "blk_size h = blk_size (host s) \<Longrightarrow> ram_ptr (s\<lparr>host := h\<rparr>) = ram_ptr s"
  by (rule ext) (simp add: ram_ptr_def valid_ptr_def Let_def cong: option.case_cong if_cong)

lemma page_flags_simps [simp]:
  "page_flags (set_open_bus v s) = page_flags s"
  "page_flags (s\<lparr>host := h\<rparr>) = page_flags s"
  "page_cycles (set_open_bus v s) = page_cycles s"
  "page_cycles (s\<lparr>host := h\<rparr>) = page_cycles s"
  by (auto simp: page_flags_def page_cycles_def)

text \<open>Only memory and bus count.\<close>

lemma ram_cong:
  assumes "host t = host s" and "memory (sysbus t) = memory (sysbus s)" and "mem_mask (sysbus t) = mem_mask (sysbus s)"
  shows "ram_ptr t = ram_ptr s" "ram_byte t = ram_byte s" "page_flags t = page_flags s" "page_cycles t = page_cycles s"
proof -
  have e: "page_at i t = page_at i s" "page_index t = page_index s" "page_offset t = page_offset s" for i
    using assms by (simp_all add: page_at_def page_index_def page_offset_def fun_eq_iff)
  show "ram_ptr t = ram_ptr s" "ram_byte t = ram_byte s" "page_flags t = page_flags s" "page_cycles t = page_cycles s"
    by (simp_all only: fun_eq_iff ram_ptr_def ram_byte_def page_flags_def page_cycles_def assms e) simp_all
qed

lemma ReadByte_ram:
  assumes "ram_ptr s a = Some q"
  shows "ReadByte io a s = Some ((ram_byte s q, page_cycles s a), set_open_bus (ram_byte s q) s)"
  using assms
  by (auto simp: ReadByte_def ram_ptr_def ram_byte_def page_cycles_def Let_def load_byte_def
      set_open_bus_def page_at_def page_index_def page_offset_def split: option.splits if_splits)

lemma ReadByteNoIo_ram:
  assumes "ram_ptr s a = Some q"
  shows "ReadByteNoIo a s = Some ((ram_byte s q, page_cycles s a), s)"
  using assms
  by (auto simp: ReadByteNoIo_def ram_ptr_def ram_byte_def page_cycles_def Let_def load_byte_def
      split: option.splits if_splits)

definition ram_store :: "host_ptr \<Rightarrow> u8 \<Rightarrow> ('d, 'm) bus_sys_scheme \<Rightarrow> ('d, 'm) bus_sys_scheme" where
  "ram_store q v s =
     s\<lparr>host := (host s)\<lparr>blk_data := (blk_data (host s))(fst q := (blk_data (host s) (fst q))(snd q := v))\<rparr>\<rparr>"

definition bus_latch :: "('d, 'm) bus_sys_scheme \<Rightarrow> cpuaddr \<Rightarrow> u8 \<Rightarrow> u8" where
  "bus_latch s addr v =
     (if open_bus_is_data (sysbus s) then v else ucast ((addr AND mem_mask (sysbus s)) AND 0xFF))"

lemma ram_byte_set_open_bus [simp]: "ram_byte (set_open_bus v s) = ram_byte s"
  by (rule ext) (simp add: ram_byte_def)

lemma ram_byte_store [simp]: "ram_byte (ram_store q v s) r = (if r = q then v else ram_byte s r)"
  by (cases q; cases r) (auto simp: ram_byte_def ram_store_def)

lemma ram_store_simps [simp]:
  "ram_ptr (ram_store q v s) = ram_ptr s"
  "page_flags (ram_store q v s) = page_flags s"
  "page_cycles (ram_store q v s) = page_cycles s"
  "sysbus (ram_store q v s) = sysbus s"
  "bus_ok (ram_store q v s) = bus_ok s"
  by (auto simp: ram_store_def ram_ptr_host bus_ok_host)

lemma WriteByte_ram:
  assumes "ram_ptr s a = Some q" and "page_flags s a AND kReadOnly = 0"
  shows "WriteByte io a v s =
    Some (page_cycles s a, set_open_bus (bus_latch s a v) (ram_store q v s))"
  using assms
  by (auto simp: WriteByte_def ram_ptr_def ram_store_def page_cycles_def page_flags_def Let_def
      store_byte_def bus_latch_def set_open_bus_def page_at_def page_index_def page_offset_def
      split: option.splits if_splits)

lemma WriteByte_rom:
  assumes "ram_ptr s a = Some q" and "page_flags s a AND kReadOnly \<noteq> 0"
  shows "WriteByte io a v s = Some (page_cycles s a, set_open_bus (bus_latch s a v) s)"
  using assms
  by (auto simp: WriteByte_def ram_ptr_def page_cycles_def page_flags_def Let_def
      bus_latch_def set_open_bus_def page_at_def page_index_def page_offset_def
      split: option.splits if_splits)

section \<open>The geometry of the page table\<close>

text \<open>What \<open>Init\<close> sets up: pages of \<open>2 ^ k\<close> bytes.\<close>

definition geometry :: "nat \<Rightarrow> system_bus \<Rightarrow> bool" where
  "geometry k b \<longleftrightarrow> k < 32 \<and> page_shift (memory b) = k \<and> page_size (memory b) = 2 ^ k \<and>
     page_mask (memory b) = mask k"

lemma push_bit_one_minus: "push_bit k 1 - 1 = (mask k :: 'a::len word)"
  by (simp add: push_bit_eq_mult mask_eq_exp_minus_1)

lemma ucast_mask_u64: "k \<le> 64 \<Longrightarrow> ucast (mask k :: u64) = (mask k :: u32)"
  by (rule bit_word_eqI) (auto simp: bit_simps)

lemma geometry_Init: "k < 32 \<Longrightarrow> geometry k (bus_Init k n ps b)"
  unfolding geometry_def bus_Init_def by (simp only: push_bit_one_minus) (simp add: push_bit_eq_mult)

lemma mem_mask_Init: "n \<le> 64 \<Longrightarrow> mem_mask (bus_Init k n ps b) = mask n"
  unfolding bus_Init_def by (simp only: push_bit_one_minus) (simp add: ucast_mask_u64)

lemma unat_exp: "k < LENGTH('a::len) \<Longrightarrow> unat (2 ^ k :: 'a word) = 2 ^ k"
  using unat_and_mask_mod [of "- 1 :: 'a word" k] unsigned_push_bit_eq [of k "1 :: 'a word", where 'a = nat]
  by (simp add: push_bit_eq_mult take_bit_nat_eq_self)

lemma unat_page_index:
  "geometry k (sysbus s) \<Longrightarrow> page_index s a = unat a div 2 ^ k"
  by (simp only: geometry_def page_index_def unat_drop_bit_div)

lemma unat_page_offset:
  "geometry k (sysbus s) \<Longrightarrow> page_offset s a = unat a mod 2 ^ k"
  by (simp only: geometry_def page_offset_def unat_and_mask_mod)

section \<open>\<open>Map\<close>\<close>

lemma Map_loop_spec:
  "first + i + n \<le> length ps \<Longrightarrow>
    Map_loop first p psize ro i n ps =
      Some (map (\<lambda>j. let q = ps ! j in
               if first + i \<le> j \<and> j < first + i + n
               then q\<lparr>ptr := Some (ptr_add p ((j - first) * psize)),
                      flags := (if ro then flags q OR kReadOnly else flags q)\<rparr>
               else q) [0..<length ps])"
proof (induction n arbitrary: i ps)
  case 0
  then show ?case
    by (auto intro!: nth_equalityI simp: Let_def)
next
  case (Suc n)
  let ?ps = "ps[first + i := (ps ! (first + i))
                \<lparr>ptr := Some (ptr_add p (i * psize)),
                 flags := (if ro then flags (ps ! (first + i)) OR kReadOnly
                           else flags (ps ! (first + i)))\<rparr>]"
  from Suc.prems have "first + Suc i + n \<le> length ?ps" by simp
  from Suc.IH [OF this] Suc.prems show ?case
    by (auto simp: Let_def nth_list_update intro!: nth_equalityI)
qed

lemma Map_loop_out_of_range:
  "length ps < first + i + n \<Longrightarrow> n \<noteq> 0 \<Longrightarrow> Map_loop first p psize ro i n ps = None"
proof (induction n arbitrary: i ps)
  case (Suc n)
  show ?case
    using Suc.prems
      Suc.IH [of "ps[first + i := (ps ! (first + i))
                \<lparr>ptr := Some (ptr_add p (i * psize)),
                 flags := (if ro then flags (ps ! (first + i)) OR kReadOnly
                           else flags (ps ! (first + i)))\<rparr>]" "Suc i"]
    by (cases "n = 0") auto
qed simp

lemma offset_of_page:
  assumes "unat addr = f * n" and "f * n \<le> x" and "0 < n"
  shows "(x div n - f) * n + x mod n = x - (f * n :: nat)"
proof -
  have "f \<le> x div n" using assms(2,3) by (simp add: less_eq_div_iff_mult_less_eq)
  then show ?thesis
    by (simp add: diff_mult_distrib minus_mod_eq_div_mult [symmetric])
      (metis Nat.add_diff_assoc2 assms(2) diff_diff_left div_mult_mod_eq mult_le_mono1 add_diff_cancel_right')
qed

lemma page_in_range:
  assumes "0 < n" and "n dvd l"
  shows "f \<le> x div n \<and> x div n < f + l div n \<longleftrightarrow> f * n \<le> x \<and> x < f * n + (l :: nat)"
proof -
  from assms obtain m where "l = n * m" by blast
  with assms have "x div n < f + l div n \<longleftrightarrow> x < f * n + l"
    by (simp add: div_less_iff_less_mult algebra_simps)
  with assms show ?thesis
    by (simp add: less_eq_div_iff_mult_less_eq)
qed


section \<open>A machine over one linear memory\<close>

definition linear_system :: "nat \<Rightarrow> 'd \<Rightarrow> 'd bus_sys" where
  "linear_system n d =
     \<lparr>host = \<lparr>blk_size = (\<lambda>b. if b = 0 then 2 ^ n else 0), blk_data = (\<lambda>_ _. 0)\<rparr>,
      sysbus = SimpleSystemBus n 0
        \<lparr>memory = \<lparr>page_size = 0, page_shift = 0, page_mask = 0, pages = []\<rparr>, mem_mask = 0,
         open_bus_is_data = True, open_bus = 0\<rparr>,
      dev = d\<rparr>"

definition no_io :: "'s io_devices" where
  "no_io = \<lparr>is_io_device_address = (\<lambda>a s. False), io_read = (\<lambda>a v s. Some (v, s)),
            io_write = (\<lambda>a v s. Some ((), s)), irq_taken = (\<lambda>t s. Some ((), s))\<rparr>"

lemma div_mask: "unat (a AND mask n :: 'a::len word) div 2 ^ n = 0"
  by (simp add: unat_and_mask_mod)

text \<open>
  A \<open>SimpleSystemBus\<close> of \<open>n\<close> address bits is one linear memory: every 32-bit address stands
  for the byte of the block at the address modulo \<open>2 ^ n\<close>, and none is an I/O address.
\<close>

theorem simple_bus_linear:
  assumes "n < 32" and "sysbus s = SimpleSystemBus n blk b" and "blk_size (host s) blk = 2 ^ n"
  shows "ram_ptr s a = Some (blk, unat a mod 2 ^ n)"
proof -
  have geo: "geometry n (sysbus s)" and mm: "mem_mask (sysbus s) = mask n"
    and ps: "pages (memory (sysbus s)) = [simple_page blk]"
    using assms by (simp_all add: SimpleSystemBus_def geometry_Init mem_mask_Init)
      (simp add: bus_Init_def)
  have "page_at (page_index s (a AND mask n)) s = Some (simple_page blk)"
    by (simp only: unat_page_index [OF geo] div_mask) (simp add: page_at_def ps)
  moreover have "page_offset s (a AND mask n) = unat a mod 2 ^ n"
    by (simp only: unat_page_offset [OF geo] unat_and_mask_mod) simp
  ultimately show ?thesis
    using assms(3) by (simp add: ram_ptr_def mm Let_def simple_page_def ptr_add_def valid_ptr_def)
qed

lemma linear_ram: "n < 32 \<Longrightarrow> ram_ptr (linear_system n d) a = Some (0, unat a mod 2 ^ n)"
  by (rule simple_bus_linear) (simp_all add: linear_system_def)

theorem simple_bus_linear_witness:
  "ram_ptr (linear_system 16 ()) 0x12345 = Some (0, 0x2345)"
proof -
  have "ram_ptr (linear_system 16 ()) 0x12345 = Some (0, unat (0x12345 :: u32) mod 2 ^ 16)"
    by (rule simple_bus_linear) (simp_all add: linear_system_def)
  then show ?thesis by simp
qed

text \<open>
  C19: memory holds what was last written through any alias.  After a write to a writable address,
  a read of any memory address gives the value written if it stands for the same host byte (the
  same address, or a mirror of it), and the byte it held before otherwise.
\<close>

theorem write_then_read:
  assumes "ram_ptr s a = Some p" and "page_flags s a AND kReadOnly = 0" and "ram_ptr s b = Some q"
  shows "\<exists>s' s''. WriteByte io a v s = Some (page_cycles s a, s') \<and>
    ReadByte io b s' = Some ((if q = p then v else ram_byte s q, page_cycles s b), s'')"
  using WriteByte_ram [OF assms(1,2), of io v]
    ReadByte_ram [of "set_open_bus (bus_latch s a v) (ram_store p v s)" b q io] assms(3)
  by auto

lemma linear_flags: "n < 32 \<Longrightarrow> page_flags (linear_system n d) a AND kReadOnly = 0"
  by (auto simp: page_flags_def page_at_def linear_system_def SimpleSystemBus_def bus_Init_def
      simple_page_def Let_def split: option.split)

lemma linear_cycles: "n < 32 \<Longrightarrow> page_cycles (linear_system n d) a = 1"
proof -
  assume n: "n < 32"
  have g: "geometry n (sysbus (linear_system n d))" and m: "mem_mask (sysbus (linear_system n d)) = mask n"
    and p: "pages (memory (sysbus (linear_system n d))) = [simple_page 0]"
    using n by (simp_all add: linear_system_def SimpleSystemBus_def geometry_Init mem_mask_Init)
      (simp add: bus_Init_def)
  show ?thesis
    unfolding page_cycles_def m by (simp only: unat_page_index [OF g] div_mask)
      (simp add: page_at_def p simple_page_def)
qed

theorem write_then_read_witness:
  "\<exists>s' s''. WriteByte no_io 0x10 7 (linear_system 8 ()) = Some (1, s') \<and>
    ReadByte no_io 0x110 s' = Some ((7, 1), s'')"
  using write_then_read [where s = "linear_system 8 ()" and a = "0x10" and p = "(0, 0x10)"
      and b = "0x110" and q = "(0, 0x10)" and io = no_io and v = 7]
  by (simp add: linear_ram linear_flags linear_cycles)

text \<open>
  A page mapped read-only keeps its contents: a write to it changes no host byte, whatever the
  value, and still charges the cycles of the access.
\<close>

theorem readonly_page_unchanged:
  assumes "ram_ptr s a = Some q" and "page_flags s a AND kReadOnly \<noteq> 0"
  shows "\<exists>s'. WriteByte io a v s = Some (page_cycles s a, s') \<and> host s' = host s \<and>
    (\<forall>b. ram_ptr s' b = ram_ptr s b)"
  using WriteByte_rom [OF assms, of io v] by simp

definition rom_system :: "unit bus_sys" where
  "rom_system = (linear_system 8 ())
     \<lparr>sysbus := the (Map 0 (0, 0) 0x100 True (sysbus (linear_system 8 ())))\<rparr>"

lemma rom_system_ok:
  "ram_ptr rom_system 0x42 = Some (0, 0x42)" "page_flags rom_system 0x42 AND kReadOnly = 1"
  by (simp_all add: rom_system_def linear_system_def SimpleSystemBus_def bus_Init_def simple_page_def
      Map_def ram_ptr_def page_flags_def page_at_def page_index_def page_offset_def Let_def
      kReadOnly_def ptr_add_def valid_ptr_def)

theorem readonly_page_unchanged_witness:
  "\<exists>s'. WriteByte no_io 0x42 9 rom_system = Some (page_cycles rom_system 0x42, s') \<and>
    host s' = host rom_system \<and> (\<forall>b. ram_ptr s' b = ram_ptr rom_system b)"
  by (rule readonly_page_unchanged [where q = "(0, 0x42)"]) (simp_all add: rom_system_ok)


section \<open>Words\<close>

lemma u32_bytes:
  "ucast (ucast (v AND 0xFF) :: u8) OR push_bit 8 (ucast (ucast (drop_bit 8 v) :: u8)) OR
    push_bit 16 (ucast (ucast (drop_bit 16 v) :: u8)) OR
    push_bit 24 (ucast (ucast (drop_bit 24 v) :: u8)) = (v :: u32)"
proof (rule bit_word_eqI, goal_cases)
  case (1 n)
  then consider "n < 16" | "16 \<le> n" "n < 24" "16 + (n - 16) = n" | "24 \<le> n" "24 + (n - 24) = n" by linarith
  then show ?case
    using 1 by cases (auto simp: bit_simps mask_bits)
qed

text \<open>
  The little-endian accessors agree.  On four writable memory bytes that are distinct host
  bytes, \<open>PeekU32LE\<close> after \<open>PokeU32LE\<close> yields the value stored.
\<close>

theorem poke_peek_U32LE:
  assumes "ram_ptr s a = Some p0" "ram_ptr s (a + 1) = Some p1" "ram_ptr s (a + 2) = Some p2"
      "ram_ptr s (a + 3) = Some p3"
    and "distinct [p0, p1, p2, p3]"
    and "\<forall>b \<in> {a, a + 1, a + 2, a + 3}. page_flags s b AND kReadOnly = 0"
  shows "\<exists>s' s''. PokeU32LE io a v s = Some ((), s') \<and> PeekU32LE io a s' = Some (v, s'')"
  using assms
  by (simp add: PokeU32LE_def PeekU32LE_def ReadByte_value_def WriteByte_ram ReadByte_ram u32_bytes)

theorem poke_peek_U32LE_witness:
  "\<exists>s' s''. PokeU32LE no_io 0xFFFE 0xDEADBEEF (linear_system 16 ()) = Some ((), s') \<and>
    PeekU32LE no_io 0xFFFE s' = Some (0xDEADBEEF, s'')"
  by (rule poke_peek_U32LE [where ?p0.0 = "(0, 0xFFFE)" and ?p1.0 = "(0, 0xFFFF)" and ?p2.0 = "(0, 0)"
        and ?p3.0 = "(0, 1)"])
    (simp_all add: linear_ram linear_flags)

end
