(* ===== verification/Cpu_State.thy ===== *)
theory Cpu_State
  imports Bus_Laws
begin

text \<open>
  The state of the CPU (\<open>CpuState\<close> in cpu.h, \<open>WDC65C816\<close> and its \<open>CpuStateImpl\<close> in
  cpu_65c816.h) and the operations every instruction is built from: typed memory accesses with
  their cycle accounting, the stack, the status register, the mode switch, block moves and
  interrupt entry.  The machine is the bus record extended with the CPU's fields, so an I/O
  callback sees the CPU as the C++ callbacks do through their context pointer.
\<close>

section \<open>State\<close>

record 'd machine = "'d bus_sys" +
  cycle :: u64
  cycle_stop :: u64
  event_cycle :: u64
  code_segment_base :: cpuaddr
  ip_mask :: cpuaddr
  ip :: cpuaddr
  cpu_mode :: u32
  zero_flag :: u32
  negative_flag :: u32
  interrupts :: u32
  pending_interrupts :: u32
  carry :: u32
  other_flags :: u32
  regs_a :: u16
  regs_x :: u16
  regs_y :: u16
  regs_d :: u16
  regs_sp :: u16
  data_segment_base :: u32
  mode_native_6502 :: bool
  mode_emulation :: bool
  mode_long_a :: bool
  mode_long_xy :: bool
  supports_decimal :: bool
  fast_block_moves :: bool
  current_instruction_set :: nat
  num_emulated_instructions :: u64
  internal_cycle_timing :: u32
  trace_addrs :: "cpuaddr list"
  trace_write :: nat

type_synonym 'd io = "'d machine io_devices"
type_synonym ('d, 'a) result = "('a \<times> 'd machine) option"

definition GetCanonicalAddress :: "'d machine \<Rightarrow> cpuaddr" where
  "GetCanonicalAddress s = code_segment_base s + (ip s AND ip_mask s)"

definition SetInterruptSource :: "nat \<Rightarrow> 'd machine \<Rightarrow> 'd machine" where
  "SetInterruptSource source s =
     s\<lparr>pending_interrupts := pending_interrupts s OR push_bit source 1\<rparr>"

definition ClearInterruptSource :: "nat \<Rightarrow> 'd machine \<Rightarrow> 'd machine" where
  "ClearInterruptSource source s =
     s\<lparr>pending_interrupts := pending_interrupts s AND NOT (push_bit source 1)\<rparr>"

definition is_zero :: "'d machine \<Rightarrow> bool" where
  "is_zero s \<longleftrightarrow> zero_flag s = 0"

definition is_negative :: "'d machine \<Rightarrow> bool" where
  "is_negative s \<longleftrightarrow> negative_flag s AND 1 \<noteq> 0"

definition is_carry :: "'d machine \<Rightarrow> bool" where
  "is_carry s \<longleftrightarrow> carry s AND 2 \<noteq> 0"

definition is_overflow :: "'d machine \<Rightarrow> bool" where
  "is_overflow s \<longleftrightarrow> other_flags s AND 0x40 \<noteq> 0"

definition is_decimal :: "'d machine \<Rightarrow> bool" where
  "is_decimal s \<longleftrightarrow> other_flags s AND 0x8 \<noteq> 0"

section \<open>Registers\<close>

datatype reg = RA | RX | RY | RD | RSP

primrec reg16 :: "reg \<Rightarrow> 'd machine \<Rightarrow> u16" where
  "reg16 RA s = regs_a s"
| "reg16 RX s = regs_x s"
| "reg16 RY s = regs_y s"
| "reg16 RD s = regs_d s"
| "reg16 RSP s = regs_sp s"

primrec set_reg16 :: "reg \<Rightarrow> u16 \<Rightarrow> 'd machine \<Rightarrow> 'd machine" where
  "set_reg16 RA v s = s\<lparr>regs_a := v\<rparr>"
| "set_reg16 RX v s = s\<lparr>regs_x := v\<rparr>"
| "set_reg16 RY v s = s\<lparr>regs_y := v\<rparr>"
| "set_reg16 RD v s = s\<lparr>regs_d := v\<rparr>"
| "set_reg16 RSP v s = s\<lparr>regs_sp := v\<rparr>"

primrec reg_get :: "reg \<Rightarrow> width \<Rightarrow> 'd machine \<Rightarrow> u32" where
  "reg_get r W8 s = ucast (lo8 (reg16 r s))"
| "reg_get r W16 s = ucast (reg16 r s)"

primrec reg_set :: "reg \<Rightarrow> width \<Rightarrow> u32 \<Rightarrow> 'd machine \<Rightarrow> 'd machine" where
  "reg_set r W8 v s = set_reg16 r (set_lo8 (ucast v) (reg16 r s)) s"
| "reg_set r W16 v s = set_reg16 r (ucast v) s"

section \<open>Flags and modes\<close>

definition SetNZ :: "width \<Rightarrow> u32 \<Rightarrow> 'd machine \<Rightarrow> 'd machine" where
  "SetNZ w v s = s\<lparr>zero_flag := cast w v, negative_flag := drop_bit (bits w - 1) (cast w v)\<rparr>"

definition GetStatusRegister :: "'d machine \<Rightarrow> u8" where
  "GetStatusRegister s =
     (let v = ucast (other_flags s AND 0x48) :: u8;
          v = (if zero_flag s = 0 then v OR 2 else v);
          v = (if interrupts s = 0 then v OR 4 else v);
          v = (if carry s AND 2 \<noteq> 0 then v OR 1 else v);
          v = (if negative_flag s AND 1 \<noteq> 0 then v OR 0x80 else v)
      in if mode_emulation s then v OR 0x30
         else let v = (if \<not> mode_long_a s then v OR 0x20 else v)
              in if \<not> mode_long_xy s then v OR 0x10 else v)"

definition kEmulation :: u32 where
  "kEmulation = 4"

definition kNative6502 :: u32 where
  "kNative6502 = 5"

definition OnUpdateMode :: "'d machine \<Rightarrow> 'd machine" where
  "OnUpdateMode s =
     (let s = (if mode_native_6502 s then
                 s\<lparr>cpu_mode := kNative6502, mode_emulation := True,
                   mode_long_a := False, mode_long_xy := False\<rparr>
               else if mode_emulation s then
                 s\<lparr>cpu_mode := kEmulation, mode_long_a := False, mode_long_xy := False\<rparr>
               else
                 s\<lparr>cpu_mode := (if mode_long_a s then 1 else 0) + (if mode_long_xy s then 2 else 0)\<rparr>);
          s = (if \<not> mode_long_xy s then
                 s\<lparr>regs_x := set_hi8 0 (regs_x s), regs_y := set_hi8 0 (regs_y s)\<rparr>
               else s)
      in s\<lparr>current_instruction_set := unat (cpu_mode s)\<rparr>)"

definition SetStatusRegister :: "u8 \<Rightarrow> 'd machine \<Rightarrow> 'd machine" where
  "SetStatusRegister v s =
     (let w = ucast v :: u32;
          s = s\<lparr>other_flags := w, zero_flag := 2 - (w AND 2), carry := push_bit 1 (w AND 1),
                interrupts := 1 - (drop_bit 2 w AND 1), negative_flag := drop_bit 7 w\<rparr>;
          changed_a = (mode_long_a s \<noteq> (w AND 0x20 = 0));
          s = (if changed_a then s\<lparr>mode_long_a := (w AND 0x20 = 0)\<rparr> else s);
          changed_xy = (mode_long_xy s \<noteq> (w AND 0x10 = 0));
          s = (if changed_xy then s\<lparr>mode_long_xy := (w AND 0x10 = 0)\<rparr> else s)
      in if changed_a \<or> changed_xy then OnUpdateMode s else s)"

text \<open>\<open>WAI\<close> and \<open>STP\<close> have empty bodies in the source.\<close>

definition cpu_WAI :: "'d machine \<Rightarrow> 'd machine" where
  "cpu_WAI s = s"

definition cpu_STP :: "'d machine \<Rightarrow> 'd machine" where
  "cpu_STP s = s"

section \<open>Cycles and memory accesses\<close>

definition InternalOp_n :: "u32 \<Rightarrow> 'd machine \<Rightarrow> 'd machine" where
  "InternalOp_n n s = s\<lparr>cycle := cycle s + ucast (internal_cycle_timing s * n)\<rparr>"

definition InternalOp :: "'d machine \<Rightarrow> 'd machine" where
  "InternalOp s = s\<lparr>cycle := cycle s + ucast (internal_cycle_timing s)\<rparr>"

definition PeekU8 :: "'d io \<Rightarrow> u32 \<Rightarrow> 'd machine \<Rightarrow> ('d, u8) result" where
  "PeekU8 io addr s = do {
     ((v, n), s) \<leftarrow> ReadByte io addr s;
     Some (v, s)
   }"

definition PeekU16 :: "'d io \<Rightarrow> u32 \<Rightarrow> 'd machine \<Rightarrow> ('d, u32) result" where
  "PeekU16 io addr s = do {
     ((low, n), s) \<leftarrow> ReadByte io addr s;
     ((high, n), s) \<leftarrow> ReadByte io (addr + 1) s;
     Some (le16 low high, s)
   }"

definition ReadU8 :: "'d io \<Rightarrow> u32 \<Rightarrow> 'd machine \<Rightarrow> ('d, u8) result" where
  "ReadU8 io addr s = do {
     ((v, n), s) \<leftarrow> ReadByte io addr s;
     Some (v, s\<lparr>cycle := cycle s + ucast n\<rparr>)
   }"

definition WriteU8 :: "'d io \<Rightarrow> u32 \<Rightarrow> u8 \<Rightarrow> 'd machine \<Rightarrow> ('d, unit) result" where
  "WriteU8 io addr v s = do {
     (n, s) \<leftarrow> WriteByte io addr v s;
     Some ((), s\<lparr>cycle := cycle s + ucast n\<rparr>)
   }"

definition ReadU16NoCrossBank :: "'d io \<Rightarrow> u32 \<Rightarrow> u32 \<Rightarrow> 'd machine \<Rightarrow> ('d, u32) result" where
  "ReadU16NoCrossBank io base addr s = do {
     (low, s) \<leftarrow> ReadU8 io (base OR (addr AND 0xFFFF)) s;
     (high, s) \<leftarrow> ReadU8 io (base OR ((addr + 1) AND 0xFFFF)) s;
     Some (le16 low high, s)
   }"

text \<open>The overloads on the type of the value are one function of the width.\<close>

primrec ReadRaw :: "'d io \<Rightarrow> width \<Rightarrow> u32 \<Rightarrow> 'd machine \<Rightarrow> ('d, u32) result" where
  "ReadRaw io W8 addr s = do {
     (v, s) \<leftarrow> ReadU8 io addr s;
     Some (ucast v, s)
   }"
| "ReadRaw io W16 addr s = do {
     (low, s) \<leftarrow> ReadU8 io addr s;
     (high, s) \<leftarrow> ReadU8 io (addr + 1) s;
     Some (le16 low high, s)
   }"

primrec WriteRaw :: "'d io \<Rightarrow> width \<Rightarrow> u32 \<Rightarrow> u32 \<Rightarrow> 'd machine \<Rightarrow> ('d, unit) result" where
  "WriteRaw io W8 addr v s = WriteU8 io addr (ucast v) s"
| "WriteRaw io W16 addr v s = do {
     (_, s) \<leftarrow> WriteU8 io addr (ucast v) s;
     WriteU8 io (addr + 1) (ucast (drop_bit 8 v)) s
   }"

definition ReadPBR :: "'d io \<Rightarrow> width \<Rightarrow> u32 \<Rightarrow> 'd machine \<Rightarrow> ('d, u32) result" where
  "ReadPBR io w addr s = ReadRaw io w (code_segment_base s OR (addr AND 0xFFFF)) s"

primrec ReadDBR :: "'d io \<Rightarrow> width \<Rightarrow> u32 \<Rightarrow> 'd machine \<Rightarrow> ('d, u32) result" where
  "ReadDBR io W8 addr s = do {
     (v, s) \<leftarrow> ReadU8 io ((addr AND 0xFFFF) OR data_segment_base s) s;
     Some (ucast v, s)
   }"
| "ReadDBR io W16 addr s = ReadU16NoCrossBank io (data_segment_base s) addr s"

definition WriteDBR8 :: "'d io \<Rightarrow> u32 \<Rightarrow> u8 \<Rightarrow> 'd machine \<Rightarrow> ('d, unit) result" where
  "WriteDBR8 io addr v s = WriteU8 io ((addr AND 0xFFFF) OR data_segment_base s) v s"

primrec WriteDBR :: "'d io \<Rightarrow> width \<Rightarrow> u32 \<Rightarrow> u32 \<Rightarrow> 'd machine \<Rightarrow> ('d, unit) result" where
  "WriteDBR io W8 addr v s = WriteDBR8 io addr (ucast v) s"
| "WriteDBR io W16 addr v s = do {
     (_, s) \<leftarrow> WriteDBR8 io ((addr AND 0xFFFF) OR data_segment_base s) (ucast v) s;
     WriteDBR8 io (((addr + 1) AND 0xFFFF) OR data_segment_base s) (ucast (drop_bit 8 v)) s
   }"

primrec ReadZero :: "'d io \<Rightarrow> width \<Rightarrow> u32 \<Rightarrow> 'd machine \<Rightarrow> ('d, u32) result" where
  "ReadZero io W8 addr s = do {
     (v, s) \<leftarrow> ReadU8 io (addr AND 0xFFFF) s;
     Some (ucast v, s)
   }"
| "ReadZero io W16 addr s = ReadU16NoCrossBank io 0 addr s"

definition WriteZero8 :: "'d io \<Rightarrow> u32 \<Rightarrow> u8 \<Rightarrow> 'd machine \<Rightarrow> ('d, unit) result" where
  "WriteZero8 io addr v s = WriteU8 io (addr AND 0xFFFF) v s"

primrec WriteZero :: "'d io \<Rightarrow> width \<Rightarrow> u32 \<Rightarrow> u32 \<Rightarrow> 'd machine \<Rightarrow> ('d, unit) result" where
  "WriteZero io W8 addr v s = WriteZero8 io addr (ucast v) s"
| "WriteZero io W16 addr v s = do {
     (_, s) \<leftarrow> WriteZero8 io addr (ucast v) s;
     WriteZero8 io (addr + 1) (ucast (drop_bit 8 v)) s
   }"

section \<open>The stack\<close>

definition sp_dec :: "'d machine \<Rightarrow> 'd machine" where
  "sp_dec s = (if mode_emulation s then s\<lparr>regs_sp := set_lo8 (lo8 (regs_sp s) - 1) (regs_sp s)\<rparr>
               else s\<lparr>regs_sp := regs_sp s - 1\<rparr>)"

definition sp_inc :: "'d machine \<Rightarrow> 'd machine" where
  "sp_inc s = (if mode_emulation s then s\<lparr>regs_sp := set_lo8 (lo8 (regs_sp s) + 1) (regs_sp s)\<rparr>
               else s\<lparr>regs_sp := regs_sp s + 1\<rparr>)"

definition Push8 :: "'d io \<Rightarrow> u8 \<Rightarrow> 'd machine \<Rightarrow> ('d, unit) result" where
  "Push8 io v s = do {
     (_, s) \<leftarrow> WriteZero8 io (ucast (regs_sp s)) v s;
     Some ((), sp_dec s)
   }"

definition Push16 :: "'d io \<Rightarrow> u32 \<Rightarrow> 'd machine \<Rightarrow> ('d, unit) result" where
  "Push16 io v s = do {
     (_, s) \<leftarrow> Push8 io (ucast (drop_bit 8 v)) s;
     Push8 io (ucast (v AND 0xFF)) s
   }"

definition Pop8 :: "'d io \<Rightarrow> 'd machine \<Rightarrow> ('d, u8) result" where
  "Pop8 io s = do {
     (v, s) \<leftarrow> ReadZero io W8 (ucast (regs_sp s) + 1) s;
     Some (ucast v, sp_inc s)
   }"

definition Pop16 :: "'d io \<Rightarrow> 'd machine \<Rightarrow> ('d, u32) result" where
  "Pop16 io s = do {
     (low, s) \<leftarrow> Pop8 io s;
     (high, s) \<leftarrow> Pop8 io s;
     Some (le16 low high, s)
   }"

definition PopOld8 :: "'d io \<Rightarrow> 'd machine \<Rightarrow> ('d, u8) result" where
  "PopOld8 io s =
     (let s = sp_inc s in do {
        (v, s) \<leftarrow> ReadZero io W8 (ucast (regs_sp s)) s;
        Some (ucast v, s)
      })"

definition PopOld16 :: "'d io \<Rightarrow> 'd machine \<Rightarrow> ('d, u32) result" where
  "PopOld16 io s = Pop16 io s"

primrec Push :: "'d io \<Rightarrow> width \<Rightarrow> u32 \<Rightarrow> 'd machine \<Rightarrow> ('d, unit) result" where
  "Push io W8 v s = Push8 io (ucast v) s"
| "Push io W16 v s = Push16 io v s"

primrec Pop :: "'d io \<Rightarrow> width \<Rightarrow> 'd machine \<Rightarrow> ('d, u32) result" where
  "Pop io W8 s = do {
     (v, s) \<leftarrow> Pop8 io s;
     Some (ucast v, s)
   }"
| "Pop io W16 s = Pop16 io s"

primrec PopOld :: "'d io \<Rightarrow> width \<Rightarrow> 'd machine \<Rightarrow> ('d, u32) result" where
  "PopOld io W8 s = do {
     (v, s) \<leftarrow> PopOld8 io s;
     Some (ucast v, s)
   }"
| "PopOld io W16 s = PopOld16 io s"

section \<open>Block moves\<close>

text \<open>One byte of a block move: the body both routines share.\<close>

definition block_move_byte ::
  "'d io \<Rightarrow> u32 \<Rightarrow> u32 \<Rightarrow> u16 \<Rightarrow> 'd machine \<Rightarrow> ('d, unit) result" where
  "block_move_byte io src_bank dest_bank increment s =
     (let src = src_bank OR ucast (regs_x s);
          dst = dest_bank OR ucast (regs_y s);
          s = s\<lparr>regs_x := regs_x s + increment, regs_y := regs_y s + increment,
                regs_a := regs_a s - 1\<rparr>
      in do {
        (byte, s) \<leftarrow> ReadU8 io src s;
        WriteU8 io dst byte s
      })"

text \<open>The loop of \<open>FastBlockMove\<close>; \<open>None\<close> also stands for a loop that does not return.\<close>

partial_function (option) FastBlockMove_loop ::
  "'d io \<Rightarrow> u32 \<Rightarrow> u32 \<Rightarrow> u16 \<Rightarrow> 'd machine \<Rightarrow> ('d, unit) result" where
  "FastBlockMove_loop io src_bank dest_bank increment s =
     (if regs_a s \<noteq> 0xFFFF then do {
        (_, s) \<leftarrow> block_move_byte io src_bank dest_bank increment s;
        FastBlockMove_loop io src_bank dest_bank increment s
      }
      else Some ((), s))"

definition FastBlockMove ::
  "'d io \<Rightarrow> u32 \<Rightarrow> u32 \<Rightarrow> u16 \<Rightarrow> 'd machine \<Rightarrow> ('d, unit) result" where
  "FastBlockMove io src_bank dest_bank increment s =
     (let src_bank = push_bit 16 src_bank; dest_bank = push_bit 16 dest_bank in do {
        (_, s) \<leftarrow> FastBlockMove_loop io src_bank dest_bank increment s;
        Some ((), s\<lparr>data_segment_base := dest_bank\<rparr>)
      })"

definition BlockMove ::
  "'d io \<Rightarrow> u32 \<Rightarrow> u32 \<Rightarrow> u16 \<Rightarrow> 'd machine \<Rightarrow> ('d, bool) result" where
  "BlockMove io src_bank dest_bank increment s =
     (if regs_a s = 0xFFFF then Some (True, s)
      else if fast_block_moves s then do {
        (_, s) \<leftarrow> FastBlockMove io src_bank dest_bank increment s;
        Some (True, s)
      }
      else do {
        (_, s) \<leftarrow> block_move_byte io (push_bit 16 src_bank) (push_bit 16 dest_bank) increment s;
        Some (False, s\<lparr>data_segment_base := push_bit 16 dest_bank\<rparr>)
      })"

section \<open>Interrupt entry\<close>

datatype InterruptType = INT_BRK | INT_COP | INT_IRQ | INT_NMI

fun interrupt_vector :: "bool \<Rightarrow> InterruptType \<Rightarrow> u32" where
  "interrupt_vector emu INT_BRK = (if emu then 0xFFFE else 0xFFE6)"
| "interrupt_vector emu INT_COP = (if emu then 0xFFF4 else 0xFFE4)"
| "interrupt_vector emu INT_IRQ = (if emu then 0xFFFE else 0xFFEE)"
| "interrupt_vector emu INT_NMI = (if emu then 0xFFFA else 0xFFEA)"

text \<open>The status byte an interrupt pushes.\<close>

definition interrupt_status :: "InterruptType \<Rightarrow> 'd machine \<Rightarrow> u8" where
  "interrupt_status type s =
     (let status = GetStatusRegister s in
      if mode_emulation s then
        if type = INT_IRQ \<or> type = INT_BRK \<or> type = INT_NMI
        then (status AND 0xCF) OR (if type = INT_IRQ then 0x10 else 0x30)
        else (status AND 0xCF) OR 0x20
      else status)"

definition DoInterrupt :: "'d io \<Rightarrow> InterruptType \<Rightarrow> 'd machine \<Rightarrow> ('d, unit) result" where
  "DoInterrupt io type s = do {
     (_, s) \<leftarrow> (if \<not> mode_emulation s
                then Push8 io (ucast (drop_bit 16 (code_segment_base s))) s
                else Some ((), s));
     (_, s) \<leftarrow> Push16 io (cast W16 (ip s)) s;
     (_, s) \<leftarrow> Push8 io (interrupt_status type s) s;
     (pc, s) \<leftarrow> ReadRaw io W16 (interrupt_vector (mode_emulation s) type) s;
     s \<leftarrow> Some (s\<lparr>ip := pc, code_segment_base := 0, interrupts := 0\<rparr>);
     s \<leftarrow> Some (if \<not> mode_native_6502 s
                then s\<lparr>other_flags := other_flags s AND 0xFFF7\<rparr> else s);
     (if type = INT_IRQ \<or> type = INT_NMI
      then irq_taken io (if type = INT_IRQ then 1 else 2) s
      else Some ((), s))
   }"

definition Interrupt :: "'d io \<Rightarrow> u32 \<Rightarrow> 'd machine \<Rightarrow> ('d, unit) result" where
  "Interrupt io param s = DoInterrupt io (if param = 0 then INT_IRQ else INT_NMI) s"

section \<open>Reset and power on\<close>

definition Reset :: "'d io \<Rightarrow> 'd machine \<Rightarrow> ('d, unit) result" where
  "Reset io s =
     (let s = s\<lparr>data_segment_base := 0, code_segment_base := 0,
                regs_sp := set_lo8 (lo8 (regs_sp s) - 3) (regs_sp s)\<rparr>
      in do {
        (ip_low, s) \<leftarrow> ReadU8 io 0xFFFC s;
        (ip_high, s) \<leftarrow> ReadU8 io 0xFFFD s;
        s \<leftarrow> Some (s\<lparr>cycle := cycle s + ucast (internal_cycle_timing s * 4)\<rparr>);
        s \<leftarrow> Some (s\<lparr>ip := le16 ip_low ip_high, data_segment_base := 0, code_segment_base := 0,
                     interrupts := 0, mode_emulation := True, mode_long_a := False,
                     mode_long_xy := False\<rparr>);
        Some ((), OnUpdateMode s)
      })"

definition PowerOn :: "'d io \<Rightarrow> 'd machine \<Rightarrow> ('d, unit) result" where
  "PowerOn io s =
     Reset io (s\<lparr>regs_a := 0, regs_x := 0, regs_y := 0, regs_d := 0, regs_sp := 0x100,
                 zero_flag := 1\<rparr>)"

end
