(* ===== verification/Jit_Ops.thy ===== *)
theory Jit_Ops
  imports Prelude
begin

text \<open>
  The operation lists of the JIT (\<open>JitOperation\<close> in jit.h): each instruction and addressing
  mode of the CPU core carries such a list as static data.  A list is the C++ array with its
  terminating \<open>kEnd\<close>; a sublist pointer is the list it points to.
\<close>

definition kFlagZero :: u32 where
  "kFlagZero = 0x10"

definition kFlagNegative :: u32 where
  "kFlagNegative = 0x20"

definition kFlagCarry :: u32 where
  "kFlagCarry = 0x40"

definition kNoDuplicateList :: u32 where
  "kNoDuplicateList = 0x80"

datatype jit_oper =
    kEnd | kExecuteSublist | kCustom | kInterrupt | kMove | kAdd | kAnd | kAndImm | kOr | kXor
  | kClearFlag | kSetFlag | kShiftLeftImm | kIncrementIP | kUpdateFlags | kRead | kReadNoSegment
  | kReadImm | kWrite | kWriteNoSegment

datatype jit_op =
  JitOperation (jit_oper_of: jit_oper) (jit_destination: u32) (jit_source_or_imm: u32)
    (jit_sublist: "jit_op list")

definition jit_Bytes :: "nat \<Rightarrow> u32" where
  "jit_Bytes n = push_bit 10 (of_nat n)"

definition kMemory :: u32 where
  "kMemory = 0x20000000"

definition kTempReg :: u32 where
  "kTempReg = 0x10000000"

definition kIpReg :: u32 where
  "kIpReg = 0x40000000"

definition kDataBase :: u32 where
  "kDataBase = 0x8000000"

text \<open>The register numbers the lists use (the \<open>enum\<close> at the top of the instruction file).\<close>

abbreviation (input) jRA :: u32 where "jRA \<equiv> 0"
abbreviation (input) jRX :: u32 where "jRX \<equiv> 1"
abbreviation (input) jRY :: u32 where "jRY \<equiv> 2"
abbreviation (input) jRD :: u32 where "jRD \<equiv> 3"
abbreviation (input) jRSP :: u32 where "jRSP \<equiv> 4"

abbreviation (input) J :: "jit_oper \<Rightarrow> u32 \<Rightarrow> u32 \<Rightarrow> jit_op" where
  "J op dst src \<equiv> JitOperation op dst src []"

abbreviation (input) J_end :: jit_op where
  "J_end \<equiv> JitOperation kEnd 0 0 []"

end
