(* ===== verification/Text_Format.thy ===== *)
theory Text_Format
  imports Prelude
begin

text \<open>
  The conversions of \<open>sprintf\<close> the disassembler uses: \<open>%02X\<close>, \<open>%04X\<close>, \<open>%06X\<close> (upper-case
  hexadecimal, padded with zeros to a minimal width).
\<close>

definition hex_digit :: "nat \<Rightarrow> char" where
  "hex_digit d = ''0123456789ABCDEF'' ! d"

fun hex_str :: "nat \<Rightarrow> string" where
  "hex_str n = (if n < 16 then [hex_digit n] else hex_str (n div 16) @ [hex_digit (n mod 16)])"

declare hex_str.simps [simp del]

definition hex_pad :: "nat \<Rightarrow> nat \<Rightarrow> string" where
  "hex_pad w n = replicate (w - length (hex_str n)) (CHR ''0'') @ hex_str n"

text \<open>Reading a hexadecimal number back.\<close>

definition hex_value :: "char \<Rightarrow> nat option" where
  "hex_value c =
     (let n = of_char c :: nat in
      if 48 \<le> n \<and> n \<le> 57 then Some (n - 48)
      else if 65 \<le> n \<and> n \<le> 70 then Some (n - 55)
      else if 97 \<le> n \<and> n \<le> 102 then Some (n - 87)
      else None)"

fun hex_read :: "nat \<Rightarrow> string \<Rightarrow> nat option" where
  "hex_read acc [] = Some acc"
| "hex_read acc (c # cs) =
     (case hex_value c of None \<Rightarrow> None | Some d \<Rightarrow> hex_read (16 * acc + d) cs)"

lemma hex_value_digit: "d < 16 \<Longrightarrow> hex_value (hex_digit d) = Some d"
  by (auto simp: hex_value_def hex_digit_def less_Suc_eq numeral_eq_Suc)

lemma hex_read_append:
  "hex_read acc (xs @ ys) = (case hex_read acc xs of None \<Rightarrow> None | Some a \<Rightarrow> hex_read a ys)"
  by (induction xs arbitrary: acc) (auto split: option.splits)

lemma hex_read_zeros: "hex_read 0 (replicate k (CHR ''0'')) = Some 0"
  by (induction k) (auto simp: hex_value_def)

lemma hex_read_str: "hex_read 0 (hex_str n) = Some n"
proof (induction n rule: hex_str.induct)
  case (1 n)
  show ?case
  proof (cases "n < 16")
    case True
    then show ?thesis by (subst hex_str.simps) (simp add: hex_value_digit)
  next
    case False
    with "1.IH" have "hex_read 0 (hex_str (n div 16)) = Some (n div 16)" by simp
    with False show ?thesis
      by (subst hex_str.simps) (simp add: hex_read_append hex_value_digit)
  qed
qed

lemma hex_read_pad: "hex_read 0 (hex_pad w n) = Some n"
  by (simp add: hex_pad_def hex_read_append hex_read_zeros hex_read_str)

lemma length_hex_pad: "w \<le> length (hex_pad w n)"
  by (simp add: hex_pad_def)

end
