(* ===== verification/Addr_Modes.thy ===== *)
theory Addr_Modes
  imports Cpu_State Jit_Ops Text_Format
begin

text \<open>
  The addressing modes of cpu_65c816_instructions.inl.  A C++ class template of static members is
  a record of those members here, and a template argument is an argument of the definition:
  \<open>A\<close> and \<open>XY\<close> are the widths of the accumulator and of the index registers.  A member a class
  does not have is \<open>no_member\<close>; no instruction of the tables uses one.
\<close>

record 'd addr_mode =
  am_A :: width
  am_XY :: width
  kMaybeHasConditionalCycle :: bool
  kFormat :: string
  op_bits :: u8
  Bytes :: nat
  CalcEffectiveAddress :: "'d io \<Rightarrow> 'd machine \<Rightarrow> ('d, u32) result"
  am_Read :: "'d io \<Rightarrow> width \<Rightarrow> 'd machine \<Rightarrow> ('d, u32) result"
  am_Write :: "'d io \<Rightarrow> width \<Rightarrow> u32 \<Rightarrow> 'd machine \<Rightarrow> ('d, unit) result"
  am_Modify :: "'d io \<Rightarrow> (u32 \<Rightarrow> 'd machine \<Rightarrow> u32 \<times> 'd machine) \<Rightarrow> 'd machine \<Rightarrow> ('d, unit) result"
  am_Disassemble :: "'d io \<Rightarrow> u32 \<Rightarrow> string \<Rightarrow> 'd machine \<Rightarrow> ('d, string) result"
  am_EffAddr :: "u32 \<Rightarrow> jit_op list"
  am_ReadOp :: "u32 \<Rightarrow> jit_op list"
  am_WriteOp :: "u32 \<Rightarrow> jit_op list"

definition no_member :: "'a option" where
  "no_member = None"

section \<open>The three kinds of memory operand\<close>

text \<open>
  \<open>Addr24bitOp\<close>, \<open>Addr16bitDataOp\<close> and \<open>Addr16bitZeroOp\<close> are base classes of the addressing
  modes; the derived class, their template argument, gives the effective address.
\<close>

definition op24_Read where
  "op24_Read ea io w s = do {
     (addr, s) \<leftarrow> ea io s;
     ReadRaw io w addr s
   }"

definition op24_Write where
  "op24_Write ea io w v s = do {
     (addr, s) \<leftarrow> ea io s;
     WriteRaw io w addr v s
   }"

definition op24_Modify where
  "op24_Modify wA ea io fn s = do {
     (addr, s) \<leftarrow> ea io s;
     (ret, s) \<leftarrow> ReadRaw io wA addr s;
     (r, s) \<leftarrow> Some (fn ret s);
     WriteRaw io wA addr r s
   }"

definition op24_ReadOp :: "width \<Rightarrow> (u32 \<Rightarrow> jit_op list) \<Rightarrow> u32 \<Rightarrow> jit_op list" where
  "op24_ReadOp wA eff reg =
     [JitOperation kExecuteSublist 0 kNoDuplicateList (eff (reg + 1)),
      J kReadNoSegment (kTempReg OR reg) (kTempReg OR (reg + 1) OR jit_Bytes (sizeof wA)),
      J_end]"

definition op24_WriteOp :: "width \<Rightarrow> (u32 \<Rightarrow> jit_op list) \<Rightarrow> u32 \<Rightarrow> jit_op list" where
  "op24_WriteOp wA eff reg =
     [JitOperation kExecuteSublist 0 kNoDuplicateList (eff (reg + 1)),
      J kWriteNoSegment (kTempReg OR reg) (kTempReg OR (reg + 1) OR jit_Bytes (sizeof wA)),
      J_end]"

definition op16data_Read where
  "op16data_Read ea io w s = do {
     (addr, s) \<leftarrow> ea io s;
     ReadDBR io w addr s
   }"

definition op16data_Write where
  "op16data_Write ea io w v s = do {
     (addr, s) \<leftarrow> ea io s;
     WriteDBR io w addr v s
   }"

definition op16data_Modify where
  "op16data_Modify wA ea io fn s = do {
     (addr, s) \<leftarrow> ea io s;
     (ret, s) \<leftarrow> ReadDBR io wA addr s;
     (r, s) \<leftarrow> Some (fn ret s);
     WriteDBR io wA addr r s
   }"

definition op16zero_Read where
  "op16zero_Read emulation ea io w s = (case w of
     W8 \<Rightarrow> do {
       (addr, s) \<leftarrow> ea io s;
       ReadZero io W8 addr s
     }
   | W16 \<Rightarrow> do {
       (addr, s) \<leftarrow> ea io s;
       (if emulation \<and> addr AND 0x80000000 \<noteq> 0 then do {
          (lo, s) \<leftarrow> ReadZero io W8 addr s;
          (hi, s) \<leftarrow> ReadZero io W8 ((addr AND 0xFFFF00) OR ((addr + 1) AND 0xFF)) s;
          Some (le16 (ucast lo) (ucast hi), s)
        }
        else ReadZero io W16 addr s)
     })"

definition op16zero_Write where
  "op16zero_Write ea io w v s = do {
     (addr, s) \<leftarrow> ea io s;
     WriteZero io w addr v s
   }"

definition op16zero_Modify where
  "op16zero_Modify wA ea io fn s = do {
     (addr, s) \<leftarrow> ea io s;
     (ret, s) \<leftarrow> ReadZero io wA addr s;
     (r, s) \<leftarrow> Some (fn ret s);
     WriteZero io wA addr r s
   }"

definition op16zero_ReadOp :: "width \<Rightarrow> (u32 \<Rightarrow> jit_op list) \<Rightarrow> u32 \<Rightarrow> jit_op list" where
  "op16zero_ReadOp wA eff reg =
     [JitOperation kExecuteSublist 0 kNoDuplicateList (eff (reg + 1)),
      J kAndImm (kTempReg OR reg) 0xFFFF,
      J kReadNoSegment (kTempReg OR reg) (kTempReg OR (reg + 1) OR jit_Bytes (sizeof wA)),
      J_end]"

definition op16zero_WriteOp :: "width \<Rightarrow> (u32 \<Rightarrow> jit_op list) \<Rightarrow> u32 \<Rightarrow> jit_op list" where
  "op16zero_WriteOp wA eff reg =
     [JitOperation kExecuteSublist 0 kNoDuplicateList (eff (reg + 1)),
      J kAndImm (kTempReg OR reg) 0xFFFF,
      J kWriteNoSegment (kTempReg OR reg) (kTempReg OR (reg + 1) OR jit_Bytes (sizeof wA)),
      J_end]"

section \<open>Register and immediate operands\<close>

definition AddrA :: "width \<Rightarrow> width \<Rightarrow> 'd addr_mode" where
  "AddrA A XY =
     \<lparr>am_A = A, am_XY = XY, kMaybeHasConditionalCycle = False, kFormat = ''A'', op_bits = 4,
      Bytes = 0,
      CalcEffectiveAddress = (\<lambda>io s. no_member),
      am_Read = (\<lambda>io w s. Some (reg_get RA w s, s)),
      am_Write = (\<lambda>io w v s. Some ((), reg_set RA A v s)),
      am_Modify = (\<lambda>io fn s. (case fn (reg_get RA A s) s of (r, s) \<Rightarrow> Some ((), reg_set RA A r s))),
      am_Disassemble = (\<lambda>io addr mnemonic s. Some (mnemonic @ '' A'', s)),
      am_EffAddr = (\<lambda>reg. []),
      am_ReadOp = (\<lambda>reg. [J kMove (kTempReg OR reg) jRA, J_end]),
      am_WriteOp = (\<lambda>reg. [J kMove jRA (kTempReg OR reg), J_end])\<rparr>"

definition AddrImm :: "width \<Rightarrow> width \<Rightarrow> width \<Rightarrow> 'd addr_mode" where
  "AddrImm A XY EffectiveSize =
     \<lparr>am_A = A, am_XY = XY, kMaybeHasConditionalCycle = False, kFormat = ''#%X'', op_bits = 8,
      Bytes = sizeof EffectiveSize,
      CalcEffectiveAddress = (\<lambda>io s. Some (ip s + 1, s)),
      am_Read = (\<lambda>io w s. ReadPBR io w (ip s + 1) s),
      am_Write = (\<lambda>io w v s. no_member),
      am_Modify = (\<lambda>io fn s. no_member),
      am_Disassemble = (\<lambda>io addr mnemonic s. (case EffectiveSize of
         W8 \<Rightarrow> do {
           (v, s) \<leftarrow> PeekU8 io (addr + 1) s;
           Some (mnemonic @ '' #$'' @ hex_pad 2 (unat v), s)
         }
       | W16 \<Rightarrow> do {
           (v, s) \<leftarrow> PeekU16 io (addr + 1) s;
           Some (mnemonic @ '' #$'' @ hex_pad 4 (unat v), s)
         })),
      am_EffAddr = (\<lambda>reg. [J kMove (kTempReg OR reg) kIpReg, J_end]),
      am_ReadOp = (\<lambda>reg. [J kReadImm (kTempReg OR reg OR jit_Bytes (sizeof A)) 0, J_end]),
      am_WriteOp = (\<lambda>reg. [])\<rparr>"

section \<open>Absolute addresses\<close>

text \<open>
  \<open>offset_reg\<close> is \<open>None\<close> for \<open>REG_MAX\<close>.  The lists come from the class the base was given:
  \<open>AddrAbsY\<close> passes \<open>AddrAbsX\<close>.
\<close>

definition index_suffix :: "reg option \<Rightarrow> string" where
  "index_suffix r = (case r of Some RX \<Rightarrow> '', X'' | Some RY \<Rightarrow> '', Y'' | _ \<Rightarrow> '''')"

definition abs_address :: "reg option \<Rightarrow> bool \<Rightarrow> 'd io \<Rightarrow> 'd machine \<Rightarrow> ('d, u32) result" where
  "abs_address offset_reg check_extra_cycle io s = do {
     (addr, s) \<leftarrow> ReadPBR io W16 (ip s + 1) s;
     (case offset_reg of
        None \<Rightarrow> Some (addr + data_segment_base s, s)
      | Some r \<Rightarrow>
          let eff_addr = addr + ucast (reg16 r s);
              s = (if check_extra_cycle \<and> (eff_addr XOR addr) AND 0xFF00 \<noteq> 0
                   then InternalOp s else s)
          in Some (eff_addr + data_segment_base s, s))
   }"

definition abs_disassemble where
  "abs_disassemble offset_reg io addr mnemonic s = do {
     (v, s) \<leftarrow> PeekU16 io (addr + 1) s;
     Some (mnemonic @ '' $'' @ hex_pad 4 (unat v) @ index_suffix offset_reg, s)
   }"

definition AddrAbsBase ::
  "reg option \<Rightarrow> width \<Rightarrow> width \<Rightarrow> bool \<Rightarrow> string \<Rightarrow> (u32 \<Rightarrow> jit_op list) \<Rightarrow> 'd addr_mode" where
  "AddrAbsBase offset_reg A XY check_extra_cycle fmt eff =
     \<lparr>am_A = A, am_XY = XY, kMaybeHasConditionalCycle = (offset_reg \<noteq> None), kFormat = fmt,
      op_bits = 0xC, Bytes = 2,
      CalcEffectiveAddress = abs_address offset_reg check_extra_cycle,
      am_Read = op24_Read (abs_address offset_reg check_extra_cycle),
      am_Write = op24_Write (abs_address offset_reg check_extra_cycle),
      am_Modify = op24_Modify A (abs_address offset_reg check_extra_cycle),
      am_Disassemble = abs_disassemble offset_reg,
      am_EffAddr = eff,
      am_ReadOp = op24_ReadOp A eff,
      am_WriteOp = op24_WriteOp A eff\<rparr>"

definition AddrAbs :: "width \<Rightarrow> width \<Rightarrow> 'd addr_mode" where
  "AddrAbs A XY = AddrAbsBase None A XY False ''%X''
     (\<lambda>reg. [J kReadImm (kTempReg OR reg) (jit_Bytes 2), J kAdd (kTempReg OR reg) kDataBase, J_end])"

definition abs_x_EffAddr :: "u32 \<Rightarrow> jit_op list" where
  "abs_x_EffAddr reg =
     [J kReadImm (kTempReg OR reg) (jit_Bytes 2), J kAdd (kTempReg OR reg) kDataBase,
      J kAdd (kTempReg OR reg) jRX, J_end]"

definition AddrAbsX :: "width \<Rightarrow> width \<Rightarrow> bool \<Rightarrow> 'd addr_mode" where
  "AddrAbsX A XY check_extra_cycle =
     AddrAbsBase (Some RX) A XY check_extra_cycle ''%X,X'' abs_x_EffAddr"

definition AddrAbsY :: "width \<Rightarrow> width \<Rightarrow> bool \<Rightarrow> 'd addr_mode" where
  "AddrAbsY A XY check_extra_cycle =
     (AddrAbsBase (Some RY) A XY check_extra_cycle ''%X,Y'' abs_x_EffAddr)
       \<lparr>am_EffAddr := (\<lambda>reg.
          [J kReadImm (kTempReg OR reg) (jit_Bytes 2), J kAdd (kTempReg OR reg) kDataBase,
           J kAdd (kTempReg OR reg) jRY, J_end])\<rparr>"

definition abs_long_address :: "'d io \<Rightarrow> 'd machine \<Rightarrow> ('d, u32) result" where
  "abs_long_address io s = do {
     (addr, s) \<leftarrow> ReadPBR io W16 (ip s + 1) s;
     (bank, s) \<leftarrow> ReadPBR io W8 (ip s + 3) s;
     Some (addr OR push_bit 16 bank, s)
   }"

definition long_disassemble where
  "long_disassemble suffix io addr mnemonic s = do {
     (v, s) \<leftarrow> PeekU16 io (addr + 1) s;
     (bank, s) \<leftarrow> PeekU8 io (addr + 3) s;
     Some (mnemonic @ '' $'' @ hex_pad 6 (unat (v OR push_bit 16 (ucast bank))) @ suffix, s)
   }"

definition AddrAbsLong :: "width \<Rightarrow> width \<Rightarrow> 'd addr_mode" where
  "AddrAbsLong A XY =
     (let eff = (\<lambda>reg. [J kReadImm (kTempReg OR reg) (jit_Bytes 3), J_end]) in
      \<lparr>am_A = A, am_XY = XY, kMaybeHasConditionalCycle = False, kFormat = ''%X'', op_bits = 0,
       Bytes = 3,
       CalcEffectiveAddress = abs_long_address,
       am_Read = op24_Read abs_long_address,
       am_Write = op24_Write abs_long_address,
       am_Modify = op24_Modify A abs_long_address,
       am_Disassemble = long_disassemble '''',
       am_EffAddr = eff, am_ReadOp = op24_ReadOp A eff, am_WriteOp = op24_WriteOp A eff\<rparr>)"

definition abs_long_x_address :: "'d io \<Rightarrow> 'd machine \<Rightarrow> ('d, u32) result" where
  "abs_long_x_address io s = do {
     (addr, s) \<leftarrow> ReadPBR io W16 (ip s + 1) s;
     (bank, s) \<leftarrow> ReadPBR io W8 (ip s + 3) s;
     Some (addr + push_bit 16 bank + ucast (regs_x s), s)
   }"

definition AddrAbsLongX :: "width \<Rightarrow> width \<Rightarrow> 'd addr_mode" where
  "AddrAbsLongX A XY =
     (let eff = (\<lambda>reg. [J kReadImm (kTempReg OR reg) (jit_Bytes 3), J kAdd (kTempReg OR reg) jRX,
                        J_end]) in
      \<lparr>am_A = A, am_XY = XY, kMaybeHasConditionalCycle = False, kFormat = ''%X,X'', op_bits = 0,
       Bytes = 3,
       CalcEffectiveAddress = abs_long_x_address,
       am_Read = op24_Read abs_long_x_address,
       am_Write = op24_Write abs_long_x_address,
       am_Modify = op24_Modify A abs_long_x_address,
       am_Disassemble = long_disassemble '', X'',
       am_EffAddr = eff, am_ReadOp = op24_ReadOp A eff, am_WriteOp = op24_WriteOp A eff\<rparr>)"

section \<open>Direct page\<close>

text \<open>
  In the emulation tables an access of a direct page that starts on a page boundary is tagged
  with the high bit of the address: a 16-bit read then stays in the page.
\<close>

definition direct_address :: "reg option \<Rightarrow> bool \<Rightarrow> 'd io \<Rightarrow> 'd machine \<Rightarrow> ('d, u32) result" where
  "direct_address offset_reg emulation io s0 =
     (let s = (if offset_reg \<noteq> None then InternalOp s0 else s0) in do {
        (addr, s) \<leftarrow> ReadPBR io W8 (ip s + 1) s;
        (let direct = ucast (regs_d s);
             tail = (\<lambda>s. (case offset_reg of
               None \<Rightarrow> Some (direct + addr, s)
             | Some r \<Rightarrow>
                 let sum = ucast (reg16 r s) + addr;
                     s = (if 0xFF < sum then InternalOp s else s)
                 in Some (direct + sum, s)))
         in if lo8 (regs_d s) \<noteq> 0 then tail (InternalOp s)
            else if emulation then
              (case offset_reg of
                 Some r \<Rightarrow>
                   Some (0x80000000 OR direct OR ((ucast (lo8 (reg16 r s)) + addr) AND 0xFF), s)
               | None \<Rightarrow> Some (0x80000000 OR (direct + addr), s))
            else tail s)
      })"

definition direct_disassemble where
  "direct_disassemble offset_reg io addr mnemonic s = do {
     (v, s) \<leftarrow> PeekU8 io (addr + 1) s;
     Some (mnemonic @ '' $'' @ hex_pad 2 (unat v) @ index_suffix offset_reg, s)
   }"

definition AddrDirectBase ::
  "reg option \<Rightarrow> width \<Rightarrow> width \<Rightarrow> bool \<Rightarrow> string \<Rightarrow> (u32 \<Rightarrow> jit_op list) \<Rightarrow> 'd addr_mode" where
  "AddrDirectBase offset_reg A XY emulation fmt eff =
     \<lparr>am_A = A, am_XY = XY, kMaybeHasConditionalCycle = False, kFormat = fmt, op_bits = 4,
      Bytes = 1,
      CalcEffectiveAddress = direct_address offset_reg emulation,
      am_Read = op16zero_Read emulation (direct_address offset_reg emulation),
      am_Write = op16zero_Write (direct_address offset_reg emulation),
      am_Modify = op16zero_Modify A (direct_address offset_reg emulation),
      am_Disassemble = direct_disassemble offset_reg,
      am_EffAddr = eff,
      am_ReadOp = op16zero_ReadOp A eff,
      am_WriteOp = op16zero_WriteOp A eff\<rparr>"

definition AddrDirect :: "width \<Rightarrow> width \<Rightarrow> bool \<Rightarrow> 'd addr_mode" where
  "AddrDirect A XY emulation = AddrDirectBase None A XY emulation ''%X''
     (\<lambda>reg. [J kReadImm (kTempReg OR reg) (jit_Bytes 1), J_end])"

definition AddrDirectX :: "width \<Rightarrow> width \<Rightarrow> bool \<Rightarrow> 'd addr_mode" where
  "AddrDirectX A XY emulation = AddrDirectBase (Some RX) A XY emulation ''%X,X''
     (\<lambda>reg. [J kReadImm (kTempReg OR reg) (jit_Bytes 1), J kAdd (kTempReg OR reg) jRX, J_end])"

definition AddrDirectY :: "width \<Rightarrow> width \<Rightarrow> bool \<Rightarrow> 'd addr_mode" where
  "AddrDirectY A XY emulation = AddrDirectBase (Some RY) A XY emulation ''%X,Y''
     (\<lambda>reg. [J kReadImm (kTempReg OR reg) (jit_Bytes 1), J kAdd (kTempReg OR reg) jRY, J_end])"

section \<open>Direct indirect\<close>

text \<open>The address operand of the disassembled forms: text before and after a two-digit byte.\<close>

definition byte_disassemble where
  "byte_disassemble pre post io addr mnemonic s = do {
     (v, s) \<leftarrow> PeekU8 io (addr + 1) s;
     Some (mnemonic @ pre @ hex_pad 2 (unat v) @ post, s)
   }"

definition AddrDirectIndirect :: "width \<Rightarrow> width \<Rightarrow> 'd addr_mode" where
  "AddrDirectIndirect A XY =
     (let ea = (\<lambda>io s. do {
            (addr, s) \<leftarrow> ReadPBR io W8 (ip s + 1) s;
            (ret, s) \<leftarrow> ReadZero io W16 (ucast (regs_d s) + addr) s;
            Some (data_segment_base s + ret, s)
          });
          eff = (\<lambda>reg. [J kReadImm (kTempReg OR reg) (jit_Bytes 1),
                        J kAdd (kTempReg OR reg) kDataBase,
                        J kRead (kTempReg OR reg) (kTempReg OR reg OR jit_Bytes 2), J_end])
      in \<lparr>am_A = A, am_XY = XY, kMaybeHasConditionalCycle = False, kFormat = ''(%X)'', op_bits = 2,
          Bytes = 1, CalcEffectiveAddress = ea,
          am_Read = op24_Read ea, am_Write = op24_Write ea, am_Modify = op24_Modify A ea,
          am_Disassemble = byte_disassemble '' ($'' '')'',
          am_EffAddr = eff, am_ReadOp = op24_ReadOp A eff, am_WriteOp = op24_WriteOp A eff\<rparr>)"

definition AddrDirectIndirectX :: "width \<Rightarrow> width \<Rightarrow> bool \<Rightarrow> 'd addr_mode" where
  "AddrDirectIndirectX A XY emulation =
     (let ea = (\<lambda>io s. do {
            (ret, s) \<leftarrow> am_Read (AddrDirectX A XY emulation) io W16 s;
            Some (data_segment_base s + ret, s)
          });
          eff = (\<lambda>reg. [J kReadImm (kTempReg OR reg) (jit_Bytes 1),
                        J kAdd (kTempReg OR reg) kDataBase,
                        J kAdd (kTempReg OR reg) jRX,
                        J kRead (kTempReg OR reg) (kTempReg OR reg OR jit_Bytes 2), J_end])
      in \<lparr>am_A = A, am_XY = XY, kMaybeHasConditionalCycle = False, kFormat = ''(%X,X)'',
          op_bits = 2, Bytes = 1, CalcEffectiveAddress = ea,
          am_Read = op24_Read ea, am_Write = op24_Write ea, am_Modify = op24_Modify A ea,
          am_Disassemble = byte_disassemble '' ($'' '', X)'',
          am_EffAddr = eff, am_ReadOp = op24_ReadOp A eff, am_WriteOp = op24_WriteOp A eff\<rparr>)"

definition AddrDirectIndirectY :: "width \<Rightarrow> width \<Rightarrow> bool \<Rightarrow> bool \<Rightarrow> 'd addr_mode" where
  "AddrDirectIndirectY A XY check_extra_cycle emulation =
     (let ea = (\<lambda>io s. do {
            (ret, s) \<leftarrow> am_Read (AddrDirect A XY emulation) io W16 s;
            (let sum = ret + ucast (regs_y s);
                 s = (if check_extra_cycle \<and> \<not> mode_long_xy s \<and> (sum XOR ret) AND 0x100 \<noteq> 0
                      then InternalOp s else s)
             in Some (data_segment_base s + sum, s))
          });
          eff = (\<lambda>reg. [J kReadImm (kTempReg OR reg) (jit_Bytes 1),
                        J kAdd (kTempReg OR reg) kDataBase,
                        J kRead (kTempReg OR reg) (kTempReg OR reg OR jit_Bytes 2),
                        J kAdd (kTempReg OR reg) jRY, J_end])
      in \<lparr>am_A = A, am_XY = XY, kMaybeHasConditionalCycle = True, kFormat = ''(%X),Y'', op_bits = 2,
          Bytes = 1, CalcEffectiveAddress = ea,
          am_Read = op24_Read ea, am_Write = op24_Write ea, am_Modify = op24_Modify A ea,
          am_Disassemble = byte_disassemble '' ($'' ''), Y'',
          am_EffAddr = eff, am_ReadOp = op24_ReadOp A eff, am_WriteOp = op24_WriteOp A eff\<rparr>)"

definition indirect_long_pointer :: "'d io \<Rightarrow> 'd machine \<Rightarrow> ('d, u32) result" where
  "indirect_long_pointer io s = do {
     (addr, s) \<leftarrow> ReadPBR io W8 (ip s + 1) s;
     (let effective_addr = cast W16 (ucast (regs_d s) + addr) in do {
        (zp_addr, s) \<leftarrow> ReadZero io W16 effective_addr s;
        (zp_bank, s) \<leftarrow> ReadZero io W8 (effective_addr + 2) s;
        Some (zp_addr OR push_bit 16 zp_bank, s)
      })
   }"

definition AddrDirectIndirectLong :: "width \<Rightarrow> width \<Rightarrow> 'd addr_mode" where
  "AddrDirectIndirectLong A XY =
     (let ea = indirect_long_pointer;
          eff = (\<lambda>reg. [J kReadImm (kTempReg OR reg) (jit_Bytes 1),
                        J kRead (kTempReg OR reg) (kTempReg OR reg OR jit_Bytes 3), J_end])
      in \<lparr>am_A = A, am_XY = XY, kMaybeHasConditionalCycle = False, kFormat = ''[%X]'',
          op_bits = 0x41, Bytes = 1, CalcEffectiveAddress = ea,
          am_Read = op24_Read ea, am_Write = op24_Write ea, am_Modify = op24_Modify A ea,
          am_Disassemble = byte_disassemble '' [$'' '']'',
          am_EffAddr = eff, am_ReadOp = op24_ReadOp A eff, am_WriteOp = op24_WriteOp A eff\<rparr>)"

definition AddrDirectIndirectLongY :: "width \<Rightarrow> width \<Rightarrow> 'd addr_mode" where
  "AddrDirectIndirectLongY A XY =
     (let ea = (\<lambda>io s. do {
            (p, s) \<leftarrow> indirect_long_pointer io s;
            Some (p + ucast (regs_y s), s)
          });
          eff = (\<lambda>reg. [J kReadImm (kTempReg OR reg) (jit_Bytes 1),
                        J kRead (kTempReg OR reg) (kTempReg OR reg OR jit_Bytes 3),
                        J kAdd (kTempReg OR reg) jRY, J_end])
      in \<lparr>am_A = A, am_XY = XY, kMaybeHasConditionalCycle = False, kFormat = ''[%X],Y'',
          op_bits = 0x41, Bytes = 1, CalcEffectiveAddress = ea,
          am_Read = op24_Read ea, am_Write = op24_Write ea, am_Modify = op24_Modify A ea,
          am_Disassemble = byte_disassemble '' [$'' ''], Y'',
          am_EffAddr = eff, am_ReadOp = op24_ReadOp A eff, am_WriteOp = op24_WriteOp A eff\<rparr>)"

section \<open>Stack relative\<close>

definition AddrStack :: "width \<Rightarrow> width \<Rightarrow> 'd addr_mode" where
  "AddrStack A XY =
     (let ea = (\<lambda>io s. do {
            (addr, s) \<leftarrow> ReadPBR io W8 (ip s + 1) s;
            Some (ucast (regs_sp s) + addr, s)
          });
          eff = (\<lambda>reg. [J kReadImm (kTempReg OR reg) (jit_Bytes 1),
                        J kAdd (kTempReg OR reg) jRSP, J_end])
      in \<lparr>am_A = A, am_XY = XY, kMaybeHasConditionalCycle = False, kFormat = ''%X,S'',
          op_bits = 0x41, Bytes = 1, CalcEffectiveAddress = ea,
          am_Read = op16zero_Read False ea, am_Write = op16zero_Write ea,
          am_Modify = op16zero_Modify A ea,
          am_Disassemble = byte_disassemble '' $'' '', S'',
          am_EffAddr = eff, am_ReadOp = op16zero_ReadOp A eff,
          am_WriteOp = op16zero_WriteOp A eff\<rparr>)"

definition AddrStackY :: "width \<Rightarrow> width \<Rightarrow> 'd addr_mode" where
  "AddrStackY A XY =
     (let ea = (\<lambda>io s. do {
            (addr, s) \<leftarrow> ReadPBR io W8 (ip s + 1) s;
            (pointer, s) \<leftarrow> ReadZero io W16 (cast W16 (ucast (regs_sp s) + addr)) s;
            Some (data_segment_base s + pointer + ucast (regs_y s), s)
          });
          eff = (\<lambda>reg. [J kReadImm (kTempReg OR reg) (jit_Bytes 1),
                        J kAdd (kTempReg OR reg) jRSP,
                        J kRead (kTempReg OR reg) (kTempReg OR reg OR jit_Bytes 2),
                        J kAdd (kTempReg OR reg) jRY,
                        J kAdd (kTempReg OR reg) kDataBase, J_end])
      in \<lparr>am_A = A, am_XY = XY, kMaybeHasConditionalCycle = False, kFormat = ''(%X,S),Y'',
          op_bits = 0x41, Bytes = 1, CalcEffectiveAddress = ea,
          am_Read = op24_Read ea, am_Write = op24_Write ea, am_Modify = op24_Modify A ea,
          am_Disassemble = byte_disassemble '' ($'' '', S), Y'',
          am_EffAddr = eff, am_ReadOp = op24_ReadOp A eff, am_WriteOp = op24_WriteOp A eff\<rparr>)"

end
