(* ===== verification/Instr_Alu.thy ===== *)
theory Instr_Alu
  imports Addr_Modes
begin

text \<open>
  The data instructions of cpu_65c816_instructions.inl: logic, shifts, flags, increments, loads,
  stores, arithmetic, compares and register moves.  Each C++ struct (or struct template) with its
  static members is one record of type \<open>op\<close>; \<open>Exec\<close> is its \<open>Exec\<close> function, \<open>op_jit\<close> the
  array \<open>ops\<close>.  \<open>Disassemble\<close> yields the text and the address after the instruction.
\<close>

record 'd op =
  opcode :: u8
  kBytes :: nat
  kMnemonic :: string
  kParamFormat :: string
  op_jit :: "jit_op list"
  Exec :: "'d io \<Rightarrow> 'd machine \<Rightarrow> ('d, unit) result"
  Disassemble :: "'d io \<Rightarrow> u32 \<Rightarrow> 'd machine \<Rightarrow> ('d, string \<times> u32) result"

abbreviation ret :: "'d machine \<Rightarrow> ('d, unit) result" where
  "ret s \<equiv> Some ((), s)"

definition advance_ip :: "nat \<Rightarrow> 'd machine \<Rightarrow> 'd machine" where
  "advance_ip n s = s\<lparr>ip := ip s + of_nat n\<rparr>"

text \<open>The two forms of \<open>Disassemble\<close>: a fixed mnemonic, or the text of the addressing mode.\<close>

definition fixed_disassemble ::
  "string \<Rightarrow> nat \<Rightarrow> 'd io \<Rightarrow> u32 \<Rightarrow> 'd machine \<Rightarrow> ('d, string \<times> u32) result" where
  "fixed_disassemble mn n io addr s = Some ((mn, addr + of_nat n), s)"

definition mode_disassemble ::
  "'d addr_mode \<Rightarrow> string \<Rightarrow> nat \<Rightarrow> 'd io \<Rightarrow> u32 \<Rightarrow> 'd machine \<Rightarrow> ('d, string \<times> u32) result" where
  "mode_disassemble m mn n io addr s = do {
     (str, s) \<leftarrow> am_Disassemble m io addr mn s;
     Some ((str, addr + of_nat n), s)
   }"

text \<open>The second internal operation of read-modify-write instructions.\<close>

definition conditional_cycle :: "'d addr_mode \<Rightarrow> 'd machine \<Rightarrow> 'd machine" where
  "conditional_cycle m s = (if kMaybeHasConditionalCycle m then InternalOp s else s)"

section \<open>Test and logic\<close>

definition OpTsb :: "'d addr_mode \<Rightarrow> 'd op" where
  "OpTsb m =
     \<lparr>opcode = op_bits m, kBytes = 1 + Bytes m, kMnemonic = ''TSB'', kParamFormat = kFormat m,
      op_jit = [J_end],
      Exec = (\<lambda>io s. do {
        (_, s) \<leftarrow> am_Modify m io (\<lambda>mem s.
          let a = reg_get RA (am_A m) s
          in (cast (am_A m) (mem OR a), s\<lparr>zero_flag := a AND mem\<rparr>)) s;
        ret (advance_ip (1 + Bytes m) s)
      }),
      Disassemble = mode_disassemble m ''TSB'' (1 + Bytes m)\<rparr>"

definition OpTrb :: "'d addr_mode \<Rightarrow> 'd op" where
  "OpTrb m =
     \<lparr>opcode = op_bits m, kBytes = 1 + Bytes m, kMnemonic = ''TRB'', kParamFormat = kFormat m,
      op_jit = [J_end],
      Exec = (\<lambda>io s. do {
        (_, s) \<leftarrow> am_Modify m io (\<lambda>mem s.
          let a = reg_get RA (am_A m) s
          in (cast (am_A m) (mem AND NOT a), s\<lparr>zero_flag := a AND mem\<rparr>)) s;
        ret (advance_ip (1 + Bytes m) s)
      }),
      Disassemble = mode_disassemble m ''TRB'' (1 + Bytes m)\<rparr>"

definition OpBit :: "'d addr_mode \<Rightarrow> 'd op" where
  "OpBit m =
     \<lparr>opcode = op_bits m, kBytes = 1 + Bytes m, kMnemonic = ''BIT'', kParamFormat = kFormat m,
      op_jit = [J_end],
      Exec = (\<lambda>io s. do {
        (mem, s) \<leftarrow> am_Read m io (am_A m) s;
        (let a = reg_get RA (am_A m) s;
             s = s\<lparr>zero_flag := a AND mem\<rparr>;
             mem = (if sizeof (am_A m) > 1 then drop_bit 8 mem else mem);
             s = s\<lparr>negative_flag := drop_bit 7 mem,
                   other_flags := (other_flags s AND 0xFFBF) OR (mem AND 0x40)\<rparr>
         in ret (advance_ip (1 + Bytes m) s))
      }),
      Disassemble = mode_disassemble m ''BIT'' (1 + Bytes m)\<rparr>"

definition OpBitImm :: "'d addr_mode \<Rightarrow> 'd op" where
  "OpBitImm m =
     \<lparr>opcode = op_bits m, kBytes = 1 + Bytes m, kMnemonic = ''BIT'', kParamFormat = kFormat m,
      op_jit = [J_end],
      Exec = (\<lambda>io s. do {
        (mem, s) \<leftarrow> am_Read m io (am_A m) s;
        (let a = reg_get RA (am_A m) s
         in ret (advance_ip (1 + Bytes m) (s\<lparr>zero_flag := a AND mem\<rparr>)))
      }),
      Disassemble = mode_disassemble m ''BIT'' (1 + Bytes m)\<rparr>"

definition OpAlu ::
  "'d addr_mode \<Rightarrow> u8 \<Rightarrow> string \<Rightarrow> jit_oper \<Rightarrow> (u32 \<Rightarrow> u32 \<Rightarrow> u32) \<Rightarrow> 'd op" where
  "OpAlu m opc mn jop DoAluOp =
     \<lparr>opcode = opc OR op_bits m, kBytes = 1 + Bytes m, kMnemonic = mn, kParamFormat = kFormat m,
      op_jit =
        [JitOperation kExecuteSublist 0 0 (am_ReadOp m 0),
         J jop jRA (kTempReg OR 0),
         J kUpdateFlags (kFlagZero OR kFlagNegative OR of_nat (sizeof (am_A m))) jRA,
         J kIncrementIP 0 (1 + of_nat (sizeof (am_A m))),
         J_end],
      Exec = (\<lambda>io s. do {
        (mem, s) \<leftarrow> am_Read m io (am_A m) s;
        (let a = cast (am_A m) (DoAluOp (reg_get RA (am_A m) s) mem)
         in ret (advance_ip (1 + Bytes m) (SetNZ (am_A m) a (reg_set RA (am_A m) a s))))
      }),
      Disassemble = mode_disassemble m mn (1 + Bytes m)\<rparr>"

definition OpOr :: "'d addr_mode \<Rightarrow> 'd op" where
  "OpOr m = OpAlu m 1 ''ORA'' kOr (\<lambda>a v. a OR v)"

definition OpAnd :: "'d addr_mode \<Rightarrow> 'd op" where
  "OpAnd m = OpAlu m 0x21 ''AND'' kAnd (\<lambda>a v. a AND v)"

definition OpXor :: "'d addr_mode \<Rightarrow> 'd op" where
  "OpXor m = OpAlu m 0x41 ''EOR'' kXor (\<lambda>a v. a XOR v)"

section \<open>Shifts\<close>

definition OpAsl :: "'d addr_mode \<Rightarrow> 'd op" where
  "OpAsl m =
     \<lparr>opcode = 2 OR op_bits m, kBytes = 1 + Bytes m, kMnemonic = ''ASL'', kParamFormat = kFormat m,
      op_jit =
        [JitOperation kExecuteSublist 0 0 (am_ReadOp m 0),
         J kShiftLeftImm (kTempReg OR 0) 1,
         J kUpdateFlags (kFlagCarry OR kFlagZero OR kFlagNegative OR of_nat (sizeof (am_A m)))
           (kTempReg OR 0),
         JitOperation kExecuteSublist 0 0 (am_WriteOp m 0),
         J kIncrementIP 0 (1 + of_nat (sizeof (am_A m))),
         J_end],
      Exec = (\<lambda>io s. do {
        (_, s) \<leftarrow> am_Modify m io (\<lambda>a s.
          let b = cast (am_A m) (push_bit 1 a);
              s = (SetNZ (am_A m) b s)\<lparr>carry := drop_bit (bits (am_A m) - 2) a\<rparr>
          in (b, conditional_cycle m (InternalOp s))) s;
        ret (advance_ip (1 + Bytes m) s)
      }),
      Disassemble = mode_disassemble m ''ASL'' (1 + Bytes m)\<rparr>"

definition Lsr_SetFlags :: "u32 \<Rightarrow> 'd machine \<Rightarrow> 'd machine" where
  "Lsr_SetFlags v s =
     s\<lparr>zero_flag := drop_bit 1 v, negative_flag := 0, carry := push_bit 1 (v AND 1)\<rparr>"

definition OpLsr :: "'d addr_mode \<Rightarrow> 'd op" where
  "OpLsr m =
     \<lparr>opcode = 2 OR op_bits m, kBytes = 1 + Bytes m, kMnemonic = ''LSR'', kParamFormat = kFormat m,
      op_jit = [J_end],
      Exec = (\<lambda>io s. do {
        (_, s) \<leftarrow> am_Modify m io (\<lambda>a s.
          (cast (am_A m) (drop_bit 1 a), conditional_cycle m (InternalOp (Lsr_SetFlags a s)))) s;
        ret (advance_ip (1 + Bytes m) s)
      }),
      Disassemble = mode_disassemble m ''LSR'' (1 + Bytes m)\<rparr>"

definition OpRor :: "'d addr_mode \<Rightarrow> 'd op" where
  "OpRor m =
     \<lparr>opcode = 2 OR op_bits m, kBytes = 1 + Bytes m, kMnemonic = ''ROR'', kParamFormat = kFormat m,
      op_jit = [J_end],
      Exec = (\<lambda>io s. do {
        (_, s) \<leftarrow> am_Modify m io (\<lambda>a s.
          let b = cast (am_A m) (drop_bit 1 a OR push_bit (bits (am_A m) - 2) (carry s AND 2));
              s = (SetNZ (am_A m) b s)\<lparr>carry := push_bit 1 (a AND 1)\<rparr>
          in (b, conditional_cycle m (InternalOp s))) s;
        ret (advance_ip (1 + Bytes m) s)
      }),
      Disassemble = mode_disassemble m ''ROR'' (1 + Bytes m)\<rparr>"

text \<open>The source gives \<open>OpRol\<close> the mnemonic of \<open>OpRor\<close>.\<close>

definition OpRol :: "'d addr_mode \<Rightarrow> 'd op" where
  "OpRol m =
     \<lparr>opcode = 2 OR op_bits m, kBytes = 1 + Bytes m, kMnemonic = ''ROR'', kParamFormat = kFormat m,
      op_jit = [J_end],
      Exec = (\<lambda>io s. do {
        (_, s) \<leftarrow> am_Modify m io (\<lambda>a s.
          let b = cast (am_A m) (push_bit 1 a OR drop_bit 1 (carry s AND 2));
              s = (SetNZ (am_A m) b s)\<lparr>carry := drop_bit (bits (am_A m) - 2) a\<rparr>
          in (b, conditional_cycle m (InternalOp s))) s;
        ret (advance_ip (1 + Bytes m) s)
      }),
      Disassemble = mode_disassemble m ''ROR'' (1 + Bytes m)\<rparr>"

section \<open>Flags\<close>

definition CLC :: "'d op" where
  "CLC = \<lparr>opcode = 0x18, kBytes = 1, kMnemonic = ''CLC'', kParamFormat = '''',
     op_jit = [J kClearFlag kFlagCarry 0, J kIncrementIP 0 1, J_end],
     Exec = (\<lambda>io s. ret (InternalOp (advance_ip 1 (s\<lparr>carry := 0\<rparr>)))),
     Disassemble = fixed_disassemble ''CLC'' 1\<rparr>"

definition SEC :: "'d op" where
  "SEC = \<lparr>opcode = 0x38, kBytes = 1, kMnemonic = ''SEC'', kParamFormat = '''',
     op_jit = [J kSetFlag kFlagCarry 0, J kIncrementIP 0 1, J_end],
     Exec = (\<lambda>io s. ret (InternalOp (advance_ip 1 (s\<lparr>carry := 2\<rparr>)))),
     Disassemble = fixed_disassemble ''SEC'' 1\<rparr>"

definition CLI :: "'d op" where
  "CLI = \<lparr>opcode = 0x58, kBytes = 1, kMnemonic = ''CLI'', kParamFormat = '''', op_jit = [J_end],
     Exec = (\<lambda>io s. ret (InternalOp (advance_ip 1 (s\<lparr>interrupts := 1\<rparr>)))),
     Disassemble = fixed_disassemble ''CLI'' 1\<rparr>"

definition SEI :: "'d op" where
  "SEI = \<lparr>opcode = 0x78, kBytes = 1, kMnemonic = ''SEI'', kParamFormat = '''', op_jit = [J_end],
     Exec = (\<lambda>io s. ret (InternalOp (advance_ip 1 (s\<lparr>interrupts := 0\<rparr>)))),
     Disassemble = fixed_disassemble ''SEI'' 1\<rparr>"

definition CLD :: "'d op" where
  "CLD = \<lparr>opcode = 0xD8, kBytes = 1, kMnemonic = ''CLD'', kParamFormat = '''', op_jit = [J_end],
     Exec = (\<lambda>io s. ret (InternalOp (advance_ip 1
              (s\<lparr>other_flags := other_flags s AND 0xFFF7\<rparr>)))),
     Disassemble = fixed_disassemble ''CLD'' 1\<rparr>"

definition SED :: "'d op" where
  "SED = \<lparr>opcode = 0xF8, kBytes = 1, kMnemonic = ''SED'', kParamFormat = '''', op_jit = [J_end],
     Exec = (\<lambda>io s. ret (InternalOp (advance_ip 1
              (s\<lparr>other_flags := other_flags s OR 0x8\<rparr>)))),
     Disassemble = fixed_disassemble ''SED'' 1\<rparr>"

definition CLV :: "'d op" where
  "CLV = \<lparr>opcode = 0xB8, kBytes = 1, kMnemonic = ''CLV'', kParamFormat = '''', op_jit = [J_end],
     Exec = (\<lambda>io s. ret (InternalOp (advance_ip 1
              (s\<lparr>other_flags := other_flags s AND 0xFFBF\<rparr>)))),
     Disassemble = fixed_disassemble ''CLV'' 1\<rparr>"

text \<open>The text of \<open>REP\<close>, \<open>SEP\<close> and the push instructions: a mnemonic with its operand.\<close>

definition text_disassemble ::
  "string \<Rightarrow> width \<Rightarrow> nat \<Rightarrow> 'd io \<Rightarrow> u32 \<Rightarrow> 'd machine \<Rightarrow> ('d, string \<times> u32) result" where
  "text_disassemble pre w n io addr s = (case w of
     W8 \<Rightarrow> do {
       (v, s) \<leftarrow> PeekU8 io (addr + 1) s;
       Some ((pre @ hex_pad 2 (unat v), addr + of_nat n), s)
     }
   | W16 \<Rightarrow> do {
       (v, s) \<leftarrow> PeekU16 io (addr + 1) s;
       Some ((pre @ hex_pad 4 (unat v), addr + of_nat n), s)
     })"

definition REP :: "'d op" where
  "REP = \<lparr>opcode = 0xC2, kBytes = 2, kMnemonic = ''REP'', kParamFormat = ''#%X'', op_jit = [J_end],
     Exec = (\<lambda>io s. do {
       (flags, s) \<leftarrow> ReadPBR io W8 (ip s + 1) s;
       (let s = advance_ip 2 s;
            s = s\<lparr>other_flags := other_flags s AND NOT flags,
                  zero_flag := zero_flag s OR (flags AND 2)\<rparr>;
            s = (if flags AND 1 \<noteq> 0 then s\<lparr>carry := 0\<rparr> else s);
            s = (if flags AND 4 \<noteq> 0 then s\<lparr>interrupts := 1\<rparr> else s);
            s = (if flags AND 0x80 \<noteq> 0 then s\<lparr>negative_flag := 0\<rparr> else s)
        in if (flags AND 0x10 \<noteq> 0 \<and> \<not> mode_long_xy s) \<or> (flags AND 0x20 \<noteq> 0 \<and> \<not> mode_long_a s)
           then let s = (if flags AND 0x10 \<noteq> 0 then s\<lparr>mode_long_xy := True\<rparr> else s);
                    s = (if flags AND 0x20 \<noteq> 0 then s\<lparr>mode_long_a := True\<rparr> else s)
                in ret (OnUpdateMode s)
           else ret s)
     }),
     Disassemble = text_disassemble ''REP #$'' W8 2\<rparr>"

definition SEP :: "'d op" where
  "SEP = \<lparr>opcode = 0xE2, kBytes = 2, kMnemonic = ''SEP'', kParamFormat = ''#%X'', op_jit = [J_end],
     Exec = (\<lambda>io s. do {
       (flags, s) \<leftarrow> ReadPBR io W8 (ip s + 1) s;
       (let s = advance_ip 2 s;
            s = s\<lparr>other_flags := other_flags s OR flags\<rparr>;
            s = (if flags AND 1 \<noteq> 0 then s\<lparr>carry := 2\<rparr> else s);
            s = (if flags AND 2 \<noteq> 0 then s\<lparr>zero_flag := 0\<rparr> else s);
            s = (if flags AND 4 \<noteq> 0 then s\<lparr>interrupts := 0\<rparr> else s);
            s = (if flags AND 0x80 \<noteq> 0 then s\<lparr>negative_flag := 1\<rparr> else s)
        in if (flags AND 0x10 \<noteq> 0 \<and> mode_long_xy s) \<or> (flags AND 0x20 \<noteq> 0 \<and> mode_long_a s)
           then let s = (if flags AND 0x10 \<noteq> 0 then s\<lparr>mode_long_xy := False\<rparr> else s);
                    s = (if flags AND 0x20 \<noteq> 0 then s\<lparr>mode_long_a := False\<rparr> else s)
                in ret (OnUpdateMode s)
           else ret s)
     }),
     Disassemble = text_disassemble ''SEP #$'' W8 2\<rparr>"

end
