(* ===== verification/Instr_Arith.thy ===== *)
theory Instr_Arith
  imports Instr_Alu
begin

text \<open>
  Increments, loads and stores, addition, subtraction and comparison, and register moves
  (cpu_65c816_instructions.inl, from the section INC/DEC to the register moves).
\<close>

section \<open>Increment and decrement\<close>

definition OpIncMem :: "'d addr_mode \<Rightarrow> 'd op" where
  "OpIncMem m =
     \<lparr>opcode = 0, kBytes = 1 + Bytes m, kMnemonic = ''INC'', kParamFormat = kFormat m,
      op_jit = [J_end],
      Exec = (\<lambda>io s. do {
        (_, s) \<leftarrow> am_Modify m io (\<lambda>v s.
          let v = cast (am_A m) (v + 1)
          in (v, SetNZ (am_A m) v (conditional_cycle m (InternalOp s)))) s;
        ret (advance_ip (1 + Bytes m) s)
      }),
      Disassemble = mode_disassemble m ''INC'' (1 + Bytes m)\<rparr>"

definition OpDecMem :: "'d addr_mode \<Rightarrow> 'd op" where
  "OpDecMem m =
     \<lparr>opcode = 0, kBytes = 1 + Bytes m, kMnemonic = ''DEC'', kParamFormat = kFormat m,
      op_jit = [J_end],
      Exec = (\<lambda>io s. do {
        (_, s) \<leftarrow> am_Modify m io (\<lambda>v s.
          let v = cast (am_A m) (v - 1)
          in (v, SetNZ (am_A m) v (conditional_cycle m (InternalOp s)))) s;
        ret (advance_ip (1 + Bytes m) s)
      }),
      Disassemble = mode_disassemble m ''DEC'' (1 + Bytes m)\<rparr>"

definition IncDecReg :: "width \<Rightarrow> u8 \<Rightarrow> string \<Rightarrow> u32 \<Rightarrow> reg \<Rightarrow> 'd op" where
  "IncDecReg w opc mn delta kReg =
     \<lparr>opcode = opc, kBytes = 1, kMnemonic = mn, kParamFormat = '''', op_jit = [J_end],
      Exec = (\<lambda>io s.
        let reg = cast w (reg_get kReg w s + delta)
        in ret (advance_ip 1 (SetNZ w reg (InternalOp (reg_set kReg w reg s))))),
      Disassemble =
        fixed_disassemble (if kReg = RX \<or> kReg = RY then mn else ''INC A'') 1\<rparr>"

definition INX :: "width \<Rightarrow> width \<Rightarrow> 'd op" where
  "INX A XY = IncDecReg XY 0xE8 ''INX'' 1 RX"

definition INY :: "width \<Rightarrow> width \<Rightarrow> 'd op" where
  "INY A XY = IncDecReg XY 0xC8 ''INY'' 1 RY"

definition INA :: "width \<Rightarrow> width \<Rightarrow> 'd op" where
  "INA A XY = IncDecReg A 0x1A ''INA'' 1 RA"

definition DEX :: "width \<Rightarrow> width \<Rightarrow> 'd op" where
  "DEX A XY = IncDecReg XY 0xCA ''DEX'' (-1) RX"

definition DEY :: "width \<Rightarrow> width \<Rightarrow> 'd op" where
  "DEY A XY = IncDecReg XY 0x88 ''DEY'' (-1) RY"

definition DEA :: "width \<Rightarrow> width \<Rightarrow> 'd op" where
  "DEA A XY = IncDecReg A 0x3A ''DEA'' (-1) RA"

section \<open>Loads and stores\<close>

definition OpLoad :: "'d addr_mode \<Rightarrow> string \<Rightarrow> reg \<Rightarrow> width \<Rightarrow> 'd op" where
  "OpLoad m mn kReg w =
     \<lparr>opcode = 0, kBytes = 1 + Bytes m, kMnemonic = mn, kParamFormat = kFormat m,
      op_jit = [J_end],
      Exec = (\<lambda>io s. do {
        (reg, s) \<leftarrow> am_Read m io w s;
        ret (advance_ip (1 + Bytes m) (SetNZ w reg (reg_set kReg w reg s)))
      }),
      Disassemble = mode_disassemble m mn (1 + Bytes m)\<rparr>"

definition LDA :: "'d addr_mode \<Rightarrow> 'd op" where
  "LDA m = OpLoad m ''LDA'' RA (am_A m)"

definition LDX :: "'d addr_mode \<Rightarrow> 'd op" where
  "LDX m = OpLoad m ''LDX'' RX (am_XY m)"

definition LDY :: "'d addr_mode \<Rightarrow> 'd op" where
  "LDY m = OpLoad m ''LDY'' RY (am_XY m)"

definition OpStore :: "'d addr_mode \<Rightarrow> string \<Rightarrow> reg \<Rightarrow> width \<Rightarrow> 'd op" where
  "OpStore m mn kReg w =
     \<lparr>opcode = 0, kBytes = 1 + Bytes m, kMnemonic = mn, kParamFormat = kFormat m,
      op_jit = [J_end],
      Exec = (\<lambda>io s. do {
        (_, s) \<leftarrow> am_Write m io w (reg_get kReg w s) s;
        ret (advance_ip (1 + Bytes m) (conditional_cycle m s))
      }),
      Disassemble = mode_disassemble m mn (1 + Bytes m)\<rparr>"

definition STA :: "'d addr_mode \<Rightarrow> 'd op" where
  "STA m = OpStore m ''STA'' RA (am_A m)"

definition STX :: "'d addr_mode \<Rightarrow> 'd op" where
  "STX m = OpStore m ''STX'' RX (am_XY m)"

definition STY :: "'d addr_mode \<Rightarrow> 'd op" where
  "STY m = OpStore m ''STY'' RY (am_XY m)"

definition STZ :: "'d addr_mode \<Rightarrow> 'd op" where
  "STZ m =
     \<lparr>opcode = 0, kBytes = 1 + Bytes m, kMnemonic = ''STZ'', kParamFormat = kFormat m,
      op_jit = [J_end],
      Exec = (\<lambda>io s. do {
        (_, s) \<leftarrow> am_Write m io (am_A m) 0 s;
        ret (advance_ip (1 + Bytes m) s)
      }),
      Disassemble = mode_disassemble m ''STZ'' (1 + Bytes m)\<rparr>"

section \<open>Addition, subtraction, comparison\<close>

text \<open>The carry flag as a number, \<open>(carry >> 1) & 1\<close>.\<close>

definition carry_in :: "'d machine \<Rightarrow> u32" where
  "carry_in s = drop_bit 1 (carry s) AND 1"

text \<open>The decimal correction both decimal routines share, for the binary sum \<open>result\<close>.\<close>

definition decimal_adjust :: "u32 \<Rightarrow> u32 \<Rightarrow> u32 \<Rightarrow> u32" where
  "decimal_adjust result reg data =
     (let carries = drop_bit 1 (result XOR reg XOR data) AND 0x88888888;
          adj_ind = carries OR
            ((result AND push_bit 1 (result OR push_bit 1 result)) AND 0x88888888);
          adj = drop_bit 1 (adj_ind OR drop_bit 1 adj_ind)
      in result + adj)"

definition AddDec :: "width \<Rightarrow> u32 \<Rightarrow> 'd machine \<Rightarrow> 'd machine" where
  "AddDec w data s =
     (let reg = reg_get RA w s;
          result = reg + data + carry_in s;
          result = decimal_adjust result reg data;
          cn = drop_bit (8 * sizeof w - 1) result
      in reg_set RA w (cast w result)
           (s\<lparr>zero_flag := cast w result, carry := cn, negative_flag := cn\<rparr>))"

definition AddBin :: "width \<Rightarrow> u32 \<Rightarrow> 'd machine \<Rightarrow> 'd machine" where
  "AddBin w data s =
     (let reg = reg_get RA w s;
          result = reg + data + carry_in s;
          cn = drop_bit (8 * sizeof w - 1) result
      in reg_set RA w (cast w result)
           (s\<lparr>zero_flag := cast w result, carry := cn, negative_flag := cn,
              other_flags := (other_flags s AND 0xFFBF) OR
                (if (reg XOR result) AND NOT (reg XOR data) AND high_bit w \<noteq> 0 then 0x40 else 0)\<rparr>))"

definition OpAdc :: "'d addr_mode \<Rightarrow> 'd op" where
  "OpAdc m =
     \<lparr>opcode = 0, kBytes = 1 + Bytes m, kMnemonic = ''ADC'', kParamFormat = kFormat m,
      op_jit = [J_end],
      Exec = (\<lambda>io s. do {
        (v, s) \<leftarrow> am_Read m io (am_A m) s;
        (let s = (if supports_decimal s \<and> other_flags s AND 0x8 \<noteq> 0
                  then AddDec (am_A m) v s else AddBin (am_A m) v s)
         in ret (advance_ip (1 + Bytes m) s))
      }),
      Disassemble = mode_disassemble m ''ADC'' (1 + Bytes m)\<rparr>"

definition SubDec :: "width \<Rightarrow> u32 \<Rightarrow> 'd machine \<Rightarrow> 'd machine" where
  "SubDec w data s =
     (let reg = reg_get RA w s;
          result = reg + (data XOR cast w (-1)) + carry_in s;
          result = decimal_adjust result reg data;
          cn = drop_bit (8 * sizeof w - 1) result
      in reg_set RA w (cast w result)
           (s\<lparr>zero_flag := cast w result, carry := cn, negative_flag := cn\<rparr>))"

text \<open>\<open>zero\<close> is assigned the untruncated 32-bit difference.\<close>

definition SubBin :: "width \<Rightarrow> u32 \<Rightarrow> 'd machine \<Rightarrow> 'd machine" where
  "SubBin w data s =
     (let reg = reg_get RA w s;
          result = reg - data - 1 + carry_in s;
          cn = drop_bit (8 * sizeof w - 1) result
      in reg_set RA w (cast w result)
           (s\<lparr>zero_flag := result, carry := NOT cn, negative_flag := cn,
              other_flags := (other_flags s AND 0xFFBF) OR
                (if (reg XOR result) AND (reg XOR data) AND high_bit w \<noteq> 0 then 0x40 else 0)\<rparr>))"

definition OpSbc :: "'d addr_mode \<Rightarrow> 'd op" where
  "OpSbc m =
     \<lparr>opcode = 0, kBytes = 1 + Bytes m, kMnemonic = ''SBC'', kParamFormat = kFormat m,
      op_jit = [J_end],
      Exec = (\<lambda>io s. do {
        (v, s) \<leftarrow> am_Read m io (am_A m) s;
        (let s = (if supports_decimal s \<and> other_flags s AND 0x8 \<noteq> 0
                  then SubDec (am_A m) v s else SubBin (am_A m) v s)
         in ret (advance_ip (1 + Bytes m) s))
      }),
      Disassemble = mode_disassemble m ''SBC'' (1 + Bytes m)\<rparr>"

definition DoCmp :: "width \<Rightarrow> u32 \<Rightarrow> u32 \<Rightarrow> 'd machine \<Rightarrow> 'd machine" where
  "DoCmp w reg data s =
     (SetNZ w (cast w (reg - data)) s)\<lparr>carry := (if data \<le> reg then 2 else 0)\<rparr>"

definition OpCmp :: "'d addr_mode \<Rightarrow> 'd op" where
  "OpCmp m =
     \<lparr>opcode = 0, kBytes = 1 + Bytes m, kMnemonic = ''CMP'', kParamFormat = kFormat m,
      op_jit = [J_end],
      Exec = (\<lambda>io s. do {
        (v, s) \<leftarrow> am_Read m io (am_A m) s;
        (let reg = reg_get RA (am_A m) s
         in ret (DoCmp (am_A m) reg v (advance_ip (1 + Bytes m) s)))
      }),
      Disassemble = mode_disassemble m ''CMP'' (1 + Bytes m)\<rparr>"

definition OpCpx :: "'d addr_mode \<Rightarrow> 'd op" where
  "OpCpx m =
     \<lparr>opcode = 0, kBytes = 1 + Bytes m, kMnemonic = ''CPX'', kParamFormat = kFormat m,
      op_jit = [J_end],
      Exec = (\<lambda>io s. do {
        (v, s) \<leftarrow> am_Read m io (am_XY m) s;
        (let reg = reg_get RX (am_XY m) s
         in ret (DoCmp (am_XY m) reg v (advance_ip (1 + Bytes m) s)))
      }),
      Disassemble = mode_disassemble m ''CPX'' (1 + Bytes m)\<rparr>"

definition OpCpy :: "'d addr_mode \<Rightarrow> 'd op" where
  "OpCpy m =
     \<lparr>opcode = 0, kBytes = 1 + Bytes m, kMnemonic = ''CPY'', kParamFormat = kFormat m,
      op_jit = [J_end],
      Exec = (\<lambda>io s. do {
        (v, s) \<leftarrow> am_Read m io (am_XY m) s;
        (let reg = reg_get RY (am_XY m) s
         in ret (DoCmp (am_XY m) reg v (advance_ip (1 + Bytes m) s)))
      }),
      Disassemble = mode_disassemble m ''CPY'' (1 + Bytes m)\<rparr>"

section \<open>Register moves\<close>

definition TXS :: "bool \<Rightarrow> 'd op" where
  "TXS emulation =
     \<lparr>opcode = 0x9A, kBytes = 1, kMnemonic = ''TXS'', kParamFormat = '''', op_jit = [J_end],
      Exec = (\<lambda>io s.
        let s = (if emulation then s\<lparr>regs_sp := 0x100 OR ucast (lo8 (regs_x s))\<rparr>
                 else s\<lparr>regs_sp := regs_x s\<rparr>)
        in ret (InternalOp (advance_ip 1 s))),
      Disassemble = fixed_disassemble ''TXS'' 1\<rparr>"

definition TCS :: "bool \<Rightarrow> 'd op" where
  "TCS emulation =
     \<lparr>opcode = 0x1B, kBytes = 1, kMnemonic = ''TCS'', kParamFormat = '''', op_jit = [J_end],
      Exec = (\<lambda>io s.
        let s = (if emulation then s\<lparr>regs_sp := 0x100 OR ucast (lo8 (regs_a s))\<rparr>
                 else s\<lparr>regs_sp := regs_a s\<rparr>)
        in ret (InternalOp (advance_ip 1 s))),
      Disassemble = fixed_disassemble ''TCS'' 1\<rparr>"

definition MoveReg :: "width \<Rightarrow> u8 \<Rightarrow> string \<Rightarrow> reg \<Rightarrow> reg \<Rightarrow> 'd op" where
  "MoveReg w opc mn dest source =
     \<lparr>opcode = opc, kBytes = 1, kMnemonic = mn, kParamFormat = '''', op_jit = [J_end],
      Exec = (\<lambda>io s.
        let v = reg_get source w s
        in ret (InternalOp (advance_ip 1 (SetNZ w v (reg_set dest w v s))))),
      Disassemble = fixed_disassemble mn 1\<rparr>"

definition TAX :: "width \<Rightarrow> width \<Rightarrow> 'd op" where
  "TAX A XY = MoveReg XY 0xAA ''TAX'' RX RA"

definition TAY :: "width \<Rightarrow> width \<Rightarrow> 'd op" where
  "TAY A XY = MoveReg XY 0xA8 ''TAY'' RY RA"

definition TSX :: "width \<Rightarrow> width \<Rightarrow> 'd op" where
  "TSX A XY = MoveReg XY 0xBA ''TSX'' RX RSP"

definition TXA :: "width \<Rightarrow> width \<Rightarrow> 'd op" where
  "TXA A XY = MoveReg A 0x8A ''TXA'' RA RX"

definition TXY :: "width \<Rightarrow> width \<Rightarrow> 'd op" where
  "TXY A XY = MoveReg XY 0x9B ''TXY'' RY RX"

definition TYA :: "width \<Rightarrow> width \<Rightarrow> 'd op" where
  "TYA A XY = MoveReg A 0x98 ''TYA'' RA RY"

definition TYX :: "width \<Rightarrow> width \<Rightarrow> 'd op" where
  "TYX A XY = MoveReg XY 0xBB ''TYX'' RX RY"

definition TCD :: "width \<Rightarrow> width \<Rightarrow> 'd op" where
  "TCD A XY = MoveReg W16 0x5B ''TCD'' RD RA"

definition TDC :: "width \<Rightarrow> width \<Rightarrow> 'd op" where
  "TDC A XY = MoveReg W16 0x7B ''TDC'' RA RD"

definition TSC :: "width \<Rightarrow> width \<Rightarrow> 'd op" where
  "TSC A XY = MoveReg W16 0x3B ''TSC'' RA RSP"

end
