(* ===== verification/Instr_Flow.thy ===== *)
theory Instr_Flow
  imports Instr_Arith
begin

text \<open>
  Stack instructions, jumps, calls, returns and branches, block moves, mode switches, software
  interrupts and the NMOS-only opcodes (the rest of cpu_65c816_instructions.inl).
\<close>

section \<open>Stack\<close>

definition OpPush :: "u8 \<Rightarrow> string \<Rightarrow> reg \<Rightarrow> width \<Rightarrow> 'd op" where
  "OpPush opc mn kReg w =
     \<lparr>opcode = opc, kBytes = 1, kMnemonic = mn, kParamFormat = '''', op_jit = [J_end],
      Exec = (\<lambda>io s. do {
        (_, s) \<leftarrow> Push io w (reg_get kReg w s) s;
        ret (advance_ip 1 (InternalOp s))
      }),
      Disassemble = fixed_disassemble mn 1\<rparr>"

definition PHA :: "width \<Rightarrow> 'd op" where
  "PHA w = OpPush 0x48 ''PHA'' RA w"

definition PHD :: "'d op" where
  "PHD = OpPush 0x0B ''PHD'' RD W16"

definition PHX :: "width \<Rightarrow> 'd op" where
  "PHX w = OpPush 0xDA ''PHX'' RX w"

definition PHY :: "width \<Rightarrow> 'd op" where
  "PHY w = OpPush 0x5A ''PHY'' RY w"

definition OpPop :: "u8 \<Rightarrow> string \<Rightarrow> reg \<Rightarrow> width \<Rightarrow> 'd op" where
  "OpPop opc mn kReg w =
     \<lparr>opcode = opc, kBytes = 1, kMnemonic = mn, kParamFormat = '''', op_jit = [J_end],
      Exec = (\<lambda>io s. do {
        (v, s) \<leftarrow> (if kReg = RA then PopOld io w s else Pop io w s);
        ret (advance_ip 1 (SetNZ w v (reg_set kReg w v (InternalOp_n 2 s))))
      }),
      Disassemble = fixed_disassemble mn 1\<rparr>"

definition PLA :: "width \<Rightarrow> 'd op" where
  "PLA w = OpPop 0x68 ''PLA'' RA w"

definition PLD :: "'d op" where
  "PLD = OpPop 0x2B ''PLD'' RD W16"

definition PLX :: "width \<Rightarrow> 'd op" where
  "PLX w = OpPop 0xFA ''PLX'' RX w"

text \<open>The source gives \<open>PLY\<close> the mnemonic of \<open>PHY\<close>.\<close>

definition PLY :: "width \<Rightarrow> 'd op" where
  "PLY w = OpPop 0x7A ''PHY'' RY w"

definition PHP :: "'d op" where
  "PHP = \<lparr>opcode = 0x8, kBytes = 1, kMnemonic = ''PHP'', kParamFormat = '''', op_jit = [J_end],
     Exec = (\<lambda>io s. do {
       (_, s) \<leftarrow> Push8 io (GetStatusRegister s) s;
       ret (advance_ip 1 (InternalOp s))
     }),
     Disassemble = fixed_disassemble ''PHP'' 1\<rparr>"

definition PLP :: "'d op" where
  "PLP = \<lparr>opcode = 0x28, kBytes = 1, kMnemonic = ''PLP'', kParamFormat = '''', op_jit = [J_end],
     Exec = (\<lambda>io s. do {
       (v, s) \<leftarrow> PopOld8 io s;
       ret (SetStatusRegister v (advance_ip 1 (InternalOp_n 2 s)))
     }),
     Disassemble = fixed_disassemble ''PLP'' 1\<rparr>"

definition PHK :: "'d op" where
  "PHK = \<lparr>opcode = 0x4B, kBytes = 1, kMnemonic = ''PHK'', kParamFormat = '''', op_jit = [J_end],
     Exec = (\<lambda>io s. do {
       (_, s) \<leftarrow> Push8 io (ucast (drop_bit 16 (code_segment_base s))) s;
       ret (advance_ip 1 (InternalOp s))
     }),
     Disassemble = fixed_disassemble ''PHK'' 1\<rparr>"

definition PHB :: "'d op" where
  "PHB = \<lparr>opcode = 0x8B, kBytes = 1, kMnemonic = ''PHB'', kParamFormat = '''', op_jit = [J_end],
     Exec = (\<lambda>io s. do {
       (_, s) \<leftarrow> Push8 io (ucast (drop_bit 16 (data_segment_base s))) s;
       ret (advance_ip 1 s)
     }),
     Disassemble = fixed_disassemble ''PHB'' 1\<rparr>"

definition PLB :: "'d op" where
  "PLB = \<lparr>opcode = 0xAB, kBytes = 1, kMnemonic = ''PLB'', kParamFormat = '''', op_jit = [J_end],
     Exec = (\<lambda>io s. do {
       (v, s) \<leftarrow> Pop8 io s;
       (let s = s\<lparr>data_segment_base := push_bit 16 (ucast v)\<rparr>
        in ret (advance_ip 1 (SetNZ W8 (ucast v) (InternalOp_n 2 s))))
     }),
     Disassemble = fixed_disassemble ''PLB'' 1\<rparr>"

section \<open>Jumps, calls and returns\<close>

definition OpJmp ::
  "'d addr_mode \<Rightarrow> u8 \<Rightarrow> string \<Rightarrow> bool \<Rightarrow> u32 \<Rightarrow> bool \<Rightarrow> 'd op" where
  "OpJmp m opc mn push_pc kInternalCycles is_long_jump =
     (let n = 3 + (if is_long_jump then 1 else 0) in
      \<lparr>opcode = opc, kBytes = n, kMnemonic = mn, kParamFormat = kFormat m, op_jit = [J_end],
       Exec = (\<lambda>io s. do {
         (addr, s) \<leftarrow> CalcEffectiveAddress m io s;
         (_, s) \<leftarrow> (if push_pc then do {
             (_, s) \<leftarrow> (if is_long_jump
                        then Push8 io (ucast (drop_bit 16 (code_segment_base s))) s
                        else ret s);
             Push16 io (cast W16 (ip s + of_nat n - 1)) s
           }
           else ret s);
         (let s = (if is_long_jump then s\<lparr>code_segment_base := addr AND 0xFF0000\<rparr> else s)
          in ret ((InternalOp_n kInternalCycles s)\<lparr>ip := addr\<rparr>))
       }),
       Disassemble = mode_disassemble m mn n\<rparr>)"

text \<open>The addressing modes of jumps have only a format, an address and a text.\<close>

definition jmp_mode ::
  "string \<Rightarrow> ('d io \<Rightarrow> 'd machine \<Rightarrow> ('d, u32) result) \<Rightarrow>
    ('d io \<Rightarrow> u32 \<Rightarrow> string \<Rightarrow> 'd machine \<Rightarrow> ('d, string) result) \<Rightarrow> 'd addr_mode" where
  "jmp_mode fmt ea dis =
     \<lparr>am_A = W8, am_XY = W8, kMaybeHasConditionalCycle = False, kFormat = fmt, op_bits = 0,
      Bytes = 0, CalcEffectiveAddress = ea,
      am_Read = (\<lambda>io w s. no_member), am_Write = (\<lambda>io w v s. no_member),
      am_Modify = (\<lambda>io fn s. no_member), am_Disassemble = dis,
      am_EffAddr = (\<lambda>reg. []), am_ReadOp = (\<lambda>reg. []), am_WriteOp = (\<lambda>reg. [])\<rparr>"

definition JmpAddrModeInd :: "bool \<Rightarrow> bool \<Rightarrow> 'd addr_mode" where
  "JmpAddrModeInd is_long emulation_wrap_addr =
     jmp_mode ''(%X)''
       (\<lambda>io s. do {
          (v, s) \<leftarrow> ReadPBR io W16 (ip s + 1) s;
          (new_pc, s) \<leftarrow> (if emulation_wrap_addr then do {
              (lo, s) \<leftarrow> ReadZero io W8 v s;
              (hi, s) \<leftarrow> ReadZero io W8 ((v AND 0xFF00) OR ((v + 1) AND 0xFF)) s;
              Some (le16 (ucast lo) (ucast hi), s)
            }
            else ReadZero io W16 v s);
          (if is_long then do {
             (bank, s) \<leftarrow> ReadZero io W8 (v + 2) s;
             Some (new_pc + push_bit 16 bank, s)
           }
           else Some (new_pc, s))
        })
       (\<lambda>io addr mnemonic s. do {
          (v, s) \<leftarrow> PeekU16 io (addr + 1) s;
          Some (mnemonic @ '' ($'' @ hex_pad 6 (unat v) @ '')'', s)
        })"

definition JmpAddrModeIndAbsX :: "'d addr_mode" where
  "JmpAddrModeIndAbsX =
     jmp_mode ''(%X,X)''
       (\<lambda>io s. do {
          (v, s) \<leftarrow> ReadPBR io W16 (ip s + 1) s;
          ReadPBR io W16 (v + ucast (regs_x s)) s
        })
       (\<lambda>io addr mnemonic s. do {
          (v, s) \<leftarrow> PeekU16 io (addr + 1) s;
          Some (mnemonic @ '' ($'' @ hex_pad 6 (unat v) @ ''), X'', s)
        })"

definition OpRts :: "u8 \<Rightarrow> string \<Rightarrow> bool \<Rightarrow> u32 \<Rightarrow> 'd op" where
  "OpRts opc mn is_long kInternalCycles =
     \<lparr>opcode = opc, kBytes = 1, kMnemonic = mn, kParamFormat = '''', op_jit = [J_end],
      Exec = (\<lambda>io s. do {
        (v, s) \<leftarrow> Pop16 io s;
        s \<leftarrow> Some (s\<lparr>ip := v + 1\<rparr>);
        (_, s) \<leftarrow> (if is_long then do {
            (p, s) \<leftarrow> Pop8 io s;
            ret (s\<lparr>code_segment_base := push_bit 16 (ucast p)\<rparr>)
          }
          else ret s);
        ret (InternalOp_n kInternalCycles s)
      }),
      Disassemble = fixed_disassemble mn 1\<rparr>"

definition JMP_ABS :: "'d op" where
  "JMP_ABS = OpJmp (AddrAbs W8 W8) 0x4C ''JMP'' False 0 False"

definition JMP_LONG :: "'d op" where
  "JMP_LONG = OpJmp (AddrAbsLong W8 W8) 0x5C ''JMP'' False 0 True"

definition JMP_INDABS :: "'d op" where
  "JMP_INDABS = OpJmp (JmpAddrModeInd False False) 0x6C ''JMP'' False 0 False"

definition JMP_INDABS_LEGACY :: "'d op" where
  "JMP_INDABS_LEGACY = OpJmp (JmpAddrModeInd False True) 0x6C ''JMP'' False 0 False"

definition JMP_INDABSX :: "'d op" where
  "JMP_INDABSX = OpJmp JmpAddrModeIndAbsX 0x7C ''JMP'' False 0 False"

definition JMP_INDLONG :: "'d op" where
  "JMP_INDLONG = OpJmp (JmpAddrModeInd True False) 0xDC ''JMP'' False 0 True"

definition JSR_ABS :: "'d op" where
  "JSR_ABS = OpJmp (AddrAbs W8 W8) 0x20 ''JSR'' True 1 False"

definition JSR_LONG :: "'d op" where
  "JSR_LONG = OpJmp (AddrAbsLong W8 W8) 0x22 ''JSR'' True 1 True"

definition JSR_INDABSX :: "'d op" where
  "JSR_INDABSX = OpJmp JmpAddrModeIndAbsX 0xFC ''JSR'' True 1 False"

definition RTS :: "'d op" where
  "RTS = OpRts 0x60 ''RTS'' False 3"

definition RTL :: "'d op" where
  "RTL = OpRts 0x6B ''RTL'' True 2"

definition RTI :: "'d op" where
  "RTI = \<lparr>opcode = 0x40, kBytes = 1, kMnemonic = ''RTI'', kParamFormat = '''', op_jit = [J_end],
     Exec = (\<lambda>io s. do {
       (flags, s) \<leftarrow> Pop8 io s;
       s \<leftarrow> Some (SetStatusRegister flags s);
       (pc, s) \<leftarrow> Pop16 io s;
       s \<leftarrow> Some ((InternalOp_n 2 s)\<lparr>ip := pc\<rparr>);
       (if \<not> mode_emulation s then do {
          (bank, s) \<leftarrow> Pop8 io s;
          ret (s\<lparr>code_segment_base := push_bit 16 (ucast bank)\<rparr>)
        }
        else ret s)
     }),
     Disassemble = fixed_disassemble ''RTI'' 1\<rparr>"

section \<open>Branches\<close>

definition GetOffset :: "u32 \<Rightarrow> u32" where
  "GetOffset offset = (if offset AND 0x80 \<noteq> 0 then offset OR 0xFF00 else offset)"

definition CondBranch :: "u8 \<Rightarrow> string \<Rightarrow> ('d machine \<Rightarrow> bool) \<Rightarrow> 'd op" where
  "CondBranch opc mn DoBranch =
     \<lparr>opcode = opc, kBytes = 2, kMnemonic = mn, kParamFormat = ''%X'', op_jit = [J_end],
      Exec = (\<lambda>io s. do {
        (offset, s) \<leftarrow> ReadPBR io W8 (ip s + 1) s;
        (let s = (if DoBranch s
                  then (InternalOp s)\<lparr>ip := ip s + GetOffset offset\<rparr> else s)
         in ret (advance_ip 2 s))
      }),
      Disassemble = (\<lambda>io addr s. do {
        (v, s) \<leftarrow> PeekU8 io (addr + 1) s;
        (let offset = ucast v;
             target = cast W16 (addr + 2 + GetOffset offset)
         in Some ((mn @ '' '' @ hex_pad 2 (unat offset) @ '' ($'' @ hex_pad 4 (unat target) @ '' '' @
                   (if DoBranch s then ''+'' else ''-'') @ '')'', addr + 2), s))
      })\<rparr>"

definition BCC :: "'d op" where
  "BCC = CondBranch 0x90 ''BCC'' (\<lambda>s. carry s AND 2 = 0)"

definition BCS :: "'d op" where
  "BCS = CondBranch 0xB0 ''BCS'' (\<lambda>s. carry s AND 2 \<noteq> 0)"

definition BEQ :: "'d op" where
  "BEQ = CondBranch 0xF0 ''BEQ'' (\<lambda>s. zero_flag s = 0)"

definition BMI :: "'d op" where
  "BMI = CondBranch 0x30 ''BMI'' (\<lambda>s. negative_flag s AND 1 \<noteq> 0)"

definition BNE :: "'d op" where
  "BNE = CondBranch 0xD0 ''BNE'' (\<lambda>s. zero_flag s \<noteq> 0)"

definition BPL :: "'d op" where
  "BPL = CondBranch 0x10 ''BPL'' (\<lambda>s. negative_flag s AND 1 = 0)"

definition BRA :: "'d op" where
  "BRA = CondBranch 0x80 ''BRA'' (\<lambda>s. True)"

definition BVC :: "'d op" where
  "BVC = CondBranch 0x50 ''BVC'' (\<lambda>s. other_flags s AND 0x40 = 0)"

text \<open>The source gives \<open>BVS\<close> the mnemonic of \<open>BCS\<close>.\<close>

definition BVS :: "'d op" where
  "BVS = CondBranch 0x70 ''BCS'' (\<lambda>s. other_flags s AND 0x40 \<noteq> 0)"

definition BRL :: "'d op" where
  "BRL = \<lparr>opcode = 0x82, kBytes = 3, kMnemonic = ''BRL'', kParamFormat = ''%X'', op_jit = [J_end],
     Exec = (\<lambda>io s. do {
       (offset, s) \<leftarrow> ReadPBR io W16 (ip s + 1) s;
       ret (s\<lparr>ip := ip s + (offset + 3)\<rparr>)
     }),
     Disassemble = text_disassemble ''BRL $'' W16 3\<rparr>"

section \<open>Block moves and exchanges\<close>

text \<open>The operand word of a block move: its high byte is the source bank.\<close>

definition block_disassemble ::
  "string \<Rightarrow> 'd io \<Rightarrow> u32 \<Rightarrow> 'd machine \<Rightarrow> ('d, string \<times> u32) result" where
  "block_disassemble mn io addr s = do {
     (b1, s) \<leftarrow> PeekU8 io (addr + 1) s;
     (b2, s) \<leftarrow> PeekU8 io (addr + 2) s;
     Some ((mn @ '' #$'' @ hex_pad 2 (unat b1) @ '',#$'' @ hex_pad 2 (unat b2), addr + 3), s)
   }"

definition MVN :: "'d op" where
  "MVN = \<lparr>opcode = 0x54, kBytes = 3, kMnemonic = ''MVN'', kParamFormat = ''%X,%X'', op_jit = [J_end],
     Exec = (\<lambda>io s. do {
       (arg, s) \<leftarrow> ReadPBR io W16 (ip s + 1) s;
       (done, s) \<leftarrow> BlockMove io (drop_bit 8 arg) (cast W8 arg) 1 s;
       ret (if done then advance_ip 3 s else s)
     }),
     Disassemble = block_disassemble ''MVN''\<rparr>"

definition MVP :: "'d op" where
  "MVP = \<lparr>opcode = 0x44, kBytes = 3, kMnemonic = ''MVP'', kParamFormat = ''%X,%X'', op_jit = [J_end],
     Exec = (\<lambda>io s. do {
       (arg, s) \<leftarrow> ReadPBR io W16 (ip s + 1) s;
       (done, s) \<leftarrow> BlockMove io (drop_bit 8 arg) (cast W8 arg) 0xFFFF s;
       ret (if done then advance_ip 3 s else s)
     }),
     Disassemble = block_disassemble ''MVP''\<rparr>"

definition XBA :: "'d op" where
  "XBA = \<lparr>opcode = 0xEB, kBytes = 1, kMnemonic = ''XBA'', kParamFormat = '''', op_jit = [J_end],
     Exec = (\<lambda>io s.
       let s = advance_ip 1 s;
           s = s\<lparr>regs_a := set_hi8 (lo8 (regs_a s)) (set_lo8 (hi8 (regs_a s)) (regs_a s))\<rparr>
       in ret (SetNZ W8 (ucast (lo8 (regs_a s))) s)),
     Disassemble = fixed_disassemble ''XBA'' 1\<rparr>"

definition XCE :: "'d op" where
  "XCE = \<lparr>opcode = 0xFB, kBytes = 1, kMnemonic = ''XCE'', kParamFormat = '''', op_jit = [J_end],
     Exec = (\<lambda>io s.
       let s = advance_ip 1 s
       in if (carry s AND 2 \<noteq> 0) = mode_emulation s then ret s
          else ret (OnUpdateMode (s\<lparr>mode_emulation := \<not> mode_emulation s\<rparr>))),
     Disassemble = fixed_disassemble ''XCE'' 1\<rparr>"

section \<open>Other control\<close>

definition OpNOPImpl :: "u32 \<Rightarrow> nat \<Rightarrow> 'd op" where
  "OpNOPImpl n b =
     \<lparr>opcode = 0xEA, kBytes = b, kMnemonic = ''NOP'', kParamFormat = '''', op_jit = [J_end],
      Exec = (\<lambda>io s. ret (advance_ip b (InternalOp_n n s))),
      Disassemble = fixed_disassemble ''NOP'' b\<rparr>"

definition OpNOP :: "'d op" where
  "OpNOP = OpNOPImpl 1 1"

definition OpWDM :: "'d op" where
  "OpWDM = \<lparr>opcode = 0x42, kBytes = 2, kMnemonic = ''WDM'', kParamFormat = '''', op_jit = [J_end],
     Exec = (\<lambda>io s. ret (advance_ip 2 s)),
     Disassemble = fixed_disassemble ''WDM'' 2\<rparr>"

definition PEA :: "'d op" where
  "PEA = \<lparr>opcode = 0xF4, kBytes = 3, kMnemonic = ''PEA'', kParamFormat = ''#%X'', op_jit = [J_end],
     Exec = (\<lambda>io s. do {
       (v, s) \<leftarrow> ReadPBR io W16 (ip s + 1) s;
       (_, s) \<leftarrow> Push16 io v s;
       ret (advance_ip 3 s)
     }),
     Disassemble = text_disassemble ''PEA #$'' W16 3\<rparr>"

definition PEI :: "'d op" where
  "PEI = \<lparr>opcode = 0xD4, kBytes = 2, kMnemonic = ''PEI'', kParamFormat = ''%X'', op_jit = [J_end],
     Exec = (\<lambda>io s. do {
       (addr, s) \<leftarrow> am_Read (AddrDirect W16 W16 False) io W16 s;
       Push16 io addr (advance_ip 2 s)
     }),
     Disassemble = text_disassemble ''PEI $'' W16 2\<rparr>"

definition PER :: "'d op" where
  "PER = \<lparr>opcode = 0x62, kBytes = 3, kMnemonic = ''PER'', kParamFormat = ''%X'', op_jit = [J_end],
     Exec = (\<lambda>io s. do {
       (v, s) \<leftarrow> ReadPBR io W16 (ip s + 1) s;
       (let s = advance_ip 3 s in Push16 io (cast W16 (v + ip s)) s)
     }),
     Disassemble = text_disassemble ''PER '' W16 3\<rparr>"

definition WAI :: "'d op" where
  "WAI = \<lparr>opcode = 0xCB, kBytes = 1, kMnemonic = ''WAI'', kParamFormat = '''', op_jit = [J_end],
     Exec = (\<lambda>io s. ret (cpu_WAI (advance_ip 1 s))),
     Disassemble = fixed_disassemble ''WAI'' 1\<rparr>"

definition STP :: "'d op" where
  "STP = \<lparr>opcode = 0xCB, kBytes = 1, kMnemonic = ''STP'', kParamFormat = '''', op_jit = [J_end],
     Exec = (\<lambda>io s. ret (cpu_STP (advance_ip 1 s))),
     Disassemble = fixed_disassemble ''STP'' 1\<rparr>"

definition BRK :: "'d op" where
  "BRK = \<lparr>opcode = 0x00, kBytes = 2, kMnemonic = ''BRK'', kParamFormat = '''', op_jit = [J_end],
     Exec = (\<lambda>io s. DoInterrupt io INT_BRK (advance_ip 2 s)),
     Disassemble = fixed_disassemble ''BRK'' 2\<rparr>"

definition COP :: "'d op" where
  "COP = \<lparr>opcode = 0x02, kBytes = 2, kMnemonic = ''COP'', kParamFormat = '''', op_jit = [J_end],
     Exec = (\<lambda>io s. DoInterrupt io INT_COP (advance_ip 2 s)),
     Disassemble = fixed_disassemble ''COP'' 2\<rparr>"

section \<open>NMOS 6502 opcodes (namespace \<open>n6502\<close>)\<close>

definition n6502_NOP :: "u32 \<Rightarrow> nat \<Rightarrow> 'd op" where
  "n6502_NOP n b = OpNOPImpl n b"

definition ALR :: "'d op" where
  "ALR = \<lparr>opcode = 0x4B, kBytes = 2, kMnemonic = ''ALR'', kParamFormat = '''', op_jit = [J_end],
     Exec = (\<lambda>io s. do {
       (v, s) \<leftarrow> ReadPBR io W8 (ip s) s;
       (let s = reg_set RA W8 (reg_get RA W8 s AND v) s;
            s = Lsr_SetFlags (reg_get RA W8 s) s;
            s = reg_set RA W8 (drop_bit 1 (reg_get RA W8 s)) s
        in ret (advance_ip 2 s))
     }),
     Disassemble = fixed_disassemble ''ALR'' 2\<rparr>"

definition ANC :: "'d op" where
  "ANC = \<lparr>opcode = 0x0B, kBytes = 2, kMnemonic = ''ANC'', kParamFormat = '''', op_jit = [J_end],
     Exec = (\<lambda>io s. do {
       (v, s) \<leftarrow> ReadPBR io W8 (ip s) s;
       (let s = reg_set RA W8 (reg_get RA W8 s AND v) s;
            s = SetNZ W8 (reg_get RA W8 s) s
        in ret (advance_ip 2 (s\<lparr>carry := push_bit 1 (negative_flag s)\<rparr>)))
     }),
     Disassemble = fixed_disassemble ''ANC'' 2\<rparr>"

definition LAX :: "'d addr_mode \<Rightarrow> 'd op" where
  "LAX m =
     \<lparr>opcode = 0x0B, kBytes = kBytes (LDA m), kMnemonic = ''LAX'', kParamFormat = kFormat m,
      op_jit = [J_end],
      Exec = (\<lambda>io s. do {
        (_, s) \<leftarrow> Exec (LDA m) io s;
        ret (reg_set RX W8 (reg_get RA W8 s) s)
      }),
      Disassemble = fixed_disassemble ''LAX'' (kBytes (LDA m))\<rparr>"

definition SAX :: "'d addr_mode \<Rightarrow> 'd op" where
  "SAX m =
     \<lparr>opcode = 0x0B, kBytes = kBytes (STA m), kMnemonic = ''SAX'', kParamFormat = kFormat m,
      op_jit = [J_end],
      Exec = (\<lambda>io s.
        let old = reg_get RA W8 s;
            s = reg_set RA W8 (reg_get RA W8 s AND reg_get RX W8 s) s
        in do {
          (_, s) \<leftarrow> Exec (STA m) io s;
          ret (reg_set RA W8 old s)
        }),
      Disassemble = fixed_disassemble ''SAX'' (kBytes (STA m))\<rparr>"

end
