(* ===== verification/Op_Tables.thy ===== *)
theory Op_Tables
  imports Instr_Flow
begin

text \<open>
  The instruction tables (cpu_65c816_ops.inl, cpu_65c816_ops_native.inl).  The source includes the
  same table files once per array (\<open>exec_ops\<close>, \<open>jit_ops\<close>, \<open>mnemonics\<close>, \<open>formats\<close>, \<open>sizes\<close>,
  \<open>disassemble_fns\<close>), each time selecting one member of the instruction; here a table holds the
  instruction itself and the arrays are its members.  \<open>NYI()\<close>, a null entry, is \<open>None\<close>.
\<close>

text \<open>The four native tables: one file, included at each pair of widths.\<close>

definition ops_native :: "width \<Rightarrow> width \<Rightarrow> 'd op list" where
  "ops_native A XY =
    [BRK, OpOr (AddrDirectIndirectX A XY False), COP, OpOr (AddrStack A XY),
     OpTsb (AddrDirect A XY False), OpOr (AddrDirect A XY False), OpAsl (AddrDirect A XY False),
     OpOr (AddrDirectIndirectLong A XY),
     PHP, OpOr (AddrImm A XY A), OpAsl (AddrA A XY), PHD,
     OpTsb (AddrAbs A XY), OpOr (AddrAbs A XY), OpAsl (AddrAbs A XY), OpOr (AddrAbsLong A XY),
     BPL, OpOr (AddrDirectIndirectY A XY True False), OpOr (AddrDirectIndirect A XY),
     OpOr (AddrStackY A XY),
     OpTrb (AddrDirect A XY False), OpOr (AddrDirectX A XY False), OpAsl (AddrDirectX A XY False),
     OpOr (AddrDirectIndirectLongY A XY),
     CLC, OpOr (AddrAbsY A XY True), INA A XY, TCS False,
     OpTrb (AddrAbs A XY), OpOr (AddrAbsX A XY True), OpAsl (AddrAbsX A XY False),
     OpOr (AddrAbsLongX A XY),
     JSR_ABS, OpAnd (AddrDirectIndirectX A XY False), JSR_LONG, OpAnd (AddrStack A XY),
     OpBit (AddrDirect A XY False), OpAnd (AddrDirect A XY False), OpRol (AddrDirect A XY False),
     OpAnd (AddrDirectIndirectLong A XY),
     PLP, OpAnd (AddrImm A XY A), OpRol (AddrA A XY), PLD,
     OpBit (AddrAbs A XY), OpAnd (AddrAbs A XY), OpRol (AddrAbs A XY), OpAnd (AddrAbsLong A XY),
     BMI, OpAnd (AddrDirectIndirectY A XY True False), OpAnd (AddrDirectIndirect A XY),
     OpAnd (AddrStackY A XY),
     OpBit (AddrDirectX A XY False), OpAnd (AddrDirectX A XY False),
     OpRol (AddrDirectX A XY False), OpAnd (AddrDirectIndirectLongY A XY),
     SEC, OpAnd (AddrAbsY A XY True), DEA A XY, TSC A XY,
     OpBit (AddrAbsX A XY True), OpAnd (AddrAbsX A XY True), OpRol (AddrAbsX A XY False),
     OpAnd (AddrAbsLongX A XY),
     RTI, OpXor (AddrDirectIndirectX A XY False), OpWDM, OpXor (AddrStack A XY),
     MVP, OpXor (AddrDirect A XY False), OpLsr (AddrDirect A XY False),
     OpXor (AddrDirectIndirectLong A XY),
     PHA A, OpXor (AddrImm A XY A), OpLsr (AddrA A XY), PHK,
     JMP_ABS, OpXor (AddrAbs A XY), OpLsr (AddrAbs A XY), OpXor (AddrAbsLong A XY),
     BVC, OpXor (AddrDirectIndirectY A XY True False), OpXor (AddrDirectIndirect A XY),
     OpXor (AddrStackY A XY),
     MVN, OpXor (AddrDirectX A XY False), OpLsr (AddrDirectX A XY False),
     OpXor (AddrDirectIndirectLongY A XY),
     CLI, OpXor (AddrAbsY A XY True), PHY XY, TCD A XY,
     JMP_LONG, OpXor (AddrAbsX A XY True), OpLsr (AddrAbsX A XY False), OpXor (AddrAbsLongX A XY),
     RTS, OpAdc (AddrDirectIndirectX A XY False), PER, OpAdc (AddrStack A XY),
     STZ (AddrDirect A XY False), OpAdc (AddrDirect A XY False), OpRor (AddrDirect A XY False),
     OpAdc (AddrDirectIndirectLong A XY),
     PLA A, OpAdc (AddrImm A XY A), OpRor (AddrA A XY), RTL,
     JMP_INDABS, OpAdc (AddrAbs A XY), OpRor (AddrAbs A XY), OpAdc (AddrAbsLong A XY),
     BVS, OpAdc (AddrDirectIndirectY A XY True False), OpAdc (AddrDirectIndirect A XY),
     OpAdc (AddrStackY A XY),
     STZ (AddrDirectX A XY False), OpAdc (AddrDirectX A XY False), OpRor (AddrDirectX A XY False),
     OpAdc (AddrDirectIndirectLongY A XY),
     SEI, OpAdc (AddrAbsY A XY True), PLY XY, TDC A XY,
     JMP_INDABSX, OpAdc (AddrAbsX A XY True), OpRor (AddrAbsX A XY False),
     OpAdc (AddrAbsLongX A XY),
     BRA, STA (AddrDirectIndirectX A XY False), BRL, STA (AddrStack A XY),
     STY (AddrDirect A XY False), STA (AddrDirect A XY False), STX (AddrDirect A XY False),
     STA (AddrDirectIndirectLong A XY),
     DEY A XY, OpBitImm (AddrImm A XY A), TXA A XY, PHB,
     STY (AddrAbs A XY), STA (AddrAbs A XY), STX (AddrAbs A XY), STA (AddrAbsLong A XY),
     BCC, STA (AddrDirectIndirectY A XY False False), STA (AddrDirectIndirect A XY),
     STA (AddrStackY A XY),
     STY (AddrDirectX A XY False), STA (AddrDirectX A XY False), STX (AddrDirectY A XY False),
     STA (AddrDirectIndirectLongY A XY),
     TYA A XY, STA (AddrAbsY A XY False), TXS False, TXY A XY,
     STZ (AddrAbs A XY), STA (AddrAbsX A XY False), STZ (AddrAbsX A XY False),
     STA (AddrAbsLongX A XY),
     LDY (AddrImm A XY XY), LDA (AddrDirectIndirectX A XY False), LDX (AddrImm A XY XY),
     LDA (AddrStack A XY),
     LDY (AddrDirect A XY False), LDA (AddrDirect A XY False), LDX (AddrDirect A XY False),
     LDA (AddrDirectIndirectLong A XY),
     TAY A XY, LDA (AddrImm A XY A), TAX A XY, PLB,
     LDY (AddrAbs A XY), LDA (AddrAbs A XY), LDX (AddrAbs A XY), LDA (AddrAbsLong A XY),
     BCS, LDA (AddrDirectIndirectY A XY True False), LDA (AddrDirectIndirect A XY),
     LDA (AddrStackY A XY),
     LDY (AddrDirectX A XY False), LDA (AddrDirectX A XY False), LDX (AddrDirectY A XY False),
     LDA (AddrDirectIndirectLongY A XY),
     CLV, LDA (AddrAbsY A XY True), TSX A XY, TYX A XY,
     LDY (AddrAbsX A XY True), LDA (AddrAbsX A XY True), LDX (AddrAbsY A XY True),
     LDA (AddrAbsLongX A XY),
     OpCpy (AddrImm A XY XY), OpCmp (AddrDirectIndirectX A XY False), REP, OpCmp (AddrStack A XY),
     OpCpy (AddrDirect A XY False), OpCmp (AddrDirect A XY False),
     OpDecMem (AddrDirect A XY False), OpCmp (AddrDirectIndirectLong A XY),
     INY A XY, OpCmp (AddrImm A XY A), DEX A XY, WAI,
     OpCpy (AddrAbs A XY), OpCmp (AddrAbs A XY), OpDecMem (AddrAbs A XY),
     OpCmp (AddrAbsLong A XY),
     BNE, OpCmp (AddrDirectIndirectY A XY True False), OpCmp (AddrDirectIndirect A XY),
     OpCmp (AddrStackY A XY),
     PEI, OpCmp (AddrDirectX A XY False), OpDecMem (AddrDirectX A XY False),
     OpCmp (AddrDirectIndirectLongY A XY),
     CLD, OpCmp (AddrAbsY A XY True), PHX XY, STP,
     JMP_INDLONG, OpCmp (AddrAbsX A XY True), OpDecMem (AddrAbsX A XY False),
     OpCmp (AddrAbsLongX A XY),
     OpCpx (AddrImm A XY XY), OpSbc (AddrDirectIndirectX A XY False), SEP, OpSbc (AddrStack A XY),
     OpCpx (AddrDirect A XY False), OpSbc (AddrDirect A XY False),
     OpIncMem (AddrDirect A XY False), OpSbc (AddrDirectIndirectLong A XY),
     INX A XY, OpSbc (AddrImm A XY A), OpNOP, XBA,
     OpCpx (AddrAbs A XY), OpSbc (AddrAbs A XY), OpIncMem (AddrAbs A XY),
     OpSbc (AddrAbsLong A XY),
     BEQ, OpSbc (AddrDirectIndirectY A XY True False), OpSbc (AddrDirectIndirect A XY),
     OpSbc (AddrStackY A XY),
     PEA, OpSbc (AddrDirectX A XY False), OpIncMem (AddrDirectX A XY False),
     OpSbc (AddrDirectIndirectLongY A XY),
     SED, OpSbc (AddrAbsY A XY True), PLX XY, XCE,
     JSR_INDABSX, OpSbc (AddrAbsX A XY True), OpIncMem (AddrAbsX A XY False),
     OpSbc (AddrAbsLongX A XY)]"

text \<open>Emulation mode: 8-bit widths, direct page accesses of 6502 instructions wrap.\<close>

definition ops_emulation :: "'d op list" where
  "ops_emulation =
    [BRK, OpOr (AddrDirectIndirectX W8 W8 True), COP, OpOr (AddrStack W8 W8),
     OpTsb (AddrDirect W8 W8 True), OpOr (AddrDirect W8 W8 True), OpAsl (AddrDirect W8 W8 True),
     OpOr (AddrDirectIndirectLong W8 W8),
     PHP, OpOr (AddrImm W8 W8 W8), OpAsl (AddrA W8 W8), PHD,
     OpTsb (AddrAbs W8 W8), OpOr (AddrAbs W8 W8), OpAsl (AddrAbs W8 W8), OpOr (AddrAbsLong W8 W8),
     BPL, OpOr (AddrDirectIndirectY W8 W8 True True), OpOr (AddrDirectIndirect W8 W8),
     OpOr (AddrStackY W8 W8),
     OpTrb (AddrDirect W8 W8 True), OpOr (AddrDirectX W8 W8 True), OpAsl (AddrDirectX W8 W8 True),
     OpOr (AddrDirectIndirectLongY W8 W8),
     CLC, OpOr (AddrAbsY W8 W8 True), INA W8 W8, TCS True,
     OpTrb (AddrAbs W8 W8), OpOr (AddrAbsX W8 W8 True), OpAsl (AddrAbsX W8 W8 False),
     OpOr (AddrAbsLongX W8 W8),
     JSR_ABS, OpAnd (AddrDirectIndirectX W8 W8 True), JSR_LONG, OpAnd (AddrStack W8 W8),
     OpBit (AddrDirect W8 W8 True), OpAnd (AddrDirect W8 W8 True), OpRol (AddrDirect W8 W8 True),
     OpAnd (AddrDirectIndirectLong W8 W8),
     PLP, OpAnd (AddrImm W8 W8 W8), OpRol (AddrA W8 W8), PLD,
     OpBit (AddrAbs W8 W8), OpAnd (AddrAbs W8 W8), OpRol (AddrAbs W8 W8),
     OpAnd (AddrAbsLong W8 W8),
     BMI, OpAnd (AddrDirectIndirectY W8 W8 True True), OpAnd (AddrDirectIndirect W8 W8),
     OpAnd (AddrStackY W8 W8),
     OpBit (AddrDirectX W8 W8 True), OpAnd (AddrDirectX W8 W8 True),
     OpRol (AddrDirectX W8 W8 True), OpAnd (AddrDirectIndirectLongY W8 W8),
     SEC, OpAnd (AddrAbsY W8 W8 True), DEA W8 W8, TSC W8 W8,
     OpBit (AddrAbsX W8 W8 True), OpAnd (AddrAbsX W8 W8 True), OpRol (AddrAbsX W8 W8 False),
     OpAnd (AddrAbsLongX W8 W8),
     RTI, OpXor (AddrDirectIndirectX W8 W8 True), OpWDM, OpXor (AddrStack W8 W8),
     MVP, OpXor (AddrDirect W8 W8 True), OpLsr (AddrDirect W8 W8 True),
     OpXor (AddrDirectIndirectLong W8 W8),
     PHA W8, OpXor (AddrImm W8 W8 W8), OpLsr (AddrA W8 W8), PHK,
     JMP_ABS, OpXor (AddrAbs W8 W8), OpLsr (AddrAbs W8 W8), OpXor (AddrAbsLong W8 W8),
     BVC, OpXor (AddrDirectIndirectY W8 W8 True True), OpXor (AddrDirectIndirect W8 W8),
     OpXor (AddrStackY W8 W8),
     MVN, OpXor (AddrDirectX W8 W8 True), OpLsr (AddrDirectX W8 W8 True),
     OpXor (AddrDirectIndirectLongY W8 W8),
     CLI, OpXor (AddrAbsY W8 W8 True), PHY W8, TCD W8 W8,
     JMP_LONG, OpXor (AddrAbsX W8 W8 True), OpLsr (AddrAbsX W8 W8 False),
     OpXor (AddrAbsLongX W8 W8),
     RTS, OpAdc (AddrDirectIndirectX W8 W8 True), PER, OpAdc (AddrStack W8 W8),
     STZ (AddrDirect W8 W8 True), OpAdc (AddrDirect W8 W8 True), OpRor (AddrDirect W8 W8 True),
     OpAdc (AddrDirectIndirectLong W8 W8),
     PLA W8, OpAdc (AddrImm W8 W8 W8), OpRor (AddrA W8 W8), RTL,
     JMP_INDABS, OpAdc (AddrAbs W8 W8), OpRor (AddrAbs W8 W8), OpAdc (AddrAbsLong W8 W8),
     BVS, OpAdc (AddrDirectIndirectY W8 W8 True True), OpAdc (AddrDirectIndirect W8 W8),
     OpAdc (AddrStackY W8 W8),
     STZ (AddrDirectX W8 W8 True), OpAdc (AddrDirectX W8 W8 True), OpRor (AddrDirectX W8 W8 True),
     OpAdc (AddrDirectIndirectLongY W8 W8),
     SEI, OpAdc (AddrAbsY W8 W8 True), PLY W8, TDC W8 W8,
     JMP_INDABSX, OpAdc (AddrAbsX W8 W8 True), OpRor (AddrAbsX W8 W8 False),
     OpAdc (AddrAbsLongX W8 W8),
     BRA, STA (AddrDirectIndirectX W8 W8 True), BRL, STA (AddrStack W8 W8),
     STY (AddrDirect W8 W8 True), STA (AddrDirect W8 W8 True), STX (AddrDirect W8 W8 True),
     STA (AddrDirectIndirectLong W8 W8),
     DEY W8 W8, OpBitImm (AddrImm W8 W8 W8), TXA W8 W8, PHB,
     STY (AddrAbs W8 W8), STA (AddrAbs W8 W8), STX (AddrAbs W8 W8), STA (AddrAbsLong W8 W8),
     BCC, STA (AddrDirectIndirectY W8 W8 False True), STA (AddrDirectIndirect W8 W8),
     STA (AddrStackY W8 W8),
     STY (AddrDirectX W8 W8 True), STA (AddrDirectX W8 W8 True), STX (AddrDirectY W8 W8 True),
     STA (AddrDirectIndirectLongY W8 W8),
     TYA W8 W8, STA (AddrAbsY W8 W8 False), TXS True, TXY W8 W8,
     STZ (AddrAbs W8 W8), STA (AddrAbsX W8 W8 False), STZ (AddrAbsX W8 W8 False),
     STA (AddrAbsLongX W8 W8),
     LDY (AddrImm W8 W8 W8), LDA (AddrDirectIndirectX W8 W8 True), LDX (AddrImm W8 W8 W8),
     LDA (AddrStack W8 W8),
     LDY (AddrDirect W8 W8 True), LDA (AddrDirect W8 W8 True), LDX (AddrDirect W8 W8 True),
     LDA (AddrDirectIndirectLong W8 W8),
     TAY W8 W8, LDA (AddrImm W8 W8 W8), TAX W8 W8, PLB,
     LDY (AddrAbs W8 W8), LDA (AddrAbs W8 W8), LDX (AddrAbs W8 W8), LDA (AddrAbsLong W8 W8),
     BCS, LDA (AddrDirectIndirectY W8 W8 True True), LDA (AddrDirectIndirect W8 W8),
     LDA (AddrStackY W8 W8),
     LDY (AddrDirectX W8 W8 True), LDA (AddrDirectX W8 W8 True), LDX (AddrDirectY W8 W8 True),
     LDA (AddrDirectIndirectLongY W8 W8),
     CLV, LDA (AddrAbsY W8 W8 True), TSX W8 W8, TYX W8 W8,
     LDY (AddrAbsX W8 W8 True), LDA (AddrAbsX W8 W8 True), LDX (AddrAbsY W8 W8 True),
     LDA (AddrAbsLongX W8 W8),
     OpCpy (AddrImm W8 W8 W8), OpCmp (AddrDirectIndirectX W8 W8 True), REP,
     OpCmp (AddrStack W8 W8),
     OpCpy (AddrDirect W8 W8 True), OpCmp (AddrDirect W8 W8 True),
     OpDecMem (AddrDirect W8 W8 True), OpCmp (AddrDirectIndirectLong W8 W8),
     INY W8 W8, OpCmp (AddrImm W8 W8 W8), DEX W8 W8, WAI,
     OpCpy (AddrAbs W8 W8), OpCmp (AddrAbs W8 W8), OpDecMem (AddrAbs W8 W8),
     OpCmp (AddrAbsLong W8 W8),
     BNE, OpCmp (AddrDirectIndirectY W8 W8 True True), OpCmp (AddrDirectIndirect W8 W8),
     OpCmp (AddrStackY W8 W8),
     PEI, OpCmp (AddrDirectX W8 W8 True), OpDecMem (AddrDirectX W8 W8 True),
     OpCmp (AddrDirectIndirectLongY W8 W8),
     CLD, OpCmp (AddrAbsY W8 W8 True), PHX W8, STP,
     JMP_INDLONG, OpCmp (AddrAbsX W8 W8 True), OpDecMem (AddrAbsX W8 W8 False),
     OpCmp (AddrAbsLongX W8 W8),
     OpCpx (AddrImm W8 W8 W8), OpSbc (AddrDirectIndirectX W8 W8 True), SEP,
     OpSbc (AddrStack W8 W8),
     OpCpx (AddrDirect W8 W8 True), OpSbc (AddrDirect W8 W8 True),
     OpIncMem (AddrDirect W8 W8 True), OpSbc (AddrDirectIndirectLong W8 W8),
     INX W8 W8, OpSbc (AddrImm W8 W8 W8), OpNOP, XBA,
     OpCpx (AddrAbs W8 W8), OpSbc (AddrAbs W8 W8), OpIncMem (AddrAbs W8 W8),
     OpSbc (AddrAbsLong W8 W8),
     BEQ, OpSbc (AddrDirectIndirectY W8 W8 True True), OpSbc (AddrDirectIndirect W8 W8),
     OpSbc (AddrStackY W8 W8),
     PEA, OpSbc (AddrDirectX W8 W8 True), OpIncMem (AddrDirectX W8 W8 True),
     OpSbc (AddrDirectIndirectLongY W8 W8),
     SED, OpSbc (AddrAbsY W8 W8 True), PLX W8, XCE,
     JSR_INDABSX, OpSbc (AddrAbsX W8 W8 True), OpIncMem (AddrAbsX W8 W8 False),
     OpSbc (AddrAbsLongX W8 W8)]"

text \<open>The exact 6502, with its undocumented opcodes where they are implemented.\<close>

definition ops_6502 :: "'d op option list" where
  "ops_6502 =
    [Some BRK, Some (OpOr (AddrDirectIndirectX W8 W8 True)), None, None,
     None, Some (OpOr (AddrDirect W8 W8 True)), Some (OpAsl (AddrDirect W8 W8 True)), None,
     Some PHP, Some (OpOr (AddrImm W8 W8 W8)), Some (OpAsl (AddrA W8 W8)), Some ANC,
     None, Some (OpOr (AddrAbs W8 W8)), Some (OpAsl (AddrAbs W8 W8)), None,
     Some BPL, Some (OpOr (AddrDirectIndirectY W8 W8 True True)), None, None,
     None, Some (OpOr (AddrDirectX W8 W8 True)), Some (OpAsl (AddrDirectX W8 W8 True)), None,
     Some CLC, Some (OpOr (AddrAbsY W8 W8 True)), Some (n6502_NOP 1 1), None,
     None, Some (OpOr (AddrAbsX W8 W8 True)), Some (OpAsl (AddrAbsX W8 W8 False)), None,
     Some JSR_ABS, Some (OpAnd (AddrDirectIndirectX W8 W8 True)), None, None,
     Some (OpBit (AddrDirect W8 W8 True)), Some (OpAnd (AddrDirect W8 W8 True)),
     Some (OpRol (AddrDirect W8 W8 True)), None,
     Some PLP, Some (OpAnd (AddrImm W8 W8 W8)), Some (OpRol (AddrA W8 W8)), None,
     Some (OpBit (AddrAbs W8 W8)), Some (OpAnd (AddrAbs W8 W8)), Some (OpRol (AddrAbs W8 W8)),
     None,
     Some BMI, Some (OpAnd (AddrDirectIndirectY W8 W8 True True)), None, None,
     Some (OpBit (AddrDirectX W8 W8 True)), Some (OpAnd (AddrDirectX W8 W8 True)),
     Some (OpRol (AddrDirectX W8 W8 True)), None,
     Some SEC, Some (OpAnd (AddrAbsY W8 W8 True)), Some (n6502_NOP 1 1), None,
     None, Some (OpAnd (AddrAbsX W8 W8 True)), Some (OpRol (AddrAbsX W8 W8 False)), None,
     Some RTI, Some (OpXor (AddrDirectIndirectX W8 W8 True)), None, None,
     None, Some (OpXor (AddrDirect W8 W8 True)), Some (OpLsr (AddrDirect W8 W8 True)), None,
     Some (PHA W8), Some (OpXor (AddrImm W8 W8 W8)), Some (OpLsr (AddrA W8 W8)), Some ALR,
     Some JMP_ABS, Some (OpXor (AddrAbs W8 W8)), Some (OpLsr (AddrAbs W8 W8)), None,
     Some BVC, Some (OpXor (AddrDirectIndirectY W8 W8 True True)), None, None,
     None, Some (OpXor (AddrDirectX W8 W8 True)), Some (OpLsr (AddrDirectX W8 W8 True)), None,
     Some CLI, Some (OpXor (AddrAbsY W8 W8 True)), Some (n6502_NOP 1 1), None,
     None, Some (OpXor (AddrAbsX W8 W8 True)), Some (OpLsr (AddrAbsX W8 W8 False)), None,
     Some RTS, Some (OpAdc (AddrDirectIndirectX W8 W8 True)), None, None,
     None, Some (OpAdc (AddrDirect W8 W8 True)), Some (OpRor (AddrDirect W8 W8 True)), None,
     Some (PLA W8), Some (OpAdc (AddrImm W8 W8 W8)), Some (OpRor (AddrA W8 W8)), None,
     Some JMP_INDABS_LEGACY, Some (OpAdc (AddrAbs W8 W8)), Some (OpRor (AddrAbs W8 W8)), None,
     Some BVS, Some (OpAdc (AddrDirectIndirectY W8 W8 True True)), None, None,
     None, Some (OpAdc (AddrDirectX W8 W8 True)), Some (OpRor (AddrDirectX W8 W8 True)), None,
     Some SEI, Some (OpAdc (AddrAbsY W8 W8 True)), Some (n6502_NOP 1 1), None,
     None, Some (OpAdc (AddrAbsX W8 W8 True)), Some (OpRor (AddrAbsX W8 W8 False)), None,
     Some (n6502_NOP 1 2), Some (STA (AddrDirectIndirectX W8 W8 True)), Some (n6502_NOP 1 2),
     Some (SAX (AddrDirectIndirectX W8 W8 False)),
     Some (STY (AddrDirect W8 W8 True)), Some (STA (AddrDirect W8 W8 True)),
     Some (STX (AddrDirect W8 W8 True)), Some (SAX (AddrDirect W8 W8 False)),
     Some (DEY W8 W8), None, Some (TXA W8 W8), None,
     Some (STY (AddrAbs W8 W8)), Some (STA (AddrAbs W8 W8)), Some (STX (AddrAbs W8 W8)),
     Some (SAX (AddrAbs W8 W8)),
     Some BCC, Some (STA (AddrDirectIndirectY W8 W8 False True)), None, None,
     Some (STY (AddrDirectX W8 W8 True)), Some (STA (AddrDirectX W8 W8 True)),
     Some (STX (AddrDirectY W8 W8 True)), Some (SAX (AddrDirectY W8 W8 False)),
     Some (TYA W8 W8), Some (STA (AddrAbsY W8 W8 False)), Some (TXS True), None,
     None, Some (STA (AddrAbsX W8 W8 False)), None, None,
     Some (LDY (AddrImm W8 W8 W8)), Some (LDA (AddrDirectIndirectX W8 W8 True)),
     Some (LDX (AddrImm W8 W8 W8)), Some (LAX (AddrDirectIndirectX W8 W8 False)),
     Some (LDY (AddrDirect W8 W8 True)), Some (LDA (AddrDirect W8 W8 True)),
     Some (LDX (AddrDirect W8 W8 True)), Some (LAX (AddrDirect W8 W8 False)),
     Some (TAY W8 W8), Some (LDA (AddrImm W8 W8 W8)), Some (TAX W8 W8), None,
     Some (LDY (AddrAbs W8 W8)), Some (LDA (AddrAbs W8 W8)), Some (LDX (AddrAbs W8 W8)),
     Some (LAX (AddrAbs W8 W8)),
     Some BCS, Some (LDA (AddrDirectIndirectY W8 W8 True True)), None,
     Some (LAX (AddrDirectIndirectY W8 W8 True False)),
     Some (LDY (AddrDirectX W8 W8 True)), Some (LDA (AddrDirectX W8 W8 True)),
     Some (LDX (AddrDirectY W8 W8 True)), Some (LAX (AddrDirectY W8 W8 False)),
     Some CLV, Some (LDA (AddrAbsY W8 W8 True)), Some (TSX W8 W8), None,
     Some (LDY (AddrAbsX W8 W8 True)), Some (LDA (AddrAbsX W8 W8 True)),
     Some (LDX (AddrAbsY W8 W8 True)), Some (LAX (AddrAbsY W8 W8 True)),
     Some (OpCpy (AddrImm W8 W8 W8)), Some (OpCmp (AddrDirectIndirectX W8 W8 True)),
     Some (n6502_NOP 1 2), None,
     Some (OpCpy (AddrDirect W8 W8 True)), Some (OpCmp (AddrDirect W8 W8 True)),
     Some (OpDecMem (AddrDirect W8 W8 True)), None,
     Some (INY W8 W8), Some (OpCmp (AddrImm W8 W8 W8)), Some (DEX W8 W8), None,
     Some (OpCpy (AddrAbs W8 W8)), Some (OpCmp (AddrAbs W8 W8)), Some (OpDecMem (AddrAbs W8 W8)),
     None,
     Some BNE, Some (OpCmp (AddrDirectIndirectY W8 W8 True True)), None, None,
     None, Some (OpCmp (AddrDirectX W8 W8 True)), Some (OpDecMem (AddrDirectX W8 W8 True)), None,
     Some CLD, Some (OpCmp (AddrAbsY W8 W8 True)), Some (n6502_NOP 1 1), None,
     None, Some (OpCmp (AddrAbsX W8 W8 True)), Some (OpDecMem (AddrAbsX W8 W8 False)), None,
     Some (OpCpx (AddrImm W8 W8 W8)), Some (OpSbc (AddrDirectIndirectX W8 W8 True)),
     Some (n6502_NOP 1 2), None,
     Some (OpCpx (AddrDirect W8 W8 True)), Some (OpSbc (AddrDirect W8 W8 True)),
     Some (OpIncMem (AddrDirect W8 W8 True)), None,
     Some (INX W8 W8), Some (OpSbc (AddrImm W8 W8 W8)), Some OpNOP, None,
     Some (OpCpx (AddrAbs W8 W8)), Some (OpSbc (AddrAbs W8 W8)), Some (OpIncMem (AddrAbs W8 W8)),
     None,
     Some BEQ, Some (OpSbc (AddrDirectIndirectY W8 W8 True True)), None, None,
     None, Some (OpSbc (AddrDirectX W8 W8 True)), Some (OpIncMem (AddrDirectX W8 W8 True)), None,
     Some SED, Some (OpSbc (AddrAbsY W8 W8 True)), Some (n6502_NOP 1 1), None,
     None, Some (OpSbc (AddrAbsX W8 W8 True)), Some (OpIncMem (AddrAbsX W8 W8 False)), None]"

text \<open>The array of six tables, in the order of the enumeration \<open>Mode\<close>.\<close>

definition exec_ops :: "'d op option list list" where
  "exec_ops =
     [map Some (ops_native W8 W8), map Some (ops_native W16 W8), map Some (ops_native W8 W16),
      map Some (ops_native W16 W16), map Some ops_emulation, ops_6502]"

text \<open>\<open>exec_ops[mode][opcode]\<close>; outside the array, or at a null entry, there is no instruction.\<close>

definition op_at :: "nat \<Rightarrow> u8 \<Rightarrow> 'd op option" where
  "op_at mode opc =
     (if mode < length (exec_ops :: 'd op option list list)
      then (exec_ops ! mode) ! unat opc else None)"

lemma length_ops_native [simp]: "length (ops_native A XY) = 256"
  by (simp add: ops_native_def)

lemma length_ops_emulation [simp]: "length ops_emulation = 256"
  by (simp add: ops_emulation_def)

lemma length_ops_6502 [simp]: "length ops_6502 = 256"
  by (simp add: ops_6502_def)

lemma length_exec_ops [simp]: "length exec_ops = 6"
  by (simp add: exec_ops_def)

lemma op_at_all:
  assumes "op_at mode opc = Some op"
    and all: "list_all (list_all (pred_option P)) (exec_ops :: 'd op option list list)"
  shows "P (op :: 'd op)"
proof -
  have m: "mode < length (exec_ops :: 'd op option list list)"
    and e: "exec_ops ! mode ! unat opc = Some op"
    using assms by (auto simp: op_at_def split: if_splits)
  have "\<forall>t \<in> set (exec_ops :: 'd op option list list). length t = 256"
    by (simp add: exec_ops_def)
  then have "unat opc < length ((exec_ops :: 'd op option list list) ! mode)"
    using m u8_less [of opc] by simp
  with all m e show ?thesis
    by (metis (no_types, lifting) list_all_length option.pred_inject(2))
qed

end
