(* ===== verification/Cpu65816.thy ===== *)
theory Cpu65816
  imports Op_Tables
begin

text \<open>
  The public operations of \<open>WDC65C816\<close> (cpu_65c816.cc): construction, one instruction, saved
  states, the disassembler, and register access by name.
\<close>

section \<open>Construction and execution\<close>

definition WDC65C816_init :: "'d machine \<Rightarrow> 'd machine" where
  "WDC65C816_init s =
     OnUpdateMode
       (s\<lparr>cycle := 0, zero_flag := 0, negative_flag := 0, interrupts := 0, pending_interrupts := 0,
          carry := 0, other_flags := 0, supports_decimal := True, fast_block_moves := False,
          num_emulated_instructions := 0, internal_cycle_timing := 1, trace_addrs := [],
          trace_write := 0, mode_native_6502 := False, mode_emulation := True,
          mode_long_a := False, mode_long_xy := False, ip_mask := 0xFFFF, cycle_stop := -1\<rparr>)"

text \<open>The circular trace buffer: \<open>addrs[write++] = addr\<close>.\<close>

definition trace_address :: "cpuaddr \<Rightarrow> 'd machine \<Rightarrow> 'd machine option" where
  "trace_address addr s =
     (if trace_addrs s = [] then Some s
      else if trace_write s < length (trace_addrs s) then
        let w = trace_write s + 1 in
        Some (s\<lparr>trace_addrs := (trace_addrs s)[trace_write s := addr],
                trace_write := (if w = length (trace_addrs s) then 0 else w)\<rparr>)
      else None)"

definition EmulateInstruction :: "'d io \<Rightarrow> 'd machine \<Rightarrow> ('d, unit) result" where
  "EmulateInstruction io s =
     (let addr = GetCanonicalAddress s in do {
        s \<leftarrow> trace_address addr s;
        (instruction, s) \<leftarrow> ReadU8 io addr s;
        insn \<leftarrow> op_at (current_instruction_set s) instruction;
        (_, s) \<leftarrow> Exec insn io s;
        Some ((), s\<lparr>num_emulated_instructions := num_emulated_instructions s + 1\<rparr>)
      })"

definition GetJit :: "'d io \<Rightarrow> cpuaddr \<Rightarrow> 'd machine \<Rightarrow> ('d, jit_op list) result" where
  "GetJit io addr s = do {
     (opc, s) \<leftarrow> PeekU8 io addr s;
     insn \<leftarrow> (op_at (unat (cpu_mode s)) opc :: 'd op option);
     Some (op_jit insn, s)
   }"

section \<open>Saved states\<close>

record save_data =
  sd_cycle :: u64
  sd_num_instructions :: u64
  sd_a :: u16
  sd_x :: u16
  sd_y :: u16
  sd_d :: u16
  sd_sp :: u16
  sd_pc :: u16
  sd_dbr :: u8
  sd_pbr :: u8
  sd_flags :: u8
  sd_emulation :: u8
  sd_native6502 :: u8

text \<open>
  The bytes of a \<open>SaveData\<close> object: two 64-bit and six 16-bit little-endian integers, five
  bytes, and padding to the alignment of 8.
\<close>

definition sizeof_SaveData :: nat where
  "sizeof_SaveData = 40"

fun le_bytes :: "nat \<Rightarrow> 'a::len word \<Rightarrow> u8 list" where
  "le_bytes 0 v = []"
| "le_bytes (Suc n) v = ucast v # le_bytes n (drop_bit 8 v)"

fun of_le_bytes :: "u8 list \<Rightarrow> 'a::len word" where
  "of_le_bytes [] = 0"
| "of_le_bytes (b # bs) = ucast b OR push_bit 8 (of_le_bytes bs)"

definition SaveData_to_bytes :: "save_data \<Rightarrow> u8 list" where
  "SaveData_to_bytes d =
     le_bytes 8 (sd_cycle d) @ le_bytes 8 (sd_num_instructions d) @
     le_bytes 2 (sd_a d) @ le_bytes 2 (sd_x d) @ le_bytes 2 (sd_y d) @
     le_bytes 2 (sd_d d) @ le_bytes 2 (sd_sp d) @ le_bytes 2 (sd_pc d) @
     [sd_dbr d, sd_pbr d, sd_flags d, sd_emulation d, sd_native6502 d] @ replicate 7 0"

definition SaveData_of_bytes :: "u8 list \<Rightarrow> save_data" where
  "SaveData_of_bytes bs =
     (let w16 = (\<lambda>i. of_le_bytes (take 2 (drop i bs)) :: u16) in
      \<lparr>sd_cycle = of_le_bytes (take 8 bs), sd_num_instructions = of_le_bytes (take 8 (drop 8 bs)),
       sd_a = w16 16, sd_x = w16 18, sd_y = w16 20, sd_d = w16 22, sd_sp = w16 24, sd_pc = w16 26,
       sd_dbr = bs ! 28, sd_pbr = bs ! 29, sd_flags = bs ! 30, sd_emulation = bs ! 31,
       sd_native6502 = bs ! 32\<rparr>)"

text \<open>The assignments of \<open>SaveState\<close>.\<close>

definition SaveData_of :: "'d machine \<Rightarrow> save_data" where
  "SaveData_of s =
     \<lparr>sd_cycle = cycle s, sd_num_instructions = num_emulated_instructions s,
      sd_a = regs_a s, sd_x = regs_x s, sd_y = regs_y s, sd_d = regs_d s, sd_sp = regs_sp s,
      sd_pc = ucast (ip s AND 0xFFFF),
      sd_dbr = ucast (drop_bit 16 (data_segment_base s)),
      sd_pbr = ucast (drop_bit 16 (code_segment_base s)),
      sd_flags = GetStatusRegister s,
      sd_emulation = (if mode_emulation s then 1 else 0),
      sd_native6502 = (if mode_native_6502 s then 1 else 0)\<rparr>"

text \<open>
  \<open>SaveState\<close> writes through the \<^emph>\<open>value\<close> of the first new byte converted to a pointer (the
  address operator is missing).  \<open>object_at n\<close> is the vector object at the host address \<open>n\<close>, a
  small integer: there is none.
\<close>

definition object_at :: "u8 \<Rightarrow> nat option" where
  "object_at n = None"

definition SaveState :: "u8 list \<Rightarrow> 'd machine \<Rightarrow> (bool \<times> u8 list) option" where
  "SaveState out s =
     (let size = length out;
          out = out @ replicate sizeof_SaveData 0
      in do {
        pos \<leftarrow> object_at (out ! size);
        Some (True, take pos out @ SaveData_to_bytes (SaveData_of s) @
                    drop (pos + sizeof_SaveData) out)
      })"

text \<open>The input is the bytes from \<open>*in_data\<close> to \<open>end\<close>; the rest of them is the new \<open>*in_data\<close>.\<close>

definition LoadState :: "u8 list \<Rightarrow> 'd machine \<Rightarrow> (bool \<times> u8 list) \<times> 'd machine" where
  "LoadState inp s =
     (if length inp < sizeof_SaveData then ((False, inp), s)
      else
        let d = SaveData_of_bytes inp;
            s = s\<lparr>mode_emulation := (sd_emulation d \<noteq> 0), mode_native_6502 := (sd_native6502 d \<noteq> 0)\<rparr>;
            s = OnUpdateMode (SetStatusRegister (sd_flags d) s);
            s = s\<lparr>regs_a := sd_a d, regs_x := sd_x d, regs_y := sd_y d, regs_d := sd_d d,
                  regs_sp := sd_sp d, ip := ucast (sd_pc d),
                  code_segment_base := push_bit 16 (ucast (sd_pbr d)),
                  data_segment_base := push_bit 16 (ucast (sd_dbr d)),
                  cycle := sd_cycle d, num_emulated_instructions := sd_num_instructions d,
                  trace_write := 0, trace_addrs := map (\<lambda>_. 0) (trace_addrs s)\<rparr>
        in ((True, drop sizeof_SaveData inp), s))"

section \<open>Disassembly\<close>

record cpu_instruction =
  ci_canonical_address :: u32
  ci_length :: u32
  ci_bytes :: "u8 list"
  ci_asm_string :: string

record dis_config =
  max_instruction_count :: nat
  include_addr :: bool
  include_bytes :: bool

text \<open>Of the eight elements of \<open>bytes\<close> only the first four are written.\<close>

definition DisassembleOneInstruction ::
  "'d io \<Rightarrow> dis_config \<Rightarrow> u32 \<Rightarrow> 'd machine \<Rightarrow> ('d, cpu_instruction \<times> u32) result" where
  "DisassembleOneInstruction io config canonical_address s = do {
     (opc, s) \<leftarrow> PeekU8 io canonical_address s;
     insn \<leftarrow> op_at (unat (cpu_mode s)) opc;
     ((str, next), s) \<leftarrow> Disassemble insn io canonical_address s;
     (let start = canonical_address; len = next - start in do {
        (b1, s) \<leftarrow> PeekU8 io (start + 1) s;
        (b2, s) \<leftarrow> PeekU8 io (start + 2) s;
        (b3, s) \<leftarrow> PeekU8 io (start + 3) s;
        (let hex2 = (\<lambda>b. hex_pad 2 (unat b) @ '' '');
             addr_str = (if include_addr config then hex_pad 6 (unat start) @ '': '' else '''');
             used = unat (len * 3);
             bytes_str = (if include_bytes config
                          then take used (hex2 opc @ hex2 b1 @ hex2 b2 @ hex2 b3) @
                               replicate (12 - used) (CHR '' '')
                          else '''')
         in Some ((\<lparr>ci_canonical_address = start, ci_length = len, ci_bytes = [opc, b1, b2, b3],
                    ci_asm_string = addr_str @ bytes_str @ str\<rparr>, next), s))
      })
   }"

fun Disassemble_loop ::
  "'d io \<Rightarrow> dis_config \<Rightarrow> nat \<Rightarrow> u32 \<Rightarrow> 'd machine \<Rightarrow> ('d, cpu_instruction list \<times> u32) result" where
  "Disassemble_loop io config 0 addr s = Some (([], addr), s)"
| "Disassemble_loop io config (Suc n) addr s = do {
     ((insn, addr), s) \<leftarrow> DisassembleOneInstruction io config addr s;
     ((insns, addr), s) \<leftarrow> Disassemble_loop io config n addr s;
     Some ((insn # insns, addr), s)
   }"

definition Disassembler_Disassemble ::
  "'d io \<Rightarrow> dis_config \<Rightarrow> u32 \<Rightarrow> 'd machine \<Rightarrow> ('d, cpu_instruction list \<times> u32) result" where
  "Disassembler_Disassemble io config addr s =
     Disassemble_loop io config (max_instruction_count config) addr s"

section \<open>Registers by name\<close>

definition to_lower :: "char \<Rightarrow> char" where
  "to_lower c =
     (let n = of_char c :: nat in if 65 \<le> n \<and> n \<le> 90 then char_of (n + 32) else c)"

definition stricmp_eq :: "string \<Rightarrow> string \<Rightarrow> bool" where
  "stricmp_eq a b \<longleftrightarrow> map to_lower a = map to_lower b"

definition SetRegister :: "string \<Rightarrow> u64 \<Rightarrow> 'd machine \<Rightarrow> bool \<times> 'd machine" where
  "SetRegister reg v s =
     (let is = stricmp_eq reg in
      if is ''ip'' \<or> is ''pc'' then
        let s = s\<lparr>ip := ucast v AND 0xFFFF\<rparr>
        in (True, if 0xFFFF < v then s\<lparr>code_segment_base := ucast (v AND 0xFF0000)\<rparr> else s)
      else if is ''a'' then
        (True, if mode_long_a s then s\<lparr>regs_a := ucast v\<rparr>
               else s\<lparr>regs_a := set_lo8 (ucast v) (regs_a s)\<rparr>)
      else if is ''x'' then
        (True, if mode_long_xy s then s\<lparr>regs_x := ucast v\<rparr>
               else s\<lparr>regs_x := set_lo8 (ucast v) (regs_x s)\<rparr>)
      else if is ''y'' then
        (True, if mode_long_xy s then s\<lparr>regs_y := ucast v\<rparr>
               else s\<lparr>regs_y := set_lo8 (ucast v) (regs_y s)\<rparr>)
      else if \<not> mode_native_6502 s \<and> is ''c'' then (True, s\<lparr>regs_a := ucast v\<rparr>)
      else if \<not> mode_native_6502 s \<and> is ''d'' then (True, s\<lparr>regs_d := ucast v\<rparr>)
      else if is ''sp'' then
        (True, if mode_emulation s then s\<lparr>regs_sp := 0x100 OR ucast (v AND 0xFF)\<rparr>
               else s\<lparr>regs_sp := ucast v\<rparr>)
      else if is ''p'' then (True, SetStatusRegister (ucast v) s)
      else if \<not> mode_native_6502 s \<and> is ''pb'' then
        (True, s\<lparr>code_segment_base := ucast (push_bit 16 v)\<rparr>)
      else if \<not> mode_native_6502 s \<and> is ''db'' then
        (True, s\<lparr>data_segment_base := ucast (push_bit 16 v)\<rparr>)
      else (False, s))"

record debug_reg =
  dr_name :: string
  dr_value :: u64
  dr_size :: u32
  dr_flags :: u32

definition GetDebugRegState :: "'d machine \<Rightarrow> debug_reg list" where
  "GetDebugRegState s =
     (let r = (\<lambda>name v size. \<lparr>dr_name = name, dr_value = v, dr_size = size, dr_flags = 0\<rparr>) in
      [r ''A'' (ucast (regs_a s)) (if mode_long_a s then 2 else 1),
       r ''X'' (ucast (regs_x s)) (if mode_long_xy s then 2 else 1),
       r ''Y'' (ucast (regs_y s)) (if mode_long_xy s then 2 else 1),
       r ''SP'' (ucast (regs_sp s)) (if mode_emulation s then 1 else 2),
       r ''P'' (ucast (GetStatusRegister s)) 1] @
      (if mode_native_6502 s then []
       else [r ''D'' (ucast (regs_d s)) 2,
             r ''PB'' (ucast (drop_bit 16 (code_segment_base s))) 1,
             r ''DB'' (ucast (drop_bit 16 (data_segment_base s))) 1]))"

end
