(* ===== verification/Cpu_Contract.thy ===== *)
theory Cpu_Contract
  imports Cpu65816
begin

text \<open>
  The invariant of the machine and the contract of its I/O callbacks.  \<open>cpu_ok\<close> collects what
  every operation of the CPU relies on; \<open>sys_ok K\<close> adds an invariant \<open>K\<close> of the host blocks, the
  page table, the choice of processor and the devices.  The
  locale \<open>io_contract\<close> states what the CPU needs of the callbacks of \<open>SystemBus::IODevices\<close>, and
  its lemmas show that every primitive operation runs (has no undefined behaviour) and keeps
  \<open>sys_ok K\<close>.
\<close>

section \<open>The invariant\<close>

definition mode_ok :: "'d machine \<Rightarrow> bool" where
  "mode_ok s \<longleftrightarrow>
     (mode_native_6502 s \<longrightarrow> mode_emulation s) \<and>
     (mode_emulation s \<longrightarrow> \<not> mode_long_a s \<and> \<not> mode_long_xy s) \<and>
     cpu_mode s =
       (if mode_native_6502 s then kNative6502
        else if mode_emulation s then kEmulation
        else (if mode_long_a s then 1 else 0) + (if mode_long_xy s then 2 else 0)) \<and>
     current_instruction_set s = unat (cpu_mode s)"

definition bank_ok :: "u32 \<Rightarrow> bool" where
  "bank_ok b \<longleftrightarrow> b AND 0xFF0000 = b"

definition cpu_ok :: "'d machine \<Rightarrow> bool" where
  "cpu_ok s \<longleftrightarrow> bus_ok s \<and> mode_ok s \<and> ip_mask s = 0xFFFF \<and>
     bank_ok (code_segment_base s) \<and> bank_ok (data_segment_base s) \<and>
     (trace_addrs s = [] \<or> trace_write s < length (trace_addrs s))"

definition sys_ok :: "((nat \<Rightarrow> nat) \<Rightarrow> memory_map \<Rightarrow> bool \<Rightarrow> 'd \<Rightarrow> bool) \<Rightarrow> 'd machine \<Rightarrow> bool" where
  "sys_ok K s \<longleftrightarrow> cpu_ok s \<and> K (blk_size (host s)) (memory (sysbus s)) (mode_native_6502 s) (dev s)"

lemmas ok_defs = sys_ok_def cpu_ok_def mode_ok_def bus_ok_def Let_def

lemma bank_ok_simps [simp]:
  "bank_ok 0"
  "bank_ok (push_bit 16 (ucast (b :: u8)))"
  "bank_ok (a AND 0xFF0000)"
  "bank_ok (push_bit 16 (cast W8 v))"
  "bank_ok (push_bit 16 (v AND 0xFF))"
proof -
  have "bit (0xFF0000 :: int) n \<longleftrightarrow> 16 \<le> n \<and> n < 24" for n
  proof -
    have "(0xFF0000 :: int) = push_bit 16 (mask 8)" by (simp add: mask_eq_exp_minus_1)
    then show ?thesis by (simp only: bit_push_bit_iff bit_mask_iff) auto
  qed
  note b = this
  show "bank_ok (push_bit 16 (ucast (b :: u8)))"
    unfolding bank_ok_def
    by (rule bit_word_eqI) (auto simp: bit_simps b dest: bit_imp_le_length)
  show "bank_ok (push_bit 16 (cast W8 v))" "bank_ok (push_bit 16 (v AND 0xFF))"
    unfolding bank_ok_def by (rule bit_word_eqI, auto simp: bit_simps b mask_bits)+
  show "bank_ok 0" "bank_ok (a AND 0xFF0000)"
    by (simp_all add: bank_ok_def and.assoc)
qed

section \<open>Updates that keep it\<close>

lemma sys_ok_updates [simp]:
  "sys_ok K (s\<lparr>cycle := v1\<rparr>) = sys_ok K s"
  "sys_ok K (s\<lparr>cycle_stop := v1\<rparr>) = sys_ok K s"
  "sys_ok K (s\<lparr>event_cycle := v1\<rparr>) = sys_ok K s"
  "sys_ok K (s\<lparr>ip := v2\<rparr>) = sys_ok K s"
  "sys_ok K (s\<lparr>zero_flag := v2\<rparr>) = sys_ok K s"
  "sys_ok K (s\<lparr>negative_flag := v2\<rparr>) = sys_ok K s"
  "sys_ok K (s\<lparr>interrupts := v2\<rparr>) = sys_ok K s"
  "sys_ok K (s\<lparr>pending_interrupts := v2\<rparr>) = sys_ok K s"
  "sys_ok K (s\<lparr>carry := v2\<rparr>) = sys_ok K s"
  "sys_ok K (s\<lparr>other_flags := v2\<rparr>) = sys_ok K s"
  "sys_ok K (s\<lparr>regs_a := v3\<rparr>) = sys_ok K s"
  "sys_ok K (s\<lparr>regs_x := v3\<rparr>) = sys_ok K s"
  "sys_ok K (s\<lparr>regs_y := v3\<rparr>) = sys_ok K s"
  "sys_ok K (s\<lparr>regs_d := v3\<rparr>) = sys_ok K s"
  "sys_ok K (s\<lparr>regs_sp := v3\<rparr>) = sys_ok K s"
  "sys_ok K (s\<lparr>num_emulated_instructions := v1\<rparr>) = sys_ok K s"
  by (simp_all add: ok_defs)

lemma sys_ok_if [simp]: "sys_ok K (if c then s else t) = (if c then sys_ok K s else sys_ok K t)"
  by simp

lemma sys_ok_code_segment [simp]:
  "bank_ok b \<Longrightarrow> sys_ok K s \<Longrightarrow> sys_ok K (s\<lparr>code_segment_base := b\<rparr>)"
  "bank_ok b \<Longrightarrow> sys_ok K s \<Longrightarrow> sys_ok K (s\<lparr>data_segment_base := b\<rparr>)"
  by (simp_all add: ok_defs)

lemma sys_ok_set_open_bus [simp]: "sys_ok K (set_open_bus v s) = sys_ok K s"
  by (simp add: sys_ok_def cpu_ok_def mode_ok_def) (simp add: set_open_bus_def)

lemma sys_ok_host:
  "blk_size h = blk_size (host s) \<Longrightarrow> sys_ok K (s\<lparr>host := h\<rparr>) = sys_ok K s"
  by (simp add: ok_defs)

lemma sys_ok_bus: "sys_ok K s \<Longrightarrow> bus_ok s"
  by (simp add: sys_ok_def cpu_ok_def)

lemma sys_ok_set_reg16 [simp]: "sys_ok K (set_reg16 r v s) = sys_ok K s"
  by (cases r) simp_all

lemma sys_ok_reg_set [simp]: "sys_ok K (reg_set r w v s) = sys_ok K s"
  by (cases w) simp_all

lemma sys_ok_SetNZ [simp]: "sys_ok K (SetNZ w v s) = sys_ok K s"
  by (simp add: SetNZ_def)

lemma sys_ok_InternalOp [simp]:
  "sys_ok K (InternalOp s) = sys_ok K s" "sys_ok K (InternalOp_n n s) = sys_ok K s"
  by (simp_all add: InternalOp_def InternalOp_n_def)

lemma sys_ok_sp [simp]: "sys_ok K (sp_inc s) = sys_ok K s" "sys_ok K (sp_dec s) = sys_ok K s"
  by (simp_all add: sp_inc_def sp_dec_def)

lemma sys_ok_advance_ip [simp]: "sys_ok K (advance_ip n s) = sys_ok K s"
  by (simp add: advance_ip_def)

lemma sys_ok_conditional_cycle [simp]: "sys_ok K (conditional_cycle m s) = sys_ok K s"
  by (simp add: conditional_cycle_def)

text \<open>What \<open>OnUpdateMode\<close> needs: all of the invariant but the mode part, which it establishes.\<close>

lemma OnUpdateMode_mode_ok: "mode_ok (OnUpdateMode s)"
  by (simp add: mode_ok_def OnUpdateMode_def Let_def)

lemma OnUpdateMode_frame [simp]:
  "bus_ok (OnUpdateMode s) = bus_ok s" "ip_mask (OnUpdateMode s) = ip_mask s"
  "code_segment_base (OnUpdateMode s) = code_segment_base s"
  "data_segment_base (OnUpdateMode s) = data_segment_base s"
  "trace_addrs (OnUpdateMode s) = trace_addrs s" "trace_write (OnUpdateMode s) = trace_write s"
  "host (OnUpdateMode s) = host s" "dev (OnUpdateMode s) = dev s"
  "sysbus (OnUpdateMode s) = sysbus s"
  "regs_a (OnUpdateMode s) = regs_a s" "regs_sp (OnUpdateMode s) = regs_sp s"
  "cycle (OnUpdateMode s) = cycle s" "ip (OnUpdateMode s) = ip s"
  "mode_native_6502 (OnUpdateMode s) = mode_native_6502 s"
  by (simp_all add: OnUpdateMode_def Let_def bus_ok_def)

lemma WDC65C816_init_bus [simp]:
  "sysbus (WDC65C816_init s) = sysbus s" "dev (WDC65C816_init s) = dev s"
  "host (WDC65C816_init s) = host s"
  by (simp_all add: WDC65C816_init_def)

lemma sys_ok_OnUpdateMode_flags:
  assumes "sys_ok K s"
  shows "sys_ok K (OnUpdateMode s)"
    and "sys_ok K (OnUpdateMode (s\<lparr>mode_long_a := a\<rparr>))"
    and "sys_ok K (OnUpdateMode (s\<lparr>mode_long_xy := b\<rparr>))"
    and "sys_ok K (OnUpdateMode (s\<lparr>mode_long_a := a, mode_long_xy := b\<rparr>))"
    and "sys_ok K (OnUpdateMode (s\<lparr>mode_long_xy := b, mode_long_a := a\<rparr>))"
    and "sys_ok K (OnUpdateMode (s\<lparr>mode_emulation := e\<rparr>))"
    and "sys_ok K (OnUpdateMode (s\<lparr>mode_emulation := e, mode_long_a := a, mode_long_xy := b\<rparr>))"
  using assms by (simp_all add: sys_ok_def cpu_ok_def OnUpdateMode_mode_ok)
    (simp_all add: bus_ok_def Let_def)

lemma SetStatusRegister_sys_ok:
  "sys_ok K s \<Longrightarrow> sys_ok K (SetStatusRegister v s)"
  by (auto simp: SetStatusRegister_def Let_def sys_ok_OnUpdateMode_flags)

lemma Lsr_SetFlags_sys_ok [simp]: "sys_ok K (Lsr_SetFlags v s) = sys_ok K s"
  by (simp add: Lsr_SetFlags_def)

lemma arith_sys_ok [simp]:
  "sys_ok K (AddDec w v s) = sys_ok K s" "sys_ok K (AddBin w v s) = sys_ok K s"
  "sys_ok K (SubDec w v s) = sys_ok K s" "sys_ok K (SubBin w v s) = sys_ok K s"
  "sys_ok K (DoCmp w r v s) = sys_ok K s"
  by (simp_all add: AddDec_def AddBin_def SubDec_def SubBin_def DoCmp_def Let_def)

section \<open>The contract of the I/O callbacks\<close>

text \<open>
  A callback runs, keeps the invariant, leaves the accumulator alone (the block move counts with
  it), does not turn a 65816 into a 6502, and does not replace the page table by one of another
  length (the bus holds a reference to the page during the call).
\<close>

definition page_count :: "('d, 'm) bus_sys_scheme \<Rightarrow> nat" where
  "page_count s = length (pages (memory (sysbus s)))"

definition io_keeps :: "((nat \<Rightarrow> nat) \<Rightarrow> memory_map \<Rightarrow> bool \<Rightarrow> 'd \<Rightarrow> bool) \<Rightarrow> 'd machine \<Rightarrow> ('d, 'a) result \<Rightarrow> bool" where
  "io_keeps K s m \<longleftrightarrow>
     runs (\<lambda>s'. sys_ok K s' \<and> regs_a s' = regs_a s \<and> page_count s' = page_count s \<and>
       mode_native_6502 s' = mode_native_6502 s) m"

text \<open>The page of \<open>a\<close> hands the access to the callbacks.\<close>

definition io_traps :: "cpuaddr \<Rightarrow> ('d, 'm) bus_sys_scheme \<Rightarrow> bool" where
  "io_traps a s \<longleftrightarrow>
     (\<exists>p. page_at (page_index s a) s = Some p \<and> io_mask p AND a = io_eq p)"

definition io_ok :: "((nat \<Rightarrow> nat) \<Rightarrow> memory_map \<Rightarrow> bool \<Rightarrow> 'd \<Rightarrow> bool) \<Rightarrow> 'd io \<Rightarrow> bool" where
  "io_ok K io \<longleftrightarrow>
     (\<forall>s a v t. sys_ok K s \<longrightarrow>
        (io_traps a s \<longrightarrow> io_keeps K s (io_read io a v s) \<and> io_keeps K s (io_write io a v s)) \<and>
        io_keeps K s (irq_taken io t s))"

lemma page_at_count: "i < page_count s \<Longrightarrow> \<exists>p. page_at i s = Some p"
  by (simp add: page_at_def page_count_def)

lemma page_index_count:
  "sys_ok K s \<Longrightarrow> page_index s (a AND mem_mask (sysbus s)) < page_count s"
  unfolding page_count_def by (intro page_index_less sys_ok_bus)

lemma frame_simps [simp]:
  "regs_a (set_open_bus v s) = regs_a s" "page_count (set_open_bus v s) = page_count s"
  "page_count (s\<lparr>host := h\<rparr>) = page_count s"
  "mode_native_6502 (set_open_bus v s) = mode_native_6502 s"
  by (simp_all add: set_open_bus_def page_count_def)

text \<open>The number of bytes a block move has left: the accumulator plus one, or none at \<open>0xFFFF\<close>.\<close>

lemma move_left_dec: "a \<noteq> 0xFFFF \<Longrightarrow> unat (a - 1 + 1 :: u16) < unat (a + 1)"
proof -
  assume a: "a \<noteq> 0xFFFF"
  have "1 + a \<noteq> 0"
  proof
    assume "1 + a = 0"
    then have "a = - 1" by (metis add_eq_0_iff)
    with a show False by simp
  qed
  then have "unat (1 + a) = Suc (unat a)" by (rule unatSuc)
  then show ?thesis by (simp add: add.commute)
qed

locale io_contract =
  fixes io :: "'d io" and K :: "(nat \<Rightarrow> nat) \<Rightarrow> memory_map \<Rightarrow> bool \<Rightarrow> 'd \<Rightarrow> bool"
  assumes io: "io_ok K io"
begin

lemma io_read_keeps: "sys_ok K s \<Longrightarrow> io_traps a s \<Longrightarrow> io_keeps K s (io_read io a v s)"
  and io_write_keeps: "sys_ok K s \<Longrightarrow> io_traps a s \<Longrightarrow> io_keeps K s (io_write io a v s)"
  and irq_taken_keeps: "sys_ok K s \<Longrightarrow> io_keeps K s (irq_taken io t s)"
  using io by (simp_all add: io_ok_def)

lemmas sys_bind [runs_intros] = runs_bind [where I = "sys_ok K"]

lemma irq_taken_runs [runs_intros]: "sys_ok K s \<Longrightarrow> runs (sys_ok K) (irq_taken io t s)"
  using irq_taken_keeps [of s t] by (auto simp: io_keeps_def elim!: runs_weaken)

lemma ReadByte_keeps:
  assumes "sys_ok K s"
  shows "io_keeps K s (ReadByte io a s)"
proof -
  define s1 where "s1 = (if open_bus_is_data (sysbus s) then s else set_open_bus (ucast (a AND 0xFF)) s)"
  define a1 where "a1 = a AND mem_mask (sysbus s1)"
  have s1: "sys_ok K s1" "regs_a s1 = regs_a s" "page_count s1 = page_count s"
      "mode_native_6502 s1 = mode_native_6502 s"
    using assms by (auto simp: s1_def)
  then obtain p where p: "page_at (page_index s1 a1) s1 = Some p"
    and ok: "page_ok (blk_size (host s1)) (unat (page_size (memory (sysbus s1)))) p"
    unfolding a1_def by (meson page_at_ok sys_ok_bus)
  have i: "page_index s1 a1 < page_count s1"
    unfolding a1_def by (rule page_index_count [OF s1(1)])
  have load: "load_byte (host s1) (ptr_add q (page_offset s1 a1)) =
      Some (blk_data (host s1) (fst q) (snd q + page_offset s1 a1))" if "ptr p = Some q" for q
    using valid_page_ptr [OF sys_ok_bus [OF s1(1)] ok that, of a1]
    by (simp add: load_byte_def ptr_add_def)
  show ?thesis
  proof (cases "io_mask p AND a1 = io_eq p")
    case True
    then have "io_traps a1 s1" using p by (auto simp: io_traps_def)
    then obtain v s2 where r: "io_read io a1 (open_bus (sysbus s1)) s1 = Some (v, s2)"
      and s2: "sys_ok K s2" "regs_a s2 = regs_a s1" "page_count s2 = page_count s1"
        "mode_native_6502 s2 = mode_native_6502 s1"
      using io_read_keeps [OF s1(1), of a1 "open_bus (sysbus s1)"]
      by (auto simp: io_keeps_def elim!: runsE)
    obtain p2 where p2: "page_at (page_index s1 a1) s2 = Some p2"
      using page_at_count [of "page_index s1 a1" s2] i s2(3) by auto
    show ?thesis
      unfolding ReadByte_def io_keeps_def Let_def s1_def [symmetric] a1_def [symmetric]
      using p True r p2 s1 s2 by auto
  next
    case False
    then show ?thesis
      unfolding ReadByte_def io_keeps_def Let_def s1_def [symmetric] a1_def [symmetric]
      using p load s1 by (auto split: option.split)
  qed
qed

lemma WriteByte_keeps:
  assumes "sys_ok K s"
  shows "io_keeps K s (WriteByte io a v s)"
proof -
  define a1 where "a1 = a AND mem_mask (sysbus s)"
  obtain p where p: "page_at (page_index s a1) s = Some p"
    and ok: "page_ok (blk_size (host s)) (unat (page_size (memory (sysbus s)))) p"
    using assms unfolding a1_def by (meson page_at_ok sys_ok_bus)
  have i: "page_index s a1 < page_count s"
    unfolding a1_def by (rule page_index_count [OF assms])
  have store: "\<exists>h. store_byte (ptr_add q (page_offset s a1)) v (host s) = Some h \<and>
      blk_size h = blk_size (host s)" if "ptr p = Some q" for q
    by (rule store_byte_valid, rule valid_page_ptr [OF sys_ok_bus [OF assms] ok that])
  show ?thesis
  proof (cases "io_mask p AND a1 = io_eq p")
    case True
    then have "io_traps a1 s" using p by (auto simp: io_traps_def)
    then obtain s2 where r: "io_write io a1 v s = Some ((), s2)"
      and s2: "sys_ok K s2" "regs_a s2 = regs_a s" "page_count s2 = page_count s"
        "mode_native_6502 s2 = mode_native_6502 s"
      using io_write_keeps [OF assms, of a1 v] by (auto simp: io_keeps_def elim!: runsE)
    obtain p2 where p2: "page_at (page_index s a1) s2 = Some p2"
      using page_at_count [of "page_index s a1" s2] i s2(3) by auto
    show ?thesis
      unfolding WriteByte_def io_keeps_def Let_def a1_def [symmetric]
      using p True r p2 s2 by auto
  next
    case False
    then show ?thesis
      unfolding WriteByte_def io_keeps_def Let_def a1_def [symmetric]
      using p i assms by (auto split: option.split dest: store simp: sys_ok_host)
  qed
qed

section \<open>Primitive operations run\<close>

lemma ReadByte_runs [runs_intros]: "sys_ok K s \<Longrightarrow> runs (sys_ok K) (ReadByte io a s)"
  using ReadByte_keeps [of s a] by (auto simp: io_keeps_def elim!: runs_weaken)

lemma ReadU8_keeps: "sys_ok K s \<Longrightarrow> io_keeps K s (ReadU8 io a s)"
  using ReadByte_keeps [of s a]
  by (auto simp: io_keeps_def ReadU8_def runs_iff page_count_def)

lemma WriteU8_keeps: "sys_ok K s \<Longrightarrow> io_keeps K s (WriteU8 io a v s)"
  using WriteByte_keeps [of s a v]
  by (auto simp: io_keeps_def WriteU8_def runs_iff page_count_def)

lemma ReadU8_runs [runs_intros]: "sys_ok K s \<Longrightarrow> runs (sys_ok K) (ReadU8 io a s)"
  using ReadU8_keeps [of s a] by (auto simp: io_keeps_def elim!: runs_weaken)

lemma WriteU8_runs [runs_intros]: "sys_ok K s \<Longrightarrow> runs (sys_ok K) (WriteU8 io a v s)"
  using WriteU8_keeps [of s a v] by (auto simp: io_keeps_def elim!: runs_weaken)

lemma Peek_runs [runs_intros]:
  "sys_ok K s \<Longrightarrow> runs (sys_ok K) (PeekU8 io a s)"
  "sys_ok K s \<Longrightarrow> runs (sys_ok K) (PeekU16 io a s)"
  by (auto simp: PeekU8_def PeekU16_def intro!: runs_intros)

lemma ReadU16NoCrossBank_runs [runs_intros]:
  "sys_ok K s \<Longrightarrow> runs (sys_ok K) (ReadU16NoCrossBank io b a s)"
  by (auto simp: ReadU16NoCrossBank_def intro!: runs_intros)

lemma Read_runs [runs_intros]:
  "sys_ok K s \<Longrightarrow> runs (sys_ok K) (ReadRaw io w a s)"
  "sys_ok K s \<Longrightarrow> runs (sys_ok K) (ReadPBR io w a s)"
  "sys_ok K s \<Longrightarrow> runs (sys_ok K) (ReadDBR io w a s)"
  "sys_ok K s \<Longrightarrow> runs (sys_ok K) (ReadZero io w a s)"
  by (cases w; auto simp: ReadPBR_def intro!: runs_intros)+

lemma Write8_runs [runs_intros]:
  "sys_ok K s \<Longrightarrow> runs (sys_ok K) (WriteDBR8 io a v s)"
  "sys_ok K s \<Longrightarrow> runs (sys_ok K) (WriteZero8 io a v s)"
  by (auto simp: WriteDBR8_def WriteZero8_def intro!: runs_intros)

lemma Write_runs [runs_intros]:
  "sys_ok K s \<Longrightarrow> runs (sys_ok K) (WriteRaw io w a v s)"
  "sys_ok K s \<Longrightarrow> runs (sys_ok K) (WriteDBR io w a v s)"
  "sys_ok K s \<Longrightarrow> runs (sys_ok K) (WriteZero io w a v s)"
  by (cases w; auto intro!: runs_intros)+

lemma Push8_runs [runs_intros]: "sys_ok K s \<Longrightarrow> runs (sys_ok K) (Push8 io v8 s)"
  and Pop8_runs [runs_intros]: "sys_ok K s \<Longrightarrow> runs (sys_ok K) (Pop8 io s)"
  and PopOld8_runs [runs_intros]: "sys_ok K s \<Longrightarrow> runs (sys_ok K) (PopOld8 io s)"
  by (auto simp: Push8_def Pop8_def PopOld8_def intro!: runs_intros simp del: ReadZero.simps)

lemma Push16_runs [runs_intros]: "sys_ok K s \<Longrightarrow> runs (sys_ok K) (Push16 io v s)"
  and Pop16_runs [runs_intros]: "sys_ok K s \<Longrightarrow> runs (sys_ok K) (Pop16 io s)"
  by (auto simp: Push16_def Pop16_def intro!: runs_intros)

lemma stack_runs [runs_intros]:
  "sys_ok K s \<Longrightarrow> runs (sys_ok K) (Push io w v s)"
  "sys_ok K s \<Longrightarrow> runs (sys_ok K) (Pop io w s)"
  "sys_ok K s \<Longrightarrow> runs (sys_ok K) (PopOld io w s)"
  by (cases w; auto simp: PopOld16_def intro!: runs_intros)+

section \<open>Block moves return\<close>

lemma block_move_byte_keeps:
  assumes "sys_ok K s"
  shows "runs (\<lambda>s'. sys_ok K s' \<and> regs_a s' = regs_a s - 1) (block_move_byte io sb db inc s)"
proof -
  let ?s = "s\<lparr>regs_x := regs_x s + inc, regs_y := regs_y s + inc, regs_a := regs_a s - 1\<rparr>"
  from assms have "sys_ok K ?s" by simp
  from ReadU8_keeps [OF this, of "sb OR ucast (regs_x s)"]
  obtain b s1 where r: "ReadU8 io (sb OR ucast (regs_x s)) ?s = Some (b, s1)"
    and s1: "sys_ok K s1" "regs_a s1 = regs_a s - 1"
    by (auto simp: io_keeps_def elim!: runsE)
  from WriteU8_keeps [OF s1(1), of "db OR ucast (regs_y s)" b] s1(2) r show ?thesis
    by (auto simp: block_move_byte_def Let_def io_keeps_def runs_iff)
qed

lemma FastBlockMove_loop_runs:
  "sys_ok K s \<Longrightarrow>
    runs (\<lambda>s'. sys_ok K s' \<and> regs_a s' = 0xFFFF) (FastBlockMove_loop io sb db inc s)"
proof (induction "unat (regs_a s + 1)" arbitrary: s rule: less_induct)
  case less
  show ?case
  proof (cases "regs_a s = 0xFFFF")
    case True
    with less.prems show ?thesis by (subst FastBlockMove_loop.simps) simp
  next
    case False
    from block_move_byte_keeps [OF less.prems, of sb db inc]
    obtain s1 where m: "block_move_byte io sb db inc s = Some ((), s1)"
      and s1: "sys_ok K s1" "regs_a s1 = regs_a s - 1"
      by (auto elim!: runsE)
    have "unat (regs_a s1 + 1) < unat (regs_a s + 1)"
      using move_left_dec [OF False] s1(2) by simp
    from less.hyps [OF this s1(1)] False m show ?thesis
      by (subst FastBlockMove_loop.simps) simp
  qed
qed

lemma FastBlockMove_runs [runs_intros]:
  assumes "sys_ok K s" and "bank_ok (push_bit 16 db)"
  shows "runs (sys_ok K) (FastBlockMove io sb db inc s)"
  using FastBlockMove_loop_runs [OF assms(1), of "push_bit 16 sb" "push_bit 16 db" inc] assms(2)
  by (auto simp: FastBlockMove_def Let_def runs_iff)

lemma BlockMove_runs [runs_intros]:
  assumes "sys_ok K s" and "bank_ok (push_bit 16 db)"
  shows "runs (sys_ok K) (BlockMove io sb db inc s)"
  using block_move_byte_keeps [OF assms(1), of "push_bit 16 sb" "push_bit 16 db" inc]
    FastBlockMove_runs [OF assms, of sb inc] assms
  by (auto simp: BlockMove_def runs_iff)

section \<open>Interrupts and reset run\<close>

lemma DoInterrupt_runs [runs_intros]:
  "sys_ok K s \<Longrightarrow> runs (sys_ok K) (DoInterrupt io type s)"
  unfolding DoInterrupt_def by (auto intro!: runs_intros simp del: ReadRaw.simps)

lemma Interrupt_runs [runs_intros]: "sys_ok K s \<Longrightarrow> runs (sys_ok K) (Interrupt io param s)"
  by (auto simp: Interrupt_def intro!: runs_intros)

lemma Reset_runs [runs_intros]:
  "sys_ok K s \<Longrightarrow> runs (sys_ok K) (Reset io s)"
  unfolding Reset_def Let_def
  by (auto intro!: runs_intros sys_ok_OnUpdateMode_flags simp: sys_ok_OnUpdateMode_flags)

lemma PowerOn_runs [runs_intros]: "sys_ok K s \<Longrightarrow> runs (sys_ok K) (PowerOn io s)"
  by (auto simp: PowerOn_def intro!: runs_intros)

end

end
