(* ===== verification/Cpu_Safety.thy ===== *)
theory Cpu_Safety
  imports Cpu_Contract
begin

text \<open>
  Every instruction of the tables runs: under the contract of the I/O callbacks, an instruction
  has no undefined behaviour, returns, and keeps the invariant.  The proof goes through the
  addressing modes (what a mode must offer an instruction), then the instruction templates over
  any such mode, then the tables.
\<close>

definition readable :: "((nat \<Rightarrow> nat) \<Rightarrow> memory_map \<Rightarrow> bool \<Rightarrow> 'd \<Rightarrow> bool) \<Rightarrow> 'd io \<Rightarrow> 'd addr_mode \<Rightarrow> bool" where
  "readable K io m \<longleftrightarrow> (\<forall>w s. sys_ok K s \<longrightarrow> runs (sys_ok K) (am_Read m io w s))"

definition writable :: "((nat \<Rightarrow> nat) \<Rightarrow> memory_map \<Rightarrow> bool \<Rightarrow> 'd \<Rightarrow> bool) \<Rightarrow> 'd io \<Rightarrow> 'd addr_mode \<Rightarrow> bool" where
  "writable K io m \<longleftrightarrow> (\<forall>w v s. sys_ok K s \<longrightarrow> runs (sys_ok K) (am_Write m io w v s))"

definition modifiable :: "((nat \<Rightarrow> nat) \<Rightarrow> memory_map \<Rightarrow> bool \<Rightarrow> 'd \<Rightarrow> bool) \<Rightarrow> 'd io \<Rightarrow> 'd addr_mode \<Rightarrow> bool" where
  "modifiable K io m \<longleftrightarrow>
     (\<forall>f s. (\<forall>v t. sys_ok K t \<longrightarrow> sys_ok K (snd (f v t))) \<longrightarrow> sys_ok K s \<longrightarrow>
        runs (sys_ok K) (am_Modify m io f s))"

definition addressable :: "((nat \<Rightarrow> nat) \<Rightarrow> memory_map \<Rightarrow> bool \<Rightarrow> 'd \<Rightarrow> bool) \<Rightarrow> 'd io \<Rightarrow> 'd addr_mode \<Rightarrow> bool" where
  "addressable K io m \<longleftrightarrow> (\<forall>s. sys_ok K s \<longrightarrow> runs (sys_ok K) (CalcEffectiveAddress m io s))"

definition op_runs :: "((nat \<Rightarrow> nat) \<Rightarrow> memory_map \<Rightarrow> bool \<Rightarrow> 'd \<Rightarrow> bool) \<Rightarrow> 'd io \<Rightarrow> 'd op \<Rightarrow> bool" where
  "op_runs K io op \<longleftrightarrow> (\<forall>s. sys_ok K s \<longrightarrow> runs (sys_ok K) (Exec op io s))"

lemmas mode_defs = AddrA_def AddrImm_def AddrAbsBase_def AddrAbs_def AddrAbsX_def AddrAbsY_def
  AddrAbsLong_def AddrAbsLongX_def AddrDirectBase_def AddrDirect_def AddrDirectX_def AddrDirectY_def
  AddrDirectIndirect_def AddrDirectIndirectX_def AddrDirectIndirectY_def AddrDirectIndirectLong_def
  AddrDirectIndirectLongY_def AddrStack_def AddrStackY_def JmpAddrModeInd_def JmpAddrModeIndAbsX_def
  jmp_mode_def

context io_contract
begin

section \<open>Addressing modes\<close>

lemma op24_runs:
  assumes "\<And>s. sys_ok K s \<Longrightarrow> runs (sys_ok K) (ea io s)" and "sys_ok K s"
  shows "runs (sys_ok K) (op24_Read ea io w s)" "runs (sys_ok K) (op24_Write ea io w v s)"
    "(\<And>v t. sys_ok K t \<Longrightarrow> sys_ok K (snd (f v t))) \<Longrightarrow>
      runs (sys_ok K) (op24_Modify w ea io f s)"
  using assms
  by (auto simp: op24_Read_def op24_Write_def op24_Modify_def intro!: runs_intros)
    (metis snd_conv)

lemma op16zero_runs:
  assumes "\<And>s. sys_ok K s \<Longrightarrow> runs (sys_ok K) (ea io s)" and "sys_ok K s"
  shows "runs (sys_ok K) (op16zero_Read e ea io w s)" "runs (sys_ok K) (op16zero_Write ea io w v s)"
    "(\<And>v t. sys_ok K t \<Longrightarrow> sys_ok K (snd (f v t))) \<Longrightarrow>
      runs (sys_ok K) (op16zero_Modify w ea io f s)"
  using assms
  by (auto simp: op16zero_Read_def op16zero_Write_def op16zero_Modify_def intro!: runs_intros
      simp del: ReadZero.simps WriteZero.simps)
    (metis snd_conv)

lemma abs_address_runs [runs_intros]: "sys_ok K s \<Longrightarrow> runs (sys_ok K) (abs_address r c io s)"
  by (auto simp: abs_address_def Let_def intro!: runs_intros split: option.split)

lemma abs_long_runs [runs_intros]:
  "sys_ok K s \<Longrightarrow> runs (sys_ok K) (abs_long_address io s)"
  "sys_ok K s \<Longrightarrow> runs (sys_ok K) (abs_long_x_address io s)"
  by (auto simp: abs_long_address_def abs_long_x_address_def intro!: runs_intros)

lemma direct_address_runs [runs_intros]: "sys_ok K s \<Longrightarrow> runs (sys_ok K) (direct_address r e io s)"
  by (auto simp: direct_address_def Let_def intro!: runs_intros split: option.split)

lemma indirect_long_pointer_runs [runs_intros]:
  "sys_ok K s \<Longrightarrow> runs (sys_ok K) (indirect_long_pointer io s)"
  by (auto simp: indirect_long_pointer_def Let_def intro!: runs_intros simp del: ReadZero.simps)

lemmas memory_runs = op24_runs op16zero_runs

lemma modes_readable [simp]:
  "readable K io (AddrA A XY)" "readable K io (AddrImm A XY E)" "readable K io (AddrAbs A XY)"
  "readable K io (AddrAbsX A XY c)" "readable K io (AddrAbsY A XY c)"
  "readable K io (AddrAbsLong A XY)" "readable K io (AddrAbsLongX A XY)"
  "readable K io (AddrDirect A XY e)" "readable K io (AddrDirectX A XY e)"
  "readable K io (AddrDirectY A XY e)"
  by (auto simp: readable_def mode_defs Let_def intro!: memory_runs runs_intros)

lemma indirect_readable [simp]:
  "readable K io (AddrDirectIndirect A XY)" "readable K io (AddrDirectIndirectX A XY e)"
  "readable K io (AddrDirectIndirectY A XY c e)" "readable K io (AddrDirectIndirectLong A XY)"
  "readable K io (AddrDirectIndirectLongY A XY)" "readable K io (AddrStack A XY)"
  "readable K io (AddrStackY A XY)"
  by (auto simp: readable_def mode_defs Let_def intro!: memory_runs runs_intros
      simp del: ReadZero.simps)

lemma modes_writable [simp]:
  "writable K io (AddrAbs A XY)" "writable K io (AddrAbsX A XY c)" "writable K io (AddrAbsY A XY c)"
  "writable K io (AddrAbsLong A XY)" "writable K io (AddrAbsLongX A XY)"
  "writable K io (AddrDirect A XY e)" "writable K io (AddrDirectX A XY e)"
  "writable K io (AddrDirectY A XY e)" "writable K io (AddrDirectIndirect A XY)"
  "writable K io (AddrDirectIndirectX A XY e)" "writable K io (AddrDirectIndirectY A XY c e)"
  "writable K io (AddrDirectIndirectLong A XY)" "writable K io (AddrDirectIndirectLongY A XY)"
  "writable K io (AddrStack A XY)" "writable K io (AddrStackY A XY)"
  by (auto simp: writable_def mode_defs Let_def intro!: memory_runs runs_intros
      simp del: ReadZero.simps)

lemma modes_modifiable [simp]:
  "modifiable K io (AddrA A XY)" "modifiable K io (AddrAbs A XY)"
  "modifiable K io (AddrAbsX A XY c)" "modifiable K io (AddrDirect A XY e)"
  "modifiable K io (AddrDirectX A XY e)"
  by (auto simp: modifiable_def mode_defs Let_def intro!: memory_runs runs_intros
      split: prod.splits) (metis snd_conv)

lemma modes_addressable [simp]:
  "addressable K io (AddrAbs A XY)" "addressable K io (AddrAbsLong A XY)"
  "addressable K io (JmpAddrModeInd l w)" "addressable K io JmpAddrModeIndAbsX"
  by (cases l; cases w; auto simp: addressable_def mode_defs Let_def intro!: runs_intros
      simp del: ReadZero.simps)+

section \<open>Instruction templates\<close>

lemma am_Read_runs: "readable K io m \<Longrightarrow> sys_ok K s \<Longrightarrow> runs (sys_ok K) (am_Read m io w s)"
  and am_Write_runs: "writable K io m \<Longrightarrow> sys_ok K s \<Longrightarrow> runs (sys_ok K) (am_Write m io w v s)"
  and am_Modify_runs:
    "modifiable K io m \<Longrightarrow> sys_ok K s \<Longrightarrow> (\<And>v t. sys_ok K t \<Longrightarrow> sys_ok K (snd (f v t))) \<Longrightarrow>
      runs (sys_ok K) (am_Modify m io f s)"
  and address_runs:
    "addressable K io m \<Longrightarrow> sys_ok K s \<Longrightarrow> runs (sys_ok K) (CalcEffectiveAddress m io s)"
  by (auto simp: readable_def writable_def modifiable_def addressable_def)

lemmas mode_runs = am_Read_runs am_Write_runs am_Modify_runs address_runs

lemma reading_ops [simp]:
  assumes "readable K io m"
  shows "op_runs K io (OpBit m)" "op_runs K io (OpBitImm m)" "op_runs K io (OpOr m)"
    "op_runs K io (OpAnd m)" "op_runs K io (OpXor m)" "op_runs K io (LDA m)" "op_runs K io (LDX m)"
    "op_runs K io (LDY m)" "op_runs K io (OpAdc m)" "op_runs K io (OpSbc m)" "op_runs K io (OpCmp m)"
    "op_runs K io (OpCpx m)" "op_runs K io (OpCpy m)"
  using assms
  by (auto simp: op_runs_def OpBit_def OpBitImm_def OpAlu_def OpOr_def OpAnd_def OpXor_def
      OpLoad_def LDA_def LDX_def LDY_def OpAdc_def OpSbc_def OpCmp_def OpCpx_def OpCpy_def Let_def
      intro!: mode_runs runs_intros)

lemma writing_ops [simp]:
  assumes "writable K io m"
  shows "op_runs K io (STA m)" "op_runs K io (STX m)" "op_runs K io (STY m)" "op_runs K io (STZ m)"
  using assms
  by (auto simp: op_runs_def OpStore_def STA_def STX_def STY_def STZ_def intro!: mode_runs runs_intros)

lemma modifying_ops [simp]:
  assumes "modifiable K io m"
  shows "op_runs K io (OpTsb m)" "op_runs K io (OpTrb m)" "op_runs K io (OpAsl m)"
    "op_runs K io (OpLsr m)" "op_runs K io (OpRor m)" "op_runs K io (OpRol m)"
    "op_runs K io (OpIncMem m)" "op_runs K io (OpDecMem m)"
  using assms
  by (auto simp: op_runs_def OpTsb_def OpTrb_def OpAsl_def OpLsr_def OpRor_def OpRol_def
      OpIncMem_def OpDecMem_def Let_def intro!: mode_runs runs_intros)

lemma nmos_ops [simp]:
  "readable K io m \<Longrightarrow> op_runs K io (LAX m)" "writable K io m \<Longrightarrow> op_runs K io (SAX m)"
  "op_runs K io ALR" "op_runs K io ANC" "op_runs K io (n6502_NOP n b)"
  using reading_ops(6) [of m] writing_ops(1) [of m]
  by (auto simp: op_runs_def LAX_def SAX_def ALR_def ANC_def n6502_NOP_def OpNOPImpl_def Let_def
      intro!: runs_intros simp del: reading_ops writing_ops reg_get.simps)

lemma flag_ops [simp]:
  "op_runs K io CLC" "op_runs K io SEC" "op_runs K io CLI" "op_runs K io SEI" "op_runs K io CLD"
  "op_runs K io SED" "op_runs K io CLV" "op_runs K io XBA" "op_runs K io OpNOP" "op_runs K io OpWDM"
  "op_runs K io WAI" "op_runs K io STP"
  by (auto simp: op_runs_def CLC_def SEC_def CLI_def SEI_def CLD_def SED_def CLV_def XBA_def
      OpNOP_def OpNOPImpl_def OpWDM_def WAI_def STP_def cpu_WAI_def cpu_STP_def Let_def)

lemma mode_ops [simp]: "op_runs K io REP" "op_runs K io SEP" "op_runs K io XCE"
  by (auto simp: op_runs_def REP_def SEP_def XCE_def Let_def sys_ok_OnUpdateMode_flags
      intro!: runs_intros cong: if_cong)

lemma register_ops [simp]:
  "op_runs K io (INX A XY)" "op_runs K io (INY A XY)" "op_runs K io (INA A XY)"
  "op_runs K io (DEX A XY)" "op_runs K io (DEY A XY)" "op_runs K io (DEA A XY)"
  "op_runs K io (TAX A XY)" "op_runs K io (TAY A XY)" "op_runs K io (TSX A XY)"
  "op_runs K io (TXA A XY)" "op_runs K io (TXY A XY)" "op_runs K io (TYA A XY)"
  "op_runs K io (TYX A XY)" "op_runs K io (TCD A XY)" "op_runs K io (TDC A XY)"
  "op_runs K io (TSC A XY)" "op_runs K io (TXS e)" "op_runs K io (TCS e)"
  by (auto simp: op_runs_def IncDecReg_def INX_def INY_def INA_def DEX_def DEY_def DEA_def
      MoveReg_def TAX_def TAY_def TSX_def TXA_def TXY_def TYA_def TYX_def TCD_def TDC_def TSC_def
      TXS_def TCS_def Let_def)

lemma stack_ops [simp]:
  "op_runs K io (PHA w)" "op_runs K io PHD" "op_runs K io (PHX w)" "op_runs K io (PHY w)"
  "op_runs K io (PLA w)" "op_runs K io PLD" "op_runs K io (PLX w)" "op_runs K io (PLY w)"
  "op_runs K io PHP" "op_runs K io PLP" "op_runs K io PHK" "op_runs K io PHB" "op_runs K io PLB"
  by (auto simp: op_runs_def OpPush_def PHA_def PHD_def PHX_def PHY_def OpPop_def PLA_def PLD_def
      PLX_def PLY_def PHP_def PLP_def PHK_def PHB_def PLB_def Let_def SetStatusRegister_sys_ok
      intro!: runs_intros simp del: Push.simps Pop.simps PopOld.simps)

lemma jump_ops [simp]:
  "op_runs K io JMP_ABS" "op_runs K io JMP_LONG" "op_runs K io JMP_INDABS"
  "op_runs K io JMP_INDABS_LEGACY" "op_runs K io JMP_INDABSX" "op_runs K io JMP_INDLONG"
  "op_runs K io JSR_ABS" "op_runs K io JSR_LONG" "op_runs K io JSR_INDABSX"
  by (auto simp: op_runs_def OpJmp_def JMP_ABS_def JMP_LONG_def JMP_INDABS_def
      JMP_INDABS_LEGACY_def JMP_INDABSX_def JMP_INDLONG_def JSR_ABS_def JSR_LONG_def
      JSR_INDABSX_def Let_def intro!: mode_runs runs_intros)

lemma return_ops [simp]: "op_runs K io RTS" "op_runs K io RTL" "op_runs K io RTI"
  by (auto simp: op_runs_def OpRts_def RTS_def RTL_def RTI_def SetStatusRegister_sys_ok
      intro!: runs_intros)

lemma branch_ops [simp]:
  "op_runs K io BCC" "op_runs K io BCS" "op_runs K io BEQ" "op_runs K io BMI" "op_runs K io BNE"
  "op_runs K io BPL" "op_runs K io BRA" "op_runs K io BVC" "op_runs K io BVS" "op_runs K io BRL"
  by (auto simp: op_runs_def CondBranch_def BCC_def BCS_def BEQ_def BMI_def BNE_def BPL_def BRA_def
      BVC_def BVS_def BRL_def Let_def intro!: runs_intros)

lemma control_ops [simp]:
  "op_runs K io MVN" "op_runs K io MVP" "op_runs K io BRK" "op_runs K io COP" "op_runs K io PEA"
  "op_runs K io PEI" "op_runs K io PER"
  by (auto simp: op_runs_def MVN_def MVP_def BRK_def COP_def PEA_def PEI_def PER_def Let_def
      intro!: mode_runs runs_intros)

section \<open>The tables\<close>

lemma tables_run:
  "list_all (op_runs K io) (ops_native A XY)"
  "list_all (op_runs K io) ops_emulation"
  "list_all (pred_option (op_runs K io)) ops_6502"
  by (simp_all add: ops_native_def ops_emulation_def ops_6502_def)

lemma exec_ops_run: "list_all (list_all (pred_option (op_runs K io))) exec_ops"
  using tables_run by (simp add: exec_ops_def list.pred_map o_def)

lemma op_at_runs: "op_at mode opc = Some op \<Longrightarrow> op_runs K io op"
  by (rule op_at_all [OF _ exec_ops_run])

lemma trace_address_runs:
  assumes "sys_ok K s"
  shows "\<exists>s'. trace_address a s = Some s' \<and> sys_ok K s' \<and>
    mode_native_6502 s' = mode_native_6502 s"
  using assms by (auto simp: trace_address_def Let_def ok_defs)

lemma EmulateInstruction_runs:
  assumes ok: "sys_ok K s"
    and fetched: "\<And>s' v. sys_ok K s' \<Longrightarrow> mode_native_6502 s' = mode_native_6502 s \<Longrightarrow>
      op_at (current_instruction_set s') v \<noteq> (None :: 'd op option)"
  shows "runs (sys_ok K) (EmulateInstruction io s)"
proof -
  obtain s1 where s1: "trace_address (GetCanonicalAddress s) s = Some s1" "sys_ok K s1"
      "mode_native_6502 s1 = mode_native_6502 s"
    using trace_address_runs [OF ok] by blast
  from ReadU8_keeps [OF s1(2), of "GetCanonicalAddress s"]
  obtain v s2 where s2: "ReadU8 io (GetCanonicalAddress s) s1 = Some (v, s2)" "sys_ok K s2"
      "mode_native_6502 s2 = mode_native_6502 s"
    using s1(3) by (auto simp: io_keeps_def elim!: runsE)
  from fetched [OF s2(2,3)]
  obtain op :: "'d op" where op: "op_at (current_instruction_set s2) v = Some op"
    by auto
  from op_at_runs [OF op] s2(2) have "runs (sys_ok K) (Exec op io s2)"
    by (simp add: op_runs_def)
  with s1 s2 op show ?thesis
    by (auto simp: EmulateInstruction_def Let_def runs_iff)
qed

end

section \<open>Which table entries are instructions\<close>

lemma exec_ops_65816:
  assumes "mode < 5"
  obtains t :: "'d op list" where "exec_ops ! mode = map Some t" and "length t = 256"
proof -
  from assms consider "mode = 0" | "mode = 1" | "mode = 2" | "mode = 3" | "mode = 4" by linarith
  then show ?thesis
    by cases (auto simp: exec_ops_def intro: that)
qed

lemma op_at_65816:
  assumes "mode < 5"
  shows "op_at mode opc \<noteq> (None :: 'd op option)"
proof -
  obtain t :: "'d op list" where "exec_ops ! mode = map Some t" and "length t = 256"
    by (rule exec_ops_65816 [OF assms])
  with assms show ?thesis by (simp add: op_at_def u8_less)
qed

lemma mode_ok_65816:
  "mode_ok s \<Longrightarrow> \<not> mode_native_6502 s \<Longrightarrow> current_instruction_set s < 5"
  by (auto simp: mode_ok_def kEmulation_def)

lemma sys_ok_65816: "sys_ok K s \<Longrightarrow> \<not> mode_native_6502 s \<Longrightarrow> current_instruction_set s < 5"
  by (simp add: sys_ok_def cpu_ok_def mode_ok_65816)

text \<open>
  C1: an instruction of the 65816 has no undefined behaviour and returns.  In every mode but the
  exact 6502, from a machine with a well-formed page table, and with I/O callbacks that keep the
  contract, \<open>EmulateInstruction\<close> finds an instruction for every byte it can fetch, never leaves the
  page table, a host block or the trace buffer, comes to an end (the block moves included), and
  leaves a well-formed machine whose instruction table is again that of its mode flags.
\<close>

theorem instruction_safe:
  assumes "io_ok K io" and "sys_ok K s" and "\<not> mode_native_6502 s"
  shows "\<exists>s'. EmulateInstruction io s = Some ((), s') \<and> sys_ok K s'"
proof -
  have "op_at (current_instruction_set s') v \<noteq> (None :: 'd op option)"
    if "sys_ok K s'" "mode_native_6502 s' = mode_native_6502 s" for s' v
    using that assms(3) by (intro op_at_65816 sys_ok_65816) auto
  then have "runs (sys_ok K) (EmulateInstruction io s)"
    by (rule io_contract.EmulateInstruction_runs [OF io_contract.intro [OF assms(1)] assms(2)])
  then show ?thesis
    by (auto simp: runs_iff)
qed

text \<open>A 65816 with 16 bits of linear memory, just constructed; \<open>program\<close> is at address 0.\<close>

definition linear_machine :: "u8 list \<Rightarrow> unit machine" where
  "linear_machine program =
     WDC65C816_init
       \<lparr>host = \<lparr>blk_size = (\<lambda>b. if b = 0 then 2 ^ 16 else 0),
                blk_data = (\<lambda>b i. if b = 0 \<and> i < length program then program ! i else 0)\<rparr>,
        sysbus = sysbus (linear_system 16 ()), dev = (),
        cycle = 0, cycle_stop = 0, event_cycle = 0, code_segment_base = 0, ip_mask = 0, ip = 0,
        cpu_mode = 0, zero_flag = 0, negative_flag = 0, interrupts = 0, pending_interrupts = 0,
        carry = 0, other_flags = 0, regs_a = 0, regs_x = 0, regs_y = 0, regs_d = 0, regs_sp = 0x1FF,
        data_segment_base = 0, mode_native_6502 = False, mode_emulation = False,
        mode_long_a = False, mode_long_xy = False, supports_decimal = False,
        fast_block_moves = False, current_instruction_set = 0, num_emulated_instructions = 0,
        internal_cycle_timing = 0, trace_addrs = [], trace_write = 0\<rparr>"

lemma linear_machine_ok: "sys_ok (\<lambda>_ _ _ _. True) (linear_machine program)"
  by (simp add: sys_ok_def cpu_ok_def linear_machine_def WDC65C816_init_def OnUpdateMode_mode_ok)
    (simp add: bus_ok_def linear_system_def SimpleSystemBus_def bus_Init_def simple_page_def
      page_ok_def Let_def)

lemma no_io_ok: "io_ok (\<lambda>_ _ _ _. True) no_io"
  by (simp add: io_ok_def io_keeps_def no_io_def)

theorem instruction_safe_witness:
  "\<exists>s'. EmulateInstruction no_io (linear_machine [0x18]) = Some ((), s') \<and>
    sys_ok (\<lambda>_ _ _ _. True) s'"
  by (rule instruction_safe [OF no_io_ok linear_machine_ok])
    (simp add: linear_machine_def WDC65C816_init_def OnUpdateMode_def Let_def)

end
