(* ===== verification/Cpu_Arith.thy ===== *)
theory Cpu_Arith
  imports Cpu_Safety
begin

text \<open>
  What the arithmetic of the CPU computes: the value, carry, zero, sign and overflow of addition,
  subtraction and comparison as statements over the integers.
\<close>

section \<open>Widths and bits\<close>

lemma bits_simps: "bits w = 8 \<or> bits w = 16" "bits w < 32" "0 < bits w" "8 * sizeof w = bits w"
  by (cases w; simp)+

lemma unat_reg_get: "unat (reg_get r w s) < 2 ^ bits w"
proof (cases w)
  case W8
  then show ?thesis using u8_less [of "lo8 (reg16 r s)"] by (simp add: unsigned_ucast_eq take_bit_nat_eq_self)
next
  case W16
  have "unat (reg16 r s) < 2 ^ 16"
    using unsigned_less [of "reg16 r s", where 'a = nat] by simp
  with W16 show ?thesis by (simp add: unsigned_ucast_eq take_bit_nat_eq_self)
qed

lemma reg_get_reg_set [simp]: "reg_get r w (reg_set r w v s) = cast w v"
  by (cases w; cases r) (simp_all add: cast_W8_ucast cast_W16_ucast del: cast.simps)

lemma bit_unat: "bit (v :: u32) n \<longleftrightarrow> odd (unat v div 2 ^ n)"
  using bit_unsigned_iff [of v n, where 'a = nat] by (simp add: bit_iff_odd)

lemma bit_iff_le:
  assumes "unat (v :: u32) < 2 ^ Suc n"
  shows "bit v n \<longleftrightarrow> 2 ^ n \<le> unat v"
proof -
  have "unat v div 2 ^ n < 2" using assms by (simp add: div_less_iff_less_mult)
  then have "odd (unat v div 2 ^ n) \<longleftrightarrow> unat v div 2 ^ n \<noteq> 0" by (auto simp: less_2_cases_iff)
  then show ?thesis by (simp add: bit_unat div_eq_0_iff not_less)
qed

lemma and_two: "(v :: u32) AND 2 \<noteq> 0 \<longleftrightarrow> bit v 1"
proof -
  have "(2 :: u32) = push_bit 1 1" by simp
  then show ?thesis
    by (metis and_exp_eq_0_iff_not_bit power_one_right)
qed

lemma and_one: "(v :: u32) AND 1 \<noteq> 0 \<longleftrightarrow> bit v 0"
  by (metis and_exp_eq_0_iff_not_bit power_0)

lemma and_high_bit: "(v :: u32) AND high_bit w \<noteq> 0 \<longleftrightarrow> bit v (bits w - 1)"
proof -
  have "high_bit w = 2 ^ (bits w - 1)" by (cases w) simp_all
  then show ?thesis by (simp only: and_exp_eq_0_iff_not_bit not_not)
qed

lemma and_and_high_bit:
  "(x :: u32) AND y AND high_bit w \<noteq> 0 \<longleftrightarrow> bit x (bits w - 1) \<and> bit y (bits w - 1)"
  by (simp only: and.assoc [symmetric] and_high_bit bit_and_iff)

lemma and_0x40: "(v :: u32) AND 0x40 \<noteq> 0 \<longleftrightarrow> bit v 6"
proof -
  have "(0x40 :: u32) = 2 ^ 6" by simp
  then show ?thesis by (simp only: and_exp_eq_0_iff_not_bit not_not)
qed

text \<open>The signed reading of a register of width \<open>w\<close>.\<close>

definition sval :: "width \<Rightarrow> u32 \<Rightarrow> int" where
  "sval w v = (if 2 ^ (bits w - 1) \<le> unat v then int (unat v) - 2 ^ bits w else int (unat v))"

lemma carry_in_le: "unat (carry_in s) = (if is_carry s then 1 else 0)"
proof -
  have "carry_in s = of_bool (bit (carry s) 1)"
    by (simp only: carry_in_def bit_iff_odd_drop_bit and_one_eq mod_2_eq_odd)
  then show ?thesis by (simp add: is_carry_def and_two)
qed

lemma carry_in_of_bool: "carry_in s = (if is_carry s then 1 else 0)"
  using carry_in_le [of s] by (auto simp: word_unat_eq_iff)

lemma unat_small_sum:
  "unat (a :: u32) + unat b + unat c < 2 ^ 32 \<Longrightarrow> unat (a + b + c) = unat a + unat b + unat c"
  by (simp add: unat_word_ariths)

section \<open>Addition\<close>

lemma reg_set_frame [simp]:
  "carry (reg_set r w v s) = carry s" "zero_flag (reg_set r w v s) = zero_flag s"
  "negative_flag (reg_set r w v s) = negative_flag s" "other_flags (reg_set r w v s) = other_flags s"
  "ip (reg_set r w v s) = ip s" "interrupts (reg_set r w v s) = interrupts s"
  by (cases w; cases r; simp)+

lemma flag_reads [simp]:
  "is_carry (reg_set r w v s) = is_carry s" "is_zero (reg_set r w v s) = is_zero s"
  "is_negative (reg_set r w v s) = is_negative s" "is_overflow (reg_set r w v s) = is_overflow s"
  by (simp_all add: is_carry_def is_zero_def is_negative_def is_overflow_def)

text \<open>The carry and sign flags are two neighbouring bits of the result.\<close>

lemma cn_bits:
  "drop_bit (8 * sizeof w - Suc 0) (r :: u32) AND 2 = 0 \<longleftrightarrow> \<not> bit r (bits w)"
  "drop_bit (8 * sizeof w - Suc 0) (r :: u32) AND 1 = 0 \<longleftrightarrow> \<not> bit r (bits w - Suc 0)"
  using bits_simps(3) [of w] and_two [of "drop_bit (8 * sizeof w - Suc 0) r"]
    and_one [of "drop_bit (8 * sizeof w - Suc 0) r"]
  by (auto simp: bit_drop_bit_eq bits_simps(4))

lemma overflow_bit:
  "((f :: u32) AND 0xFFBF OR (if b then 0x40 else 0)) AND 0x40 \<noteq> 0 \<longleftrightarrow> b"
proof -
  have "(f AND 0xFFBF) AND 0x40 = 0" by (simp add: and.assoc)
  then show ?thesis
    by (simp add: bit.conj_disj_distrib2)
qed

lemma AddBin_flags:
  assumes "r = reg_get RA w s + v + carry_in s"
  shows "reg_get RA w (AddBin w v s) = cast w r"
    and "is_carry (AddBin w v s) \<longleftrightarrow> bit r (bits w)"
    and "is_zero (AddBin w v s) \<longleftrightarrow> cast w r = 0"
    and "is_negative (AddBin w v s) \<longleftrightarrow> bit r (bits w - 1)"
    and "is_overflow (AddBin w v s) \<longleftrightarrow>
      bit (reg_get RA w s) (bits w - 1) \<noteq> bit r (bits w - 1) \<and>
      bit (reg_get RA w s) (bits w - 1) = bit v (bits w - 1)"
proof -
  show "reg_get RA w (AddBin w v s) = cast w r"
    by (simp add: AddBin_def Let_def assms del: reg_get.simps reg_set.simps cast.simps)
  show "is_carry (AddBin w v s) \<longleftrightarrow> bit r (bits w)"
    by (simp add: AddBin_def Let_def is_carry_def cn_bits assms del: reg_get.simps reg_set.simps cast.simps)
  show "is_zero (AddBin w v s) \<longleftrightarrow> cast w r = 0"
    by (simp add: AddBin_def Let_def is_zero_def assms del: reg_get.simps reg_set.simps cast.simps)
  show "is_negative (AddBin w v s) \<longleftrightarrow> bit r (bits w - 1)"
    by (simp add: AddBin_def Let_def is_negative_def cn_bits assms
        del: reg_get.simps reg_set.simps cast.simps)
  show "is_overflow (AddBin w v s) \<longleftrightarrow>
      bit (reg_get RA w s) (bits w - 1) \<noteq> bit r (bits w - 1) \<and>
      bit (reg_get RA w s) (bits w - 1) = bit v (bits w - 1)"
    using bits_simps(2) [of w]
    by (simp add: AddBin_def Let_def is_overflow_def overflow_bit
        and_and_high_bit [unfolded One_nat_def] assms bit_simps
        del: reg_get.simps reg_set.simps cast.simps) auto
qed

lemma bit_cast: "n < bits w \<Longrightarrow> bit (cast w r) n = bit r n"
  using bits_simps(2) [of w] by (cases w) (auto simp: bit_simps mask_bits)

lemma sign_bit:
  assumes "unat (v :: u32) < 2 ^ bits w"
  shows "bit v (bits w - 1) \<longleftrightarrow> 2 ^ (bits w - 1) \<le> unat v"
  by (rule bit_iff_le) (use assms bits_simps(3) [of w] in simp)

lemma sign_sval:
  assumes "unat (v :: u32) < 2 ^ bits w"
  shows "sval w v < 0 \<longleftrightarrow> 2 ^ (bits w - 1) \<le> unat v"
proof -
  have "int (unat v) < 2 ^ bits w"
    using assms by (metis of_nat_less_iff of_nat_numeral of_nat_power)
  then show ?thesis by (auto simp: sval_def)
qed

text \<open>A sum of two values of \<open>n\<close> bits and a carry has \<open>n + 1\<close> bits; a difference wraps at most once.\<close>

lemma sum_digits:
  assumes "unat (a :: u32) < 2 ^ bits w" "unat v < 2 ^ bits w" "unat c \<le> 1" and "r = a + v + c"
  shows "unat r = unat a + unat v + unat c" and "unat r < 2 ^ Suc (bits w)"
    and "unat (cast w r) + (if bit r (bits w) then 2 ^ bits w else 0) = unat a + unat v + unat c"
proof -
  show r: "unat r = unat a + unat v + unat c"
    unfolding assms(4) by (rule unat_small_sum) (use assms(1-3) in \<open>cases w; simp\<close>)
  then show lt: "unat r < 2 ^ Suc (bits w)"
    using assms by (cases w) simp_all
  show "unat (cast w r) + (if bit r (bits w) then 2 ^ bits w else 0) = unat a + unat v + unat c"
    unfolding bit_iff_le [OF lt] unat_cast using r lt by (cases w) (auto simp: mod_if)
qed

lemma overflow_arith:
  fixes A V C h :: nat
  assumes "A < 2 * h" "V < 2 * h" "C \<le> 1"
  defines "sv \<equiv> (\<lambda>x. if h \<le> x then int x - 2 * int h else int x)"
  shows "(h \<le> A) \<noteq> (h \<le> (A + V + C) mod (2 * h)) \<and> (h \<le> A) = (h \<le> V) \<longleftrightarrow>
    sv A + sv V + int C < - int h \<or> int h \<le> sv A + sv V + int C"
proof (cases "A + V + C < 2 * h")
  case True
  then show ?thesis using assms by auto
next
  case False
  then have "(A + V + C) mod (2 * h) = A + V + C - 2 * h"
    using assms by (simp add: mod_if)
  with False show ?thesis using assms by auto
qed

lemma signed_overflow:
  assumes a: "unat (a :: u32) < 2 ^ bits w" and v: "unat v < 2 ^ bits w" and c: "unat c \<le> 1"
    and r: "r = a + v + c"
  shows "bit a (bits w - 1) \<noteq> bit r (bits w - 1) \<and> bit a (bits w - 1) = bit v (bits w - 1) \<longleftrightarrow>
    sval w a + sval w v + int (unat c) < - (2 ^ (bits w - 1)) \<or>
    2 ^ (bits w - 1) \<le> sval w a + sval w v + int (unat c)"
proof -
  have rb: "bit r (bits w - 1) \<longleftrightarrow> 2 ^ (bits w - 1) \<le> unat (cast w r)"
    using sign_bit [OF unat_cast_less, of w r] bit_cast [of "bits w - 1" w r] bits_simps(3) [of w]
    by simp
  have m: "unat (cast w r) = (unat a + unat v + unat c) mod 2 ^ bits w"
    using sum_digits(1) [OF a v c r] by (simp add: unat_cast)
  show ?thesis
    unfolding rb m sign_bit [OF a] sign_bit [OF v] sval_def
    using overflow_arith [of "unat a" "2 ^ (bits w - 1)" "unat v" "unat c"] a v c
    by (cases w) simp_all
qed

text \<open>
  C17: \<open>ADC\<close> in binary mode adds.  With an operand below \<open>2 ^ n\<close>, the new accumulator and the new
  carry are the digits of the sum of accumulator, operand and old carry; zero and sign are those
  of the new accumulator; and overflow is set exactly when the signed sum does not fit in \<open>n\<close> bits.
\<close>

theorem AddBin_correct:
  assumes "unat v < 2 ^ bits w"
  shows "let a = reg_get RA w s; s' = AddBin w v s; a' = reg_get RA w s';
             c = (if is_carry s then 1 else 0);
             sum = sval w a + sval w v + int c in
    unat a' + (if is_carry s' then 2 ^ bits w else 0) = unat a + unat v + c \<and>
    (is_zero s' \<longleftrightarrow> a' = 0) \<and> (is_negative s' \<longleftrightarrow> sval w a' < 0) \<and>
    (is_overflow s' \<longleftrightarrow> sum < - (2 ^ (bits w - 1)) \<or> 2 ^ (bits w - 1) \<le> sum)"
proof -
  define r where "r = reg_get RA w s + v + carry_in s"
  have c: "unat (carry_in s) \<le> 1" "int (unat (carry_in s)) = (if is_carry s then 1 else 0)"
    by (simp_all add: carry_in_le)
  note f = AddBin_flags [OF r_def]
  note d = sum_digits [OF unat_reg_get assms c(1) r_def]
  note o = signed_overflow [OF unat_reg_get assms c(1) r_def]
  have "bit r (bits w - 1) = bit (cast w r) (bits w - 1)"
    using bits_simps(3) [of w] by (simp add: bit_cast)
  then have n: "bit r (bits w - 1) \<longleftrightarrow> sval w (cast w r) < 0"
    by (simp only: sign_bit [OF unat_cast_less] sign_sval [OF unat_cast_less])
  show ?thesis
    unfolding Let_def f(1-4) n f(5) [unfolded o c(2)]
    using d(3) by (simp only: carry_in_le) simp
qed

theorem AddBin_correct_witness:
  "(let s = (linear_machine [])\<lparr>regs_a := 0x7F\<rparr>; s' = AddBin W8 1 s in
    is_overflow s' \<and> \<not> is_carry s' \<and> reg_get RA W8 s' = 0x80)"
proof -
  let ?s = "(linear_machine [])\<lparr>regs_a := 0x7F\<rparr>"
  have a: "reg_get RA W8 ?s = 0x7F" by (simp add: lo8_def)
  have c: "\<not> is_carry ?s"
    by (simp add: is_carry_def linear_machine_def WDC65C816_init_def OnUpdateMode_def Let_def)
  have v: "unat (1 :: u32) < 2 ^ bits W8" by simp
  from AddBin_correct [OF v, of ?s] unat_reg_get [of RA W8 "AddBin W8 1 ?s"]
  show ?thesis
    by (auto simp: Let_def a c sval_def word_unat_eq_iff simp del: reg_get.simps split: if_splits)
qed

section \<open>Subtraction\<close>

lemma SubBin_flags:
  assumes "r = reg_get RA w s - v - 1 + carry_in s"
  shows "reg_get RA w (SubBin w v s) = cast w r"
    and "is_carry (SubBin w v s) \<longleftrightarrow> \<not> bit r (bits w)"
    and "is_zero (SubBin w v s) \<longleftrightarrow> r = 0"
    and "is_negative (SubBin w v s) \<longleftrightarrow> bit r (bits w - 1)"
    and "is_overflow (SubBin w v s) \<longleftrightarrow>
      bit (reg_get RA w s) (bits w - 1) \<noteq> bit r (bits w - 1) \<and>
      bit (reg_get RA w s) (bits w - 1) \<noteq> bit v (bits w - 1)"
proof -
  show "reg_get RA w (SubBin w v s) = cast w r"
    by (simp add: SubBin_def Let_def assms del: reg_get.simps reg_set.simps cast.simps)
  have "NOT x AND 2 \<noteq> 0 \<longleftrightarrow> \<not> (x AND 2 \<noteq> 0)" for x :: u32
    by (simp only: and_two) (simp add: bit_not_iff)
  then show "is_carry (SubBin w v s) \<longleftrightarrow> \<not> bit r (bits w)"
    by (simp add: SubBin_def Let_def is_carry_def cn_bits assms
        del: reg_get.simps reg_set.simps cast.simps)
  show "is_zero (SubBin w v s) \<longleftrightarrow> r = 0"
    by (simp add: SubBin_def Let_def is_zero_def assms del: reg_get.simps reg_set.simps cast.simps)
  show "is_negative (SubBin w v s) \<longleftrightarrow> bit r (bits w - 1)"
    by (simp add: SubBin_def Let_def is_negative_def cn_bits assms
        del: reg_get.simps reg_set.simps cast.simps)
  show "is_overflow (SubBin w v s) \<longleftrightarrow>
      bit (reg_get RA w s) (bits w - 1) \<noteq> bit r (bits w - 1) \<and>
      bit (reg_get RA w s) (bits w - 1) \<noteq> bit v (bits w - 1)"
    using bits_simps(2) [of w]
    by (simp add: SubBin_def Let_def is_overflow_def overflow_bit
        and_and_high_bit [unfolded One_nat_def] assms bit_simps
        del: reg_get.simps reg_set.simps cast.simps)
qed

text \<open>A subtraction is the addition of the complement, less \<open>2 ^ n\<close>.\<close>

lemma complement:
  assumes "unat (v :: u32) < 2 ^ bits w"
  defines "v' \<equiv> 2 ^ bits w - 1 - v"
  shows "unat v' = 2 ^ bits w - 1 - unat v" and "unat v' < 2 ^ bits w"
    and "sval w v' = - 1 - sval w v" and "bit v' (bits w - 1) \<longleftrightarrow> \<not> bit v (bits w - 1)"
proof -
  have one: "unat (2 ^ bits w - 1 :: u32) = 2 ^ bits w - 1" by (cases w) simp_all
  moreover have "v \<le> 2 ^ bits w - 1"
    using assms(1) one by (simp add: word_le_nat_alt)
  ultimately show u: "unat v' = 2 ^ bits w - 1 - unat v"
    by (simp add: v'_def unat_sub)
  then show l: "unat v' < 2 ^ bits w" by (cases w) simp_all
  show "sval w v' = - 1 - sval w v"
    using assms(1) u unfolding sval_def by (cases w) (auto simp: of_nat_diff)
  show "bit v' (bits w - 1) \<longleftrightarrow> \<not> bit v (bits w - 1)"
    unfolding sign_bit [OF l] sign_bit [OF assms(1)] u using assms(1) by (cases w) auto
qed

lemma sub_wrap:
  assumes "unat (x :: u32) < 2 ^ Suc (bits w)" and "r = x - 2 ^ bits w"
  shows "cast w r = cast w x \<and> (bit r (bits w) \<longleftrightarrow> \<not> 2 ^ bits w \<le> unat x)"
proof -
  have p: "unat (2 ^ bits w :: u32) = 2 ^ bits w" by (cases w) simp_all
  have u: "unat r = (if 2 ^ bits w \<le> unat x then unat x - 2 ^ bits w
                  else unat x + 2 ^ 32 - 2 ^ bits w)"
    unfolding assms(2) unat_sub_if' p by simp
  show ?thesis
  proof (cases "2 ^ bits w \<le> unat x")
    case True
    with u have "unat r = unat x - 2 ^ bits w" by simp
    with True assms(1) show ?thesis
      unfolding word_unat_eq_iff unat_cast bit_unat by (cases w) (simp_all add: le_mod_geq)
  next
    case False
    then have "unat r = unat x + 2 ^ bits w * (2 ^ (32 - bits w) - 1)"
      using u by (cases w) simp_all
    moreover have "odd (2 ^ (32 - bits w) - 1 :: nat)" by (cases w) simp_all
    ultimately show ?thesis
      using False unfolding word_unat_eq_iff unat_cast bit_unat by simp
  qed
qed

lemma borrow_arith:
  fixes A V C Y M :: nat
  assumes "Y + (if b then M else 0) = A + (M - 1 - V) + C" and "V < M" and "C \<le> 1"
  shows "int Y - (if b then 0 else int M) = int A - int V - int (1 - C)"
  using assms by (cases b; cases C) (simp_all add: of_nat_diff)

text \<open>
  C18: \<open>SBC\<close> in binary mode subtracts with borrow.  With an operand below \<open>2 ^ n\<close>, the new
  accumulator is the difference of accumulator, operand and borrow (the complement of the carry)
  plus \<open>2 ^ n\<close> exactly when it is negative, and then the carry is clear; sign is that of the new
  accumulator; overflow is set exactly when the signed difference does not fit; and zero is set
  exactly when the difference is 0, which is not always when the new accumulator is.
\<close>

theorem SubBin_correct:
  assumes "unat v < 2 ^ bits w"
  shows "let a = reg_get RA w s; s' = SubBin w v s; a' = reg_get RA w s';
             borrow = (if is_carry s then 0 else 1);
             diff = sval w a - sval w v - int borrow in
    uint a' - (if is_carry s' then 0 else 2 ^ bits w) = uint a - uint v - int borrow \<and>
    (is_zero s' \<longleftrightarrow> unat a = unat v + borrow) \<and> (is_negative s' \<longleftrightarrow> sval w a' < 0) \<and>
    (is_overflow s' \<longleftrightarrow> diff < - (2 ^ (bits w - 1)) \<or> 2 ^ (bits w - 1) \<le> diff)"
proof -
  define a where "a = reg_get RA w s"
  define v' where "v' = 2 ^ bits w - 1 - v"
  define x where "x = a + v' + carry_in s"
  define r where "r = a - v - 1 + carry_in s"
  have a: "unat a < 2 ^ bits w" unfolding a_def by (rule unat_reg_get)
  have c: "unat (carry_in s) \<le> 1" "unat (carry_in s) = (if is_carry s then 1 else 0)"
    by (simp_all add: carry_in_le)
  have rx: "r = x - 2 ^ bits w"
    by (simp add: r_def x_def v'_def algebra_simps)
  note v' = complement [OF assms, folded v'_def]
  note d = sum_digits [OF a v'(2) c(1) x_def]
  note w = sub_wrap [OF d(2) rx]
  note f = SubBin_flags [OF r_def [unfolded a_def], folded a_def]
  note o = signed_overflow [OF a v'(2) c(1) x_def, unfolded v'(3,4)]
  have signs: "bit r (bits w - 1) = bit (cast w r) (bits w - 1)"
    "bit x (bits w - 1) = bit (cast w r) (bits w - 1)"
    using bits_simps(3) [of w] bit_cast [of "bits w - 1" w] w by (metis diff_less zero_less_one)+
  have over: "is_overflow (SubBin w v s) \<longleftrightarrow>
      sval w a + (- 1 - sval w v) + int (unat (carry_in s)) < - (2 ^ (bits w - 1)) \<or>
      2 ^ (bits w - 1) \<le> sval w a + (- 1 - sval w v) + int (unat (carry_in s))"
    unfolding o [symmetric] f(5) signs by auto
  have neg: "is_negative (SubBin w v s) \<longleftrightarrow> sval w (cast w r) < 0"
    unfolding f(4) signs(1) by (simp only: sign_bit [OF unat_cast_less] sign_sval [OF unat_cast_less])
  have zero: "r = 0 \<longleftrightarrow> unat a = unat v + (1 - unat (carry_in s))"
  proof -
    have "r = 0 \<longleftrightarrow> unat x = 2 ^ bits w"
      unfolding rx right_minus_eq by (simp only: word_unat_eq_iff) (cases w; simp)
    then show ?thesis
      unfolding d(1) v'(1) using assms c(1) by (cases w) auto
  qed
  have digits: "int (unat (cast w r)) - (if is_carry (SubBin w v s) then 0 else 2 ^ bits w) =
      int (unat a) - int (unat v) - int (1 - unat (carry_in s))"
    using borrow_arith [OF d(3) [unfolded v'(1) bit_iff_le [OF d(2)]] assms c(1)]
    unfolding f(2) conjunct1 [OF w] conjunct2 [OF w] not_not
    by (simp only: of_nat_power of_nat_numeral)
  show ?thesis
    unfolding Let_def a_def [symmetric] f(1) uint_nat
    using over neg zero digits f(3) c(2) by (auto split: if_splits)
qed

theorem SubBin_correct_witness:
  "(let s = (linear_machine [])\<lparr>carry := 2, regs_a := 0x50\<rparr>; s' = SubBin W8 0xB0 s in
    is_overflow s' \<and> \<not> is_carry s' \<and> uint (reg_get RA W8 s') = 0xA0)"
proof -
  let ?s = "(linear_machine [])\<lparr>carry := 2, regs_a := 0x50\<rparr>"
  have a: "reg_get RA W8 ?s = 0x50" by (simp add: lo8_def)
  have c: "is_carry ?s" by (simp add: is_carry_def)
  have v: "unat (0xB0 :: u32) < 2 ^ bits W8" by simp
  obtain z where z: "uint (reg_get RA W8 (SubBin W8 0xB0 ?s)) = z" "0 \<le> z"
    by simp
  from SubBin_correct [OF v, of ?s] z(2) show ?thesis
    by (auto simp: Let_def a c z(1) sval_def simp del: reg_get.simps split: if_splits)
qed

text \<open>
  The zero flag of \<open>SBC\<close> is taken from the untruncated difference: with accumulator 0, operand
  255 and a borrow the new accumulator is 0 and zero is clear.
\<close>

lemma SubBin_zero_flag_wrong:
  "\<exists>s :: unit machine. reg_get RA W8 (SubBin W8 0xFF s) = 0 \<and> \<not> is_zero (SubBin W8 0xFF s)"
  by (rule exI [of _ "(linear_machine [])\<lparr>regs_a := 0, carry := 0\<rparr>"])
    (simp add: SubBin_def Let_def carry_in_def is_zero_def lo8_def set_lo8_def)

section \<open>Decimal mode\<close>

text \<open>\<open>0x99 + 0x01\<close> is \<open>0xA0\<close> without carry, and \<open>0x10 - 0x01\<close> is \<open>0x75\<close>.\<close>

lemma AddDec_not_decimal:
  "\<exists>s :: unit machine. reg_get RA W8 s = 0x99 \<and> \<not> is_carry s \<and>
    reg_get RA W8 (AddDec W8 0x01 s) = 0xA0 \<and> \<not> is_carry (AddDec W8 0x01 s)"
  by (rule exI [of _ "(linear_machine [])\<lparr>regs_a := 0x99, carry := 0\<rparr>"])
    (simp add: AddDec_def decimal_adjust_def Let_def carry_in_def is_carry_def lo8_def set_lo8_def)

lemma SubDec_not_decimal:
  "\<exists>s :: unit machine. reg_get RA W8 s = 0x10 \<and> is_carry s \<and>
    reg_get RA W8 (SubDec W8 0x01 s) = 0x75"
  by (rule exI [of _ "(linear_machine [])\<lparr>regs_a := 0x10, carry := 2\<rparr>"])
    (simp add: SubDec_def decimal_adjust_def Let_def carry_in_def is_carry_def lo8_def set_lo8_def)

section \<open>Comparison\<close>

lemma compare_arith:
  fixes A V M k :: nat
  assumes "A < M" "V < M" "0 < k"
  shows "int ((if V \<le> A then A - V else A + M * k - V) mod M) = (int A - int V) mod int M"
proof (cases "V \<le> A")
  case False
  have "M \<le> M * k" using assms(3) by simp
  then have "V \<le> A + M * k" using assms(2) by linarith
  then have "int (A + M * k - V) = int A - int V + int M * int k"
    using assms by (simp add: of_nat_diff)
  then show ?thesis
    using False by (simp add: zmod_int)
qed (simp add: zmod_int of_nat_diff)

text \<open>
  \<open>CMP\<close>, \<open>CPX\<close> and \<open>CPY\<close> compare.  For register and operand below \<open>2 ^ n\<close>, carry is set
  exactly when the operand is not greater, zero exactly when they are equal, and sign is that of
  the difference modulo \<open>2 ^ n\<close>; the registers are unchanged.
\<close>

theorem DoCmp_correct:
  assumes "unat r < 2 ^ bits w" and "unat v < 2 ^ bits w"
  shows "let s' = DoCmp w r v s in
    (is_carry s' \<longleftrightarrow> unat v \<le> unat r) \<and> (is_zero s' \<longleftrightarrow> r = v) \<and>
    (is_negative s' \<longleftrightarrow> 2 ^ (bits w - 1) \<le> (uint r - uint v) mod 2 ^ bits w) \<and>
    reg16 k s' = reg16 k s"
proof -
  have split: "2 ^ bits w * 2 ^ (32 - bits w) = (2 ^ 32 :: nat)" by (cases w) simp_all
  have m: "int (unat (cast w (r - v))) = (int (unat r) - int (unat v)) mod 2 ^ bits w"
    unfolding unat_cast unat_sub_if'
    using compare_arith [OF assms, of "2 ^ (32 - bits w)", unfolded split]
    by (cases "unat v \<le> unat r") simp_all
  have eq: "cast w (r - v) = 0 \<longleftrightarrow> r = v"
  proof -
    have small: "int (unat x) mod 2 ^ bits w = int (unat x)" if "unat x < 2 ^ bits w" for x :: u32
      using that by (metis mod_less of_nat_mod of_nat_numeral of_nat_power)
    have "cast w (r - v) = 0 \<longleftrightarrow> (int (unat r) - int (unat v)) mod 2 ^ bits w = 0"
      unfolding m [symmetric] by (simp only: of_nat_eq_0_iff unat_eq_0)
    also have "\<dots> \<longleftrightarrow> int (unat r) mod 2 ^ bits w = int (unat v) mod 2 ^ bits w"
      by (simp only: mod_eq_dvd_iff mod_eq_0_iff_dvd)
    finally show ?thesis
      unfolding small [OF assms(1)] small [OF assms(2)]
      by (simp only: of_nat_eq_iff word_unat_eq_iff)
  qed
  have "2 ^ (bits w - 1) \<le> unat (cast w (r - v)) \<longleftrightarrow>
      2 ^ (bits w - 1) \<le> int (unat (cast w (r - v)))"
    by (metis of_nat_le_iff of_nat_numeral of_nat_power)
  then have sign: "bit (cast w (r - v)) (bits w - 1) \<longleftrightarrow>
      2 ^ (bits w - 1) \<le> (int (unat r) - int (unat v)) mod 2 ^ bits w"
    by (simp only: sign_bit [OF unat_cast_less] m)
  show ?thesis
    using sign by (cases k) (simp_all add: DoCmp_def SetNZ_def Let_def is_carry_def is_zero_def eq
        is_negative_def word_le_nat_alt and_one bit_drop_bit_eq del: cast.simps)
qed

theorem DoCmp_correct_witness:
  "(let s' = DoCmp W8 0x10 0x20 (linear_machine []) in
    \<not> is_carry s' \<and> \<not> is_zero s' \<and> is_negative s')"
proof -
  have "unat (0x10 :: u32) < 2 ^ bits W8" "unat (0x20 :: u32) < 2 ^ bits W8" by simp_all
  from DoCmp_correct [OF this, of "linear_machine []" RA] show ?thesis
    by (simp add: Let_def)
qed

section \<open>Shifts and exchanges\<close>

text \<open>The two rotations of a register value of width \<open>w\<close> through the carry flag.\<close>

definition rol :: "width \<Rightarrow> u32 \<Rightarrow> u32 \<Rightarrow> u32" where
  "rol w a c = cast w (push_bit 1 a OR drop_bit 1 (c AND 2))"

definition ror :: "width \<Rightarrow> u32 \<Rightarrow> u32 \<Rightarrow> u32" where
  "ror w a c = cast w (drop_bit 1 a OR push_bit (bits w - 2) (c AND 2))"

lemma bit_two: "bit (2 :: u32) n \<longleftrightarrow> n = 1"
  using bit_exp_iff [of 1 n, where 'a = "32 word"] by auto

lemma bit_cast_iff: "bit (cast w r) n \<longleftrightarrow> n < bits w \<and> bit r n"
  by (cases w) (auto simp: bit_simps mask_bits)

lemma bit_rol:
  "bit (rol w a c) n \<longleftrightarrow> n < bits w \<and> (if n = 0 then bit c 1 else bit a (n - 1))"
  using bits_simps(2) [of w] unfolding rol_def
  by (simp only: bit_cast_iff bit_or_iff bit_push_bit_iff bit_drop_bit_eq bit_and_iff bit_two o_def)
    (auto simp: not_le)

lemma bit_ror:
  "bit (ror w a c) n \<longleftrightarrow> n < bits w \<and> (bit a (Suc n) \<or> n = bits w - 1 \<and> bit c 1)"
  using bits_simps(1) [of w] unfolding ror_def
  by (simp only: bit_cast_iff bit_or_iff bit_push_bit_iff bit_drop_bit_eq bit_and_iff bit_two o_def)
    auto

lemma ror_rol:
  assumes "cast w a = a"
  shows "ror w (rol w a c) (drop_bit (bits w - 2) a) = a"
proof -
  have "bit (ror w (rol w a c) (drop_bit (bits w - 2) a)) n \<longleftrightarrow> bit (cast w a) n" for n
    using bits_simps(1) [of w]
    by (cases "n = bits w - 1") (auto simp: bit_ror bit_rol bit_cast_iff bit_drop_bit_eq)
  then show ?thesis
    unfolding assms by (intro bit_word_eqI) simp
qed

lemma rol_carry: "bit (rol w a c) 0 \<longleftrightarrow> bit c 1"
  using bits_simps(3) [of w] by (simp add: bit_rol)

lemma OpRol_A:
  "Exec (OpRol (AddrA w XY)) io s =
     (let a = reg_get RA w s in
      Some ((), advance_ip 1 (reg_set RA w (rol w a (carry s))
        (InternalOp ((SetNZ w (rol w a (carry s)) s)\<lparr>carry := drop_bit (bits w - 2) a\<rparr>)))))"
  by (simp add: OpRol_def AddrA_def Let_def rol_def conditional_cycle_def
      del: reg_get.simps reg_set.simps cast.simps)

lemma OpRor_A:
  "Exec (OpRor (AddrA w XY)) io s =
     (let a = reg_get RA w s in
      Some ((), advance_ip 1 (reg_set RA w (ror w a (carry s))
        (InternalOp ((SetNZ w (ror w a (carry s)) s)\<lparr>carry := push_bit 1 (a AND 1)\<rparr>)))))"
  by (simp add: OpRor_def AddrA_def Let_def ror_def conditional_cycle_def
      del: reg_get.simps reg_set.simps cast.simps)

lemma cast_reg_get [simp]: "cast w (reg_get r w s) = reg_get r w s"
  by (rule cast_small [OF unat_reg_get])

text \<open>
  The rotations of the accumulator are inverse.  \<open>ROR A\<close> after \<open>ROL A\<close> restores the whole 16-bit
  accumulator (its high byte in 8-bit mode too), every other register, and the carry flag.
\<close>

theorem ror_after_rol:
  "\<exists>s1 s2. Exec (OpRol (AddrA w XY)) io s = Some ((), s1) \<and>
    Exec (OpRor (AddrA w XY)) io s1 = Some ((), s2) \<and>
    (\<forall>k. reg16 k s2 = reg16 k s) \<and> is_carry s2 = is_carry s"
proof -
  define a where "a = reg_get RA w s"
  define b where "b = rol w a (carry s)"
  define s1 where "s1 = advance_ip 1 (reg_set RA w b
    (InternalOp ((SetNZ w b s)\<lparr>carry := drop_bit (bits w - 2) a\<rparr>)))"
  have 1: "Exec (OpRol (AddrA w XY)) io s = Some ((), s1)"
    by (simp only: OpRol_A Let_def a_def b_def s1_def)
  have b: "reg_get RA w s1 = b"
  proof -
    have "cast w b = b" by (simp add: b_def rol_def del: cast.simps)
    moreover have "reg_get RA w (advance_ip 1 t) = reg_get RA w t" for t :: "'a machine"
      by (cases w) (simp_all add: advance_ip_def)
    ultimately show ?thesis by (simp only: s1_def reg_get_reg_set)
  qed
  have c: "carry s1 = drop_bit (bits w - 2) a"
    by (simp add: s1_def advance_ip_def InternalOp_def del: reg_set.simps)
  have "ror w b (carry s1) = a"
    unfolding c b_def by (rule ror_rol) (simp add: a_def del: reg_get.simps cast.simps)
  then have 2: "Exec (OpRor (AddrA w XY)) io s1 = Some ((), advance_ip 1 (reg_set RA w a
      (InternalOp ((SetNZ w a s1)\<lparr>carry := push_bit 1 (b AND 1)\<rparr>))))"
    by (simp only: OpRor_A Let_def b)
  have regs: "reg16 k (advance_ip 1 (reg_set RA w a
      (InternalOp ((SetNZ w a s1)\<lparr>carry := push_bit 1 (b AND 1)\<rparr>)))) = reg16 k s" for k
    by (cases w; cases k)
      (simp_all add: advance_ip_def InternalOp_def SetNZ_def s1_def a_def)
  have "bit (push_bit 1 (b AND 1)) 1 \<longleftrightarrow> bit (carry s) 1"
    unfolding bit_push_bit_iff bit_and_iff b_def diff_self_eq_0 rol_carry by (simp add: bit_1_iff)
  then have "is_carry (advance_ip 1 (reg_set RA w a
      (InternalOp ((SetNZ w a s1)\<lparr>carry := push_bit 1 (b AND 1)\<rparr>)))) = is_carry s"
    by (simp only: is_carry_def and_two) (simp add: advance_ip_def InternalOp_def del: reg_set.simps)
  with 1 2 regs show ?thesis by blast
qed

end
