(* ===== verification/Cpu_Stack.thy ===== *)
theory Cpu_Stack
  imports Cpu_Arith
begin

text \<open>
  Memory accesses of the CPU on plain memory, the stack, and what is built on it: subroutine calls,
  software interrupts and the status register.
\<close>

section \<open>Accesses of plain memory\<close>

text \<open>The state after a read or a write of \<open>n\<close> cycles.\<close>

definition tick :: "u32 \<Rightarrow> 'd machine \<Rightarrow> 'd machine" where
  "tick n s = s\<lparr>cycle := cycle s + ucast n\<rparr>"

lemma ReadU8_ram:
  "ram_ptr s a = Some q \<Longrightarrow>
    ReadU8 io a s = Some (ram_byte s q, tick (page_cycles s a) (set_open_bus (ram_byte s q) s))"
  by (simp add: ReadU8_def ReadByte_ram tick_def)

lemma WriteU8_ram:
  "ram_ptr s a = Some q \<Longrightarrow> page_flags s a AND kReadOnly = 0 \<Longrightarrow>
    WriteU8 io a v s =
      Some ((), tick (page_cycles s a) (set_open_bus (bus_latch s a v) (ram_store q v s)))"
  by (simp add: WriteU8_def WriteByte_ram tick_def)

text \<open>What memory an address stands for depends on the bus alone.\<close>

lemma ram_ptr_cong:
  "host s = host t \<Longrightarrow> sysbus s = sysbus t \<Longrightarrow> ram_ptr s = ram_ptr t"
  "sysbus s = sysbus t \<Longrightarrow> page_flags s = page_flags t"
  "sysbus s = sysbus t \<Longrightarrow> page_cycles s = page_cycles t"
  "host s = host t \<Longrightarrow> ram_byte s = ram_byte t"
  by (auto simp: ram_ptr_def page_flags_def page_cycles_def ram_byte_def page_at_def page_index_def
      page_offset_def Let_def fun_eq_iff cong: option.case_cong if_cong)

named_theorems frames \<open>what the primitive state updates leave unchanged\<close>

lemma bus_frames [frames]:
  "ram_ptr (tick n s) = ram_ptr s" "ram_byte (tick n s) = ram_byte s"
  "page_flags (tick n s) = page_flags s"
  "ram_ptr (s\<lparr>regs_sp := v\<rparr>) = ram_ptr s" "ram_byte (s\<lparr>regs_sp := v\<rparr>) = ram_byte s"
  "page_flags (s\<lparr>regs_sp := v\<rparr>) = page_flags s"
  "ram_ptr (s\<lparr>ip := a\<rparr>) = ram_ptr s" "ram_byte (s\<lparr>ip := a\<rparr>) = ram_byte s"
  "page_flags (s\<lparr>ip := a\<rparr>) = page_flags s"
  "ram_ptr (s\<lparr>code_segment_base := a\<rparr>) = ram_ptr s"
  "ram_byte (s\<lparr>code_segment_base := a\<rparr>) = ram_byte s"
  "page_flags (s\<lparr>code_segment_base := a\<rparr>) = page_flags s"
  "ram_ptr (s\<lparr>interrupts := a\<rparr>) = ram_ptr s" "ram_byte (s\<lparr>interrupts := a\<rparr>) = ram_byte s"
  "page_flags (s\<lparr>interrupts := a\<rparr>) = page_flags s"
  "ram_ptr (s\<lparr>other_flags := a\<rparr>) = ram_ptr s" "ram_byte (s\<lparr>other_flags := a\<rparr>) = ram_byte s"
  "page_flags (s\<lparr>other_flags := a\<rparr>) = page_flags s"
  by (rule ram_ptr_cong; simp add: tick_def)+

lemma more_bus_frames [frames]:
  "ram_ptr (InternalOp_n n s) = ram_ptr s" "ram_byte (InternalOp_n n s) = ram_byte s"
  "page_flags (InternalOp_n n s) = page_flags s"
  "ram_ptr (SetStatusRegister f s) = ram_ptr s" "ram_byte (SetStatusRegister f s) = ram_byte s"
  "page_flags (SetStatusRegister f s) = page_flags s"
  by (rule ram_ptr_cong; simp add: InternalOp_n_def SetStatusRegister_def Let_def)+

lemma machine_frames [frames]:
  "regs_a (tick n s) = regs_a s" "regs_x (tick n s) = regs_x s" "regs_y (tick n s) = regs_y s"
  "regs_d (tick n s) = regs_d s" "regs_sp (tick n s) = regs_sp s" "ip (tick n s) = ip s"
  "code_segment_base (tick n s) = code_segment_base s"
  "data_segment_base (tick n s) = data_segment_base s"
  "mode_emulation (tick n s) = mode_emulation s" "mode_native_6502 (tick n s) = mode_native_6502 s"
  "mode_long_a (tick n s) = mode_long_a s" "mode_long_xy (tick n s) = mode_long_xy s"
  "zero_flag (tick n s) = zero_flag s" "negative_flag (tick n s) = negative_flag s"
  "carry (tick n s) = carry s" "interrupts (tick n s) = interrupts s"
  "other_flags (tick n s) = other_flags s"
  by (simp_all add: tick_def)

lemma open_bus_frames [frames]:
  "regs_a (set_open_bus v s) = regs_a s" "regs_x (set_open_bus v s) = regs_x s"
  "regs_y (set_open_bus v s) = regs_y s" "regs_d (set_open_bus v s) = regs_d s"
  "regs_sp (set_open_bus v s) = regs_sp s" "ip (set_open_bus v s) = ip s"
  "code_segment_base (set_open_bus v s) = code_segment_base s"
  "data_segment_base (set_open_bus v s) = data_segment_base s"
  "mode_emulation (set_open_bus v s) = mode_emulation s"
  "mode_native_6502 (set_open_bus v s) = mode_native_6502 s"
  "mode_long_a (set_open_bus v s) = mode_long_a s" "mode_long_xy (set_open_bus v s) = mode_long_xy s"
  "zero_flag (set_open_bus v s) = zero_flag s" "negative_flag (set_open_bus v s) = negative_flag s"
  "carry (set_open_bus v s) = carry s" "interrupts (set_open_bus v s) = interrupts s"
  "other_flags (set_open_bus v s) = other_flags s"
  by (simp_all add: set_open_bus_def)

lemma ram_store_frames [frames]:
  "regs_a (ram_store q v s) = regs_a s" "regs_x (ram_store q v s) = regs_x s"
  "regs_y (ram_store q v s) = regs_y s" "regs_d (ram_store q v s) = regs_d s"
  "regs_sp (ram_store q v s) = regs_sp s" "ip (ram_store q v s) = ip s"
  "code_segment_base (ram_store q v s) = code_segment_base s"
  "data_segment_base (ram_store q v s) = data_segment_base s"
  "mode_emulation (ram_store q v s) = mode_emulation s"
  "mode_native_6502 (ram_store q v s) = mode_native_6502 s"
  "mode_long_a (ram_store q v s) = mode_long_a s" "mode_long_xy (ram_store q v s) = mode_long_xy s"
  "zero_flag (ram_store q v s) = zero_flag s" "negative_flag (ram_store q v s) = negative_flag s"
  "carry (ram_store q v s) = carry s" "interrupts (ram_store q v s) = interrupts s"
  "other_flags (ram_store q v s) = other_flags s"
  by (simp_all add: ram_store_def)

lemma InternalOp_frames [frames]:
  "regs_a (InternalOp_n n s) = regs_a s" "regs_x (InternalOp_n n s) = regs_x s"
  "regs_y (InternalOp_n n s) = regs_y s" "regs_d (InternalOp_n n s) = regs_d s"
  "regs_sp (InternalOp_n n s) = regs_sp s" "ip (InternalOp_n n s) = ip s"
  "code_segment_base (InternalOp_n n s) = code_segment_base s"
  "data_segment_base (InternalOp_n n s) = data_segment_base s"
  "mode_emulation (InternalOp_n n s) = mode_emulation s"
  "mode_native_6502 (InternalOp_n n s) = mode_native_6502 s"
  "zero_flag (InternalOp_n n s) = zero_flag s" "negative_flag (InternalOp_n n s) = negative_flag s"
  "carry (InternalOp_n n s) = carry s" "interrupts (InternalOp_n n s) = interrupts s"
  "other_flags (InternalOp_n n s) = other_flags s"
  "mode_long_a (InternalOp_n n s) = mode_long_a s" "mode_long_xy (InternalOp_n n s) = mode_long_xy s"
  by (simp_all add: InternalOp_n_def)

section \<open>The stack pointer\<close>

lemma mod_256: "x mod 65536 mod 256 = (x :: int) mod 256"
  by (rule mod_mod_cancel) simp

lemma lo8_minus: "lo8 (x - y) = lo8 x - lo8 y"
  unfolding lo8_def
  by transfer (simp add: take_bit_eq_mod mod_256, metis mod_256 mod_diff_eq)

lemma lo8_plus: "lo8 (x + y) = lo8 x + lo8 y"
  unfolding lo8_def
  by transfer (simp add: take_bit_eq_mod mod_256, metis mod_256 mod_add_eq)

lemma lo8_1 [simp]: "lo8 1 = 1"
  by (simp add: lo8_def)

lemma unat_split: "unat (x :: u16) = unat (hi8 x) * 256 + unat (lo8 x)"
proof -
  have x: "unat x < 2 ^ 16" using unsigned_less [of x, where 'a = nat] by simp
  have "unat (lo8 x) = unat x mod 2 ^ 8"
    by (simp add: lo8_def unsigned_ucast_eq take_bit_eq_mod)
  moreover have "unat (hi8 x) = unat x div 2 ^ 8"
    using x unfolding hi8_def unsigned_ucast_eq unat_drop_bit_div
    by (simp add: take_bit_nat_eq_self div_less_iff_less_mult)
  ultimately show ?thesis by simp
qed

lemma dec_in_page: "lo8 x \<noteq> 0 \<Longrightarrow> set_lo8 (lo8 x - 1) x = x - 1"
proof (rule word16_eqI)
  assume "lo8 x \<noteq> 0"
  then have l: "1 \<le> unat (lo8 x)" using unat_gt_0 [of "lo8 x"] by simp
  have x1: "unat (x - 1) = unat x - 1"
    using unat_split [of x] l by (subst unat_sub) (simp_all add: word_le_nat_alt)
  have "unat (lo8 (x - 1)) = unat (lo8 x) - 1"
    using l by (simp add: lo8_minus unat_sub word_le_nat_alt)
  then have "unat (hi8 (x - 1)) * 256 = unat (hi8 x) * 256"
    using unat_split [of x] unat_split [of "x - 1"] x1 l by simp
  then show "hi8 (set_lo8 (lo8 x - 1) x) = hi8 (x - 1)"
    by (simp add: word_unat_eq_iff)
qed (simp add: lo8_minus)

lemma u8_wraps: "(b :: u8) + 1 = 0 \<longleftrightarrow> b = 0xFF"
proof -
  have "(0xFF :: u8) = - 1" by simp
  show ?thesis
    unfolding \<open>(0xFF :: u8) = - 1\<close> eq_neg_iff_add_eq_0 by (rule refl)
qed

lemma inc_in_page: "lo8 x \<noteq> 0xFF \<Longrightarrow> set_lo8 (lo8 x + 1) x = x + 1"
proof -
  assume "lo8 x \<noteq> 0xFF"
  then have "lo8 (x + 1) \<noteq> 0"
    by (simp only: lo8_plus lo8_1 u8_wraps) simp
  from dec_in_page [OF this] have "set_lo8 (lo8 x) (x + 1) = x" by (simp add: lo8_plus)
  then have "set_lo8 (lo8 x + 1) (set_lo8 (lo8 x) (x + 1)) = set_lo8 (lo8 x + 1) x" by simp
  then have "set_lo8 (lo8 (x + 1)) (x + 1) = set_lo8 (lo8 x + 1) x"
    by (simp add: lo8_plus)
  then show ?thesis by simp
qed

text \<open>
  Room for \<open>k\<close> bytes: in emulation mode the stack pointer does not leave its page, so that it moves
  as in native mode.
\<close>

definition stack_room :: "nat \<Rightarrow> 'd machine \<Rightarrow> bool" where
  "stack_room k s \<longleftrightarrow> mode_emulation s \<longrightarrow> k \<le> unat (lo8 (regs_sp s))"

lemma sp_dec_room: "stack_room (Suc k) s \<Longrightarrow> sp_dec s = s\<lparr>regs_sp := regs_sp s - 1\<rparr>"
proof -
  assume "stack_room (Suc k) s"
  then have "mode_emulation s \<Longrightarrow> set_lo8 (lo8 (regs_sp s) - 1) (regs_sp s) = regs_sp s - 1"
    by (intro dec_in_page) (auto simp: stack_room_def)
  then show ?thesis by (simp add: sp_dec_def)
qed

lemma stack_room_dec:
  "stack_room (Suc k) s \<Longrightarrow> stack_room k (s\<lparr>regs_sp := regs_sp s - 1\<rparr>)"
proof -
  assume "stack_room (Suc k) s"
  moreover have "unat (lo8 x - 1) = unat (lo8 x) - 1" if "Suc k \<le> unat (lo8 x)" for x
    using that by (subst unat_sub) (simp_all add: word_le_nat_alt)
  ultimately show ?thesis by (auto simp: stack_room_def lo8_minus)
qed

lemma unat_lo8_plus_1: "lo8 x \<noteq> 0xFF \<Longrightarrow> unat (lo8 (x + 1)) = Suc (unat (lo8 x))"
proof -
  assume "lo8 x \<noteq> 0xFF"
  then have "1 + lo8 x \<noteq> 0"
    by (simp only: add.commute [of 1] u8_wraps) simp
  from unatSuc [OF this] show ?thesis by (simp only: lo8_plus lo8_1 add.commute [of 1])
qed

lemma sp_inc_room:
  "mode_emulation s \<longrightarrow> lo8 (regs_sp s) \<noteq> 0xFF \<Longrightarrow> sp_inc s = s\<lparr>regs_sp := regs_sp s + 1\<rparr>"
  by (auto simp: sp_inc_def inc_in_page)

lemma stack_room_frames [frames]:
  "stack_room k (tick n s) = stack_room k s" "stack_room k (set_open_bus v s) = stack_room k s"
  "stack_room k (ram_store q v s) = stack_room k s"
  by (simp_all add: stack_room_def frames)

section \<open>Push and pop\<close>

lemma sp_address [simp]: "(ucast (x :: u16) :: u32) AND 0xFFFF = ucast x"
  by (rule bit_word_eqI) (auto simp: bit_simps mask_bits dest: bit_imp_le_length)

lemma sp_address_inc: "((ucast (x :: u16) :: u32) + 1) AND 0xFFFF = ucast (x + 1)"
proof -
  have "((ucast x :: u32) + 1) AND 0xFFFF = take_bit 16 (ucast x + 1)"
    by (simp add: take_bit_eq_mask mask_eq_exp_minus_1)
  also have "\<dots> = ucast (x + 1)"
    by transfer (simp add: take_bit_eq_mod mod_simps)
  finally show ?thesis .
qed

lemma Push8_ram:
  assumes "ram_ptr s (ucast (regs_sp s)) = Some q" "page_flags s (ucast (regs_sp s)) AND kReadOnly = 0"
    and "stack_room (Suc k) s"
  obtains n l where "Push8 io v s =
    Some ((), (tick n (set_open_bus l (ram_store q v s)))\<lparr>regs_sp := regs_sp s - 1\<rparr>)"
  using assms
  by (simp add: Push8_def WriteZero8_def WriteU8_ram) (simp add: sp_dec_room frames)

lemma Pop8_ram:
  assumes "ram_ptr s (ucast (regs_sp s + 1)) = Some q"
    and "mode_emulation s \<longrightarrow> lo8 (regs_sp s) \<noteq> 0xFF"
  obtains n where "Pop8 io s =
    Some (ram_byte s q, (tick n (set_open_bus (ram_byte s q) s))\<lparr>regs_sp := regs_sp s + 1\<rparr>)"
  using assms
  by (simp add: Pop8_def sp_address_inc ReadU8_ram) (simp add: sp_inc_room frames)

section \<open>The contract of a byte stack\<close>

text \<open>
  \<open>holds k bs s\<close>: the stack of \<open>s\<close> has \<open>bs\<close> on it, the top first, and room for \<open>k\<close> more bytes.
\<close>

locale byte_stack =
  fixes push :: "u8 \<Rightarrow> 's \<Rightarrow> (unit \<times> 's) option" and pop :: "'s \<Rightarrow> (u8 \<times> 's) option"
    and holds :: "nat \<Rightarrow> u8 list \<Rightarrow> 's \<Rightarrow> bool"
  assumes push_law: "holds (Suc k) bs s \<Longrightarrow> \<exists>s'. push v s = Some ((), s') \<and> holds k (v # bs) s'"
    and pop_law: "holds k (b # bs) s \<Longrightarrow> \<exists>s'. pop s = Some (b, s') \<and> holds (Suc k) bs s'"
begin

lemma push_holds:
  assumes "holds (Suc k) bs s"
  obtains s' where "push v s = Some ((), s')" and "holds k (v # bs) s'"
  using push_law [OF assms, of v] by blast

lemma pop_holds:
  assumes "holds k (b # bs) s"
  obtains s' where "pop s = Some (b, s')" and "holds (Suc k) bs s'"
  using pop_law [OF assms] by blast

text \<open>The word operations: the high byte is pushed first and popped last.\<close>

lemma push_word_law:
  assumes "holds (Suc (Suc k)) bs s"
  shows "\<exists>s'. (push h s \<bind> (\<lambda>(_, s). push l s)) = Some ((), s') \<and> holds k (l # h # bs) s'"
proof -
  obtain s1 where 1: "push h s = Some ((), s1)" "holds (Suc k) (h # bs) s1"
    by (rule push_holds [OF assms])
  obtain s2 where 2: "push l s1 = Some ((), s2)" "holds k (l # h # bs) s2"
    by (rule push_holds [OF 1(2)])
  from 1 2 show ?thesis by simp
qed

lemma pop_word_law:
  assumes "holds k (l # h # bs) s"
  shows "\<exists>s'. (pop s \<bind> (\<lambda>(low, s). pop s \<bind> (\<lambda>(high, s). Some (le16 low high, s)))) =
      Some (le16 l h, s') \<and> holds (Suc (Suc k)) bs s'"
proof -
  obtain s1 where 1: "pop s = Some (l, s1)" "holds (Suc k) (h # bs) s1"
    by (rule pop_holds [OF assms])
  obtain s2 where 2: "pop s1 = Some (h, s2)" "holds (Suc (Suc k)) bs s2"
    by (rule pop_holds [OF 1(2)])
  from 1 2 show ?thesis by simp
qed

end

section \<open>The stack of the CPU\<close>

text \<open>Everything a push or a pop leaves alone.\<close>

definition same_regs :: "'d machine \<Rightarrow> 'd machine \<Rightarrow> bool" where
  "same_regs s t \<longleftrightarrow>
     regs_a t = regs_a s \<and> regs_x t = regs_x s \<and> regs_y t = regs_y s \<and> regs_d t = regs_d s \<and>
     ip t = ip s \<and> code_segment_base t = code_segment_base s \<and>
     data_segment_base t = data_segment_base s \<and>
     mode_emulation t = mode_emulation s \<and> mode_native_6502 t = mode_native_6502 s \<and>
     mode_long_a t = mode_long_a s \<and> mode_long_xy t = mode_long_xy s \<and>
     zero_flag t = zero_flag s \<and> negative_flag t = negative_flag s \<and> carry t = carry s \<and>
     interrupts t = interrupts s \<and> other_flags t = other_flags s"

definition stack_address :: "'d machine \<Rightarrow> nat \<Rightarrow> u32" where
  "stack_address s i = ucast (regs_sp s - of_nat i)"

text \<open>
  The \<open>n\<close> bytes below the stack pointer are distinct writable bytes of memory, and in emulation
  mode the page of the stack has room for them.
\<close>

definition stack_area :: "nat \<Rightarrow> 'd machine \<Rightarrow> bool" where
  "stack_area n s \<longleftrightarrow>
     (\<forall>i<n. ram_ptr s (stack_address s i) \<noteq> None \<and> page_flags s (stack_address s i) AND kReadOnly = 0) \<and>
     (\<forall>i<n. \<forall>j<n. i \<noteq> j \<longrightarrow> ram_ptr s (stack_address s i) \<noteq> ram_ptr s (stack_address s j)) \<and>
     (mode_emulation s \<longrightarrow> n \<le> unat (lo8 (regs_sp s)))"

definition stack_holds :: "nat \<Rightarrow> 'd machine \<Rightarrow> nat \<Rightarrow> u8 list \<Rightarrow> 'd machine \<Rightarrow> bool" where
  "stack_holds n s0 k bs s \<longleftrightarrow>
     stack_area n s0 \<and> length bs + k = n \<and> regs_sp s = regs_sp s0 - of_nat (length bs) \<and>
     same_regs s0 s \<and> ram_ptr s = ram_ptr s0 \<and> page_flags s = page_flags s0 \<and>
     (\<forall>i < length bs. ram_byte s (the (ram_ptr s0 (stack_address s0 i))) = rev bs ! i)"

lemma stack_holds_start: "stack_area n s \<Longrightarrow> stack_holds n s n [] s"
  by (simp add: stack_holds_def same_regs_def)

lemma lo8_stack:
  assumes "m \<le> unat (lo8 x)"
  shows "unat (lo8 (x - of_nat m)) = unat (lo8 x) - m"
proof -
  have m: "m < 256" using assms u8_less [of "lo8 x"] by linarith
  then have "unat (of_nat m :: u8) = m" "lo8 (of_nat m) = of_nat m"
    by (simp_all add: lo8_def word_unat_eq_iff unsigned_ucast_eq unat_of_nat take_bit_eq_mod)
  then show ?thesis
    using assms unfolding lo8_minus by (subst unat_sub) (simp_all add: word_le_nat_alt)
qed

lemma same_regs_simps [simp]:
  "same_regs s0 (tick n s) = same_regs s0 s" "same_regs s0 (set_open_bus v s) = same_regs s0 s"
  "same_regs s0 (ram_store q v s) = same_regs s0 s"
  "same_regs s0 (s\<lparr>regs_sp := p\<rparr>) = same_regs s0 s"
  by (simp_all add: same_regs_def frames)

lemma stack_address_top:
  "stack_holds n s0 k bs s \<Longrightarrow> ucast (regs_sp s) = stack_address s0 (length bs)"
  by (simp add: stack_holds_def stack_address_def)

lemma Push8_holds:
  assumes h: "stack_holds n s0 (Suc k) bs s"
  shows "\<exists>s'. Push8 io v s = Some ((), s') \<and> stack_holds n s0 k (v # bs) s'"
proof -
  let ?m = "length bs"
  have area: "stack_area n s0" and m: "?m < n" and mem: "ram_ptr s = ram_ptr s0"
    "page_flags s = page_flags s0" and emu: "mode_emulation s = mode_emulation s0"
    using h by (auto simp: stack_holds_def same_regs_def)
  obtain q where q: "ram_ptr s0 (stack_address s0 ?m) = Some q"
    and w: "page_flags s0 (stack_address s0 ?m) AND kReadOnly = 0"
    using area m by (auto simp: stack_area_def)
  have other: "the (ram_ptr s0 (stack_address s0 i)) \<noteq> q" if "i < ?m" for i
  proof -
    have "i < n" "i \<noteq> ?m" using that m by auto
    with area m have "ram_ptr s0 (stack_address s0 i) \<noteq> ram_ptr s0 (stack_address s0 ?m)"
      and "ram_ptr s0 (stack_address s0 i) \<noteq> None"
      unfolding stack_area_def by blast+
    with q show ?thesis by auto
  qed
  have "stack_room (Suc 0) s"
    using area m h lo8_stack [of ?m "regs_sp s0"]
    by (auto simp: stack_room_def stack_area_def stack_holds_def emu)
  from Push8_ram [OF _ _ this, of q io v] obtain c l where
    push: "Push8 io v s =
      Some ((), (tick c (set_open_bus l (ram_store q v s)))\<lparr>regs_sp := regs_sp s - 1\<rparr>)"
    unfolding stack_address_top [OF h] mem using q w by auto
  have "stack_holds n s0 k (v # bs)
      ((tick c (set_open_bus l (ram_store q v s)))\<lparr>regs_sp := regs_sp s - 1\<rparr>)"
    using h other q by (auto simp: stack_holds_def frames nth_append less_Suc_eq)
  with push show ?thesis by blast
qed

lemma pop_address:
  assumes h: "stack_holds n s0 k (b # bs) s"
  shows "ucast (regs_sp s + 1) = stack_address s0 (length bs)"
    and "\<exists>q. ram_ptr s (stack_address s0 (length bs)) = Some q \<and> ram_byte s q = b"
    and "mode_emulation s \<longrightarrow> lo8 (regs_sp s) \<noteq> 0xFF"
proof -
  let ?m = "length bs"
  have area: "stack_area n s0" and m: "?m < n" and mem: "ram_ptr s = ram_ptr s0"
    and emu: "mode_emulation s = mode_emulation s0"
    using h by (auto simp: stack_holds_def same_regs_def)
  show "ucast (regs_sp s + 1) = stack_address s0 ?m"
    using h by (simp add: stack_holds_def stack_address_def)
  show "\<exists>q. ram_ptr s (stack_address s0 ?m) = Some q \<and> ram_byte s q = b"
  proof -
    obtain q where q: "ram_ptr s0 (stack_address s0 ?m) = Some q"
      using area m unfolding stack_area_def by blast
    have "ram_byte s (the (ram_ptr s0 (stack_address s0 ?m))) = rev (b # bs) ! ?m"
      using h unfolding stack_holds_def by simp
    with q mem show ?thesis by (simp add: nth_append)
  qed
  have sp: "regs_sp s = regs_sp s0 - of_nat (Suc ?m)"
    using h unfolding stack_holds_def by simp
  show "mode_emulation s \<longrightarrow> lo8 (regs_sp s) \<noteq> 0xFF"
  proof
    assume "mode_emulation s"
    with area emu m have "Suc ?m \<le> unat (lo8 (regs_sp s0))"
      by (simp add: stack_area_def)
    from lo8_stack [OF this] this have "unat (lo8 (regs_sp s)) < 255"
      unfolding sp using u8_less [of "lo8 (regs_sp s0)"] by linarith
    then show "lo8 (regs_sp s) \<noteq> 0xFF" by auto
  qed
qed

lemma popped_holds:
  assumes "stack_holds n s0 k (b # bs) s"
  shows "stack_holds n s0 (Suc k) bs ((tick c (set_open_bus l s))\<lparr>regs_sp := regs_sp s + 1\<rparr>)"
  using assms by (auto simp: stack_holds_def frames nth_append)

lemma Pop8_holds:
  assumes h: "stack_holds n s0 k (b # bs) s"
  shows "\<exists>s'. Pop8 io s = Some (b, s') \<and> stack_holds n s0 (Suc k) bs s'"
proof -
  obtain q where q: "ram_ptr s (ucast (regs_sp s + 1)) = Some q" "ram_byte s q = b"
    using pop_address(2) [OF h] unfolding pop_address(1) [OF h] by blast
  obtain c where "Pop8 io s = Some (ram_byte s q,
      (tick c (set_open_bus (ram_byte s q) s))\<lparr>regs_sp := regs_sp s + 1\<rparr>)"
    by (rule Pop8_ram [OF q(1) pop_address(3) [OF h]])
  with popped_holds [OF h] q(2) show ?thesis by blast
qed

interpretation cpu_stack: byte_stack "Push8 io" "Pop8 io" "stack_holds n s0"
  by unfold_locales (rule Push8_holds, assumption, rule Pop8_holds)

lemma stack_holds_read [simp]:
  "stack_holds n s0 k bs (tick c (set_open_bus l s)) = stack_holds n s0 k bs s"
  by (simp add: stack_holds_def frames)

lemma ucast_low_byte: "(ucast (v AND 0xFF :: u32) :: u8) = ucast v"
  by (rule bit_word_eqI) (auto simp: bit_simps mask_bits)

lemma Push16_holds:
  "stack_holds n s0 (Suc (Suc k)) bs s \<Longrightarrow>
    \<exists>s'. Push16 io v s = Some ((), s') \<and>
      stack_holds n s0 k (ucast v # ucast (drop_bit 8 v) # bs) s'"
  using cpu_stack.push_word_law [of n s0 k bs s io "ucast (drop_bit 8 v)" "ucast v"]
  by (simp add: Push16_def ucast_low_byte)

lemma Pop16_holds:
  "stack_holds n s0 k (l # h # bs) s \<Longrightarrow>
    \<exists>s'. Pop16 io s = Some (le16 l h, s') \<and> stack_holds n s0 (Suc (Suc k)) bs s'"
  using cpu_stack.pop_word_law [of n s0 k l h bs s io]
  by (simp add: Pop16_def)

lemma stack_holds_jump:
  "stack_holds n s0 k bs s \<Longrightarrow>
    stack_holds n (s0\<lparr>ip := a\<rparr>) k bs ((InternalOp_n c s)\<lparr>ip := a\<rparr>)"
  by (simp add: stack_holds_def same_regs_def stack_area_def stack_address_def frames)

lemma stack_holdsD:
  assumes "stack_holds n s0 n [] s"
  shows "regs_sp s = regs_sp s0" "same_regs s0 s"
  using assms by (simp_all add: stack_holds_def)

section \<open>Calls and returns\<close>

text \<open>The address of the byte \<open>i\<close> bytes into the instruction (operand bytes do not leave the bank).\<close>

definition operand_address :: "'d machine \<Rightarrow> u32" where
  "operand_address s = code_segment_base s OR ((ip s + 1) AND 0xFFFF)"

lemma ReadPBR16_ram:
  assumes "ram_ptr s (operand_address s) = Some p" "ram_ptr s (operand_address s + 1) = Some q"
  obtains c1 c2 where "ReadPBR io W16 (ip s + 1) s =
    Some (le16 (ram_byte s p) (ram_byte s q),
      tick c2 (set_open_bus (ram_byte s q) (tick c1 (set_open_bus (ram_byte s p) s))))"
  using assms by (simp add: ReadPBR_def operand_address_def ReadU8_ram frames)

lemma and_0xFFFF: "(a :: u32) AND 0xFFFF = take_bit 16 a"
  by (simp add: take_bit_eq_mask mask_eq_exp_minus_1)

lemma low_word_plus: "((a AND 0xFFFF) + b) AND 0xFFFF = ((a :: u32) + b) AND 0xFFFF"
  unfolding and_0xFFFF by transfer (simp add: take_bit_eq_mod mod_simps mod_mod_cancel)

text \<open>
  C22: a subroutine call comes back.  With two writable bytes of stack and the operand of the
  instruction in memory, \<open>JSR\<close> absolute followed by \<open>RTS\<close> runs, continues at the instruction after
  the \<open>JSR\<close> (modulo the bank), and restores the stack pointer and every other register and flag,
  in native mode and, away from the edge of the stack page, in emulation mode.
\<close>

theorem jsr_rts_returns:
  assumes "stack_area 2 s"
    and "ram_ptr s (operand_address s) \<noteq> None" "ram_ptr s (operand_address s + 1) \<noteq> None"
  shows "\<exists>s1 s2. Exec JSR_ABS io s = Some ((), s1) \<and> Exec RTS io s1 = Some ((), s2) \<and>
    ip s2 AND 0xFFFF = (ip s + 3) AND 0xFFFF \<and> regs_sp s2 = regs_sp s \<and>
    same_regs s (s2\<lparr>ip := ip s\<rparr>)"
proof -
  obtain p q where "ram_ptr s (operand_address s) = Some p" "ram_ptr s (operand_address s + 1) = Some q"
    using assms(2,3) by auto
  then obtain c1 c2 where
    op: "ReadPBR io W16 (ip s + 1) s =
      Some (le16 (ram_byte s p) (ram_byte s q),
        tick c2 (set_open_bus (ram_byte s q) (tick c1 (set_open_bus (ram_byte s p) s))))"
    by (rule ReadPBR16_ram)
  let ?s = "tick c2 (set_open_bus (ram_byte s q) (tick c1 (set_open_bus (ram_byte s p) s)))"
  define v where "v = cast W16 (ip s + 3 - 1)"
  have v: "cast W16 v = v" unfolding v_def by (rule cast_idem)
  have "stack_holds 2 s (Suc (Suc 0)) [] ?s"
    using stack_holds_start [OF assms(1)] by (simp add: numeral_2_eq_2)
  from Push16_holds [OF this, of io v] obtain t where
    push: "Push16 io v ?s = Some ((), t)"
    and t: "stack_holds 2 s 0 [ucast v, ucast (drop_bit 8 v)] t" by auto
  define dest where "dest = le16 (ram_byte s p) (ram_byte s q) + data_segment_base s"
  define s1 where "s1 = (InternalOp_n 1 t)\<lparr>ip := dest\<rparr>"
  have jsr: "Exec JSR_ABS io s = Some ((), s1)"
    using op push
    by (simp add: JSR_ABS_def OpJmp_def AddrAbs_def AddrAbsBase_def abs_address_def frames s1_def
        dest_def v_def del: cast.simps)
  have "stack_holds 2 (s\<lparr>ip := dest\<rparr>) 0 [ucast v, ucast (drop_bit 8 v)] s1"
    unfolding s1_def by (rule stack_holds_jump [OF t])
  from Pop16_holds [OF this, of io] obtain u where
    pop: "Pop16 io s1 = Some (v, u)" and u: "stack_holds 2 (s\<lparr>ip := dest\<rparr>) 2 [] u"
    unfolding le16_bytes v by (auto simp: numeral_2_eq_2)
  let ?s2 = "InternalOp_n 3 (u\<lparr>ip := v + 1\<rparr>)"
  have rts: "Exec RTS io s1 = Some ((), ?s2)"
    using pop by (simp add: RTS_def OpRts_def del: cast.simps)
  have "ip ?s2 AND 0xFFFF = (ip s + 3) AND 0xFFFF"
    using low_word_plus [of "ip s + 2" 1] by (simp add: frames v_def ac_simps)
  moreover have "regs_sp ?s2 = regs_sp s" "same_regs s (?s2\<lparr>ip := ip s\<rparr>)"
    using stack_holdsD [OF u] by (simp_all add: frames same_regs_def)
  ultimately show ?thesis
    using jsr rts by blast
qed

lemma linear_machine_fields [simp]:
  "sysbus (linear_machine prog) = sysbus (linear_system 16 ())"
  "blk_size (host (linear_machine prog)) = (\<lambda>b. if b = 0 then 2 ^ 16 else 0)"
  "blk_data (host (linear_machine prog)) =
     (\<lambda>b i. if b = 0 \<and> i < length prog then prog ! i else 0)"
  "regs_sp (linear_machine prog) = 0x1FF" "ip (linear_machine prog) = 0"
  "code_segment_base (linear_machine prog) = 0" "data_segment_base (linear_machine prog) = 0"
  "mode_emulation (linear_machine prog)" "\<not> mode_native_6502 (linear_machine prog)"
  "ip_mask (linear_machine prog) = 0xFFFF"
  by (simp_all add: linear_machine_def WDC65C816_init_def)
    (simp_all add: OnUpdateMode_def Let_def)

lemma linear_machine_ram [simp]:
  "ram_ptr (linear_machine prog) a = Some (0, unat a mod 2 ^ 16)"
  by (rule simple_bus_linear) (simp_all add: linear_system_def)

lemma linear_machine_writable [simp]: "page_flags (linear_machine prog) a AND kReadOnly = 0"
  by (auto simp: page_flags_def page_at_def linear_system_def SimpleSystemBus_def bus_Init_def
      simple_page_def Let_def split: option.split)

lemma linear_machine_stack:
  assumes "n < 256"
  shows "stack_area n (linear_machine prog)"
proof -
  have "unat (stack_address (linear_machine prog) i) mod 2 ^ 16 = 0x1FF - i" if "i < n" for i
  proof -
    have "unat (of_nat i :: u16) = i" using that assms by (simp add: unat_of_nat)
    then have "unat (0x1FF - of_nat i :: u16) = 0x1FF - i"
      using that assms by (subst unat_sub) (simp_all add: word_le_nat_alt)
    then show ?thesis by (simp add: stack_address_def unsigned_ucast_eq take_bit_eq_mod)
  qed
  then show ?thesis
    using assms by (auto simp: stack_area_def lo8_def)
qed

theorem jsr_rts_returns_witness:
  "\<exists>s1 s2. Exec JSR_ABS no_io (linear_machine [0x20, 0x34, 0x12]) = Some ((), s1) \<and>
    Exec RTS no_io s1 = Some ((), s2) \<and> ip s2 AND 0xFFFF = 3 \<and> regs_sp s2 = 0x1FF"
  using jsr_rts_returns [OF linear_machine_stack, of "[0x20, 0x34, 0x12]" no_io] by auto

end
