(* ===== verification/Cpu_Status.thy ===== *)
theory Cpu_Status
  imports Cpu_Stack
begin

text \<open>
  The status register as the processor documents it, bit by bit, and software interrupts, which
  save and restore it.
\<close>

section \<open>The bits of the status register\<close>

lemma bit_u8_exp: "bit (2 ^ k :: u8) n \<longleftrightarrow> n < 8 \<and> n = k"
  by (auto simp: bit_exp_iff)

lemma flag_bits:
  "bit (1 :: u8) n \<longleftrightarrow> n = 0" "bit (2 :: u8) n \<longleftrightarrow> n = 1" "bit (4 :: u8) n \<longleftrightarrow> n = 2"
  "bit (0x80 :: u8) n \<longleftrightarrow> n = 7" "bit (0x20 :: u8) n \<longleftrightarrow> n = 5" "bit (0x10 :: u8) n \<longleftrightarrow> n = 4"
proof -
  show "bit (1 :: u8) n \<longleftrightarrow> n = 0" by (rule bit_1_iff)
  show "bit (2 :: u8) n \<longleftrightarrow> n = 1" using bit_u8_exp [of 1 n] by auto
  show "bit (4 :: u8) n \<longleftrightarrow> n = 2" using bit_u8_exp [of 2 n] by auto
  show "bit (0x80 :: u8) n \<longleftrightarrow> n = 7" using bit_u8_exp [of 7 n] by auto
  show "bit (0x20 :: u8) n \<longleftrightarrow> n = 5" using bit_u8_exp [of 5 n] by auto
  show "bit (0x10 :: u8) n \<longleftrightarrow> n = 4" using bit_u8_exp [of 4 n] by auto
qed

lemma flag_masks:
  "bit (0x30 :: u8) n \<longleftrightarrow> n = 4 \<or> n = 5" "bit (0x48 :: u32) n \<longleftrightarrow> n = 3 \<or> n = 6"
proof -
  have "(0x30 :: u8) = 0x10 OR 0x20" by simp
  then show "bit (0x30 :: u8) n \<longleftrightarrow> n = 4 \<or> n = 5"
    by (simp only: bit_or_iff flag_bits)
  have "(0x48 :: u32) = 2 ^ 3 OR 2 ^ 6" by simp
  then have "bit (0x48 :: u32) n \<longleftrightarrow> bit (2 ^ 3 :: u32) n \<or> bit (2 ^ 6 :: u32) n"
    by (simp only: bit_or_iff)
  then show "bit (0x48 :: u32) n \<longleftrightarrow> n = 3 \<or> n = 6"
    unfolding bit_exp_iff by auto
qed

lemma if_or: "(if c then v OR k else v) = (v OR (if c then k else 0) :: u8)"
  by simp

lemma bit_if: "bit (if c then k else (0 :: u8)) n \<longleftrightarrow> c \<and> bit k n"
  by simp

text \<open>N V m x D I Z C, from bit 7 down; in emulation mode \<open>m\<close> and \<open>x\<close> read as 1.\<close>

lemma bit_status:
  "bit (GetStatusRegister s) n \<longleftrightarrow>
     (n = 0 \<and> is_carry s) \<or> (n = 1 \<and> is_zero s) \<or> (n = 2 \<and> interrupts s = 0) \<or>
     (n = 3 \<and> is_decimal s) \<or> (n = 4 \<and> (mode_emulation s \<or> \<not> mode_long_xy s)) \<or>
     (n = 5 \<and> (mode_emulation s \<or> \<not> mode_long_a s)) \<or> (n = 6 \<and> is_overflow s) \<or>
     (n = 7 \<and> is_negative s)"
proof -
  have d: "is_decimal s \<longleftrightarrow> bit (other_flags s) 3" "is_overflow s \<longleftrightarrow> bit (other_flags s) 6"
    using and_exp_eq_0_iff_not_bit [of "other_flags s" 3] and_exp_eq_0_iff_not_bit [of "other_flags s" 6]
    by (simp_all add: is_decimal_def is_overflow_def)
  have low: "bit (ucast (other_flags s AND 0x48) :: u8) n \<longleftrightarrow>
      (n = 3 \<and> is_decimal s) \<or> (n = 6 \<and> is_overflow s)" for n
    unfolding d bit_unsigned_iff bit_and_iff flag_masks by auto
  show ?thesis
  proof (cases "mode_emulation s")
    case True
    then show ?thesis
      unfolding GetStatusRegister_def Let_def if_or bit_or_iff low
      by (simp only: if_True bit_or_iff bit_if low flag_bits flag_masks is_carry_def is_zero_def
          is_negative_def) blast
  next
    case False
    then show ?thesis
      unfolding GetStatusRegister_def Let_def if_or
      by (simp only: if_False bit_or_iff bit_if low flag_bits flag_masks is_carry_def is_zero_def
          is_negative_def) blast
  qed
qed

text \<open>\<open>OnUpdateMode\<close> moves no flag.\<close>

lemma OnUpdateMode_flags [simp]:
  "is_carry (OnUpdateMode s) = is_carry s" "is_zero (OnUpdateMode s) = is_zero s"
  "is_negative (OnUpdateMode s) = is_negative s" "is_overflow (OnUpdateMode s) = is_overflow s"
  "is_decimal (OnUpdateMode s) = is_decimal s" "interrupts (OnUpdateMode s) = interrupts s"
  "mode_emulation (OnUpdateMode s) = (mode_emulation s \<or> mode_native_6502 s)"
  by (simp_all add: OnUpdateMode_def Let_def is_carry_def is_zero_def is_negative_def
      is_overflow_def is_decimal_def)

lemma and_bit_eq: "(w :: u32) AND 2 ^ k = of_bool (bit w k) * 2 ^ k"
  by (rule bit_word_eqI) (auto simp: bit_and_iff bit_exp_iff)

lemma u8_and_flag: "(ucast (v :: u8) :: u32) AND 2 ^ k = 0 \<longleftrightarrow> \<not> (k < 8 \<and> bit v k)"
  unfolding and_exp_eq_0_iff_not_bit by (auto simp: bit_unsigned_iff dest: bit_imp_le_length)

lemma SetStatusRegister_flags:
  "is_carry (SetStatusRegister v s) \<longleftrightarrow> bit v 0" "is_zero (SetStatusRegister v s) \<longleftrightarrow> bit v 1"
  "interrupts (SetStatusRegister v s) = 0 \<longleftrightarrow> bit v 2"
  "is_decimal (SetStatusRegister v s) \<longleftrightarrow> bit v 3"
  "is_overflow (SetStatusRegister v s) \<longleftrightarrow> bit v 6"
  "is_negative (SetStatusRegister v s) \<longleftrightarrow> bit v 7"
proof -
  let ?w = "ucast v :: u32"
  have c: "push_bit 1 (?w AND 1) AND 2 \<noteq> 0 \<longleftrightarrow> bit v 0"
    unfolding and_two bit_push_bit_iff bit_and_iff bit_unsigned_iff by (auto simp: bit_1_iff)
  have z: "2 - (?w AND 2) = 0 \<longleftrightarrow> bit v 1"
    using and_bit_eq [of ?w 1] by (auto simp: bit_unsigned_iff)
  have i: "1 - (drop_bit 2 ?w AND 1) = 0 \<longleftrightarrow> bit v 2"
    using and_bit_eq [of "drop_bit 2 ?w" 0] by (auto simp: bit_drop_bit_eq bit_unsigned_iff)
  have d: "?w AND 0x8 \<noteq> 0 \<longleftrightarrow> bit v 3" and o: "?w AND 0x40 \<noteq> 0 \<longleftrightarrow> bit v 6"
    using u8_and_flag [of v 3] u8_and_flag [of v 6] by auto
  have n: "drop_bit 7 ?w AND 1 \<noteq> 0 \<longleftrightarrow> bit v 7"
    unfolding and_one bit_drop_bit_eq by (simp add: bit_unsigned_iff)
  show "is_carry (SetStatusRegister v s) \<longleftrightarrow> bit v 0" "is_zero (SetStatusRegister v s) \<longleftrightarrow> bit v 1"
    "interrupts (SetStatusRegister v s) = 0 \<longleftrightarrow> bit v 2"
    "is_decimal (SetStatusRegister v s) \<longleftrightarrow> bit v 3"
    "is_overflow (SetStatusRegister v s) \<longleftrightarrow> bit v 6"
    "is_negative (SetStatusRegister v s) \<longleftrightarrow> bit v 7"
    unfolding c [symmetric] z [symmetric] i [symmetric] d [symmetric] o [symmetric] n [symmetric]
    by (auto simp only: SetStatusRegister_def Let_def OnUpdateMode_flags split: if_split)
      (auto simp: is_carry_def is_zero_def is_decimal_def is_overflow_def is_negative_def)
qed

lemma SetStatusRegister_modes:
  assumes "mode_ok s"
  shows "mode_emulation (SetStatusRegister v s) = mode_emulation s"
    and "mode_native_6502 (SetStatusRegister v s) = mode_native_6502 s"
    and "mode_long_a (SetStatusRegister v s) \<longleftrightarrow> \<not> mode_emulation s \<and> \<not> bit v 5"
    and "mode_long_xy (SetStatusRegister v s) \<longleftrightarrow> \<not> mode_emulation s \<and> \<not> bit v 4"
  using assms u8_and_flag [of v 5] u8_and_flag [of v 4]
  by (auto simp: SetStatusRegister_def OnUpdateMode_def mode_ok_def Let_def)

lemma status_register_roundtrip_aux:
  assumes "mode_ok s"
  shows "GetStatusRegister (SetStatusRegister v s) = (if mode_emulation s then v OR 0x30 else v)"
proof (rule bit_word_eqI)
  fix n assume "n < LENGTH(8)"
  then have n: "n \<in> {0, 1, 2, 3, 4, 5, 6, 7}" by auto
  have "bit (if mode_emulation s then v OR 0x30 else v) n \<longleftrightarrow>
      bit v n \<or> mode_emulation s \<and> (n = 4 \<or> n = 5)"
    unfolding if_or bit_or_iff bit_if flag_masks by simp
  then show "bit (GetStatusRegister (SetStatusRegister v s)) n \<longleftrightarrow>
      bit (if mode_emulation s then v OR 0x30 else v) n"
    unfolding bit_status SetStatusRegister_flags SetStatusRegister_modes [OF assms]
    using n by auto
qed

text \<open>
  C26: the status register holds what is written to it.  In native mode \<open>GetStatusRegister\<close> after
  \<open>SetStatusRegister v\<close> is \<open>v\<close>, the mode bits \<open>m\<close> and \<open>x\<close> included; in emulation mode these two
  bits read as 1, whatever is written.
\<close>

theorem status_register_roundtrip:
  assumes "mode_ok s"
  shows "GetStatusRegister (SetStatusRegister v s) = (if mode_emulation s then v OR 0x30 else v)"
  by (rule status_register_roundtrip_aux [OF assms])

lemma linear_machine_mode_ok: "mode_ok (linear_machine prog)"
  using linear_machine_ok [of prog] by (simp add: sys_ok_def cpu_ok_def)

theorem status_register_roundtrip_witness:
  "GetStatusRegister (SetStatusRegister 0xC3 (linear_machine [])) = 0xF3"
  using status_register_roundtrip [OF linear_machine_mode_ok [of "[]"], of "0xC3"] by simp

section \<open>Software interrupts\<close>

text \<open>The vector of a software interrupt is read from bank 0.\<close>

definition vector_mapped :: "InterruptType \<Rightarrow> 'd machine \<Rightarrow> bool" where
  "vector_mapped type s \<longleftrightarrow>
     (let v = interrupt_vector (mode_emulation s) type in
      ram_ptr s v \<noteq> None \<and> ram_ptr s (v + 1) \<noteq> None)"

lemma SetStatusRegister_frame [simp]:
  "regs_a (SetStatusRegister v s) = regs_a s" "regs_d (SetStatusRegister v s) = regs_d s"
  "regs_sp (SetStatusRegister v s) = regs_sp s" "ip (SetStatusRegister v s) = ip s"
  "code_segment_base (SetStatusRegister v s) = code_segment_base s"
  "data_segment_base (SetStatusRegister v s) = data_segment_base s"
  by (simp_all add: SetStatusRegister_def Let_def) (simp_all add: OnUpdateMode_def Let_def)

text \<open>Writing back the modes the machine is in does not touch the index registers.\<close>

lemma SetStatusRegister_same_mode:
  assumes "mode_long_a s \<longleftrightarrow> \<not> bit v 5" "mode_long_xy s \<longleftrightarrow> \<not> bit v 4"
  shows "regs_x (SetStatusRegister v s) = regs_x s" "regs_y (SetStatusRegister v s) = regs_y s"
  using assms u8_and_flag [of v 5] u8_and_flag [of v 4]
  by (simp_all add: SetStatusRegister_def Let_def)

lemma GetStatusRegister_cong:
  "same_regs s t \<Longrightarrow> GetStatusRegister t = GetStatusRegister s"
  by (simp add: same_regs_def GetStatusRegister_def Let_def)

lemma same_regs_OnUpdateMode:
  "same_regs s t \<Longrightarrow> same_regs (OnUpdateMode s) (OnUpdateMode t)"
  unfolding OnUpdateMode_def Let_def
  by (cases "mode_native_6502 s"; cases "mode_emulation s"; cases "mode_long_xy s";
      simp add: same_regs_def)

lemma same_regs_flags:
  "same_regs s t \<Longrightarrow>
    same_regs (s\<lparr>other_flags := a, zero_flag := b, carry := c, interrupts := d, negative_flag := e\<rparr>)
      (t\<lparr>other_flags := a, zero_flag := b, carry := c, interrupts := d, negative_flag := e\<rparr>)"
  "same_regs s t \<Longrightarrow> same_regs (s\<lparr>mode_long_a := x\<rparr>) (t\<lparr>mode_long_a := x\<rparr>)"
  "same_regs s t \<Longrightarrow> same_regs (s\<lparr>mode_long_xy := x\<rparr>) (t\<lparr>mode_long_xy := x\<rparr>)"
  by (simp_all add: same_regs_def)

lemma same_regs_modes:
  "same_regs s t \<Longrightarrow> mode_long_a t = mode_long_a s" "same_regs s t \<Longrightarrow> mode_long_xy t = mode_long_xy s"
  by (simp_all add: same_regs_def)

lemma same_regs_SetStatusRegister:
  assumes "same_regs s t"
  shows "same_regs (SetStatusRegister v s) (SetStatusRegister v t)"
proof -
  define f :: "'a machine \<Rightarrow> 'a machine" where "f = (\<lambda>s. s\<lparr>other_flags := ucast v,
    zero_flag := 2 - (ucast v AND 2), carry := push_bit 1 (ucast v AND 1),
    interrupts := 1 - (drop_bit 2 (ucast v) AND 1), negative_flag := drop_bit 7 (ucast v)\<rparr>)"
  define g where "g = (\<lambda>s :: 'a machine. s\<lparr>mode_long_a := ((ucast v :: u32) AND 0x20 = 0)\<rparr>)"
  define h where "h = (\<lambda>s :: 'a machine. s\<lparr>mode_long_xy := ((ucast v :: u32) AND 0x10 = 0)\<rparr>)"
  define ca where "ca = (\<lambda>s :: 'a machine. mode_long_a s \<noteq> ((ucast v :: u32) AND 0x20 = 0))"
  define cx where "cx = (\<lambda>s :: 'a machine. mode_long_xy s \<noteq> ((ucast v :: u32) AND 0x10 = 0))"
  have step: "SetStatusRegister v s =
      (let s = f s; a = ca s; s = (if a then g s else s); x = cx s; s = (if x then h s else s)
       in if a \<or> x then OnUpdateMode s else s)" for s :: "'a machine"
    by (simp add: SetStatusRegister_def f_def g_def h_def ca_def cx_def Let_def)
  have f: "same_regs (f s) (f t)" if "same_regs s t" for s t
    unfolding f_def by (rule same_regs_flags(1) [OF that])
  have g: "same_regs (g s) (g t)" and h: "same_regs (h s) (h t)" if "same_regs s t" for s t
    unfolding g_def h_def by (rule same_regs_flags(2) [OF that], rule same_regs_flags(3) [OF that])
  have c: "ca t = ca s" "cx t = cx s" if "same_regs s t" for s t
    unfolding ca_def cx_def same_regs_modes [OF that] by simp_all
  note fs = f [OF assms]
  note gs = g [OF fs]
  show ?thesis
    unfolding step Let_def c(1) [OF fs]
    by (auto simp: c(2) [OF fs] c(2) [OF gs] intro!: same_regs_OnUpdateMode f g h assms)
qed

lemma stack_holds_status:
  assumes "stack_holds n s0 k bs s" and "mode_ok s0"
  shows "stack_holds n (SetStatusRegister v s0) k bs (SetStatusRegister v s)"
  using assms same_regs_SetStatusRegister [of s0 s v]
  by (simp add: stack_holds_def stack_area_def stack_address_def frames SetStatusRegister_modes)

text \<open>The state change of an interrupt after the pushes.\<close>

definition enter_handler :: "u32 \<Rightarrow> 'd machine \<Rightarrow> 'd machine" where
  "enter_handler pc s =
     (let s = s\<lparr>ip := pc, code_segment_base := 0, interrupts := 0\<rparr>
      in if \<not> mode_native_6502 s then s\<lparr>other_flags := other_flags s AND 0xFFF7\<rparr> else s)"

lemma enter_handler_frame [simp]:
  "regs_a (enter_handler pc s) = regs_a s" "regs_x (enter_handler pc s) = regs_x s"
  "regs_y (enter_handler pc s) = regs_y s" "regs_d (enter_handler pc s) = regs_d s"
  "regs_sp (enter_handler pc s) = regs_sp s" "ip (enter_handler pc s) = pc"
  "code_segment_base (enter_handler pc s) = 0" "interrupts (enter_handler pc s) = 0"
  "data_segment_base (enter_handler pc s) = data_segment_base s"
  "mode_emulation (enter_handler pc s) = mode_emulation s"
  "mode_native_6502 (enter_handler pc s) = mode_native_6502 s"
  "mode_long_a (enter_handler pc s) = mode_long_a s"
  "mode_long_xy (enter_handler pc s) = mode_long_xy s"
  "ram_ptr (enter_handler pc s) = ram_ptr s" "ram_byte (enter_handler pc s) = ram_byte s"
  "page_flags (enter_handler pc s) = page_flags s" "mode_ok (enter_handler pc s) = mode_ok s"
  by (simp_all add: enter_handler_def Let_def frames mode_ok_def)

lemma stack_holds_handler:
  "stack_holds n s0 k bs s \<Longrightarrow> stack_holds n (enter_handler pc s0) k bs (enter_handler pc s)"
  by (simp add: stack_holds_def stack_area_def stack_address_def same_regs_def)
    (simp add: enter_handler_def Let_def)

lemma ReadRaw16_ram:
  assumes "ram_ptr s a = Some p" "ram_ptr s (a + 1) = Some q"
  obtains c1 c2 where "ReadRaw io W16 a s =
    Some (le16 (ram_byte s p) (ram_byte s q),
      tick c2 (set_open_bus (ram_byte s q) (tick c1 (set_open_bus (ram_byte s p) s))))"
  using assms by (simp add: ReadU8_ram frames)

text \<open>A software interrupt in native mode leaves bank, return address and status on the stack.\<close>

lemma DoInterrupt_native:
  assumes "stack_area 4 s" and "\<not> mode_emulation s" and "mode_ok s" and "vector_mapped type s"
    and "type = INT_BRK \<or> type = INT_COP"
  obtains pc s' where "DoInterrupt io type s = Some ((), s')"
    and "stack_holds 4 (enter_handler pc s) 0
      [GetStatusRegister s, ucast (ip s), ucast (drop_bit 8 (ip s)),
       ucast (drop_bit 16 (code_segment_base s))] s'"
proof -
  let ?bank = "ucast (drop_bit 16 (code_segment_base s)) :: u8"
  define v where "v = cast W16 (ip s)"
  have bytes: "(ucast v :: u8) = ucast (ip s)" "(ucast (drop_bit 8 v) :: u8) = ucast (drop_bit 8 (ip s))"
    by (rule bit_word_eqI, auto simp: v_def bit_cast_iff bit_simps simp del: cast.simps)+
  have h0: "stack_holds 4 s (Suc 3) [] s" using stack_holds_start [OF assms(1)] by simp
  obtain s1 where 1: "Push8 io ?bank s = Some ((), s1)" "stack_holds 4 s (Suc (Suc 1)) [?bank] s1"
    using Push8_holds [OF h0, of io ?bank] by (auto simp: numeral_3_eq_3)
  have ip1: "ip s1 = ip s" using 1(2) by (simp add: stack_holds_def same_regs_def)
  obtain s2 where 2: "Push16 io v s1 = Some ((), s2)"
      "stack_holds 4 s (Suc 0) [ucast v, ucast (drop_bit 8 v), ?bank] s2"
    using Push16_holds [OF 1(2), of io v] by auto
  have st: "interrupt_status type s2 = GetStatusRegister s" "mode_emulation s2 = mode_emulation s"
    using 2(2) assms(2) GetStatusRegister_cong [of s s2]
    by (simp_all add: interrupt_status_def stack_holds_def same_regs_def)
  let ?bs = "[GetStatusRegister s, ucast v, ucast (drop_bit 8 v), ?bank]"
  obtain s3 where 3: "Push8 io (GetStatusRegister s) s2 = Some ((), s3)" "stack_holds 4 s 0 ?bs s3"
    using Push8_holds [OF 2(2), of io "GetStatusRegister s"] by auto
  have same: "ram_ptr s3 = ram_ptr s" "mode_emulation s3 = mode_emulation s"
    using 3(2) by (simp_all add: stack_holds_def same_regs_def)
  let ?vector = "interrupt_vector (mode_emulation s) type"
  obtain p q where "ram_ptr s3 ?vector = Some p" "ram_ptr s3 (?vector + 1) = Some q"
    using assms(4) by (auto simp: vector_mapped_def Let_def same)
  from ReadRaw16_ram [OF this, of io] obtain pc s4 where
    4: "ReadRaw io W16 ?vector s3 = Some (pc, s4)" "stack_holds 4 s 0 ?bs s4"
    using 3(2) by (metis stack_holds_read)
  have "DoInterrupt io type s = Some ((), enter_handler pc s4)"
    using 1(1) 2(1) 3(1) 4(1) assms(2,5) st same ip1
    by (auto simp: DoInterrupt_def enter_handler_def Let_def v_def simp del: cast.simps ReadRaw.simps)
  with stack_holds_handler [OF 4(2), of pc] that show ?thesis
    unfolding bytes by blast
qed

lemma bank_byte: "bank_ok b \<Longrightarrow> push_bit 16 (ucast (ucast (drop_bit 16 b) :: u8)) = b"
proof -
  assume "bank_ok b"
  then have b: "b AND 0xFF0000 = b" by (simp add: bank_ok_def)
  have m: "(0xFF0000 :: u32) = push_bit 16 (mask 8)" by (simp add: mask_eq_exp_minus_1)
  have r: "16 \<le> n \<and> n < 24" if "bit b n" for n
    using that arg_cong [OF b, of "\<lambda>x. bit x n"]
    unfolding m bit_and_iff bit_push_bit_iff bit_mask_iff by auto
  show ?thesis
  proof (rule bit_word_eqI, goal_cases)
    case (1 n)
    then show ?case
      using r [of n] by (auto simp: bit_push_bit_iff bit_unsigned_iff bit_drop_bit_eq)
  qed
qed

lemma status_modes:
  "\<not> mode_emulation s \<Longrightarrow> bit (GetStatusRegister s) 5 \<longleftrightarrow> \<not> mode_long_a s"
  "\<not> mode_emulation s \<Longrightarrow> bit (GetStatusRegister s) 4 \<longleftrightarrow> \<not> mode_long_xy s"
  by (simp_all add: bit_status)


text \<open>A machine switched to native mode (\<open>CLC\<close>, \<open>XCE\<close>).\<close>

definition native_machine :: "u8 list \<Rightarrow> unit machine" where
  "native_machine prog = OnUpdateMode ((linear_machine prog)\<lparr>mode_emulation := False\<rparr>)"

lemma native_machine_stack: "n < 256 \<Longrightarrow> stack_area n (native_machine prog)"
  using linear_machine_stack [of n prog]
  by (simp add: stack_area_def stack_address_def native_machine_def ram_ptr_cong
      [of "OnUpdateMode ((linear_machine prog)\<lparr>mode_emulation := False\<rparr>)" "linear_machine prog"])


end
