(* ===== verification/Cpu_Save.thy ===== *)
theory Cpu_Save
  imports Cpu_Status
begin

text \<open>
  Saved states.  The bytes of a \<open>SaveData\<close> object are read back as the object, and \<open>LoadState\<close>
  brings any machine to the registers, flags and modes of the machine that was saved.
\<close>

section \<open>Little-endian integers\<close>

lemma length_le_bytes [simp]: "length (le_bytes n v) = n"
  by (induction n arbitrary: v) simp_all

lemma of_le_bytes_le_bytes:
  "LENGTH('a) \<le> 8 * n \<Longrightarrow> of_le_bytes (le_bytes n v) = (v :: 'a::len word)"
proof -
  have "of_le_bytes (le_bytes n v) = take_bit (8 * n) (v :: 'a word)"
  proof (induction n arbitrary: v)
    case 0
    then show ?case by simp
  next
    case (Suc n)
    show ?case
      by (rule bit_word_eqI) (auto simp: Suc bit_simps)
  qed
  moreover have "take_bit (8 * n) v = v" if "LENGTH('a) \<le> 8 * n"
    using that by (intro bit_word_eqI) (auto simp: bit_take_bit_iff)
  ultimately show "LENGTH('a) \<le> 8 * n \<Longrightarrow> of_le_bytes (le_bytes n v) = v" by simp
qed

lemma of_le_bytes_word [simp]:
  "of_le_bytes (le_bytes 8 v) = (v :: u64)" "of_le_bytes (le_bytes 2 h) = (h :: u16)"
  by (rule of_le_bytes_le_bytes, simp)+

section \<open>The object and its bytes\<close>

lemma length_SaveData: "length (SaveData_to_bytes d) = sizeof_SaveData"
  by (simp add: SaveData_to_bytes_def sizeof_SaveData_def)

lemma SaveData_roundtrip: "SaveData_of_bytes (SaveData_to_bytes d @ rest) = d"
  by (simp add: SaveData_of_bytes_def SaveData_to_bytes_def Let_def nth_append)

section \<open>Loading\<close>

text \<open>The flags after the mode is set anew, from any machine.\<close>

lemma OnUpdateMode_widths:
  "mode_long_a (OnUpdateMode s) \<longleftrightarrow> \<not> mode_emulation (OnUpdateMode s) \<and> mode_long_a s"
  "mode_long_xy (OnUpdateMode s) \<longleftrightarrow> \<not> mode_emulation (OnUpdateMode s) \<and> mode_long_xy s"
  "mode_ok (OnUpdateMode s)"
  by (auto simp: OnUpdateMode_def mode_ok_def Let_def)

lemma set_width_changed:
  "(if mode_long_a s \<noteq> c then s\<lparr>mode_long_a := c\<rparr> else s) = s\<lparr>mode_long_a := c\<rparr>"
  "(if mode_long_xy s \<noteq> c then s\<lparr>mode_long_xy := c\<rparr> else s) = s\<lparr>mode_long_xy := c\<rparr>"
  by auto

lemma SetStatusRegister_cases:
  obtains t where "mode_native_6502 t = mode_native_6502 s" "mode_emulation t = mode_emulation s"
    and "mode_long_a t \<longleftrightarrow> \<not> bit v 5" "mode_long_xy t \<longleftrightarrow> \<not> bit v 4"
    and "SetStatusRegister v s = t \<or> SetStatusRegister v s = OnUpdateMode t"
proof -
  let ?w = "ucast v :: u32"
  let ?t = "s\<lparr>other_flags := ?w, zero_flag := 2 - (?w AND 2), carry := push_bit 1 (?w AND 1),
      interrupts := 1 - (drop_bit 2 ?w AND 1), negative_flag := drop_bit 7 ?w,
      mode_long_a := (?w AND 0x20 = 0), mode_long_xy := (?w AND 0x10 = 0)\<rparr>"
  have "?w AND 0x20 = 0 \<longleftrightarrow> \<not> bit v 5" "?w AND 0x10 = 0 \<longleftrightarrow> \<not> bit v 4"
    using u8_and_flag [of v 5] u8_and_flag [of v 4] by auto
  moreover have "SetStatusRegister v s = ?t \<or> SetStatusRegister v s = OnUpdateMode ?t"
    unfolding SetStatusRegister_def Let_def set_width_changed by meson
  ultimately show thesis by (intro that [of ?t]) simp_all
qed

lemma SetStatus_OnUpdate_modes:
  fixes s :: "'d machine" and v :: u8
  defines "t \<equiv> OnUpdateMode (SetStatusRegister v s)"
  shows "mode_native_6502 t = mode_native_6502 s"
    and "mode_emulation t \<longleftrightarrow> mode_emulation s \<or> mode_native_6502 s"
    and "mode_long_a t \<longleftrightarrow> \<not> mode_emulation t \<and> \<not> bit v 5"
    and "mode_long_xy t \<longleftrightarrow> \<not> mode_emulation t \<and> \<not> bit v 4"
    and "mode_ok t"
  by (rule SetStatusRegister_cases [of s v]; auto simp: t_def OnUpdateMode_widths)+

lemma GetStatus_SetStatus_OnUpdate:
  fixes s :: "'d machine" and v :: u8
  defines "t \<equiv> OnUpdateMode (SetStatusRegister v s)"
  assumes "mode_emulation s \<or> mode_native_6502 s \<Longrightarrow> bit v 4 \<and> bit v 5"
  shows "GetStatusRegister t = v"
proof (rule bit_word_eqI)
  fix n assume "n < LENGTH(8)"
  then have n: "n \<in> {0, 1, 2, 3, 4, 5, 6, 7}" by auto
  show "bit (GetStatusRegister t) n \<longleftrightarrow> bit v n"
    unfolding bit_status t_def OnUpdateMode_flags SetStatusRegister_flags SetStatus_OnUpdate_modes
    using n assms(2) SetStatus_OnUpdate_modes(2) [of v s] by auto
qed

lemma status_emulation_bits: "mode_emulation s \<Longrightarrow> bit (GetStatusRegister s) 4 \<and> bit (GetStatusRegister s) 5"
  by (simp add: bit_status)

text \<open>
  C24: a saved state is restored.  Loading the bytes of the \<open>SaveData\<close> of a well-formed machine into
  any machine consumes exactly these bytes and succeeds; the machine loaded has the same
  registers, program and data banks, status register, emulation flags and counters (its own
  \<open>SaveData\<close> is the same), the same register widths, and an instruction table that fits them.
\<close>

theorem LoadState_restores:
  assumes "cpu_ok s"
  shows "\<exists>t'. LoadState (SaveData_to_bytes (SaveData_of s) @ rest) t = ((True, rest), t') \<and>
    SaveData_of t' = SaveData_of s \<and> mode_ok t' \<and>
    mode_long_a t' = mode_long_a s \<and> mode_long_xy t' = mode_long_xy s"
proof -
  define d where "d = SaveData_of s"
  define u where "u = t\<lparr>mode_emulation := (sd_emulation d \<noteq> 0), mode_native_6502 := (sd_native6502 d \<noteq> 0)\<rparr>"
  define v where "v = OnUpdateMode (SetStatusRegister (sd_flags d) u)"
  define t' where "t' = v\<lparr>regs_a := sd_a d, regs_x := sd_x d, regs_y := sd_y d, regs_d := sd_d d,
      regs_sp := sd_sp d, ip := ucast (sd_pc d),
      code_segment_base := push_bit 16 (ucast (sd_pbr d)),
      data_segment_base := push_bit 16 (ucast (sd_dbr d)),
      cycle := sd_cycle d, num_emulated_instructions := sd_num_instructions d,
      trace_write := 0, trace_addrs := map (\<lambda>_. 0) (trace_addrs v)\<rparr>"
  have mode: "mode_native_6502 s \<Longrightarrow> mode_emulation s"
      "mode_emulation s \<Longrightarrow> \<not> mode_long_a s \<and> \<not> mode_long_xy s"
    using assms by (auto simp: cpu_ok_def mode_ok_def)
  have flags: "sd_flags d = GetStatusRegister s"
    by (simp add: d_def SaveData_of_def)
  have u: "mode_emulation u = mode_emulation s" "mode_native_6502 u = mode_native_6502 s"
    by (simp_all add: u_def d_def SaveData_of_def)
  note m = SetStatus_OnUpdate_modes [of "sd_flags d" u, folded v_def]
  have v: "mode_native_6502 v = mode_native_6502 s" "mode_emulation v = mode_emulation s" "mode_ok v"
    using mode u m by auto
  have widths: "mode_long_a v = mode_long_a s" "mode_long_xy v = mode_long_xy s"
    unfolding m(3,4) v(2) flags using mode by (auto simp: bit_status)
  have status: "GetStatusRegister v = GetStatusRegister s"
    using GetStatus_SetStatus_OnUpdate [of u "sd_flags d"] u mode status_emulation_bits [of s]
    unfolding v_def flags by blast
  have load: "LoadState (SaveData_to_bytes d @ rest) t = ((True, rest), t')"
    using length_SaveData [of d]
    by (simp add: LoadState_def Let_def SaveData_roundtrip t'_def v_def u_def)
  have bytes: "ucast (drop_bit 16 (push_bit 16 (ucast (b :: u8) :: u32))) = b" for b
    by (rule bit_word_eqI) (auto simp: bit_simps)
  have pc: "ucast ((ucast (p :: u16) :: u32) AND 0xFFFF) = p" for p
    by (rule bit_word_eqI) (auto simp: bit_simps mask_bits)
  have "GetStatusRegister t' = GetStatusRegister s"
    unfolding status [symmetric] by (simp add: t'_def GetStatusRegister_def cong: if_cong)
  then have "SaveData_of t' = d"
    using v(1,2) by (simp add: SaveData_of_def bytes pc t'_def d_def)
  moreover have "mode_ok t'"
    using v(3) by (simp add: mode_ok_def t'_def)
  moreover have "mode_long_a t' = mode_long_a s" "mode_long_xy t' = mode_long_xy s"
    using widths by (simp_all add: t'_def)
  ultimately show ?thesis
    using load by (simp add: d_def)
qed

theorem LoadState_restores_witness:
  "\<exists>t'. LoadState (SaveData_to_bytes (SaveData_of (linear_machine [])) @ [7]) (native_machine []) =
      ((True, [7]), t') \<and>
    SaveData_of t' = SaveData_of (linear_machine []) \<and> mode_ok t' \<and>
    mode_long_a t' = mode_long_a (linear_machine []) \<and>
    mode_long_xy t' = mode_long_xy (linear_machine [])"
  using LoadState_restores [of "linear_machine []" "[7]" "native_machine []"] linear_machine_ok
  by (simp add: sys_ok_def)

end
