(* ===== verification/Cpu_Disasm.thy ===== *)
theory Cpu_Disasm
  imports Cpu_Safety
begin

text \<open>
  The disassembler and the tables agree on lengths: for every instruction of the tables the
  disassembly runs and ends \<open>kBytes\<close> bytes further on, and \<open>kBytes\<close> is between 1 and 4.  So
  \<open>Disassembler::Disassemble\<close> cuts the code into adjacent instructions.
\<close>

section \<open>Disassembly of one operation\<close>

text \<open>The machine is well formed and runs, or does not run, the exact 6502.\<close>

definition sys_in :: "((nat \<Rightarrow> nat) \<Rightarrow> memory_map \<Rightarrow> bool \<Rightarrow> 'd \<Rightarrow> bool) \<Rightarrow> bool \<Rightarrow> 'd machine \<Rightarrow> bool" where
  "sys_in K b s \<longleftrightarrow> sys_ok K s \<and> mode_native_6502 s = b"

definition dis_ok :: "((nat \<Rightarrow> nat) \<Rightarrow> memory_map \<Rightarrow> bool \<Rightarrow> 'd \<Rightarrow> bool) \<Rightarrow> bool \<Rightarrow> 'd io \<Rightarrow> 'd op \<Rightarrow> bool" where
  "dis_ok K b io op \<longleftrightarrow>
     (\<forall>addr s. sys_in K b s \<longrightarrow>
        (\<exists>str s'. Disassemble op io addr s = Some ((str, addr + of_nat (kBytes op)), s') \<and> sys_in K b s'))"

definition mode_dis_ok :: "((nat \<Rightarrow> nat) \<Rightarrow> memory_map \<Rightarrow> bool \<Rightarrow> 'd \<Rightarrow> bool) \<Rightarrow> bool \<Rightarrow> 'd io \<Rightarrow> 'd addr_mode \<Rightarrow> bool" where
  "mode_dis_ok K b io m \<longleftrightarrow>
     (\<forall>addr mn s. sys_in K b s \<longrightarrow> runs (sys_in K b) (am_Disassemble m io addr mn s))"

lemmas op_defs = OpTsb_def OpTrb_def OpBit_def OpBitImm_def OpAlu_def OpOr_def OpAnd_def OpXor_def
  OpAsl_def OpLsr_def OpRor_def OpRol_def OpIncMem_def OpDecMem_def OpLoad_def LDA_def LDX_def
  LDY_def OpStore_def STA_def STX_def STY_def STZ_def OpAdc_def OpSbc_def OpCmp_def OpCpx_def
  OpCpy_def LAX_def SAX_def

lemmas implied_op_defs = CLC_def SEC_def CLI_def SEI_def CLD_def SED_def CLV_def XBA_def XCE_def
  OpNOP_def OpNOPImpl_def n6502_NOP_def OpWDM_def WAI_def STP_def BRK_def COP_def ALR_def ANC_def
  IncDecReg_def INX_def INY_def INA_def DEX_def DEY_def DEA_def MoveReg_def TAX_def TAY_def TSX_def
  TXA_def TXY_def TYA_def TYX_def TCD_def TDC_def TSC_def TXS_def TCS_def OpPush_def PHA_def PHD_def
  PHX_def PHY_def OpPop_def PLA_def PLD_def PLX_def PLY_def PHP_def PLP_def PHK_def PHB_def PLB_def
  OpRts_def RTS_def RTL_def RTI_def

lemmas jump_op_defs = OpJmp_def JMP_ABS_def JMP_LONG_def JMP_INDABS_def JMP_INDABS_LEGACY_def
  JMP_INDABSX_def JMP_INDLONG_def JSR_ABS_def JSR_LONG_def JSR_INDABSX_def

lemmas operand_op_defs = REP_def SEP_def PEA_def PEI_def PER_def BRL_def MVN_def MVP_def
  CondBranch_def BCC_def BCS_def BEQ_def BMI_def BNE_def BPL_def BRA_def BVC_def BVS_def

context io_contract
begin

lemma ReadByte_in: "sys_in K b s \<Longrightarrow> runs (sys_in K b) (ReadByte io a s)"
  using ReadByte_keeps [of s a] by (auto simp: sys_in_def io_keeps_def elim!: runs_weaken)

lemma Peek_in:
  "sys_in K b s \<Longrightarrow> runs (sys_in K b) (PeekU8 io a s)"
  "sys_in K b s \<Longrightarrow> runs (sys_in K b) (PeekU16 io a s)"
  by (auto simp: PeekU8_def PeekU16_def intro!: runs_bind ReadByte_in)

lemma modes_disassemble [simp]:
  "mode_dis_ok K b io (AddrA A XY)" "mode_dis_ok K b io (AddrImm A XY E)" "mode_dis_ok K b io (AddrAbs A XY)"
  "mode_dis_ok K b io (AddrAbsX A XY c)" "mode_dis_ok K b io (AddrAbsY A XY c)"
  "mode_dis_ok K b io (AddrAbsLong A XY)" "mode_dis_ok K b io (AddrAbsLongX A XY)"
  "mode_dis_ok K b io (AddrDirect A XY e)" "mode_dis_ok K b io (AddrDirectX A XY e)"
  "mode_dis_ok K b io (AddrDirectY A XY e)" "mode_dis_ok K b io (AddrDirectIndirect A XY)"
  "mode_dis_ok K b io (AddrDirectIndirectX A XY e)" "mode_dis_ok K b io (AddrDirectIndirectY A XY c e)"
  "mode_dis_ok K b io (AddrDirectIndirectLong A XY)" "mode_dis_ok K b io (AddrDirectIndirectLongY A XY)"
  "mode_dis_ok K b io (AddrStack A XY)" "mode_dis_ok K b io (AddrStackY A XY)"
  "mode_dis_ok K b io (JmpAddrModeInd l w)" "mode_dis_ok K b io JmpAddrModeIndAbsX"
  by (auto simp: mode_dis_ok_def mode_defs Let_def abs_disassemble_def long_disassemble_def
      direct_disassemble_def byte_disassemble_def intro!: runs_control runs_bind Peek_in)

lemma mode_disassemble_runs:
  assumes "mode_dis_ok K b io m" and "sys_in K b s"
  shows "\<exists>str s'. mode_disassemble m mn n io addr s = Some ((str, addr + of_nat n), s') \<and> sys_in K b s'"
proof -
  obtain str s' where "am_Disassemble m io addr mn s = Some (str, s')" "sys_in K b s'"
    using assms unfolding mode_dis_ok_def runs_iff by blast
  then show ?thesis by (simp add: mode_disassemble_def)
qed

lemma dis_ok_mode:
  assumes "Disassemble op = mode_disassemble m mn (kBytes op)" and "mode_dis_ok K b io m"
  shows "dis_ok K b io op"
  using mode_disassemble_runs [OF assms(2)] unfolding dis_ok_def assms(1) by blast

lemma operand_ops_disassemble [simp]:
  assumes "mode_dis_ok K b io m"
  shows "dis_ok K b io (OpTsb m)" "dis_ok K b io (OpTrb m)" "dis_ok K b io (OpBit m)"
    "dis_ok K b io (OpBitImm m)" "dis_ok K b io (OpOr m)" "dis_ok K b io (OpAnd m)" "dis_ok K b io (OpXor m)"
    "dis_ok K b io (OpAsl m)" "dis_ok K b io (OpLsr m)" "dis_ok K b io (OpRor m)" "dis_ok K b io (OpRol m)"
    "dis_ok K b io (OpIncMem m)" "dis_ok K b io (OpDecMem m)" "dis_ok K b io (LDA m)" "dis_ok K b io (LDX m)"
    "dis_ok K b io (LDY m)" "dis_ok K b io (STA m)" "dis_ok K b io (STX m)" "dis_ok K b io (STY m)"
    "dis_ok K b io (STZ m)" "dis_ok K b io (OpAdc m)" "dis_ok K b io (OpSbc m)" "dis_ok K b io (OpCmp m)"
    "dis_ok K b io (OpCpx m)" "dis_ok K b io (OpCpy m)"
  by (rule dis_ok_mode [OF _ assms], simp add: op_defs)+

lemma nmos_ops_disassemble [simp]: "dis_ok K b io (LAX m)" "dis_ok K b io (SAX m)"
  by (simp_all add: dis_ok_def LAX_def SAX_def fixed_disassemble_def)

lemma implied_ops_disassemble [simp]:
  "dis_ok K b io CLC" "dis_ok K b io SEC" "dis_ok K b io CLI" "dis_ok K b io SEI" "dis_ok K b io CLD"
  "dis_ok K b io SED" "dis_ok K b io CLV" "dis_ok K b io XBA" "dis_ok K b io XCE" "dis_ok K b io OpNOP"
  "dis_ok K b io (n6502_NOP n m)" "dis_ok K b io OpWDM" "dis_ok K b io WAI" "dis_ok K b io STP"
  "dis_ok K b io BRK" "dis_ok K b io COP" "dis_ok K b io ALR" "dis_ok K b io ANC"
  "dis_ok K b io (INX A XY)" "dis_ok K b io (INY A XY)" "dis_ok K b io (INA A XY)" "dis_ok K b io (DEX A XY)"
  "dis_ok K b io (DEY A XY)" "dis_ok K b io (DEA A XY)" "dis_ok K b io (TAX A XY)" "dis_ok K b io (TAY A XY)"
  "dis_ok K b io (TSX A XY)" "dis_ok K b io (TXA A XY)" "dis_ok K b io (TXY A XY)" "dis_ok K b io (TYA A XY)"
  "dis_ok K b io (TYX A XY)" "dis_ok K b io (TCD A XY)" "dis_ok K b io (TDC A XY)" "dis_ok K b io (TSC A XY)"
  "dis_ok K b io (TXS e)" "dis_ok K b io (TCS e)" "dis_ok K b io (PHA w)" "dis_ok K b io PHD"
  "dis_ok K b io (PHX w)" "dis_ok K b io (PHY w)" "dis_ok K b io (PLA w)" "dis_ok K b io PLD"
  "dis_ok K b io (PLX w)" "dis_ok K b io (PLY w)" "dis_ok K b io PHP" "dis_ok K b io PLP" "dis_ok K b io PHK"
  "dis_ok K b io PHB" "dis_ok K b io PLB" "dis_ok K b io RTS" "dis_ok K b io RTL" "dis_ok K b io RTI"
  by (simp_all add: dis_ok_def implied_op_defs fixed_disassemble_def)

lemma jump_ops_disassemble [simp]:
  "dis_ok K b io JMP_ABS" "dis_ok K b io JMP_LONG" "dis_ok K b io JMP_INDABS"
  "dis_ok K b io JMP_INDABS_LEGACY" "dis_ok K b io JMP_INDABSX" "dis_ok K b io JMP_INDLONG"
  "dis_ok K b io JSR_ABS" "dis_ok K b io JSR_LONG" "dis_ok K b io JSR_INDABSX"
  by (rule dis_ok_mode, simp add: jump_op_defs Let_def, simp)+

lemma peek_outcome:
  assumes "sys_in K b s"
  obtains v s' where "PeekU8 io a s = Some (v, s')" "sys_in K b s'"
  using Peek_in(1) [OF assms, of a] by (auto elim!: runsE)

lemma peek16_outcome:
  assumes "sys_in K b s"
  obtains v s' where "PeekU16 io a s = Some (v, s')" "sys_in K b s'"
  using Peek_in(2) [OF assms, of a] by (auto elim!: runsE)

lemma text_disassemble_runs:
  assumes "sys_in K b s"
  shows "\<exists>str s'. text_disassemble pre w n io addr s = Some ((str, addr + of_nat n), s') \<and> sys_in K b s'"
proof (cases w)
  case W8
  obtain v s1 where "PeekU8 io (addr + 1) s = Some (v, s1)" "sys_in K b s1"
    by (rule peek_outcome [OF assms])
  with W8 show ?thesis by (simp add: text_disassemble_def)
next
  case W16
  obtain v s1 where "PeekU16 io (addr + 1) s = Some (v, s1)" "sys_in K b s1"
    by (rule peek16_outcome [OF assms])
  with W16 show ?thesis by (simp add: text_disassemble_def)
qed

lemma block_disassemble_runs:
  assumes "sys_in K b s"
  shows "\<exists>str s'. block_disassemble mn io addr s = Some ((str, addr + 3), s') \<and> sys_in K b s'"
proof -
  obtain v s1 where 1: "PeekU8 io (addr + 1) s = Some (v, s1)" "sys_in K b s1"
    by (rule peek_outcome [OF assms])
  obtain v2 s2 where "PeekU8 io (addr + 2) s1 = Some (v2, s2)" "sys_in K b s2"
    by (rule peek_outcome [OF 1(2)])
  with 1 show ?thesis by (simp add: block_disassemble_def)
qed

lemma dis_ok_text:
  assumes "Disassemble op = text_disassemble pre w (kBytes op)"
  shows "dis_ok K b io op"
  using text_disassemble_runs unfolding dis_ok_def assms by blast

lemma dis_ok_block:
  assumes "Disassemble op = block_disassemble mn" and "kBytes op = 3"
  shows "dis_ok K b io op"
  using block_disassemble_runs by (simp add: dis_ok_def assms)

lemma operand_texts_disassemble [simp]:
  "dis_ok K b io REP" "dis_ok K b io SEP" "dis_ok K b io PEA" "dis_ok K b io PEI" "dis_ok K b io PER"
  "dis_ok K b io BRL" "dis_ok K b io MVN" "dis_ok K b io MVP"
  by (rule dis_ok_text, simp add: REP_def SEP_def PEA_def PEI_def PER_def BRL_def
      | rule dis_ok_block, simp add: MVN_def MVP_def, simp add: MVN_def MVP_def)+

lemma CondBranch_disassemble: "dis_ok K b io (CondBranch opc mn c)"
  unfolding dis_ok_def
proof (intro allI impI)
  fix addr s assume s: "sys_in K b s"
  obtain v s1 where "PeekU8 io (addr + 1) s = Some (v, s1)" "sys_in K b s1"
    by (rule peek_outcome [OF s])
  then show "\<exists>str s'. Disassemble (CondBranch opc mn c) io addr s =
      Some ((str, addr + of_nat (kBytes (CondBranch opc mn c))), s') \<and> sys_in K b s'"
    by (simp add: CondBranch_def Let_def)
qed

lemma branches_disassemble [simp]:
  "dis_ok K b io BCC" "dis_ok K b io BCS" "dis_ok K b io BEQ" "dis_ok K b io BMI" "dis_ok K b io BNE"
  "dis_ok K b io BPL" "dis_ok K b io BRA" "dis_ok K b io BVC" "dis_ok K b io BVS"
  unfolding BCC_def BCS_def BEQ_def BMI_def BNE_def BPL_def BRA_def BVC_def BVS_def
  by (rule CondBranch_disassemble)+

lemma tables_disassemble:
  "list_all (dis_ok K b io) (ops_native A XY)"
  "list_all (dis_ok K b io) ops_emulation"
  "list_all (pred_option (dis_ok K b io)) ops_6502"
  by (simp_all add: ops_native_def ops_emulation_def ops_6502_def)

lemma exec_ops_disassemble:
  "list_all (list_all (pred_option (dis_ok K b io))) (exec_ops :: 'd op option list list)"
  using tables_disassemble by (simp add: exec_ops_def list.pred_map o_def)

lemma op_at_disassemble: "op_at mode opc = Some op \<Longrightarrow> dis_ok K b io op"
  by (rule op_at_all [OF _ exec_ops_disassemble])

end

section \<open>Lengths\<close>

definition sized :: "'d op \<Rightarrow> bool" where
  "sized op \<longleftrightarrow> 1 \<le> kBytes op \<and> kBytes op \<le> 4"

lemma sizeof_bounds: "1 \<le> sizeof w \<and> sizeof w \<le> 2"
  by (cases w) simp_all

lemma tables_sized:
  "list_all sized (ops_native A XY)"
  "list_all sized ops_emulation"
  "list_all (pred_option sized) ops_6502"
  using sizeof_bounds [of A] sizeof_bounds [of XY]
  by (simp_all add: ops_native_def ops_emulation_def ops_6502_def sized_def op_defs implied_op_defs
      jump_op_defs operand_op_defs mode_defs Let_def)

lemma exec_ops_sized: "list_all (list_all (pred_option sized)) (exec_ops :: 'd op option list list)"
  by (simp add: exec_ops_def list.pred_map o_def tables_sized)

lemma op_at_sized: "op_at mode opc = Some op \<Longrightarrow> sized op"
  by (rule op_at_all [OF _ exec_ops_sized])

section \<open>The listing\<close>

text \<open>The instructions lie one behind the other from \<open>a\<close> to \<open>e\<close>, each of one to four bytes.\<close>

fun tiles :: "u32 \<Rightarrow> cpu_instruction list \<Rightarrow> u32 \<Rightarrow> bool" where
  "tiles a [] e \<longleftrightarrow> a = e"
| "tiles a (i # is) e \<longleftrightarrow>
     ci_canonical_address i = a \<and> 1 \<le> ci_length i \<and> ci_length i \<le> 4 \<and> tiles (a + ci_length i) is e"

context io_contract
begin

lemma DisassembleOneInstruction_in:
  assumes s: "sys_in K False s"
  shows "\<exists>i s'. DisassembleOneInstruction io config a s = Some ((i, a + ci_length i), s') \<and>
    sys_in K False s' \<and> ci_canonical_address i = a \<and> 1 \<le> ci_length i \<and> ci_length i \<le> 4"
proof -
  obtain opc s1 where 1: "PeekU8 io a s = Some (opc, s1)" "sys_in K False s1"
    by (rule peek_outcome [OF s])
  then have "unat (cpu_mode s1) < 5"
    using sys_ok_65816 [of K s1] by (auto simp: sys_in_def sys_ok_def cpu_ok_def mode_ok_def kEmulation_def)
  then obtain op :: "'d op" where op: "op_at (unat (cpu_mode s1)) opc = Some op"
    using op_at_65816 by blast
  obtain str s2 where 2: "Disassemble op io a s1 = Some ((str, a + of_nat (kBytes op)), s2)"
      "sys_in K False s2"
    using op_at_disassemble [OF op] 1(2) unfolding dis_ok_def by blast
  obtain b1 s3 where 3: "PeekU8 io (a + 1) s2 = Some (b1, s3)" "sys_in K False s3"
    by (rule peek_outcome [OF 2(2)])
  obtain b2 s4 where 4: "PeekU8 io (a + 2) s3 = Some (b2, s4)" "sys_in K False s4"
    by (rule peek_outcome [OF 3(2)])
  obtain b3 s5 where 5: "PeekU8 io (a + 3) s4 = Some (b3, s5)" "sys_in K False s5"
    by (rule peek_outcome [OF 4(2)])
  have "kBytes op = 1 \<or> kBytes op = 2 \<or> kBytes op = 3 \<or> kBytes op = 4"
    using op_at_sized [OF op] unfolding sized_def by linarith
  then have "1 \<le> (of_nat (kBytes op) :: u32) \<and> (of_nat (kBytes op) :: u32) \<le> 4"
    by auto
  with 1 2 3 4 5 op show ?thesis
    by (simp add: DisassembleOneInstruction_def Let_def)
qed

lemma Disassemble_loop_in:
  assumes "sys_in K False s"
  shows "\<exists>is e s'. Disassemble_loop io config n a s = Some ((is, e), s') \<and>
    sys_in K False s' \<and> length is = n \<and> tiles a is e"
  using assms
proof (induction n arbitrary: a s)
  case 0
  then show ?case by simp
next
  case (Suc n)
  obtain i s1 where 1: "DisassembleOneInstruction io config a s = Some ((i, a + ci_length i), s1)"
      "sys_in K False s1" "ci_canonical_address i = a" "1 \<le> ci_length i" "ci_length i \<le> 4"
    using DisassembleOneInstruction_in [OF Suc.prems] by blast
  obtain "is" e s2 where 2: "Disassemble_loop io config n (a + ci_length i) s1 = Some ((is, e), s2)"
      "sys_in K False s2" "length is = n" "tiles (a + ci_length i) is e"
    using Suc.IH [OF 1(2)] by blast
  from 1 2 show ?case by simp
qed

end



end
