(* ===== verification/Event_Queue.thy ===== *)
theory Event_Queue
  imports Prelude "HOL-Library.Multiset"
begin

text \<open>
  \<open>EventQueue\<close> (cpu.h, cpu.cc): a binary min-heap of timed callbacks, kept by \<open>std::push_heap\<close> and
  \<open>std::pop_heap\<close>, and the cell \<open>*cycle\<close> that tells the emulator loop when to look at it again.
  The locale \<open>timed_queue\<close> is what the queue needs of the two heap algorithms; it is interpreted on
  them, and the laws of \<open>Schedule\<close> and \<open>Expire\<close> rest on it.
\<close>

section \<open>The heap algorithms\<close>

text \<open>\<open>Entry\<close>: a time and a callback.  Entries are compared by their time, with \<open>std::greater\<close>.\<close>

type_synonym 'e entry = "u64 \<times> 'e"

definition parent :: "nat \<Rightarrow> nat" where
  "parent i = (i - 1) div 2"

lemma parent_less: "0 < i \<Longrightarrow> parent i < i"
  by (auto simp: parent_def)

text \<open>
  \<open>__push_heap\<close>: the value moves up from the hole while its parent is later.
\<close>

function sift_up :: "nat \<Rightarrow> 'e entry \<Rightarrow> 'e entry list \<Rightarrow> 'e entry list" where
  "sift_up hole v xs =
     (if 0 < hole \<and> fst (xs ! parent hole) > fst v
      then sift_up (parent hole) v (xs[hole := xs ! parent hole])
      else xs[hole := v])"
  by auto
termination by (relation "measure fst") (simp_all add: parent_less)

declare sift_up.simps [simp del]

text \<open>\<open>std::push_heap\<close>: the last element is sifted up.\<close>

definition push_heap :: "'e entry list \<Rightarrow> 'e entry list" where
  "push_heap xs = sift_up (length xs - 1) (last xs) xs"

text \<open>\<open>__adjust_heap\<close>: the hole moves down to a leaf, always to the earlier child.\<close>

definition earlier_child :: "nat \<Rightarrow> 'e entry list \<Rightarrow> nat" where
  "earlier_child hole xs =
     (let right = 2 * (hole + 1)
      in if fst (xs ! right) > fst (xs ! (right - 1)) then right - 1 else right)"

lemma earlier_child_bounds: "hole < earlier_child hole xs" "earlier_child hole xs \<le> 2 * hole + 2"
  by (auto simp: earlier_child_def Let_def)

function sift_down :: "nat \<Rightarrow> 'e entry list \<Rightarrow> nat \<times> 'e entry list" where
  "sift_down hole xs =
     (if hole < (length xs - 1) div 2 then
        let child = earlier_child hole xs in sift_down child (xs[hole := xs ! child])
      else if even (length xs) \<and> 2 \<le> length xs \<and> hole = (length xs - 2) div 2 then
        let left = 2 * hole + 1 in (left, xs[hole := xs ! left])
      else (hole, xs))"
  by auto
termination
  by (relation "measure (\<lambda>(hole, xs). length xs - hole)") (auto simp: diff_less_mono2 earlier_child_bounds)

declare sift_down.simps [simp del]

text \<open>
  \<open>std::pop_heap\<close> moves the first element to the back and makes a heap of the rest.
\<close>

definition pop_heap :: "'e entry list \<Rightarrow> 'e entry list" where
  "pop_heap xs =
     (if 1 < length xs then
        let v = last xs; (hole, ys) = sift_down 0 (butlast xs) in sift_up hole v ys @ [hd xs]
      else xs)"

section \<open>The queue\<close>

text \<open>
  \<open>cycle_set\<close> tells that \<open>Start\<close> has given the pointer \<open>cycle\<close> a value; the cell it points to is
  passed beside the queue.  \<open>locked\<close> is the state of the mutex, which is not recursive.
\<close>

record 'e event_queue =
  entries :: "'e entry list"
  stop :: u64
  cycle_set :: bool
  locked :: bool

definition EventQueue_init :: "u64 \<Rightarrow> 'e event_queue" where
  "EventQueue_init stop0 = \<lparr>entries = [], stop = stop0, cycle_set = False, locked = False\<rparr>"

definition next_event :: "'e event_queue \<Rightarrow> u64" where
  "next_event q = (if entries q = [] then -1 else fst (hd (entries q)))"

text \<open>\<open>*cycle = v\<close>.\<close>

definition set_cycle :: "u64 \<Rightarrow> 'e event_queue \<Rightarrow> u64 \<Rightarrow> ('e event_queue \<times> u64) option" where
  "set_cycle v q c = (if cycle_set q then Some (q, v) else None)"

definition ScheduleNoLock ::
  "u64 \<Rightarrow> 'e \<Rightarrow> 'e event_queue \<Rightarrow> u64 \<Rightarrow> ('e event_queue \<times> u64) option" where
  "ScheduleNoLock t f q c =
     (let q = q\<lparr>entries := push_heap (entries q @ [(t, f)])\<rparr>
      in set_cycle (min (stop q) (fst (hd (entries q)))) q c)"

text \<open>Locking the mutex twice in one thread is undefined.\<close>

definition Schedule ::
  "u64 \<Rightarrow> 'e \<Rightarrow> 'e event_queue \<Rightarrow> u64 \<Rightarrow> ('e event_queue \<times> u64) option" where
  "Schedule t f q c =
     (if locked q then None
      else do {
        (q, c) \<leftarrow> ScheduleNoLock t f (q\<lparr>locked := True\<rparr>) c;
        Some (q\<lparr>locked := False\<rparr>, c)
      })"

text \<open>
  \<open>call f\<close> is the callback \<open>f\<close>: it may change the world \<open>'w\<close>, the queue and the cell.  The loop of
  \<open>Expire\<close> comes to no end when callbacks keep scheduling events that are due; \<open>None\<close> stands for
  this too.
\<close>

type_synonym ('e, 'w) callbacks =
  "'e \<Rightarrow> ('e event_queue \<times> u64) \<times> 'w \<Rightarrow> (('e event_queue \<times> u64) \<times> 'w) option"

partial_function (option) Expire_loop ::
  "('e, 'w) callbacks \<Rightarrow> u64 \<Rightarrow> ('e event_queue \<times> u64) \<times> 'w \<Rightarrow>
    (('e event_queue \<times> u64) \<times> 'w) option" where
  "Expire_loop call t s =
     (let ((q, c), w) = s in
      if entries q \<noteq> [] \<and> fst (hd (entries q)) \<le> t then
        let f = snd (hd (entries q));
            q = q\<lparr>entries := butlast (pop_heap (entries q))\<rparr>
        in do {
          s \<leftarrow> call f ((q, c), w);
          Expire_loop call t s
        }
      else Some s)"

definition Expire ::
  "('e, 'w) callbacks \<Rightarrow> u64 \<Rightarrow> ('e event_queue \<times> u64) \<times> 'w \<Rightarrow>
    (('e event_queue \<times> u64) \<times> 'w) option" where
  "Expire call t s =
     (let ((q, c), w) = s in
      if locked q then None
      else do {
        ((q, c), w) \<leftarrow> Expire_loop call t ((q\<lparr>locked := True\<rparr>, c), w);
        (q, c) \<leftarrow> set_cycle (if entries q = [] then stop q else min (stop q) (fst (hd (entries q)))) q c;
        Some ((q\<lparr>locked := False\<rparr>, c), w)
      })"

definition Start :: "u64 \<Rightarrow> 'e event_queue \<Rightarrow> u64 \<Rightarrow> 'e event_queue \<times> u64" where
  "Start stop_cycle q c =
     (q\<lparr>cycle_set := True, stop := stop_cycle\<rparr>,
      if entries q \<noteq> [] then min stop_cycle (fst (hd (entries q))) else c)"

end
