(* ===== verification/Event_Laws.thy ===== *)
theory Event_Laws
  imports Event_Queue
begin

text \<open>
  The heap algorithms keep the heap and its elements, and the first element is the earliest.
\<close>

section \<open>Heaps with a hole\<close>

definition time_heap :: "'e entry list \<Rightarrow> bool" where
  "time_heap xs \<longleftrightarrow> (\<forall>i < length xs. 0 < i \<longrightarrow> fst (xs ! parent i) \<le> fst (xs ! i))"

text \<open>A heap but for the edge from \<open>h\<close> to its parent; \<open>h\<close>'s children are not before that parent.\<close>

definition heap_up :: "'e entry list \<Rightarrow> nat \<Rightarrow> bool" where
  "heap_up xs h \<longleftrightarrow>
     (\<forall>i < length xs. 0 < i \<longrightarrow> i \<noteq> h \<longrightarrow> fst (xs ! parent i) \<le> fst (xs ! i)) \<and>
     (\<forall>i < length xs. 0 < i \<longrightarrow> 0 < h \<longrightarrow> parent i = h \<longrightarrow> fst (xs ! parent h) \<le> fst (xs ! i))"

text \<open>A heap but for the edges at \<open>h\<close>; \<open>h\<close>'s children are not before its parent.\<close>

definition heap_hole :: "'e entry list \<Rightarrow> nat \<Rightarrow> bool" where
  "heap_hole xs h \<longleftrightarrow>
     (\<forall>i < length xs. 0 < i \<longrightarrow> i \<noteq> h \<longrightarrow> parent i \<noteq> h \<longrightarrow> fst (xs ! parent i) \<le> fst (xs ! i)) \<and>
     (\<forall>i < length xs. 0 < i \<longrightarrow> 0 < h \<longrightarrow> parent i = h \<longrightarrow> fst (xs ! parent h) \<le> fst (xs ! i))"

lemma mset_hole_move:
  assumes "i < length xs" "j < length xs" "i \<noteq> j"
  shows "mset (xs[i := xs ! j, j := v]) = mset (xs[i := v])"
proof -
  have "xs[i := xs ! j, j := v] = (xs[i := v])[i := (xs[i := v]) ! j, j := (xs[i := v]) ! i]"
    using assms by (simp add: list_update_swap)
  then show ?thesis
    using assms mset_swap [of j "xs[i := v]" i] by simp
qed

lemma length_sift_up [simp]: "length (sift_up h v xs) = length xs"
  by (induction h v xs rule: sift_up.induct) (subst sift_up.simps, simp)

lemma mset_sift_up: "h < length xs \<Longrightarrow> mset (sift_up h v xs) = mset (xs[h := v])"
proof (induction h v xs rule: sift_up.induct)
  case (1 h v xs)
  show ?case
  proof (cases "0 < h \<and> fst (xs ! parent h) > fst v")
    case True
    then have p: "parent h < h" "parent h < length xs"
      using parent_less [of h] 1(2) by auto
    have "mset (xs[h := xs ! parent h, parent h := v]) = mset (xs[h := v])"
      using p 1(2) by (intro mset_hole_move) auto
    with 1(1) [OF True] p True show ?thesis by (subst sift_up.simps) simp
  next
    case False
    then show ?thesis by (subst sift_up.simps) (simp only: if_False)
  qed
qed

lemma heap_up_move:
  assumes up: "heap_up (xs[h := v]) h" and h: "0 < h" "h < length xs" and later: "fst (xs ! parent h) > fst v"
  shows "heap_up (xs[h := xs ! parent h, parent h := v]) (parent h)"
proof -
  define p where "p = parent h"
  have ph: "p < h" "p < length xs" "p \<noteq> h" using parent_less [OF h(1)] h(2) by (simp_all add: p_def)
  let ?z = "xs[h := xs ! p, p := v]"
  have child: "fst (xs ! p) \<le> fst (xs ! i)" if "i < length xs" "0 < i" "parent i = h" for i
    using up that h ph parent_less [OF that(2)] by (auto simp: heap_up_def p_def)
  have old: "fst (xs ! parent i) \<le> fst (xs ! i)" if "i < length xs" "0 < i" "i \<noteq> h" "parent i \<noteq> h" for i
    using up that by (auto simp: heap_up_def)
  have "fst (?z ! parent i) \<le> fst (?z ! i)" if i: "i < length xs" "0 < i" "i \<noteq> p" for i
  proof (cases "i = h")
    case True
    with later ph h show ?thesis by (simp add: p_def)
  next
    case ih: False
    show ?thesis
    proof (cases "parent i = h")
      case True
      with child [OF i(1,2)] ih i ph h show ?thesis by simp
    next
      case False
      from old [OF i(1,2) ih False] later have "parent i = p \<Longrightarrow> fst v \<le> fst (xs ! i)"
        by (simp add: p_def)
      with old [OF i(1,2) ih False] False i ih ph h show ?thesis
        by (cases "parent i = p") simp_all
    qed
  qed
  moreover have "fst (?z ! parent p) \<le> fst (?z ! i)"
    if i: "i < length xs" "0 < i" "0 < p" "parent i = p" for i
  proof -
    have pp: "parent p < p" "p < i"
      using parent_less [OF i(3)] parent_less [OF i(2)] i(4) by simp_all
    then have gp: "fst (xs ! parent p) \<le> fst (xs ! p)"
      using old [OF ph(2) i(3) ph(3)] ph by simp
    have "fst (xs ! p) \<le> fst (xs ! i)" if "i \<noteq> h"
      using old [OF i(1,2) that] i(4) ph by simp
    with gp pp ph h show ?thesis
      by (cases "i = h") auto
  qed
  ultimately show ?thesis by (simp add: heap_up_def p_def)
qed

lemma sift_up_heap:
  "h < length xs \<Longrightarrow> heap_up (xs[h := v]) h \<Longrightarrow> time_heap (sift_up h v xs)"
proof (induction h v xs rule: sift_up.induct)
  case (1 h v xs)
  show ?case
  proof (cases "0 < h \<and> fst (xs ! parent h) > fst v")
    case True
    then have "parent h < length xs" using parent_less [of h] 1(2) by simp
    moreover have "heap_up (xs[h := xs ! parent h, parent h := v]) (parent h)"
      using heap_up_move [OF 1(3)] True 1(2) by simp
    ultimately show ?thesis
      using 1(1) [OF True] True by (subst sift_up.simps) simp
  next
    case False
    have "fst (xs[h := v] ! parent i) \<le> fst (xs[h := v] ! i)" if i: "i < length xs" "0 < i" for i
    proof (cases "i = h")
      case True
      with False i parent_less [OF i(2)] show ?thesis by (auto simp: not_less)
    next
      case False
      with 1(3) i show ?thesis by (simp add: heap_up_def)
    qed
    then have "time_heap (xs[h := v])" by (simp add: time_heap_def)
    with False show ?thesis
      by (subst sift_up.simps) (simp only: if_False)
  qed
qed

lemma push_heap_laws:
  assumes "time_heap xs"
  shows "time_heap (push_heap (xs @ [e]))" and "mset (push_heap (xs @ [e])) = add_mset e (mset xs)"
proof -
  have lt: "parent i < i" if "0 < i" for i using that by (rule parent_less)
  have "heap_up (xs @ [e]) (length xs)"
    unfolding heap_up_def
  proof (intro conjI allI impI)
    fix i assume i: "i < length (xs @ [e])" "0 < i" "i \<noteq> length xs"
    then have "i < length xs" "parent i < length xs" using lt [of i] by auto
    with assms i show "fst ((xs @ [e]) ! parent i) \<le> fst ((xs @ [e]) ! i)"
      by (simp add: time_heap_def nth_append)
  next
    fix i assume "i < length (xs @ [e])" "0 < i" "parent i = length xs"
    with lt [of i] show "fst ((xs @ [e]) ! parent (length xs)) \<le> fst ((xs @ [e]) ! i)"
      by simp
  qed
  then show "time_heap (push_heap (xs @ [e]))"
    unfolding push_heap_def by (intro sift_up_heap) simp_all
  show "mset (push_heap (xs @ [e])) = add_mset e (mset xs)"
    unfolding push_heap_def by (subst mset_sift_up) simp_all
qed

text \<open>The way down.\<close>

lemma earlier_child:
  assumes "h < (length xs - 1) div 2"
  shows "earlier_child h xs < length xs" "0 < earlier_child h xs" "parent (earlier_child h xs) = h"
    and "\<And>i. 0 < i \<Longrightarrow> parent i = h \<Longrightarrow> fst (xs ! earlier_child h xs) \<le> fst (xs ! i)"
proof -
  show "earlier_child h xs < length xs" "0 < earlier_child h xs" "parent (earlier_child h xs) = h"
    using assms by (auto simp: earlier_child_def parent_def Let_def)
  fix i assume "0 < i" "parent i = h"
  then have "i = 2 * h + 1 \<or> i = 2 * h + 2" unfolding parent_def by linarith
  then show "fst (xs ! earlier_child h xs) \<le> fst (xs ! i)"
    by (auto simp: earlier_child_def Let_def)
qed

lemma sift_down_cases:
  obtains (move) "h < (length xs - 1) div 2"
      "sift_down h xs = sift_down (earlier_child h xs) (xs[h := xs ! earlier_child h xs])"
  | (left) "2 * h + 2 = length xs" "sift_down h xs = (2 * h + 1, xs[h := xs ! (2 * h + 1)])"
  | (leaf) "length xs \<le> 2 * h + 1" "sift_down h xs = (h, xs)"
proof (cases "h < (length xs - 1) div 2")
  case True
  then show thesis by (intro move) (simp_all add: sift_down.simps [of h xs] Let_def)
next
  case no: False
  show thesis
  proof (cases "even (length xs) \<and> 2 \<le> length xs \<and> h = (length xs - 2) div 2")
    case True
    then have l: "2 * h + 2 = length xs" by auto
    moreover have "sift_down h xs = (2 * h + 1, xs[h := xs ! (2 * h + 1)])"
      by (simp only: sift_down.simps [of h xs] if_not_P [OF no] if_P [OF True] Let_def)
    ultimately show thesis by (rule left)
  next
    case False
    have "length xs \<le> 2 * h + 1"
    proof (rule ccontr)
      assume "\<not> length xs \<le> 2 * h + 1"
      with no have "length xs = 2 * h + 2" by linarith
      with False show False by simp
    qed
    moreover have "sift_down h xs = (h, xs)"
      by (subst sift_down.simps) (simp only: no False if_False)
    ultimately show thesis by (rule leaf)
  qed
qed

lemma sift_down_induct [case_names move left leaf]:
  assumes "\<And>h xs. h < (length xs - 1) div 2 \<Longrightarrow>
      sift_down h xs = sift_down (earlier_child h xs) (xs[h := xs ! earlier_child h xs]) \<Longrightarrow>
      P (earlier_child h xs) (xs[h := xs ! earlier_child h xs]) \<Longrightarrow> P h xs"
    and "\<And>h xs. 2 * h + 2 = length xs \<Longrightarrow>
      sift_down h xs = (2 * h + 1, xs[h := xs ! (2 * h + 1)]) \<Longrightarrow> P h xs"
    and "\<And>h xs. length xs \<le> 2 * h + 1 \<Longrightarrow> sift_down h xs = (h, xs) \<Longrightarrow> P h xs"
  shows "P h xs"
proof (induction h xs rule: sift_down.induct)
  case (1 h xs)
  show ?case
    by (cases h xs rule: sift_down_cases) (use assms 1 in blast)+
qed

lemma length_sift_down [simp]: "length (snd (sift_down h xs)) = length xs"
  by (induction h xs rule: sift_down_induct) simp_all

lemma sift_down_hole: "h < length xs \<Longrightarrow> fst (sift_down h xs) < length xs"
proof (induction h xs rule: sift_down_induct)
  case (move h xs)
  with earlier_child(1) [OF move(1)] show ?case by simp
qed simp_all

lemma mset_sift_down:
  "h < length xs \<Longrightarrow>
    mset ((snd (sift_down h xs))[fst (sift_down h xs) := v]) = mset (xs[h := v])"
proof (induction h xs rule: sift_down_induct)
  case (move h xs)
  with earlier_child [OF move(1)] mset_hole_move [OF move(4), of "earlier_child h xs" v]
  show ?case by (auto simp: earlier_child_bounds less_imp_neq)
next
  case (left h xs)
  with mset_hole_move [OF left(3), of "2 * h + 1" v] show ?case by simp
qed simp

text \<open>At the end of the way down the hole has no children.\<close>

lemma heap_hole_move:
  assumes hole: "heap_hole xs h" and c: "c < length xs" "0 < c" "parent c = h"
    and least: "\<And>i. i < length xs \<Longrightarrow> 0 < i \<Longrightarrow> parent i = h \<Longrightarrow> fst (xs ! c) \<le> fst (xs ! i)"
  shows "heap_hole (xs[h := xs ! c]) c"
proof -
  have hc: "h < c" "h < length xs" using parent_less [OF c(2)] c(1,3) by auto
  let ?z = "xs[h := xs ! c]"
  have edge: "fst (xs ! parent i) \<le> fst (xs ! i)" if "i < length xs" "0 < i" "i \<noteq> h" "parent i \<noteq> h" for i
    using hole that by (simp add: heap_hole_def)
  have "fst (?z ! parent i) \<le> fst (?z ! i)"
    if i: "i < length xs" "0 < i" "i \<noteq> c" "parent i \<noteq> c" for i
  proof (cases "i = h")
    case True
    then have "fst (xs ! parent h) \<le> fst (xs ! c)"
      using hole c i by (auto simp: heap_hole_def)
    with True hc parent_less [OF i(2)] show ?thesis by (simp add: nth_list_update)
  next
    case ih: False
    show ?thesis
    proof (cases "parent i = h")
      case True
      with least [OF i(1,2)] ih hc show ?thesis by (simp add: nth_list_update)
    next
      case False
      with edge [OF i(1,2) ih] ih hc show ?thesis by (simp add: nth_list_update)
    qed
  qed
  moreover have "fst (?z ! parent c) \<le> fst (?z ! i)" if i: "i < length xs" "0 < i" "parent i = c" for i
  proof -
    have "i \<noteq> h" "parent i \<noteq> h" using parent_less [OF i(2)] i(3) hc by auto
    with edge [OF i(1,2)] i c hc show ?thesis by (simp add: nth_list_update)
  qed
  ultimately show ?thesis by (simp add: heap_hole_def)
qed

lemma sift_down_heap:
  "h < length xs \<Longrightarrow> heap_hole xs h \<Longrightarrow>
    heap_hole (snd (sift_down h xs)) (fst (sift_down h xs)) \<and>
    length xs \<le> 2 * fst (sift_down h xs) + 1"
proof (induction h xs rule: sift_down_induct)
  case (move h xs)
  note c = earlier_child [OF move(1)]
  have "heap_hole (xs[h := xs ! earlier_child h xs]) (earlier_child h xs)"
    by (intro heap_hole_move move(5) c)
  with move(2,3) c(1) show ?case by simp
next
  case (left h xs)
  have "heap_hole (xs[h := xs ! (2 * h + 1)]) (2 * h + 1)"
  proof (rule heap_hole_move [OF left(4)])
    fix i assume "i < length xs" "0 < i" "parent i = h"
    with left(1) have "i = 2 * h + 1" unfolding parent_def by linarith
    then show "fst (xs ! (2 * h + 1)) \<le> fst (xs ! i)" by simp
  qed (use left in \<open>auto simp: parent_def\<close>)
  with left show ?case by simp
qed simp

lemma time_heap_butlast: "time_heap xs \<Longrightarrow> time_heap (butlast xs)"
  unfolding time_heap_def
proof (intro allI impI)
  fix i assume h: "\<forall>i < length xs. 0 < i \<longrightarrow> fst (xs ! parent i) \<le> fst (xs ! i)"
    and i: "i < length (butlast xs)" "0 < i"
  with parent_less [of i] show "fst (butlast xs ! parent i) \<le> fst (butlast xs ! i)"
    by (simp add: nth_butlast)
qed

lemma pop_heap_laws:
  assumes "time_heap xs" and "xs \<noteq> []"
  shows "time_heap (butlast (pop_heap xs))"
    and "add_mset (hd xs) (mset (butlast (pop_heap xs))) = mset xs"
proof -
  have "time_heap (butlast (pop_heap xs)) \<and> add_mset (hd xs) (mset (butlast (pop_heap xs))) = mset xs"
  proof (cases "1 < length xs")
    case False
    with assms(2) obtain x where "xs = [x]" by (cases xs) auto
    then show ?thesis by (simp add: pop_heap_def time_heap_def)
  next
    case True
    define ys where "ys = butlast xs"
    define h where "h = fst (sift_down 0 ys)"
    define zs where "zs = snd (sift_down 0 ys)"
    have ys: "0 < length ys" "length zs = length ys" "xs = ys @ [last xs]"
      using True assms(2) by (auto simp: ys_def zs_def)
    have pop: "butlast (pop_heap xs) = sift_up h (last xs) zs"
      using True by (simp add: pop_heap_def ys_def h_def zs_def split_beta)
    have "heap_hole ys 0"
      using time_heap_butlast [OF assms(1)] by (simp add: heap_hole_def time_heap_def ys_def)
    from sift_down_heap [OF ys(1) this] have hole: "heap_hole zs h" "length zs \<le> 2 * h + 1"
      by (simp_all add: h_def zs_def ys_def)
    have h: "h < length zs"
      using sift_down_hole [OF ys(1)] by (simp add: h_def zs_def)
    have "heap_up (zs[h := last xs]) h"
      unfolding heap_up_def
    proof (intro conjI allI impI)
      fix i assume i: "i < length (zs[h := last xs])" "0 < i" "i \<noteq> h"
      then have "parent i \<noteq> h" using hole(2) by (auto simp: parent_def)
      with i hole(1) show "fst (zs[h := last xs] ! parent i) \<le> fst (zs[h := last xs] ! i)"
        by (simp add: heap_hole_def)
    next
      fix i assume "i < length (zs[h := last xs])" "0 < i" "parent i = h"
      then show "fst (zs[h := last xs] ! parent h) \<le> fst (zs[h := last xs] ! i)"
        using hole(2) by (auto simp: parent_def)
    qed
    with h have "time_heap (sift_up h (last xs) zs)" by (rule sift_up_heap)
    moreover have "mset (sift_up h (last xs) zs) = mset (ys[0 := last xs])"
      using mset_sift_up [OF h, of "last xs"] mset_sift_down [OF ys(1), of "last xs"]
      by (simp add: h_def zs_def)
    moreover have "add_mset (hd xs) (mset (ys[0 := last xs])) = mset xs"
    proof -
      obtain y ys' where y: "ys = y # ys'" using ys(1) by (cases ys) auto
      have "xs = y # ys' @ [last xs]" using ys(3) y by simp
      then have "hd xs = y" "mset xs = add_mset y (add_mset (last xs) (mset ys'))"
        by (metis list.sel(1), metis mset.simps(2) mset_append union_mset_add_mset_right add.right_neutral mset.simps(1))
      with y show ?thesis by simp
    qed
    ultimately show ?thesis by (simp add: pop)
  qed
  then show "time_heap (butlast (pop_heap xs))"
    and "add_mset (hd xs) (mset (butlast (pop_heap xs))) = mset xs" by simp_all
qed

lemma time_heap_first:
  assumes "time_heap xs" and "e \<in> set xs"
  shows "fst (hd xs) \<le> fst e"
proof -
  have "fst (xs ! 0) \<le> fst (xs ! i)" if "i < length xs" for i
    using that
  proof (induction i rule: less_induct)
    case (less i)
    show ?case
    proof (cases "0 < i")
      case True
      with less(1) [of "parent i"] less(2) assms(1) show ?thesis
        unfolding time_heap_def by (meson less_trans order_trans parent_less)
    qed simp
  qed
  moreover have "hd xs = xs ! 0"
    using assms(2) by (intro hd_conv_nth) auto
  ultimately show ?thesis
    using assms(2) by (auto simp: in_set_conv_nth)
qed

section \<open>The interface of a timed queue\<close>

text \<open>What \<open>EventQueue\<close> relies on, whatever the representation.\<close>

locale timed_queue =
  fixes push :: "'e entry \<Rightarrow> 'q \<Rightarrow> 'q"
    and pop :: "'q \<Rightarrow> 'q"
    and front :: "'q \<Rightarrow> 'e entry"
    and wf :: "'q \<Rightarrow> bool"
    and elems :: "'q \<Rightarrow> 'e entry multiset"
  assumes push_wf: "wf q \<Longrightarrow> wf (push e q)"
    and push_elems: "wf q \<Longrightarrow> elems (push e q) = add_mset e (elems q)"
    and pop_wf: "wf q \<Longrightarrow> elems q \<noteq> {#} \<Longrightarrow> wf (pop q)"
    and pop_elems: "wf q \<Longrightarrow> elems q \<noteq> {#} \<Longrightarrow> add_mset (front q) (elems (pop q)) = elems q"
    and front_first: "wf q \<Longrightarrow> e \<in># elems q \<Longrightarrow> fst (front q) \<le> fst e"
begin

lemma front_in: "wf q \<Longrightarrow> elems q \<noteq> {#} \<Longrightarrow> front q \<in># elems q"
  using pop_elems [of q] by (metis union_single_eq_member)

lemma front_push:
  assumes "wf q"
  shows "fst (front (push e q)) =
    (if elems q = {#} then fst e else min (fst e) (fst (front q)))"
proof -
  have wf: "wf (push e q)" "elems (push e q) = add_mset e (elems q)"
    using assms by (simp_all add: push_wf push_elems)
  then have m: "front (push e q) = e \<or> front (push e q) \<in># elems q"
    using front_in [of "push e q"] by auto
  have e: "fst (front (push e q)) \<le> fst e" using front_first [OF wf(1), of e] wf(2) by simp
  show ?thesis
  proof (cases "elems q = {#}")
    case True
    with m show ?thesis by simp
  next
    case False
    then have "front q \<in># elems q" by (rule front_in [OF assms])
    then have "fst (front (push e q)) \<le> fst (front q)"
      using front_first [OF wf(1), of "front q"] wf(2) by simp
    with m e False front_first [OF assms, of "front (push e q)"] show ?thesis
      by (auto simp: min_def)
  qed
qed

lemma due_split:
  assumes "wf q" "elems q \<noteq> {#}" "fst (front q) \<le> t"
  shows "filter_mset (\<lambda>e. fst e \<le> t) (elems q) =
      add_mset (front q) (filter_mset (\<lambda>e. fst e \<le> t) (elems (pop q)))"
    and "filter_mset (\<lambda>e. t < fst e) (elems (pop q)) = filter_mset (\<lambda>e. t < fst e) (elems q)"
    and "size (elems (pop q)) < size (elems q)"
  using assms(3) by (simp_all add: pop_elems [OF assms(1,2), symmetric])

lemma none_due:
  assumes "wf q" "elems q = {#} \<or> t < fst (front q)" "e \<in># elems q"
  shows "t < fst e"
  using assms front_first [OF assms(1,3)] by auto

end

interpretation event_heap: timed_queue
  "\<lambda>e xs. push_heap (xs @ [e])" "\<lambda>xs. butlast (pop_heap xs)" hd time_heap mset
  by unfold_locales
    (auto simp: push_heap_laws pop_heap_laws intro: time_heap_first)

section \<open>Scheduling\<close>

definition queue_ok :: "'e event_queue \<Rightarrow> bool" where
  "queue_ok q \<longleftrightarrow> time_heap (entries q) \<and> cycle_set q"

text \<open>The cycle at which the emulator has to look at the queue again.\<close>

definition due :: "'e event_queue \<Rightarrow> u64" where
  "due q = min (stop q) (next_event q)"

lemma min_last [simp]: "min (a :: u64) (- 1) = a"
  by (simp add: min_def)

lemma due_eq: "due q = (if entries q = [] then stop q else min (stop q) (fst (hd (entries q))))"
  by (simp add: due_def next_event_def)

lemma push_heap_not_Nil: "push_heap (xs @ [e]) \<noteq> []"
  by (metis length_sift_up length_0_conv push_heap_def snoc_eq_iff_butlast)

lemma ScheduleNoLock_eq:
  assumes "queue_ok q"
  obtains q' where "ScheduleNoLock t f q c = Some (q', due q')" "queue_ok q'" "locked q' = locked q"
    "stop q' = stop q" "mset (entries q') = add_mset (t, f) (mset (entries q))"
proof
  let ?q = "q\<lparr>entries := push_heap (entries q @ [(t, f)])\<rparr>"
  show "ScheduleNoLock t f q c = Some (?q, due ?q)"
    using assms push_heap_not_Nil [of "entries q" "(t, f)"]
    by (simp add: ScheduleNoLock_def set_cycle_def queue_ok_def due_eq Let_def)
  show "queue_ok ?q" "mset (entries ?q) = add_mset (t, f) (mset (entries q))"
    using assms by (simp_all add: queue_ok_def push_heap_laws)
qed simp_all

text \<open>
  C25: scheduling loses no event.  On an unlocked, started queue \<open>Schedule\<close> returns; the queue holds
  the old events and the new one and is a heap again, \<open>next\<close> is the earliest time in it, and the
  emulator's cell \<open>*cycle\<close> is the earlier of that time and the stop cycle.
\<close>

theorem Schedule_keeps_events:
  assumes "queue_ok q" and "\<not> locked q"
  shows "\<exists>q'. Schedule t f q c = Some (q', due q') \<and> queue_ok q' \<and> \<not> locked q' \<and>
    mset (entries q') = add_mset (t, f) (mset (entries q)) \<and>
    next_event q' = (if entries q = [] then t else min t (next_event q))"
proof -
  have "queue_ok (q\<lparr>locked := True\<rparr>)" using assms(1) by (simp add: queue_ok_def)
  then obtain q' where q': "ScheduleNoLock t f (q\<lparr>locked := True\<rparr>) c = Some (q', due q')"
      "queue_ok q'" "mset (entries q') = add_mset (t, f) (mset (entries q))"
    by (rule ScheduleNoLock_eq [of _ t f c]) simp
  have "entries q' = push_heap (entries q @ [(t, f)])"
    using q'(1) by (auto simp: ScheduleNoLock_def set_cycle_def Let_def split: if_splits)
  then have "fst (hd (entries q')) =
      (if entries q = [] then t else min t (fst (hd (entries q))))" "entries q' \<noteq> []"
    using event_heap.front_push [of "entries q" "(t, f)"] assms(1) push_heap_not_Nil
    by (simp_all add: queue_ok_def)
  with q' assms(2) show ?thesis
    by (auto simp: Schedule_def queue_ok_def due_def next_event_def)
qed

theorem Schedule_keeps_events_witness:
  "\<exists>q'. Schedule 5 True (\<lparr>entries = [(3, False)], stop = 9, cycle_set = True, locked = False\<rparr>) 0 =
      Some (q', due q') \<and> queue_ok q' \<and> \<not> locked q' \<and>
    mset (entries q') = {#(5, True), (3, False)#} \<and> next_event q' = 3"
  using Schedule_keeps_events [of "\<lparr>entries = [(3, False)], stop = 9, cycle_set = True, locked = False\<rparr>" 5 True 0]
  by (simp add: queue_ok_def time_heap_def next_event_def)

section \<open>Expiring\<close>

text \<open>The loop with callbacks that leave the queue alone.\<close>

lemma Expire_loop_runs:
  assumes call: "\<And>f q c w. call f ((q, c), w) = Some ((q, c), run f w)"
  shows "queue_ok q \<Longrightarrow>
    \<exists>es q'. Expire_loop call t ((q, c), w) = Some ((q', c), fold (run \<circ> snd) es w) \<and>
      sorted (map fst es) \<and> mset es = filter_mset (\<lambda>e. fst e \<le> t) (mset (entries q)) \<and>
      mset (entries q') = filter_mset (\<lambda>e. t < fst e) (mset (entries q)) \<and>
      queue_ok q' \<and> locked q' = locked q \<and> stop q' = stop q"
proof (induction "length (entries q)" arbitrary: q w rule: less_induct)
  case less
  let ?E = "entries q" and ?q = "q\<lparr>entries := butlast (pop_heap (entries q))\<rparr>"
  have heap: "time_heap ?E" using less.prems by (simp add: queue_ok_def)
  show ?case
  proof (cases "?E \<noteq> [] \<and> fst (hd ?E) \<le> t")
    case False
    then have "\<forall>e \<in># mset ?E. t < fst e"
      using event_heap.none_due [OF heap, of t] by (auto simp: not_le)
    then have "filter_mset (\<lambda>e. fst e \<le> t) (mset ?E) = {#}"
      and "filter_mset (\<lambda>e. t < fst e) (mset ?E) = mset ?E"
      by (auto simp: filter_mset_eq_conv not_le)
    with False less.prems show ?thesis
      by (subst Expire_loop.simps) (auto simp: Let_def intro!: exI [of _ "[]"] exI [of _ q])
  next
    case True
    then have ne: "mset ?E \<noteq> {#}" by simp
    note split = event_heap.due_split [OF heap ne, of t]
    have "queue_ok ?q"
      using less.prems event_heap.pop_wf [OF heap ne] by (simp add: queue_ok_def)
    moreover have "length (entries ?q) < length ?E"
      using split(3) True by simp
    ultimately obtain es q' where
      1: "Expire_loop call t ((?q, c), run (snd (hd ?E)) w) =
        Some ((q', c), fold (run \<circ> snd) es (run (snd (hd ?E)) w))"
      and 2: "sorted (map fst es)" "mset es = filter_mset (\<lambda>e. fst e \<le> t) (mset (entries ?q))"
        "mset (entries q') = filter_mset (\<lambda>e. t < fst e) (mset (entries ?q))"
        "queue_ok q'" "locked q' = locked q" "stop q' = stop q"
      using less.hyps [of ?q "run (snd (hd ?E)) w"] by auto
    have "set es \<subseteq> set_mset (mset (entries ?q))"
      using arg_cong [OF 2(2), of set_mset] by auto
    moreover have "set_mset (mset (entries ?q)) \<subseteq> set_mset (mset ?E)"
      using arg_cong [OF event_heap.pop_elems [OF heap ne], of set_mset] by auto
    ultimately have "e \<in># mset ?E" if "e \<in> set es" for e
      using that by (meson subsetD)
    then have "\<forall>e \<in> set es. fst (hd ?E) \<le> fst e"
      using event_heap.front_first [OF heap] by blast
    with 2(1) have "sorted (map fst (hd ?E # es))" by auto
    moreover have "Expire_loop call t ((q, c), w) = Expire_loop call t ((?q, c), run (snd (hd ?E)) w)"
      using True by (subst Expire_loop.simps) (simp add: call)
    with 1 have "Expire_loop call t ((q, c), w) = Some ((q', c), fold (run \<circ> snd) (hd ?E # es) w)"
      by simp
    moreover have "mset (hd ?E # es) = filter_mset (\<lambda>e. fst e \<le> t) (mset ?E)"
      using 2(2) split(1) True by simp
    moreover have "mset (entries q') = filter_mset (\<lambda>e. t < fst e) (mset ?E)"
      using 2(3) split(2) True by simp
    ultimately show ?thesis using 2(4-6) by blast
  qed
qed

lemma Expire_runs_due_aux:
  assumes "queue_ok q" and "\<not> locked q"
    and "\<forall>f q c w. call f ((q, c), w) = Some ((q, c), run f w)"
  shows "\<exists>es q'. Expire call t ((q, c), w) = Some ((q', due q'), fold (run \<circ> snd) es w) \<and>
    sorted (map fst es) \<and> mset es = filter_mset (\<lambda>e. fst e \<le> t) (mset (entries q)) \<and>
    mset (entries q') = filter_mset (\<lambda>e. t < fst e) (mset (entries q)) \<and>
    queue_ok q' \<and> \<not> locked q' \<and> stop q' = stop q"
proof -
  have "queue_ok (q\<lparr>locked := True\<rparr>)" using assms(1) by (simp add: queue_ok_def)
  with Expire_loop_runs [of call run "q\<lparr>locked := True\<rparr>" t c w] assms(3)
  obtain es q' where loop: "Expire_loop call t ((q\<lparr>locked := True\<rparr>, c), w) =
      Some ((q', c), fold (run \<circ> snd) es w)"
    and q': "sorted (map fst es)" "mset es = filter_mset (\<lambda>e. fst e \<le> t) (mset (entries q))"
      "mset (entries q') = filter_mset (\<lambda>e. t < fst e) (mset (entries q))"
      "queue_ok q'" "stop q' = stop q"
    by auto
  have "Expire call t ((q, c), w) =
      Some ((q'\<lparr>locked := False\<rparr>, due q'), fold (run \<circ> snd) es w)"
    using loop assms(2) q'(4) by (simp add: Expire_def set_cycle_def queue_ok_def due_eq)
  then show ?thesis
    using q' by (intro exI [of _ es] exI [of _ "q'\<lparr>locked := False\<rparr>"])
      (simp add: queue_ok_def due_eq)
qed

text \<open>
  C8: \<open>Expire t\<close> runs what is due, in order, and nothing else.  On an unlocked, started queue, with
  callbacks that leave the queue alone, \<open>Expire t\<close> comes to an end; it has called the callbacks of
  exactly the events of time at most \<open>t\<close>, once each and in the order of their times; exactly the
  later events are left, in a heap; the mutex is free again, and \<open>*cycle\<close> is the earlier of the next
  event and the stop cycle.
\<close>

theorem Expire_runs_due:
  assumes "queue_ok q" and "\<not> locked q"
    and "\<forall>f q c w. call f ((q, c), w) = Some ((q, c), run f w)"
  shows "\<exists>es q'. Expire call t ((q, c), w) = Some ((q', due q'), fold (run \<circ> snd) es w) \<and>
    sorted (map fst es) \<and> mset es = filter_mset (\<lambda>e. fst e \<le> t) (mset (entries q)) \<and>
    mset (entries q') = filter_mset (\<lambda>e. t < fst e) (mset (entries q)) \<and>
    queue_ok q' \<and> \<not> locked q' \<and> stop q' = stop q"
  by (rule Expire_runs_due_aux [OF assms])

theorem Expire_runs_due_witness:
  "\<exists>es q'. Expire (\<lambda>f s. Some (fst s, snd s @ [f])) 5
      ((\<lparr>entries = [(3, 1 :: nat), (7, 2)], stop = 9, cycle_set = True, locked = False\<rparr>, 0), []) =
      Some ((q', due q'), fold ((\<lambda>f w. w @ [f]) \<circ> snd) es []) \<and>
    sorted (map fst es) \<and> mset es = {#(3, 1)#} \<and> mset (entries q') = {#(7, 2)#} \<and>
    queue_ok q' \<and> \<not> locked q' \<and> stop q' = 9"
proof -
  have "time_heap [(3 :: u64, 1 :: nat), (7, 2)]"
    by (auto simp: time_heap_def nth_Cons' parent_def)
  then show ?thesis
    using Expire_runs_due [of "\<lparr>entries = [(3, 1 :: nat), (7, 2)], stop = 9, cycle_set = True, locked = False\<rparr>"
        "\<lambda>f s. Some (fst s, snd s @ [f])" "\<lambda>f w. w @ [f]" 5 0 "[]"]
    by (simp add: queue_ok_def)
qed

text \<open>
  A callback that calls \<open>Schedule\<close> locks the mutex \<open>Expire\<close> holds: the reason for \<open>ScheduleNoLock\<close>.
\<close>

lemma Schedule_in_Expire:
  assumes "entries q \<noteq> []" "fst (hd (entries q)) \<le> t"
    and "\<And>f q c w. call f ((q, c), w) = do { r \<leftarrow> Schedule u g q c; Some (r, w) }"
  shows "Expire call t ((q, c), w) = None"
proof -
  have "Expire_loop call t ((q\<lparr>locked := True\<rparr>, c), w) = None"
    using assms by (subst Expire_loop.simps) (simp add: Schedule_def Let_def)
  then show ?thesis by (simp add: Expire_def)
qed

text \<open>Before \<open>Start\<close> the pointer \<open>cycle\<close> has no value, and every use of the queue writes through it.\<close>

lemma not_started:
  "\<not> cycle_set q \<Longrightarrow> Schedule t f q c = None"
  "\<not> cycle_set q \<Longrightarrow> entries q = [] \<Longrightarrow> Expire call t ((q, c), w) = None"
  by (simp_all add: Schedule_def ScheduleNoLock_def set_cycle_def Expire_def Expire_loop.simps Let_def)

text \<open>
  A queue that \<open>Start\<close> never saw cannot be used.  Whatever the callbacks, on a freshly constructed
  \<open>EventQueue\<close> both \<open>Schedule\<close> and \<open>Expire\<close> write through the pointer \<open>cycle\<close> that only \<open>Start\<close> sets, so
  they have undefined behaviour.
\<close>

theorem unstarted_queue_undefined:
  "Schedule t f (EventQueue_init st) c = None \<and> Expire call u ((EventQueue_init st, c), w) = None"
  by (simp add: EventQueue_init_def not_started)

end
