(* ===== verification/Emulator.thy ===== *)
theory Emulator
  imports Cpu_Safety Event_Laws
begin

text \<open>
  \<open>EmulatedCpu\<close> (cpu.h, cpu.cc): breakpoints, one step of the processor with its interrupt check,
  and the loops that interleave the processor with the event queue.
\<close>

section \<open>Breakpoints\<close>

text \<open>A breakpoint's function works on the processor.\<close>

record 'd breaks =
  has_breakpoints :: bool
  breakpoints :: "cpuaddr \<Rightarrow> ('d machine \<Rightarrow> 'd machine option) option"

definition breaks_init :: "'d breaks" where
  "breaks_init = \<lparr>has_breakpoints = False, breakpoints = (\<lambda>_. None)\<rparr>"

text \<open>\<open>emplace\<close> keeps an entry that is there and tells whether it inserted one.\<close>

definition AddBreakpoint ::
  "cpuaddr \<Rightarrow> ('d machine \<Rightarrow> 'd machine option) \<Rightarrow> 'd breaks \<Rightarrow> bool \<times> 'd breaks" where
  "AddBreakpoint addr fn b =
     (let b = b\<lparr>has_breakpoints := True\<rparr> in
      case breakpoints b addr of
        None \<Rightarrow> (True, b\<lparr>breakpoints := (breakpoints b)(addr := Some fn)\<rparr>)
      | Some _ \<Rightarrow> (False, b))"

definition RemoveBreakpoint :: "cpuaddr \<Rightarrow> 'd breaks \<Rightarrow> 'd breaks" where
  "RemoveBreakpoint addr b =
     (let b = b\<lparr>breakpoints := (breakpoints b)(addr := None)\<rparr>
      in b\<lparr>has_breakpoints := (breakpoints b \<noteq> (\<lambda>_. None))\<rparr>)"

definition hit_breakpoint :: "'d breaks \<Rightarrow> 'd machine \<Rightarrow> 'd machine option" where
  "hit_breakpoint b m =
     (case breakpoints b (GetCanonicalAddress m) of None \<Rightarrow> Some m | Some fn \<Rightarrow> fn m)"

section \<open>One step\<close>

text \<open>\<open>ExecInfo\<close>: the two entry points of a processor.\<close>

record 'd exec_info =
  exec_emu :: "'d machine \<Rightarrow> ('d, unit) result"
  exec_interrupt :: "u32 \<Rightarrow> 'd machine \<Rightarrow> ('d, unit) result"

definition WDC65C816_exec :: "'d io \<Rightarrow> 'd exec_info" where
  "WDC65C816_exec io = \<lparr>exec_emu = EmulateInstruction io, exec_interrupt = Interrupt io\<rparr>"

definition interrupt_pending :: "'d machine \<Rightarrow> bool" where
  "interrupt_pending m \<longleftrightarrow> pending_interrupts m + interrupts m \<ge> 3"

definition interrupt_param :: "'d machine \<Rightarrow> u32" where
  "interrupt_param m = (if pending_interrupts m AND 4 \<noteq> 0 then 1 else 0)"

text \<open>
  The body of the loops: \<open>before\<close> is what runs between the interrupt check and the instruction (the
  breakpoint check, and \<open>PreCpuCycle\<close> of a context), \<open>after\<close> what runs behind it.
\<close>

definition cpu_step ::
  "'d exec_info \<Rightarrow> ('d machine \<Rightarrow> 'd machine option) \<Rightarrow> ('d machine \<Rightarrow> 'd machine option) \<Rightarrow>
    'd machine \<Rightarrow> 'd machine option" where
  "cpu_step exec before after m =
     (let m = m\<lparr>ip := ip m AND ip_mask m\<rparr> in
      if interrupt_pending m then do {
        (_, m) \<leftarrow> exec_interrupt exec (interrupt_param m) m;
        Some m
      }
      else do {
        m \<leftarrow> before m;
        (_, m) \<leftarrow> exec_emu exec m;
        after m
      })"

section \<open>The loops\<close>

text \<open>The inner loop: \<open>c\<close> is the value of the cell \<open>event_cycle\<close>.  The processor does not write it.\<close>

partial_function (option) run_cycles ::
  "('d machine \<Rightarrow> 'd machine option) \<Rightarrow> u64 \<Rightarrow> 'd machine \<Rightarrow> 'd machine option" where
  "run_cycles step c m =
     (if cycle m < c then do {
        m \<leftarrow> step m;
        run_cycles step c m
      }
      else Some m)"

text \<open>The outer loop; \<open>expire m\<close> is the call of \<open>Expire\<close> on the queue and the world it needs.\<close>

type_synonym ('e, 'd) emu_state = "('e event_queue \<times> u64) \<times> 'd machine \<times> 'd breaks"

partial_function (option) Emulate_loop ::
  "('d breaks \<Rightarrow> 'd machine \<Rightarrow> 'd machine option) \<Rightarrow> ('e, 'd machine \<times> 'd breaks) callbacks \<Rightarrow>
    ('e, 'd) emu_state \<Rightarrow> ('e, 'd) emu_state option" where
  "Emulate_loop step call s =
     (let ((q, c), m, b) = s in do {
        m \<leftarrow> run_cycles (step b) c m;
        ((q, c), m, b) \<leftarrow> Expire call (cycle m) ((q, c), m, b);
        (if cycle m < cycle_stop m then Emulate_loop step call ((q, c), m, b)
         else Some ((q, c), m, b))
      })"

definition Emulate_before :: "'d breaks \<Rightarrow> 'd machine \<Rightarrow> 'd machine option" where
  "Emulate_before b m = (if has_breakpoints b then hit_breakpoint b m else Some m)"

text \<open>
  \<open>Emulate\<close>: without a queue the inner loop runs and \<open>events->Expire\<close> follows a null pointer.
\<close>

definition Emulate ::
  "'d exec_info \<Rightarrow> ('e, 'd machine \<times> 'd breaks) callbacks \<Rightarrow> 'e event_queue option \<Rightarrow>
    'd machine \<Rightarrow> 'd breaks \<Rightarrow> ('e event_queue \<times> 'd machine \<times> 'd breaks) option" where
  "Emulate exec call events m b =
     (let m = m\<lparr>event_cycle := cycle_stop m\<rparr>;
          step = (\<lambda>b. cpu_step exec (Emulate_before b) Some)
      in case events of
        Some q \<Rightarrow>
          (let (q, c) = Start (cycle_stop m) q (event_cycle m) in do {
             ((q, c), m, b) \<leftarrow> Emulate_loop step call ((q, c), m, b);
             Some (q, m\<lparr>event_cycle := c\<rparr>, b)
           })
      | None \<Rightarrow> do {
          _ \<leftarrow> run_cycles (step b) (event_cycle m) m;
          None
        })"

text \<open>\<open>EmulateWithCycleProcessing\<close> looks at the breakpoints always, and may have no queue.\<close>

partial_function (option) run_to_stop ::
  "('d machine \<Rightarrow> 'd machine option) \<Rightarrow> u64 \<Rightarrow> 'd machine \<Rightarrow> 'd machine option" where
  "run_to_stop step c m = do {
     m \<leftarrow> run_cycles step c m;
     (if cycle m < cycle_stop m then run_to_stop step c m else Some m)
   }"

definition EmulateWithCycleProcessing ::
  "'d exec_info \<Rightarrow> ('d machine \<Rightarrow> 'd machine option) \<Rightarrow> ('d machine \<Rightarrow> 'd machine option) \<Rightarrow>
    ('e, 'd machine \<times> 'd breaks) callbacks \<Rightarrow> 'e event_queue option \<Rightarrow>
    'd machine \<Rightarrow> 'd breaks \<Rightarrow> ('e event_queue option \<times> 'd machine \<times> 'd breaks) option" where
  "EmulateWithCycleProcessing exec PreCpuCycle PostCpuCycle call events m b =
     (let step = (\<lambda>b. cpu_step exec (\<lambda>m. do { m \<leftarrow> PreCpuCycle m; hit_breakpoint b m }) PostCpuCycle)
      in case events of
        Some q \<Rightarrow>
          (let (q, c) = Start (cycle_stop m) q (cycle_stop m) in do {
             ((q, c), m, b) \<leftarrow> Emulate_loop step call ((q, c), m, b);
             Some (Some q, m, b)
           })
      | None \<Rightarrow> do {
          m \<leftarrow> run_to_stop (step b) (cycle_stop m) m;
          Some (None, m, b)
        })"

text \<open>\<open>SingleStep\<close> calls \<open>Expire\<close> on the queue as it is; it does not call \<open>Start\<close>.\<close>

definition SingleStep ::
  "'d exec_info \<Rightarrow> ('e, 'd machine \<times> 'd breaks) callbacks \<Rightarrow> ('e event_queue \<times> u64) option \<Rightarrow>
    'd machine \<Rightarrow> 'd breaks \<Rightarrow>
    (('e event_queue \<times> u64) option \<times> 'd machine \<times> 'd breaks) option" where
  "SingleStep exec call events m b = do {
     (events, m, b) \<leftarrow>
       (case events of
          Some qc \<Rightarrow> do {
            (qc, m, b) \<leftarrow> Expire call (cycle m) (qc, m, b);
            Some (Some qc, m, b)
          }
        | None \<Rightarrow> Some (None, m, b));
     m \<leftarrow> cpu_step exec (hit_breakpoint b) Some m;
     Some (events, m, b)
   }"

end
