(* ===== verification/Emulator_Laws.thy ===== *)
theory Emulator_Laws
  imports Emulator
begin

text \<open>
  The laws of the emulator loops: which interrupts are taken, that the loops come to an end when the
  processor makes progress, and what they leave.
\<close>

section \<open>Breakpoints\<close>

definition breaks_ok :: "'d breaks \<Rightarrow> bool" where
  "breaks_ok b \<longleftrightarrow> (has_breakpoints b \<longleftrightarrow> (\<exists>a. breakpoints b a \<noteq> None))"

lemma breaks_ok_ops:
  "breaks_ok breaks_init"
  "breaks_ok (snd (AddBreakpoint a f b))"
  "breaks_ok (RemoveBreakpoint a b)"
proof -
  show "breaks_ok breaks_init" by (simp add: breaks_ok_def breaks_init_def)
  show "breaks_ok (snd (AddBreakpoint a f b))"
    by (cases "breakpoints b a") (auto simp: breaks_ok_def AddBreakpoint_def)
  show "breaks_ok (RemoveBreakpoint a b)"
    by (auto simp: breaks_ok_def RemoveBreakpoint_def fun_eq_iff)
qed

text \<open>
  The flag \<open>has_breakpoints\<close> that \<open>Emulate\<close> tests says whether there is a breakpoint, after any
  \<open>AddBreakpoint\<close> and \<open>RemoveBreakpoint\<close>: checking the flag first, as \<open>Emulate\<close> does, stops at the
  same breakpoints as the plain look-up of \<open>EmulateWithCycleProcessing\<close> and \<open>SingleStep\<close>.
\<close>

theorem flag_check_same_breakpoints:
  assumes "b \<in> {breaks_init, snd (AddBreakpoint a f b0), RemoveBreakpoint a b0}"
  shows "Emulate_before b m = hit_breakpoint b m \<and> (has_breakpoints b \<longleftrightarrow> breakpoints b \<noteq> (\<lambda>_. None))"
proof -
  have "breaks_ok b" using assms breaks_ok_ops by auto
  then show ?thesis
    by (auto simp: breaks_ok_def Emulate_before_def hit_breakpoint_def fun_eq_iff)
qed

theorem flag_check_same_breakpoints_witness:
  "Emulate_before breaks_init (linear_machine []) = hit_breakpoint breaks_init (linear_machine []) \<and>
    (has_breakpoints (breaks_init :: unit breaks) \<longleftrightarrow> breakpoints (breaks_init :: unit breaks) \<noteq> (\<lambda>_. None))"
  by (rule flag_check_same_breakpoints [where a = 0 and f = Some and ?b0.0 = breaks_init]) simp

section \<open>Interrupts\<close>

lemma source_cases:
  assumes "(p :: u32) AND 6 = p"
  shows "p = 0 \<or> p = 2 \<or> p = 4 \<or> p = 6"
proof -
  have "p \<le> 6" using assms by (metis word_and_le1)
  then have "unat p \<le> 6" by (simp add: word_le_nat_alt)
  then have "unat p \<in> {0, 1, 2, 3, 4, 5, 6}" by auto
  moreover have "p = of_nat (unat p)" by simp
  ultimately have "p \<in> {0, 1, 2, 3, 4, 5, 6}" by (elim insertE) auto
  with assms show ?thesis by auto
qed

lemma flag_cases:
  assumes "(i :: u32) \<le> 1"
  shows "i = 0 \<or> i = 1"
proof -
  have "unat i = unat (0 :: u32) \<or> unat i = unat (1 :: u32)"
    using assms by (auto simp: word_le_nat_alt)
  then show ?thesis unfolding word_unat_eq_iff .
qed

text \<open>
  Which interrupt is taken.  With no source but IRQ (bit 1) and NMI (bit 2) and an interrupt flag
  of 0 or 1, a step of the loops enters the NMI handler when an NMI is pending, else the IRQ handler
  when an IRQ is pending and interrupts are enabled, and else runs the instruction.
\<close>

theorem interrupt_choice:
  assumes "pending_interrupts m AND 6 = pending_interrupts m" and "interrupts m \<le> 1"
  shows "cpu_step exec before after m =
    (let m = m\<lparr>ip := ip m AND ip_mask m\<rparr> in
     if bit (pending_interrupts m) 2 then map_option snd (exec_interrupt exec 1 m)
     else if bit (pending_interrupts m) 1 \<and> interrupts m = 1 then map_option snd (exec_interrupt exec 0 m)
     else do { m \<leftarrow> before m; (_, m) \<leftarrow> exec_emu exec m; after m })"
proof -
  have snd: "do { (_, m) \<leftarrow> r; Some m } = map_option snd r" for r :: "(unit \<times> 'a machine) option"
    by (cases r) auto
  have bits: "bit (2 :: u32) 1" "\<not> bit (2 :: u32) 2" "bit (4 :: u32) 2" "bit (6 :: u32) 2"
    "\<not> bit (4 :: u32) 1" "\<not> (3 :: u32) \<le> 1" "\<not> (3 :: u32) \<le> 2"
    by (simp_all add: word_le_nat_alt)
  from source_cases [OF assms(1)] flag_cases [OF assms(2)] show ?thesis
    by (elim disjE)
      (simp_all add: cpu_step_def interrupt_pending_def interrupt_param_def snd bits Let_def)
qed

theorem interrupt_choice_witness:
  "cpu_step (WDC65C816_exec no_io) Some Some ((linear_machine [])\<lparr>pending_interrupts := 2\<rparr>) =
    (let m = (linear_machine [])\<lparr>pending_interrupts := 2\<rparr>; m = m\<lparr>ip := ip m AND ip_mask m\<rparr> in
     if bit (pending_interrupts m) 2 then map_option snd (exec_interrupt (WDC65C816_exec no_io) 1 m)
     else if bit (pending_interrupts m) 1 \<and> interrupts m = 1
       then map_option snd (exec_interrupt (WDC65C816_exec no_io) 0 m)
     else do { m \<leftarrow> Some m; (_, m) \<leftarrow> exec_emu (WDC65C816_exec no_io) m; Some m })"
  unfolding Let_def
  by (rule interrupt_choice [of "(linear_machine [])\<lparr>pending_interrupts := 2\<rparr>", unfolded Let_def])
    (simp_all add: linear_machine_def WDC65C816_init_def OnUpdateMode_def Let_def)

section \<open>The loops end\<close>

text \<open>A step from before the stop cycle keeps \<open>I\<close> and moves the clock on.\<close>

definition progress :: "('d machine \<Rightarrow> bool) \<Rightarrow> ('d machine \<Rightarrow> 'd machine option) \<Rightarrow> bool" where
  "progress I step \<longleftrightarrow>
     (\<forall>m. I m \<and> cycle m < cycle_stop m \<longrightarrow> (\<exists>m'. step m = Some m' \<and> I m' \<and> cycle m < cycle m' \<and> cycle_stop m' = cycle_stop m))"

lemma run_cycles_returns:
  assumes "progress I step" and "I m" and "c \<le> cycle_stop m"
  shows "\<exists>m'. run_cycles step c m = Some m' \<and> I m' \<and> cycle_stop m' = cycle_stop m \<and>
    cycle m \<le> cycle m' \<and> c \<le> cycle m'"
  using assms(2,3)
proof (induction "unat c - unat (cycle m)" arbitrary: m rule: less_induct)
  case less
  show ?case
  proof (cases "cycle m < c")
    case False
    with less.prems show ?thesis
      by (subst run_cycles.simps) (auto simp: not_less)
  next
    case True
    obtain m1 where m1: "step m = Some m1" "I m1" "cycle m < cycle m1" "cycle_stop m1 = cycle_stop m"
      using assms(1) less.prems less_le_trans [OF True less.prems(2)] unfolding progress_def by blast
    have "unat c - unat (cycle m1) < unat c - unat (cycle m)"
      using True m1(3) by (simp add: word_less_nat_alt)
    from less.hyps [OF this m1(2)] m1 True less.prems(2) show ?thesis
      by (subst run_cycles.simps) (auto intro: order_trans less_imp_le)
  qed
qed

text \<open>Expiring keeps what the callbacks keep.\<close>

lemma fold_keeps: "(\<And>f w. P w \<Longrightarrow> P (run f w)) \<Longrightarrow> P w \<Longrightarrow> P (fold (run \<circ> snd) es w)"
  by (induction es arbitrary: w) auto

definition quiet :: "('e, 'w) callbacks \<Rightarrow> ('e \<Rightarrow> 'w \<Rightarrow> 'w) \<Rightarrow> bool" where
  "quiet call run \<longleftrightarrow> (\<forall>f q c w. call f ((q, c), w) = Some ((q, c), run f w))"

text \<open>
  Callbacks that leave the queue, the clock, the stop cycle and the breakpoints alone and keep \<open>I\<close>.
\<close>

definition clock_kept :: "('d machine \<Rightarrow> bool) \<Rightarrow> ('e \<Rightarrow> 'd machine \<times> 'd breaks \<Rightarrow> 'd machine \<times> 'd breaks) \<Rightarrow> bool" where
  "clock_kept I run \<longleftrightarrow>
     (\<forall>f m b. I m \<longrightarrow> (\<exists>m'. run f (m, b) = (m', b) \<and> I m' \<and> cycle m' = cycle m \<and> cycle_stop m' = cycle_stop m))"

lemma clock_kept_fold:
  assumes "clock_kept I run" and "I m"
  shows "\<exists>m'. fold (run \<circ> snd) es (m, b) = (m', b) \<and> I m' \<and> cycle m' = cycle m \<and> cycle_stop m' = cycle_stop m"
  using assms(2)
proof (induction es arbitrary: m)
  case Nil
  then show ?case by simp
next
  case (Cons e es)
  obtain m1 where "run (snd e) (m, b) = (m1, b)" "I m1" "cycle m1 = cycle m" "cycle_stop m1 = cycle_stop m"
    using assms(1) Cons.prems unfolding clock_kept_def by blast
  with Cons.IH [of m1] show ?case by simp
qed

lemma Expire_world:
  assumes q: "queue_ok q" "\<not> locked q" and call: "quiet call run" "clock_kept I run" and "I m"
  shows "\<exists>q' m'. Expire call t ((q, c), m, b) = Some ((q', due q'), m', b) \<and>
    queue_ok q' \<and> \<not> locked q' \<and> stop q' = stop q \<and>
    mset (entries q') = filter_mset (\<lambda>e. t < fst e) (mset (entries q)) \<and>
    I m' \<and> cycle m' = cycle m \<and> cycle_stop m' = cycle_stop m"
proof -
  obtain es q' where 1: "Expire call t ((q, c), m, b) = Some ((q', due q'), fold (run \<circ> snd) es (m, b))"
    and 2: "mset es = filter_mset (\<lambda>e. fst e \<le> t) (mset (entries q))"
      "mset (entries q') = filter_mset (\<lambda>e. t < fst e) (mset (entries q))"
      "queue_ok q'" "\<not> locked q'" "stop q' = stop q"
    using Expire_runs_due_aux [OF q call(1) [unfolded quiet_def], of t c "(m, b)"] by (elim exE conjE) (rule that)
  from clock_kept_fold [OF call(2) assms(5), of es b] 1 2 show ?thesis by auto
qed

lemma due_later:
  assumes "mset (entries q) = filter_mset (\<lambda>e. t < fst e) M" and "t < stop q"
  shows "t < due q"
proof (cases "entries q = []")
  case False
  then have "hd (entries q) \<in># mset (entries q)" by simp
  then have "t < fst (hd (entries q))" unfolding assms(1) by simp
  with assms(2) show ?thesis by (simp add: due_eq)
qed (use assms(2) in \<open>simp add: due_eq\<close>)

lemma Emulate_loop_returns:
  assumes step: "progress I (step b)" and call: "quiet call run" "clock_kept I run"
  shows "\<lbrakk>queue_ok q; \<not> locked q; stop q = cycle_stop m; I m; c \<le> cycle_stop m\<rbrakk> \<Longrightarrow>
    \<exists>q' c' m'. Emulate_loop step call ((q, c), m, b) = Some ((q', c'), m', b) \<and>
      queue_ok q' \<and> \<not> locked q' \<and> I m' \<and> cycle_stop m \<le> cycle m' \<and> cycle_stop m' = cycle_stop m \<and>
      mset (entries q') = filter_mset (\<lambda>e. cycle m' < fst e) (mset (entries q))"
proof (induction "2 * (unat (cycle_stop m) - unat (cycle m)) + (if cycle m < c then 0 else 1)"
    arbitrary: q c m rule: less_induct)
  case less
  obtain m1 where m1: "run_cycles (step b) c m = Some m1" "I m1" "cycle_stop m1 = cycle_stop m"
      "cycle m \<le> cycle m1" "c \<le> cycle m1"
    using run_cycles_returns [OF step less.prems(4,5)] by blast
  obtain q2 m2 where m2: "Expire call (cycle m1) ((q, c), m1, b) = Some ((q2, due q2), m2, b)"
      "queue_ok q2" "\<not> locked q2" "stop q2 = stop q"
      "mset (entries q2) = filter_mset (\<lambda>e. cycle m1 < fst e) (mset (entries q))"
      "I m2" "cycle m2 = cycle m1" "cycle_stop m2 = cycle_stop m1"
    using Expire_world [OF less.prems(1,2) call m1(2), of "cycle m1" c b] by blast
  show ?case
  proof (cases "cycle m2 < cycle_stop m2")
    case False
    with m1 m2 show ?thesis
      by (subst Emulate_loop.simps) (auto simp: not_less)
  next
    case True
    have later: "cycle m2 < due q2"
      using due_later [OF m2(5)] True m1 m2 less.prems(3) by simp
    have lt: "2 * (unat (cycle_stop m2) - unat (cycle m2)) + (if cycle m2 < due q2 then 0 else 1) <
        2 * (unat (cycle_stop m) - unat (cycle m)) + (if cycle m < c then 0 else 1)"
    proof (cases "cycle m < c")
      case True
      then have "cycle m < cycle m2" using m1(5) m2(7) by simp
      with \<open>cycle m2 < cycle_stop m2\<close> True later m1 m2 show ?thesis
        by (simp add: word_less_nat_alt)
    next
      case False
      with later m1 m2 show ?thesis by (simp add: word_le_nat_alt)
    qed
    have stop: "stop q2 = cycle_stop m2" using less.prems(3) m1 m2 by simp
    have "due q2 \<le> cycle_stop m2" by (simp add: due_def stop)
    from less.hyps [OF lt m2(2,3) stop m2(6) this]
    obtain q' c' m' where r: "Emulate_loop step call ((q2, due q2), m2, b) = Some ((q', c'), m', b)"
        "queue_ok q'" "\<not> locked q'" "I m'" "cycle_stop m2 \<le> cycle m'" "cycle_stop m' = cycle_stop m2"
        "mset (entries q') = filter_mset (\<lambda>e. cycle m' < fst e) (mset (entries q2))"
      by blast
    have "cycle m1 \<le> cycle m'" using r(5) True m2(7) by simp
    then have "filter_mset (\<lambda>e. cycle m' < fst e) (mset (entries q2)) =
        filter_mset (\<lambda>e. cycle m' < fst e) (mset (entries q))"
      unfolding m2(5) filter_filter_mset
      by (intro filter_mset_cong0) (auto intro: le_less_trans)
    moreover have "Emulate_loop step call ((q, c), m, b) = Some ((q', c'), m', b)"
      using r(1) m1 m2 True by (subst Emulate_loop.simps) simp
    ultimately show ?thesis
      using r m1 m2 by auto
  qed
qed

lemma Emulate_queue_returns:
  assumes "progress I (cpu_step exec (Emulate_before b) Some)" and "\<forall>m c. I (m\<lparr>event_cycle := c\<rparr>) = I m"
    and "quiet call run" and "clock_kept I run"
    and "time_heap (entries q)" and "\<not> locked q" and "I m"
  shows "\<exists>q' m'. Emulate exec call (Some q) m b = Some (q', m', b) \<and>
    I m' \<and> cycle_stop m \<le> cycle m' \<and> cycle_stop m' = cycle_stop m \<and>
    mset (entries q') = filter_mset (\<lambda>e. cycle m' < fst e) (mset (entries q)) \<and>
    queue_ok q' \<and> \<not> locked q'"
proof -
  let ?m = "m\<lparr>event_cycle := cycle_stop m\<rparr>"
  define q1 where "q1 = fst (Start (cycle_stop m) q (cycle_stop m))"
  define c1 where "c1 = snd (Start (cycle_stop m) q (cycle_stop m))"
  have start: "Start (cycle_stop m) q (cycle_stop m) = (q1, c1)" by (simp add: q1_def c1_def)
  have q1: "queue_ok q1" "\<not> locked q1" "stop q1 = cycle_stop m" "entries q1 = entries q"
    using assms(5,6) by (simp_all add: Start_def queue_ok_def q1_def)
  have c1: "c1 \<le> cycle_stop m" by (simp add: c1_def Start_def)
  have "I ?m" using assms(2,7) by simp
  obtain q' c' m' where
    "Emulate_loop (\<lambda>b. cpu_step exec (Emulate_before b) Some) call ((q1, c1), ?m, b) = Some ((q', c'), m', b)"
    "queue_ok q'" "\<not> locked q'" "I m'" "cycle_stop m \<le> cycle m'" "cycle_stop m' = cycle_stop m"
    "mset (entries q') = filter_mset (\<lambda>e. cycle m' < fst e) (mset (entries q))"
    using Emulate_loop_returns [where step = "\<lambda>b. cpu_step exec (Emulate_before b) Some",
        OF assms(1,3,4) q1(1,2) _ \<open>I ?m\<close>, of c1] q1(3,4) c1 by auto
  with start assms(2) show ?thesis
    by (auto simp: Emulate_def)
qed


text \<open>A processor for the witness: an instruction takes two cycles, an interrupt is not expected.\<close>

definition idle_exec :: "unit exec_info" where
  "idle_exec = \<lparr>exec_emu = (\<lambda>m. Some ((), m\<lparr>cycle := cycle m + 2\<rparr>)), exec_interrupt = (\<lambda>_ _. None)\<rparr>"

definition idle :: "unit machine \<Rightarrow> bool" where
  "idle m \<longleftrightarrow> pending_interrupts m = 0 \<and> interrupts m = 0 \<and> cycle m < 100 \<and> cycle_stop m = 50"


text \<open>
  \<open>Emulate\<close> without a queue never returns properly.  Called with the default \<open>nullptr\<close>, as
  \<open>C256::Emulate\<close> and \<open>Nes::Step\<close> do, it either loops for ever, or meets undefined behaviour at the
  latest when it calls \<open>Expire\<close> through the null pointer.
\<close>

theorem Emulate_null_queue: "Emulate exec call None m b = None"
  by (simp add: Emulate_def Let_def)

end
