(* ===== verification/C256.thy ===== *)
theory C256
  imports Emulator
begin

text \<open>
  The C256 machine (c256.h, c256.cc): its memory map, the mathematical coprocessor in the registers
  at 0x100, and the I/O callbacks it hands to the bus.
\<close>

section \<open>State\<close>

text \<open>
  The five memories are host blocks; the page table is in the bus, the rest of the object is \<open>cpu\<close>.
\<close>

record c256_dev =
  ram :: nat
  vram :: nat
  io_mem :: nat
  sysflash :: nat
  userflash :: nat
  gavin_low_regs :: "u8 list"

type_synonym c256 = "c256_dev machine"

section \<open>The mathematical coprocessor\<close>

text \<open>
  The product of two 16-bit numbers is computed in \<open>int\<close>, to which they are promoted: the C++ program
  has undefined behaviour when it exceeds \<open>2 ^ 31 - 1\<close>.  The result is an argument of the model:
  \<open>strict_mul\<close> is the standard, \<open>wrap_mul\<close> the two's complement multiplication of the usual targets.
\<close>

type_synonym int_mul = "u16 \<Rightarrow> u16 \<Rightarrow> u32 option"

definition strict_mul :: int_mul where
  "strict_mul a b = (if unat a * unat b < 2 ^ 31 then Some (ucast a * ucast b) else None)"

definition wrap_mul :: int_mul where
  "wrap_mul a b = Some (ucast a * ucast b)"

text \<open>\<open>bytes[i] + bytes[i + 1] * 256\<close>, with \<open>bytes\<close> the registers from \<open>off\<close> on.\<close>

definition reg_u16 :: "u8 list \<Rightarrow> nat \<Rightarrow> u16" where
  "reg_u16 regs i = ucast (regs ! i) + ucast (regs ! (i + 1)) * 256"

definition put_u16 :: "nat \<Rightarrow> u16 \<Rightarrow> u8 list \<Rightarrow> u8 list" where
  "put_u16 i v regs = regs[i := ucast v, i + 1 := ucast (drop_bit 8 v)]"

definition put_u32 :: "nat \<Rightarrow> u32 \<Rightarrow> u8 list \<Rightarrow> u8 list" where
  "put_u32 i v regs =
     regs[i := ucast v, i + 1 := ucast (drop_bit 8 v), i + 2 := ucast (drop_bit 16 v),
          i + 3 := ucast (drop_bit 24 v)]"

definition MathCoproUMul :: "int_mul \<Rightarrow> nat \<Rightarrow> u8 list \<Rightarrow> u8 list option" where
  "MathCoproUMul mul off regs =
     (let a = reg_u16 regs off; b = reg_u16 regs (off + 2) in do {
        result \<leftarrow> mul a b;
        Some (put_u32 (off + 4) result regs)
      })"

definition MathCoproSMul :: "int_mul \<Rightarrow> nat \<Rightarrow> u8 list \<Rightarrow> u8 list option" where
  "MathCoproSMul mul off regs =
     (let a = reg_u16 regs off; b = reg_u16 regs (off + 2) in do {
        result \<leftarrow> mul a b;
        Some (put_u32 (off + 4) result regs)
      })"

definition MathCoproUDiv :: "nat \<Rightarrow> u8 list \<Rightarrow> u8 list" where
  "MathCoproUDiv off regs =
     (let a = reg_u16 regs off; b = reg_u16 regs (off + 2);
          result = (if b \<noteq> 0 then a div b else 0);
          rem = (if b \<noteq> 0 then a mod b else 0)
      in put_u16 (off + 6) rem (put_u16 (off + 4) result regs))"

text \<open>
  The operands are unsigned, so \<open>sa\<close> and \<open>sb\<close> are never negative; the conversion of the results to
  \<open>int16_t\<close> keeps their bits.
\<close>

definition MathCoproSDiv :: "nat \<Rightarrow> u8 list \<Rightarrow> u8 list" where
  "MathCoproSDiv off regs =
     (let a = reg_u16 regs off; b = reg_u16 regs (off + 2);
          result = (if b \<noteq> 0 then let sa = int (unat a); sb = int (unat b) in of_int (sa div sb) else 0);
          rem = (if b \<noteq> 0 then let sa = int (unat a); sb = int (unat b) in of_int (sa mod sb) else 0)
      in put_u16 (off + 6) rem (put_u16 (off + 4) result regs))"

definition MathCoproAdd :: "nat \<Rightarrow> u8 list \<Rightarrow> u8 list" where
  "MathCoproAdd off regs =
     (let byte = (\<lambda>i. ucast (regs ! (off + i)) :: u32);
          sum = byte 0;
          sum = sum + push_bit 8 (byte 1);
          sum = sum + push_bit 16 (byte 2);
          sum = sum + push_bit 24 (byte 3);
          sum = sum + byte 4;
          sum = sum + push_bit 8 (byte 5);
          sum = sum + push_bit 16 (byte 6);
          sum = sum + push_bit 24 (byte 7)
      in put_u32 (off + 8) sum regs)"

section \<open>The I/O callbacks\<close>

text \<open>\<open>size\<close> is 1 in every call the bus makes.  \<open>reg\<close> is below 0xA0.\<close>

definition GavinIoRead :: "u32 \<Rightarrow> c256 \<Rightarrow> (u8 \<times> c256) option" where
  "GavinIoRead r s =
     (if unat r < length (gavin_low_regs (dev s))
      then Some (gavin_low_regs (dev s) ! unat r, s) else None)"

text \<open>The \<open>switch\<close> on \<open>reg >> 3\<close>.\<close>

definition gavin_unit :: "int_mul \<Rightarrow> u32 \<Rightarrow> u8 list \<Rightarrow> u8 list option" where
  "gavin_unit mul n regs =
     (if n = 0 then MathCoproUMul mul 0 regs
      else if n = 1 then MathCoproSMul mul 8 regs
      else if n = 2 then Some (MathCoproUDiv 0x10 regs)
      else if n = 3 then Some (MathCoproSDiv 0x18 regs)
      else if n = 4 \<or> n = 5 then Some (MathCoproAdd 0x20 regs)
      else Some regs)"

definition GavinIoWrite :: "int_mul \<Rightarrow> u32 \<Rightarrow> u8 \<Rightarrow> c256 \<Rightarrow> (unit \<times> c256) option" where
  "GavinIoWrite mul r v s =
     (if unat r < length (gavin_low_regs (dev s)) then do {
        regs \<leftarrow> gavin_unit mul (drop_bit 3 r) ((gavin_low_regs (dev s))[unat r := v]);
        Some ((), s\<lparr>dev := (dev s)\<lparr>gavin_low_regs := regs\<rparr>\<rparr>)
      }
      else None)"

definition AfIoRead :: "u32 \<Rightarrow> c256 \<Rightarrow> (u8 \<times> c256) option" where
  "AfIoRead r s = Some (0, s)"

definition AfIoWrite :: "u32 \<Rightarrow> u8 \<Rightarrow> c256 \<Rightarrow> (unit \<times> c256) option" where
  "AfIoWrite r v s = do {
     h \<leftarrow> store_byte (io_mem (dev s), unat r) v (host s);
     Some ((), s\<lparr>host := h\<rparr>)
   }"

definition IsIoDeviceAddress :: "cpuaddr \<Rightarrow> c256 \<Rightarrow> bool" where
  "IsIoDeviceAddress addr s \<longleftrightarrow> addr AND 0xFF0000 = 0xAF0000 \<or> addr \<ge> 0x100 \<and> addr < 0x1A0"

definition IoRead :: "cpuaddr \<Rightarrow> u8 \<Rightarrow> c256 \<Rightarrow> (u8 \<times> c256) option" where
  "IoRead addr data s =
     (if addr AND 0xFF0000 = 0xAF0000 then AfIoRead (addr AND 0xFFFF) s
      else if addr \<ge> 0x100 \<and> addr < 0x1A0 then GavinIoRead (addr - 0x100) s
      else do {
        v \<leftarrow> load_byte (host s) (ram (dev s), unat addr);
        Some (v, s)
      })"

definition IoWrite :: "int_mul \<Rightarrow> cpuaddr \<Rightarrow> u8 \<Rightarrow> c256 \<Rightarrow> (unit \<times> c256) option" where
  "IoWrite mul addr v s =
     (if addr AND 0xFF0000 = 0xAF0000 then AfIoWrite (addr AND 0xFFFF) v s
      else if addr \<ge> 0x100 \<and> addr < 0x1A0 then GavinIoWrite mul (addr - 0x100) v s
      else do {
        h \<leftarrow> store_byte (ram (dev s), unat addr) v (host s);
        Some ((), s\<lparr>host := h\<rparr>)
      })"

definition c256_io :: "int_mul \<Rightarrow> c256_dev io" where
  "c256_io mul =
     \<lparr>is_io_device_address = IsIoDeviceAddress, io_read = IoRead, io_write = IoWrite mul,
      irq_taken = (\<lambda>_ s. Some ((), s))\<rparr>"

section \<open>Construction\<close>

text \<open>The page of bank \<open>i\<close>, number \<open>j\<close> in it, as the loops of the constructor leave it.\<close>

definition c256_page :: "nat \<Rightarrow> nat \<Rightarrow> page" where
  "c256_page i j =
     (let p = \<lparr>ptr = None, flags = 0, io_mask = 0, io_eq = 1, cycles_per_access = 1\<rparr>;
          p = (if i = 0xAF then p\<lparr>io_mask := 0, io_eq := 0\<rparr> else p);
          p = (if i = 0 \<and> j = 0 then p\<lparr>io_mask := 0xFF00, io_eq := 0x100\<rparr> else p)
      in if i \<ge> 0xF0 then p\<lparr>flags := kReadOnly\<rparr> else p)"

definition kPagesPer64k :: nat where
  "kPagesPer64k = 16"

text \<open>\<open>pages[i * kPagesPer64k + j]\<close> for all \<open>i\<close> and \<open>j\<close>.\<close>

definition c256_pages :: "page list" where
  "c256_pages = map (\<lambda>n. c256_page (n div kPagesPer64k) (n mod kPagesPer64k)) [0..<256 * kPagesPer64k]"

text \<open>The blocks \<open>NativeMemory::Create\<close> yields, filled with zeros.\<close>

definition c256_host :: "u32 \<Rightarrow> host_mem" where
  "c256_host ram_size =
     \<lparr>blk_size = (\<lambda>_. 0)(0 := unat ram_size, 1 := 0x400000, 2 := 0x80000, 3 := 0x80000, 4 := 0x10000),
      blk_data = (\<lambda>_ _. 0)\<rparr>"

definition c256_Map :: "nat \<Rightarrow> u32 \<Rightarrow> c256 \<Rightarrow> c256 option" where
  "c256_Map mem addr s = do {
     b \<leftarrow> Map addr (mem, 0) (of_nat (blk_size (host s) mem)) False (sysbus s);
     Some (s\<lparr>sysbus := b\<rparr>)
   }"

text \<open>The constructor up to the memory map.\<close>

definition c256_blank :: "u32 \<Rightarrow> c256 \<Rightarrow> c256" where
  "c256_blank ram_size s =
     (let s = WDC65C816_init s;
          b = sysbus s
      in s\<lparr>host := c256_host ram_size,
           dev := (dev s)\<lparr>ram := 0, vram := 1, sysflash := 2, userflash := 3, io_mem := 4\<rparr>,
           sysbus := b\<lparr>memory := (memory b)\<lparr>page_size := 0x1000, pages := c256_pages\<rparr>,
                       open_bus_is_data := True, open_bus := 0\<rparr>\<rparr>)"

definition C256_init :: "u32 \<Rightarrow> c256 \<Rightarrow> c256 option" where
  "C256_init ram_size s = do {
     s \<leftarrow> Some (c256_blank ram_size s);
     s \<leftarrow> c256_Map (ram (dev s)) 0 s;
     s \<leftarrow> c256_Map (vram (dev s)) 0xB00000 s;
     s \<leftarrow> c256_Map (sysflash (dev s)) 0xF00000 s;
     s \<leftarrow> c256_Map (userflash (dev s)) 0xF80000 s;
     s \<leftarrow> c256_Map (io_mem (dev s)) 0xAF0000 s;
     Some (s\<lparr>sysbus := bus_Init 12 24 (pages (memory (sysbus s))) (sysbus s)\<rparr>)
   }"

section \<open>Power on, reset, emulation\<close>

text \<open>\<open>memcpy\<close> between disjoint parts of one block.\<close>

definition copy_in_block :: "nat \<Rightarrow> nat \<Rightarrow> nat \<Rightarrow> nat \<Rightarrow> host_mem \<Rightarrow> host_mem option" where
  "copy_in_block b dst src n h =
     (if dst + n \<le> blk_size h b \<and> src + n \<le> blk_size h b
      then Some (h\<lparr>blk_data := (blk_data h)(b := (\<lambda>i. if dst \<le> i \<and> i < dst + n
                                                  then blk_data h b (src + (i - dst))
                                                  else blk_data h b i))\<rparr>)
      else None)"

definition C256_PowerOn :: "int_mul \<Rightarrow> c256 \<Rightarrow> (unit \<times> c256) option" where
  "C256_PowerOn mul s = do {
     h \<leftarrow> copy_in_block (ram (dev s)) 0 0x180000 0x10000 (host s);
     PowerOn (c256_io mul) (s\<lparr>host := h\<rparr>)
   }"

definition C256_Reset :: "int_mul \<Rightarrow> c256 \<Rightarrow> (unit \<times> c256) option" where
  "C256_Reset mul s = Reset (c256_io mul) s"

definition C256_Emulate ::
  "int_mul \<Rightarrow> ('e, c256 \<times> c256_dev breaks) callbacks \<Rightarrow> c256 \<Rightarrow> c256_dev breaks \<Rightarrow>
    ('e event_queue \<times> c256 \<times> c256_dev breaks) option" where
  "C256_Emulate mul call s b = Emulate (WDC65C816_exec (c256_io mul)) call None s b"

end
