(* ===== verification/C256_Laws.thy ===== *)
theory C256_Laws
  imports C256
begin

text \<open>
  The laws of the C256: its callbacks meet the contract of the CPU (the interpretation \<open>c256\<close> of
  \<open>io_contract\<close>), so no program can drive the machine into undefined behaviour; and the coprocessor
  computes what its registers say.
\<close>

section \<open>The invariant of the devices\<close>

text \<open>
  The I/O matches of the page table and the cycles of its pages, and the sizes the callbacks rely on: 256 registers, RAM behind
  page 0 and 64 KiB behind bank 0xAF.
\<close>

definition c256_match :: "nat \<Rightarrow> page \<Rightarrow> bool" where
  "c256_match i p \<longleftrightarrow>
     (io_mask p, io_eq p) =
       (if i div 16 = 0xAF then (0, 0) else if i = 0 then (0xFF00, 0x100) else (0, 1)) \<and> cycles_per_access p = 1"

lemma c256_match_update [simp]:
  "c256_match i (p\<lparr>ptr := x\<rparr>) = c256_match i p"
  "c256_match i (p\<lparr>ptr := x, flags := y\<rparr>) = c256_match i p"
  by (simp_all add: c256_match_def)

definition C256_K :: "(nat \<Rightarrow> nat) \<Rightarrow> memory_map \<Rightarrow> bool \<Rightarrow> c256_dev \<Rightarrow> bool" where
  "C256_K sizes m native d \<longleftrightarrow>
     \<not> native \<and> length (gavin_low_regs d) = 256 \<and> 0x200 \<le> sizes (ram d) \<and> 0x10000 \<le> sizes (io_mem d) \<and>
     page_shift m = 12 \<and> length (pages m) = 4096 \<and> (\<forall>i < 4096. c256_match i (pages m ! i))"

section \<open>The contract\<close>

lemma and_push_mask: "(a :: u32) AND push_bit k (mask n) = push_bit k (drop_bit k a AND mask n)"
  by (rule bit_word_eqI) (auto simp: bit_simps)

lemma bank_mask: "(0xFF0000 :: u32) = push_bit 16 (mask 8)" "(0xFF00 :: u32) = push_bit 8 (mask 8)"
  by (simp_all add: mask_eq_exp_minus_1)

lemma and_mask_small: "unat (b :: u32) < 2 ^ n \<Longrightarrow> b AND mask n = b"
  by (simp add: word_unat_eq_iff unat_and_mask_mod)

lemma bank_AF:
  assumes "unat (a :: u32) div 65536 = 0xAF"
  shows "a AND 0xFF0000 = 0xAF0000"
proof -
  have "drop_bit 16 a = 0xAF"
    using assms by (simp add: word_unat_eq_iff unat_drop_bit_div)
  then show ?thesis
    unfolding bank_mask and_push_mask by (simp add: mask_eq_exp_minus_1)
qed

lemma gavin_page:
  assumes "unat (a :: u32) < 4096" and "0xFF00 AND a = 0x100"
  shows "0x100 \<le> a \<and> a < 0x200"
proof -
  have u: "unat (drop_bit 8 a) = unat a div 256" by (simp add: unat_drop_bit_div)
  then have "drop_bit 8 a AND mask 8 = drop_bit 8 a"
    using assms(1) by (intro and_mask_small) simp
  then have "push_bit 8 (drop_bit 8 a) = 0x100"
    using assms(2) unfolding bank_mask by (simp only: and.commute and_push_mask)
  then have "unat (push_bit 8 (drop_bit 8 a)) = 0x100" by simp
  then have "unat a div 256 * 256 mod 2 ^ 32 = 256"
    using u by (simp add: push_bit_eq_mult unat_word_ariths)
  then have "unat a div 256 = 1" using assms(1) by simp
  then have "256 \<le> unat a \<and> unat a < 512" by linarith
  then show ?thesis by (simp add: word_le_nat_alt word_less_nat_alt)
qed

text \<open>The addresses the pages hand to the callbacks.\<close>

lemma c256_trapped:
  assumes "C256_K sizes (memory (sysbus s)) native d" and "io_traps a s"
  shows "a AND 0xFF0000 = 0xAF0000 \<or> 0x100 \<le> a \<and> a < 0x200"
proof -
  have i: "page_index s a = unat a div 4096"
    using assms(1) by (simp add: page_index_def C256_K_def unat_drop_bit_div)
  obtain p where p: "page_at (page_index s a) s = Some p" "io_mask p AND a = io_eq p"
    using assms(2) by (auto simp: io_traps_def)
  then have lt: "unat a div 4096 < 4096" and "p = pages (memory (sysbus s)) ! (unat a div 4096)"
    using assms(1) i by (auto simp: page_at_def Let_def C256_K_def split: if_splits)
  then have m: "c256_match (unat a div 4096) p"
    using assms(1) by (simp add: C256_K_def)
  have "unat a div 4096 div 16 = unat a div 65536" by (simp add: div_mult2_eq [symmetric])
  then consider "unat a div 65536 = 0xAF"
    | "unat a div 4096 = 0" "io_mask p = 0xFF00" "io_eq p = 0x100"
    | "io_mask p = 0" "io_eq p = 1"
    using m by (auto simp: c256_match_def split: if_splits)
  then show ?thesis
  proof cases
    case 1
    then show ?thesis by (simp add: bank_AF)
  next
    case 2
    with p(2) gavin_page [of a] show ?thesis by (simp add: div_eq_0_iff)
  next
    case 3
    with p(2) show ?thesis by simp
  qed
qed

lemma sys_ok_regs:
  "sys_ok C256_K s \<Longrightarrow> length regs = 256 \<Longrightarrow>
    sys_ok C256_K (s\<lparr>dev := (dev s)\<lparr>gavin_low_regs := regs\<rparr>\<rparr>)"
  by (simp add: sys_ok_def C256_K_def cpu_ok_def mode_ok_def bus_ok_def)

lemma length_put [simp]:
  "length (put_u16 i v regs) = length regs" "length (put_u32 i w regs) = length regs"
  by (simp_all add: put_u16_def put_u32_def)

definition total_mul :: "int_mul \<Rightarrow> bool" where
  "total_mul mul \<longleftrightarrow> (\<forall>a b. mul a b \<noteq> None)"

lemma gavin_unit_length: "gavin_unit mul n regs = Some regs' \<Longrightarrow> length regs' = length regs"
  by (auto simp: gavin_unit_def MathCoproUMul_def MathCoproSMul_def MathCoproUDiv_def
      MathCoproSDiv_def MathCoproAdd_def Let_def bind_eq_Some_conv simp del: of_int_of_nat_eq
      split: if_split_asm)

lemma gavin_unit_total: "total_mul mul \<Longrightarrow> \<exists>regs'. gavin_unit mul n regs = Some regs'"
  by (auto simp: gavin_unit_def MathCoproUMul_def MathCoproSMul_def total_mul_def Let_def
      bind_eq_Some_conv)

lemma GavinIoWrite_keeps:
  assumes "sys_ok C256_K s" and "unat r < 256" and "total_mul mul"
  shows "io_keeps C256_K s (GavinIoWrite mul r v s)"
proof -
  let ?regs = "(gavin_low_regs (dev s))[unat r := v]"
  have l: "length ?regs = 256" using assms(1) by (simp add: sys_ok_def C256_K_def)
  obtain regs' where "gavin_unit mul (drop_bit 3 r) ?regs = Some regs'"
    using gavin_unit_total [OF assms(3)] by blast
  moreover from this have "length regs' = 256" using gavin_unit_length l by metis
  ultimately show ?thesis
    using assms l by (simp add: GavinIoWrite_def io_keeps_def sys_ok_regs page_count_def)
qed

lemma store_keeps:
  assumes "sys_ok C256_K s" and "n < blk_size (host s) b"
  shows "\<exists>h. store_byte (b, n) v (host s) = Some h \<and> io_keeps C256_K s (Some ((), s\<lparr>host := h\<rparr>))"
  using assms by (auto simp: store_byte_def valid_ptr_def io_keeps_def sys_ok_host)

lemma gavin_offset:
  assumes "(0x100 :: u32) \<le> a" and "a < 0x1A0"
  shows "unat (a - 0x100) < 256"
proof -
  have "unat (a - 0x100) = unat a - 256" using assms(1) by (simp add: unat_sub word_le_nat_alt)
  moreover have "unat a < 416" using assms(2) by (simp add: word_less_nat_alt)
  ultimately show ?thesis by simp
qed

lemma unat_and_0xFFFF: "unat ((a :: u32) AND 0xFFFF) < 0x10000"
  using unat_and_mask_mod [of a 16] by (simp add: mask_eq_exp_minus_1)

lemma c256_io_ok:
  assumes "total_mul mul"
  shows "io_ok C256_K (c256_io mul)"
  unfolding io_ok_def
proof (intro allI impI conjI)
  fix s :: c256 and a v t
  assume s: "sys_ok C256_K s"
  have K: "length (gavin_low_regs (dev s)) = 256" "0x200 \<le> blk_size (host s) (ram (dev s))"
      "0x10000 \<le> blk_size (host s) (io_mem (dev s))"
    using s by (simp_all add: sys_ok_def C256_K_def)
  have here: "io_keeps C256_K s (Some (x, s))" for x :: 'x
    using s by (simp add: io_keeps_def)
  show "io_keeps C256_K s (irq_taken (c256_io mul) t s)"
    using here by (simp add: c256_io_def)
  assume "io_traps a s"
  with s have a: "a AND 0xFF0000 = 0xAF0000 \<or> 0x100 \<le> a \<and> a < 0x200"
    by (intro c256_trapped [where d = "dev s" and native = "mode_native_6502 s" and sizes = "blk_size (host s)"]) (simp_all add: sys_ok_def)
  then have ram: "unat a < blk_size (host s) (ram (dev s))" if "a AND 0xFF0000 \<noteq> 0xAF0000"
    using that K(2) by (simp add: word_less_nat_alt)
  have io: "unat (a AND 0xFFFF) < blk_size (host s) (io_mem (dev s))"
    using unat_and_0xFFFF [of a] K(3) by simp
  show "io_keeps C256_K s (io_read (c256_io mul) a v s)"
    using here ram gavin_offset [of a] K(1)
    by (auto simp: c256_io_def IoRead_def AfIoRead_def GavinIoRead_def load_byte_def valid_ptr_def)
  show "io_keeps C256_K s (io_write (c256_io mul) a v s)"
    using store_keeps [OF s io, of v] store_keeps [OF s ram, of v]
      GavinIoWrite_keeps [OF s gavin_offset [of a] assms, of v]
    by (auto simp: c256_io_def IoWrite_def AfIoWrite_def)
qed

interpretation c256: io_contract "c256_io wrap_mul" C256_K
  by unfold_locales (rule c256_io_ok, simp add: total_mul_def wrap_mul_def)

section \<open>The constructor\<close>

text \<open>What the calls of \<open>Map\<close> in the constructor keep of the page table.\<close>

definition c256_table :: "(nat \<Rightarrow> nat) \<Rightarrow> memory_map \<Rightarrow> bool" where
  "c256_table sizes m \<longleftrightarrow>
     page_size m = 0x1000 \<and> length (pages m) = 4096 \<and>
     (\<forall>i < 4096. c256_match i (pages m ! i) \<and> page_ok sizes 0x1000 (pages m ! i))"

lemma c256_pages_table:
  "c256_table sizes (m\<lparr>page_size := 0x1000, pages := c256_pages\<rparr>)"
proof -
  have "c256_match i (c256_page (i div 16) (i mod 16)) \<and> page_ok sizes 0x1000 (c256_page (i div 16) (i mod 16))" for i
    by (auto simp: c256_match_def c256_page_def page_ok_def Let_def)
  then show ?thesis
    by (simp add: c256_table_def c256_pages_def kPagesPer64k_def)
qed

lemma c256_Map_table:
  assumes t: "c256_table (blk_size (host s)) (memory (sysbus s))"
    and size: "blk_size (host s) mem < 2 ^ 32"
    and fits: "unat addr div 0x1000 + blk_size (host s) mem div 0x1000 \<le> 4096"
  shows "\<exists>ps. c256_Map mem addr s =
      Some (s\<lparr>sysbus := (sysbus s)\<lparr>memory := (memory (sysbus s))\<lparr>pages := ps\<rparr>\<rparr>\<rparr>) \<and>
    c256_table (blk_size (host s)) ((memory (sysbus s))\<lparr>pages := ps\<rparr>)"
proof -
  let ?ps = "pages (memory (sysbus s))" and ?f = "unat addr div 0x1000"
    and ?n = "blk_size (host s) mem div 0x1000"
  have len: "unat (of_nat (blk_size (host s) mem) :: u32) = blk_size (host s) mem"
    using size by (simp add: unat_of_nat take_bit_eq_mod)
  have run: "c256_Map mem addr s =
      map_option (\<lambda>ps. s\<lparr>sysbus := (sysbus s)\<lparr>memory := (memory (sysbus s))\<lparr>pages := ps\<rparr>\<rparr>\<rparr>)
        (Map_loop ?f (mem, 0) 0x1000 False 0 ?n ?ps)"
    using t len by (simp add: c256_Map_def Map_def c256_table_def unat_div map_option_case Let_def
        split: option.split)
  define ps where "ps = map (\<lambda>j. let q = ?ps ! j in
      if ?f + 0 \<le> j \<and> j < ?f + 0 + ?n
      then q\<lparr>ptr := Some (ptr_add (mem, 0) ((j - ?f) * 0x1000)), flags := (if False then flags q OR kReadOnly else flags q)\<rparr>
      else q) [0..<length ?ps]"
  have loop: "Map_loop ?f (mem, 0) 0x1000 False 0 ?n ?ps = Some ps"
    unfolding ps_def using fits t by (intro Map_loop_spec) (simp add: c256_table_def)
  have "c256_match i (ps ! i) \<and> page_ok (blk_size (host s)) 0x1000 (ps ! i)" if i: "i < 4096" for i
  proof -
    have old: "c256_match i (?ps ! i)" "page_ok (blk_size (host s)) 0x1000 (?ps ! i)"
      and l: "length ?ps = 4096"
      using t i by (auto simp: c256_table_def)
    have "(i - ?f) * 0x1000 + 0x1000 \<le> blk_size (host s) mem" if "?f \<le> i" "i < ?f + ?n"
    proof -
      have "(i - ?f) + 1 \<le> ?n" using that by simp
      then have "((i - ?f) + 1) * 0x1000 \<le> ?n * 0x1000" by (rule mult_le_mono1)
      also have "\<dots> \<le> blk_size (host s) mem" by (rule div_times_less_eq_dividend)
      finally show ?thesis by simp
    qed
    moreover have "ps ! i = (if ?f \<le> i \<and> i < ?f + ?n
        then (?ps ! i)\<lparr>ptr := Some (ptr_add (mem, 0) ((i - ?f) * 0x1000)), flags := flags (?ps ! i)\<rparr>
        else ?ps ! i)"
      using l i by (simp add: ps_def Let_def)
    ultimately show ?thesis
      using old by (cases "?f \<le> i \<and> i < ?f + ?n") (simp_all add: page_ok_def ptr_add_def)
  qed
  then have "c256_table (blk_size (host s)) ((memory (sysbus s))\<lparr>pages := ps\<rparr>)"
    using t by (simp add: c256_table_def ps_def)
  with run loop show ?thesis by auto
qed

text \<open>The machine \<open>s\<close> is \<open>s0\<close> with another page table.\<close>

definition remapped :: "c256 \<Rightarrow> c256 \<Rightarrow> bool" where
  "remapped s0 s \<longleftrightarrow>
     (\<exists>ps. s = s0\<lparr>sysbus := (sysbus s0)\<lparr>memory := (memory (sysbus s0))\<lparr>pages := ps\<rparr>\<rparr>\<rparr>) \<and>
     c256_table (blk_size (host s0)) (memory (sysbus s))"

lemma c256_Map_remapped:
  assumes "remapped s0 s" and "blk_size (host s0) mem < 2 ^ 32"
    and "unat addr div 0x1000 + blk_size (host s0) mem div 0x1000 \<le> 4096"
  shows "\<exists>s'. c256_Map mem addr s = Some s' \<and> remapped s0 s'"
proof -
  obtain ps where s: "s = s0\<lparr>sysbus := (sysbus s0)\<lparr>memory := (memory (sysbus s0))\<lparr>pages := ps\<rparr>\<rparr>\<rparr>"
    and t: "c256_table (blk_size (host s0)) (memory (sysbus s))"
    using assms(1) unfolding remapped_def by blast
  have h: "host s = host s0" by (simp add: s)
  obtain qs where "c256_Map mem addr s =
      Some (s\<lparr>sysbus := (sysbus s)\<lparr>memory := (memory (sysbus s))\<lparr>pages := qs\<rparr>\<rparr>\<rparr>)"
    and qs: "c256_table (blk_size (host s0)) ((memory (sysbus s))\<lparr>pages := qs\<rparr>)"
    using c256_Map_table [of s mem addr] t assms(2,3) unfolding h by blast
  moreover have "s\<lparr>sysbus := (sysbus s)\<lparr>memory := (memory (sysbus s))\<lparr>pages := qs\<rparr>\<rparr>\<rparr> =
      s0\<lparr>sysbus := (sysbus s0)\<lparr>memory := (memory (sysbus s0))\<lparr>pages := qs\<rparr>\<rparr>\<rparr>"
    by (simp add: s)
  moreover have "remapped s0 (s0\<lparr>sysbus := (sysbus s0)\<lparr>memory := (memory (sysbus s0))\<lparr>pages := qs\<rparr>\<rparr>\<rparr>)"
    unfolding remapped_def using qs by (intro conjI exI [of _ qs]) (simp_all add: s)
  ultimately show ?thesis by simp
qed

lemma C256_init_runs:
  assumes "unat ram_size \<le> 0x1000000"
  shows "\<exists>ps s'. C256_init ram_size s = Some s' \<and>
    s' = (WDC65C816_init s)\<lparr>host := c256_host ram_size,
          dev := (dev s)\<lparr>ram := 0, vram := 1, sysflash := 2, userflash := 3, io_mem := 4\<rparr>,
          sysbus := bus_Init 12 24 ps ((sysbus s)\<lparr>open_bus_is_data := True, open_bus := 0\<rparr>)\<rparr> \<and>
    c256_table (blk_size (c256_host ram_size)) (memory (sysbus s'))"
proof -
  let ?b = "sysbus s"
  define s0 where "s0 = c256_blank ram_size s"
  note s0_eq = s0_def [unfolded c256_blank_def Let_def]
  have sizes: "blk_size (host s0) 0 = unat ram_size" "blk_size (host s0) 1 = 0x400000"
      "blk_size (host s0) 2 = 0x80000" "blk_size (host s0) 3 = 0x80000" "blk_size (host s0) 4 = 0x10000"
    by (simp_all add: s0_eq c256_host_def)
  have 0: "remapped s0 s0"
    unfolding remapped_def using c256_pages_table
    by (auto simp: s0_eq intro!: exI [of _ c256_pages])
  have "unat ram_size div 0x1000 \<le> 4096" using assms by linarith
  then obtain s1 where 1: "c256_Map 0 0 s0 = Some s1" "remapped s0 s1"
    using c256_Map_remapped [OF 0, of 0 0] sizes assms by auto
  obtain s2 where 2: "c256_Map 1 0xB00000 s1 = Some s2" "remapped s0 s2"
    using c256_Map_remapped [OF 1(2), of 1 "0xB00000"] sizes by auto
  obtain s3 where 3: "c256_Map 2 0xF00000 s2 = Some s3" "remapped s0 s3"
    using c256_Map_remapped [OF 2(2), of 2 "0xF00000"] sizes by auto
  obtain s4 where 4: "c256_Map 3 0xF80000 s3 = Some s4" "remapped s0 s4"
    using c256_Map_remapped [OF 3(2), of 3 "0xF80000"] sizes by auto
  obtain s5 where 5: "c256_Map 4 0xAF0000 s4 = Some s5" "remapped s0 s5"
    using c256_Map_remapped [OF 4(2), of 4 "0xAF0000"] sizes by auto
  have d: "ram (dev s') = 0" "vram (dev s') = 1" "sysflash (dev s') = 2" "userflash (dev s') = 3"
      "io_mem (dev s') = 4" if "remapped s0 s'" for s'
    using that by (auto simp: remapped_def s0_eq)
  have init: "C256_init ram_size s =
      Some (s5\<lparr>sysbus := bus_Init 12 24 (pages (memory (sysbus s5))) (sysbus s5)\<rparr>)"
    using 1 2 3 4 5 d [OF 0] d [OF 1(2)] d [OF 2(2)] d [OF 3(2)] d [OF 4(2)]
    by (simp add: C256_init_def s0_def [symmetric])
  from 5(2) obtain ps where ps: "s5 = s0\<lparr>sysbus := (sysbus s0)\<lparr>memory := (memory (sysbus s0))\<lparr>pages := ps\<rparr>\<rparr>\<rparr>"
    and table: "c256_table (blk_size (c256_host ram_size)) (memory (sysbus s5))"
    by (auto simp: remapped_def s0_eq)
  have "s5\<lparr>sysbus := bus_Init 12 24 (pages (memory (sysbus s5))) (sysbus s5)\<rparr> =
      (WDC65C816_init s)\<lparr>host := c256_host ram_size,
          dev := (dev s)\<lparr>ram := 0, vram := 1, sysflash := 2, userflash := 3, io_mem := 4\<rparr>,
          sysbus := bus_Init 12 24 ps ((sysbus s)\<lparr>open_bus_is_data := True, open_bus := 0\<rparr>)\<rparr>"
    by (simp add: ps s0_eq bus_Init_def)
  moreover have "c256_table (blk_size (c256_host ram_size)) (memory (bus_Init 12 24 ps b))" for b
    using table by (simp add: ps s0_eq c256_table_def bus_Init_def)
  ultimately show ?thesis
    using init by auto
qed

text \<open>The machine that the CPU is powered on in satisfies the invariant.\<close>

lemma C256_PowerOn_state:
  assumes ram: "0x190000 \<le> unat ram_size" "unat ram_size \<le> 0x1000000"
    and init: "C256_init ram_size s = Some s1"
    and regs: "length (gavin_low_regs (dev s)) = 256"
    and h: "blk_size h = blk_size (host s1)"
  obtains h2 where "C256_PowerOn mul (s1\<lparr>host := h\<rparr>) = PowerOn (c256_io mul) (s1\<lparr>host := h2, code_segment_base := 0, data_segment_base := 0\<rparr>)"
    and "sys_ok C256_K (s1\<lparr>host := h2, code_segment_base := 0, data_segment_base := 0\<rparr>)"
proof -
  obtain ps where s1: "s1 = (WDC65C816_init s)\<lparr>host := c256_host ram_size,
          dev := (dev s)\<lparr>ram := 0, vram := 1, sysflash := 2, userflash := 3, io_mem := 4\<rparr>,
          sysbus := bus_Init 12 24 ps ((sysbus s)\<lparr>open_bus_is_data := True, open_bus := 0\<rparr>)\<rparr>"
    and table: "c256_table (blk_size (c256_host ram_size)) (memory (sysbus s1))"
    using C256_init_runs [OF ram(2), of s] init by auto
  obtain h2 where h2: "copy_in_block 0 0 0x180000 0x10000 h = Some h2" "blk_size h2 = blk_size (c256_host ram_size)"
    using h ram by (simp add: copy_in_block_def s1 c256_host_def)
  let ?s = "s1\<lparr>host := h2, code_segment_base := 0, data_segment_base := 0\<rparr>"
  have "bus_ok ?s"
    using table h2(2)
    by (simp add: bus_ok_def s1 bus_Init_def c256_table_def Let_def list_all_length)
  moreover have "mode_ok ?s" "ip_mask ?s = 0xFFFF" "trace_addrs ?s = []" "\<not> mode_native_6502 ?s"
    by (simp_all add: s1 WDC65C816_init_def) (simp_all add: mode_ok_def OnUpdateMode_def Let_def)
  moreover have "C256_K (blk_size (host ?s)) (memory (sysbus ?s)) False (dev ?s)"
    using table h2(2) regs ram
    by (simp add: C256_K_def c256_table_def s1 c256_host_def bus_Init_def)
  ultimately have "sys_ok C256_K ?s"
    by (simp add: sys_ok_def cpu_ok_def)
  moreover have "C256_PowerOn mul (s1\<lparr>host := h\<rparr>) = PowerOn (c256_io mul) ?s"
    using h2(1) by (simp add: C256_PowerOn_def PowerOn_def Reset_def Let_def s1)
  ultimately show ?thesis using that by blast
qed

lemma C256_PowerOn_ok:
  assumes "0x190000 \<le> unat ram_size" "unat ram_size \<le> 0x1000000" and "C256_init ram_size s = Some s1"
    and "length (gavin_low_regs (dev s)) = 256" and "blk_size h = blk_size (host s1)" and mul: "total_mul mul"
  shows "\<exists>s2. C256_PowerOn mul (s1\<lparr>host := h\<rparr>) = Some ((), s2) \<and> sys_ok C256_K s2"
proof -
  obtain h2 where p: "C256_PowerOn mul (s1\<lparr>host := h\<rparr>) = PowerOn (c256_io mul) (s1\<lparr>host := h2, code_segment_base := 0, data_segment_base := 0\<rparr>)"
    and ok: "sys_ok C256_K (s1\<lparr>host := h2, code_segment_base := 0, data_segment_base := 0\<rparr>)"
    by (rule C256_PowerOn_state [OF assms(1-5)])
  from io_contract.PowerOn_runs [OF io_contract.intro [OF c256_io_ok [OF mul]] ok] show ?thesis
    by (auto simp: p runs_iff)
qed

section \<open>No program drives the C256 into undefined behaviour\<close>

text \<open>
  The C256 with \<open>ram_size\<close> bytes of RAM, powered on with any contents of its memories, and whatever
  follows: steps of the processor, resets and interrupt requests.
\<close>

inductive c256_run :: "int_mul \<Rightarrow> u32 \<Rightarrow> c256 \<Rightarrow> bool" for mul ram_size where
  power_on: "C256_init ram_size s = Some s1 \<Longrightarrow> length (gavin_low_regs (dev s)) = 256 \<Longrightarrow>
    blk_size h = blk_size (host s1) \<Longrightarrow> C256_PowerOn mul (s1\<lparr>host := h\<rparr>) = Some ((), s2) \<Longrightarrow>
    c256_run mul ram_size s2"
| step: "c256_run mul ram_size s \<Longrightarrow>
    cpu_step (WDC65C816_exec (c256_io mul)) Some Some s = Some s' \<Longrightarrow> c256_run mul ram_size s'"
| reset: "c256_run mul ram_size s \<Longrightarrow> C256_Reset mul s = Some ((), s') \<Longrightarrow> c256_run mul ram_size s'"
| request: "c256_run mul ram_size s \<Longrightarrow> c256_run mul ram_size (SetInterruptSource n s)"

inductive_cases c256_runE: "c256_run mul ram_size s"

lemma wrap_mul_total: "total_mul wrap_mul"
  by (simp add: total_mul_def wrap_mul_def)

lemma c256_step_ok:
  assumes "total_mul mul" and "sys_ok C256_K s"
  shows "\<exists>s'. cpu_step (WDC65C816_exec (c256_io mul)) Some Some s = Some s' \<and> sys_ok C256_K s'"
proof -
  note io = io_contract.intro [OF c256_io_ok [OF assms(1)]]
  let ?s = "s\<lparr>ip := ip s AND ip_mask s\<rparr>"
  have s: "sys_ok C256_K ?s" using assms(2) by simp
  have "op_at (current_instruction_set t) v \<noteq> (None :: c256_dev op option)" if "sys_ok C256_K t" for t v
    using that by (intro op_at_65816 sys_ok_65816 [OF that]) (simp add: sys_ok_def C256_K_def)
  then have "runs (sys_ok C256_K) (EmulateInstruction (c256_io mul) ?s)"
    by (intro io_contract.EmulateInstruction_runs [OF io s]) auto
  then obtain e where e: "EmulateInstruction (c256_io mul) ?s = Some ((), e)" "sys_ok C256_K e"
    by (auto elim: runsE)
  have "runs (sys_ok C256_K) (Interrupt (c256_io mul) (interrupt_param ?s) ?s)"
    by (rule io_contract.Interrupt_runs [OF io s])
  then obtain i where i: "Interrupt (c256_io mul) (interrupt_param ?s) ?s = Some ((), i)" "sys_ok C256_K i"
    by (auto elim: runsE)
  show ?thesis
  proof (cases "interrupt_pending ?s")
    case True
    with i show ?thesis by (simp add: cpu_step_def WDC65C816_exec_def)
  next
    case False
    with e show ?thesis by (simp add: cpu_step_def WDC65C816_exec_def)
  qed
qed

lemma c256_run_ok:
  assumes mul: "total_mul mul" and ram: "0x190000 \<le> unat ram_size" "unat ram_size \<le> 0x1000000"
  shows "c256_run mul ram_size s \<Longrightarrow> sys_ok C256_K s"
proof (induction rule: c256_run.induct)
  case (power_on s s1 h s2)
  with C256_PowerOn_ok [OF ram power_on(1-3) mul] show ?case by simp
next
  case (step s s')
  with c256_step_ok [OF mul step.IH] show ?case by simp
next
  case (reset s s')
  with io_contract.Reset_runs [OF io_contract.intro [OF c256_io_ok [OF mul]] reset.IH]
  show ?case by (simp add: C256_Reset_def runs_iff)
next
  case (request s n)
  then show ?case by (simp add: SetInterruptSource_def)
qed

text \<open>With any contents of RAM and flash the constructor and \<open>PowerOn\<close> succeed.\<close>

lemma c256_starts:
  assumes "0x190000 \<le> unat ram_size" and "unat ram_size \<le> 0x1000000"
    and "length (gavin_low_regs (dev s)) = 256" and "total_mul mul"
  shows "\<exists>s1. C256_init ram_size s = Some s1 \<and> (\<forall>h. blk_size h = blk_size (host s1) \<longrightarrow>
    (\<exists>s2. C256_PowerOn mul (s1\<lparr>host := h\<rparr>) = Some ((), s2) \<and> c256_run mul ram_size s2))"
proof -
  obtain s1 where s1: "C256_init ram_size s = Some s1"
    using C256_init_runs [OF assms(2), of s] by blast
  have "\<exists>s2. C256_PowerOn mul (s1\<lparr>host := h\<rparr>) = Some ((), s2) \<and> c256_run mul ram_size s2"
    if h: "blk_size h = blk_size (host s1)" for h
    using C256_PowerOn_ok [OF assms(1,2) s1 assms(3) h assms(4)]
      c256_run.power_on [OF s1 assms(3) h] by blast
  with s1 show ?thesis by blast
qed


text \<open>The machine of main.cc: 4 MiB of RAM.\<close>

definition c256_raw :: c256 where
  "c256_raw =
     \<lparr>host = host (linear_machine []), sysbus = sysbus (linear_machine []),
      dev = \<lparr>ram = 0, vram = 0, io_mem = 0, sysflash = 0, userflash = 0, gavin_low_regs = replicate 256 0\<rparr>,
      cycle = 0, cycle_stop = 0, event_cycle = 0, code_segment_base = 0, ip_mask = 0, ip = 0,
      cpu_mode = 0, zero_flag = 0, negative_flag = 0, interrupts = 0, pending_interrupts = 0,
      carry = 0, other_flags = 0, regs_a = 0, regs_x = 0, regs_y = 0, regs_d = 0, regs_sp = 0,
      data_segment_base = 0, mode_native_6502 = False, mode_emulation = False,
      mode_long_a = False, mode_long_xy = False, supports_decimal = False,
      fast_block_moves = False, current_instruction_set = 0, num_emulated_instructions = 0,
      internal_cycle_timing = 0, trace_addrs = [], trace_write = 0\<rparr>"


end
