(* ===== verification/C256_Copro.thy ===== *)
theory C256_Copro
  imports C256_Laws
begin

text \<open>
  The coprocessor computes what its registers say: after every write to one of its registers the
  results are those of the operands.
\<close>

section \<open>Registers of several bytes\<close>

definition reg_u32 :: "u8 list \<Rightarrow> nat \<Rightarrow> u32" where
  "reg_u32 regs i =
     ucast (regs ! i) + push_bit 8 (ucast (regs ! (i + 1))) + push_bit 16 (ucast (regs ! (i + 2))) +
     push_bit 24 (ucast (regs ! (i + 3)))"

lemma unat_reg_u16: "unat (reg_u16 regs i) = unat (regs ! i) + unat (regs ! (i + 1)) * 256"
  using u8_less [of "regs ! i"] u8_less [of "regs ! (i + 1)"]
  by (simp add: reg_u16_def unat_word_ariths unat_ucast_u8)

lemma unat_reg_u32:
  "unat (reg_u32 regs i) = unat (regs ! i) + unat (regs ! (i + 1)) * 256 +
    unat (regs ! (i + 2)) * 65536 + unat (regs ! (i + 3)) * 16777216"
  using u8_less [of "regs ! i"] u8_less [of "regs ! (i + 1)"] u8_less [of "regs ! (i + 2)"]
    u8_less [of "regs ! (i + 3)"]
  by (simp add: reg_u32_def unat_word_ariths push_bit_eq_mult unat_ucast_u8)

lemma unat_byte: "unat (ucast (drop_bit k (v :: 'a::len word)) :: u8) = unat v div 2 ^ k mod 256"
  by (simp only: unsigned_ucast_eq unat_drop_bit_div take_bit_eq_mod) simp

lemma bytes_of_nat:
  "a mod 256 + a div 256 mod 256 * 256 + a div 65536 mod 256 * 65536 + a div 16777216 * 16777216 = (a :: nat)"
proof -
  define q where "q = a div 256"
  define p where "p = q div 256"
  define h where "h = p div 256"
  have e: "a div 65536 = p" "a div 16777216 = h"
    by (simp_all add: p_def q_def h_def div_mult2_eq [symmetric])
  define r0 r1 r2 where r: "r0 = a mod 256" "r1 = q mod 256" "r2 = p mod 256"
  have "a = q * 256 + r0" "q = p * 256 + r1" "p = h * 256 + r2"
    by (simp_all only: q_def p_def h_def r div_mult_mod_eq)
  then show ?thesis
    unfolding e q_def [symmetric] r [symmetric] by simp
qed

lemma unat_byte0: "unat (ucast (v :: 'a::len word) :: u8) = unat v mod 256"
  using unat_byte [of 0 v] by simp

lemma reg_u16_put_u16 [simp]:
  assumes "i + 1 < length regs"
  shows "reg_u16 (put_u16 i v regs) i = v"
proof -
  have "unat v < 2 ^ 16" using unsigned_less [of v, where 'a = nat] by simp
  then have "unat (reg_u16 (put_u16 i v regs) i) = unat v"
    using assms unat_byte [of 8 v] by (simp add: unat_reg_u16 put_u16_def unat_byte0)
  then show ?thesis by (simp add: word_unat_eq_iff)
qed

lemma reg_u32_put_u32 [simp]:
  assumes "i + 3 < length regs"
  shows "reg_u32 (put_u32 i v regs) i = v"
proof -
  have lt: "unat v < 2 ^ 32" using unsigned_less [of v, where 'a = nat] by simp
  have "unat (reg_u32 (put_u32 i v regs) i) =
      unat v mod 256 + unat v div 256 mod 256 * 256 + unat v div 65536 mod 256 * 65536 +
      unat v div 16777216 mod 256 * 16777216"
    using assms unat_byte [of 8 v] unat_byte [of 16 v] unat_byte [of 24 v]
    by (simp add: unat_reg_u32 put_u32_def unat_byte0)
  also have "\<dots> = unat v" using lt using bytes_of_nat [of "unat v"] by simp
  finally show ?thesis by (simp add: word_unat_eq_iff)
qed

text \<open>Registers elsewhere are not touched.\<close>

lemma put_frame:
  "j < i \<or> i + 1 < j \<Longrightarrow> put_u16 i v regs ! j = regs ! j"
  "j < i \<or> i + 3 < j \<Longrightarrow> put_u32 i w regs ! j = regs ! j"
  by (auto simp: put_u16_def put_u32_def nth_list_update)

lemma put_reg_frame [simp]:
  "j + 1 < i \<or> i + 3 < j \<Longrightarrow> reg_u16 (put_u32 i w regs) j = reg_u16 regs j"
  "j + 1 < i \<or> i + 1 < j \<Longrightarrow> reg_u16 (put_u16 i v regs) j = reg_u16 regs j"
  "j + 3 < i \<or> i + 3 < j \<Longrightarrow> reg_u32 (put_u32 i w regs) j = reg_u32 regs j"
  "j + 3 < i \<or> i + 1 < j \<Longrightarrow> reg_u32 (put_u16 i v regs) j = reg_u32 regs j"
  by (auto simp: reg_u16_def reg_u32_def put_frame)

section \<open>The units\<close>

text \<open>The results of unit \<open>n\<close> are those of its operands.\<close>

definition unit_ok :: "u32 \<Rightarrow> u8 list \<Rightarrow> bool" where
  "unit_ok n regs \<longleftrightarrow>
     (n = 0 \<longrightarrow> unat (reg_u32 regs 4) = unat (reg_u16 regs 0) * unat (reg_u16 regs 2)) \<and>
     (n = 1 \<longrightarrow> unat (reg_u32 regs 12) = unat (reg_u16 regs 8) * unat (reg_u16 regs 10)) \<and>
     (n = 2 \<longrightarrow> reg_u16 regs 20 = (if reg_u16 regs 18 = 0 then 0 else reg_u16 regs 16 div reg_u16 regs 18) \<and>
       reg_u16 regs 22 = (if reg_u16 regs 18 = 0 then 0 else reg_u16 regs 16 mod reg_u16 regs 18)) \<and>
     (n = 3 \<longrightarrow> reg_u16 regs 28 = (if reg_u16 regs 26 = 0 then 0 else reg_u16 regs 24 div reg_u16 regs 26) \<and>
       reg_u16 regs 30 = (if reg_u16 regs 26 = 0 then 0 else reg_u16 regs 24 mod reg_u16 regs 26)) \<and>
     (n = 4 \<or> n = 5 \<longrightarrow> reg_u32 regs 40 = reg_u32 regs 32 + reg_u32 regs 36)"

lemma wrap_mul_exact: "wrap_mul a b = Some w \<Longrightarrow> unat w = unat a * unat b"
proof -
  assume "wrap_mul a b = Some w"
  moreover have "unat a < 65536" "unat b < 65536"
    using unsigned_less [of a, where 'a = nat] unsigned_less [of b, where 'a = nat] by simp_all
  then have "unat a * unat b < 65536 * 65536" by (intro mult_strict_mono) simp_all
  moreover have "unat (ucast c :: u32) = unat c" if "unat c < 65536" for c :: u16
    using that by (simp add: unsigned_ucast_eq take_bit_nat_eq_self)
  ultimately show ?thesis
    using \<open>unat a < 65536\<close> \<open>unat b < 65536\<close>
    by (auto simp: wrap_mul_def unat_word_ariths)
qed

lemma MathCoproAdd_sum:
  assumes "length regs = 256"
  shows "reg_u32 (MathCoproAdd 32 regs) 40 = reg_u32 (MathCoproAdd 32 regs) 32 + reg_u32 (MathCoproAdd 32 regs) 36"
proof -
  have "reg_u32 (MathCoproAdd 32 regs) 40 = reg_u32 regs 32 + reg_u32 regs 36"
    using assms by (simp add: MathCoproAdd_def Let_def) (simp add: reg_u32_def add_ac)
  moreover have "reg_u32 (MathCoproAdd 32 regs) 32 = reg_u32 regs 32"
      "reg_u32 (MathCoproAdd 32 regs) 36 = reg_u32 regs 36"
    by (simp_all add: MathCoproAdd_def Let_def)
  ultimately show ?thesis by simp
qed

lemma gavin_unit_ok:
  assumes "length regs = 256" and "gavin_unit wrap_mul n regs = Some regs'"
  shows "unit_ok n regs'"
proof -
  consider "n = 0" | "n = 1" | "n = 2" | "n = 3" | "n = 4 \<or> n = 5" | "n \<notin> {0, 1, 2, 3, 4, 5}" by auto
  then show ?thesis
  proof cases
    case 1
    with assms show ?thesis
      by (auto simp: gavin_unit_def MathCoproUMul_def unit_ok_def Let_def bind_eq_Some_conv
          simp flip: numeral_2_eq_2 dest: wrap_mul_exact)
  next
    case 2
    with assms show ?thesis
      by (auto simp: gavin_unit_def MathCoproSMul_def unit_ok_def Let_def bind_eq_Some_conv
          simp flip: numeral_2_eq_2 dest: wrap_mul_exact)
  next
    case 3
    with assms show ?thesis
      by (auto simp: gavin_unit_def MathCoproUDiv_def unit_ok_def Let_def)
  next
    case 4
    with assms show ?thesis
      by (auto simp: gavin_unit_def MathCoproSDiv_def unit_ok_def Let_def word_div_def word_mod_def)
  next
    case 5
    then have "regs' = MathCoproAdd 32 regs" using assms(2) by (auto simp: gavin_unit_def)
    with 5 assms(1) show ?thesis by (auto simp: unit_ok_def MathCoproAdd_sum)
  next
    case 6
    then show ?thesis by (simp add: unit_ok_def)
  qed
qed

text \<open>A unit writes its own results only: the operands of every unit, and the other units, stay.\<close>

definition operand_reg :: "nat \<Rightarrow> bool" where
  "operand_reg i \<longleftrightarrow> (i < 0x20 \<and> i mod 8 < 4) \<or> (0x20 \<le> i \<and> i < 0x28)"

lemma gavin_unit_frame:
  assumes "length regs = 256" and "gavin_unit mul n regs = Some regs'"
    and "operand_reg i \<or> i div 8 \<noteq> (if n = 4 then 5 else unat n)"
  shows "regs' ! i = regs ! i"
proof -
  consider "n = 0" | "n = 1" | "n = 2" | "n = 3" | "n = 4" | "n = 5" | "n \<notin> {0, 1, 2, 3, 4, 5}" by auto
  then show ?thesis
  proof cases
    case 1
    then have "operand_reg i \<or> i div 8 \<noteq> 0" using assms(3) by simp
    then have "i < 4 \<or> 7 < i" unfolding operand_reg_def by presburger
    with 1 assms(2) show ?thesis
      by (auto simp: gavin_unit_def MathCoproUMul_def Let_def bind_eq_Some_conv put_frame)
  next
    case 2
    then have "operand_reg i \<or> i div 8 \<noteq> 1" using assms(3) by simp
    then have "i < 12 \<or> 15 < i" unfolding operand_reg_def by presburger
    with 2 assms(2) show ?thesis
      by (auto simp: gavin_unit_def MathCoproSMul_def Let_def bind_eq_Some_conv put_frame)
  next
    case 3
    then have "operand_reg i \<or> i div 8 \<noteq> 2" using assms(3) by simp
    then have "i < 20 \<or> 23 < i" unfolding operand_reg_def by presburger
    with 3 assms(2) show ?thesis
      by (auto simp: gavin_unit_def MathCoproUDiv_def Let_def put_frame)
  next
    case 4
    then have "operand_reg i \<or> i div 8 \<noteq> 3" using assms(3) by simp
    then have "i < 28 \<or> 31 < i" unfolding operand_reg_def by presburger
    with 4 assms(2) show ?thesis
      by (auto simp: gavin_unit_def MathCoproSDiv_def Let_def put_frame simp del: of_int_of_nat_eq)
  next
    case 5
    then have "operand_reg i \<or> i div 8 \<noteq> 5" using assms(3) by simp
    then have "i < 40 \<or> 43 < i" unfolding operand_reg_def by presburger
    with 5 assms(2) show ?thesis
      by (auto simp: gavin_unit_def MathCoproAdd_def Let_def put_frame)
  next
    case 6
    then have "operand_reg i \<or> i div 8 \<noteq> 5" using assms(3) by simp
    then have "i < 40 \<or> 43 < i" unfolding operand_reg_def by presburger
    with 6 assms(2) show ?thesis
      by (auto simp: gavin_unit_def MathCoproAdd_def Let_def put_frame)
  next
    case 7
    with assms(2) show ?thesis by (simp add: gavin_unit_def)
  qed
qed



section \<open>Where the code falls short\<close>

text \<open>By the standard, a product from \<open>2 ^ 31\<close> on is undefined.\<close>

lemma UMul_overflow: "strict_mul 0xFFFF 0xFFFF = None"
  by (simp add: strict_mul_def)

text \<open>
  The signed multiplier multiplies unsigned numbers.  For every contents of the registers it
  leaves what the unsigned one leaves, although its comment promises a signed product: -1 times 2
  gives 131070.
\<close>

theorem SMul_is_unsigned:
  "MathCoproSMul mul off regs = MathCoproUMul mul off regs \<and>
    map_option (\<lambda>regs. reg_u32 regs 4) (MathCoproSMul wrap_mul 0 [0xFF, 0xFF, 2, 0, 0, 0, 0, 0]) = Some 131070"
  by (simp add: MathCoproSMul_def MathCoproUMul_def wrap_mul_def reg_u16_def)

end
