(* ===== verification/Hex_Loader.thy ===== *)
theory Hex_Loader
  imports Bus
begin

text \<open>
  The loader of Intel hex files (main.cc, \<open>fromhex\<close> and \<open>WriteHexToMem\<close>).  The pointer \<open>p\<close> into the
  file is the rest of the file; reading \<open>p[1]\<close> past its end is undefined, the outcome \<open>None\<close>.  The
  buffer \<open>data[300]\<close> of the stack holds \<open>None\<close> where it is not initialised; reading such a byte is
  undefined too.
\<close>

section \<open>The code\<close>

definition fromhex :: "u8 \<Rightarrow> u8 option" where
  "fromhex ch =
     (if ch \<ge> 0x30 \<and> ch \<le> 0x39 then Some (ch - 0x30)
      else if ch \<ge> 0x61 \<and> ch \<le> 0x66 then Some (ch - 0x61 + 10)
      else if ch \<ge> 0x41 \<and> ch \<le> 0x46 then Some (ch - 0x41 + 10)
      else None)"

text \<open>\<open>isspace\<close> of the C library in its default locale.\<close>

definition isspace :: "u8 \<Rightarrow> bool" where
  "isspace ch \<longleftrightarrow> ch = 0x20 \<or> (9 \<le> ch \<and> ch \<le> 13)"

text \<open>
  The loop over the digits of a record.  The inner \<open>None\<close> is \<open>return false\<close>; else the buffer, the
  sum of the bytes, and the rest of the file.
\<close>

fun read_record ::
  "nat \<Rightarrow> u8 option list \<Rightarrow> u8 \<Rightarrow> u8 list \<Rightarrow> (u8 option list \<times> u8 \<times> u8 list) option option" where
  "read_record i data tot [] = Some (Some (data, tot, []))"
| "read_record i data tot (c # p) =
     (case data ! 0 of
        None \<Rightarrow> None
      | Some n \<Rightarrow>
          if i < unat n + 5 then
            (case fromhex c of
               None \<Rightarrow> Some None
             | Some hi \<Rightarrow>
                 (case p of
                    [] \<Rightarrow> None
                  | c' # p' \<Rightarrow>
                      (case fromhex c' of
                         None \<Rightarrow> Some None
                       | Some lo \<Rightarrow>
                           (let b = lo OR push_bit 4 hi
                            in read_record (Suc i) (data[i := Some b]) (tot + b) p'))))
          else Some (Some (data, tot, c # p)))"

text \<open>\<open>memcpy\<close> into the memory.\<close>

definition put_bytes :: "host_ptr \<Rightarrow> u8 list \<Rightarrow> host_mem \<Rightarrow> host_mem" where
  "put_bytes p bs h = h\<lparr>blk_data := (blk_data h)(fst p := (\<lambda>i.
     if snd p \<le> i \<and> i < snd p + length bs then bs ! (i - snd p) else blk_data h (fst p) i))\<rparr>"

definition copy_bytes :: "host_ptr \<Rightarrow> u8 list \<Rightarrow> host_mem \<Rightarrow> host_mem option" where
  "copy_bytes p bs h =
     (if snd p + length bs \<le> blk_size h (fst p) then Some (put_bytes p bs h) else None)"

text \<open>
  What a record does: \<open>Inl\<close> is the value \<open>WriteHexToMem\<close> returns, \<open>Inr\<close> the new \<open>addrbase\<close> to go on
  with.  The sum of the bounds check has 32 bits, the pointer has 64.
\<close>

definition hex_record ::
  "host_ptr \<Rightarrow> nat \<Rightarrow> u32 \<Rightarrow> u8 option list \<Rightarrow> host_mem \<Rightarrow> (bool \<times> host_mem + u32 \<times> host_mem) option" where
  "hex_record mem memsize addrbase data h = do {
     n \<leftarrow> data ! 0;
     hi \<leftarrow> data ! 1;
     lo \<leftarrow> data ! 2;
     type \<leftarrow> data ! 3;
     (let addr = push_bit 8 (ucast hi) OR ucast lo :: u16
      in if type = 0 then
           if unat (addrbase + ucast addr + ucast n) > memsize then Some (Inl (False, h))
           else do {
             bs \<leftarrow> those (take (unat n) (drop 4 data));
             h \<leftarrow> copy_bytes (ptr_add mem (unat addrbase + unat addr)) bs h;
             Some (Inr (addrbase, h))
           }
         else if type = 1 then Some (Inl (True, h))
         else if type = 4 then
           if n \<noteq> 2 then Some (Inl (False, h))
           else do {
             b4 \<leftarrow> data ! 4;
             b5 \<leftarrow> data ! 5;
             Some (Inr (push_bit 16 (ucast (push_bit 8 (ucast b4) OR ucast b5 :: u16)), h))
           }
         else Some (Inl (False, h)))
   }"

lemma read_record_shorter:
  "read_record i data tot p = Some (Some (data', tot', p')) \<Longrightarrow> length p' \<le> length p"
proof (induction i data tot p rule: read_record.induct)
  case (2 i data tot c p)
  from "2.prems" show ?case
    by (fastforce simp: Let_def split: option.splits if_splits list.splits dest!: "2.IH")
qed simp

function hex_loop ::
  "host_ptr \<Rightarrow> nat \<Rightarrow> u32 \<Rightarrow> u8 option list \<Rightarrow> u8 list \<Rightarrow> host_mem \<Rightarrow> (bool \<times> host_mem) option" where
  "hex_loop mem memsize addrbase data [] h = Some (True, h)"
| "hex_loop mem memsize addrbase data (c # p) h =
     (if c = 0x3A then
        (case read_record 0 data 0 p of
           None \<Rightarrow> None
         | Some None \<Rightarrow> Some (False, h)
         | Some (Some (data', tot, p')) \<Rightarrow>
             if tot \<noteq> 0 then Some (False, h)
             else
               (case hex_record mem memsize addrbase data' h of
                  None \<Rightarrow> None
                | Some (Inl r) \<Rightarrow> Some r
                | Some (Inr (addrbase', h')) \<Rightarrow> hex_loop mem memsize addrbase' data' p' h'))
      else if isspace c then hex_loop mem memsize addrbase data p h
      else Some (False, h))"
  by pat_completeness auto
termination
  by (relation "measure (\<lambda>(_, _, _, _, p, _). length p)")
    (auto dest!: read_record_shorter)

definition WriteHexToMem :: "host_ptr \<Rightarrow> nat \<Rightarrow> u8 list \<Rightarrow> host_mem \<Rightarrow> (bool \<times> host_mem) option" where
  "WriteHexToMem mem memsize hex h = hex_loop mem memsize 0 (Some 0 # replicate 299 None) hex h"

end
