(* ===== verification/Hex_Laws.thy ===== *)
theory Hex_Laws
  imports Hex_Loader
begin

text \<open>
  The loader of hex files reads back what a printer of hex files writes, and what its bounds check
  does not see.
\<close>

section \<open>A printer of hex files\<close>

definition hex_char :: "u8 \<Rightarrow> u8" where
  "hex_char d = (if d < 10 then d + 0x30 else d + 0x37)"

definition hex_byte :: "u8 \<Rightarrow> u8 list" where
  "hex_byte b = [hex_char (drop_bit 4 b), hex_char (b AND 0xF)]"

definition hex_bytes :: "u8 list \<Rightarrow> u8 list" where
  "hex_bytes bs = concat (map hex_byte bs)"

text \<open>A record: its length, address, type and bytes, and the byte that makes the sum 0.\<close>

definition record_bytes :: "u16 \<Rightarrow> u8 \<Rightarrow> u8 list \<Rightarrow> u8 list" where
  "record_bytes addr type bs =
     (let body = of_nat (length bs) # hi8 addr # lo8 addr # type # bs
      in body @ [- sum_list body])"

definition hex_line :: "u16 \<Rightarrow> u8 \<Rightarrow> u8 list \<Rightarrow> u8 list" where
  "hex_line addr type bs = 0x3A # hex_bytes (record_bytes addr type bs) @ [13, 10]"

datatype chunk = Data u16 "u8 list" | Base u16

fun hex_chunk :: "chunk \<Rightarrow> u8 list" where
  "hex_chunk (Data addr bs) = hex_line addr 0 bs"
| "hex_chunk (Base b) = hex_line 0 4 [hi8 b, lo8 b]"

definition hex_image :: "chunk list \<Rightarrow> u8 list" where
  "hex_image cs = concat (map hex_chunk cs) @ hex_line 0 1 []"

text \<open>What an image means: each chunk is put at its address behind the last base.\<close>

fun store_chunks :: "host_ptr \<Rightarrow> u32 \<Rightarrow> chunk list \<Rightarrow> host_mem \<Rightarrow> host_mem" where
  "store_chunks mem base [] h = h"
| "store_chunks mem base (Data addr bs # cs) h =
     store_chunks mem base cs (put_bytes (ptr_add mem (unat base + unat addr)) bs h)"
| "store_chunks mem base (Base b # cs) h = store_chunks mem (push_bit 16 (ucast b)) cs h"

fun image_ok :: "nat \<Rightarrow> u32 \<Rightarrow> chunk list \<Rightarrow> bool" where
  "image_ok memsize base [] = True"
| "image_ok memsize base (Data addr bs # cs) =
     (length bs < 256 \<and> unat base + unat addr + length bs \<le> memsize \<and> image_ok memsize base cs)"
| "image_ok memsize base (Base b # cs) = image_ok memsize (push_bit 16 (ucast b)) cs"

section \<open>Digits\<close>

lemma fromhex_hex_char:
  assumes "d < 16"
  shows "fromhex (hex_char d) = Some d"
proof -
  have "\<forall>n \<in> set [0..<16]. fromhex (hex_char (of_nat n)) = Some (of_nat n)" by code_simp
  moreover have "unat d \<in> set [0..<16]" using assms by (simp add: word_less_nat_alt)
  ultimately have "fromhex (hex_char (of_nat (unat d))) = Some (of_nat (unat d))" by blast
  then show ?thesis by simp
qed

lemma high_nibble_less: "drop_bit 4 (b :: u8) < 16"
  using u8_less [of b] unfolding word_less_nat_alt unat_drop_bit_div by simp

lemma low_nibble_less: "(b :: u8) AND 0xF < 16"
  using word_and_le1 [of b "0xF"] by (simp add: word_le_nat_alt word_less_nat_alt)

lemma nibbles: "(b AND 0xF) OR push_bit 4 (drop_bit 4 (b :: u8)) = b"
proof -
  have m: "(0xF :: u8) = mask 4" by (simp add: mask_eq_exp_minus_1)
  show ?thesis unfolding m
  proof (rule bit_word_eqI)
    fix n
    show "bit ((b AND mask 4) OR push_bit 4 (drop_bit 4 b)) n = bit b n" if "n < LENGTH(8)"
      using that by (cases "n < 4") (auto simp: bit_simps)
  qed
qed

lemma hex_bytes_simps [simp]:
  "hex_bytes [] = []"
  "hex_bytes (b # bs) = hex_char (drop_bit 4 b) # hex_char (b AND 0xF) # hex_bytes bs"
  by (simp_all add: hex_bytes_def hex_byte_def)

section \<open>Reading a record back\<close>

text \<open>The buffer with bytes written from position \<open>i\<close> on.\<close>

definition fill :: "nat \<Rightarrow> u8 list \<Rightarrow> u8 option list \<Rightarrow> u8 option list" where
  "fill i bs data = take i data @ map Some bs @ drop (i + length bs) data"

lemma fill_step:
  "i + length (b # bs) \<le> length data \<Longrightarrow> fill (Suc i) bs (data[i := Some b]) = fill i (b # bs) data"
  by (rule nth_equalityI) (auto simp: fill_def nth_append nth_Cons' nth_list_update min_def)

lemma fill_empty [simp]: "fill i [] data = data"
  by (simp add: fill_def)

lemma read_record_bytes:
  assumes "0 < i" "data ! 0 = Some n" "i + length bs = unat n + 5" "i + length bs \<le> length data"
  shows "read_record i data tot (hex_bytes bs @ p) = Some (Some (fill i bs data, tot + sum_list bs, p))"
  using assms
proof (induction bs arbitrary: i data tot)
  case Nil
  then show ?case by (cases p) auto
next
  case (Cons b bs)
  then have "read_record (Suc i) (data[i := Some b]) (tot + b) (hex_bytes bs @ p) =
      Some (Some (fill (Suc i) bs (data[i := Some b]), tot + b + sum_list bs, p))"
    by (intro Cons.IH) auto
  with Cons.prems show ?case
    by (simp add: fromhex_hex_char high_nibble_less low_nibble_less nibbles fill_step add.assoc)
qed

lemma read_record_all:
  assumes "data ! 0 = Some n'" "length bs = unat n + 4" "length data = 300"
  shows "read_record 0 data 0 (hex_bytes (n # bs) @ p) =
    Some (Some (fill 0 (n # bs) data, sum_list (n # bs), p))"
proof -
  have "read_record 1 (data[0 := Some n]) n (hex_bytes bs @ p) =
      Some (Some (fill 1 bs (data[0 := Some n]), n + sum_list bs, p))"
    using assms u8_less [of n] by (intro read_record_bytes) auto
  moreover have "fill 1 bs (data[0 := Some n]) = fill 0 (n # bs) data"
    using fill_step [of 0 n bs data] assms u8_less [of n] by simp
  ultimately show ?thesis
    using assms(1)
    by (simp add: fromhex_hex_char high_nibble_less low_nibble_less nibbles)
qed

definition record_data :: "u16 \<Rightarrow> u8 \<Rightarrow> u8 list \<Rightarrow> u8 option list \<Rightarrow> u8 option list" where
  "record_data addr type bs data = fill 0 (record_bytes addr type bs) data"

lemma length_record_data:
  "length data = 300 \<Longrightarrow> length bs < 256 \<Longrightarrow> length (record_data addr type bs data) = 300"
  by (simp add: record_data_def fill_def record_bytes_def Let_def)

lemma record_data_nth:
  assumes "length data = 300" "length bs < 256"
  shows "record_data addr type bs data ! 0 = Some (of_nat (length bs))"
    "record_data addr type bs data ! Suc 0 = Some (hi8 addr)"
    "record_data addr type bs data ! 2 = Some (lo8 addr)"
    "record_data addr type bs data ! 3 = Some type"
    "take (length bs) (drop 4 (record_data addr type bs data)) = map Some bs"
  using assms
  by (simp_all add: record_data_def fill_def record_bytes_def Let_def numeral_eq_Suc)

lemma those_map_Some: "those (map Some xs) = Some xs"
  by (induction xs) simp_all

lemma sum_record_bytes: "sum_list (record_bytes addr type bs) = 0"
  by (simp add: record_bytes_def Let_def)

lemma read_printed_record:
  assumes "data ! 0 = Some n" "length data = 300" "length bs < 256"
  shows "read_record 0 data 0 (hex_bytes (record_bytes addr type bs) @ p) =
    Some (Some (record_data addr type bs data, 0, p))"
proof -
  let ?bs = "hi8 addr # lo8 addr # type # bs @ [- sum_list (of_nat (length bs) # hi8 addr # lo8 addr # type # bs)]"
  have r: "record_bytes addr type bs = of_nat (length bs) # ?bs"
    by (simp add: record_bytes_def Let_def)
  have "length ?bs = unat (of_nat (length bs) :: u8) + 4"
    using assms(3) by (simp add: unat_of_nat)
  from read_record_all [OF assms(1) this assms(2)] show ?thesis
    unfolding record_data_def r [symmetric] sum_record_bytes .
qed

section \<open>Loading an image\<close>

lemma hex_loop_data:
  assumes "data ! 0 = Some n" "length data = 300" "length bs < 256"
    and "unat base + unat addr + length bs \<le> memsize" "memsize < 2 ^ 32" "snd mem + memsize \<le> blk_size h (fst mem)"
  shows "hex_loop mem memsize base data (hex_line addr 0 bs @ p) h =
    hex_loop mem memsize base (record_data addr 0 bs data) p
      (put_bytes (ptr_add mem (unat base + unat addr)) bs h)"
proof -
  have a: "push_bit 8 (ucast (hi8 addr)) OR ucast (lo8 addr) = addr"
    by (rule bit_word_eqI) (auto simp: lo8_def hi8_def bit_simps)
  have u: "unat (base + ucast addr + word_of_nat (length bs)) = unat base + unat addr + length bs"
    using assms(4,5) assms(3)
    by (simp add: unat_word_ariths unat_of_nat unsigned_ucast_eq take_bit_nat_eq_self)
  have n: "unat (of_nat (length bs) :: u8) = length bs"
    using assms(3) by (simp add: unat_of_nat)
  have w: "(ucast (of_nat (length bs) :: u8) :: u32) = of_nat (length bs)"
    using assms(3) by (simp add: word_unat_eq_iff unat_of_nat unsigned_ucast_eq take_bit_nat_eq_self)
  have "hex_record mem memsize base (record_data addr 0 bs data) h =
      Some (Inr (base, put_bytes (ptr_add mem (unat base + unat addr)) bs h))"
    using assms record_data_nth [OF assms(2,3), of addr 0] a u n
    by (simp add: hex_record_def w those_map_Some copy_bytes_def ptr_add_def Let_def)
  with read_printed_record [OF assms(1-3), of addr 0 "[13, 10] @ p"] show ?thesis
    by (simp add: hex_line_def isspace_def)
qed

lemma hex_loop_base:
  assumes "data ! 0 = Some n" "length data = 300"
  shows "hex_loop mem memsize base data (hex_chunk (Base b) @ p) h =
    hex_loop mem memsize (push_bit 16 (ucast b)) (record_data 0 4 [hi8 b, lo8 b] data) p h"
proof -
  let ?d = "record_data 0 4 [hi8 b, lo8 b] data"
  have b: "push_bit 8 (ucast (hi8 b)) OR ucast (lo8 b) = b"
    by (rule bit_word_eqI) (auto simp: lo8_def hi8_def bit_simps)
  have d: "?d ! 4 = Some (hi8 b)" "?d ! 5 = Some (lo8 b)"
    using assms(2) by (simp_all add: record_data_def fill_def record_bytes_def Let_def numeral_eq_Suc)
  have "hex_record mem memsize base ?d h = Some (Inr (push_bit 16 (ucast b), h))"
    using record_data_nth [OF assms(2), of "[hi8 b, lo8 b]" 0 4]
    by (simp add: hex_record_def d b)
  with read_printed_record [OF assms, of "[hi8 b, lo8 b]" 0 4 "[13, 10] @ p"] show ?thesis
    by (simp add: hex_line_def isspace_def)
qed

lemma hex_loop_end:
  assumes "data ! 0 = Some n" "length data = 300"
  shows "hex_loop mem memsize base data (hex_line 0 1 [] @ p) h = Some (True, h)"
proof -
  have "hex_record mem memsize base (record_data 0 1 [] data) h = Some (Inl (True, h))"
    using record_data_nth [OF assms(2), of "[]" 0 1] by (simp add: hex_record_def Let_def)
  with read_printed_record [OF assms, of "[]" 0 1 "[13, 10] @ p"] show ?thesis
    by (simp add: hex_line_def)
qed

lemma hex_loop_image:
  assumes "data ! 0 = Some n" "length data = 300"
    and "image_ok memsize base cs" "memsize < 2 ^ 32" "snd mem + memsize \<le> blk_size h (fst mem)"
  shows "hex_loop mem memsize base data (hex_image cs @ p) h = Some (True, store_chunks mem base cs h)"
  using assms
proof (induction mem base cs h arbitrary: data n rule: store_chunks.induct)
  case (1 mem base h)
  then show ?case by (simp add: hex_image_def hex_loop_end)
next
  case (2 mem base addr bs cs h)
  let ?d = "record_data addr 0 bs data"
  have ok: "length bs < 256" "unat base + unat addr + length bs \<le> memsize" "image_ok memsize base cs"
    using "2.prems"(3) by simp_all
  note 1 = record_data_nth [OF "2.prems"(2) ok(1)] length_record_data [OF "2.prems"(2) ok(1)]
  have "hex_loop mem memsize base ?d (hex_image cs @ p) (put_bytes (ptr_add mem (unat base + unat addr)) bs h) =
      Some (True, store_chunks mem base (Data addr bs # cs) h)"
    using "2.IH" [OF 1(1) 1(6) ok(3) "2.prems"(4)] "2.prems"(5) by (simp add: put_bytes_def)
  then show ?case
    using hex_loop_data [OF "2.prems"(1,2) ok(1,2) "2.prems"(4,5)] by (simp add: hex_image_def)
next
  case (3 mem base b cs h)
  let ?d = "record_data 0 4 [hi8 b, lo8 b] data"
  have l: "length [hi8 b, lo8 b] < 256" by simp
  note 1 = record_data_nth [OF "3.prems"(2) l] length_record_data [OF "3.prems"(2) l]
  have "hex_loop mem memsize (push_bit 16 (ucast b)) ?d (hex_image cs @ p) h =
      Some (True, store_chunks mem base (Base b # cs) h)"
    using "3.IH" [OF 1(1) 1(6) _ "3.prems"(4,5)] "3.prems"(3) by simp
  then show ?case
    using hex_loop_base [OF "3.prems"(1,2)] by (simp add: hex_image_def del: hex_chunk.simps)
qed

text \<open>
  C12: a printed hex file is loaded.  For every image of chunks that fit into the memory given (below
  4 GiB, at most the block allocated), \<open>WriteHexToMem\<close> of the text of its records and the end record,
  whatever follows, returns true, and the memory then holds each chunk at its address: the byte
  values, the checksums, the addresses and the base of extended addresses are read as printed.
\<close>

theorem load_printed_image:
  assumes "image_ok memsize 0 cs" and "memsize < 2 ^ 32" and "snd mem + memsize \<le> blk_size h (fst mem)"
  shows "WriteHexToMem mem memsize (hex_image cs @ p) h = Some (True, store_chunks mem 0 cs h)"
  unfolding WriteHexToMem_def by (rule hex_loop_image [OF _ _ assms]) simp_all

definition host_64k :: host_mem where
  "host_64k = \<lparr>blk_size = (\<lambda>_. 0x10000), blk_data = (\<lambda>_ _. 0)\<rparr>"

theorem load_printed_image_witness:
  "WriteHexToMem (0, 0) 0x10000 (hex_image [Data 0x1000 [1, 2], Base 0, Data 0xFFFF [3]] @ [0x20]) host_64k =
    Some (True, store_chunks (0, 0) 0 [Data 0x1000 [1, 2], Base 0, Data 0xFFFF [3]] host_64k)"
  by (rule load_printed_image) (simp_all add: host_64k_def)

text \<open>
  C29: the bounds check of the loader wraps.  With the base at the last 64 KiB of the 32-bit address
  space, one byte for address 0xFFFFFFFF passes the check, as the sum is 0 modulo \<open>2 ^ 32\<close>, and is then
  written outside any block smaller than 4 GiB: the file is accepted into undefined behaviour.
\<close>

theorem hex_bounds_check_wraps:
  assumes "blk_size h (fst mem) < snd mem + 2 ^ 32"
  shows "WriteHexToMem mem memsize (hex_image [Base 0xFFFF, Data 0xFFFF [v]]) h = None"
proof -
  let ?init = "Some 0 # replicate 299 None" and ?p = "hex_line 0 1 []"
  let ?d = "record_data 0 4 [hi8 0xFFFF, lo8 0xFFFF] ?init"
  let ?d' = "record_data 0xFFFF 0 [v] ?d"
  have l: "length [hi8 0xFFFF, lo8 0xFFFF] < 256" "length ?init = 300" by simp_all
  note d = record_data_nth [OF l(2,1), of 0 4] length_record_data [OF l(2,1), of 0 4]
  have d300: "length ?d = 300" by (rule d(6))
  have l': "length [v] < 256" by simp
  have bytes: "hi8 0xFFFF = 0xFF" "lo8 0xFFFF = 0xFF" by (simp_all add: hi8_def lo8_def)
  have "hex_record mem memsize 0xFFFF0000 ?d' h = None"
    using record_data_nth [OF d(6) l', of "0xFFFF" 0] assms
    by (simp add: hex_record_def bytes those_map_Some [of "[v]", simplified] copy_bytes_def ptr_add_def)
  moreover have "read_record 0 ?d 0 (hex_bytes (record_bytes 0xFFFF 0 [v]) @ [13, 10] @ ?p) =
      Some (Some (?d', 0, [13, 10] @ ?p))"
    by (rule read_printed_record [OF d(1) d(6) l'])
  ultimately have "hex_loop mem memsize 0xFFFF0000 ?d (hex_line 0xFFFF 0 [v] @ ?p) h = None"
    by (simp add: hex_line_def)
  moreover have "hex_image [Base 0xFFFF, Data 0xFFFF [v]] =
      hex_chunk (Base 0xFFFF) @ (hex_line 0xFFFF 0 [v] @ ?p)"
    by (simp add: hex_image_def)
  moreover have "push_bit 16 (ucast (0xFFFF :: u16)) = (0xFFFF0000 :: u32)" by simp
  ultimately show ?thesis
    unfolding WriteHexToMem_def by (simp only: hex_loop_base [OF _ l(2)] nth_Cons_0)
qed

theorem hex_bounds_check_wraps_witness:
  "WriteHexToMem (0, 0) 0x10000 (hex_image [Base 0xFFFF, Data 0xFFFF [7]]) host_64k = None"
  by (rule hex_bounds_check_wraps) (simp add: host_64k_def)

end
