(* ===== verification/Ppu.thy ===== *)
theory Ppu
  imports Bus
begin

text \<open>
  The picture processor of the NES (system/nes/2c02.h, 2c02.cc): its state, its memory and its
  registers as the CPU sees them.  \<open>PPU_2C02\<close> derives from \<open>SystemBus\<close>, so its state extends the state
  of a bus.  The members \<open>current\<close>, \<open>next\<close>, \<open>future\<close>, \<open>mask\<close> and \<open>state\<close> are called \<open>current_tile\<close>,
  \<open>next_tile\<close>, \<open>future_tile\<close>, \<open>ppumask\<close> and \<open>ppu_state\<close>.  An access past the end of one of its arrays is undefined, \<open>None\<close>.
\<close>

section \<open>State\<close>

datatype PPUSTATE =
  FETCH_SCANLINE_START
| FETCH_NT | FETCH_AT | FETCH_BG | FETCH_BG2
| FETCH_BAD_NT | FETCH_BAD_NT2 | FETCH_SPRITE_LOW | FETCH_SPRITE_HIGH
| FETCH_TAIL_NT | FETCH_TAIL_AT | FETCH_TAIL_BG | FETCH_TAIL_BG2
| END_NT1 | END_NT2
| POSTRENDER_SCANLINE | RENDER_DISABLED_SCANLINE

record tile_data =
  nametable :: u8
  attribute :: u8
  tile_low :: u8
  tile_high :: u8

record sprite =
  sprite_low :: u8
  sprite_high :: u8
  attrib :: u8
  sprite_x :: u8

record framebuffer =
  fb_width :: u32
  fb_height :: u32
  fb_stride :: u32
  video_frame :: host_ptr

record ppu = "unit bus_sys" +
  fb :: framebuffer
  last_ppu_cycle :: u64
  nominal_ppu_frame_time :: u32
  ppu_cycle_of_next_nmi :: u64
  ppu_clock_size :: u32
  num_render_scanlines :: u32
  num_postrender_scanlines :: u32
  num_vblank_scanlines :: u32
  total_scanlines :: u32
  current_scanline :: u32
  current_pixel_clock :: u32
  current_tile :: tile_data
  next_tile :: tile_data
  future_tile :: tile_data
  palette_indices :: "u8 list"
  rgb_palette :: "u32 list"
  sprites :: "sprite list"
  num_sprites :: nat
  ppu_state :: PPUSTATE
  latch :: u8
  ppudata_buffer :: u8
  status :: u8
  control :: u8
  ppumask :: u8
  bg_enabled :: bool
  sprite_enabled :: bool
  oamaddr :: u8
  vram_addr :: u16
  reg_t :: u16
  scroll_fine_x :: u16
  frame_id :: u32
  oam :: "u8 list"
  sprite_pattern_addr :: u16
  bg_pattern_addr :: u16
  addr_write :: bool
  increment :: u16
  rendering_enabled :: bool
  tall_sprites :: bool
  ppu_frame_start_time :: u64
  is_ntsc :: bool
  frame_produced :: bool

text \<open>
  The callbacks of the PPU's own bus are never set; its pages have an I/O match no address meets.
\<close>

definition unset_io :: "'s io_devices" where
  "unset_io = \<lparr>is_io_device_address = (\<lambda>_ _. False), io_read = (\<lambda>_ _ _. None),
     io_write = (\<lambda>_ _ _. None), irq_taken = (\<lambda>_ _. None)\<rparr>"

definition rgb :: "u32 \<Rightarrow> u32 \<Rightarrow> u32 \<Rightarrow> u32" where
  "rgb r g b = (r * 65536) OR (g * 256) OR b"

definition global_rgb_palette :: "u32 list" where
  "global_rgb_palette =
     [rgb 102 102 102, rgb 0 42 136, rgb 20 18 168, rgb 59 0 164,
      rgb 92 0 126, rgb 110 0 64, rgb 108 7 0, rgb 87 29 0,
      rgb 52 53 0, rgb 12 73 0, rgb 0 82 0, rgb 0 79 8,
      rgb 0 64 78, rgb 0 0 0, rgb 0 0 0, rgb 0 0 0,
      rgb 174 174 174, rgb 21 95 218, rgb 66 64 254, rgb 118 39 255,
      rgb 161 27 205, rgb 184 30 124, rgb 181 50 32, rgb 153 79 0,
      rgb 108 110 0, rgb 56 135 0, rgb 13 148 0, rgb 0 144 50,
      rgb 0 124 142, rgb 0 0 0, rgb 0 0 0, rgb 0 0 0,
      rgb 254 254 254, rgb 100 176 254, rgb 147 144 254, rgb 199 119 254,
      rgb 243 106 254, rgb 254 110 205, rgb 254 130 112, rgb 235 159 35,
      rgb 189 191 0, rgb 137 217 0, rgb 93 229 48, rgb 69 225 130,
      rgb 72 206 223, rgb 79 79 79, rgb 0 0 0, rgb 0 0 0,
      rgb 254 254 254, rgb 193 224 254, rgb 212 211 254, rgb 233 200 254,
      rgb 251 195 254, rgb 254 197 235, rgb 254 205 198, rgb 247 217 166,
      rgb 229 230 149, rgb 208 240 151, rgb 190 245 171, rgb 180 243 205,
      rgb 181 236 243, rgb 184 184 184, rgb 0 0 0, rgb 0 0 0]"

section \<open>Start\<close>

definition ppu_Reset :: "'m ppu_scheme \<Rightarrow> 'm ppu_scheme" where
  "ppu_Reset s = s\<lparr>ppu_frame_start_time := 0\<rparr>"

definition ppu_PowerOn :: "'m ppu_scheme \<Rightarrow> 'm ppu_scheme" where
  "ppu_PowerOn s = ppu_Reset s"

definition ppu_Initialize :: "bool \<Rightarrow> 'm ppu_scheme \<Rightarrow> 'm ppu_scheme" where
  "ppu_Initialize ntsc s =
     (let s = s\<lparr>is_ntsc := ntsc\<rparr>;
          s = (if ntsc then s\<lparr>num_render_scanlines := 240, num_postrender_scanlines := 1,
                              num_vblank_scanlines := 20, total_scanlines := 262\<rparr>
               else s)
      in s\<lparr>current_scanline := 0, current_pixel_clock := 0, ppu_cycle_of_next_nmi := 0,
           fb := (fb s)\<lparr>fb_width := 256, fb_height := 224, fb_stride := 256 * 4\<rparr>\<rparr>)"

section \<open>Memory\<close>

text \<open>The entries 0x10, 0x14, 0x18 and 0x1C of the palette mirror those 0x10 below.\<close>

definition palette_index :: "u32 \<Rightarrow> u32" where
  "palette_index a = (let b = a AND 0x1F in if b AND 0x13 = 0x10 then b XOR 0x10 else b)"

definition ppu_Read :: "u32 \<Rightarrow> 'm ppu_scheme \<Rightarrow> (u8 \<times> 'm ppu_scheme) option" where
  "ppu_Read addr s =
     (let a = addr AND 0x3FFF in
      if a \<ge> 0x3F00 then
        (let b = unat (palette_index a) in
         if b < length (palette_indices s) then Some (palette_indices s ! b, s) else None)
      else do {
        ((v, _), s) \<leftarrow> ReadByte unset_io a s;
        Some (v, s)
      })"

definition ppu_Write :: "u32 \<Rightarrow> u8 \<Rightarrow> 'm ppu_scheme \<Rightarrow> 'm ppu_scheme option" where
  "ppu_Write addr value s =
     (let a = addr AND 0x3FFF in
      if a \<ge> 0x3F00 then
        (let b = unat (palette_index a); value = value AND 0x3F in
         if b < length (palette_indices s) \<and> b < length (rgb_palette s)
         then Some (s\<lparr>palette_indices := (palette_indices s)[b := value],
                      rgb_palette := (rgb_palette s)[b := global_rgb_palette ! unat value]\<rparr>)
         else None)
      else do {
        (_, s) \<leftarrow> WriteByte unset_io a value s;
        Some s
      })"

definition ReadNameTableByte :: "'m ppu_scheme \<Rightarrow> (u8 \<times> 'm ppu_scheme) option" where
  "ReadNameTableByte s = ppu_Read (0x2000 OR (ucast (vram_addr s) AND 0xFFF)) s"

definition ReadAttribTableByte :: "'m ppu_scheme \<Rightarrow> (u8 \<times> 'm ppu_scheme) option" where
  "ReadAttribTableByte s =
     (let v = ucast (vram_addr s) :: u32;
          index = (drop_bit 4 v AND 0x38) OR (drop_bit 2 v AND 7)
      in do {
        (b, s) \<leftarrow> ppu_Read (0x23C0 OR (v AND 0xC00) OR index) s;
        (let b = (if v AND 0x40 \<noteq> 0 then drop_bit 4 b else b);
             b = (if v AND 2 \<noteq> 0 then drop_bit 2 b else b)
         in Some (b AND 3, s))
      })"

definition ReadBackgroundBit0 :: "u8 \<Rightarrow> 'm ppu_scheme \<Rightarrow> (u8 \<times> 'm ppu_scheme) option" where
  "ReadBackgroundBit0 nt s =
     ppu_Read (ucast (bg_pattern_addr s) + ucast nt * 16 + (drop_bit 12 (ucast (vram_addr s)) AND 7)) s"

definition ReadBackgroundBit1 :: "u8 \<Rightarrow> 'm ppu_scheme \<Rightarrow> (u8 \<times> 'm ppu_scheme) option" where
  "ReadBackgroundBit1 nt s =
     ppu_Read (ucast (bg_pattern_addr s) + ucast nt * 16 + (drop_bit 12 (ucast (vram_addr s)) AND 7) + 8) s"

definition ReadSpriteBit0 :: "u16 \<Rightarrow> u8 \<Rightarrow> 'm ppu_scheme \<Rightarrow> (u8 \<times> 'm ppu_scheme) option" where
  "ReadSpriteBit0 idx y s =
     (if tall_sprites s then
        (let addr = push_bit 12 (idx AND 1) + 16 * (idx AND 0xFE) in
         if y \<ge> 8 then ppu_Read (ucast addr + ucast y + 8) s
         else ppu_Read (ucast addr + ucast y) s)
      else ppu_Read (ucast (sprite_pattern_addr s) + 16 * ucast idx + ucast y) s)"

definition ReadSpriteBit1 :: "u16 \<Rightarrow> u8 \<Rightarrow> 'm ppu_scheme \<Rightarrow> (u8 \<times> 'm ppu_scheme) option" where
  "ReadSpriteBit1 idx y s =
     (if tall_sprites s then
        (let addr = push_bit 12 (idx AND 1) + 16 * (idx AND 0xFE) in
         if y \<ge> 8 then ppu_Read (ucast addr + ucast y + 16) s
         else ppu_Read (ucast addr + ucast y + 8) s)
      else ppu_Read (ucast (sprite_pattern_addr s) + 16 * ucast idx + ucast y + 8) s)"

end
