(* ===== verification/Ppu_Step.thy ===== *)
theory Ppu_Step
  imports Ppu
begin

text \<open>
  The steps of the picture processor (system/nes/2c02.cc): drawing, the scroll address, the
  evaluation of the sprites, the state machine \<open>PpuStep\<close>, and the loop that catches up with the CPU.
  The callback \<open>assert_nmi\<close> is an argument.
\<close>

section \<open>Drawing\<close>

text \<open>
  The loop over the sprites of the line, for pixel \<open>x\<close> with background colour \<open>color\<close>: the colour to
  draw, and the status register with the sprite 0 hit.
\<close>

fun sprite_loop :: "u32 \<Rightarrow> u32 \<Rightarrow> sprite list \<Rightarrow> u8 \<Rightarrow> u32 \<times> u8" where
  "sprite_loop x color [] st = (color, st)"
| "sprite_loop x color (sp # sps) st =
     (let px = x - ucast (sprite_x sp) in
      if px < 8 then
        (let px = (if attrib sp AND 0x40 \<noteq> 0 then 7 - px else px);
             idx = drop_bit (unat (7 - px)) (ucast (sprite_low sp)) AND 1;
             idx = (if px = 7 then idx OR (push_bit 1 (ucast (sprite_high sp)) AND 2)
                    else idx OR (drop_bit (unat (6 - px)) (ucast (sprite_high sp)) AND 2))
         in if idx \<noteq> 0 then
              (let st = (if color \<noteq> 0 \<and> attrib sp AND 0x10 \<noteq> 0 then st OR 0x40 else st)
               in if attrib sp AND 0x20 = 0 \<or> color = 0
                  then (0x10 + 4 * (ucast (attrib sp) AND 3) + idx, st)
                  else (color, st))
            else sprite_loop x color sps st)
      else sprite_loop x color sps st)"

definition shift_tile :: "nat \<Rightarrow> tile_data \<Rightarrow> tile_data" where
  "shift_tile n t = t\<lparr>tile_low := push_bit n (tile_low t), tile_high := push_bit n (tile_high t)\<rparr>"

definition background_color :: "u32 \<Rightarrow> 'm ppu_scheme \<Rightarrow> u32" where
  "background_color x s =
     (let t = current_tile s;
          color = (if bg_enabled s \<and> (x \<ge> 8 \<or> ppumask s AND 2 \<noteq> 0)
                   then (4 * ucast (attribute t) + drop_bit 7 (ucast (tile_low t))) OR
                        (drop_bit 6 (ucast (tile_high t)) AND 2)
                   else 0)
      in if color AND 3 = 0 then 0 else color)"

definition get_color :: "u32 \<Rightarrow> 'm ppu_scheme \<Rightarrow> (u8 \<times> 'm ppu_scheme) option" where
  "get_color x s =
     (let color = background_color x s;
          s = s\<lparr>current_tile := shift_tile 1 (current_tile s)\<rparr>
      in if sprite_enabled s \<and> (x \<ge> 8 \<or> ppumask s AND 4 \<noteq> 0) then
           (if num_sprites s \<le> length (sprites s) then
              (let (color, st) = sprite_loop x color (take (num_sprites s) (sprites s)) (status s)
               in Some (ucast color, s\<lparr>status := st\<rparr>))
            else None)
         else Some (ucast color, s))"

text \<open>\<open>memcpy(p, &rgb_palette[color], 4)\<close>, on a little-endian host.\<close>

definition put_pixel :: "host_ptr \<Rightarrow> u8 \<Rightarrow> 'm ppu_scheme \<Rightarrow> 'm ppu_scheme option" where
  "put_pixel p color s =
     (if unat color < length (rgb_palette s) then
        (let v = rgb_palette s ! unat color in do {
           h \<leftarrow> store_byte p (ucast v) (host s);
           h \<leftarrow> store_byte (ptr_add p 1) (ucast (drop_bit 8 v)) h;
           h \<leftarrow> store_byte (ptr_add p 2) (ucast (drop_bit 16 v)) h;
           h \<leftarrow> store_byte (ptr_add p 3) (ucast (drop_bit 24 v)) h;
           Some (s\<lparr>host := h\<rparr>)
         })
      else None)"

text \<open>The body of the two loops of \<open>DrawPixels\<close>, \<open>k\<close> times.\<close>

fun draw_pixels :: "nat \<Rightarrow> u32 \<Rightarrow> host_ptr \<Rightarrow> 'm ppu_scheme \<Rightarrow> ((u32 \<times> host_ptr) \<times> 'm ppu_scheme) option" where
  "draw_pixels 0 x p s = Some ((x, p), s)"
| "draw_pixels (Suc k) x p s = do {
     (color, s) \<leftarrow> get_color x s;
     s \<leftarrow> put_pixel p color s;
     draw_pixels k (x + 1) (ptr_add p 4) s
   }"

definition DrawPixels :: "'m ppu_scheme \<Rightarrow> 'm ppu_scheme option" where
  "DrawPixels s =
     (if current_pixel_clock s > 256 then Some s
      else
        let x = current_pixel_clock s - 8;
            y = current_scanline s - 1;
            p = ptr_add (ptr_add (video_frame (fb s)) (unat (fb_stride (fb s) * y))) (unat (x * 4));
            n = unat (8 - ucast (scroll_fine_x s) :: u32)
        in do {
          ((x, p), s) \<leftarrow> draw_pixels n x p s;
          s \<leftarrow> Some (s\<lparr>current_tile := next_tile s\<rparr>);
          (_, s) \<leftarrow> draw_pixels (8 - n) x p s;
          Some s
        })"

section \<open>The scroll address\<close>

definition IncrHoriz :: "'m ppu_scheme \<Rightarrow> 'm ppu_scheme" where
  "IncrHoriz s =
     (if vram_addr s AND 0x1F = 0x1F then s\<lparr>vram_addr := vram_addr s XOR 0x41F\<rparr>
      else s\<lparr>vram_addr := vram_addr s + 1\<rparr>)"

definition IncrVert :: "'m ppu_scheme \<Rightarrow> 'm ppu_scheme" where
  "IncrVert s =
     (if vram_addr s AND 0x7000 \<noteq> 0x7000 then
        (let v = vram_addr s + 0x1000
         in s\<lparr>vram_addr := (v AND 0xF3E0) OR (reg_t s AND 0xC1F)\<rparr>)
      else
        (let v = vram_addr s AND 0xFFF;
             y = drop_bit 5 (ucast v) AND 0x1F :: u32;
             (y, v) = (if y = 29 then (0, v XOR 0x800) else if y = 31 then (0, v) else (y + 1, v))
         in s\<lparr>vram_addr := (v AND 0xF000) OR ucast (push_bit 5 y) OR (reg_t s AND 0xC1F)\<rparr>))"

section \<open>The sprites of a line\<close>

definition sprite_end :: "'m ppu_scheme \<Rightarrow> u8 \<Rightarrow> u8" where
  "sprite_end s s_y = (if tall_sprites s then s_y + 8 + 8 else s_y + 8)"

text \<open>The row of the sprite on the line, counted from below if it is flipped.\<close>

definition sprite_row :: "u32 \<Rightarrow> u8 \<Rightarrow> u8 \<Rightarrow> 'm ppu_scheme \<Rightarrow> u8" where
  "sprite_row y s_y a s =
     (if a AND 0x80 \<noteq> 0 then ucast (ucast (sprite_end s s_y) - y - 1) else ucast (y - ucast s_y))"

text \<open>The sprite at \<open>index\<close> in the OAM becomes the next of the line.\<close>

definition load_sprite :: "u32 \<Rightarrow> nat \<Rightarrow> 'm ppu_scheme \<Rightarrow> 'm ppu_scheme option" where
  "load_sprite y index s =
     (if index + 3 < length (oam s) \<and> num_sprites s < length (sprites s) then
        (let s_y = oam s ! index;
             idx = ucast (oam s ! (index + 1));
             a = oam s ! (index + 2);
             row = sprite_row y s_y a s
         in do {
           (lo, s) \<leftarrow> ReadSpriteBit0 idx row s;
           (hi, s) \<leftarrow> ReadSpriteBit1 idx row s;
           Some (s\<lparr>sprites := (sprites s)[num_sprites s :=
                     \<lparr>sprite_low = lo, sprite_high = hi,
                      attrib = (if index = 0 then (a AND 0xE3) OR 0x10 else a AND 0xE3),
                      sprite_x = oam s ! (index + 3)\<rparr>],
                   num_sprites := num_sprites s + 1\<rparr>)
         })
      else None)"

text \<open>The index after a sprite that is not on the line when eight have been found.\<close>

definition diagonal_index :: "nat \<Rightarrow> nat" where
  "diagonal_index index = (let index = index + 4 in (index AND 0xFFC) + ((index + 1) AND 3))"

lemma diagonal_index_eq: "i + 4 < 4096 \<Longrightarrow> diagonal_index i = 4 * (i div 4) + 4 + (i + 1) mod 4"
proof -
  assume i: "i + 4 < 4096"
  have m: "(0xFFC :: nat) = push_bit 2 (mask 10)" "(3 :: nat) = mask 2"
    by (simp_all add: mask_eq_exp_minus_1 push_bit_eq_mult)
  have "(i + 4) AND push_bit 2 (mask 10) = push_bit 2 (take_bit 10 (drop_bit 2 (i + 4)))"
    by (rule bit_eqI) (auto simp: bit_simps dest!: le_Suc_ex)
  also have "\<dots> = 4 * ((i + 4) div 4)"
    using i by (simp add: push_bit_eq_mult drop_bit_eq_div take_bit_nat_eq_self)
  finally have a: "(i + 4) AND push_bit 2 (mask 10) = 4 * ((i + 4) div 4)" .
  have b: "(i + 4 + 1) AND mask 2 = (i + 4 + 1) mod 4"
    by (simp only: take_bit_eq_mask [symmetric] take_bit_eq_mod) simp
  have "(i + 4) div 4 = i div 4 + 1" by simp
  moreover have "(i + 4 + 1) mod 4 = (i + 1) mod 4"
    using mod_add_self2 [of "i + 1" 4] by (simp add: add.commute)
  ultimately have "4 * ((i + 4) div 4) + (i + 4 + 1) mod 4 = 4 * (i div 4) + 4 + (i + 1) mod 4"
    by simp
  then show ?thesis
    unfolding diagonal_index_def Let_def m a b .
qed

lemma diagonal_index_greater: "i < 253 \<Longrightarrow> i < diagonal_index i"
  by (simp add: diagonal_index_eq)

function evaluate_loop :: "u32 \<Rightarrow> nat \<Rightarrow> 'm ppu_scheme \<Rightarrow> 'm ppu_scheme option" where
  "evaluate_loop y index s =
     (if index < 253 then
        if index < length (oam s) then
          (let s_y = oam s ! index in
           if ucast s_y \<le> y \<and> y < ucast (sprite_end s s_y) then
             if num_sprites s < 8 then
               (case load_sprite y index s of None \<Rightarrow> None | Some s \<Rightarrow> evaluate_loop y (index + 4) s)
             else evaluate_loop y (index + 4) s
           else if num_sprites s = 8 then evaluate_loop y (diagonal_index index) s
           else evaluate_loop y (index + 4) s)
        else None
      else Some s)"
  by auto
termination
  by (relation "measure (\<lambda>(_, index, _). 253 - index)") (auto simp: diff_less_mono2 diagonal_index_greater)

declare evaluate_loop.simps [simp del]

definition EvaluateSprites :: "'m ppu_scheme \<Rightarrow> 'm ppu_scheme option" where
  "EvaluateSprites s = evaluate_loop (current_scanline s - 1) 0 (s\<lparr>num_sprites := 0\<rparr>)"

section \<open>The state machine\<close>

text \<open>
  One definition per group of cases of \<open>PpuStep\<close>.  A case that ends in \<open>break\<close> goes on to the
  increment of the pixel clock, \<open>next_clock\<close>; one that returns does not.
\<close>

definition even_clock :: "'m ppu_scheme \<Rightarrow> bool" where
  "even_clock s \<longleftrightarrow> current_pixel_clock s AND 1 = 0"

definition next_clock :: "'m ppu_scheme \<Rightarrow> 'm ppu_scheme" where
  "next_clock s = s\<lparr>current_pixel_clock := current_pixel_clock s + 1\<rparr>"

text \<open>\<open>FETCH_NT\<close> to \<open>FETCH_BG2\<close>.\<close>

definition fetch_step :: "'m ppu_scheme \<Rightarrow> 'm ppu_scheme option" where
  "fetch_step s =
     (if even_clock s then
        (case ppu_state s of
           FETCH_NT \<Rightarrow> do {
             (v, s) \<leftarrow> ReadNameTableByte s;
             Some (s\<lparr>future_tile := (future_tile s)\<lparr>nametable := v\<rparr>, ppu_state := FETCH_AT\<rparr>)
           }
         | FETCH_AT \<Rightarrow> do {
             (v, s) \<leftarrow> ReadAttribTableByte s;
             Some (s\<lparr>future_tile := (future_tile s)\<lparr>attribute := v\<rparr>, ppu_state := FETCH_BG\<rparr>)
           }
         | FETCH_BG \<Rightarrow> do {
             (v, s) \<leftarrow> ReadBackgroundBit0 (nametable (future_tile s)) s;
             Some (s\<lparr>future_tile := (future_tile s)\<lparr>tile_low := v\<rparr>, ppu_state := FETCH_BG2\<rparr>)
           }
         | _ \<Rightarrow> do {
             (v, s) \<leftarrow> ReadBackgroundBit1 (nametable (future_tile s)) s;
             s \<leftarrow> Some (s\<lparr>future_tile := (future_tile s)\<lparr>tile_high := v\<rparr>\<rparr>);
             s \<leftarrow> (if current_scanline s \<noteq> 0 then DrawPixels s else Some s);
             (if current_pixel_clock s = 256 then
                let s = s\<lparr>ppu_state := FETCH_BAD_NT\<rparr>
                in if current_scanline s > 0 then EvaluateSprites (IncrVert s) else Some s
              else
                let s = IncrHoriz s
                in Some (s\<lparr>ppu_state := FETCH_NT, next_tile := future_tile s\<rparr>))
           })
      else Some s)"

text \<open>\<open>FETCH_BAD_NT\<close> to \<open>FETCH_SPRITE_HIGH\<close>.\<close>

definition sprite_fetch_step :: "'m ppu_scheme \<Rightarrow> 'm ppu_scheme option" where
  "sprite_fetch_step s =
     (if even_clock s then
        (case ppu_state s of
           FETCH_BAD_NT \<Rightarrow> do {
             (_, s) \<leftarrow> ReadNameTableByte s;
             Some (s\<lparr>ppu_state := FETCH_BAD_NT2\<rparr>)
           }
         | FETCH_BAD_NT2 \<Rightarrow> do {
             (_, s) \<leftarrow> ReadNameTableByte s;
             Some (s\<lparr>ppu_state := FETCH_SPRITE_LOW\<rparr>)
           }
         | FETCH_SPRITE_LOW \<Rightarrow> Some (s\<lparr>ppu_state := FETCH_SPRITE_HIGH\<rparr>)
         | _ \<Rightarrow> Some (s\<lparr>ppu_state := (if current_pixel_clock s = 320 then FETCH_TAIL_NT else FETCH_BAD_NT)\<rparr>))
      else Some s)"

text \<open>\<open>FETCH_TAIL_NT\<close> to \<open>FETCH_TAIL_BG2\<close>.\<close>

definition tail_step :: "'m ppu_scheme \<Rightarrow> 'm ppu_scheme option" where
  "tail_step s =
     (if even_clock s then
        (case ppu_state s of
           FETCH_TAIL_NT \<Rightarrow> do {
             (v, s) \<leftarrow> ReadNameTableByte s;
             Some (s\<lparr>next_tile := (next_tile s)\<lparr>nametable := v\<rparr>, ppu_state := FETCH_TAIL_AT\<rparr>)
           }
         | FETCH_TAIL_AT \<Rightarrow> do {
             (v, s) \<leftarrow> ReadAttribTableByte s;
             Some (s\<lparr>next_tile := (next_tile s)\<lparr>attribute := v\<rparr>, ppu_state := FETCH_TAIL_BG\<rparr>)
           }
         | FETCH_TAIL_BG \<Rightarrow> do {
             (v, s) \<leftarrow> ReadBackgroundBit0 (nametable (next_tile s)) s;
             Some (s\<lparr>next_tile := (next_tile s)\<lparr>tile_low := v\<rparr>, ppu_state := FETCH_TAIL_BG2\<rparr>)
           }
         | _ \<Rightarrow> do {
             (v, s) \<leftarrow> ReadBackgroundBit1 (nametable (next_tile s)) s;
             s \<leftarrow> Some (IncrHoriz (s\<lparr>next_tile := (next_tile s)\<lparr>tile_high := v\<rparr>\<rparr>));
             (if current_pixel_clock s = 336 then Some (s\<lparr>ppu_state := END_NT1\<rparr>)
              else Some (s\<lparr>ppu_state := FETCH_TAIL_NT, current_tile := next_tile s\<rparr>))
           })
      else Some s)"

text \<open>\<open>END_NT2\<close>, which the last clock of \<open>RENDER_DISABLED_SCANLINE\<close> falls into.\<close>

definition end_scanline :: "'m ppu_scheme \<Rightarrow> 'm ppu_scheme option" where
  "end_scanline s =
     (if even_clock s then
        let s = s\<lparr>ppu_state := FETCH_SCANLINE_START, current_pixel_clock := 0,
                  current_scanline := current_scanline s + 1\<rparr>
        in Some (if current_scanline s > num_render_scanlines s
                 then s\<lparr>frame_produced := True, ppu_state := POSTRENDER_SCANLINE\<rparr> else s)
      else Some (next_clock s))"

definition vblank_event :: "('m ppu_scheme \<Rightarrow> 'm ppu_scheme option) \<Rightarrow> 'm ppu_scheme \<Rightarrow> 'm ppu_scheme option" where
  "vblank_event assert_nmi s =
     (if current_scanline s = num_render_scanlines s + num_postrender_scanlines s then
        if current_pixel_clock s = 1 then
          let s = s\<lparr>status := status s OR 0x80, frame_id := frame_id s + 1\<rparr>;
              t = last_ppu_cycle s + ucast (nominal_ppu_frame_time s) + ucast (2 * ppu_clock_size s)
          in Some (s\<lparr>ppu_cycle_of_next_nmi :=
               (if frame_id s AND 1 = 0 then t + ucast (ppu_clock_size s) else t)\<rparr>)
        else if status s AND control s AND 0x80 \<noteq> 0 \<and> current_pixel_clock s = 4 then assert_nmi s
        else Some s
      else Some s)"

definition postrender_step :: "('m ppu_scheme \<Rightarrow> 'm ppu_scheme option) \<Rightarrow> 'm ppu_scheme \<Rightarrow> 'm ppu_scheme option" where
  "postrender_step assert_nmi s = do {
     s \<leftarrow> vblank_event assert_nmi s;
     s \<leftarrow> Some (next_clock s);
     (if current_pixel_clock s = 341 then
        let s = s\<lparr>current_pixel_clock := 0, current_scanline := current_scanline s + 1\<rparr>
        in Some (if current_scanline s = total_scanlines s
                 then s\<lparr>current_scanline := 0, ppu_state := FETCH_SCANLINE_START\<rparr> else s)
      else Some s)
   }"

text \<open>The reload of the vertical scroll before the switch.\<close>

definition reload_scroll :: "'m ppu_scheme \<Rightarrow> 'm ppu_scheme" where
  "reload_scroll s =
     (if rendering_enabled s \<and> current_scanline s = 0 \<and> current_pixel_clock s \<ge> 280 \<and> current_pixel_clock s \<le> 304
      then s\<lparr>vram_addr := (vram_addr s AND 0xC1F) OR (reg_t s AND 0xF3E0)\<rparr> else s)"

text \<open>\<open>FETCH_SCANLINE_START\<close> up to the skipped clock.\<close>

definition start_scanline :: "'m ppu_scheme \<Rightarrow> 'm ppu_scheme" where
  "start_scanline s =
     s\<lparr>current_tile := shift_tile (unat (scroll_fine_x s)) (current_tile s),
       ppu_state := (if rendering_enabled s then FETCH_NT else RENDER_DISABLED_SCANLINE),
       status := (if current_scanline s = 0 then 0 else status s)\<rparr>"

definition skips_clock :: "'m ppu_scheme \<Rightarrow> bool" where
  "skips_clock s \<longleftrightarrow> current_scanline s = 1 \<and> rendering_enabled s \<and> frame_id s AND 1 \<noteq> 0"

function PpuStep :: "('m ppu_scheme \<Rightarrow> 'm ppu_scheme option) \<Rightarrow> 'm ppu_scheme \<Rightarrow> 'm ppu_scheme option" where
  "PpuStep assert_nmi s0 =
     (let s = reload_scroll s0 in
      if ppu_state s = FETCH_SCANLINE_START then
        if skips_clock (start_scanline s) then PpuStep assert_nmi (next_clock (start_scanline s))
        else Some (next_clock (start_scanline s))
      else if ppu_state s \<in> {FETCH_NT, FETCH_AT, FETCH_BG, FETCH_BG2} then map_option next_clock (fetch_step s)
      else if ppu_state s \<in> {FETCH_BAD_NT, FETCH_BAD_NT2, FETCH_SPRITE_LOW, FETCH_SPRITE_HIGH}
        then map_option next_clock (sprite_fetch_step s)
      else if ppu_state s \<in> {FETCH_TAIL_NT, FETCH_TAIL_AT, FETCH_TAIL_BG, FETCH_TAIL_BG2}
        then map_option next_clock (tail_step s)
      else if ppu_state s = END_NT1 then
        Some (next_clock (if even_clock s then s\<lparr>ppu_state := END_NT2\<rparr> else s))
      else if ppu_state s = RENDER_DISABLED_SCANLINE \<and> current_pixel_clock s \<noteq> 340 then Some (next_clock s)
      else if ppu_state s = POSTRENDER_SCANLINE then postrender_step assert_nmi s
      else end_scanline s)"
  by auto
termination
  by (relation "measure (\<lambda>(_, s). if ppu_state s = FETCH_SCANLINE_START then 1 else 0)")
    (auto simp: skips_clock_def start_scanline_def next_clock_def reload_scroll_def split: if_splits)

declare PpuStep.simps [simp del]

text \<open>The loop of \<open>CatchUpToCpu\<close>, up to the cycle \<open>c\<close> of the CPU.\<close>

partial_function (option) catch_up_loop ::
  "('m ppu_scheme \<Rightarrow> 'm ppu_scheme option) \<Rightarrow> u64 \<Rightarrow> 'm ppu_scheme \<Rightarrow> 'm ppu_scheme option" where
  "catch_up_loop assert_nmi c s =
     (if last_ppu_cycle s < c then do {
        s \<leftarrow> PpuStep assert_nmi (s\<lparr>last_ppu_cycle := last_ppu_cycle s + ucast (ppu_clock_size s)\<rparr>);
        catch_up_loop assert_nmi c s
      }
      else Some s)"

definition CatchUpToCpu ::
  "('m ppu_scheme \<Rightarrow> 'm ppu_scheme option) \<Rightarrow> u64 \<Rightarrow> 'm ppu_scheme \<Rightarrow> 'm ppu_scheme option" where
  "CatchUpToCpu assert_nmi cpu_cycle s = catch_up_loop assert_nmi cpu_cycle s"

end
