(* ===== verification/Ppu_Regs.thy ===== *)
theory Ppu_Regs
  imports Ppu_Step
begin

text \<open>
  The eight registers of the picture processor (\<open>ReadPPU\<close>, \<open>WritePPU\<close> of system/nes/2c02.cc).  Both
  first catch up with the cycle of the CPU, an argument.  \<open>panic\<close> prints a message and goes on.
\<close>

definition read_register :: "u32 \<Rightarrow> 'm ppu_scheme \<Rightarrow> (u8 \<times> 'm ppu_scheme) option" where
  "read_register r s =
     (if r = 2 then
        let s = s\<lparr>latch := (latch s AND 0x1F) OR status s, status := status s AND 0x7F, addr_write := False\<rparr>
        in Some (latch s, s)
      else if r = 4 then
        if unat (oamaddr s) < length (oam s)
        then let s = s\<lparr>latch := oam s ! unat (oamaddr s)\<rparr> in Some (latch s, s)
        else None
      else if r = 7 then do {
        s \<leftarrow> Some (s\<lparr>latch := ppudata_buffer s\<rparr>);
        ((v, _), s) \<leftarrow> ReadByte unset_io (ucast (vram_addr s)) s;
        s \<leftarrow> Some (s\<lparr>ppudata_buffer := v, vram_addr := vram_addr s + increment s\<rparr>);
        (if vram_addr s \<ge> 0x3F00 then do {
           (v, s) \<leftarrow> ppu_Read (ucast (vram_addr s)) s;
           Some (v, s\<lparr>latch := v\<rparr>)
         }
         else Some (latch s, s))
      }
      else Some (latch s, s))"

definition ReadPPU ::
  "('m ppu_scheme \<Rightarrow> 'm ppu_scheme option) \<Rightarrow> u64 \<Rightarrow> u32 \<Rightarrow> 'm ppu_scheme \<Rightarrow> (u8 \<times> 'm ppu_scheme) option" where
  "ReadPPU assert_nmi cpu_cycle offset s = do {
     s \<leftarrow> CatchUpToCpu assert_nmi cpu_cycle s;
     read_register (offset AND 7) s
   }"

definition write_control :: "u8 \<Rightarrow> 'm ppu_scheme \<Rightarrow> 'm ppu_scheme" where
  "write_control value s =
     s\<lparr>control := value, increment := (if value AND 4 \<noteq> 0 then 32 else 1),
       reg_t := (reg_t s AND 0xF3FF) OR push_bit 10 (ucast (value AND 3)),
       tall_sprites := (value AND 0x20 \<noteq> 0),
       sprite_pattern_addr := (if value AND 0x20 = 0 \<and> value AND 8 \<noteq> 0 then 0x1000 else 0),
       bg_pattern_addr := (if value AND 0x10 \<noteq> 0 then 0x1000 else 0)\<rparr>"

definition write_mask :: "u8 \<Rightarrow> 'm ppu_scheme \<Rightarrow> 'm ppu_scheme" where
  "write_mask value s =
     (let s = s\<lparr>ppumask := value\<rparr>;
          s = (if rendering_enabled s then
                 if value AND 0x18 = 0 then s\<lparr>rendering_enabled := False\<rparr> else s
               else if value AND 0x18 \<noteq> 0 then s\<lparr>rendering_enabled := True\<rparr> else s)
      in s\<lparr>bg_enabled := (value AND 8 \<noteq> 0), sprite_enabled := (value AND 0x10 \<noteq> 0)\<rparr>)"

definition write_scroll :: "u8 \<Rightarrow> 'm ppu_scheme \<Rightarrow> 'm ppu_scheme" where
  "write_scroll value s =
     (let s = (if \<not> addr_write s then
                 s\<lparr>reg_t := (reg_t s AND 0xFFE0) OR (ucast (drop_bit 3 value) AND 0x1F),
                   scroll_fine_x := ucast (value AND 7)\<rparr>
               else
                 s\<lparr>reg_t := (reg_t s AND 0x0C1F) OR push_bit 2 (ucast (value AND 0xF8))
                            OR push_bit 12 (ucast (value AND 7))\<rparr>)
      in s\<lparr>addr_write := \<not> addr_write s\<rparr>)"

definition write_address :: "u8 \<Rightarrow> 'm ppu_scheme \<Rightarrow> 'm ppu_scheme" where
  "write_address value s =
     (let s = (if \<not> addr_write s then
                 s\<lparr>reg_t := (reg_t s AND 0xFF) OR push_bit 8 (ucast (value AND 0x3F))\<rparr>
               else
                 let t = (reg_t s AND 0xFF00) OR ucast value in s\<lparr>reg_t := t, vram_addr := t\<rparr>)
      in s\<lparr>addr_write := \<not> addr_write s\<rparr>)"

definition write_register :: "u32 \<Rightarrow> u8 \<Rightarrow> 'm ppu_scheme \<Rightarrow> 'm ppu_scheme option" where
  "write_register r value s0 =
     (let s = s0\<lparr>latch := value\<rparr> in
      if r = 0 then Some (write_control value s)
      else if r = 1 then Some (write_mask value s)
      else if r = 3 then Some (if rendering_enabled s then s else s\<lparr>oamaddr := value\<rparr>)
      else if r = 4 then
        if rendering_enabled s then Some s
        else if unat (oamaddr s) < length (oam s)
        then Some (s\<lparr>oam := (oam s)[unat (oamaddr s) := value], oamaddr := oamaddr s + 1\<rparr>)
        else None
      else if r = 5 then Some (write_scroll value s)
      else if r = 6 then Some (write_address value s)
      else if r = 7 then do {
        s \<leftarrow> ppu_Write (ucast (vram_addr s)) value s;
        Some (s\<lparr>vram_addr := vram_addr s + increment s\<rparr>)
      }
      else Some s)"

definition WritePPU ::
  "('m ppu_scheme \<Rightarrow> 'm ppu_scheme option) \<Rightarrow> u64 \<Rightarrow> u32 \<Rightarrow> u8 \<Rightarrow> 'm ppu_scheme \<Rightarrow> 'm ppu_scheme option" where
  "WritePPU assert_nmi cpu_cycle addr value s = do {
     s \<leftarrow> CatchUpToCpu assert_nmi cpu_cycle s;
     write_register (addr AND 7) value s
   }"

end
