(* ===== verification/Ppu_Laws.thy ===== *)
theory Ppu_Laws
  imports Ppu_Regs Bus_Laws
begin

text \<open>
  The laws of the picture processor: an invariant that every step, read and write keeps, so that none
  has undefined behaviour; the position on the screen after each step; the end of the loop that
  catches up with the CPU.
\<close>

section \<open>The invariant\<close>

text \<open>The bus of the PPU: 16 pages of 1 KiB, each on valid memory, none matched for I/O.\<close>

definition ppu_page_ok :: "(nat \<Rightarrow> nat) \<Rightarrow> page \<Rightarrow> bool" where
  "ppu_page_ok sizes p \<longleftrightarrow> io_mask p = 0 \<and> io_eq p = 1 \<and>
     (case ptr p of None \<Rightarrow> False | Some q \<Rightarrow> snd q + 1024 \<le> sizes (fst q))"

definition ppu_bus_ok :: "(nat \<Rightarrow> nat) \<Rightarrow> system_bus \<Rightarrow> bool" where
  "ppu_bus_ok sizes b \<longleftrightarrow> mem_mask b = mask 14 \<and> page_shift (memory b) = 10 \<and>
     page_mask (memory b) = mask 10 \<and> length (pages (memory b)) = 16 \<and>
     (\<forall>p \<in> set (pages (memory b)). ppu_page_ok sizes p)"

text \<open>The clocks at which the state machine is in each of its states.\<close>

definition clocks_of :: "PPUSTATE \<Rightarrow> nat \<Rightarrow> bool" where
  "clocks_of st c \<longleftrightarrow> (case st of
     FETCH_SCANLINE_START \<Rightarrow> c = 0
   | FETCH_NT \<Rightarrow> 1 \<le> c \<and> c \<le> 256 \<and> c mod 8 \<in> {1, 2}
   | FETCH_AT \<Rightarrow> 1 \<le> c \<and> c \<le> 256 \<and> c mod 8 \<in> {3, 4}
   | FETCH_BG \<Rightarrow> 1 \<le> c \<and> c \<le> 256 \<and> c mod 8 \<in> {5, 6}
   | FETCH_BG2 \<Rightarrow> 1 \<le> c \<and> c \<le> 256 \<and> c mod 8 \<in> {7, 0}
   | FETCH_BAD_NT \<Rightarrow> 257 \<le> c \<and> c \<le> 320 \<and> c mod 8 \<in> {1, 2}
   | FETCH_BAD_NT2 \<Rightarrow> 257 \<le> c \<and> c \<le> 320 \<and> c mod 8 \<in> {3, 4}
   | FETCH_SPRITE_LOW \<Rightarrow> 257 \<le> c \<and> c \<le> 320 \<and> c mod 8 \<in> {5, 6}
   | FETCH_SPRITE_HIGH \<Rightarrow> 257 \<le> c \<and> c \<le> 320 \<and> c mod 8 \<in> {7, 0}
   | FETCH_TAIL_NT \<Rightarrow> 321 \<le> c \<and> c \<le> 336 \<and> c mod 8 \<in> {1, 2}
   | FETCH_TAIL_AT \<Rightarrow> 321 \<le> c \<and> c \<le> 336 \<and> c mod 8 \<in> {3, 4}
   | FETCH_TAIL_BG \<Rightarrow> 321 \<le> c \<and> c \<le> 336 \<and> c mod 8 \<in> {5, 6}
   | FETCH_TAIL_BG2 \<Rightarrow> 321 \<le> c \<and> c \<le> 336 \<and> c mod 8 \<in> {7, 0}
   | END_NT1 \<Rightarrow> c = 337 \<or> c = 338
   | END_NT2 \<Rightarrow> c = 339 \<or> c = 340
   | POSTRENDER_SCANLINE \<Rightarrow> c \<le> 340
   | RENDER_DISABLED_SCANLINE \<Rightarrow> 1 \<le> c \<and> c \<le> 340)"

definition lines_of :: "PPUSTATE \<Rightarrow> nat \<Rightarrow> bool" where
  "lines_of st l \<longleftrightarrow> (if st = POSTRENDER_SCANLINE then 241 \<le> l \<and> l < 262 else l \<le> 240)"

definition frame_ok :: "(nat \<Rightarrow> nat) \<Rightarrow> framebuffer \<Rightarrow> bool" where
  "frame_ok sizes f \<longleftrightarrow> 1024 \<le> unat (fb_stride f) \<and> 240 * unat (fb_stride f) < 2 ^ 32 \<and>
     snd (video_frame f) + 240 * unat (fb_stride f) \<le> sizes (fst (video_frame f))"

text \<open>What does not speak of the place on the screen.\<close>

definition ppu_data_ok :: "'m ppu_scheme \<Rightarrow> bool" where
  "ppu_data_ok s \<longleftrightarrow> ppu_bus_ok (blk_size (host s)) (sysbus s) \<and> frame_ok (blk_size (host s)) (fb s) \<and>
     length (palette_indices s) = 32 \<and> length (rgb_palette s) = 32 \<and> length (oam s) = 256 \<and>
     length (sprites s) = 16 \<and> num_sprites s \<le> 8 \<and>
     attribute (current_tile s) \<le> 3 \<and> attribute (next_tile s) \<le> 3 \<and> attribute (future_tile s) \<le> 3 \<and>
     scroll_fine_x s \<le> 7 \<and>
     num_render_scanlines s = 240 \<and> num_postrender_scanlines s = 1 \<and> total_scanlines s = 262"

type_synonym place = "PPUSTATE \<times> nat \<times> nat"

definition place :: "'m ppu_scheme \<Rightarrow> place" where
  "place s = (ppu_state s, unat (current_pixel_clock s), unat (current_scanline s))"

text \<open>The clock of the PPU, which only the loop that catches up moves on.\<close>

definition clock_of :: "'m ppu_scheme \<Rightarrow> u64 \<times> u32" where
  "clock_of s = (last_ppu_cycle s, ppu_clock_size s)"

definition place_ok :: "place \<Rightarrow> bool" where
  "place_ok p \<longleftrightarrow> (case p of (st, c, l) \<Rightarrow> clocks_of st c \<and> lines_of st l)"

definition ppu_ok :: "'m ppu_scheme \<Rightarrow> bool" where
  "ppu_ok s \<longleftrightarrow> ppu_data_ok s \<and> place_ok (place s)"

section \<open>The places on the screen\<close>

text \<open>
  What a step does to the place, as a machine of its own: \<open>r\<close> tells whether rendering is enabled, \<open>oddf\<close>
  whether the frame has an odd number.
\<close>

definition after_line :: "nat \<Rightarrow> place" where
  "after_line l = (if l + 1 > 240 then POSTRENDER_SCANLINE else FETCH_SCANLINE_START, 0, l + 1)"

fun next_place :: "bool \<Rightarrow> bool \<Rightarrow> place \<Rightarrow> place" where
  "next_place r oddf (FETCH_SCANLINE_START, c, l) =
     (if r then (FETCH_NT, if l = 1 \<and> oddf then c + 2 else c + 1, l) else (RENDER_DISABLED_SCANLINE, c + 1, l))"
| "next_place r oddf (FETCH_NT, c, l) = (if even c then FETCH_AT else FETCH_NT, c + 1, l)"
| "next_place r oddf (FETCH_AT, c, l) = (if even c then FETCH_BG else FETCH_AT, c + 1, l)"
| "next_place r oddf (FETCH_BG, c, l) = (if even c then FETCH_BG2 else FETCH_BG, c + 1, l)"
| "next_place r oddf (FETCH_BG2, c, l) =
     (if \<not> even c then FETCH_BG2 else if c = 256 then FETCH_BAD_NT else FETCH_NT, c + 1, l)"
| "next_place r oddf (FETCH_BAD_NT, c, l) = (if even c then FETCH_BAD_NT2 else FETCH_BAD_NT, c + 1, l)"
| "next_place r oddf (FETCH_BAD_NT2, c, l) = (if even c then FETCH_SPRITE_LOW else FETCH_BAD_NT2, c + 1, l)"
| "next_place r oddf (FETCH_SPRITE_LOW, c, l) = (if even c then FETCH_SPRITE_HIGH else FETCH_SPRITE_LOW, c + 1, l)"
| "next_place r oddf (FETCH_SPRITE_HIGH, c, l) =
     (if \<not> even c then FETCH_SPRITE_HIGH else if c = 320 then FETCH_TAIL_NT else FETCH_BAD_NT, c + 1, l)"
| "next_place r oddf (FETCH_TAIL_NT, c, l) = (if even c then FETCH_TAIL_AT else FETCH_TAIL_NT, c + 1, l)"
| "next_place r oddf (FETCH_TAIL_AT, c, l) = (if even c then FETCH_TAIL_BG else FETCH_TAIL_AT, c + 1, l)"
| "next_place r oddf (FETCH_TAIL_BG, c, l) = (if even c then FETCH_TAIL_BG2 else FETCH_TAIL_BG, c + 1, l)"
| "next_place r oddf (FETCH_TAIL_BG2, c, l) =
     (if \<not> even c then FETCH_TAIL_BG2 else if c = 336 then END_NT1 else FETCH_TAIL_NT, c + 1, l)"
| "next_place r oddf (END_NT1, c, l) = (if even c then END_NT2 else END_NT1, c + 1, l)"
| "next_place r oddf (END_NT2, c, l) = (if even c then after_line l else (END_NT2, c + 1, l))"
| "next_place r oddf (RENDER_DISABLED_SCANLINE, c, l) =
     (if c = 340 then after_line l else (RENDER_DISABLED_SCANLINE, c + 1, l))"
| "next_place r oddf (POSTRENDER_SCANLINE, c, l) =
     (if c = 340 then if l = 261 then (FETCH_SCANLINE_START, 0, 0) else (POSTRENDER_SCANLINE, 0, l + 1)
      else (POSTRENDER_SCANLINE, c + 1, l))"

text \<open>The number of the dot in the frame, and the dot an odd frame skips.\<close>

definition dot :: "place \<Rightarrow> nat" where
  "dot p = (case p of (st, c, l) \<Rightarrow> 341 * l + c)"

definition skips :: "bool \<Rightarrow> bool \<Rightarrow> place \<Rightarrow> bool" where
  "skips r oddf p \<longleftrightarrow> r \<and> oddf \<and> fst p = FETCH_SCANLINE_START \<and> snd (snd p) = 1"

lemma place_bounds: "place_ok (st, c, l) \<Longrightarrow> c \<le> 340 \<and> l < 262"
  by (cases st) (auto simp: place_ok_def clocks_of_def lines_of_def)

lemma even_mod_8: "even (c :: nat) \<longleftrightarrow> c mod 8 \<in> {0, 2, 4, 6}"
  by (simp only: insert_iff empty_iff) presburger

lemma next_place_ok:
  assumes "place_ok p"
  shows "place_ok (next_place r oddf p)"
proof -
  obtain st c l where p: "p = (st, c, l)" by (cases p)
  have ok: "clocks_of st c" "lines_of st l" using assms by (simp_all add: p place_ok_def)
  have "clocks_of st c \<longrightarrow> lines_of st l \<longrightarrow> place_ok (next_place r oddf (st, c, l))"
    by (cases "c = 256"; cases "c = 320"; cases "c = 336"; cases st)
      (auto simp: place_ok_def clocks_of_def lines_of_def after_line_def even_mod_8 mod_Suc)
  with ok show ?thesis unfolding p by blast
qed

lemma next_place_dot:
  assumes "place_ok p"
  shows "dot (next_place r oddf p) = (dot p + (if skips r oddf p then 2 else 1)) mod 89342"
proof -
  obtain st c l where p: "p = (st, c, l)" by (cases p)
  have ok: "clocks_of st c" "lines_of st l" using assms by (simp_all add: p place_ok_def)
  note b = place_bounds [OF assms [unfolded p]]
  have "dot (next_place r oddf p) = dot p + (if skips r oddf p then 2 else 1) \<and>
      dot p + (if skips r oddf p then 2 else 1) < 89342 \<or>
      dot (next_place r oddf p) = 0 \<and> dot p + (if skips r oddf p then 2 else 1) = 89342"
    unfolding p using ok b
    by (cases st) (auto simp: clocks_of_def lines_of_def dot_def skips_def after_line_def)
  then show ?thesis by auto
qed

section \<open>Memory\<close>

lemma set_open_bus_ppu [simp]:
  "ppu_data_ok (set_open_bus b s) = ppu_data_ok s"
  "place (set_open_bus b s) = place s"
  "clock_of (set_open_bus b s) = clock_of s"
  "set_open_bus b (set_open_bus c s) = set_open_bus b s"
  by (simp_all add: set_open_bus_def ppu_data_ok_def ppu_bus_ok_def place_def clock_of_def)

lemma ppu_page:
  assumes "ppu_bus_ok (blk_size (host s)) (sysbus s)"
  obtains p q where "page_at (page_index s (a AND mem_mask (sysbus s))) s = Some p"
    and "io_mask p AND (a AND mem_mask (sysbus s)) \<noteq> io_eq p" and "ptr p = Some q"
    and "\<And>b. valid_ptr (host s) (ptr_add q (page_offset s b))"
proof -
  let ?i = "page_index s (a AND mem_mask (sysbus s))" and ?ps = "pages (memory (sysbus s))"
  have "unat (a AND mask 14) < 2 ^ 14" by (simp only: unat_and_mask_mod) simp
  then have "unat (drop_bit 10 (a AND mask 14)) < 16"
    unfolding unat_drop_bit_div by (simp add: less_mult_imp_div_less)
  moreover have "?i = unat (drop_bit 10 (a AND mask 14))"
    using assms by (simp only: page_index_def ppu_bus_ok_def)
  ultimately have "?i < 16" by simp
  then have i: "?i < length ?ps" "ppu_page_ok (blk_size (host s)) (?ps ! ?i)"
    using assms by (auto simp: ppu_bus_ok_def)
  then obtain q where q: "ptr (?ps ! ?i) = Some q" "snd q + 1024 \<le> blk_size (host s) (fst q)"
    by (auto simp: ppu_page_ok_def split: option.splits)
  have "page_offset s b < 1024" for b
  proof -
    have "unat (b AND mask 10) < 2 ^ 10" by (simp only: unat_and_mask_mod) simp
    then show ?thesis using assms by (simp add: page_offset_def ppu_bus_ok_def)
  qed
  then have "valid_ptr (host s) (ptr_add q (page_offset s b))" for b
    using q(2) by (metis add_strict_left_mono fst_conv less_le_trans ptr_add_def snd_conv valid_ptr_def)
  then show ?thesis
    using that [of "?ps ! ?i" q] i q(1) by (simp add: page_at_def Let_def ppu_page_ok_def)
qed

lemma ppu_ReadByte:
  assumes "ppu_bus_ok (blk_size (host s)) (sysbus s)"
  shows "\<exists>v c. ReadByte unset_io a s = Some ((v, c), set_open_bus v s)"
proof -
  let ?s = "if open_bus_is_data (sysbus s) then s else set_open_bus (ucast (a AND 0xFF)) s"
  have s: "host ?s = host s" "memory (sysbus ?s) = memory (sysbus s)" "mem_mask (sysbus ?s) = mem_mask (sysbus s)"
    "set_open_bus v ?s = set_open_bus v s" for v
    by (simp_all add: set_open_bus_def)
  have "ppu_bus_ok (blk_size (host ?s)) (sysbus ?s)"
    using assms by (simp add: ppu_bus_ok_def s)
  from ppu_page [OF this, of a] obtain p q
    where p: "page_at (page_index ?s (a AND mem_mask (sysbus ?s))) ?s = Some p"
      "io_mask p AND (a AND mem_mask (sysbus ?s)) \<noteq> io_eq p" "ptr p = Some q"
      "\<And>b. valid_ptr (host ?s) (ptr_add q (page_offset ?s b))" by metis
  have "page_at i (set_open_bus v ?s) = page_at i ?s" for i v
    by (simp add: page_at_def set_open_bus_def)
  with p show ?thesis
    unfolding ReadByte_def
    by (simp add: Let_def load_byte_def s set_open_bus_def cong: if_cong)
qed

lemma set_open_bus_same: "set_open_bus (open_bus (sysbus s)) s = s"
  by (simp add: set_open_bus_def)

lemma or_less_power:
  assumes "(a :: u32) < 2 ^ n" "b < 2 ^ n" "n < 32"
  shows "a OR b < 2 ^ n"
proof -
  have u: "uint (2 ^ n :: u32) = 2 ^ n" 
    using assms(3) by (simp add: uint_nat unat_exp)
  show ?thesis
    using assms(1,2) unfolding word_less_def u
    by (simp add: unsigned_or_eq OR_upper)
qed

lemma and_mask_less: "n < 32 \<Longrightarrow> (a :: u32) AND mask n < 2 ^ n"
  by (rule and_mask_less') simp

lemma masked_less: "(b :: u32) AND mask n = b \<Longrightarrow> n < 32 \<Longrightarrow> unat b < 2 ^ n"
  by (metis unat_and_mask_mod mod_less_divisor zero_less_numeral zero_less_power)

lemma palette_index_less: "unat (palette_index a) < 32"
proof -
  have m: "(0x1F :: u32) = mask 5" "(0x10 :: u32) AND mask 5 = 0x10" by (simp_all add: mask_eq_exp_minus_1)
  have b: "(a AND mask 5) AND mask 5 = a AND mask 5" by (simp add: and.assoc)
  have "((a AND mask 5) XOR 0x10) AND mask 5 = (a AND mask 5) XOR 0x10"
    by (simp only: bit.conj_xor_distrib2 b m(2))
  then have "unat ((a AND mask 5) XOR 0x10) < 2 ^ 5" by (rule masked_less) simp
  moreover have "unat (a AND mask 5) < 2 ^ 5" by (rule masked_less [OF b]) simp
  ultimately show ?thesis by (simp add: palette_index_def m(1) Let_def)
qed

lemma ppu_Read_runs:
  assumes "ppu_data_ok s"
  shows "\<exists>v b. ppu_Read a s = Some (v, set_open_bus b s)"
proof (cases "a AND 0x3FFF \<ge> 0x3F00")
  case True
  with assms show ?thesis
    using palette_index_less [of "a AND 0x3FFF"]
    by (auto simp: ppu_Read_def ppu_data_ok_def Let_def intro!: exI [of _ "open_bus (sysbus s)"]
        simp: set_open_bus_same)
next
  case False
  have "ppu_bus_ok (blk_size (host s)) (sysbus s)" using assms by (simp add: ppu_data_ok_def)
  then obtain v c where "ReadByte unset_io (a AND 0x3FFF) s = Some ((v, c), set_open_bus v s)"
    using ppu_ReadByte by blast
  with False show ?thesis by (auto simp: ppu_Read_def)
qed

lemma ReadNameTableByte_runs:
  "ppu_data_ok s \<Longrightarrow> \<exists>v b. ReadNameTableByte s = Some (v, set_open_bus b s)"
  unfolding ReadNameTableByte_def by (rule ppu_Read_runs)

lemma ReadBackground_runs:
  "ppu_data_ok s \<Longrightarrow> \<exists>v b. ReadBackgroundBit0 nt s = Some (v, set_open_bus b s)"
  "ppu_data_ok s \<Longrightarrow> \<exists>v b. ReadBackgroundBit1 nt s = Some (v, set_open_bus b s)"
  unfolding ReadBackgroundBit0_def ReadBackgroundBit1_def by (rule ppu_Read_runs; assumption)+

lemma ReadSprite_runs:
  "ppu_data_ok s \<Longrightarrow> \<exists>v b. ReadSpriteBit0 idx y s = Some (v, set_open_bus b s)"
  "ppu_data_ok s \<Longrightarrow> \<exists>v b. ReadSpriteBit1 idx y s = Some (v, set_open_bus b s)"
  unfolding ReadSpriteBit0_def ReadSpriteBit1_def by (simp_all add: ppu_Read_runs Let_def)

lemma ReadAttribTableByte_runs:
  assumes "ppu_data_ok s"
  shows "\<exists>v b. ReadAttribTableByte s = Some (v, set_open_bus b s) \<and> v \<le> 3"
proof -
  let ?v = "ucast (vram_addr s) :: u32"
  obtain v b where "ppu_Read (0x23C0 OR (?v AND 0xC00) OR ((drop_bit 4 ?v AND 0x38) OR (drop_bit 2 ?v AND 7))) s =
      Some (v, set_open_bus b s)"
    using ppu_Read_runs [OF assms] by blast
  then show ?thesis
    by (auto simp: ReadAttribTableByte_def Let_def word_and_le1 word_and_le2)
qed

section \<open>Drawing\<close>

lemma drop_bit_less: "unat (a :: u8) div 2 ^ k < n \<Longrightarrow> n < 2 ^ 32 \<Longrightarrow> drop_bit k (ucast a :: u32) < of_nat n"
  by (simp add: word_less_nat_alt unat_drop_bit_div unat_of_nat unsigned_ucast_eq take_bit_nat_eq_self
      order_less_trans [OF u8_less])

lemma background_color_less:
  assumes "attribute (current_tile s) \<le> 3"
  shows "background_color x s < 16"
proof -
  let ?t = "current_tile s"
  have m: "(2 :: u32) AND mask 4 = 2" by (simp add: mask_eq_exp_minus_1)
  have a: "unat (attribute ?t) \<le> 3" using assms by (simp add: word_le_nat_alt)
  have l: "unat (tile_low ?t) div 128 \<le> 1" using u8_less [of "tile_low ?t"] by simp
  have "4 * ucast (attribute ?t) + drop_bit 7 (ucast (tile_low ?t)) < (2 ^ 4 :: u32)"
    using a l u8_less [of "tile_low ?t"]
    by (simp add: word_less_nat_alt unat_word_ariths unat_drop_bit_div unsigned_ucast_eq take_bit_nat_eq_self)
  moreover have "drop_bit 6 (ucast (tile_high ?t)) AND 2 < (2 ^ 4 :: u32)"
    using word_and_le1 [of "drop_bit 6 (ucast (tile_high ?t)) :: u32" 2] by (simp add: word_le_nat_alt word_less_nat_alt)
  ultimately have "(4 * ucast (attribute ?t) + drop_bit 7 (ucast (tile_low ?t))) OR
      (drop_bit 6 (ucast (tile_high ?t)) AND 2) < (2 ^ 4 :: u32)"
    by (rule or_less_power) simp
  then show ?thesis by (simp add: background_color_def Let_def)
qed

lemma sprite_loop_less: "color < 16 \<Longrightarrow> fst (sprite_loop x color sps st) < 32"
proof (induction sps arbitrary: st)
  case (Cons sp sps)
  define a b :: u32 where "a = ucast (attrib sp)" and "b = ucast (sprite_high sp)"
  have 3: "unat (a AND 3) \<le> 3" using word_and_le1 [of a 3] by (simp add: word_le_nat_alt)
  have pixel: "0x10 + 4 * (a AND 3) + (i OR j) < 32" if "i < 4" "j < 4" for i j
  proof -
    have "i OR j < 2 ^ 2" using that by (intro or_less_power) simp_all
    then have "unat (i OR j) < 4" by (simp add: word_less_nat_alt)
    with 3 show ?thesis by (simp add: word_less_nat_alt unat_word_ariths)
  qed
  have bit: "y AND 1 < 4" "y AND 2 < 4" for y :: u32
    using word_and_le1 [of y 1] word_and_le1 [of y 2] by (simp_all add: word_le_nat_alt word_less_nat_alt)
  have "color < 32" using Cons.prems by (simp add: word_less_nat_alt)
  with Cons show ?case
    by (simp add: Let_def pixel bit a_def [symmetric] b_def [symmetric] flip: and.assoc split: if_splits)
qed (simp add: word_less_nat_alt)

text \<open>What drawing may change.\<close>

definition drawn :: "'m ppu_scheme \<Rightarrow> 'm ppu_scheme \<Rightarrow> bool" where
  "drawn s s' \<longleftrightarrow> (\<exists>h t st. s' = s\<lparr>host := h, current_tile := t, status := st\<rparr> \<and>
     blk_size h = blk_size (host s) \<and> attribute t \<le> 3)"

lemma drawn_ok:
  assumes "drawn s s'" and "ppu_data_ok s"
  shows "ppu_data_ok s'" "place s' = place s" "blk_size (host s') = blk_size (host s)"
    "fb s' = fb s" "scroll_fine_x s' = scroll_fine_x s" "clock_of s' = clock_of s"
  using assms by (auto simp: drawn_def ppu_data_ok_def place_def clock_of_def)

lemma drawnI:
  "blk_size h = blk_size (host s) \<Longrightarrow> attribute t \<le> 3 \<Longrightarrow> drawn s (s\<lparr>host := h, current_tile := t, status := st\<rparr>)"
  by (auto simp: drawn_def)

lemma drawn_trans: "drawn s s' \<Longrightarrow> drawn s' s'' \<Longrightarrow> drawn s s''"
  unfolding drawn_def by force

lemma get_color_runs:
  assumes "ppu_data_ok s"
  shows "\<exists>c s'. get_color x s = Some (c, s') \<and> unat c < 32 \<and> drawn s s'"
proof -
  let ?c = "background_color x s"
  let ?s = "s\<lparr>current_tile := shift_tile 1 (current_tile s)\<rparr>"
  have t: "attribute (current_tile s) \<le> 3" and n: "num_sprites s \<le> length (sprites s)"
    using assms by (simp_all add: ppu_data_ok_def)
  have c: "?c < 16" by (rule background_color_less [OF t])
  have small: "unat (ucast (v :: u32) :: u8) < 32" if "v < 32" for v
    using that by (simp add: word_less_nat_alt unsigned_ucast_eq take_bit_eq_mod)
  have d: "drawn s (?s\<lparr>status := st\<rparr>)" for st
    using drawnI [of "host s" s "shift_tile 1 (current_tile s)" st] t by (simp add: shift_tile_def)
  have c32: "?c < 32" using c by (simp add: word_less_nat_alt)
  have "fst (sprite_loop x ?c (take (num_sprites s) (sprites s)) (status s)) < 32"
    by (rule sprite_loop_less [OF c])
  then show ?thesis
    using small d small [OF c32] d [of "status s"] n
    by (auto simp: get_color_def Let_def split: prod.splits)
qed

lemma put_pixel_runs:
  assumes "ppu_data_ok s" "unat c < 32" "snd p + 4 \<le> blk_size (host s) (fst p)"
  shows "\<exists>s'. put_pixel p c s = Some s' \<and> drawn s s'"
proof -
  have v: "valid_ptr h (ptr_add p k)" if "blk_size h = blk_size (host s)" "k < 4" for h k
    using that assms(3) by (simp add: valid_ptr_def ptr_add_def)
  have p: "ptr_add p 0 = p" by (simp add: ptr_add_def)
  have "attribute (current_tile s) \<le> 3" "length (rgb_palette s) = 32"
    using assms(1) by (simp_all add: ppu_data_ok_def)
  then show ?thesis
    using assms(2) v [of _ 0, unfolded p] drawnI [of _ s "current_tile s" "status s"]
    by (simp add: put_pixel_def store_byte_def v Let_def)
qed

lemma draw_pixels_runs:
  assumes "ppu_data_ok s" "snd p + 4 * k \<le> blk_size (host s) (fst p)"
  shows "\<exists>x' s'. draw_pixels k x p s = Some ((x', ptr_add p (4 * k)), s') \<and> (k = 0 \<or> drawn s s') \<and>
    (k = 0 \<longrightarrow> s' = s)"
  using assms
proof (induction k arbitrary: x p s)
  case (Suc k)
  obtain c s1 where 1: "get_color x s = Some (c, s1)" "unat c < 32" "drawn s s1"
    using get_color_runs [OF Suc.prems(1)] by blast
  note ok1 = drawn_ok [OF 1(3) Suc.prems(1)]
  obtain s2 where 2: "put_pixel p c s1 = Some s2" "drawn s1 s2"
    using put_pixel_runs [OF ok1(1) 1(2), of p] Suc.prems(2) by (auto simp: ok1)
  note ok2 = drawn_ok [OF 2(2) ok1(1)]
  have "snd (ptr_add p 4) + 4 * k \<le> blk_size (host s2) (fst (ptr_add p 4))"
    using Suc.prems(2) by (simp add: ok1 ok2 ptr_add_def)
  from Suc.IH [OF ok2(1) this, of "x + 1"] obtain x' s' where
    3: "draw_pixels k (x + 1) (ptr_add p 4) s2 = Some ((x', ptr_add (ptr_add p 4) (4 * k)), s')"
    "k = 0 \<or> drawn s2 s'" "k = 0 \<longrightarrow> s' = s2" by blast
  have "drawn s s'"
    using 1(3) 2(2) 3(2,3) drawn_trans by blast
  moreover have "ptr_add (ptr_add p 4) (4 * k) = ptr_add p (4 * Suc k)"
    by (simp add: ptr_add_def)
  ultimately show ?case using 1(1) 2(1) 3(1) by simp
qed (simp add: ptr_add_def)

lemma line_offset:
  assumes "1 \<le> unat l" "unat l \<le> 240" "240 * unat (stride :: u32) < 2 ^ 32"
  shows "unat (stride * (l - 1)) = unat stride * (unat l - 1)"
proof -
  have l: "unat (l - 1) = unat l - 1" using assms(1) by (simp add: unat_sub_if')
  have "unat stride * (unat l - 1) \<le> unat stride * 240" using assms(2) by (intro mult_left_mono) auto
  also have "\<dots> < 2 ^ 32" using assms(3) by (simp add: mult.commute)
  finally have "unat stride * unat (l - 1) < 2 ^ LENGTH(32)" by (simp only: l) simp
  then show ?thesis using unat_mult_lem [of stride "l - 1"] by (simp only: l)
qed

lemma column_offset:
  assumes "8 \<le> unat c" "unat c \<le> 256"
  shows "unat ((c - 8 :: u32) * 4) = 4 * (unat c - 8)"
proof -
  have u: "unat (c - 8) = unat c - 8" using assms(1) by (simp add: unat_sub_if')
  have "unat (c - 8) * unat (4 :: u32) < 2 ^ LENGTH(32)" using u assms(2) by simp
  then show ?thesis using unat_mult_lem [of "c - 8" 4] u by (simp only:) simp
qed

lemma DrawPixels_runs:
  assumes "ppu_data_ok s" "1 \<le> unat (current_scanline s)" "unat (current_scanline s) \<le> 240"
    and "8 \<le> unat (current_pixel_clock s)"
  shows "\<exists>s'. DrawPixels s = Some s' \<and> drawn s s'"
proof (cases "current_pixel_clock s > 256")
  case True
  have "drawn s (s\<lparr>host := host s, current_tile := current_tile s, status := status s\<rparr>)"
    using assms(1) by (intro drawnI) (simp_all add: ppu_data_ok_def)
  with True show ?thesis by (simp add: DrawPixels_def)
next
  case False
  then have c: "unat (current_pixel_clock s) \<le> 256" by (simp add: word_less_nat_alt)
  define stride line where "stride = unat (fb_stride (fb s))" and "line = unat (current_scanline s)"
  define p where "p = ptr_add (ptr_add (video_frame (fb s)) (unat (fb_stride (fb s) * (current_scanline s - 1))))
    (unat ((current_pixel_clock s - 8) * 4))"
  define n where "n = unat (8 - ucast (scroll_fine_x s) :: u32)"
  have fb: "1024 \<le> stride" "240 * stride < 2 ^ 32"
    "snd (video_frame (fb s)) + 240 * stride \<le> blk_size (host s) (fst (video_frame (fb s)))"
    using assms(1) by (simp_all add: ppu_data_ok_def frame_ok_def stride_def)
  have "snd p = snd (video_frame (fb s)) + stride * (line - 1) + 4 * (unat (current_pixel_clock s) - 8)"
    using line_offset [OF assms(2,3)] fb(2) column_offset [OF assms(4) c]
    by (simp add: p_def ptr_add_def stride_def line_def)
  moreover have "stride * (line - 1) + 1024 \<le> 240 * stride"
  proof -
    have "stride * (line - 1) \<le> stride * 239"
      using assms(3) by (intro mult_left_mono) (simp_all add: line_def)
    also have "\<dots> + 1024 \<le> 240 * stride" using fb(1) by simp
    finally show ?thesis by simp
  qed
  ultimately have p: "snd p + 32 \<le> blk_size (host s) (fst p)"
    using fb(3) c by (simp add: p_def ptr_add_def)
  have fine: "unat (scroll_fine_x s) \<le> 7" using assms(1) by (simp add: ppu_data_ok_def word_le_nat_alt)
  then have "n = 8 - unat (scroll_fine_x s)"
    unfolding n_def by (simp add: unat_sub_if' unsigned_ucast_eq take_bit_nat_eq_self)
  with fine have n: "1 \<le> n" "n \<le> 8" by linarith+
  obtain x' s1 where 1: "draw_pixels n (current_pixel_clock s - 8) p s = Some ((x', ptr_add p (4 * n)), s1)"
    "drawn s s1"
    using draw_pixels_runs [OF assms(1), of p n "current_pixel_clock s - 8"] p n by fastforce
  note ok1 = drawn_ok [OF 1(2) assms(1)]
  let ?s1 = "s1\<lparr>current_tile := next_tile s1\<rparr>"
  have d: "drawn s1 (s1\<lparr>host := host s1, current_tile := next_tile s1, status := status s1\<rparr>)"
    using ok1(1) by (intro drawnI) (simp_all add: ppu_data_ok_def)
  then have d: "drawn s1 ?s1" by simp
  note ok2 = drawn_ok [OF d ok1(1)]
  have "snd (ptr_add p (4 * n)) + 4 * (8 - n) \<le> blk_size (host ?s1) (fst (ptr_add p (4 * n)))"
    using p n by (simp add: ptr_add_def ok1)
  from draw_pixels_runs [OF ok2(1) this, of x'] obtain x'' s2 where
    2: "draw_pixels (8 - n) x' (ptr_add p (4 * n)) ?s1 = Some ((x'', ptr_add (ptr_add p (4 * n)) (4 * (8 - n))), s2)" "8 - n = 0 \<or> drawn ?s1 s2"
      "8 - n = 0 \<longrightarrow> s2 = ?s1" by (elim exE conjE) (rule that; assumption)
  have "drawn s s2"
    using 1(2) d 2(2,3) drawn_trans by blast
  moreover have "DrawPixels s = Some s2"
    unfolding DrawPixels_def Let_def p_def [symmetric] n_def [symmetric] using False 1(1) 2(1) by simp
  ultimately show ?thesis by blast
qed

section \<open>The sprites of a line\<close>

definition evaluated :: "'m ppu_scheme \<Rightarrow> 'm ppu_scheme \<Rightarrow> bool" where
  "evaluated s s' \<longleftrightarrow> (\<exists>b sp n. s' = (set_open_bus b s)\<lparr>sprites := sp, num_sprites := n\<rparr> \<and>
     length sp = length (sprites s) \<and> n \<le> 8)"

lemma evaluated_ok:
  assumes "evaluated s s'" and "ppu_data_ok s"
  shows "ppu_data_ok s'" "place s' = place s" "oam s' = oam s" "num_sprites s' \<le> 8" "clock_of s' = clock_of s"
  using assms
  by (auto simp: evaluated_def ppu_data_ok_def ppu_bus_ok_def place_def clock_of_def set_open_bus_def)

lemma evaluated_refl: "num_sprites s \<le> 8 \<Longrightarrow> evaluated s s"
  unfolding evaluated_def
  by (rule exI [of _ "open_bus (sysbus s)"], rule exI [of _ "sprites s"], rule exI [of _ "num_sprites s"])
    (simp add: set_open_bus_same)

lemma evaluated_trans: "evaluated s s' \<Longrightarrow> evaluated s' s'' \<Longrightarrow> evaluated s s''"
  unfolding evaluated_def set_open_bus_def by force

lemma load_sprite_runs:
  assumes "ppu_data_ok s" "index < 253" "num_sprites s < 8"
  shows "\<exists>s'. load_sprite y index s = Some s' \<and> evaluated s s'"
proof -
  let ?a = "oam s ! (index + 2)" and ?y = "oam s ! index"
  let ?row = "sprite_row y ?y ?a s"
  obtain lo b where 1: "ReadSpriteBit0 (ucast (oam s ! (index + 1))) ?row s = Some (lo, set_open_bus b s)"
    using ReadSprite_runs(1) [OF assms(1)] by blast
  obtain hi c where 2: "ReadSpriteBit1 (ucast (oam s ! (index + 1))) ?row (set_open_bus b s) =
      Some (hi, set_open_bus c s)"
    using ReadSprite_runs(2) [of "set_open_bus b s" "ucast (oam s ! (index + 1))" ?row] assms(1) by auto
  have f: "oam (set_open_bus c s) = oam s" "sprites (set_open_bus c s) = sprites s"
    "num_sprites (set_open_bus c s) = num_sprites s"
    by (simp_all add: set_open_bus_def)
  have l: "length (oam s) = 256" "length (sprites s) = 16" using assms(1) by (simp_all add: ppu_data_ok_def)
  define sp where "sp = \<lparr>sprite_low = lo, sprite_high = hi,
    attrib = (if index = 0 then (?a AND 0xE3) OR 0x10 else ?a AND 0xE3), sprite_x = oam s ! (index + 3)\<rparr>"
  have "load_sprite y index s = Some ((set_open_bus c s)\<lparr>sprites := (sprites s)[num_sprites s := sp],
      num_sprites := num_sprites s + 1\<rparr>)"
    using 1 2 assms(2,3) l
    by (simp add: load_sprite_def Let_def f sp_def cong: if_cong)
  moreover have "evaluated s ((set_open_bus c s)\<lparr>sprites := (sprites s)[num_sprites s := sp],
      num_sprites := num_sprites s + 1\<rparr>)"
    unfolding evaluated_def
    by (rule exI [of _ c], rule exI [of _ "(sprites s)[num_sprites s := sp]"], rule exI [of _ "num_sprites s + 1"])
      (use assms(3) in simp)
  ultimately show ?thesis by blast
qed

lemma evaluate_loop_runs:
  assumes "ppu_data_ok s"
  shows "\<exists>s'. evaluate_loop y index s = Some s' \<and> evaluated s s'"
  using assms
proof (induction y index s rule: evaluate_loop.induct)
  case (1 y index s)
  let ?on = "ucast (oam s ! index) \<le> y \<and> y < ucast (sprite_end s (oam s ! index))"
  have l: "length (oam s) = 256" and n: "num_sprites s \<le> 8" using "1.prems" by (simp_all add: ppu_data_ok_def)
  show ?case
  proof (cases "index < 253")
    case False
    with evaluated_refl [OF n] show ?thesis by (subst evaluate_loop.simps) simp
  next
    case i: True
    show ?thesis
    proof (cases "?on \<and> num_sprites s < 8")
      case True
      obtain s1 where s1: "load_sprite y index s = Some s1" "evaluated s s1"
        using load_sprite_runs [OF "1.prems" i, of y] True by blast
      have "\<exists>s'. evaluate_loop y (index + 4) s1 = Some s' \<and> evaluated s1 s'"
        using "1.IH"(1) [OF i _ refl _ _ s1(1) evaluated_ok(1) [OF s1(2) "1.prems"]] True i l by simp
      then show ?thesis
        using True s1 i l evaluated_trans by (subst evaluate_loop.simps) (auto simp: Let_def)
    next
      case False
      with "1.IH"(2-4) i l "1.prems" show ?thesis
        by (subst evaluate_loop.simps) (auto simp: Let_def)
    qed
  qed
qed

lemma EvaluateSprites_runs:
  assumes "ppu_data_ok s"
  shows "\<exists>s'. EvaluateSprites s = Some s' \<and> evaluated s s'"
proof -
  have ok: "ppu_data_ok (s\<lparr>num_sprites := 0\<rparr>)" using assms by (simp add: ppu_data_ok_def)
  have "evaluated s (s\<lparr>num_sprites := 0\<rparr>)"
    unfolding evaluated_def
    by (rule exI [of _ "open_bus (sysbus s)"], rule exI [of _ "sprites s"], rule exI [of _ 0])
      (simp add: set_open_bus_same)
  with evaluate_loop_runs [OF ok, of "current_scanline s - 1" 0] show ?thesis
    unfolding EvaluateSprites_def by (blast intro: evaluated_trans)
qed

end
