(* ===== verification/Ppu_Machine.thy ===== *)
theory Ppu_Machine
  imports Ppu_Laws
begin

text \<open>
  The state machine of the picture processor refines the machine of places: every step is defined,
  keeps the invariant and moves to the next place.  So a frame has 89342 dots, less the one an odd
  frame skips, and the loop that catches up with the CPU ends.
\<close>

section \<open>Updates the invariant does not see\<close>

lemma ppu_data_ok_updates [simp]:
  "ppu_data_ok (s\<lparr>ppu_state := st\<rparr>) = ppu_data_ok s"
  "ppu_data_ok (s\<lparr>vram_addr := v\<rparr>) = ppu_data_ok s"
  "ppu_data_ok (s\<lparr>current_pixel_clock := c\<rparr>) = ppu_data_ok s"
  "ppu_data_ok (s\<lparr>current_scanline := l\<rparr>) = ppu_data_ok s"
  "ppu_data_ok (s\<lparr>status := x\<rparr>) = ppu_data_ok s"
  "ppu_data_ok (s\<lparr>frame_id := f\<rparr>) = ppu_data_ok s"
  "ppu_data_ok (s\<lparr>frame_produced := fp\<rparr>) = ppu_data_ok s"
  "ppu_data_ok (s\<lparr>ppu_cycle_of_next_nmi := t\<rparr>) = ppu_data_ok s"
  "ppu_data_ok (s\<lparr>last_ppu_cycle := t\<rparr>) = ppu_data_ok s"
  "ppu_data_ok (next_clock s) = ppu_data_ok s"
  "ppu_data_ok (IncrHoriz s) = ppu_data_ok s"
  "ppu_data_ok (IncrVert s) = ppu_data_ok s"
  "ppu_data_ok (reload_scroll s) = ppu_data_ok s"
  by (simp_all add: ppu_data_ok_def next_clock_def IncrHoriz_def IncrVert_def reload_scroll_def Let_def
      split: prod.splits)

lemma place_updates [simp]:
  "place (s\<lparr>vram_addr := v\<rparr>) = place s"
  "place (s\<lparr>current_tile := t\<rparr>) = place s"
  "place (s\<lparr>next_tile := t\<rparr>) = place s"
  "place (s\<lparr>future_tile := t\<rparr>) = place s"
  "place (s\<lparr>status := x\<rparr>) = place s"
  "place (s\<lparr>last_ppu_cycle := y\<rparr>) = place s"
  "place (IncrHoriz s) = place s"
  "place (IncrVert s) = place s"
  "place (reload_scroll s) = place s"
  "place (s\<lparr>ppu_state := st\<rparr>) = (st, snd (place s))"
  by (simp_all add: place_def IncrHoriz_def IncrVert_def reload_scroll_def Let_def split: prod.splits)

lemma clock_updates [simp]:
  "clock_of (s\<lparr>vram_addr := v\<rparr>) = clock_of s"
  "clock_of (s\<lparr>current_tile := t\<rparr>) = clock_of s"
  "clock_of (s\<lparr>next_tile := t\<rparr>) = clock_of s"
  "clock_of (s\<lparr>future_tile := t\<rparr>) = clock_of s"
  "clock_of (s\<lparr>status := x\<rparr>) = clock_of s"
  "clock_of (s\<lparr>ppu_state := st\<rparr>) = clock_of s"
  "clock_of (s\<lparr>frame_id := f\<rparr>) = clock_of s"
  "clock_of (s\<lparr>frame_produced := fp\<rparr>) = clock_of s"
  "clock_of (s\<lparr>ppu_cycle_of_next_nmi := y\<rparr>) = clock_of s"
  "clock_of (s\<lparr>current_pixel_clock := c\<rparr>) = clock_of s"
  "clock_of (s\<lparr>current_scanline := l\<rparr>) = clock_of s"
  "clock_of (next_clock s) = clock_of s"
  "clock_of (IncrHoriz s) = clock_of s"
  "clock_of (IncrVert s) = clock_of s"
  "clock_of (reload_scroll s) = clock_of s"
  "clock_of (start_scanline s) = clock_of s"
  by (simp_all add: clock_of_def next_clock_def IncrHoriz_def IncrVert_def reload_scroll_def
      start_scanline_def Let_def split: prod.splits)

lemma place_fields: "place s = (st, c, l) \<Longrightarrow>
    ppu_state s = st \<and> unat (current_pixel_clock s) = c \<and> unat (current_scanline s) = l"
  by (simp add: place_def)

lemma place_next_clock:
  assumes "place s = (st, c, l)" "c \<le> 340"
  shows "place (next_clock s) = (st, c + 1, l)"
  using assms by (auto simp: place_def next_clock_def unat_word_ariths)

lemma even_clock_iff: "even_clock s \<longleftrightarrow> even (unat (current_pixel_clock s))"
proof -
  have "unat (current_pixel_clock s AND 1) = unat (current_pixel_clock s) AND 1"
    by (simp add: unsigned_and_eq)
  then show ?thesis
    unfolding even_clock_def word_unat_eq_iff by (simp only: and_one_eq even_iff_mod_2_eq_zero) simp
qed

section \<open>The groups of states\<close>

definition moves :: "'m ppu_scheme option \<Rightarrow> bool \<Rightarrow> bool \<Rightarrow> place \<Rightarrow> u64 \<times> u32 \<Rightarrow> bool" where
  "moves m r oddf p k \<longleftrightarrow> (\<exists>s'. m = Some s' \<and> ppu_data_ok s' \<and>
     place s' = next_place r oddf p \<and> clock_of s' = k)"

lemma moves_clock:
  assumes "m = Some s'" "ppu_data_ok s'" "place s' = (st', c, l)" "clock_of s' = k" "c \<le> 340"
    and "next_place r oddf (st, c, l) = (st', c + 1, l)"
  shows "moves (map_option next_clock m) r oddf (st, c, l) k"
  unfolding moves_def using assms place_next_clock [OF assms(3,5)] by auto

text \<open>What reading does to the fields of a tile.\<close>

lemma read_ok [simp]:
  "ppu_data_ok ((set_open_bus b s)\<lparr>future_tile := t\<rparr>) = ppu_data_ok (s\<lparr>future_tile := t\<rparr>)"
  "ppu_data_ok ((set_open_bus b s)\<lparr>next_tile := t\<rparr>) = ppu_data_ok (s\<lparr>next_tile := t\<rparr>)"
  "future_tile (set_open_bus b s) = future_tile s"
  "next_tile (set_open_bus b s) = next_tile s"
  "ppu_state (set_open_bus b s) = ppu_state s"
  "current_pixel_clock (set_open_bus b s) = current_pixel_clock s"
  "current_scanline (set_open_bus b s) = current_scanline s"
  by (simp_all add: set_open_bus_def ppu_data_ok_def ppu_bus_ok_def)

lemma tile_ok:
  assumes "ppu_data_ok s"
  shows "attribute t \<le> 3 \<Longrightarrow> ppu_data_ok (s\<lparr>future_tile := t\<rparr>)"
    "attribute t \<le> 3 \<Longrightarrow> ppu_data_ok (s\<lparr>next_tile := t\<rparr>)"
    "attribute t \<le> 3 \<Longrightarrow> ppu_data_ok (s\<lparr>current_tile := t\<rparr>)"
    "attribute (future_tile s) \<le> 3" "attribute (next_tile s) \<le> 3"
  using assms by (simp_all add: ppu_data_ok_def)

lemma fetch_bg2:
  assumes "ppu_data_ok s" "place s = (FETCH_BG2, c, l)" "8 \<le> c" "l \<le> 240" "even_clock s"
  shows "\<exists>s'. fetch_step s = Some s' \<and> ppu_data_ok s' \<and>
    place s' = (if c = 256 then FETCH_BAD_NT else FETCH_NT, c, l) \<and> clock_of s' = clock_of s"
proof -
  note f = place_fields [OF assms(2)]
  obtain v b where 1: "ReadBackgroundBit1 (nametable (future_tile s)) s = Some (v, set_open_bus b s)"
    using ReadBackground_runs(2) [OF assms(1)] by blast
  define s1 where "s1 = (set_open_bus b s)\<lparr>future_tile := (future_tile s)\<lparr>tile_high := v\<rparr>\<rparr>"
  have ok1: "ppu_data_ok s1" "place s1 = place s" "clock_of s1 = clock_of s"
    using assms(1) by (simp_all add: s1_def tile_ok)
  obtain s2 where 2: "(if current_scanline s1 \<noteq> 0 then DrawPixels s1 else Some s1) = Some s2"
    "ppu_data_ok s2" "place s2 = place s" "clock_of s2 = clock_of s"
  proof (cases "current_scanline s1 = 0")
    case False
    then have "1 \<le> unat (current_scanline s1)" by (simp add: Suc_le_eq word_neq_0_conv [symmetric] unat_gt_0)
    moreover have "unat (current_scanline s1) \<le> 240" "8 \<le> unat (current_pixel_clock s1)"
      using f assms(3,4) by (simp_all add: s1_def)
    ultimately obtain s2 where "DrawPixels s1 = Some s2" "drawn s1 s2"
      using DrawPixels_runs [OF ok1(1)] by blast
    with False that drawn_ok(1,2,6) [OF this(2) ok1(1)] ok1(2,3) show ?thesis by simp
  qed (use that [of s1] ok1 in simp)
  note f2 = place_fields [OF 2(3) [unfolded assms(2)]]
  let ?rest = "\<lambda>s. if current_pixel_clock s = 256 then
         (let s = s\<lparr>ppu_state := FETCH_BAD_NT\<rparr>
          in if current_scanline s > 0 then EvaluateSprites (IncrVert s) else Some s)
       else (let s = IncrHoriz s in Some (s\<lparr>ppu_state := FETCH_NT, next_tile := future_tile s\<rparr>))"
  have "fetch_step s = (if current_scanline s1 \<noteq> 0 then DrawPixels s1 else Some s1) \<bind> ?rest"
    using 1 assms(5) f by (simp add: fetch_step_def s1_def)
  then have run: "fetch_step s = ?rest s2" by (simp only: 2(1) Option.bind.simps)
  have c: "current_pixel_clock s2 = 256 \<longleftrightarrow> c = 256" using f2 by (auto simp: word_unat_eq_iff)
  show ?thesis
  proof (cases "c = 256")
    case False
    have "attribute (future_tile (IncrHoriz s2)) \<le> 3" using tile_ok(4) [of "IncrHoriz s2"] 2(2) by simp
    with False c 2 assms(2) show ?thesis unfolding run by (simp add: Let_def tile_ok)
  next
    case True
    let ?s3 = "s2\<lparr>ppu_state := FETCH_BAD_NT\<rparr>"
    obtain s4 where "EvaluateSprites (IncrVert ?s3) = Some s4" "evaluated (IncrVert ?s3) s4"
      using EvaluateSprites_runs [of "IncrVert ?s3"] 2(2) by auto
    with evaluated_ok(1,2,5) [OF this(2)] True c 2 assms(2) show ?thesis unfolding run by (auto simp: Let_def)
  qed
qed

lemma fetch_moves:
  assumes "ppu_data_ok s" "place_ok (place s)" "ppu_state s \<in> {FETCH_NT, FETCH_AT, FETCH_BG, FETCH_BG2}"
  shows "moves (map_option next_clock (fetch_step s)) r oddf (place s) (clock_of s)"
proof -
  obtain st c l where p: "place s = (st, c, l)" by (cases "place s")
  note f = place_fields [OF p] and b = place_bounds [OF assms(2) [unfolded p]]
  note go = moves_clock [OF _ _ _ _ conjunct1 [OF b], where m = "fetch_step s" and k = "clock_of s", folded p]
  have ok: "clocks_of st c" "lines_of st l" using assms(2) by (simp_all add: p place_ok_def)
  show ?thesis
  proof (cases "even c")
    case False
    then have "fetch_step s = Some s" by (simp add: fetch_step_def even_clock_iff f)
    from go [OF this assms(1) p refl] show ?thesis using assms(3) f False p by auto
  next
    case True
    then have e: "even_clock s" by (simp add: even_clock_iff f)
    consider "st = FETCH_NT" | "st = FETCH_AT" | "st = FETCH_BG" | "st = FETCH_BG2" using assms(3) f by auto
    then show ?thesis
    proof cases
      case 1
      obtain v b where "ReadNameTableByte s = Some (v, set_open_bus b s)"
        using ReadNameTableByte_runs [OF assms(1)] by blast
      then have "fetch_step s = Some ((set_open_bus b s)\<lparr>future_tile := (future_tile s)\<lparr>nametable := v\<rparr>,
          ppu_state := FETCH_AT\<rparr>)"
        using e 1 f by (simp add: fetch_step_def)
      from go [OF this] show ?thesis using assms(1) 1 True p by (simp add: tile_ok)
    next
      case 2
      obtain v b where "ReadAttribTableByte s = Some (v, set_open_bus b s)" and v: "v \<le> 3"
        using ReadAttribTableByte_runs [OF assms(1)] by blast
      then have "fetch_step s = Some ((set_open_bus b s)\<lparr>future_tile := (future_tile s)\<lparr>attribute := v\<rparr>,
          ppu_state := FETCH_BG\<rparr>)"
        using e 2 f by (simp add: fetch_step_def)
      from go [OF this] show ?thesis using assms(1) 2 True p v by (simp add: tile_ok)
    next
      case 3
      obtain v b where "ReadBackgroundBit0 (nametable (future_tile s)) s = Some (v, set_open_bus b s)"
        using ReadBackground_runs(1) [OF assms(1)] by blast
      then have "fetch_step s = Some ((set_open_bus b s)\<lparr>future_tile := (future_tile s)\<lparr>tile_low := v\<rparr>,
          ppu_state := FETCH_BG2\<rparr>)"
        using e 3 f by (simp add: fetch_step_def)
      from go [OF this] show ?thesis using assms(1) 3 True p by (simp add: tile_ok)
    next
      case 4
      then have "8 \<le> c" "l \<le> 240"
        using ok True by (auto simp: clocks_of_def lines_of_def even_mod_8)
      with fetch_bg2 [OF assms(1) p [unfolded 4] _ _ e] obtain s' where
        "fetch_step s = Some s'" "ppu_data_ok s'" "place s' = (if c = 256 then FETCH_BAD_NT else FETCH_NT, c, l)"
        "clock_of s' = clock_of s"
        by blast
      from go [OF this] show ?thesis using 4 True p by simp
    qed
  qed
qed

lemma sprite_fetch_moves:
  assumes "ppu_data_ok s" "place_ok (place s)"
    and "ppu_state s \<in> {FETCH_BAD_NT, FETCH_BAD_NT2, FETCH_SPRITE_LOW, FETCH_SPRITE_HIGH}"
  shows "moves (map_option next_clock (sprite_fetch_step s)) r oddf (place s) (clock_of s)"
proof -
  obtain st c l where p: "place s = (st, c, l)" by (cases "place s")
  note f = place_fields [OF p] and b = place_bounds [OF assms(2) [unfolded p]]
  note go = moves_clock [OF _ _ _ _ conjunct1 [OF b], where m = "sprite_fetch_step s" and k = "clock_of s", folded p]
  obtain v b where nt: "ReadNameTableByte s = Some (v, set_open_bus b s)"
    using ReadNameTableByte_runs [OF assms(1)] by blast
  have c: "current_pixel_clock s = 320 \<longleftrightarrow> c = 320" using f by (auto simp: word_unat_eq_iff)
  show ?thesis
  proof (cases "even c")
    case False
    then have "sprite_fetch_step s = Some s" by (simp add: sprite_fetch_step_def even_clock_iff f)
    from go [OF this assms(1) p refl] show ?thesis using assms(3) f False p by auto
  next
    case True
    define st' where "st' = fst (next_place r oddf (st, c, l))"
    define s1 where "s1 = (if st = FETCH_BAD_NT \<or> st = FETCH_BAD_NT2 then set_open_bus b s else s)"
    have "sprite_fetch_step s = Some (s1\<lparr>ppu_state := st'\<rparr>)"
      using assms(3) f True nt c by (auto simp: sprite_fetch_step_def even_clock_iff st'_def s1_def)
    moreover have "ppu_data_ok s1" "place s1 = place s" "clock_of s1 = clock_of s" using assms(1) by (simp_all add: s1_def)
    moreover have "next_place r oddf (st, c, l) = (st', c + 1, l)"
      using assms(3) f True by (auto simp: st'_def)
    ultimately show ?thesis using go [of "s1\<lparr>ppu_state := st'\<rparr>" st'] p by simp
  qed
qed

lemma tail_moves:
  assumes "ppu_data_ok s" "place_ok (place s)"
    and "ppu_state s \<in> {FETCH_TAIL_NT, FETCH_TAIL_AT, FETCH_TAIL_BG, FETCH_TAIL_BG2}"
  shows "moves (map_option next_clock (tail_step s)) r oddf (place s) (clock_of s)"
proof -
  obtain st c l where p: "place s = (st, c, l)" by (cases "place s")
  note f = place_fields [OF p] and b = place_bounds [OF assms(2) [unfolded p]]
  note go = moves_clock [OF _ _ _ _ conjunct1 [OF b], where m = "tail_step s" and k = "clock_of s", folded p]
  have n: "attribute (next_tile s) \<le> 3" by (rule tile_ok(5) [OF assms(1)])
  show ?thesis
  proof (cases "even c")
    case False
    then have "tail_step s = Some s" by (simp add: tail_step_def even_clock_iff f)
    from go [OF this assms(1) p refl] show ?thesis using assms(3) f False p by auto
  next
    case True
    then have e: "even_clock s" by (simp add: even_clock_iff f)
    consider "st = FETCH_TAIL_NT" | "st = FETCH_TAIL_AT" | "st = FETCH_TAIL_BG" | "st = FETCH_TAIL_BG2"
      using assms(3) f by auto
    then show ?thesis
    proof cases
      case 1
      obtain v b where "ReadNameTableByte s = Some (v, set_open_bus b s)"
        using ReadNameTableByte_runs [OF assms(1)] by blast
      then have "tail_step s = Some ((set_open_bus b s)\<lparr>next_tile := (next_tile s)\<lparr>nametable := v\<rparr>,
          ppu_state := FETCH_TAIL_AT\<rparr>)"
        using e 1 f by (simp add: tail_step_def)
      from go [OF this] show ?thesis using assms(1) 1 True p n by (simp add: tile_ok)
    next
      case 2
      obtain v b where "ReadAttribTableByte s = Some (v, set_open_bus b s)" and v: "v \<le> 3"
        using ReadAttribTableByte_runs [OF assms(1)] by blast
      then have "tail_step s = Some ((set_open_bus b s)\<lparr>next_tile := (next_tile s)\<lparr>attribute := v\<rparr>,
          ppu_state := FETCH_TAIL_BG\<rparr>)"
        using e 2 f by (simp add: tail_step_def)
      from go [OF this] show ?thesis using assms(1) 2 True p v by (simp add: tile_ok)
    next
      case 3
      obtain v b where "ReadBackgroundBit0 (nametable (next_tile s)) s = Some (v, set_open_bus b s)"
        using ReadBackground_runs(1) [OF assms(1)] by blast
      then have "tail_step s = Some ((set_open_bus b s)\<lparr>next_tile := (next_tile s)\<lparr>tile_low := v\<rparr>,
          ppu_state := FETCH_TAIL_BG2\<rparr>)"
        using e 3 f by (simp add: tail_step_def)
      from go [OF this] show ?thesis using assms(1) 3 True p n by (simp add: tile_ok)
    next
      case 4
      obtain v b where v: "ReadBackgroundBit1 (nametable (next_tile s)) s = Some (v, set_open_bus b s)"
        using ReadBackground_runs(2) [OF assms(1)] by blast
      define s1 where "s1 = IncrHoriz ((set_open_bus b s)\<lparr>next_tile := (next_tile s)\<lparr>tile_high := v\<rparr>\<rparr>)"
      have ok1: "ppu_data_ok s1" "place s1 = place s" "clock_of s1 = clock_of s" using assms(1) n by (simp_all add: s1_def tile_ok)
      have c: "current_pixel_clock s1 = 336 \<longleftrightarrow> c = 336"
        using place_fields [OF ok1(2) [unfolded p]] by (auto simp: word_unat_eq_iff)
      have run: "tail_step s = Some (if c = 336 then s1\<lparr>ppu_state := END_NT1\<rparr>
          else s1\<lparr>ppu_state := FETCH_TAIL_NT, current_tile := next_tile s1\<rparr>)"
        using e 4 f v c by (simp add: tail_step_def s1_def)
      have "ppu_data_ok (s1\<lparr>ppu_state := FETCH_TAIL_NT, current_tile := next_tile s1\<rparr>)"
        using tile_ok(3) [of "s1\<lparr>ppu_state := FETCH_TAIL_NT\<rparr>" "next_tile s1"] tile_ok(5) [OF ok1(1)] ok1(1)
        by simp
      with go [OF run] show ?thesis using ok1 4 True p by (cases "c = 336") simp_all
    qed
  qed
qed

lemma end_scanline_moves:
  assumes "ppu_data_ok s" "place_ok (place s)"
    and "ppu_state s = END_NT2 \<or> ppu_state s = RENDER_DISABLED_SCANLINE \<and> unat (current_pixel_clock s) = 340"
  shows "moves (end_scanline s) r oddf (place s) (clock_of s)"
proof -
  obtain st c l where p: "place s = (st, c, l)" by (cases "place s")
  note f = place_fields [OF p] and b = place_bounds [OF assms(2) [unfolded p]]
  have ok: "clocks_of st c" "lines_of st l" using assms(2) by (simp_all add: p place_ok_def)
  show ?thesis
  proof (cases "even c")
    case False
    then have "end_scanline s = Some (next_clock s)" by (simp add: end_scanline_def even_clock_iff f)
    with False show ?thesis
      using assms(1,3) f place_next_clock [OF p] b by (auto simp: moves_def p)
  next
    case True
    let ?s = "s\<lparr>ppu_state := FETCH_SCANLINE_START, current_pixel_clock := 0,
      current_scanline := current_scanline s + 1\<rparr>"
    have l: "l \<le> 240" using ok assms(3) f by (auto simp: lines_of_def)
    then have l1: "unat (current_scanline s + 1) = l + 1" using f by (simp add: unat_word_ariths)
    have n: "num_render_scanlines s = 240" using assms(1) by (simp add: ppu_data_ok_def)
    have "current_scanline s + 1 > 240 \<longleftrightarrow> l + 1 > 240" by (simp add: word_less_nat_alt l1)
    then have "end_scanline s = Some (if l + 1 > 240
        then ?s\<lparr>frame_produced := True, ppu_state := POSTRENDER_SCANLINE\<rparr> else ?s)"
      using True by (simp add: end_scanline_def even_clock_iff f Let_def n)
    moreover have "c = 340" if "st = RENDER_DISABLED_SCANLINE" using assms(3) f that by auto
    moreover have "place ?s = (FETCH_SCANLINE_START, 0, l + 1)"
      "place (?s\<lparr>frame_produced := True, ppu_state := POSTRENDER_SCANLINE\<rparr>) = (POSTRENDER_SCANLINE, 0, l + 1)"
      using l1 by (simp_all add: place_def)
    ultimately show ?thesis
      using assms(1,3) True f by (auto simp: moves_def p after_line_def)
  qed
qed

section \<open>After the picture\<close>

text \<open>The callback for the NMI leaves the picture processor alone (it may change what extends it).\<close>

definition nmi_ok :: "('m ppu_scheme \<Rightarrow> 'm ppu_scheme option) \<Rightarrow> bool" where
  "nmi_ok nmi \<longleftrightarrow> (\<forall>s. \<exists>s'. nmi s = Some s' \<and> ppu.truncate s' = ppu.truncate s)"

lemma truncate_fields:
  assumes "ppu.truncate s' = ppu.truncate s"
  shows "ppu_data_ok s' = ppu_data_ok s" "place s' = place s"
    "clock_of s' = clock_of s"
  using assms by (simp_all add: ppu.defs ppu_data_ok_def place_def clock_of_def)

lemma vblank_event_runs:
  assumes "nmi_ok nmi" "ppu_data_ok s"
  shows "\<exists>s'. vblank_event nmi s = Some s' \<and> ppu_data_ok s' \<and> place s' = place s \<and> clock_of s' = clock_of s"
proof -
  obtain t where t: "nmi s = Some t" "ppu.truncate t = ppu.truncate s"
    using assms(1) unfolding nmi_ok_def by blast
  note eq = truncate_fields [OF t(2)]
  have p: "place (u\<lparr>ppu_cycle_of_next_nmi := x\<rparr>) = place u" "place (u\<lparr>frame_id := y\<rparr>) = place u"
    for u :: "'a ppu_scheme" and x y by (simp_all add: place_def)
  show ?thesis
    using assms(2) by (simp add: vblank_event_def Let_def t(1) eq p)
qed

lemma postrender_moves:
  assumes "nmi_ok nmi" "ppu_data_ok s" "place_ok (place s)" "ppu_state s = POSTRENDER_SCANLINE"
  shows "moves (postrender_step nmi s) r oddf (place s) (clock_of s)"
proof -
  obtain c l where p: "place s = (POSTRENDER_SCANLINE, c, l)" using assms(4) by (cases "place s") (auto simp: place_def)
  note b = place_bounds [OF assms(3) [unfolded p]]
  obtain s1 where 1: "vblank_event nmi s = Some s1" "ppu_data_ok s1" "place s1 = place s" "clock_of s1 = clock_of s"
    using vblank_event_runs [OF assms(1,2)] by blast
  define s2 where "s2 = next_clock s1"
  have p2: "place s2 = (POSTRENDER_SCANLINE, c + 1, l)"
    unfolding s2_def using place_next_clock [of s1] 1(3) p b by simp
  note f2 = place_fields [OF p2]
  have t: "total_scanlines s2 = 262" using 1(2) by (simp add: s2_def ppu_data_ok_def next_clock_def)
  have c: "current_pixel_clock s2 = 341 \<longleftrightarrow> c = 340" using f2 by (auto simp: word_unat_eq_iff)
  have l1: "unat (current_scanline s2 + 1) = l + 1" using f2 b by (simp add: unat_word_ariths)
  then have l: "current_scanline s2 + 1 = 262 \<longleftrightarrow> l = 261" by (auto simp: word_unat_eq_iff)
  let ?s3 = "s2\<lparr>current_pixel_clock := 0, current_scanline := current_scanline s2 + 1\<rparr>"
  have "postrender_step nmi s = Some (if c = 340
      then if l = 261 then ?s3\<lparr>current_scanline := 0, ppu_state := FETCH_SCANLINE_START\<rparr> else ?s3
      else s2)"
    using 1(1) c l t by (simp add: postrender_step_def Let_def s2_def [symmetric])
  moreover have "place ?s3 = (POSTRENDER_SCANLINE, 0, l + 1)"
    "place (?s3\<lparr>current_scanline := 0, ppu_state := FETCH_SCANLINE_START\<rparr>) = (FETCH_SCANLINE_START, 0, 0)"
    using f2 l1 by (simp_all add: place_def)
  moreover have "ppu_data_ok s2" "clock_of s2 = clock_of s" using 1(2,4) by (simp_all add: s2_def)
  ultimately show ?thesis
    using p2 unfolding p by (auto simp: moves_def)
qed

section \<open>The step\<close>

definition odd_frame :: "'m ppu_scheme \<Rightarrow> bool" where
  "odd_frame s \<longleftrightarrow> frame_id s AND 1 \<noteq> 0"

lemma start_scanline_ok [simp]:
  "ppu_data_ok (start_scanline s) = ppu_data_ok s"
  by (simp add: start_scanline_def ppu_data_ok_def shift_tile_def)

lemma place_start_scanline:
  "place (start_scanline s) = (if rendering_enabled s then FETCH_NT else RENDER_DISABLED_SCANLINE, snd (place s))"
  by (simp add: start_scanline_def place_def)

lemma PpuStep_skipped:
  assumes "place s = (FETCH_NT, 1, l)" "ppu_data_ok s"
  shows "PpuStep nmi s = Some (next_clock s)"
proof -
  note f = place_fields [OF assms(1)]
  have "reload_scroll s = s" using f by (auto simp: reload_scroll_def word_le_nat_alt)
  moreover have "fetch_step s = Some s" using f by (simp add: fetch_step_def even_clock_iff)
  ultimately show ?thesis using f by (subst PpuStep.simps) simp
qed

lemma start_moves:
  assumes "ppu_data_ok s" "place_ok (place s)" "ppu_state s = FETCH_SCANLINE_START"
  shows "moves (PpuStep nmi s) (rendering_enabled s) (odd_frame s) (place s) (clock_of s)"
proof -
  obtain l where p: "place s = (FETCH_SCANLINE_START, 0, l)"
    using assms(2,3) by (cases "place s") (auto simp: place_def place_ok_def clocks_of_def)
  note f = place_fields [OF p]
  define s1 where "s1 = start_scanline s"
  have "reload_scroll s = s" using f by (auto simp: reload_scroll_def word_le_nat_alt)
  then have run: "PpuStep nmi s = (if skips_clock s1 then PpuStep nmi (next_clock s1) else Some (next_clock s1))"
    using assms(3) by (subst PpuStep.simps) (simp add: Let_def s1_def)
  have p1: "place s1 = (if rendering_enabled s then FETCH_NT else RENDER_DISABLED_SCANLINE, 0, l)"
    using p by (simp add: s1_def place_start_scanline)
  have p2: "place (next_clock s1) = (if rendering_enabled s then FETCH_NT else RENDER_DISABLED_SCANLINE, 1, l)"
    using place_next_clock [OF p1] by simp
  have "current_scanline s = 1 \<longleftrightarrow> l = 1" using f by (auto simp: word_unat_eq_iff)
  then have skip: "skips_clock s1 \<longleftrightarrow> l = 1 \<and> rendering_enabled s \<and> odd_frame s"
    by (simp add: skips_clock_def s1_def start_scanline_def odd_frame_def)
  have ok: "ppu_data_ok (next_clock s1)" "clock_of s1 = clock_of s" using assms(1) by (simp_all add: s1_def)
  show ?thesis
  proof (cases "skips_clock s1")
    case False
    then show ?thesis using run p2 skip ok by (auto simp: moves_def p)
  next
    case True
    then have p3: "place (next_clock s1) = (FETCH_NT, 1, l)" using p2 skip by simp
    have "PpuStep nmi s = Some (next_clock (next_clock s1))"
      using run True PpuStep_skipped [OF p3 ok(1)] by simp
    moreover have "place (next_clock (next_clock s1)) = (FETCH_NT, 2, l)"
      using place_next_clock [OF p3] by simp
    ultimately show ?thesis using True skip ok by (auto simp: moves_def p)
  qed
qed

lemma PpuStep_moves:
  assumes "nmi_ok nmi" "ppu_ok s"
  shows "moves (PpuStep nmi s) (rendering_enabled s) (odd_frame s) (place s) (clock_of s)"
proof (cases "ppu_state s = FETCH_SCANLINE_START")
  case True
  with start_moves assms(2) show ?thesis by (auto simp: ppu_ok_def)
next
  case False
  define s1 where "s1 = reload_scroll s"
  have ok: "ppu_data_ok s1" "place_ok (place s1)" and p: "place s1 = place s" "clock_of s1 = clock_of s"
    using assms(2) by (simp_all add: ppu_ok_def s1_def)
  have st: "ppu_state s1 = ppu_state s" "current_pixel_clock s1 = current_pixel_clock s"
    by (simp_all add: s1_def reload_scroll_def)
  let ?r = "rendering_enabled s" and ?o = "odd_frame s"
  have run: "PpuStep nmi s =
     (if ppu_state s1 \<in> {FETCH_NT, FETCH_AT, FETCH_BG, FETCH_BG2} then map_option next_clock (fetch_step s1)
      else if ppu_state s1 \<in> {FETCH_BAD_NT, FETCH_BAD_NT2, FETCH_SPRITE_LOW, FETCH_SPRITE_HIGH}
        then map_option next_clock (sprite_fetch_step s1)
      else if ppu_state s1 \<in> {FETCH_TAIL_NT, FETCH_TAIL_AT, FETCH_TAIL_BG, FETCH_TAIL_BG2}
        then map_option next_clock (tail_step s1)
      else if ppu_state s1 = END_NT1 then
        Some (next_clock (if even_clock s1 then s1\<lparr>ppu_state := END_NT2\<rparr> else s1))
      else if ppu_state s1 = RENDER_DISABLED_SCANLINE \<and> current_pixel_clock s1 \<noteq> 340 then Some (next_clock s1)
      else if ppu_state s1 = POSTRENDER_SCANLINE then postrender_step nmi s1
      else end_scanline s1)"
    using False st by (subst PpuStep.simps) (simp add: Let_def s1_def [symmetric])
  obtain st' c l where q: "place s1 = (st', c, l)" by (cases "place s1")
  note f = place_fields [OF q] and b = place_bounds [OF ok(2) [unfolded q]]
  consider "ppu_state s1 \<in> {FETCH_NT, FETCH_AT, FETCH_BG, FETCH_BG2}"
    | "ppu_state s1 \<in> {FETCH_BAD_NT, FETCH_BAD_NT2, FETCH_SPRITE_LOW, FETCH_SPRITE_HIGH}"
    | "ppu_state s1 \<in> {FETCH_TAIL_NT, FETCH_TAIL_AT, FETCH_TAIL_BG, FETCH_TAIL_BG2}"
    | "ppu_state s1 = END_NT1" | "ppu_state s1 = RENDER_DISABLED_SCANLINE" "c \<noteq> 340"
    | "ppu_state s1 = POSTRENDER_SCANLINE"
    | "ppu_state s1 = END_NT2 \<or> ppu_state s1 = RENDER_DISABLED_SCANLINE \<and> c = 340"
    using False st by (cases "ppu_state s1") auto
  then have "moves (PpuStep nmi s) ?r ?o (place s1) (clock_of s1)"
  proof cases
    case 1
    with fetch_moves [OF ok] run show ?thesis by simp
  next
    case 2
    with sprite_fetch_moves [OF ok] run show ?thesis by auto
  next
    case 3
    with tail_moves [OF ok] run show ?thesis by auto
  next
    case 4
    then have "PpuStep nmi s = map_option next_clock (Some (if even_clock s1 then s1\<lparr>ppu_state := END_NT2\<rparr> else s1))"
      using run by simp
    moreover have "ppu_data_ok (if even_clock s1 then s1\<lparr>ppu_state := END_NT2\<rparr> else s1)"
      "place (if even_clock s1 then s1\<lparr>ppu_state := END_NT2\<rparr> else s1) = (if even c then END_NT2 else END_NT1, c, l)"
      "clock_of (if even_clock s1 then s1\<lparr>ppu_state := END_NT2\<rparr> else s1) = clock_of s1"
      using ok(1) q f 4 by (auto simp: even_clock_iff)
    ultimately show ?thesis
      using moves_clock [OF refl, of "if even_clock s1 then s1\<lparr>ppu_state := END_NT2\<rparr> else s1"
          "if even c then END_NT2 else END_NT1" c l "clock_of s1" ?r ?o END_NT1] q f b 4 by simp
  next
    case 5
    then have "current_pixel_clock s1 \<noteq> 340" using f by auto
    with 5 run have "PpuStep nmi s = map_option next_clock (Some s1)" by simp
    with moves_clock [OF refl ok(1) q refl, of ?r ?o RENDER_DISABLED_SCANLINE] show ?thesis
      using q f b 5 by auto
  next
    case 6
    with postrender_moves [OF assms(1) ok] run show ?thesis by simp
  next
    case 7
    then have "current_pixel_clock s1 = 340" if "ppu_state s1 = RENDER_DISABLED_SCANLINE"
      using f that by (auto simp: word_unat_eq_iff)
    then have "PpuStep nmi s = end_scanline s1" using run 7 by auto
    with end_scanline_moves [OF ok] f 7 show ?thesis by auto
  qed
  then show ?thesis by (simp add: p)
qed

lemma PpuStep_ok:
  assumes "nmi_ok nmi" "ppu_ok s"
  obtains s' where "PpuStep nmi s = Some s'" "ppu_ok s'"
    "place s' = next_place (rendering_enabled s) (odd_frame s) (place s)" "clock_of s' = clock_of s"
proof -
  have "place_ok (next_place (rendering_enabled s) (odd_frame s) (place s))"
    using assms(2) next_place_ok by (auto simp: ppu_ok_def)
  then show thesis using PpuStep_moves [OF assms] that by (auto simp: moves_def ppu_ok_def)
qed

text \<open>
  C4: the step of the picture processor is safe and goes dot by dot.  From a well-formed state (bus,
  arrays, frame buffer of 240 lines, and a state that fits clock and scanline) \<open>PpuStep\<close> has no
  undefined behaviour, the new state is well formed, its place is that of the machine of places, and
  its dot is the next of the 341 * 262 of a frame, the one after it where an odd frame skips a clock.
\<close>

theorem PpuStep_next_dot:
  assumes "nmi_ok nmi" and "ppu_ok s"
  shows "\<exists>s'. PpuStep nmi s = Some s' \<and> ppu_ok s' \<and>
    place s' = next_place (rendering_enabled s) (odd_frame s) (place s) \<and>
    dot (place s') = (dot (place s) + (if skips (rendering_enabled s) (odd_frame s) (place s) then 2 else 1)) mod (341 * 262)"
proof -
  obtain s' where "PpuStep nmi s = Some s'" "ppu_ok s'"
    "place s' = next_place (rendering_enabled s) (odd_frame s) (place s)"
    using PpuStep_ok [OF assms] by blast
  moreover have "place_ok (place s)" using assms(2) by (simp add: ppu_ok_def)
  ultimately show ?thesis using next_place_dot [of "place s"] by auto
qed

section \<open>Catching up with the CPU\<close>

lemma catch_up_loop_ends:
  assumes "nmi_ok nmi" "ppu_ok s" "0 < ppu_clock_size s"
    and "unat c + unat (ppu_clock_size s) < 2 ^ 64"
  shows "\<exists>s' n. catch_up_loop nmi c s = Some s' \<and> ppu_ok s' \<and> c \<le> last_ppu_cycle s' \<and>
    unat (last_ppu_cycle s') = unat (last_ppu_cycle s) + unat (ppu_clock_size s) * n \<and>
    (last_ppu_cycle s < c \<longrightarrow> unat (last_ppu_cycle s') < unat c + unat (ppu_clock_size s))"
  using assms(2-)
proof (induction "unat c - unat (last_ppu_cycle s)" arbitrary: s rule: less_induct)
  case less
  show ?case
  proof (cases "last_ppu_cycle s < c")
    case False
    then have "catch_up_loop nmi c s = Some s" by (subst catch_up_loop.simps) simp
    with False less.prems(1) show ?thesis by (intro exI [of _ s] exI [of _ 0]) simp
  next
    case True
    define k where "k = unat (ppu_clock_size s)"
    let ?s = "s\<lparr>last_ppu_cycle := last_ppu_cycle s + ucast (ppu_clock_size s)\<rparr>"
    have k: "0 < k" "unat (ucast (ppu_clock_size s) :: u64) = k"
      using less.prems(2) by (simp_all add: k_def word_less_nat_alt unsigned_ucast_eq take_bit_nat_eq_self
          order_less_trans [OF unsigned_less])
    have t: "unat (last_ppu_cycle s) < unat c" using True by (simp add: word_less_nat_alt)
    then have next_t: "unat (last_ppu_cycle ?s) = unat (last_ppu_cycle s) + k"
      using less.prems(3) k(2) by (simp add: unat_word_ariths k_def)
    have "ppu_ok ?s" using less.prems(1) by (simp add: ppu_ok_def)
    from PpuStep_ok [OF assms(1) this] obtain s1 where
      1: "PpuStep nmi ?s = Some s1" "ppu_ok s1" "clock_of s1 = clock_of ?s" by blast
    have cl: "last_ppu_cycle s1 = last_ppu_cycle ?s" "ppu_clock_size s1 = ppu_clock_size s"
      using 1(3) by (simp_all add: clock_of_def)
    have dec: "unat c - unat (last_ppu_cycle s1) < unat c - unat (last_ppu_cycle s)"
      using t next_t k(1) cl by simp
    have pre: "0 < ppu_clock_size s1" "unat c + unat (ppu_clock_size s1) < 2 ^ 64"
      using less.prems(2,3) by (simp_all add: cl)
    obtain s' n where 2: "catch_up_loop nmi c s1 = Some s'" "ppu_ok s'" "c \<le> last_ppu_cycle s'"
      "unat (last_ppu_cycle s') = unat (last_ppu_cycle s1) + k * n"
      "last_ppu_cycle s1 < c \<longrightarrow> unat (last_ppu_cycle s') < unat c + k"
      using less.hyps [OF dec 1(2) pre] unfolding k_def cl(2) by blast
    have "unat (last_ppu_cycle s') = unat (last_ppu_cycle s) + k * Suc n"
      using 2(4) next_t cl by simp
    moreover have "unat (last_ppu_cycle s') < unat c + k"
    proof (cases "last_ppu_cycle s1 < c")
      case False
      then have "catch_up_loop nmi c s1 = Some s1" by (subst catch_up_loop.simps) simp
      then show ?thesis using 2(1) next_t t cl by simp
    qed (use 2(5) in blast)
    moreover have "catch_up_loop nmi c s = Some s'"
      using True 1(1) 2(1) by (subst catch_up_loop.simps) simp
    ultimately show ?thesis using 2(2,3) unfolding k_def by blast
  qed
qed

text \<open>
  C21: the picture processor catches up with the CPU.  With a clock size above 0 and a cycle \<open>c\<close> far
  enough from the end of the 64-bit range, \<open>CatchUpToCpu\<close> comes to an end in a well-formed state; its
  own clock has then advanced by whole PPU clocks to the first value not before \<open>c\<close>.
\<close>

theorem CatchUpToCpu_ends:
  assumes "nmi_ok nmi" and "ppu_ok s" and "0 < ppu_clock_size s"
    and "unat c + unat (ppu_clock_size s) < 2 ^ 64"
  shows "\<exists>s' n. CatchUpToCpu nmi c s = Some s' \<and> ppu_ok s' \<and> c \<le> last_ppu_cycle s' \<and>
    unat (last_ppu_cycle s') = unat (last_ppu_cycle s) + unat (ppu_clock_size s) * n \<and>
    (last_ppu_cycle s < c \<longrightarrow> unat (last_ppu_cycle s') < unat c + unat (ppu_clock_size s))"
  unfolding CatchUpToCpu_def by (rule catch_up_loop_ends [OF assms])

section \<open>A picture processor\<close>

text \<open>8 KiB of patterns, 2 KiB of name tables, mirrored, and a frame buffer, as \<open>Initialize\<close> leaves it.\<close>

definition test_page :: "nat \<Rightarrow> page" where
  "test_page i = \<lparr>ptr = Some (if i < 8 then (0, 1024 * i) else (1, 1024 * (i mod 2))),
     flags = (if i < 8 then kReadOnly else 0), io_mask = 0, io_eq = 1, cycles_per_access = 0\<rparr>"

definition test_ppu :: ppu where
  "test_ppu = ppu_Initialize True
     \<lparr>host = \<lparr>blk_size = (\<lambda>b. if b = 2 then 240 * 1024 else 8192), blk_data = (\<lambda>_ _. 0)\<rparr>,
      sysbus = bus_Init 10 14 (map test_page [0..<16])
        \<lparr>memory = \<lparr>page_size = 0, page_shift = 0, page_mask = 0, pages = []\<rparr>, mem_mask = 0,
         open_bus_is_data = True, open_bus = 0\<rparr>,
      dev = (), fb = \<lparr>fb_width = 0, fb_height = 0, fb_stride = 0, video_frame = (2, 0)\<rparr>,
      last_ppu_cycle = 0, nominal_ppu_frame_time = 89341 * 4, ppu_cycle_of_next_nmi = 0,
      ppu_clock_size = 4, num_render_scanlines = 0, num_postrender_scanlines = 0,
      num_vblank_scanlines = 0, total_scanlines = 0, current_scanline = 0, current_pixel_clock = 0,
      current_tile = \<lparr>nametable = 0, attribute = 0, tile_low = 0, tile_high = 0\<rparr>,
      next_tile = \<lparr>nametable = 0, attribute = 0, tile_low = 0, tile_high = 0\<rparr>,
      future_tile = \<lparr>nametable = 0, attribute = 0, tile_low = 0, tile_high = 0\<rparr>,
      palette_indices = replicate 32 0, rgb_palette = replicate 32 0,
      sprites = replicate 16 \<lparr>sprite_low = 0, sprite_high = 0, attrib = 0, sprite_x = 0\<rparr>,
      num_sprites = 0, ppu_state = FETCH_SCANLINE_START, latch = 0, ppudata_buffer = 0, status = 0,
      control = 0, ppumask = 0, bg_enabled = False, sprite_enabled = False, oamaddr = 0,
      vram_addr = 0, reg_t = 0, scroll_fine_x = 0, frame_id = 0, oam = replicate 256 0,
      sprite_pattern_addr = 0, bg_pattern_addr = 0, addr_write = False, increment = 1,
      rendering_enabled = False, tall_sprites = False, ppu_frame_start_time = 0, is_ntsc = False,
      frame_produced = False\<rparr>"

lemma test_ppu_ok: "ppu_ok test_ppu"
proof -
  have "ppu_page_ok (blk_size (host test_ppu)) (test_page i)" if "i < 16" for i
    using that mod_less_divisor [of 2 i]
    by (simp add: test_ppu_def ppu_Initialize_def Let_def test_page_def ppu_page_ok_def del: mod_less_divisor)
  then have "ppu_bus_ok (blk_size (host test_ppu)) (sysbus test_ppu)"
    by (auto simp: ppu_bus_ok_def test_ppu_def ppu_Initialize_def Let_def bus_Init_def mask_eq_exp_minus_1)
  moreover have "frame_ok (blk_size (host test_ppu)) (fb test_ppu)"
    by (simp add: frame_ok_def test_ppu_def ppu_Initialize_def Let_def)
  ultimately show ?thesis
    by (simp add: ppu_ok_def ppu_data_ok_def place_ok_def place_def clocks_of_def lines_of_def)
      (simp add: test_ppu_def ppu_Initialize_def Let_def)
qed

lemma nmi_ok_Some: "nmi_ok Some"
  by (simp add: nmi_ok_def)

theorem PpuStep_next_dot_witness:
  "\<exists>s'. PpuStep Some test_ppu = Some s' \<and> ppu_ok s' \<and> place s' = (RENDER_DISABLED_SCANLINE, 1, 0) \<and>
    dot (place s') = 1"
proof -
  have "place test_ppu = (FETCH_SCANLINE_START, 0, 0)" "\<not> rendering_enabled test_ppu"
    by (simp_all add: place_def test_ppu_def ppu_Initialize_def Let_def)
  with PpuStep_next_dot [OF nmi_ok_Some test_ppu_ok] show ?thesis by (auto simp: dot_def)
qed

theorem CatchUpToCpu_ends_witness:
  "\<exists>s'. CatchUpToCpu Some 10 test_ppu = Some s' \<and> ppu_ok s' \<and> last_ppu_cycle s' = 12"
proof -
  have f: "ppu_clock_size test_ppu = 4" "last_ppu_cycle test_ppu = 0"
    by (simp_all add: test_ppu_def ppu_Initialize_def Let_def)
  have h: "0 < ppu_clock_size test_ppu" "unat (10 :: u64) + unat (ppu_clock_size test_ppu) < 2 ^ 64"
    by (simp_all add: f)
  obtain s' n where "CatchUpToCpu Some 10 test_ppu = Some s'" "ppu_ok s'" "10 \<le> last_ppu_cycle s'"
    "unat (last_ppu_cycle s') = 4 * n" "unat (last_ppu_cycle s') < 14"
    using CatchUpToCpu_ends [OF nmi_ok_Some test_ppu_ok h] by (auto simp: f)
  moreover from this have "n = 3" by (simp add: word_le_nat_alt)
  ultimately show ?thesis by (auto simp: word_unat_eq_iff)
qed

end
