(* ===== verification/Ppu_Sprites.thy ===== *)
theory Ppu_Sprites
  imports Ppu_Machine
begin

text \<open>
  The evaluation of the sprites of a line finds the first eight sprites on it.
\<close>

section \<open>What the bus of the PPU holds\<close>

definition ppu_byte :: "'m ppu_scheme \<Rightarrow> u32 \<Rightarrow> u8" where
  "ppu_byte s a = fst (the (ppu_Read a s))"

lemma ppu_Read_byte:
  assumes "ppu_data_ok s"
  shows "\<exists>b. ppu_Read a s = Some (ppu_byte s a, set_open_bus b s)"
  using ppu_Read_runs [OF assms, of a] by (auto simp: ppu_byte_def)

text \<open>The byte does not depend on the open bus, nor on what drawing and evaluating change.\<close>

lemma ReadByte_value_cong:
  assumes "ppu_bus_ok (blk_size (host s)) (sysbus s)" "host t = host s"
    and "memory (sysbus t) = memory (sysbus s)" "mem_mask (sysbus t) = mem_mask (sysbus s)"
    and "open_bus_is_data (sysbus t) = open_bus_is_data (sysbus s)"
  shows "map_option (fst \<circ> fst) (ReadByte unset_io a t) = map_option (fst \<circ> fst) (ReadByte unset_io a s)"
proof -
  obtain p q where p: "page_at (page_index s (a AND mem_mask (sysbus s))) s = Some p"
    "io_mask p AND (a AND mem_mask (sysbus s)) \<noteq> io_eq p" "ptr p = Some q"
    "\<And>b. valid_ptr (host s) (ptr_add q (page_offset s b))"
    using ppu_page [OF assms(1), of a] by metis
  have b: "page_at i (set_open_bus x u) = page_at i u" "page_index (set_open_bus x u) = page_index u"
    "page_offset (set_open_bus x u) = page_offset u" "host (set_open_bus x u) = host u"
    "mem_mask (sysbus (set_open_bus x u)) = mem_mask (sysbus u)" "open_bus (sysbus (set_open_bus x u)) = x"
    for i x and u :: "'x ppu_scheme"
    by (simp_all add: set_open_bus_def page_at_def page_index_def page_offset_def fun_eq_iff)
  have t: "page_at i t = page_at i s" "page_index t = page_index s" "page_offset t = page_offset s" for i
    using assms(3) by (simp_all add: page_at_def page_index_def page_offset_def fun_eq_iff)
  show ?thesis
    using p by (simp add: ReadByte_def Let_def load_byte_def b t assms(2,4,5) cong: if_cong)
qed

lemma ppu_byte_cong:
  assumes "ppu_data_ok s" "host t = host s" "memory (sysbus t) = memory (sysbus s)"
    and "mem_mask (sysbus t) = mem_mask (sysbus s)" "open_bus_is_data (sysbus t) = open_bus_is_data (sysbus s)"
    and "palette_indices t = palette_indices s"
  shows "ppu_byte t a = ppu_byte s a"
proof -
  have bus: "ppu_bus_ok (blk_size (host s)) (sysbus s)" using assms(1) by (simp add: ppu_data_ok_def)
  then obtain v c where r: "ReadByte unset_io (a AND 0x3FFF) s = Some ((v, c), set_open_bus v s)"
    using ppu_ReadByte by blast
  with ReadByte_value_cong [OF bus assms(2-5), of "a AND 0x3FFF"] obtain c' t'
    where "ReadByte unset_io (a AND 0x3FFF) t = Some ((v, c'), t')" by auto
  moreover have "unat (palette_index (a AND 0x3FFF)) < length (palette_indices s)"
    using assms(1) palette_index_less by (simp add: ppu_data_ok_def)
  ultimately show ?thesis using r assms(6) by (simp add: ppu_byte_def ppu_Read_def Let_def)
qed

lemma ppu_byte_open_bus [simp]: "ppu_data_ok s \<Longrightarrow> ppu_byte (set_open_bus b s) a = ppu_byte s a"
  by (rule ppu_byte_cong) (simp_all add: set_open_bus_def)

section \<open>The sprites of a line\<close>

definition sprite_height :: "'m ppu_scheme \<Rightarrow> nat" where
  "sprite_height s = (if tall_sprites s then 16 else 8)"

definition on_line :: "'m ppu_scheme \<Rightarrow> nat \<Rightarrow> nat \<Rightarrow> bool" where
  "on_line s y i \<longleftrightarrow> unat (oam s ! (4 * i)) \<le> y \<and> y < unat (oam s ! (4 * i)) + sprite_height s"

text \<open>The address of a row of a pattern: tall sprites take two patterns and name their own table.\<close>

definition pattern_row :: "'m ppu_scheme \<Rightarrow> u8 \<Rightarrow> nat \<Rightarrow> nat" where
  "pattern_row s tile row =
     (if tall_sprites s then
        4096 * (unat tile mod 2) + 32 * (unat tile div 2) + (if row < 8 then row else row + 8)
      else unat (sprite_pattern_addr s) + 16 * unat tile + row)"

text \<open>Sprite number \<open>i\<close> on line \<open>y\<close>, as hardware would show it.\<close>

definition sprite_image :: "'m ppu_scheme \<Rightarrow> nat \<Rightarrow> nat \<Rightarrow> sprite" where
  "sprite_image s y i =
     (let top = unat (oam s ! (4 * i)); tile = oam s ! (4 * i + 1); a = oam s ! (4 * i + 2);
          row = (if bit a 7 then sprite_height s - 1 - (y - top) else y - top);
          addr = pattern_row s tile row
      in \<lparr>sprite_low = ppu_byte s (of_nat addr), sprite_high = ppu_byte s (of_nat (addr + 8)),
          attrib = (if i = 0 then (a AND 0xE3) OR 0x10 else a AND 0xE3), sprite_x = oam s ! (4 * i + 3)\<rparr>)"

definition line_sprites :: "'m ppu_scheme \<Rightarrow> nat \<Rightarrow> nat list" where
  "line_sprites s y = take 8 (filter (on_line s y) [0..<64])"

declare unat_ucast_u8 [simp]

lemma unat_sprite_end:
  assumes "unat t + sprite_height s < 256"
  shows "unat (sprite_end s t) = unat t + sprite_height s"
  using assms by (auto simp: sprite_end_def sprite_height_def unat_word_ariths split: if_splits)

lemma sprite_end_line:
  assumes "unat (y :: u32) < 240"
  shows "(ucast t \<le> y \<and> y < ucast (sprite_end s t)) \<longleftrightarrow> (unat t \<le> unat y \<and> unat y < unat t + sprite_height s)"
proof (cases "unat t + sprite_height s < 256")
  case True
  then show ?thesis by (simp add: word_le_nat_alt word_less_nat_alt unat_sprite_end)
next
  case False
  then have "240 \<le> unat t" by (auto simp: sprite_height_def split: if_splits)
  then show ?thesis using assms by (auto simp: word_le_nat_alt)
qed

lemma bit7: "(a :: u8) AND 0x80 \<noteq> 0 \<longleftrightarrow> bit a 7"
proof -
  have "(0x80 :: u8) = 2 ^ 7" by simp
  then show ?thesis by (simp only: and_exp_eq_0_iff_not_bit) simp
qed

lemma sprite_row_eq:
  assumes "unat (y :: u32) < 240" "unat t \<le> unat y" "unat y < unat t + sprite_height s"
  shows "unat (sprite_row y t a s) =
    (if bit a 7 then sprite_height s - 1 - (unat y - unat t) else unat y - unat t)"
proof -
  have h: "sprite_height s \<le> 16" by (simp add: sprite_height_def)
  have d: "unat (y - ucast t) = unat y - unat t"
    using assms(2) by (simp add: unat_sub_if')
  have e: "unat (ucast (sprite_end s t) - y - 1) = unat t + sprite_height s - unat y - 1"
  proof -
    have "unat (ucast (sprite_end s t) :: u32) = unat t + sprite_height s"
      using assms h by (simp add: unat_sprite_end)
    moreover from this have "unat (ucast (sprite_end s t) - y) = unat t + sprite_height s - unat y"
      using assms(3) by (simp add: unat_sub_if')
    ultimately show ?thesis using assms(3) by (simp add: unat_sub_if')
  qed
  have small: "unat (ucast (v :: u32) :: u8) = unat v" if "unat v < 16" for v
    using that by (simp add: unsigned_ucast_eq take_bit_nat_eq_self)
  show ?thesis
    using assms(2,3) h small [of "y - ucast t"] small [of "ucast (sprite_end s t) - y - 1"]
    by (simp add: sprite_row_def bit7 d e add.commute)
qed

text \<open>The two reads of the pattern.\<close>

lemma even_tile: "unat ((tile :: u8) AND 0xFE) = 2 * (unat tile div 2)" "unat (tile AND 1) = unat tile mod 2"
proof -
  have "(0xFE :: u8) = NOT (mask 1)" by (simp add: mask_eq_exp_minus_1)
  then have "tile AND 0xFE = push_bit 1 (drop_bit 1 tile)"
    by (simp only:) (rule bit_word_eqI, simp only: bit_push_bit_iff bit_drop_bit_eq bit_and_iff bit_not_iff_eq
        bit_mask_iff comp_def, auto)
  then have "unat (tile AND 0xFE) = 2 * unat (drop_bit 1 tile) mod 256"
    by (simp only: push_bit_eq_mult) (simp add: unat_word_ariths mult.commute)
  then show "unat (tile AND 0xFE) = 2 * (unat tile div 2)"
    unfolding unat_drop_bit_div using u8_less [of tile] by simp
  have "unat (tile AND mask 1) = unat tile mod 2" by (simp only: unat_and_mask_mod) simp
  then show "unat (tile AND 1) = unat tile mod 2" by simp
qed

lemma ucast_u16_and: "(ucast (tile :: u8) :: u16) AND ucast m = ucast (tile AND m)"
  by (rule bit_word_eqI) (auto simp: bit_simps)

lemma tall_address:
  "unat (ucast (push_bit 12 (ucast tile AND 1) + 16 * (ucast tile AND 0xFE) :: u16) :: u32) =
    4096 * (unat (tile :: u8) mod 2) + 32 * (unat tile div 2)"
proof -
  have 1: "(ucast tile :: u16) AND 1 = ucast (tile AND 1)" using ucast_u16_and [of tile 1] by simp
  have 2: "(ucast tile :: u16) AND 0xFE = ucast (tile AND 0xFE)" using ucast_u16_and [of tile "0xFE"] by simp
  have u: "unat (ucast (b :: u8) :: u16) = unat b" for b
    by (simp add: unsigned_ucast_eq take_bit_nat_eq_self order_less_trans [OF u8_less])
  have "unat (push_bit 12 (ucast (tile AND 1)) + 16 * ucast (tile AND 0xFE) :: u16) =
      4096 * (unat tile mod 2) + 32 * (unat tile div 2)"
    using u8_less [of tile]
    by (simp only: push_bit_eq_mult) (simp add: unat_word_ariths u even_tile)
  moreover have "4096 * (unat tile mod 2) + 32 * (unat tile div 2) < 2 ^ 32"
  proof -
    have "unat tile mod 2 < 2" "unat tile div 2 < 128" using u8_less [of tile] by simp_all
    then show ?thesis by simp
  qed
  ultimately show ?thesis
    unfolding 1 2 by (simp add: unsigned_ucast_eq take_bit_nat_eq_self)
qed

lemma ReadSprite_addr:
  assumes "unat row < sprite_height s" "sprite_pattern_addr s \<in> {0, 0x1000}"
  shows "ReadSpriteBit0 (ucast tile) row s = ppu_Read (of_nat (pattern_row s tile (unat row))) s"
    and "ReadSpriteBit1 (ucast tile) row s = ppu_Read (of_nat (pattern_row s tile (unat row) + 8)) s"
proof -
  have r: "(ucast row :: u32) = of_nat (unat row)" by (simp add: word_unat_eq_iff unat_of_nat order_less_trans [OF u8_less])
  have t: "(ucast (ucast tile :: u16) :: u32) = of_nat (unat tile)"
    by (rule bit_word_eqI) (auto simp: bit_simps dest: bit_imp_le_length)
  have a: "(ucast (push_bit 12 (ucast tile AND 1) + 16 * (ucast tile AND 0xFE) :: u16) :: u32) =
      of_nat (4096 * (unat tile mod 2) + 32 * (unat tile div 2))"
  proof (rule word_unat_eq_iff [THEN iffD2])
    have "unat tile mod 2 < 2" "unat tile div 2 < 128" using u8_less [of tile] by simp_all
    then have "4096 * (unat tile mod 2) + 32 * (unat tile div 2) < 2 ^ LENGTH(32)" by simp
    then have "unat (of_nat (4096 * (unat tile mod 2) + 32 * (unat tile div 2)) :: u32) =
        4096 * (unat tile mod 2) + 32 * (unat tile div 2)"
      by (simp only: unat_of_nat mod_less)
    then show "unat (ucast (push_bit 12 (ucast tile AND 1) + 16 * (ucast tile AND 0xFE) :: u16) :: u32) =
        unat (of_nat (4096 * (unat tile mod 2) + 32 * (unat tile div 2)) :: u32)"
      by (simp only: tall_address)
  qed
  have p: "(ucast (sprite_pattern_addr s) :: u32) = of_nat (unat (sprite_pattern_addr s))"
    using assms(2) by auto
  have h: "row \<ge> 8 \<longleftrightarrow> 8 \<le> unat row" by (simp add: word_le_nat_alt)
  show "ReadSpriteBit0 (ucast tile) row s = ppu_Read (of_nat (pattern_row s tile (unat row))) s"
    by (simp only: ReadSpriteBit0_def pattern_row_def Let_def h r t a p) (simp add: ac_simps)
  show "ReadSpriteBit1 (ucast tile) row s = ppu_Read (of_nat (pattern_row s tile (unat row) + 8)) s"
    by (simp only: ReadSpriteBit1_def pattern_row_def Let_def h r t a p) (simp add: ac_simps)
qed

lemma evaluated_image:
  assumes "ppu_data_ok s" "evaluated s t"
  shows "sprite_image t y i = sprite_image s y i" "on_line t = on_line s"
    "sprite_pattern_addr t = sprite_pattern_addr s"
proof -
  obtain b sp n where t: "t = (set_open_bus b s)\<lparr>sprites := sp, num_sprites := n\<rparr>"
    using assms(2) unfolding evaluated_def by blast
  have "ppu_byte t a = ppu_byte s a" for a
    by (rule ppu_byte_cong [OF assms(1)]) (simp_all add: t set_open_bus_def)
  then have eqs: "ppu_byte t = ppu_byte s" "sprite_height t = sprite_height s" "pattern_row t = pattern_row s"
    "oam t = oam s"
    and p: "sprite_pattern_addr t = sprite_pattern_addr s"
    by (simp_all add: t sprite_height_def pattern_row_def set_open_bus_def fun_eq_iff)
  show "sprite_image t y i = sprite_image s y i" by (simp only: sprite_image_def eqs)
  show "on_line t = on_line s" by (simp only: fun_eq_iff on_line_def eqs) simp
  show "sprite_pattern_addr t = sprite_pattern_addr s" by (rule p)
qed

lemma load_sprite_image:
  assumes "ppu_data_ok s" "sprite_pattern_addr s \<in> {0, 0x1000}" "unat y < 240" "i < 64"
    and "on_line s (unat y) i" "num_sprites s < 8"
  shows "\<exists>c. load_sprite y (4 * i) s = Some ((set_open_bus c s)
    \<lparr>sprites := (sprites s)[num_sprites s := sprite_image s (unat y) i], num_sprites := num_sprites s + 1\<rparr>)"
proof -
  let ?t = "oam s ! (4 * i)" and ?a = "oam s ! (4 * i + 2)" and ?tile = "oam s ! (4 * i + 1)"
  let ?row = "sprite_row y ?t ?a s"
  have on: "unat ?t \<le> unat y" "unat y < unat ?t + sprite_height s" using assms(5) by (simp_all add: on_line_def)
  note row = sprite_row_eq [OF assms(3) on, of ?a]
  have h: "unat ?row < sprite_height s" using on unfolding row by auto
  obtain b c where 1: "ReadSpriteBit0 (ucast ?tile) ?row s =
      Some (ppu_byte s (of_nat (pattern_row s ?tile (unat ?row))), set_open_bus b s)"
    and 2: "ReadSpriteBit1 (ucast ?tile) ?row (set_open_bus b s) =
      Some (ppu_byte s (of_nat (pattern_row s ?tile (unat ?row) + 8)), set_open_bus c s)"
  proof -
    obtain b where b: "ReadSpriteBit0 (ucast ?tile) ?row s =
        Some (ppu_byte s (of_nat (pattern_row s ?tile (unat ?row))), set_open_bus b s)"
      unfolding ReadSprite_addr(1) [OF h assms(2)] using ppu_Read_byte [OF assms(1)] by blast
    let ?s = "set_open_bus b s"
    have eq: "sprite_height ?s = sprite_height s" "sprite_pattern_addr ?s = sprite_pattern_addr s"
      "pattern_row ?s = pattern_row s" "ppu_data_ok ?s"
      using assms(1) by (simp_all add: sprite_height_def pattern_row_def set_open_bus_def fun_eq_iff ppu_data_ok_def
          ppu_bus_ok_def)
    obtain c where "ReadSpriteBit1 (ucast ?tile) ?row ?s =
        Some (ppu_byte s (of_nat (pattern_row s ?tile (unat ?row) + 8)), set_open_bus c s)"
      using ReadSprite_addr(2) [of ?row ?s ?tile] h assms(2) ppu_Read_byte [OF eq(4)] assms(1)
      unfolding eq by fastforce
    with b that show thesis by blast
  qed
  have f: "oam (set_open_bus c s) = oam s" "sprites (set_open_bus c s) = sprites s"
    "num_sprites (set_open_bus c s) = num_sprites s"
    by (simp_all add: set_open_bus_def)
  have l: "length (oam s) = 256" "length (sprites s) = 16" using assms(1) by (simp_all add: ppu_data_ok_def)
  have "sprite_image s (unat y) i = \<lparr>sprite_low = ppu_byte s (of_nat (pattern_row s ?tile (unat ?row))),
      sprite_high = ppu_byte s (of_nat (pattern_row s ?tile (unat ?row) + 8)),
      attrib = (if 4 * i = 0 then (?a AND 0xE3) OR 0x10 else ?a AND 0xE3), sprite_x = oam s ! (4 * i + 3)\<rparr>"
    unfolding sprite_image_def Let_def row [symmetric] by simp
  with 1 2 l assms(4,6) show ?thesis
    by (intro exI [of _ c]) (simp add: load_sprite_def Let_def f cong: if_cong)
qed

lemma evaluate_full:
  assumes "num_sprites s = 8" "length (oam s) = 256"
  shows "evaluate_loop y index s = Some s"
  using assms
proof (induction y index s rule: evaluate_loop.induct)
  case (1 y index s)
  then show ?case by (subst evaluate_loop.simps) (auto simp: Let_def)
qed

lemma upt_split: "i < n \<Longrightarrow> [i..<n] = i # [Suc i..<n]"
  by (rule upt_conv_Cons)

lemma evaluate_loop_images:
  assumes "ppu_data_ok s" "sprite_pattern_addr s \<in> {0, 0x1000}" "unat y < 240" "i \<le> 64" "num_sprites s \<le> 8"
  shows "\<exists>s'. evaluate_loop y (4 * i) s = Some s' \<and> evaluated s s' \<and>
    take (num_sprites s') (sprites s') = take (num_sprites s) (sprites s) @
      map (sprite_image s (unat y)) (take (8 - num_sprites s) (filter (on_line s (unat y)) [i..<64]))"
  using assms
proof (induction "64 - i" arbitrary: i s)
  case 0
  then have "evaluate_loop y (4 * i) s = Some s" by (subst evaluate_loop.simps) simp
  with 0 evaluated_refl show ?case by auto
next
  case (Suc d)
  have l: "length (oam s) = 256" "length (sprites s) = 16" using Suc.prems(1) by (simp_all add: ppu_data_ok_def)
  have i: "i < 64" "d = 64 - Suc i" using Suc.hyps(2) by simp_all
  note on = sprite_end_line [OF Suc.prems(3), of "oam s ! (4 * i)" s]
  show ?case
  proof (cases "num_sprites s = 8")
    case True
    with evaluate_full [OF True l(1)] evaluated_refl [of s] show ?thesis by auto
  next
    case False
    then have n: "num_sprites s < 8" using Suc.prems(5) by simp
    show ?thesis
    proof (cases "on_line s (unat y) i")
      case True
      obtain c where load: "load_sprite y (4 * i) s = Some ((set_open_bus c s)
          \<lparr>sprites := (sprites s)[num_sprites s := sprite_image s (unat y) i], num_sprites := num_sprites s + 1\<rparr>)"
        using load_sprite_image [OF Suc.prems(1-3) i(1) True n] by blast
      define s1 where "s1 = (set_open_bus c s)
          \<lparr>sprites := (sprites s)[num_sprites s := sprite_image s (unat y) i], num_sprites := num_sprites s + 1\<rparr>"
      have e1: "evaluated s s1"
        unfolding evaluated_def s1_def using n
        by (intro exI [of _ c] exI [of _ "(sprites s)[num_sprites s := sprite_image s (unat y) i]"]
            exI [of _ "num_sprites s + 1"]) simp
      note ok1 = evaluated_ok(1,4) [OF e1 Suc.prems(1)] evaluated_image [OF Suc.prems(1) e1]
      obtain s' where s': "evaluate_loop y (4 * Suc i) s1 = Some s'" "evaluated s1 s'"
        "take (num_sprites s') (sprites s') = take (num_sprites s1) (sprites s1) @
          map (sprite_image s (unat y)) (take (8 - num_sprites s1) (filter (on_line s (unat y)) [Suc i..<64]))"
        using Suc.hyps(1) [OF i(2) ok1(1) _ Suc.prems(3) _ ok1(2)] Suc.prems(2) i(1) by (auto simp: ok1)
      have "evaluate_loop y (4 * i) s = Some s'"
        using True s'(1) i l n load on
        by (subst evaluate_loop.simps) (simp add: on_line_def s1_def add.commute)
      moreover have "take (num_sprites s1) (sprites s1) = take (num_sprites s) (sprites s) @ [sprite_image s (unat y) i]"
        using n l by (simp add: s1_def take_Suc_conv_app_nth)
      moreover have "num_sprites s1 = Suc (num_sprites s)" by (simp add: s1_def)
      moreover have "8 - num_sprites s = Suc (8 - Suc (num_sprites s))" using n by simp
      ultimately show ?thesis
        using s'(2,3) True evaluated_trans [OF e1 s'(2)] upt_split [OF i(1)] by auto
    next
      case off: False
      obtain s' where s': "evaluate_loop y (4 * Suc i) s = Some s'" "evaluated s s'"
        "take (num_sprites s') (sprites s') = take (num_sprites s) (sprites s) @
          map (sprite_image s (unat y)) (take (8 - num_sprites s) (filter (on_line s (unat y)) [Suc i..<64]))"
        using Suc.hyps(1) [OF i(2) Suc.prems(1-3) _ Suc.prems(5)] i(1) by auto
      have off': "\<not> (ucast (oam s ! (4 * i)) \<le> y \<and> y < ucast (sprite_end s (oam s ! (4 * i))))"
        using off on by (simp add: on_line_def)
      have "evaluate_loop y (4 * i + 4) s = Some s'" using s'(1) by (simp add: add.commute)
      then have "evaluate_loop y (4 * i) s = Some s'"
        using off' i l n by (subst evaluate_loop.simps) (simp add: Let_def del: de_Morgan_conj)
      with s' off upt_split [OF i(1)] show ?thesis by auto
    qed
  qed
qed

text \<open>
  C9: the sprites of a line are the first eight on it.  On a well-formed state \<open>EvaluateSprites\<close>, with
  its diagonal scan after the eighth sprite, finds exactly the sprites a plain search does: the
  first eight of the 64, in order, whose rows cover the line, each with the two bytes of its
  pattern row (counted from below if flipped, in the table and half a tall sprite names), its
  attributes, marked if it is sprite 0, and its column.
\<close>

theorem EvaluateSprites_first_eight:
  assumes "ppu_data_ok s" and "sprite_pattern_addr s \<in> {0, 0x1000}"
    and "1 \<le> unat (current_scanline s)" and "unat (current_scanline s) \<le> 240"
  shows "let y = unat (current_scanline s) - 1 in
    \<exists>s'. EvaluateSprites s = Some s' \<and> ppu_data_ok s' \<and>
      take (num_sprites s') (sprites s') = map (sprite_image s y) (line_sprites s y) \<and>
      num_sprites s' = length (line_sprites s y)"
proof -
  let ?y = "current_scanline s - 1" and ?s = "s\<lparr>num_sprites := 0\<rparr>"
  have y: "unat ?y = unat (current_scanline s) - 1" using assms(3) by (simp add: unat_sub_if')
  have ok: "ppu_data_ok ?s" using assms(1) by (simp add: ppu_data_ok_def)
  have e0: "evaluated s ?s"
    unfolding evaluated_def
    by (rule exI [of _ "open_bus (sysbus s)"], rule exI [of _ "sprites s"], rule exI [of _ 0])
      (simp add: set_open_bus_same)
  have "unat ?y < 240" using y assms(4) by simp
  then obtain s' where s': "evaluate_loop ?y 0 ?s = Some s'" "evaluated ?s s'"
    "take (num_sprites s') (sprites s') = map (sprite_image s (unat ?y)) (line_sprites s (unat ?y))"
    using evaluate_loop_images [OF ok, of ?y 0] assms(2) evaluated_image [OF assms(1) e0]
    by (auto simp: line_sprites_def)
  note ok' = evaluated_ok(1) [OF s'(2) ok]
  then have "num_sprites s' = length (take (num_sprites s') (sprites s'))" by (simp add: ppu_data_ok_def)
  then have "num_sprites s' = length (line_sprites s (unat ?y))" using s'(3) by simp
  with s' ok' y show ?thesis by (auto simp: EvaluateSprites_def Let_def)
qed

theorem EvaluateSprites_first_eight_witness:
  "\<exists>s'. EvaluateSprites (test_ppu\<lparr>current_scanline := 1\<rparr>) = Some s' \<and> ppu_data_ok s' \<and> num_sprites s' = 8"
proof -
  let ?s = "test_ppu\<lparr>current_scanline := 1\<rparr>"
  have ok: "ppu_data_ok ?s" using test_ppu_ok by (simp add: ppu_ok_def)
  have f: "sprite_pattern_addr ?s \<in> {0, 0x1000}" "1 \<le> unat (current_scanline ?s)"
    "unat (current_scanline ?s) \<le> 240"
    by (simp_all add: test_ppu_def ppu_Initialize_def Let_def)
  have "on_line ?s 0 i" if "i < 64" for i
    using that by (simp add: on_line_def sprite_height_def test_ppu_def ppu_Initialize_def Let_def)
  then have "filter (on_line ?s 0) [0..<64] = [0..<64]" by (intro filter_True) auto
  then have "length (line_sprites ?s 0) = 8" by (simp add: line_sprites_def)
  with EvaluateSprites_first_eight [OF ok f] show ?thesis by (auto simp: Let_def)
qed

end
