(* ===== verification/Ppu_Access.thy ===== *)
theory Ppu_Access
  imports Ppu_Machine
begin

text \<open>
  The memory of the picture processor as the program of the NES sees it, through the registers: the
  palette and its mirrors, the address and data registers, the scroll address.
\<close>

section \<open>The palette\<close>

definition palette_address :: "u32 \<Rightarrow> bool" where
  "palette_address a \<longleftrightarrow> a AND 0x3FFF \<ge> 0x3F00"

definition palette_entry :: "u32 \<Rightarrow> nat" where
  "palette_entry a = unat (palette_index (a AND 0x3FFF))"

lemma palette_entry_less: "palette_entry a < 32"
  by (simp add: palette_entry_def palette_index_less)

lemma palette_entry_eq:
  "palette_entry a = (let n = unat a mod 32 in if 16 \<le> n \<and> n mod 4 = 0 then n - 16 else n)"
proof -
  have all: "\<forall>n \<in> set [0..<32]. unat (palette_index (of_nat n)) = (if 16 \<le> n \<and> n mod 4 = 0 then n - 16 else n)"
    by code_simp
  have m: "(0x1F :: u32) = mask 5" "(0x3FFF :: u32) = mask 14" by (simp_all add: mask_eq_exp_minus_1)
  define n where "n = unat a mod 32"
  have u: "unat (a AND mask 5) = n" unfolding n_def by (simp only: unat_and_mask_mod) simp
  then have "of_nat n = a AND mask 5" unfolding u [symmetric] by simp
  moreover have "(a AND mask 14) AND mask 5 = (a AND mask 5) AND mask 5"
    by (rule bit_word_eqI) (auto simp: bit_simps)
  ultimately have "palette_index (a AND 0x3FFF) = palette_index (of_nat n)"
    unfolding palette_index_def m by simp
  moreover have "n \<in> set [0..<32]" by (simp add: n_def)
  ultimately have "palette_entry a = (if 16 \<le> n \<and> n mod 4 = 0 then n - 16 else n)"
    using all by (simp add: palette_entry_def)
  then show ?thesis by (simp only: Let_def n_def)
qed

lemma mirror_arith:
  assumes "n < 32" "m < (32 :: nat)"
  shows "(if 16 \<le> m \<and> m mod 4 = 0 then m - 16 else m) = (if 16 \<le> n \<and> n mod 4 = 0 then n - 16 else n) \<longleftrightarrow>
    m = n \<or> n mod 4 = 0 \<and> (if m < 16 then m else m - 16) = (if n < 16 then n else n - 16)"
proof -
  have mod4: "(16 + k) mod 4 = k mod 4" for k :: nat
    using mod_mult_self2 [of k 4 4] by (simp add: add.commute)
  show ?thesis
  proof (cases "m < 16"; cases "n < 16")
    assume "m < 16" "\<not> n < 16"
    moreover from this obtain j where "n = 16 + j" using le_Suc_ex [of 16 n] by auto
    ultimately show ?thesis by (auto simp: mod4)
  next
    assume "\<not> m < 16" "n < 16"
    moreover from this obtain k where "m = 16 + k" using le_Suc_ex [of 16 m] by auto
    ultimately show ?thesis by (auto simp: mod4)
  next
    assume mn: "\<not> m < 16" "\<not> n < 16"
    obtain k where k: "m = 16 + k" using mn le_Suc_ex [of 16 m] by auto
    obtain j where j: "n = 16 + j" using mn le_Suc_ex [of 16 n] by auto
    show ?thesis using assms unfolding k j by (auto simp: mod4)
  qed auto
qed

lemma palette_mirrors:
  "palette_entry b = palette_entry a \<longleftrightarrow>
    unat b mod 32 = unat a mod 32 \<or> unat a mod 4 = 0 \<and> unat b mod 16 = unat a mod 16"
proof -
  define n m where "n = unat a mod 32" and "m = unat b mod 32"
  have a: "unat a mod 4 = n mod 4" "unat a mod 16 = n mod 16" "unat b mod 16 = m mod 16"
    by (simp_all add: n_def m_def mod_mod_cancel)
  have "n < 32" "m < 32" by (simp_all add: n_def m_def)
  moreover from this have "n mod 16 = (if n < 16 then n else n - 16)" "m mod 16 = (if m < 16 then m else m - 16)"
    by (simp_all add: le_mod_geq)
  ultimately show ?thesis
    unfolding a palette_entry_eq Let_def n_def [symmetric] m_def [symmetric]
    by (simp only: mirror_arith)
qed

text \<open>
  The palette keeps what is written, and its mirrors are one.  On a well-formed state a write of
  \<open>v\<close> to a palette address succeeds; reading the address or any mirror of it gives the six low bits of
  \<open>v\<close>, the colour drawn for this entry is that of the global palette, every other entry reads as before,
  and the entries 0x10, 0x14, 0x18 and 0x1C are those 0x10 below.
\<close>

theorem palette_write_read:
  assumes "ppu_data_ok s" and "palette_address a" and "palette_address b"
  shows "\<exists>s'. ppu_Write a v s = Some s' \<and> ppu_data_ok s' \<and>
    ppu_Read b s' = Some (if palette_entry b = palette_entry a then v AND 0x3F else fst (the (ppu_Read b s)), s') \<and>
    rgb_palette s' ! palette_entry a = global_rgb_palette ! unat (v AND 0x3F) \<and>
    (palette_entry b = palette_entry a \<longleftrightarrow> unat b mod 32 = unat a mod 32 \<or>
       unat a mod 4 = 0 \<and> unat b mod 16 = unat a mod 16)"
proof -
  have f: "palette_entry a < length (palette_indices s)" "palette_entry a < length (rgb_palette s)"
    "palette_entry b < length (palette_indices s)"
    using assms(1) palette_entry_less by (simp_all add: ppu_data_ok_def)
  define s' where "s' = s\<lparr>palette_indices := (palette_indices s)[palette_entry a := v AND 0x3F],
    rgb_palette := (rgb_palette s)[palette_entry a := global_rgb_palette ! unat (v AND 0x3F)]\<rparr>"
  have "ppu_Write a v s = Some s'"
    using assms(2) f by (simp add: ppu_Write_def palette_address_def palette_entry_def Let_def s'_def)
  moreover have "ppu_data_ok s'" using assms(1) by (simp add: ppu_data_ok_def s'_def)
  moreover have "ppu_Read b s' =
      Some (if palette_entry b = palette_entry a then v AND 0x3F else fst (the (ppu_Read b s)), s')"
    using assms(3) f by (auto simp: ppu_Read_def palette_address_def palette_entry_def Let_def s'_def)
  moreover have "rgb_palette s' ! palette_entry a = global_rgb_palette ! unat (v AND 0x3F)"
    using f by (simp add: s'_def)
  ultimately show ?thesis using palette_mirrors by blast
qed

theorem palette_write_read_witness:
  "\<exists>s'. ppu_Write 0x3F04 0x45 test_ppu = Some s' \<and> ppu_Read 0x3F34 s' = Some (5, s')"
proof -
  have ok: "ppu_data_ok test_ppu" using test_ppu_ok by (simp add: ppu_ok_def)
  have "palette_address 0x3F04" "palette_address 0x3F34" by (simp_all add: palette_address_def)
  from palette_write_read [OF ok this, of "0x45"] show ?thesis
    by (auto simp: palette_mirrors)
qed

section \<open>The address and data registers\<close>

text \<open>A write to the data register, with the address set by two writes behind a read of the status.\<close>

definition set_address :: "u16 \<Rightarrow> 'm ppu_scheme \<Rightarrow> 'm ppu_scheme option" where
  "set_address a s = do {
     (_, s) \<leftarrow> read_register 2 s;
     s \<leftarrow> write_register 6 (hi8 a) s;
     write_register 6 (lo8 a) s
   }"

lemma set_address_runs:
  assumes "a < 0x4000"
  shows "\<exists>l st. set_address a s = Some (s\<lparr>latch := l, status := st, addr_write := False,
    reg_t := a, vram_addr := a\<rparr>)"
proof -
  have m: "(0x3F :: u8) = mask 6" "(0xFF :: u16) = mask 8" "(0xFF00 :: u16) = push_bit 8 (mask 8)"
    by (simp_all add: mask_eq_exp_minus_1 push_bit_eq_mult)
  have a: "a AND mask 14 = a"
    by (rule less_mask_eq) (use assms in simp)
  have "(((reg_t s AND 0xFF) OR push_bit 8 (ucast (hi8 a AND 0x3F))) AND 0xFF00) OR ucast (lo8 a) = a AND mask 14"
    unfolding m by (rule bit_word_eqI) (auto simp: bit_simps hi8_def lo8_def)
  then have "set_address a s = Some (s\<lparr>latch := lo8 a, status := status s AND 0x7F, addr_write := False,
      reg_t := a, vram_addr := a\<rparr>)"
    by (cases s) (simp add: set_address_def read_register_def write_register_def write_address_def Let_def a)
  then show ?thesis by blast
qed

lemma ppu_ram_ptr:
  assumes "ppu_bus_ok (blk_size (host s)) (sysbus s)"
  obtains q where "ram_ptr s a = Some q"
proof -
  obtain p q where "page_at (page_index s (a AND mem_mask (sysbus s))) s = Some p"
    "io_mask p AND (a AND mem_mask (sysbus s)) \<noteq> io_eq p" "ptr p = Some q"
    "\<And>b. valid_ptr (host s) (ptr_add q (page_offset s b))"
    using ppu_page [OF assms, of a] by metis
  then have "ram_ptr s a = Some (ptr_add q (page_offset s (a AND mem_mask (sysbus s))))"
    by (simp add: ram_ptr_def Let_def)
  then show thesis by (rule that)
qed

text \<open>Bus state and memory as the registers' members see them.\<close>

lemma ram_ptr_members [simp]:
  "ram_ptr (s\<lparr>latch := l\<rparr>) = ram_ptr s" "ram_ptr (s\<lparr>status := st\<rparr>) = ram_ptr s"
  "ram_ptr (s\<lparr>addr_write := w\<rparr>) = ram_ptr s" "ram_ptr (s\<lparr>reg_t := t\<rparr>) = ram_ptr s"
  "ram_ptr (s\<lparr>vram_addr := a\<rparr>) = ram_ptr s" "ram_ptr (s\<lparr>ppudata_buffer := b\<rparr>) = ram_ptr s"
  "ram_byte (s\<lparr>latch := l\<rparr>) = ram_byte s" "ram_byte (s\<lparr>status := st\<rparr>) = ram_byte s"
  "ram_byte (s\<lparr>addr_write := w\<rparr>) = ram_byte s" "ram_byte (s\<lparr>reg_t := t\<rparr>) = ram_byte s"
  "ram_byte (s\<lparr>vram_addr := a\<rparr>) = ram_byte s" "ram_byte (s\<lparr>ppudata_buffer := b\<rparr>) = ram_byte s"
  "page_flags (s\<lparr>latch := l\<rparr>) = page_flags s" "page_flags (s\<lparr>status := st\<rparr>) = page_flags s"
  "page_flags (s\<lparr>addr_write := w\<rparr>) = page_flags s" "page_flags (s\<lparr>reg_t := t\<rparr>) = page_flags s"
  "page_flags (s\<lparr>vram_addr := a\<rparr>) = page_flags s" "page_flags (s\<lparr>ppudata_buffer := b\<rparr>) = page_flags s"
  by (rule ram_cong; simp)+

lemma read_data_register:
  assumes "ram_ptr s (ucast (vram_addr s)) = Some q" "vram_addr s + increment s < 0x3F00"
  shows "\<exists>b. read_register 7 s = Some (ppudata_buffer s, (set_open_bus b s)\<lparr>latch := ppudata_buffer s,
    ppudata_buffer := ram_byte s q, vram_addr := vram_addr s + increment s\<rparr>)"
proof -
  let ?s = "s\<lparr>latch := ppudata_buffer s\<rparr>"
  have "ReadByte unset_io (ucast (vram_addr s)) ?s =
      Some ((ram_byte s q, page_cycles ?s (ucast (vram_addr s))), set_open_bus (ram_byte s q) ?s)"
    using ReadByte_ram [of ?s "ucast (vram_addr s)" q unset_io] assms(1) by simp
  moreover have "\<not> 0x3F00 \<le> vram_addr s + increment s" using assms(2) by (simp only: not_le)
  ultimately show ?thesis
    by (intro exI [of _ "ram_byte s q"]) (simp add: read_register_def set_open_bus_def)
qed

lemma write_data_register:
  assumes "ram_ptr s (ucast (vram_addr s)) = Some q" "page_flags s (ucast (vram_addr s)) AND kReadOnly = 0"
    and "vram_addr s < 0x3F00"
  shows "\<exists>b. write_register 7 v s = Some ((set_open_bus b (ram_store q v s))\<lparr>latch := v,
    vram_addr := vram_addr s + increment s\<rparr>)"
proof -
  let ?s = "s\<lparr>latch := v\<rparr>"
  have "unat (vram_addr s) < 16384" using assms(3) by (simp add: word_less_nat_alt)
  then have "(ucast (vram_addr s) :: u32) < 2 ^ 14"
    by (simp add: word_less_nat_alt unsigned_ucast_eq take_bit_nat_eq_self)
  then have a: "(ucast (vram_addr s) :: u32) AND 0x3FFF = ucast (vram_addr s)"
    using less_mask_eq [of "ucast (vram_addr s) :: u32" 14] by (simp add: mask_eq_exp_minus_1)
  have n: "\<not> (ucast (vram_addr s) :: u32) \<ge> 0x3F00"
    using assms(3) by (simp add: word_le_nat_alt word_less_nat_alt unsigned_ucast_eq take_bit_nat_eq_self)
  have "WriteByte unset_io (ucast (vram_addr s)) v ?s = Some (page_cycles ?s (ucast (vram_addr s)),
      set_open_bus (bus_latch ?s (ucast (vram_addr s)) v) (ram_store q v ?s))"
    using assms(1,2) by (intro WriteByte_ram) simp_all
  then show ?thesis
    by (intro exI [of _ "bus_latch ?s (ucast (vram_addr s)) v"])
      (simp add: write_register_def ppu_Write_def Let_def a n ram_store_def set_open_bus_def)
qed


text \<open>
  Reading the palette through the data register gives the wrong entry.  At a palette address the
  register returns the entry of the address after the increment, not that of the address itself.
\<close>

theorem palette_read_ahead:
  assumes "ppu_data_ok s" and "vram_addr s \<ge> 0x3F00" and "increment s = 1" and "vram_addr s < 0x3FFF"
  shows "\<exists>s'. read_register 7 s = Some (palette_indices s ! palette_entry (ucast (vram_addr s) + 1), s')"
proof -
  have bus: "ppu_bus_ok (blk_size (host s)) (sysbus s)" using assms(1) by (simp add: ppu_data_ok_def)
  obtain q where q: "ram_ptr s (ucast (vram_addr s)) = Some q" by (rule ppu_ram_ptr [OF bus])
  have v: "0x3F00 \<le> unat (vram_addr s)" "unat (vram_addr s) < 0x3FFF"
    using assms(2,4) by (simp_all add: word_le_nat_alt word_less_nat_alt)
  then have v1: "unat (vram_addr s + 1) = unat (vram_addr s) + 1" by (simp add: unat_word_ariths)
  then have up: "0x3F00 \<le> vram_addr s + 1" using v(1) by (simp add: word_le_nat_alt)
  let ?a = "ucast (vram_addr s + 1) :: u32"
  have ua: "unat ?a = unat (vram_addr s) + 1"
    using v v1 by (simp add: unsigned_ucast_eq take_bit_nat_eq_self)
  have e: "?a = ucast (vram_addr s) + 1"
    using v by (simp add: word_unat_eq_iff ua unat_word_ariths unsigned_ucast_eq take_bit_nat_eq_self)
  have "?a < 2 ^ 14" using v by (simp add: word_less_nat_alt ua)
  then have m: "?a AND 0x3FFF = ?a"
    using less_mask_eq [of ?a 14] by (simp add: mask_eq_exp_minus_1)
  have p: "0x3F00 \<le> ?a" using v by (simp add: word_le_nat_alt ua)
  have l: "palette_entry ?a < length (palette_indices s)"
    using palette_entry_less assms(1) by (simp add: ppu_data_ok_def)
  let ?s = "s\<lparr>latch := ppudata_buffer s\<rparr>"
  let ?s1 = "(set_open_bus (ram_byte s q) ?s)\<lparr>ppudata_buffer := ram_byte s q, vram_addr := vram_addr s + 1\<rparr>"
  have "ReadByte unset_io (ucast (vram_addr s)) ?s =
      Some ((ram_byte s q, page_cycles ?s (ucast (vram_addr s))), set_open_bus (ram_byte s q) ?s)"
    using ReadByte_ram [of ?s "ucast (vram_addr s)" q unset_io] q by simp
  moreover have "ppu_Read ?a ?s1 = Some (palette_indices s ! palette_entry ?a, ?s1)"
    using l by (simp add: ppu_Read_def Let_def m p palette_entry_def set_open_bus_def)
  moreover have "vram_addr (set_open_bus x ?s) = vram_addr s" "increment (set_open_bus x ?s) = 1" for x
    using assms(3) by (simp_all add: set_open_bus_def)
  ultimately have "read_register 7 s = Some (palette_indices s ! palette_entry ?a,
      ?s1\<lparr>latch := palette_indices s ! palette_entry ?a\<rparr>)"
    using up by (simp add: read_register_def)
  then show ?thesis unfolding e by blast
qed

theorem palette_read_ahead_witness:
  "\<exists>s'. read_register 7 (test_ppu\<lparr>vram_addr := 0x3F00, palette_indices := map of_nat [0..<32]\<rparr>) = Some (1, s')"
proof -
  let ?s = "test_ppu\<lparr>vram_addr := 0x3F00, palette_indices := map of_nat [0..<32]\<rparr>"
  have ok: "ppu_data_ok ?s" using test_ppu_ok by (simp add: ppu_ok_def ppu_data_ok_def)
  have f: "vram_addr ?s \<ge> 0x3F00" "increment ?s = 1" "vram_addr ?s < 0x3FFF"
    by (simp_all add: test_ppu_def ppu_Initialize_def Let_def)
  have "palette_entry (ucast (0x3F00 :: u16) + 1) = 1" by (simp add: palette_entry_eq)
  with palette_read_ahead [OF ok f] show ?thesis by simp
qed


end
