(* ===== verification/Ppu_Scroll.thy ===== *)
theory Ppu_Scroll
  imports Ppu_Machine
begin

text \<open>
  The scroll address of the picture processor: \<open>IncrHoriz\<close> counts the 64 columns of two name tables,
  \<open>IncrVert\<close> the 240 rows of one; and the NMI of the vertical blank.
\<close>

section \<open>Columns\<close>

text \<open>Coarse X is bits 0 to 4 of the address, the horizontal name table bit 10.\<close>

definition column :: "u16 \<Rightarrow> nat" where
  "column v = unat v mod 32 + 32 * (unat v div 1024 mod 2)"

lemma and_mask_16: "v AND 0x1F = 0x1F \<longleftrightarrow> unat (v :: u16) mod 32 = 31"
proof -
  have m: "(0x1F :: u16) = mask 5" by (simp add: mask_eq_exp_minus_1)
  have "unat (v AND mask 5) = unat v mod 32" by (simp only: unat_and_mask_mod) simp
  then show ?thesis by (simp add: word_unat_eq_iff m) (simp add: mask_eq_exp_minus_1)
qed

lemma bit_10: "unat (v :: u16) div 1024 mod 2 = of_bool (bit v 10)"
proof -
  have "bit v 10 = bit (unat v) 10" by (simp add: bit_unsigned_iff)
  also have "\<dots> = odd (unat v div 1024)" by (simp add: bit_iff_odd)
  finally show ?thesis by (simp add: of_bool_odd_eq_mod_2)
qed

text \<open>
  \<open>IncrHoriz\<close> goes to the next column.  It counts the 64 columns of two horizontally adjacent name
  tables, from the last back to the first, and changes no other bit of the address.
\<close>

theorem IncrHoriz_next_column:
  "let v = vram_addr s; v' = vram_addr (IncrHoriz s) in
    column v' = (column v + 1) mod 64 \<and> (\<forall>k \<ge> 5. k \<noteq> 10 \<longrightarrow> bit v' k = bit v k)"
proof (cases "unat (vram_addr s) mod 32 = 31")
  case True
  let ?v = "vram_addr s"
  have v': "vram_addr (IncrHoriz s) = ?v XOR 0x41F" using True by (simp add: IncrHoriz_def and_mask_16)
  have m: "(0x1F :: u16) = mask 5" by (simp add: mask_eq_exp_minus_1)
  have "(?v XOR 0x41F) AND mask 5 = (?v AND mask 5) XOR (0x41F AND mask 5)"
    by (simp only: bit.conj_xor_distrib2)
  also have "\<dots> = 0" using True unfolding and_mask_16 [symmetric] m by (simp add: mask_eq_exp_minus_1)
  finally have "unat ((?v XOR 0x41F) AND mask 5) = 0" by simp
  then have "unat (?v XOR 0x41F) mod 2 ^ 5 = 0" by (simp only: unat_and_mask_mod)
  then have "unat (?v XOR 0x41F) mod 32 = 0" by simp
  moreover have "bit (?v XOR 0x41F) 10 = (\<not> bit ?v 10)" by (simp add: bit_xor_iff)
  ultimately have "column (?v XOR 0x41F) = (column ?v + 1) mod 64"
    using True by (simp add: column_def bit_10)
  moreover have "bit (?v XOR 0x41F) k = bit ?v k" if "5 \<le> k" "k \<noteq> 10" for k
  proof -
    have "(0x41F :: u16) = mask 5 OR push_bit 10 1" by (simp add: mask_eq_exp_minus_1)
    then have "\<not> bit (0x41F :: u16) k"
      using that by (simp only: bit_or_iff bit_mask_iff bit_push_bit_iff bit_1_iff) auto
    then show ?thesis by (simp only: bit_xor_iff) simp
  qed
  ultimately show ?thesis by (simp add: v' Let_def)
next
  case False
  let ?v = "vram_addr s"
  have v': "vram_addr (IncrHoriz s) = ?v + 1" using False by (simp add: IncrHoriz_def and_mask_16)
  define n where "n = unat ?v"
  have n: "n mod 32 \<noteq> 31" using False by (simp add: n_def)
  have "n + 1 < 65536"
  proof -
    have "n < 65536" using unsigned_less [of ?v, where 'a = nat] by (simp add: n_def)
    moreover have "n \<noteq> 65535" using n by auto
    ultimately show ?thesis by simp
  qed
  then have u: "unat (?v + 1) = n + 1" by (simp add: unat_word_ariths n_def)
  have m: "(n + 1) mod 32 = n mod 32 + 1" using n by (simp add: mod_Suc)
  have d: "(n + 1) div 32 = n div 32" using n by (simp add: div_Suc mod_Suc)
  have "k div 1024 = k div 32 div 32" for k :: nat using div_mult2_eq [of k 32 32] by simp
  then have d': "(n + 1) div 1024 = n div 1024" by (simp only: d)
  have "column (?v + 1) = (column ?v + 1) mod 64"
    unfolding column_def u n_def [symmetric] m d'
    using n mod_less_divisor [of 32 n] by (auto simp: mod_2_eq_odd simp del: mod_less_divisor)
  moreover have "bit (?v + 1) k = bit ?v k" if "5 \<le> k" for k
  proof -
    have "unat (drop_bit 5 (?v + 1)) = unat (drop_bit 5 ?v)"
      unfolding unat_drop_bit_div u n_def [symmetric] using d by simp
    then have "drop_bit 5 (?v + 1) = drop_bit 5 ?v" by (simp only: word_unat_eq_iff)
    then have "bit (drop_bit 5 (?v + 1)) (k - 5) = bit (drop_bit 5 ?v) (k - 5)" by (simp only:)
    with that show ?thesis by (simp add: bit_drop_bit_eq)
  qed
  ultimately show ?thesis by (simp add: v' Let_def)
qed

lemma IncrHoriz_next_column_witness:
  "column (vram_addr (IncrHoriz (test_ppu\<lparr>vram_addr := 0x2C1F\<rparr>))) = 0 \<and>
    bit (vram_addr (IncrHoriz (test_ppu\<lparr>vram_addr := 0x2C1F\<rparr>))) 13"
proof -
  let ?s = "test_ppu\<lparr>vram_addr := 0x2C1F\<rparr>"
  have "column (vram_addr (IncrHoriz ?s)) = (column 0x2C1F + 1) mod 64"
    "bit (vram_addr (IncrHoriz ?s)) 13 = bit (0x2C1F :: u16) 13"
    using IncrHoriz_next_column [of ?s] by (simp_all add: Let_def del: bit_numeral_iff)
  then show ?thesis by (simp add: column_def)
qed

section \<open>Rows\<close>

text \<open>Coarse Y is bits 5 to 9, fine Y bits 12 to 14.\<close>

definition coarse_y :: "u16 \<Rightarrow> u16" where
  "coarse_y v = drop_bit 5 v AND mask 5"

definition fine_y :: "u16 \<Rightarrow> u16" where
  "fine_y v = drop_bit 12 v AND mask 3"

definition row :: "u16 \<Rightarrow> nat" where
  "row v = 8 * unat (coarse_y v) + unat (fine_y v)"

text \<open>The horizontal bits of the address and the vertical name table bit.\<close>

definition from_scroll :: "nat \<Rightarrow> bool" where
  "from_scroll k \<longleftrightarrow> k < 5 \<or> k = 10 \<or> k = 11"

lemma bit_C1F: "bit (0xC1F :: u16) k \<longleftrightarrow> from_scroll k"
proof -
  have "(0xC1F :: u16) = mask 5 OR push_bit 10 (mask 2)" by (simp add: mask_eq_exp_minus_1 push_bit_eq_mult)
  then show ?thesis
    by (simp only: from_scroll_def bit_or_iff bit_mask_iff bit_push_bit_iff) auto
qed

lemma bit_F3E0: "bit (0xF3E0 :: u16) k \<longleftrightarrow> 5 \<le> k \<and> k < 10 \<or> 12 \<le> k \<and> k < 16"
proof -
  have "(0xF3E0 :: u16) = push_bit 5 (mask 5) OR push_bit 12 (mask 4)"
    by (simp add: mask_eq_exp_minus_1 push_bit_eq_mult)
  then show ?thesis
    by (simp only: bit_or_iff bit_mask_iff bit_push_bit_iff) auto
qed

lemma coarse_fine_mask:
  "coarse_y ((v AND 0xF3E0) OR (t AND 0xC1F)) = coarse_y v"
  "fine_y ((v AND 0xF3E0) OR (t AND 0xC1F)) = fine_y v"
  unfolding coarse_y_def fine_y_def
  by (rule bit_word_eqI, simp only: bit_and_iff bit_or_iff bit_drop_bit_eq bit_mask_iff bit_F3E0 bit_C1F
      from_scroll_def comp_def, force)+

lemma from_scroll_mask:
  "from_scroll k \<Longrightarrow> bit ((v AND 0xF3E0) OR (t AND 0xC1F) :: u16) k = bit t k"
  by (simp only: bit_and_iff bit_or_iff bit_F3E0 bit_C1F) (auto simp: from_scroll_def)

lemma fine_y_full: "v AND 0x7000 = 0x7000 \<longleftrightarrow> unat (fine_y v) = 7"
proof -
  have m: "(0x7000 :: u16) = push_bit 12 (mask 3)" by (simp add: mask_eq_exp_minus_1 push_bit_eq_mult)
  have "v AND push_bit 12 (mask 3) = push_bit 12 (fine_y v)"
    unfolding fine_y_def
    by (rule bit_word_eqI, simp only: bit_and_iff bit_push_bit_iff bit_mask_iff bit_drop_bit_eq comp_def, auto)
  moreover have "push_bit 12 (fine_y v) = push_bit 12 (mask 3) \<longleftrightarrow> fine_y v = mask 3"
  proof
    assume "push_bit 12 (fine_y v) = push_bit 12 (mask 3)"
    then have "drop_bit 12 (push_bit 12 (fine_y v)) = drop_bit 12 (push_bit 12 (mask 3) :: u16)" by simp
    moreover have "drop_bit 12 (push_bit 12 (x AND mask 3)) = (x AND mask 3 :: u16)" for x
      by (rule bit_word_eqI, simp only: bit_and_iff bit_push_bit_iff bit_mask_iff bit_drop_bit_eq comp_def, auto)
    from this [of "drop_bit 12 v"] this [of "mask 3"] have
      "drop_bit 12 (push_bit 12 (fine_y v)) = fine_y v" "drop_bit 12 (push_bit 12 (mask 3)) = (mask 3 :: u16)"
      by (simp_all add: fine_y_def)
    ultimately show "fine_y v = mask 3" by simp
  qed simp
  ultimately show ?thesis unfolding m by (simp add: word_unat_eq_iff mask_eq_exp_minus_1)
qed

lemma unat_coarse_fine:
  "unat (coarse_y v) = unat v div 32 mod 32" "unat (fine_y v) = unat v div 4096 mod 8"
  unfolding coarse_y_def fine_y_def by (simp_all only: unat_and_mask_mod unat_drop_bit_div) simp_all

lemma next_fine:
  assumes "unat (fine_y v) \<noteq> 7"
  shows "unat (coarse_y (v + 0x1000)) = unat (coarse_y v)" "unat (fine_y (v + 0x1000)) = unat (fine_y v) + 1"
proof -
  define n where "n = unat v"
  have u: "unat (v + 0x1000) = (n + 4096) mod 65536" by (simp add: unat_word_ariths n_def)
  have "(n + 4096) mod 65536 div 4096 = (n + 4096) div 4096 mod 16"
    using mod_mult2_eq [of "n + 4096" 4096 16] by simp
  also have "(n + 4096) div 4096 = n div 4096 + 1" by simp
  finally have "(n + 4096) mod 65536 div 4096 mod 8 = (n div 4096 + 1) mod 8"
    by (simp add: mod_mod_cancel)
  moreover have "n div 4096 mod 8 \<noteq> 7" using assms by (simp add: unat_coarse_fine n_def)
  ultimately show "unat (fine_y (v + 0x1000)) = unat (fine_y v) + 1"
    unfolding unat_coarse_fine u n_def [symmetric] by (simp add: mod_Suc)
  have "(n + 4096) mod 65536 div 32 = (n + 4096) div 32 mod 2048"
    using mod_mult2_eq [of "n + 4096" 32 2048] by simp
  also have "(n + 4096) div 32 = n div 32 + 128" by simp
  finally have "(n + 4096) mod 65536 div 32 mod 32 = (n div 32 + 128) mod 32"
    by (simp add: mod_mod_cancel)
  also have "\<dots> = n div 32 mod 32" using mod_mult_self1 [of "n div 32" 4 32] by simp
  finally show "unat (coarse_y (v + 0x1000)) = unat (coarse_y v)"
    unfolding unat_coarse_fine u n_def [symmetric] .
qed

lemma IncrVert_last_fine:
  assumes "unat (fine_y (vram_addr s)) = 7"
  shows "\<exists>y. vram_addr (IncrVert s) = push_bit 5 y OR (reg_t s AND 0xC1F) \<and>
    unat y = (let c = unat (coarse_y (vram_addr s)) in if c = 29 \<or> c = 31 then 0 else c + 1)"
proof -
  let ?v = "vram_addr s" and ?w = "vram_addr s AND 0xFFF"
  define y where "y = (drop_bit 5 (ucast ?w) AND 0x1F :: u32)"
  have m: "(0x1F :: u32) = mask 5" "(0xFFF :: u16) = mask 12"
    "(0xF000 :: u16) = push_bit 12 (mask 4)"
    by (simp_all add: mask_eq_exp_minus_1 push_bit_eq_mult)
  have "y = ucast (coarse_y ?v)"
    unfolding y_def m coarse_y_def
    by (rule bit_word_eqI, simp only: bit_and_iff bit_ucast_iff bit_mask_iff bit_drop_bit_eq comp_def, auto)
  then have y: "unat y = unat (coarse_y ?v)"
    by (simp add: unsigned_ucast_eq take_bit_nat_eq_self order_less_trans [OF unsigned_less])
  have less: "unat y < 32" by (simp add: y unat_coarse_fine)
  have bit_800: "bit (0x800 :: u16) k \<longleftrightarrow> k = 11" for k
  proof -
    have "(0x800 :: u16) = push_bit 11 1" by simp
    then show ?thesis by (simp only: bit_push_bit_iff bit_1_iff) auto
  qed
  have high: "?w AND 0xF000 = 0" "(?w XOR 0x800) AND 0xF000 = 0"
    unfolding m
    by (rule bit_word_eqI, simp only: bit_and_iff bit_xor_iff bit_push_bit_iff bit_mask_iff bit_800 bit_0_eq bot_apply, auto)+
  define z :: u32 where "z = (if y = 29 \<or> y = 31 then 0 else y + 1)"
  have z: "unat z = (if unat y = 29 \<or> unat y = 31 then 0 else unat y + 1)"
    using less by (auto simp: z_def word_unat_eq_iff unat_word_ariths)
  have run: "vram_addr (IncrVert s) = ucast (push_bit 5 z) OR (reg_t s AND 0xC1F)"
    using assms by (simp add: IncrVert_def fine_y_full Let_def y_def [symmetric] high z_def)
  have "ucast (push_bit 5 z) = push_bit 5 (ucast z :: u16)"
    by (rule bit_word_eqI) (auto simp: bit_simps)
  moreover have "unat (ucast z :: u16) = unat z"
    using z less by (simp add: unsigned_ucast_eq take_bit_nat_eq_self)
  ultimately show ?thesis
    using run z y by (intro exI [of _ "ucast z"]) (simp add: Let_def)
qed

lemma coarse_fine_push:
  assumes "unat (y :: u16) < 32"
  shows "coarse_y (push_bit 5 y OR (t AND 0xC1F)) = y" "fine_y (push_bit 5 y OR (t AND 0xC1F)) = 0"
    "from_scroll k \<Longrightarrow> bit (push_bit 5 y OR (t AND 0xC1F)) k = bit t k"
proof -
  have y: "y AND mask 5 = y" using assms by (intro less_mask_eq) (simp add: word_less_nat_alt)
  have b: "bit y n \<Longrightarrow> n < 5" for n by (metis y bit_and_iff bit_mask_iff)
  show "coarse_y (push_bit 5 y OR (t AND 0xC1F)) = y" "fine_y (push_bit 5 y OR (t AND 0xC1F)) = 0"
    unfolding coarse_y_def fine_y_def
    by (rule bit_word_eqI, simp only: bit_and_iff bit_or_iff bit_drop_bit_eq bit_mask_iff bit_push_bit_iff bit_C1F
        from_scroll_def comp_def bit_0_eq bot_apply, use b in force)+
  show "from_scroll k \<Longrightarrow> bit (push_bit 5 y OR (t AND 0xC1F)) k = bit t k"
    by (simp only: bit_and_iff bit_or_iff bit_push_bit_iff bit_C1F) (use b in \<open>force simp: from_scroll_def\<close>)
qed

text \<open>
  \<open>IncrVert\<close> goes to the next row.  The row is coarse Y with fine Y below it; after 239, the last of a name table,
  and after 255 it is 0 again.  The column bits, the horizontal and also the vertical name table bit
  become those of \<open>reg_t\<close>: leaving the last row does not toggle the vertical name table, although
  the code contains that step, as its result is overwritten.
\<close>

theorem IncrVert_next_row:
  "let v = vram_addr s; v' = vram_addr (IncrVert s) in
    row v' = (if row v = 239 \<or> row v = 255 then 0 else row v + 1) \<and>
    (\<forall>k. from_scroll k \<longrightarrow> bit v' k = bit (reg_t s) k)"
proof (cases "unat (fine_y (vram_addr s)) = 7")
  case False
  let ?v = "vram_addr s"
  have "vram_addr (IncrVert s) = ((?v + 0x1000) AND 0xF3E0) OR (reg_t s AND 0xC1F)"
    using False by (simp add: IncrVert_def fine_y_full Let_def)
  moreover have "unat (fine_y ?v) < 7" using False unat_coarse_fine(2) [of ?v] mod_less_divisor [of 8 "unat ?v div 4096"]
    by linarith
  moreover have "8 * c + f \<noteq> 239 \<and> 8 * c + f \<noteq> 255" if "f < 7" for c f :: nat
    using that by presburger
  ultimately show ?thesis
    using next_fine [OF False] from_scroll_mask by (simp add: Let_def row_def coarse_fine_mask)
next
  case True
  obtain y where y: "vram_addr (IncrVert s) = push_bit 5 y OR (reg_t s AND 0xC1F)"
    "unat y = (let c = unat (coarse_y (vram_addr s)) in if c = 29 \<or> c = 31 then 0 else c + 1)"
    using IncrVert_last_fine [OF True] by blast
  have c: "unat (coarse_y (vram_addr s)) < 32" by (simp add: unat_coarse_fine)
  then have "unat y < 32" using y(2) by (auto simp: Let_def split: if_splits)
  note p = coarse_fine_push [OF this, where t = "reg_t s"]
  show ?thesis
    using True y(2) p(3) unfolding Let_def y(1) row_def p(1,2) by auto
qed

lemma IncrVert_next_row_witness:
  "row (vram_addr (IncrVert (test_ppu\<lparr>vram_addr := 0x73A0, reg_t := 0x0C00\<rparr>))) = 0 \<and>
    bit (vram_addr (IncrVert (test_ppu\<lparr>vram_addr := 0x73A0, reg_t := 0x0C00\<rparr>))) 11"
  using IncrVert_next_row [of "test_ppu\<lparr>vram_addr := 0x73A0, reg_t := 0x0C00\<rparr>"]
  by (simp add: Let_def row_def unat_coarse_fine from_scroll_def bit_iff_odd)

end
