(* ===== verification/Rom_Ines.thy ===== *)
theory Rom_Ines
  imports Bus
begin

text \<open>
  ROM images (rom.h, rom.cc, rom_ines.h): the iNES header and the regions behind it.  The image is a
  block of host memory; reading past its end is undefined.
\<close>

section \<open>State\<close>

text \<open>\<open>VramConfig\<close>: the numbers of the enumeration.\<close>

definition VERTICAL_MIRROR :: u32 where
  "VERTICAL_MIRROR = 0"

definition HORIZONTAL_MIRROR :: u32 where
  "HORIZONTAL_MIRROR = 1"

definition QUAD_SCREEN :: u32 where
  "QUAD_SCREEN = 2"

text \<open>\<open>RomInes\<close>; the member \<open>memory\<close> is the number of the block.\<close>

record rom_ines =
  rom_memory :: nat
  chr_rom :: host_ptr
  prg_rom :: host_ptr
  chr_rom_size :: u32
  prg_rom_size :: u32
  ram_size :: u32
  ram_size_backed :: u32
  chr_ram_size :: u32
  chr_ram_size_backed :: u32
  mapper_num :: u32
  submapper :: u32
  vram_config :: u32
  display_system :: u32
  has_trainer :: bool
  trainer :: "u8 list"

text \<open>The constructor: members without initialiser keep what the storage \<open>r\<close> holds.\<close>

definition RomInes :: "nat \<Rightarrow> rom_ines \<Rightarrow> rom_ines" where
  "RomInes b r = r\<lparr>rom_memory := b, ram_size := 0, ram_size_backed := 0, chr_ram_size := 0, chr_ram_size_backed := 0\<rparr>"

section \<open>The header\<close>

definition load_bytes :: "host_mem \<Rightarrow> host_ptr \<Rightarrow> nat \<Rightarrow> u8 list option" where
  "load_bytes h p n =
     (if snd p + n \<le> blk_size h (fst p) then Some (map (\<lambda>i. blk_data h (fst p) (snd p + i)) [0..<n]) else None)"

text \<open>The lambda \<open>get_size\<close> of \<open>Parse\<close>.\<close>

definition get_size :: "u8 \<Rightarrow> u32" where
  "get_size shift = (if shift = 0 then 0 else push_bit (unat shift + 6) 1)"

text \<open>The part of the header that depends on its version; \<open>hdr i\<close> is byte \<open>i\<close>.\<close>

definition Parse_version :: "(nat \<Rightarrow> u8 option) \<Rightarrow> rom_ines \<Rightarrow> rom_ines option" where
  "Parse_version hdr r = do {
     flags7 \<leftarrow> hdr 7;
     flags8 \<leftarrow> hdr 8;
     (if flags7 AND 0xC = 8 then do {
        flags9 \<leftarrow> hdr 9;
        flags10 \<leftarrow> hdr 10;
        flags11 \<leftarrow> hdr 11;
        flags12 \<leftarrow> hdr 12;
        Some (r\<lparr>mapper_num := push_bit 8 (ucast (flags8 AND 0xF)), submapper := ucast (drop_bit 4 flags8),
                prg_rom_size := prg_rom_size r OR push_bit 8 (ucast (flags9 AND 0xF)),
                chr_rom_size := chr_rom_size r OR push_bit 4 (ucast (flags9 AND 0xF0)),
                ram_size := get_size (flags10 AND 0xF),
                ram_size_backed := get_size (drop_bit 4 flags10 AND 0xF),
                chr_ram_size := get_size (flags11 AND 0xF),
                chr_ram_size_backed := get_size (drop_bit 4 flags11 AND 0xF),
                display_system := ucast (flags12 AND 3)\<rparr>)
      }
      else
        let n = 8192 * ucast flags8
        in Some (r\<lparr>ram_size := (if n = 0 then 8192 else n), ram_size_backed := 0, display_system := 0\<rparr>))
   }"

definition Parse_trainer :: "host_mem \<Rightarrow> u8 \<Rightarrow> rom_ines \<Rightarrow> (host_ptr \<times> rom_ines) option" where
  "Parse_trainer h flags6 r =
     (let data = (rom_memory r, 16); r = r\<lparr>has_trainer := (flags6 AND 4 \<noteq> 0)\<rparr>
      in if has_trainer r then do {
           t \<leftarrow> load_bytes h data 512;
           Some (ptr_add data 512, r\<lparr>trainer := t\<rparr>)
         }
         else Some (data, r))"

definition Parse :: "host_mem \<Rightarrow> rom_ines \<Rightarrow> (bool \<times> rom_ines) option" where
  "Parse h r =
     (let hdr = (\<lambda>i. load_byte h (rom_memory r, i)) in do {
        flags6 \<leftarrow> hdr 6;
        (data, r) \<leftarrow> Parse_trainer h flags6 r;
        flags7 \<leftarrow> hdr 7;
        n_chr_rom \<leftarrow> hdr 5;
        n_prg_rom \<leftarrow> hdr 4;
        r \<leftarrow> Parse_version hdr
               (r\<lparr>mapper_num := ucast (flags7 AND 0xF0) OR ucast (drop_bit 4 flags6), submapper := 0,
                  chr_rom_size := ucast n_chr_rom, prg_rom_size := ucast n_prg_rom\<rparr>);
        r \<leftarrow> Some (r\<lparr>chr_rom_size := push_bit 13 (chr_rom_size r), prg_rom_size := push_bit 14 (prg_rom_size r),
                     vram_config := (if flags6 AND 8 \<noteq> 0 then QUAD_SCREEN
                                     else if flags6 AND 1 \<noteq> 0 then VERTICAL_MIRROR
                                     else HORIZONTAL_MIRROR)\<rparr>);
        r \<leftarrow> Some (r\<lparr>prg_rom := data\<rparr>);
        data \<leftarrow> Some (ptr_add data (unat (prg_rom_size r)));
        Some (True, r\<lparr>chr_rom := data\<rparr>)
      })"

section \<open>What a ROM offers\<close>

text \<open>A region is in the image, or the array \<open>trainer\<close> of the object.\<close>

datatype region = Image host_ptr | Trainer "u8 list"

definition GetType :: "rom_ines \<Rightarrow> string" where
  "GetType r = ''nes''"

definition GetRegion :: "string \<Rightarrow> rom_ines \<Rightarrow> region option \<times> u32" where
  "GetRegion type r =
     (if type = ''CHR ROM'' then (Some (Image (chr_rom r)), chr_rom_size r)
      else if type = ''PRG ROM'' then (Some (Image (prg_rom r)), prg_rom_size r)
      else if has_trainer r \<and> type = ''TRAINER'' then (Some (Trainer (trainer r)), 512)
      else (None, 0))"

definition HasConfig :: "string \<Rightarrow> rom_ines \<Rightarrow> bool" where
  "HasConfig type r = True"

definition GetConfig :: "string \<Rightarrow> rom_ines \<Rightarrow> u32 option" where
  "GetConfig type r =
     (if type = ''PRG RAM SIZE'' then Some (ram_size r)
      else if type = ''PRG NVRAM SIZE'' then Some (ram_size_backed r)
      else if type = ''CHR RAM SIZE'' then Some (chr_ram_size r)
      else if type = ''CHR NVRAM SIZE'' then Some (chr_ram_size_backed r)
      else if type = ''DISPLAY'' then Some (display_system r)
      else if type = ''VRAM CONFIG'' then Some (vram_config r)
      else if type = ''MAPPER'' then Some (push_bit 8 (mapper_num r) OR submapper r)
      else None)"

section \<open>Loading\<close>

text \<open>
  \<open>Rom::LoadRom\<close> of the block \<open>b\<close>: the outer \<open>None\<close> is undefined behaviour, the inner one the null
  pointer.  The bytes of the signature are read until one is wrong.
\<close>

fun has_signature :: "host_mem \<Rightarrow> host_ptr \<Rightarrow> u8 list \<Rightarrow> bool option" where
  "has_signature h p [] = Some True"
| "has_signature h p (c # cs) = do {
     v \<leftarrow> load_byte h p;
     (if v = c then has_signature h (ptr_add p 1) cs else Some False)
   }"

definition Rom_LoadRom :: "host_mem \<Rightarrow> nat \<Rightarrow> rom_ines \<Rightarrow> rom_ines option option" where
  "Rom_LoadRom h b storage = do {
     ok \<leftarrow> has_signature h (b, 0) [0x4E, 0x45, 0x53, 0x1A];
     (if ok then do {
        (parsed, r) \<leftarrow> Parse h (RomInes b storage);
        Some (if parsed then Some r else None)
      }
      else Some None)
   }"

text \<open>
  \<open>NativeMemory::Create\<close> yields a block of zeros (an anonymous mapping of the operating system); \<open>b\<close>
  is its number.  \<open>Rom::LoadRom\<close> of a buffer copies it into such a block.
\<close>

definition NativeMemory_Create :: "nat \<Rightarrow> nat \<Rightarrow> host_mem \<Rightarrow> host_mem" where
  "NativeMemory_Create b n h =
     h\<lparr>blk_size := (blk_size h)(b := n), blk_data := (blk_data h)(b := (\<lambda>_. 0))\<rparr>"

definition Rom_LoadRom_copy :: "nat \<Rightarrow> u8 list \<Rightarrow> host_mem \<Rightarrow> rom_ines \<Rightarrow> (rom_ines option \<times> host_mem) option" where
  "Rom_LoadRom_copy b data h storage =
     (let h = NativeMemory_Create b (length data) h;
          h = h\<lparr>blk_data := (blk_data h)(b := (\<lambda>i. if i < length data then data ! i else 0))\<rparr>
      in do {
        rom \<leftarrow> Rom_LoadRom h b storage;
        Some (rom, h)
      })"

end
