(* ===== verification/Nes_Mapper.thy ===== *)
theory Nes_Mapper
  imports Rom_Ines
begin

text \<open>
  The cartridges of the NES (system/nes/nes_mapper.h, nes_mapper.cc).  \<open>Mapper0\<close> is the only class
  derived from \<open>Mapper\<close>; it overrides \<open>Setup\<close> alone, so its other operations are those of the base class.
\<close>

section \<open>Mappers\<close>

text \<open>\<open>Mapper0\<close> keeps the memory of the name tables, a block.\<close>

datatype mapper = Mapper0 (mapper_vram: nat)

text \<open>\<open>CreateMapper\<close>: \<open>vram\<close> is not allocated before \<open>Setup\<close>; it will be the block \<open>b\<close>.\<close>

definition CreateMapper :: "nat \<Rightarrow> u32 \<Rightarrow> u32 \<Rightarrow> mapper option" where
  "CreateMapper b num sub = (if num = 0 then Some (Mapper0 b) else None)"

definition mapper_PowerOn :: "mapper \<Rightarrow> mapper" where
  "mapper_PowerOn m = m"

definition mapper_Reset :: "mapper \<Rightarrow> mapper" where
  "mapper_Reset m = m"

text \<open>The result tells that the mapper has handled the access.\<close>

definition mapper_IoRead :: "u32 \<Rightarrow> u8 \<Rightarrow> mapper \<Rightarrow> bool \<times> u8 \<times> mapper" where
  "mapper_IoRead addr data m = (False, data, m)"

definition mapper_IoWrite :: "u32 \<Rightarrow> u8 \<Rightarrow> mapper \<Rightarrow> bool \<times> mapper" where
  "mapper_IoWrite addr data m = (False, m)"

section \<open>\<open>Mapper0::Setup\<close>\<close>

text \<open>A sequence of calls of \<open>Map\<close>, of writable memory.\<close>

fun Map_all :: "(u32 \<times> host_ptr) list \<Rightarrow> u32 \<Rightarrow> system_bus \<Rightarrow> system_bus option" where
  "Map_all [] len b = Some b"
| "Map_all ((addr, p) # ms) len b = do {
     b \<leftarrow> Map addr p len False b;
     Map_all ms len b
   }"

definition map_vram :: "u32 \<Rightarrow> nat \<Rightarrow> system_bus \<Rightarrow> system_bus option" where
  "map_vram config v b =
     (if config = 0 then
        Map_all [(0x2000, (v, 0)), (0x2400, (v, 0x400)), (0x2800, (v, 0)), (0x2C00, (v, 0x400)),
                 (0x3000, (v, 0)), (0x3400, (v, 0x400)), (0x3800, (v, 0)), (0x3C00, (v, 0x400))] 0x400 b
      else if config = 1 then
        Map_all [(0x2000, (v, 0)), (0x2400, (v, 0)), (0x2800, (v, 0x400)), (0x2C00, (v, 0x400)),
                 (0x3000, (v, 0)), (0x3400, (v, 0)), (0x3800, (v, 0x400)), (0x3C00, (v, 0x400))] 0x400 b
      else if config = 2 then Map_all [(0x2000, (v, 0)), (0x3000, (v, 0))] 0x1000 b
      else Some b)"

text \<open>The loops that repeat a ROM up to \<open>limit\<close>; with a size of 0 they do not end.\<close>

partial_function (option) map_rom :: "u32 \<Rightarrow> host_ptr \<Rightarrow> u32 \<Rightarrow> u32 \<Rightarrow> system_bus \<Rightarrow> system_bus option" where
  "map_rom limit p len addr b =
     (if addr < limit then do {
        b \<leftarrow> Map addr p len True b;
        map_rom limit p len (addr + len) b
      }
      else Some b)"

type_synonym buses = "system_bus \<times> system_bus \<times> host_mem"

definition Setup :: "mapper \<Rightarrow> rom_ines \<Rightarrow> buses \<Rightarrow> (bool \<times> buses) option" where
  "Setup m rom s =
     (let (mainbus, ppubus, h) = s in
      case (GetRegion ''PRG ROM'' rom, GetRegion ''CHR ROM'' rom) of
        ((Some (Image prg), prg_size), (Some (Image chr), chr_size)) \<Rightarrow>
          (let config = (case GetConfig ''VRAM CONFIG'' rom of None \<Rightarrow> 0 | Some c \<Rightarrow> c);
               h = NativeMemory_Create (mapper_vram m) 0x1000 h
           in do {
             ppubus \<leftarrow> map_vram config (mapper_vram m) ppubus;
             ppubus \<leftarrow> map_rom 0x2000 chr chr_size 0 ppubus;
             mainbus \<leftarrow> map_rom 0x10000 prg prg_size 0x8000 mainbus;
             Some (True, mainbus, ppubus, h)
           })
      | _ \<Rightarrow> Some (False, s))"

end
