(* ===== verification/Nes.thy ===== *)
theory Nes
  imports Emulator Ppu_Regs Nes_Mapper
begin

text \<open>
  The NES (system/nes/nes.h, nes.cc): the processor on the main bus, the picture processor beside it, the
  controllers, DMA, and the I/O callbacks; construction, loading, reset, and running a frame.
\<close>

section \<open>State\<close>

text \<open>
  Both buses share the host memory, and the picture processor can raise the interrupt of the CPU.
  While it runs it is given the two: its members \<open>host\<close> and \<open>cpu_pending\<close>.
\<close>

record wired_ppu = ppu +
  cpu_pending :: u32

text \<open>\<open>NesInputData\<close>: the five shift registers of each of the two ports.\<close>

type_synonym nes_input = "u32 list list"

record nes_dev =
  nes_ppu :: wired_ppu
  master_clocks_per_frame :: u32
  cpu_clock_size :: u32
  frames_per_extra_cycle :: u32
  nes_frame_id :: u32
  current_frame_start_cycle :: u64
  controller_latch :: bool
  latched_input_data :: nes_input
  update_controllers :: "(nes_input \<Rightarrow> nes_input) option"
  nes_system :: u32
  sysram :: nat
  nes_mapper :: "mapper option"
  current_rom :: "rom_ines option"

type_synonym nes = "nes_dev machine"

section \<open>The picture processor on the machine\<close>

definition AssertNMI :: "wired_ppu \<Rightarrow> wired_ppu option" where
  "AssertNMI s = Some (s\<lparr>cpu_pending := cpu_pending s OR push_bit 2 1\<rparr>)"

definition ppu_of :: "nes \<Rightarrow> wired_ppu" where
  "ppu_of m = (nes_ppu (dev m))\<lparr>host := host m, cpu_pending := pending_interrupts m\<rparr>"

definition with_ppu :: "wired_ppu \<Rightarrow> nes \<Rightarrow> nes" where
  "with_ppu s m = m\<lparr>host := host s, pending_interrupts := cpu_pending s, dev := (dev m)\<lparr>nes_ppu := s\<rparr>\<rparr>"

definition on_ppu :: "(wired_ppu \<Rightarrow> ('a \<times> wired_ppu) option) \<Rightarrow> nes \<Rightarrow> ('a \<times> nes) option" where
  "on_ppu f m = do {
     (x, s) \<leftarrow> f (ppu_of m);
     Some (x, with_ppu s m)
   }"

definition nes_CatchUpToCpu :: "nes \<Rightarrow> (unit \<times> nes) option" where
  "nes_CatchUpToCpu m = on_ppu (\<lambda>s. map_option (Pair ()) (CatchUpToCpu AssertNMI (cycle m) s)) m"

section \<open>Controllers\<close>

definition Shift :: "u32 list \<Rightarrow> u8 \<times> u32 list" where
  "Shift serial_bits =
     (fold (\<lambda>i ret. ret OR push_bit i (ucast (serial_bits ! i AND 1))) [0..<5] 0, map (drop_bit 1) serial_bits)"

definition ReadControllerData :: "nat \<Rightarrow> u8 \<Rightarrow> nes \<Rightarrow> (u8 \<times> nes) option" where
  "ReadControllerData controller v m =
     (let devices = latched_input_data (dev m) in
      if controller < length devices then
        (let (out, bits) = Shift (devices ! controller)
         in Some ((v AND 0xE0) OR out, m\<lparr>dev := (dev m)\<lparr>latched_input_data := devices[controller := bits]\<rparr>\<rparr>))
      else None)"

definition LatchControllerData :: "nes \<Rightarrow> nes" where
  "LatchControllerData m =
     (case update_controllers (dev m) of
        None \<Rightarrow> m
      | Some f \<Rightarrow> m\<lparr>dev := (dev m)\<lparr>latched_input_data := f (latched_input_data (dev m))\<rparr>\<rparr>)"

section \<open>Reading\<close>

definition ReadReg :: "u32 \<Rightarrow> u8 \<Rightarrow> nes \<Rightarrow> (u8 \<times> nes) option" where
  "ReadReg r v m =
     (if r = 0x16 \<or> r = 0x17 then ReadControllerData (unat (r AND 1)) v m else Some (v, m))"

definition nes_IsIoDeviceAddress :: "cpuaddr \<Rightarrow> nes \<Rightarrow> bool" where
  "nes_IsIoDeviceAddress addr m \<longleftrightarrow> addr \<le> 0x401F"

text \<open>Without a mapper the call of its method follows a null pointer.\<close>

definition nes_IoRead :: "cpuaddr \<Rightarrow> u8 \<Rightarrow> nes \<Rightarrow> (u8 \<times> nes) option" where
  "nes_IoRead addr data m =
     (if addr \<le> 0x401F then
        if addr < 0x4000 then on_ppu (ReadPPU AssertNMI (cycle m) (addr AND 7)) m
        else ReadReg (addr AND 0x1F) data m
      else do {
        mp \<leftarrow> nes_mapper (dev m);
        (let (handled, data, mp) = mapper_IoRead addr data mp;
             m = m\<lparr>dev := (dev m)\<lparr>nes_mapper := Some mp\<rparr>\<rparr>
         in if handled then Some (data, m)
            else do {
              ((data, _), m) \<leftarrow> ReadByteNoIo addr m;
              Some (data, m)
            })
      })"

section \<open>DMA and writing\<close>

text \<open>\<open>OamDma\<close> only reads on the bus it is given: these are the callbacks it can meet.\<close>

definition nes_read_io :: "nes_dev io" where
  "nes_read_io =
     \<lparr>is_io_device_address = nes_IsIoDeviceAddress, io_read = nes_IoRead, io_write = (\<lambda>_ _ _. None),
      irq_taken = (\<lambda>_ _. None)\<rparr>"

definition set_oam :: "nat \<Rightarrow> u8 \<Rightarrow> nes \<Rightarrow> nes option" where
  "set_oam i v m =
     (if i < length (oam (nes_ppu (dev m)))
      then Some (m\<lparr>dev := (dev m)\<lparr>nes_ppu := (nes_ppu (dev m))\<lparr>oam := (oam (nes_ppu (dev m)))[i := v]\<rparr>\<rparr>\<rparr>)
      else None)"

text \<open>The loop of \<open>OamDma\<close>: \<open>n\<close> bytes are left, \<open>i\<close> is the loop variable.\<close>

fun OamDma_loop :: "u16 \<Rightarrow> nat \<Rightarrow> nat \<Rightarrow> nes \<Rightarrow> nes option" where
  "OamDma_loop base i 0 m = Some m"
| "OamDma_loop base i (Suc n) m = do {
     ((v, _), m) \<leftarrow> ReadByte nes_read_io (ucast base + of_nat i) m;
     m \<leftarrow> set_oam i v m;
     OamDma_loop base (Suc i) n m
   }"

text \<open>The variable \<open>cycle\<close> of \<open>OamDma\<close> is never used.\<close>

definition OamDma :: "u16 \<Rightarrow> nes \<Rightarrow> nes option" where
  "OamDma base m = do {
     (_, m) \<leftarrow> nes_CatchUpToCpu m;
     OamDma_loop base 0 256 m
   }"

text \<open>The division by \<open>cpu_clock_size\<close> is undefined while that is 0.\<close>

definition WriteReg :: "u32 \<Rightarrow> u8 \<Rightarrow> nes \<Rightarrow> (unit \<times> nes) option" where
  "WriteReg r v m =
     (if r = 0x14 then
        let size = cpu_clock_size (dev m) in
        if size = 0 then None
        else do {
          m \<leftarrow> Some (if (cycle m div ucast size) AND 1 = 0 then m\<lparr>cycle := cycle m + ucast size\<rparr> else m);
          m \<leftarrow> OamDma (push_bit 8 (ucast v)) m;
          Some ((), m\<lparr>cycle := cycle m + ucast (size * 512)\<rparr>)
        }
      else if r = 0x16 then
        if v AND 1 \<noteq> 0 then Some ((), m\<lparr>dev := (dev m)\<lparr>controller_latch := True\<rparr>\<rparr>)
        else if controller_latch (dev m) then
          Some ((), LatchControllerData (m\<lparr>dev := (dev m)\<lparr>controller_latch := False\<rparr>\<rparr>))
        else Some ((), m)
      else Some ((), m))"

definition nes_IoWrite :: "cpuaddr \<Rightarrow> u8 \<Rightarrow> nes \<Rightarrow> (unit \<times> nes) option" where
  "nes_IoWrite addr data m =
     (if addr \<le> 0x401F then
        if addr < 0x4000 then on_ppu (\<lambda>s. map_option (Pair ()) (WritePPU AssertNMI (cycle m) (addr AND 7) data s)) m
        else WriteReg (addr AND 0x1F) data m
      else do {
        mp \<leftarrow> nes_mapper (dev m);
        (let (handled, mp) = mapper_IoWrite addr data mp;
             m = m\<lparr>dev := (dev m)\<lparr>nes_mapper := Some mp\<rparr>\<rparr>
         in if handled then Some ((), m)
            else do {
              (_, m) \<leftarrow> WriteByteNoIo addr data m;
              Some ((), m)
            })
      })"

definition nes_irq_taken :: "u32 \<Rightarrow> nes \<Rightarrow> (unit \<times> nes) option" where
  "nes_irq_taken type m = Some ((), ClearInterruptSource (unat type) m)"

definition nes_io :: "nes_dev io" where
  "nes_io =
     \<lparr>is_io_device_address = nes_IsIoDeviceAddress, io_read = nes_IoRead, io_write = nes_IoWrite,
      irq_taken = nes_irq_taken\<rparr>"

section \<open>Construction\<close>

text \<open>The default values of the members of \<open>PPU_2C02\<close>.\<close>

definition ppu_defaults :: "'m ppu_scheme \<Rightarrow> 'm ppu_scheme" where
  "ppu_defaults s =
     s\<lparr>sysbus := (sysbus s)\<lparr>open_bus_is_data := True, open_bus := 0\<rparr>, last_ppu_cycle := 0,
       current_scanline := 0, current_pixel_clock := 0, num_sprites := 0, ppu_state := FETCH_SCANLINE_START,
       ppudata_buffer := 0, status := 0, control := 0, ppumask := 0, oamaddr := 0, vram_addr := 0, reg_t := 0,
       scroll_fine_x := 0, frame_id := 0, addr_write := False, rendering_enabled := False, tall_sprites := False,
       is_ntsc := True, frame_produced := False\<rparr>"

text \<open>The members without a default keep what the storage holds.\<close>

definition Nes_init :: "nes \<Rightarrow> nes" where
  "Nes_init m =
     (let m = WDC65C816_init m;
          m = m\<lparr>sysbus := (sysbus m)\<lparr>open_bus_is_data := True, open_bus := 0\<rparr>,
                dev := (dev m)\<lparr>nes_ppu := ppu_defaults (nes_ppu (dev m)), nes_frame_id := 1,
                               current_frame_start_cycle := 0, controller_latch := False,
                               latched_input_data := replicate 2 (replicate 5 0), update_controllers := None,
                               nes_mapper := None, current_rom := None\<rparr>\<rparr>
      in m\<lparr>cycle := 0\<rparr>)"

definition SetUpdateControllersFunc :: "(nes_input \<Rightarrow> nes_input) option \<Rightarrow> nes \<Rightarrow> nes" where
  "SetUpdateControllersFunc f m = m\<lparr>dev := (dev m)\<lparr>update_controllers := f\<rparr>\<rparr>"

section \<open>Loading a ROM\<close>

text \<open>The page tables after the loops of \<open>LoadRom\<close>; page 16 has its \<open>io_mask\<close> assigned twice.\<close>

definition nes_page :: "u32 \<Rightarrow> nat \<Rightarrow> page" where
  "nes_page clock_size i =
     (let p = \<lparr>ptr = None, flags = 0, io_mask = 0, io_eq = 0, cycles_per_access = clock_size\<rparr>;
          p = (if i < 8 then p\<lparr>io_eq := 1\<rparr> else p);
          p = (if i = 16 then (p\<lparr>io_mask := 0xFFE0\<rparr>)\<lparr>io_mask := 0\<rparr> else p)
      in if 17 \<le> i \<and> i < 64 then p\<lparr>io_eq := 1\<rparr> else p)"

definition main_pages :: "u32 \<Rightarrow> page list" where
  "main_pages clock_size = map (nes_page clock_size) [0..<64]"

definition ppu_pages :: "page list" where
  "ppu_pages = replicate 16 \<lparr>ptr = None, flags = 0, io_mask = 0, io_eq = 1, cycles_per_access = 0\<rparr>"

definition set_pages :: "page list \<Rightarrow> system_bus \<Rightarrow> system_bus" where
  "set_pages ps b = b\<lparr>memory := (memory b)\<lparr>pages := ps\<rparr>\<rparr>"

text \<open>The clocks of the system; PAL is refused, and a number above 1 sets nothing.\<close>

definition set_clocks :: "nes_dev \<Rightarrow> nes_dev option" where
  "set_clocks d =
     (if nes_system d = 0 then
        Some (d\<lparr>master_clocks_per_frame := 357366, cpu_clock_size := 12,
                nes_ppu := (nes_ppu d)\<lparr>ppu_clock_size := 4, nominal_ppu_frame_time := 89341 * 4\<rparr>\<rparr>)
      else if nes_system d = 1 then None
      else Some d)"

text \<open>The part between the clocks and the mapper: the buses, the RAM, the page tables.\<close>

definition clear_block :: "nat \<Rightarrow> nat \<Rightarrow> host_mem \<Rightarrow> host_mem option" where
  "clear_block b n h =
     (if n \<le> blk_size h b
      then Some (h\<lparr>blk_data := (blk_data h)(b := (\<lambda>i. if i < n then 0 else blk_data h b i))\<rparr>) else None)"

definition setup_buses :: "nes \<Rightarrow> nes option" where
  "setup_buses m =
     (let m = m\<lparr>mode_native_6502 := True, supports_decimal := False\<rparr>;
          size = cpu_clock_size (dev m);
          r = (sysram (dev m), 0);
          ps = nes_ppu (dev m);
          ps = ppu_Initialize (nes_system (dev m) = 0) (ps\<lparr>sysbus := bus_Init 10 14 ppu_pages (sysbus ps)\<rparr>)
      in do {
        h \<leftarrow> clear_block (sysram (dev m)) 2048 (host m);
        b \<leftarrow> Map_all [(0, r), (0x800, r), (0x1000, r), (0x1800, r)] 0x800
               (bus_Init 10 16 (main_pages size) (sysbus m));
        Some (m\<lparr>host := h, sysbus := b, internal_cycle_timing := size, dev := (dev m)\<lparr>nes_ppu := ps\<rparr>\<rparr>)
      })"

text \<open>The call of \<open>Setup\<close> on the two buses, and the host memory.\<close>

definition setup_mapper :: "mapper \<Rightarrow> rom_ines \<Rightarrow> nes \<Rightarrow> (bool \<times> nes) option" where
  "setup_mapper mp rom m = do {
     (ok, mainbus, ppubus, h) \<leftarrow> Setup mp rom (sysbus m, sysbus (nes_ppu (dev m)), host m);
     Some (ok, m\<lparr>host := h, sysbus := mainbus,
                 dev := (dev m)\<lparr>nes_ppu := (nes_ppu (dev m))\<lparr>sysbus := ppubus\<rparr>, nes_mapper := Some mp\<rparr>\<rparr>)
   }"

definition nes_PowerOn :: "rom_ines \<Rightarrow> nes \<Rightarrow> (bool \<times> nes) option" where
  "nes_PowerOn rom m = do {
     (_, m) \<leftarrow> PowerOn nes_io (m\<lparr>dev := (dev m)\<lparr>nes_mapper := map_option mapper_PowerOn (nes_mapper (dev m))\<rparr>\<rparr>);
     Some (True, m\<lparr>dev := (dev m)\<lparr>nes_ppu := ppu_PowerOn (nes_ppu (dev m)), current_rom := Some rom\<rparr>\<rparr>)
   }"

text \<open>\<open>LoadRom\<close>; \<open>v\<close> is the block the memory of the mapper will be in.\<close>

definition nes_LoadRom :: "nat \<Rightarrow> rom_ines \<Rightarrow> nes \<Rightarrow> (bool \<times> nes) option" where
  "nes_LoadRom v rom m =
     (case GetConfig ''DISPLAY'' rom of
        None \<Rightarrow> Some (False, m)
      | Some display \<Rightarrow>
          (let m = m\<lparr>dev := (dev m)\<lparr>nes_system := display\<rparr>\<rparr> in
           case GetConfig ''MAPPER'' rom of
             None \<Rightarrow> Some (False, m)
           | Some num \<Rightarrow>
               (case set_clocks (dev m) of
                  None \<Rightarrow> Some (False, m)
                | Some d \<Rightarrow> do {
                    m \<leftarrow> setup_buses (m\<lparr>dev := d\<rparr>);
                    (case CreateMapper v (drop_bit 8 num) (num AND 0xFF) of
                       None \<Rightarrow> Some (False, m\<lparr>dev := (dev m)\<lparr>nes_mapper := None\<rparr>\<rparr>)
                     | Some mp \<Rightarrow> do {
                         (ok, m) \<leftarrow> setup_mapper mp rom m;
                         (if ok then nes_PowerOn rom m else Some (False, m))
                       })
                  })))"

section \<open>Running\<close>

definition nes_Reset :: "nes \<Rightarrow> (unit \<times> nes) option" where
  "nes_Reset m = do {
     mp \<leftarrow> nes_mapper (dev m);
     (_, m) \<leftarrow> Reset nes_io (m\<lparr>dev := (dev m)\<lparr>nes_mapper := Some (mapper_Reset mp)\<rparr>\<rparr>);
     Some ((), m\<lparr>dev := (dev m)\<lparr>nes_ppu := ppu_Reset (nes_ppu (dev m))\<rparr>\<rparr>)
   }"

definition PreCpuCycle :: "nes \<Rightarrow> nes option" where
  "PreCpuCycle m = Some m"

definition PostCpuCycle :: "nes \<Rightarrow> nes option" where
  "PostCpuCycle m = map_option snd (nes_CatchUpToCpu m)"

text \<open>\<open>Step\<close> calls \<open>Emulate\<close> without a queue.\<close>

definition nes_Step ::
  "('e, nes \<times> nes_dev breaks) callbacks \<Rightarrow> nes \<Rightarrow> nes_dev breaks \<Rightarrow> (nes \<times> nes_dev breaks) option" where
  "nes_Step call m b = do {
     (_, m, b) \<leftarrow> Emulate (WDC65C816_exec nes_io) call None (m\<lparr>cycle_stop := cycle m + 1\<rparr>) b;
     (_, m) \<leftarrow> nes_CatchUpToCpu m;
     Some (m, b)
   }"

definition nes_Run ::
  "('e, nes \<times> nes_dev breaks) callbacks \<Rightarrow> 'e event_queue \<Rightarrow> nes \<Rightarrow> nes_dev breaks \<Rightarrow>
    ('e event_queue \<times> nes \<times> nes_dev breaks) option" where
  "nes_Run call q m b =
     (let frame = ucast (master_clocks_per_frame (dev m));
          m = m\<lparr>cycle_stop := current_frame_start_cycle (dev m) + frame\<rparr>
      in do {
        (q, m, b) \<leftarrow> EmulateWithCycleProcessing (WDC65C816_exec nes_io) PreCpuCycle PostCpuCycle call (Some q) m b;
        q \<leftarrow> q;
        (let frame = ucast (master_clocks_per_frame (dev m))
         in Some (q, m\<lparr>dev := (dev m)\<lparr>current_frame_start_cycle := current_frame_start_cycle (dev m) + frame\<rparr>\<rparr>, b))
      })"

definition RunForOneFrame ::
  "framebuffer \<Rightarrow> ('e, nes \<times> nes_dev breaks) callbacks \<Rightarrow> 'e event_queue \<Rightarrow> nes \<Rightarrow> nes_dev breaks \<Rightarrow>
    ('e event_queue \<times> nes \<times> nes_dev breaks) option" where
  "RunForOneFrame f call q m b =
     nes_Run call q (m\<lparr>dev := (dev m)\<lparr>nes_ppu := (nes_ppu (dev m))\<lparr>fb := f\<rparr>\<rparr>\<rparr>) b"

end
