(* ===== verification/Rom_Laws.thy ===== *)
theory Rom_Laws
  imports Rom_Ines
begin

text \<open>
  The header parser undoes a header printer: an image built from its parts loads as these parts.
  For a header of version 2 the low byte of the mapper number is lost.
\<close>

section \<open>Printing an image\<close>

datatype mirroring = Horizontal | Vertical | Quad

record ines_parts =
  part_mapper :: u8
  part_mirroring :: mirroring
  part_ram :: u8
  part_trainer :: "u8 list option"
  part_prg :: "u8 list"
  part_chr :: "u8 list"

definition parts_ok :: "ines_parts \<Rightarrow> bool" where
  "parts_ok c \<longleftrightarrow>
     (\<forall>t. part_trainer c = Some t \<longrightarrow> length t = 512) \<and>
     length (part_prg c) mod 0x4000 = 0 \<and> length (part_prg c) < 0x400000 \<and>
     length (part_chr c) mod 0x2000 = 0 \<and> length (part_chr c) < 0x200000"

definition print_flags6 :: "ines_parts \<Rightarrow> u8" where
  "print_flags6 c =
     push_bit 4 (part_mapper c) OR
       ((case part_mirroring c of Horizontal \<Rightarrow> 0 | Vertical \<Rightarrow> 1 | Quad \<Rightarrow> 8) OR
        (if part_trainer c = None then 0 else 4))"

definition print_header :: "ines_parts \<Rightarrow> u8 list" where
  "print_header c =
     [0x4E, 0x45, 0x53, 0x1A, of_nat (length (part_prg c) div 0x4000), of_nat (length (part_chr c) div 0x2000),
      print_flags6 c, part_mapper c AND 0xF0, part_ram c, 0, 0, 0, 0, 0, 0, 0]"

definition print_trainer :: "ines_parts \<Rightarrow> u8 list" where
  "print_trainer c = (case part_trainer c of None \<Rightarrow> [] | Some t \<Rightarrow> t)"

definition print_image :: "ines_parts \<Rightarrow> u8 list" where
  "print_image c = print_header c @ print_trainer c @ part_prg c @ part_chr c"

definition mirroring_config :: "mirroring \<Rightarrow> u32" where
  "mirroring_config m = (case m of Horizontal \<Rightarrow> HORIZONTAL_MIRROR | Vertical \<Rightarrow> VERTICAL_MIRROR | Quad \<Rightarrow> QUAD_SCREEN)"

section \<open>The flags\<close>

lemma low_bits:
  assumes "(j :: u8) AND mask 4 = j"
  shows "(push_bit 4 m OR k) AND j = k AND j"
proof -
  have "push_bit 4 m AND mask 4 = 0" by (rule bit_word_eqI) (auto simp: bit_simps)
  then have "(push_bit 4 m AND mask 4) AND j = 0" by simp
  moreover have "(push_bit 4 m AND mask 4) AND j = push_bit 4 m AND (j AND mask 4)"
    by (simp only: ac_simps)
  ultimately have "push_bit 4 m AND j = 0" by (simp only: assms)
  then show ?thesis by (simp add: bit.conj_disj_distrib2)
qed

lemma flags6_bits:
  "print_flags6 c AND 4 \<noteq> 0 \<longleftrightarrow> part_trainer c \<noteq> None"
  "print_flags6 c AND 8 \<noteq> 0 \<longleftrightarrow> part_mirroring c = Quad"
  "print_flags6 c AND 1 \<noteq> 0 \<longleftrightarrow> part_mirroring c = Vertical"
proof -
  have m: "(4 :: u8) AND mask 4 = 4" "(8 :: u8) AND mask 4 = 8" "(1 :: u8) AND mask 4 = 1"
    by (simp_all add: mask_eq_exp_minus_1)
  show "print_flags6 c AND 4 \<noteq> 0 \<longleftrightarrow> part_trainer c \<noteq> None"
    "print_flags6 c AND 8 \<noteq> 0 \<longleftrightarrow> part_mirroring c = Quad"
    "print_flags6 c AND 1 \<noteq> 0 \<longleftrightarrow> part_mirroring c = Vertical"
    unfolding print_flags6_def low_bits [OF m(1)] low_bits [OF m(2)] low_bits [OF m(3)]
    by (auto split: mirroring.splits)
qed

lemma mapper_nibbles:
  "ucast (part_mapper c AND 0xF0) OR ucast (drop_bit 4 (print_flags6 c)) = (ucast (part_mapper c) :: u32)"
proof -
  obtain k where f: "print_flags6 c = push_bit 4 (part_mapper c) OR k" and k: "drop_bit 4 k = 0"
    by (simp add: print_flags6_def split: mirroring.splits)
  have p: "drop_bit 4 (push_bit 4 m) = (m AND mask 4 :: u8)" for m
    by (rule bit_word_eqI) (auto simp: bit_simps)
  have F0: "(0xF0 :: u8) = NOT (mask 4)" by (simp add: mask_eq_exp_minus_1)
  have "drop_bit 4 (print_flags6 c) = part_mapper c AND mask 4"
    unfolding f by (simp only: drop_bit_or k p or.right_neutral)
  moreover have "ucast (m AND NOT (mask 4)) OR ucast (m AND mask 4) = (ucast m :: u32)" for m :: u8
    by (rule bit_word_eqI) (auto simp: bit_simps dest: bit_imp_le_length)
  ultimately show ?thesis unfolding F0 by simp
qed

section \<open>The image in memory\<close>

text \<open>The block holds the bytes \<open>xs\<close>.\<close>

definition holds :: "host_mem \<Rightarrow> nat \<Rightarrow> u8 list \<Rightarrow> bool" where
  "holds h b xs \<longleftrightarrow> blk_size h b = length xs \<and> (\<forall>i < length xs. blk_data h b i = xs ! i)"

lemma load_byte_holds: "holds h b xs \<Longrightarrow> i < length xs \<Longrightarrow> load_byte h (b, i) = Some (xs ! i)"
  by (simp add: holds_def load_byte_def valid_ptr_def)

lemma load_bytes_holds:
  assumes "holds h b (xs @ ys @ zs)" and "i = length xs" and "n = length ys"
  shows "load_bytes h (b, i) n = Some ys"
  using assms by (auto simp: load_bytes_def holds_def nth_append intro!: nth_equalityI)

lemma bank_size:
  assumes "n mod 2 ^ k = 0" and "n div 2 ^ k < 256" and "k < 24"
  shows "unat (push_bit k (ucast (of_nat (n div 2 ^ k) :: u8) :: u32)) = n"
proof -
  define m where "m = n div 2 ^ k"
  have n: "n = m * 2 ^ k" using assms(1) unfolding m_def by auto
  have u: "unat (ucast (of_nat m :: u8) :: u32) = m"
    using assms(2) by (simp add: m_def unat_ucast_u8 unat_of_nat take_bit_eq_mod)
  have "m * 2 ^ k < 256 * 2 ^ k" using assms(2) by (simp add: m_def)
  also have "\<dots> \<le> 256 * 2 ^ 24" using assms(3) by (intro mult_le_mono power_increasing) simp_all
  finally have less: "m * 2 ^ k < 2 ^ 32" by simp
  have "unat (push_bit k w) = take_bit 32 (push_bit k (unat w))" for w :: u32
    by (simp only: unsigned_push_bit_eq) simp
  then have "unat (push_bit k w) = unat w * 2 ^ k mod 2 ^ 32" for w :: u32
    by (simp only: take_bit_eq_mod) (simp add: push_bit_eq_mult)
  from this [of "ucast (of_nat m :: u8)"] less show ?thesis
    unfolding m_def [symmetric] u n [symmetric] by simp
qed

lemma bank_word:
  assumes "n mod 2 ^ k = 0" and "n div 2 ^ k < 256" and "k < 24"
  shows "push_bit k (ucast (of_nat (n div 2 ^ k) :: u8) :: u32) = of_nat n"
proof -
  note u = bank_size [OF assms]
  then have "n < 2 ^ 32" using unsigned_less [of "push_bit k (ucast (of_nat (n div 2 ^ k) :: u8) :: u32)", where 'a = nat] by simp
  with u show ?thesis by (simp add: word_unat_eq_iff unat_of_nat take_bit_nat_eq_self)
qed

section \<open>Parsing\<close>

definition parsed_rom :: "ines_parts \<Rightarrow> nat \<Rightarrow> rom_ines \<Rightarrow> rom_ines" where
  "parsed_rom c b r =
     (let t = length (print_trainer c)
      in (RomInes b r)\<lparr>has_trainer := (part_trainer c \<noteq> None),
           trainer := (if part_trainer c = None then trainer r else print_trainer c),
           mapper_num := ucast (part_mapper c), submapper := 0,
           chr_rom_size := of_nat (length (part_chr c)), prg_rom_size := of_nat (length (part_prg c)),
           ram_size := (if 8192 * ucast (part_ram c) = (0 :: u32) then 8192 else 8192 * ucast (part_ram c)),
           display_system := 0, vram_config := mirroring_config (part_mirroring c),
           prg_rom := (b, 16 + t), chr_rom := (b, 16 + t + length (part_prg c))\<rparr>)"

lemma length_print_header [simp]: "length (print_header c) = 16"
  by (simp add: print_header_def)

lemma header_byte:
  assumes "holds h b (print_image c @ rest)" and "i < 16"
  shows "load_byte h (b, i) = Some (print_header c ! i)"
  using load_byte_holds [OF assms(1), of i] assms(2) by (simp add: print_image_def nth_append)

lemma Parse_trainer_image:
  assumes "parts_ok c" and "holds h b (print_image c @ rest)" and "rom_memory r = b"
  shows "Parse_trainer h (print_flags6 c) r =
    Some ((b, 16 + length (print_trainer c)), r\<lparr>has_trainer := (part_trainer c \<noteq> None),
      trainer := (if part_trainer c = None then trainer r else print_trainer c)\<rparr>)"
proof (cases "part_trainer c")
  case (Some t)
  then have "length t = 512" using assms(1) by (simp add: parts_ok_def)
  then have "load_bytes h (b, 16) 512 = Some t"
    using assms(2) Some
    by (intro load_bytes_holds [where xs = "print_header c" and zs = "part_prg c @ part_chr c @ rest"])
      (simp_all add: print_image_def print_trainer_def)
  with Some \<open>length t = 512\<close> assms(3) show ?thesis
    by (simp add: Parse_trainer_def flags6_bits print_trainer_def ptr_add_def Let_def)
qed (simp add: Parse_trainer_def flags6_bits print_trainer_def Let_def assms(3))

lemma Parse_image:
  assumes "parts_ok c" and "holds h b (print_image c @ rest)"
  shows "Parse h (RomInes b r) = Some (True, parsed_rom c b r)"
proof -
  note hb = header_byte [OF assms(2)]
  have bytes: "load_byte h (b, 4) = Some (of_nat (length (part_prg c) div 0x4000))"
    "load_byte h (b, 5) = Some (of_nat (length (part_chr c) div 0x2000))"
    "load_byte h (b, 6) = Some (print_flags6 c)" "load_byte h (b, 7) = Some (part_mapper c AND 0xF0)"
    "load_byte h (b, 8) = Some (part_ram c)"
    using hb [of 4] hb [of 5] hb [of 6] hb [of 7] hb [of 8] by (simp_all add: print_header_def)
  have v: "(part_mapper c AND 0xF0) AND 0xC \<noteq> 8"
  proof -
    have "(0xC :: u8) AND 0xF0 = 0" by simp
    then have "(part_mapper c AND 0xF0) AND 0xC = 0" by (simp only: and.assoc and.commute [of "0xF0"]) simp
    then show ?thesis by simp
  qed
  have F0: "(part_mapper c AND 0xF0) AND 0xF0 = part_mapper c AND 0xF0" by (simp add: and.assoc)
  have sizes: "push_bit 14 (ucast (of_nat (length (part_prg c) div 0x4000) :: u8) :: u32) = of_nat (length (part_prg c))"
    "push_bit 13 (ucast (of_nat (length (part_chr c) div 0x2000) :: u8) :: u32) = of_nat (length (part_chr c))"
    "unat (of_nat (length (part_prg c)) :: u32) = length (part_prg c)"
    using assms(1) bank_word [of "length (part_prg c)" 14] bank_word [of "length (part_chr c)" 13]
    by (auto simp: parts_ok_def unat_of_nat take_bit_nat_eq_self)
  have m: "rom_memory (RomInes b r) = b" "trainer (RomInes b r) = trainer r" by (simp_all add: RomInes_def)
  note t = Parse_trainer_image [OF assms m(1), unfolded m(2)]
  have mir: "(if print_flags6 c AND 8 \<noteq> 0 then QUAD_SCREEN else if print_flags6 c AND 1 \<noteq> 0 then VERTICAL_MIRROR
      else HORIZONTAL_MIRROR) = mirroring_config (part_mirroring c)"
    by (cases "part_mirroring c") (simp_all add: mirroring_config_def flags6_bits)
  define ram where "ram = 8192 * (ucast (part_ram c) :: u32)"
  have version: "Parse_version (\<lambda>i. load_byte h (b, i)) r' =
      Some (r'\<lparr>ram_size := (if ram = 0 then 8192 else ram), ram_size_backed := 0, display_system := 0\<rparr>)" for r'
    by (simp add: Parse_version_def bytes v Let_def ram_def)
  show ?thesis
    unfolding Parse_def Let_def m(1) bytes Option.bind.simps t prod.case version F0 mapper_nibbles mir
      parsed_rom_def ram_def [symmetric]
    by (simp add: sizes ptr_add_def RomInes_def)
qed

lemma has_signature_holds:
  "holds h b (xs @ sig @ ys) \<Longrightarrow> has_signature h (b, length xs) sig = Some True"
proof (induction sig arbitrary: xs)
  case (Cons c sig)
  have "load_byte h (b, length xs) = Some c" using load_byte_holds [OF Cons.prems, of "length xs"] by simp
  with Cons.IH [of "xs @ [c]"] Cons.prems show ?case by (simp add: ptr_add_def)
qed simp

lemma Rom_LoadRom_image:
  assumes "parts_ok c" and "holds h b (print_image c @ rest)"
  shows "Rom_LoadRom h b r = Some (Some (parsed_rom c b r))"
proof -
  have "has_signature h (b, 0) [0x4E, 0x45, 0x53, 0x1A] = Some True"
    using has_signature_holds [of h b "[]" "[0x4E, 0x45, 0x53, 0x1A]"] assms(2)
    by (simp add: print_image_def print_header_def)
  then show ?thesis by (simp add: Rom_LoadRom_def Parse_image [OF assms])
qed

lemma parsed_regions:
  assumes "parts_ok c" and "holds h b (print_image c @ rest)"
  shows "load_bytes h (prg_rom (parsed_rom c b r)) (length (part_prg c)) = Some (part_prg c)"
    "load_bytes h (chr_rom (parsed_rom c b r)) (length (part_chr c)) = Some (part_chr c)"
proof -
  have p: "prg_rom (parsed_rom c b r) = (b, length (print_header c @ print_trainer c))"
    and q: "chr_rom (parsed_rom c b r) = (b, length (print_header c @ print_trainer c @ part_prg c))"
    by (simp_all add: parsed_rom_def Let_def)
  show "load_bytes h (prg_rom (parsed_rom c b r)) (length (part_prg c)) = Some (part_prg c)"
    using assms(2) unfolding p
    by (intro load_bytes_holds [where xs = "print_header c @ print_trainer c" and zs = "part_chr c @ rest"])
      (simp_all add: print_image_def)
  show "load_bytes h (chr_rom (parsed_rom c b r)) (length (part_chr c)) = Some (part_chr c)"
    using assms(2) unfolding q
    by (intro load_bytes_holds [where xs = "print_header c @ print_trainer c @ part_prg c" and zs = rest])
      (simp_all add: print_image_def)
qed

lemma ram_size_zero: "8192 * ucast (x :: u8) = (0 :: u32) \<longleftrightarrow> x = 0"
proof -
  have "unat (8192 * ucast x :: u32) = 8192 * unat x"
    using u8_less [of x] by (simp add: unat_word_ariths unat_ucast_u8)
  then show ?thesis by (simp add: word_unat_eq_iff)
qed

definition loads_copy :: "nat \<Rightarrow> u8 list \<Rightarrow> host_mem \<Rightarrow> host_mem" where
  "loads_copy b data h =
     h\<lparr>blk_size := (blk_size h)(b := length data),
       blk_data := (blk_data h)(b := (\<lambda>i. if i < length data then data ! i else 0))\<rparr>"

lemma holds_copy: "holds (loads_copy b data h) b data"
  by (simp add: holds_def loads_copy_def)

lemma Rom_LoadRom_copy_image:
  assumes "parts_ok c"
  shows "Rom_LoadRom_copy b (print_image c @ rest) h r =
    Some (Some (parsed_rom c b r), loads_copy b (print_image c @ rest) h)"
  using Rom_LoadRom_image [OF assms holds_copy, of b rest h r]
  by (simp add: Rom_LoadRom_copy_def NativeMemory_Create_def loads_copy_def Let_def)

text \<open>
  C16: a printed ROM image loads as its parts.  For every mapper number below 256, mirroring, RAM size, trainer,
  and program and character ROMs of whole banks, \<open>LoadRom\<close> of the printed image (and whatever
  follows it) yields a ROM whose regions hold these bytes with their sizes, and whose configuration
  names the mapper, the mirroring, NTSC and the RAM size.
\<close>

theorem parse_printed_image:
  assumes "parts_ok c"
  shows "\<exists>r h' p q. Rom_LoadRom_copy b (print_image c @ rest) h storage = Some (Some r, h') \<and>
    GetRegion ''PRG ROM'' r = (Some (Image p), of_nat (length (part_prg c))) \<and>
    load_bytes h' p (length (part_prg c)) = Some (part_prg c) \<and>
    GetRegion ''CHR ROM'' r = (Some (Image q), of_nat (length (part_chr c))) \<and>
    load_bytes h' q (length (part_chr c)) = Some (part_chr c) \<and>
    GetRegion ''TRAINER'' r = (case part_trainer c of None \<Rightarrow> (None, 0) | Some t \<Rightarrow> (Some (Trainer t), 512)) \<and>
    GetConfig ''MAPPER'' r = Some (push_bit 8 (ucast (part_mapper c))) \<and>
    GetConfig ''VRAM CONFIG'' r = Some (mirroring_config (part_mirroring c)) \<and>
    GetConfig ''DISPLAY'' r = Some 0 \<and>
    GetConfig ''PRG RAM SIZE'' r = Some (if part_ram c = 0 then 8192 else 8192 * ucast (part_ram c))"
proof -
  let ?r = "parsed_rom c b storage" and ?h = "loads_copy b (print_image c @ rest) h"
  note regions = parsed_regions [OF assms holds_copy, of b rest h storage]
  have "GetRegion ''PRG ROM'' ?r = (Some (Image (prg_rom ?r)), of_nat (length (part_prg c)))"
    "GetRegion ''CHR ROM'' ?r = (Some (Image (chr_rom ?r)), of_nat (length (part_chr c)))"
    "GetRegion ''TRAINER'' ?r = (case part_trainer c of None \<Rightarrow> (None, 0) | Some t \<Rightarrow> (Some (Trainer t), 512))"
    by (auto simp: GetRegion_def parsed_rom_def Let_def print_trainer_def split: option.splits)
  moreover have "GetConfig ''MAPPER'' ?r = Some (push_bit 8 (ucast (part_mapper c)))"
    "GetConfig ''VRAM CONFIG'' ?r = Some (mirroring_config (part_mirroring c))" "GetConfig ''DISPLAY'' ?r = Some 0"
    "GetConfig ''PRG RAM SIZE'' ?r = Some (if part_ram c = 0 then 8192 else 8192 * ucast (part_ram c))"
    by (simp_all add: GetConfig_def parsed_rom_def Let_def ram_size_zero)
  ultimately show ?thesis
    unfolding Rom_LoadRom_copy_image [OF assms] using regions
    by (intro exI [of _ ?r] exI [of _ ?h] exI [of _ "prg_rom ?r"] exI [of _ "chr_rom ?r"]) simp
qed

definition small_parts :: ines_parts where
  "small_parts = \<lparr>part_mapper = 0x42, part_mirroring = Vertical, part_ram = 0, part_trainer = None,
     part_prg = replicate 0x4000 7, part_chr = []\<rparr>"

definition blank_host :: host_mem where
  "blank_host = \<lparr>blk_size = (\<lambda>_. 0), blk_data = (\<lambda>_ _. 0)\<rparr>"

definition blank_rom :: rom_ines where
  "blank_rom = \<lparr>rom_memory = 0, chr_rom = (0, 0), prg_rom = (0, 0), chr_rom_size = 0, prg_rom_size = 0,
     ram_size = 0, ram_size_backed = 0, chr_ram_size = 0, chr_ram_size_backed = 0, mapper_num = 0, submapper = 0,
     vram_config = 0, display_system = 0, has_trainer = False, trainer = []\<rparr>"

lemma parse_printed_image_witness:
  "\<exists>r h'. Rom_LoadRom_copy 3 (print_image small_parts) blank_host blank_rom = Some (Some r, h') \<and>
    GetConfig ''MAPPER'' r = Some 0x4200"
proof -
  have "parts_ok small_parts" by (simp add: parts_ok_def small_parts_def)
  from parse_printed_image [OF this, of 3 "[]" blank_host blank_rom] show ?thesis
    by (auto simp: small_parts_def)
qed

text \<open>A header of version 2 loses the low byte of the mapper number, which is in \<open>flags6\<close> and \<open>flags7\<close>.\<close>

lemma ines2_mapper_low_byte_lost:
  assumes "Parse h (RomInes b r) = Some (ok, r')" and "load_byte h (b, 7) = Some flags7" and "flags7 AND 0xC = 8"
  shows "mapper_num r' AND 0xFF = 0"
proof -
  have "Parse_version hdr r1 = Some r2 \<Longrightarrow> hdr 7 = Some flags7 \<Longrightarrow> \<exists>m :: u8. mapper_num r2 = push_bit 8 (ucast m)"
    for hdr r1 r2
    using assms(3) by (auto simp: Parse_version_def bind_eq_Some_conv)
  then obtain m :: u8 where "mapper_num r' = push_bit 8 (ucast m)"
    using assms(1,2) by (fastforce simp: Parse_def Let_def bind_eq_Some_conv RomInes_def)
  moreover have "push_bit 8 (ucast m) AND mask 8 = (0 :: u32)"
    by (rule bit_word_eqI) (auto simp: bit_simps)
  ultimately show ?thesis by (simp add: mask_eq_exp_minus_1)
qed

end
