(* ===== verification/Nes_Memory.thy ===== *)
theory Nes_Memory
  imports Nes Rom_Laws Ppu_Machine
begin

text \<open>
  The memory maps of the NES: what \<open>LoadRom\<close> of a cartridge without mapper puts behind the addresses of the two
  buses.
\<close>

section \<open>\<open>Map\<close> on pages of 1 KiB\<close>

definition set_ptrs :: "nat \<Rightarrow> nat \<Rightarrow> host_ptr \<Rightarrow> bool \<Rightarrow> page list \<Rightarrow> page list" where
  "set_ptrs f n p ro ps =
     map (\<lambda>j. if f \<le> j \<and> j < f + n
              then (ps ! j)\<lparr>ptr := Some (ptr_add p ((j - f) * 0x400)),
                            flags := (if ro then flags (ps ! j) OR kReadOnly else flags (ps ! j))\<rparr>
              else ps ! j) [0..<length ps]"

lemma length_set_ptrs [simp]: "length (set_ptrs f n p ro ps) = length ps"
  by (simp add: set_ptrs_def)

lemma nth_set_ptrs [simp]:
  "j < length ps \<Longrightarrow> set_ptrs f n p ro ps ! j =
     (if f \<le> j \<and> j < f + n
      then (ps ! j)\<lparr>ptr := Some (ptr_add p ((j - f) * 0x400)),
                    flags := (if ro then flags (ps ! j) OR kReadOnly else flags (ps ! j))\<rparr>
      else ps ! j)"
  by (simp add: set_ptrs_def)

lemma set_pages_simps [simp]:
  "pages (memory (set_pages ps b)) = ps" "page_size (memory (set_pages ps b)) = page_size (memory b)"
  "set_pages ps (set_pages qs b) = set_pages ps b" "mem_mask (set_pages ps b) = mem_mask b"
  "geometry k (set_pages ps b) = geometry k b"
  by (simp_all add: set_pages_def geometry_def)

lemma Map_pages:
  assumes "page_size (memory b) = 0x400" and "unat addr div 0x400 + unat len div 0x400 \<le> length (pages (memory b))"
  shows "Map addr p len ro b =
    Some (set_pages (set_ptrs (unat addr div 0x400) (unat len div 0x400) p ro (pages (memory b))) b)"
  using Map_loop_spec [where first = "unat addr div 0x400" and i = 0 and n = "unat len div 0x400" and
      ps = "pages (memory b)" and p = p and psize = "0x400" and ro = ro] assms
  by (simp add: Map_def Let_def unat_div set_pages_def set_ptrs_def)

section \<open>The name tables\<close>

text \<open>The KiB of the name table memory that page \<open>j\<close> of the picture processor's bus shows.\<close>

definition name_table_page :: "mirroring \<Rightarrow> nat \<Rightarrow> nat" where
  "name_table_page m j = (case m of Vertical \<Rightarrow> j mod 2 | Horizontal \<Rightarrow> j div 2 mod 2 | Quad \<Rightarrow> j mod 4)"

lemma below_16: "(j :: nat) < 16 \<longleftrightarrow> j \<in> set [0, 1, 2, 3, 4, 5, 6, 7, 8, 9, 10, 11, 12, 13, 14, 15]"
  by simp presburger

lemma map_vram_pages:
  assumes "page_size (memory b) = 0x400" and "length (pages (memory b)) = 16"
    and "\<forall>p \<in> set (pages (memory b)). p = q"
  shows "map_vram (mirroring_config m) v b =
    Some (set_pages (map (\<lambda>j. if 8 \<le> j then q\<lparr>ptr := Some (v, name_table_page m j * 0x400)\<rparr> else q) [0..<16]) b)"
proof -
  have q: "pages (memory b) = replicate 16 q"
    using assms(2,3) by (intro replicate_eqI) auto
  have l: "set_pages ps b = set_pages qs b \<longleftrightarrow> ps = qs" for ps qs
    by (metis set_pages_simps(1))
  show ?thesis
    using assms(1)
    by (cases m; simp add: map_vram_def mirroring_config_def HORIZONTAL_MIRROR_def VERTICAL_MIRROR_def QUAD_SCREEN_def
        Map_pages q l; intro nth_equalityI; simp add: below_16 name_table_page_def ptr_add_def; elim disjE; simp add: ptr_add_def)
qed

section \<open>The ROMs\<close>

lemma map_chr:
  assumes "page_size (memory b) = 0x400" and "length (pages (memory b)) = 16"
  shows "map_rom 0x2000 p 0x2000 0 b = Some (set_pages (set_ptrs 0 8 p True (pages (memory b))) b)"
  by (subst map_rom.simps, simp add: Map_pages assms, subst map_rom.simps, simp)

text \<open>The page table of the main bus: RAM four times, the program ROM of \<open>n\<close> pages once or twice.\<close>

definition nes_main_page :: "u32 \<Rightarrow> nat \<Rightarrow> host_ptr \<Rightarrow> nat \<Rightarrow> nat \<Rightarrow> page" where
  "nes_main_page clk r prg n j =
     (let q = nes_page clk j in
      if j < 8 then q\<lparr>ptr := Some (r, j mod 2 * 0x400)\<rparr>
      else if 32 \<le> j then q\<lparr>ptr := Some (ptr_add prg ((j - 32) mod n * 0x400)), flags := kReadOnly\<rparr>
      else q)"

lemma map_ram_pages:
  assumes "page_size (memory b) = 0x400" and "pages (memory b) = main_pages clk"
  shows "Map_all [(0, (r, 0)), (0x800, (r, 0)), (0x1000, (r, 0)), (0x1800, (r, 0))] 0x800 b =
    Some (set_pages (map (\<lambda>j. if j < 8 then (nes_page clk j)\<lparr>ptr := Some (r, j mod 2 * 0x400)\<rparr> else nes_page clk j) [0..<64]) b)"
proof -
  have l: "set_pages ps b = set_pages qs b \<longleftrightarrow> ps = qs" for ps qs
    by (metis set_pages_simps(1))
  have d: "j = 0 \<or> j = 1 \<or> j = 2 \<or> j = 3 \<or> j = 4 \<or> j = 5 \<or> j = 6 \<or> j = 7 \<or> 8 \<le> j" for j :: nat by presburger
  show ?thesis
    using assms apply (simp add: Map_pages main_pages_def l)
    apply (rule nth_equalityI, simp)
    subgoal for i using d [of i] by (elim disjE) (simp_all add: ptr_add_def nes_page_def)
    done
qed

lemma map_prg:
  assumes "page_size (memory b) = 0x400" and "length (pages (memory b)) = 64"
    and "\<And>j. 32 \<le> j \<Longrightarrow> j < 64 \<Longrightarrow> flags (pages (memory b) ! j) = 0" and "n \<in> {16, 32}"
  shows "map_rom 0x10000 p (of_nat (n * 0x400)) 0x8000 b =
    Some (set_pages (map (\<lambda>j. if 32 \<le> j then (pages (memory b) ! j)\<lparr>ptr := Some (ptr_add p ((j - 32) mod n * 0x400)), flags := kReadOnly\<rparr>
      else pages (memory b) ! j) [0..<64]) b)"
proof -
  have l: "set_pages ps b = set_pages qs b \<longleftrightarrow> ps = qs" for ps qs
    by (metis set_pages_simps(1))
  note f = assms(3)
  have m16: "(j - 32) mod 16 = (if j < 48 then j - 32 else j - 48)" if "32 \<le> j" "j < 64" for j :: nat
    using that by (simp add: le_mod_geq)
  show ?thesis
  proof (cases "n = 16")
    case True
    then show ?thesis
      apply simp
      apply (subst map_rom.simps, simp add: Map_pages assms)
      apply (subst map_rom.simps, simp add: Map_pages assms)
      apply (subst map_rom.simps, simp add: l)
      apply (rule nth_equalityI, simp add: assms)
      apply (simp add: assms m16 f)
      done
  next
    case False
    then have "n = 32" using assms(4) by simp
    then show ?thesis
      apply simp
      apply (subst map_rom.simps, simp add: Map_pages assms)
      apply (subst map_rom.simps, simp add: l)
      apply (rule nth_equalityI, simp add: assms)
      apply (simp add: assms f)
      done
  qed
qed

section \<open>Addresses\<close>

lemma page_ram:
  assumes "geometry 10 (sysbus s)" and "mem_mask (sysbus s) = mask n" and "unat a < 2 ^ n"
    and "unat a div 0x400 < length (pages (memory (sysbus s)))"
    and "pages (memory (sysbus s)) ! (unat a div 0x400) = p"
    and "io_mask p = 0" and "io_eq p = 1" and "ptr p = Some q" and "snd q + 0x400 \<le> blk_size (host s) (fst q)"
  shows "ram_ptr s a = Some (ptr_add q (unat a mod 0x400))" and "page_flags s a = flags p"
    and "page_cycles s a = cycles_per_access p"
proof -
  have "unat (a AND mask n) = unat a" using assms(3) by (simp only: unat_and_mask_mod) simp
  then have m: "a AND mem_mask (sysbus s) = a" by (simp add: assms(2) word_unat_eq_iff)
  have i: "page_index s a = unat a div 0x400" "page_offset s a = unat a mod 0x400"
    using unat_page_index [OF assms(1)] unat_page_offset [OF assms(1)] by simp_all
  have p: "page_at (unat a div 0x400) s = Some p" using assms(4,5) by (simp add: page_at_def Let_def)
  have "valid_ptr (host s) (ptr_add q (unat a mod 0x400))"
    using assms(9) mod_less_divisor [of "0x400" "unat a"] by (simp add: valid_ptr_def ptr_add_def del: mod_less_divisor)
  then show "ram_ptr s a = Some (ptr_add q (unat a mod 0x400))"
    by (simp add: ram_ptr_def Let_def m p i assms(6,7,8))
  show "page_flags s a = flags p" "page_cycles s a = cycles_per_access p"
    by (simp_all add: page_flags_def page_cycles_def m i p)
qed

section \<open>Power on\<close>

lemma OnUpdateMode_keeps [simp]:
  "host (OnUpdateMode s) = host s" "sysbus (OnUpdateMode s) = sysbus s" "dev (OnUpdateMode s) = dev s"
  "ip (OnUpdateMode s) = ip s" "cycle (OnUpdateMode s) = cycle s"
  by (simp_all add: OnUpdateMode_def Let_def)

lemma PowerOn_ram:
  assumes "ram_ptr s 0xFFFC = Some q" and "ram_ptr s 0xFFFD = Some q'"
  shows "\<exists>s'. PowerOn io s = Some ((), s') \<and> host s' = host s \<and> memory (sysbus s') = memory (sysbus s) \<and>
    mem_mask (sysbus s') = mem_mask (sysbus s) \<and> dev s' = dev s \<and> ip s' = le16 (ram_byte s q) (ram_byte s q')"
proof -
  define t where "t = s\<lparr>regs_a := 0, regs_x := 0, regs_y := 0, regs_d := 0, regs_sp := 0x100, zero_flag := 1,
    data_segment_base := 0, code_segment_base := 0, regs_sp := set_lo8 (lo8 0x100 - 3) 0x100\<rparr>"
  have c: "host t = host s" "memory (sysbus t) = memory (sysbus s)" "mem_mask (sysbus t) = mem_mask (sysbus s)" "dev t = dev s"
    by (simp_all add: t_def)
  note rc = ram_cong [OF c(1-3)]
  have r1: "ReadU8 io 0xFFFC t = Some (ram_byte s q, (set_open_bus (ram_byte s q) t)\<lparr>cycle := cycle t + ucast (page_cycles t 0xFFFC)\<rparr>)"
    using ReadByte_ram [of t "0xFFFC" q io] assms(1) by (simp add: ReadU8_def rc set_open_bus_def)
  define t1 where "t1 = (set_open_bus (ram_byte s q) t)\<lparr>cycle := cycle t + ucast (page_cycles t 0xFFFC)\<rparr>"
  have c1: "host t1 = host s" "memory (sysbus t1) = memory (sysbus s)" "mem_mask (sysbus t1) = mem_mask (sysbus s)" "dev t1 = dev s"
    using c by (simp_all add: t1_def set_open_bus_def)
  note rc1 = ram_cong [OF c1(1-3)]
  have r2: "ReadU8 io 0xFFFD t1 = Some (ram_byte s q', (set_open_bus (ram_byte s q') t1)\<lparr>cycle := cycle t1 + ucast (page_cycles t1 0xFFFD)\<rparr>)"
    using ReadByte_ram [of t1 "0xFFFD" q' io] assms(2) by (simp add: ReadU8_def rc1 set_open_bus_def)
  have "PowerOn io s = (do {
        (ip_low, s) \<leftarrow> ReadU8 io 0xFFFC t;
        (ip_high, s) \<leftarrow> ReadU8 io 0xFFFD s;
        s \<leftarrow> Some (s\<lparr>cycle := cycle s + ucast (internal_cycle_timing s * 4)\<rparr>);
        s \<leftarrow> Some (s\<lparr>ip := le16 ip_low ip_high, data_segment_base := 0, code_segment_base := 0,
                     interrupts := 0, mode_emulation := True, mode_long_a := False,
                     mode_long_xy := False\<rparr>);
        Some ((), OnUpdateMode s)
      })"
    by (simp add: PowerOn_def Reset_def t_def)
  then show ?thesis
    unfolding r1 t1_def [symmetric] using r2 c1 by (simp add: set_open_bus_def)
qed

section \<open>The cartridge\<close>

text \<open>The parts of a cartridge without mapper: one or two banks of program, one of characters.\<close>

definition nrom_ok :: "ines_parts \<Rightarrow> bool" where
  "nrom_ok c \<longleftrightarrow> parts_ok c \<and> part_mapper c = 0 \<and> length (part_prg c) \<in> {0x4000, 0x8000} \<and> length (part_chr c) = 0x2000"

definition nes_ppu_page :: "nat \<Rightarrow> host_ptr \<Rightarrow> mirroring \<Rightarrow> nat \<Rightarrow> page" where
  "nes_ppu_page v chr m j =
     (let q = \<lparr>ptr = None, flags = 0, io_mask = 0, io_eq = 1, cycles_per_access = 0\<rparr>
      in if j < 8 then q\<lparr>ptr := Some (ptr_add chr (j * 0x400)), flags := kReadOnly\<rparr>
         else q\<lparr>ptr := Some (v, name_table_page m j * 0x400)\<rparr>)"

lemma map_ppu_pages:
  assumes "page_size (memory b) = 0x400" and "pages (memory b) = ppu_pages"
  shows "map_vram (mirroring_config m) v b \<bind> map_rom 0x2000 p 0x2000 0 =
    Some (set_pages (map (nes_ppu_page v p m) [0..<16]) b)"
proof -
  have l: "set_pages ps b = set_pages qs b \<longleftrightarrow> ps = qs" for ps qs
    by (metis set_pages_simps(1))
  let ?q = "\<lparr>ptr = None, flags = 0, io_mask = 0, io_eq = 1, cycles_per_access = 0\<rparr> :: page"
  have "map_vram (mirroring_config m) v b =
    Some (set_pages (map (\<lambda>j. if 8 \<le> j then ?q\<lparr>ptr := Some (v, name_table_page m j * 0x400)\<rparr> else ?q) [0..<16]) b)"
    using assms by (intro map_vram_pages) (simp_all add: ppu_pages_def)
  then show ?thesis
    using assms(1) by (simp add: map_chr l) (rule nth_equalityI, simp_all add: nes_ppu_page_def)
qed

lemma Map_all_pages_size: "page_size (memory (bus_Init 10 n ps b)) = 0x400" "pages (memory (bus_Init 10 n ps b)) = ps"
  by (simp_all add: bus_Init_def)

text \<open>The two buses and the memory after \<open>Setup\<close>.\<close>

lemma Setup_nrom:
  assumes "nrom_ok c" and "pages (memory mb) = map (\<lambda>j. if j < 8 then (nes_page clk j)\<lparr>ptr := Some (r, j mod 2 * 0x400)\<rparr> else nes_page clk j) [0..<64]"
    and "page_size (memory mb) = 0x400" and "page_size (memory pb) = 0x400" and "pages (memory pb) = ppu_pages"
  shows "Setup (Mapper0 v) (parsed_rom c b r0) (mb, pb, h) =
    Some (True, set_pages (map (nes_main_page clk r (prg_rom (parsed_rom c b r0)) (length (part_prg c) div 0x400)) [0..<64]) mb,
      set_pages (map (nes_ppu_page v (chr_rom (parsed_rom c b r0)) (part_mirroring c)) [0..<16]) pb, NativeMemory_Create v 0x1000 h)"
proof -
  let ?rom = "parsed_rom c b r0" and ?n = "length (part_prg c) div 0x400"
  have l: "set_pages ps mb = set_pages qs mb \<longleftrightarrow> ps = qs" for ps qs
    by (metis set_pages_simps(1))
  have n: "?n \<in> {16, 32}" "length (part_prg c) = ?n * 0x400"
    using assms(1) by (auto simp: nrom_ok_def)
  have g: "GetRegion ''PRG ROM'' ?rom = (Some (Image (prg_rom ?rom)), of_nat (?n * 0x400))"
    "GetRegion ''CHR ROM'' ?rom = (Some (Image (chr_rom ?rom)), 0x2000)"
    "GetConfig ''VRAM CONFIG'' ?rom = Some (mirroring_config (part_mirroring c))"
    using assms(1) n(2) by (simp_all add: GetRegion_def GetConfig_def parsed_rom_def Let_def nrom_ok_def)
  obtain pb' where pb': "map_vram (mirroring_config (part_mirroring c)) v pb = Some pb'"
    "map_rom 0x2000 (chr_rom ?rom) 0x2000 0 pb' =
      Some (set_pages (map (nes_ppu_page v (chr_rom ?rom) (part_mirroring c)) [0..<16]) pb)"
    using map_ppu_pages [OF assms(4,5), of "part_mirroring c" v "chr_rom ?rom"] by (auto simp: bind_eq_Some_conv)
  have "map_rom 0x10000 (prg_rom ?rom) (of_nat (?n * 0x400)) 0x8000 mb =
      Some (set_pages (map (nes_main_page clk r (prg_rom ?rom) ?n) [0..<64]) mb)"
    using assms(2,3) n(1) by (subst map_prg) (auto simp: nes_page_def nes_main_page_def l Let_def)
  then show ?thesis
    by (simp add: Setup_def g pb')
qed

section \<open>Loading\<close>

text \<open>What the machine and the cartridge's image are like before: RAM, image and name table memory are three blocks.\<close>

definition ready_for :: "ines_parts \<Rightarrow> nat \<Rightarrow> nat \<Rightarrow> nes \<Rightarrow> bool" where
  "ready_for c b v m \<longleftrightarrow>
     (\<exists>rest. holds (host m) b (print_image c @ rest)) \<and> 0x800 \<le> blk_size (host m) (sysram (dev m)) \<and>
     distinct [b, v, sysram (dev m)]"

text \<open>The memory and the buses after loading.\<close>

definition nes_mapped :: "ines_parts \<Rightarrow> nat \<Rightarrow> nat \<Rightarrow> rom_ines \<Rightarrow> nes \<Rightarrow> bool" where
  "nes_mapped c b v rom m \<longleftrightarrow>
     (let r = sysram (dev m); mb = sysbus m; pb = sysbus (nes_ppu (dev m)) in
      (\<exists>rest. holds (host m) b (print_image c @ rest)) \<and> 0x800 \<le> blk_size (host m) r \<and> blk_size (host m) v = 0x1000 \<and>
      distinct [b, v, r] \<and>
      geometry 10 mb \<and> mem_mask mb = mask 16 \<and>
      pages (memory mb) = map (nes_main_page 12 r (prg_rom rom) (length (part_prg c) div 0x400)) [0..<64] \<and>
      geometry 10 pb \<and> mem_mask pb = mask 14 \<and>
      pages (memory pb) = map (nes_ppu_page v (chr_rom rom) (part_mirroring c)) [0..<16])"

lemma nes_LoadRom_setup:
  assumes "nrom_ok c" and "ready_for c b v m"
  shows "\<exists>m'. nes_LoadRom v (parsed_rom c b r0) m = nes_PowerOn (parsed_rom c b r0) m' \<and>
    nes_mapped c b v (parsed_rom c b r0) m' \<and> nes_mapper (dev m') = Some (Mapper0 v) \<and>
    (\<forall>i < 0x800. blk_data (host m') (sysram (dev m')) i = 0)"
proof -
  let ?rom = "parsed_rom c b r0" and ?r = "sysram (dev m)"
  define h where "h = (host m)\<lparr>blk_data := (blk_data (host m))(?r := (\<lambda>i. if i < 2048 then 0 else blk_data (host m) ?r i))\<rparr>"
  define d where "d = (dev m)\<lparr>nes_system := 0, master_clocks_per_frame := 357366, cpu_clock_size := 12,
    nes_ppu := (nes_ppu (dev m))\<lparr>ppu_clock_size := 4, nominal_ppu_frame_time := 89341 * 4\<rparr>\<rparr>"
  let ?mb0 = "bus_Init 10 16 (main_pages 12) (sysbus m)"
  define mb where "mb = set_pages (map (\<lambda>j. if j < 8 then (nes_page 12 j)\<lparr>ptr := Some (?r, j mod 2 * 0x400)\<rparr> else nes_page 12 j) [0..<64]) ?mb0"
  define ps where "ps = ppu_Initialize True ((nes_ppu d)\<lparr>sysbus := bus_Init 10 14 ppu_pages (sysbus (nes_ppu d))\<rparr>)"
  define m1 where "m1 = m\<lparr>mode_native_6502 := True, supports_decimal := False, host := h, sysbus := mb,
    internal_cycle_timing := 12, dev := d\<lparr>nes_ppu := ps\<rparr>\<rparr>"
  have clocks: "set_clocks ((dev m)\<lparr>nes_system := 0\<rparr>) = Some d" by (simp add: set_clocks_def d_def)
  have clear: "clear_block ?r 2048 (host m) = Some h"
    using assms(2) by (simp add: clear_block_def h_def ready_for_def)
  have "Map_all [(0, (?r, 0)), (0x800, (?r, 0)), (0x1000, (?r, 0)), (0x1800, (?r, 0))] 0x800 ?mb0 = Some mb"
    unfolding mb_def by (intro map_ram_pages) (simp_all add: Map_all_pages_size)
  moreover have dd: "sysram d = ?r" "cpu_clock_size d = 12" "nes_system d = 0" by (simp_all add: d_def)
  ultimately have buses: "setup_buses (m\<lparr>dev := d\<rparr>) = Some m1"
    using clear by (simp add: setup_buses_def Let_def ps_def m1_def del: Map_all.simps)
  have config: "GetConfig ''DISPLAY'' ?rom = Some 0" "GetConfig ''MAPPER'' ?rom = Some 0"
    using assms(1) by (simp_all add: GetConfig_def parsed_rom_def Let_def nrom_ok_def)
  define pages_m where "pages_m = map (nes_main_page 12 ?r (prg_rom ?rom) (length (part_prg c) div 0x400)) [0..<64]"
  define pages_p where "pages_p = map (nes_ppu_page v (chr_rom ?rom) (part_mirroring c)) [0..<16]"
  have psb: "sysbus ps = bus_Init 10 14 ppu_pages (sysbus (nes_ppu d))" by (simp add: ps_def ppu_Initialize_def Let_def)
  have "Setup (Mapper0 v) ?rom (mb, sysbus ps, h) =
      Some (True, set_pages pages_m mb, set_pages pages_p (sysbus ps), NativeMemory_Create v 0x1000 h)"
    unfolding pages_m_def pages_p_def
    by (rule Setup_nrom [OF assms(1)]) (simp_all add: mb_def psb Map_all_pages_size)
  then have run: "setup_mapper (Mapper0 v) ?rom m1 = Some (True, m1\<lparr>host := NativeMemory_Create v 0x1000 h,
      sysbus := set_pages pages_m mb, dev := d\<lparr>nes_ppu := ps\<lparr>sysbus := set_pages pages_p (sysbus ps)\<rparr>, nes_mapper := Some (Mapper0 v)\<rparr>\<rparr>)"
    by (simp add: setup_mapper_def m1_def)
  define m2 where "m2 = m1\<lparr>host := NativeMemory_Create v 0x1000 h,
      sysbus := set_pages pages_m mb, dev := d\<lparr>nes_ppu := ps\<lparr>sysbus := set_pages pages_p (sysbus ps)\<rparr>, nes_mapper := Some (Mapper0 v)\<rparr>\<rparr>"
  have "nes_LoadRom v ?rom m = nes_PowerOn ?rom m2"
    by (simp add: nes_LoadRom_def config Let_def clocks buses CreateMapper_def run m2_def)
  moreover have "nes_mapped c b v ?rom m2"
    using assms(2)
    by (auto simp: nes_mapped_def ready_for_def m2_def dd h_def holds_def NativeMemory_Create_def geometry_Init mem_mask_Init
        pages_m_def pages_p_def mb_def psb Let_def)
  moreover have "nes_mapper (dev m2) = Some (Mapper0 v)" by (simp add: m2_def)
  moreover have "\<forall>i < 0x800. blk_data (host m2) (sysram (dev m2)) i = 0"
    using assms(2) by (auto simp: m2_def m1_def dd h_def NativeMemory_Create_def ready_for_def)
  ultimately show ?thesis by blast
qed

text \<open>The addresses of the two buses.\<close>

lemma load_bytes_nth:
  assumes "load_bytes h p n = Some xs"
  shows "snd p + n \<le> blk_size h (fst p)" and "i < n \<Longrightarrow> blk_data h (fst p) (snd p + i) = xs ! i"
  using assms by (auto simp: load_bytes_def split: if_splits)

lemma bank_offset: "k * (x div k mod n) + x mod k = x mod (k * n)" for x k n :: nat
  by (simp add: mod_mult2_eq)

lemma mapped_ram:
  assumes "nes_mapped c b v rom m" and "unat a < 0x2000"
  shows "ram_ptr m a = Some (sysram (dev m), unat a mod 0x800)" and "page_flags m a = 0"
proof -
  let ?j = "unat a div 0x400"
  have j: "?j < 8" using assms(2) by (simp add: less_mult_imp_div_less)
  have "snd (sysram (dev m), ?j mod 2 * 0x400) + 0x400 \<le> blk_size (host m) (fst (sysram (dev m), ?j mod 2 * 0x400))"
    using assms(1) by (auto simp: nes_mapped_def Let_def mod_2_eq_odd)
  note p = page_ram [of m 16 a _ "(sysram (dev m), ?j mod 2 * 0x400)", OF _ _ _ _ refl, OF _ _ _ _ _ _ _ this]
  have "0x400 * (?j mod 2) + unat a mod 0x400 = unat a mod 0x800"
    using bank_offset [of "0x400" "unat a" 2] by simp
  then show "ram_ptr m a = Some (sysram (dev m), unat a mod 0x800)" "page_flags m a = 0"
    using p(1,2) assms j by (simp_all add: nes_mapped_def Let_def nes_main_page_def nes_page_def ptr_add_def)
qed

lemma mapped_prg:
  assumes "nrom_ok c" and "nes_mapped c b v (parsed_rom c b r0) m" and "0x8000 \<le> unat a" and "unat a < 0x10000"
  shows "\<exists>q. ram_ptr m a = Some q \<and> ram_byte m q = part_prg c ! ((unat a - 0x8000) mod length (part_prg c))"
    and "page_flags m a = kReadOnly"
proof -
  let ?j = "unat a div 0x400" and ?rom = "parsed_rom c b r0" and ?l = "length (part_prg c)"
  define n x where "n = ?l div 0x400" and "x = unat a - 0x8000"
  have n: "?l = 0x400 * n" "0 < n" "n \<le> 32" using assms(1) by (auto simp: nrom_ok_def n_def)
  have a: "unat a = x + 0x8000" using assms(3) by (simp add: x_def)
  have j: "?j - 32 = x div 0x400" "unat a mod 0x400 = x mod 0x400" "?j < 64" "32 \<le> ?j"
    using assms(4) mod_mult_self1 [of x 32 "0x400"] by (simp_all add: a less_mult_imp_div_less)
  obtain rest where "holds (host m) b (print_image c @ rest)" using assms(2) by (auto simp: nes_mapped_def Let_def)
  then have "load_bytes (host m) (prg_rom ?rom) ?l = Some (part_prg c)"
    using assms(1) by (intro parsed_regions) (simp_all add: nrom_ok_def)
  note bytes = load_bytes_nth [OF this]
  let ?q = "ptr_add (prg_rom ?rom) ((?j - 32) mod n * 0x400)"
  have "(?j - 32) mod n < n" using n(2) by simp
  then have "((?j - 32) mod n + 1) * 0x400 \<le> n * 0x400" by (intro mult_le_mono1) simp
  then have "snd ?q + 0x400 \<le> blk_size (host m) (fst ?q)"
    using bytes(1) n(1) by (simp add: ptr_add_def)
  note p = page_ram [of m 16 a _ ?q, OF _ _ _ _ refl, OF _ _ _ _ _ _ _ this]
  have "(?j - 32) mod n * 0x400 + unat a mod 0x400 = x mod ?l"
    using bank_offset [of "0x400" x n] unfolding j(1,2) n(1) by simp
  then have "ram_ptr m a = Some (ptr_add (prg_rom ?rom) (x mod ?l))"
    using p(1) assms(2,4) j(3,4) by (simp add: nes_mapped_def Let_def nes_main_page_def nes_page_def ptr_add_def n_def [symmetric])
  moreover have "x mod ?l < ?l" using n by simp
  ultimately show "\<exists>q. ram_ptr m a = Some q \<and> ram_byte m q = part_prg c ! ((unat a - 0x8000) mod ?l)"
    using bytes(2) by (auto simp: ram_byte_def ptr_add_def x_def)
  show "page_flags m a = kReadOnly"
    using p(2) assms(2,4) j(3,4) by (simp add: nes_mapped_def Let_def nes_main_page_def nes_page_def n_def [symmetric])
qed

lemma ppu_of_simps [simp]:
  "host (ppu_of m) = host m" "sysbus (ppu_of m) = sysbus (nes_ppu (dev m))"
  by (simp_all add: ppu_of_def)

lemma mapped_chr:
  assumes "nrom_ok c" and "nes_mapped c b v (parsed_rom c b r0) m" and "unat a < 0x2000"
  shows "\<exists>q. ram_ptr (ppu_of m) a = Some q \<and> ram_byte (ppu_of m) q = part_chr c ! unat a"
    and "page_flags (ppu_of m) a = kReadOnly"
proof -
  let ?j = "unat a div 0x400" and ?rom = "parsed_rom c b r0"
  have j: "?j < 8" using assms(3) by (simp add: less_mult_imp_div_less)
  obtain rest where "holds (host m) b (print_image c @ rest)" using assms(2) by (auto simp: nes_mapped_def Let_def)
  then have "load_bytes (host m) (chr_rom ?rom) (length (part_chr c)) = Some (part_chr c)"
    using assms(1) by (intro parsed_regions) (simp_all add: nrom_ok_def)
  then have "load_bytes (host m) (chr_rom ?rom) 0x2000 = Some (part_chr c)"
    using assms(1) by (simp add: nrom_ok_def)
  note bytes = load_bytes_nth [OF this]
  let ?q = "ptr_add (chr_rom ?rom) (?j * 0x400)"
  have "snd ?q + 0x400 \<le> blk_size (host (ppu_of m)) (fst ?q)"
    using bytes(1) j by (simp add: ptr_add_def)
  note p = page_ram [of "ppu_of m" 14 a _ ?q, OF _ _ _ _ refl, OF _ _ _ _ _ _ _ this]
  have "?j * 0x400 + unat a mod 0x400 = unat a" by simp
  then have "ram_ptr (ppu_of m) a = Some (ptr_add (chr_rom ?rom) (unat a))"
    using p(1) assms(2,3) j by (simp add: nes_mapped_def Let_def nes_ppu_page_def ptr_add_def)
  then show "\<exists>q. ram_ptr (ppu_of m) a = Some q \<and> ram_byte (ppu_of m) q = part_chr c ! unat a"
    using bytes(2) [of "unat a"] assms(3) by (simp add: ram_byte_def ptr_add_def)
  show "page_flags (ppu_of m) a = kReadOnly"
    using p(2) assms(2,3) j by (simp add: nes_mapped_def Let_def nes_ppu_page_def)
qed

text \<open>The byte of the name table memory behind an address.\<close>

definition name_table_offset :: "mirroring \<Rightarrow> nat \<Rightarrow> nat" where
  "name_table_offset m a = (case m of
     Vertical \<Rightarrow> a mod 0x800
   | Horizontal \<Rightarrow> a div 0x800 mod 2 * 0x400 + a mod 0x400
   | Quad \<Rightarrow> a mod 0x1000)"

lemma name_table_offset_page: "name_table_page m (a div 0x400) * 0x400 + a mod 0x400 = name_table_offset m a"
  using bank_offset [of "0x400" a 2] bank_offset [of "0x400" a 4] div_mult2_eq [of a "0x400" 2]
  by (cases m) (simp_all add: name_table_page_def name_table_offset_def)

lemma mapped_name_table:
  assumes "nes_mapped c b v rom m" and "0x2000 \<le> unat a" and "unat a < 0x4000"
  shows "ram_ptr (ppu_of m) a = Some (v, name_table_offset (part_mirroring c) (unat a))" and "page_flags (ppu_of m) a = 0"
proof -
  let ?j = "unat a div 0x400" and ?mir = "part_mirroring c"
  have j: "8 \<le> ?j" "?j < 16" using assms(2,3) by (simp_all add: less_mult_imp_div_less)
  have "name_table_page ?mir ?j < 4"
    using mod_less_divisor [of 2 ?j] mod_less_divisor [of 2 "?j div 2"] by (cases ?mir) (simp_all add: name_table_page_def del: mod_less_divisor)
  then have "snd (v, name_table_page ?mir ?j * 0x400) + 0x400 \<le> blk_size (host (ppu_of m)) (fst (v, name_table_page ?mir ?j * 0x400))"
    using assms(1) by (simp add: nes_mapped_def Let_def)
  note p = page_ram [of "ppu_of m" 14 a _ "(v, name_table_page ?mir ?j * 0x400)", OF _ _ _ _ refl, OF _ _ _ _ _ _ _ this]
  show "ram_ptr (ppu_of m) a = Some (v, name_table_offset ?mir (unat a))" "page_flags (ppu_of m) a = 0"
    using p(1,2) assms j name_table_offset_page [of ?mir "unat a"]
    by (simp_all add: nes_mapped_def Let_def nes_ppu_page_def ptr_add_def)
qed

lemma mapped_PowerOn:
  assumes "nrom_ok c" and "nes_mapped c b v (parsed_rom c b r0) m"
  shows "\<exists>m'. nes_PowerOn rom m = Some (True, m') \<and> nes_mapped c b v (parsed_rom c b r0) m' \<and>
    sysram (dev m') = sysram (dev m) \<and> host m' = host m \<and>
    ip m' = le16 (part_prg c ! (length (part_prg c) - 4)) (part_prg c ! (length (part_prg c) - 3))"
proof -
  have l: "length (part_prg c) = 0x4000 \<or> length (part_prg c) = 0x8000" using assms(1) by (auto simp: nrom_ok_def)
  define t where "t = m\<lparr>dev := (dev m)\<lparr>nes_mapper := map_option mapper_PowerOn (nes_mapper (dev m))\<rparr>\<rparr>"
  have tm: "nes_mapped c b v (parsed_rom c b r0) t" using assms(2) by (simp add: nes_mapped_def t_def)
  obtain q q' where q: "ram_ptr t 0xFFFC = Some q" "ram_byte t q = part_prg c ! (length (part_prg c) - 4)"
    "ram_ptr t 0xFFFD = Some q'" "ram_byte t q' = part_prg c ! (length (part_prg c) - 3)"
    using mapped_prg(1) [OF assms(1) tm, of "0xFFFC"] mapped_prg(1) [OF assms(1) tm, of "0xFFFD"] l by auto
  obtain s where s: "PowerOn nes_io t = Some ((), s)" "host s = host t" "memory (sysbus s) = memory (sysbus t)"
    "mem_mask (sysbus s) = mem_mask (sysbus t)" "dev s = dev t" "ip s = le16 (ram_byte t q) (ram_byte t q')"
    using PowerOn_ram [OF q(1,3), of nes_io] by blast
  let ?m = "s\<lparr>dev := (dev s)\<lparr>nes_ppu := ppu_PowerOn (nes_ppu (dev s)), current_rom := Some rom\<rparr>\<rparr>"
  have "nes_PowerOn rom m = Some (True, ?m)" using s(1) by (simp add: nes_PowerOn_def t_def)
  moreover have "nes_mapped c b v (parsed_rom c b r0) ?m"
    using tm s by (simp add: nes_mapped_def Let_def geometry_def ppu_PowerOn_def ppu_Reset_def)
  ultimately show ?thesis using s(2,5,6) q(2,4) by (intro exI [of _ ?m]) (simp add: t_def)
qed

text \<open>
  C6: a cartridge without mapper is loaded.  Given the bytes of its image in memory, \<open>Rom::LoadRom\<close> and then
  \<open>Nes::LoadRom\<close> succeed, and the CPU starts at the reset vector of the program ROM.  On the main bus the
  2 KiB of cleared RAM are seen four times up to 0x1FFF, the program ROM fills the upper half (one
  bank twice), read-only; on the bus of the picture processor the character ROM is below 0x2000,
  read-only, and the name table memory above it, mirrored as the header says.
\<close>

theorem LoadRom_memory_map:
  assumes "nrom_ok c" and "ready_for c b v m"
  shows "\<exists>rom m'. Rom_LoadRom (host m) b storage = Some (Some rom) \<and> nes_LoadRom v rom m = Some (True, m') \<and>
    ip m' = le16 (part_prg c ! (length (part_prg c) - 4)) (part_prg c ! (length (part_prg c) - 3)) \<and>
    (\<forall>a. (unat a < 0x2000 \<longrightarrow> ram_ptr m' a = Some (sysram (dev m'), unat a mod 0x800) \<and>
            ram_byte m' (sysram (dev m'), unat a mod 0x800) = 0 \<and> page_flags m' a = 0) \<and>
         (0x8000 \<le> unat a \<and> unat a < 0x10000 \<longrightarrow> page_flags m' a = kReadOnly \<and>
            map_option (fst \<circ> fst) (ReadByte nes_io a m') = Some (part_prg c ! ((unat a - 0x8000) mod length (part_prg c)))) \<and>
         (unat a < 0x2000 \<longrightarrow> page_flags (ppu_of m') a = kReadOnly \<and>
            map_option (fst \<circ> fst) (ReadByte unset_io a (ppu_of m')) = Some (part_chr c ! unat a)) \<and>
         (0x2000 \<le> unat a \<and> unat a < 0x4000 \<longrightarrow> page_flags (ppu_of m') a = 0 \<and>
            ram_ptr (ppu_of m') a = Some (v, name_table_offset (part_mirroring c) (unat a))))"
proof -
  obtain rest where "holds (host m) b (print_image c @ rest)" using assms(2) by (auto simp: ready_for_def)
  then have rom: "Rom_LoadRom (host m) b storage = Some (Some (parsed_rom c b storage))"
    using assms(1) by (intro Rom_LoadRom_image) (simp_all add: nrom_ok_def)
  obtain m1 where m1: "nes_LoadRom v (parsed_rom c b storage) m = nes_PowerOn (parsed_rom c b storage) m1"
    "nes_mapped c b v (parsed_rom c b storage) m1" "\<forall>i < 0x800. blk_data (host m1) (sysram (dev m1)) i = 0"
    using nes_LoadRom_setup [OF assms] by blast
  obtain m2 where m2: "nes_PowerOn (parsed_rom c b storage) m1 = Some (True, m2)" "nes_mapped c b v (parsed_rom c b storage) m2"
    "ip m2 = le16 (part_prg c ! (length (part_prg c) - 4)) (part_prg c ! (length (part_prg c) - 3))"
    "sysram (dev m2) = sysram (dev m1)" "host m2 = host m1"
    using mapped_PowerOn [OF assms(1) m1(2)] by blast
  note facts = mapped_ram [OF m2(2)] mapped_prg(2) [OF assms(1) m2(2)] mapped_chr(2) [OF assms(1) m2(2)]
    mapped_name_table [OF m2(2)]
  have prg: "map_option (fst \<circ> fst) (ReadByte nes_io a m2) = Some (part_prg c ! ((unat a - 0x8000) mod length (part_prg c)))"
    if "0x8000 \<le> unat a" "unat a < 0x10000" for a
    using mapped_prg(1) [OF assms(1) m2(2) that] ReadByte_ram [of m2 a _ nes_io] by auto
  have chr: "map_option (fst \<circ> fst) (ReadByte unset_io a (ppu_of m2)) = Some (part_chr c ! unat a)"
    if "unat a < 0x2000" for a
    using mapped_chr(1) [OF assms(1) m2(2) that] ReadByte_ram [of "ppu_of m2" a _ unset_io] by auto
  have ram: "ram_byte m2 (sysram (dev m2), i mod 0x800) = 0" for i
    using m1(3) m2(4,5) by (simp add: ram_byte_def)
  show ?thesis
    by (intro exI [of _ "parsed_rom c b storage"] exI [of _ m2])
      (simp add: rom m1(1) m2(1,3) facts prg chr ram)
qed

text \<open>A loop that repeats an empty ROM does not end: cartridges with character RAM cannot be loaded.\<close>

lemma map_rom_empty:
  assumes "map_rom limit p len addr b = Some b'"
  shows "len = 0 \<longrightarrow> limit \<le> addr"
  by (rule map_rom.raw_induct [where P = "\<lambda>limit p len addr b b'. len = 0 \<longrightarrow> limit \<le> addr", OF _ assms])
    (fastforce simp: bind_eq_Some_conv not_less split: if_split_asm)

lemma Setup_without_chr:
  assumes "part_chr c = []"
  shows "Setup (Mapper0 v) (parsed_rom c b r0) (mb, pb, h) = None"
proof -
  let ?rom = "parsed_rom c b r0"
  have "map_rom 0x2000 p 0 0 b = None" for p b
    using map_rom_empty [of "0x2000" p 0 0 b] by (cases "map_rom 0x2000 p 0 0 b") auto
  moreover have "chr_rom_size ?rom = 0" by (simp add: parsed_rom_def Let_def assms)
  ultimately show ?thesis by (simp add: Setup_def GetRegion_def bind_eq_None_conv Let_def)
qed

section \<open>An example\<close>

text \<open>A program ROM of one bank with the reset vector 0x8234, and a character ROM.\<close>

definition test_cartridge :: ines_parts where
  "test_cartridge = \<lparr>part_mapper = 0, part_mirroring = Vertical, part_ram = 0, part_trainer = None,
     part_prg = (replicate 0x4000 0xEA)[0x3FFC := 0x34, 0x3FFD := 0x82], part_chr = replicate 0x2000 0x55\<rparr>"

definition test_nes :: nes where
  "test_nes = Nes_init
     \<lparr>host = loads_copy 1 (print_image test_cartridge) \<lparr>blk_size = (\<lambda>b. if b = 0 then 0x800 else 0), blk_data = (\<lambda>_ _. 0xFF)\<rparr>,
      sysbus = sysbus test_ppu,
      dev = \<lparr>nes_ppu = ppu.extend test_ppu (wired_ppu.fields 0), master_clocks_per_frame = 0, cpu_clock_size = 0,
             frames_per_extra_cycle = 0, nes_frame_id = 0, current_frame_start_cycle = 0, controller_latch = False,
             latched_input_data = [], update_controllers = None, nes_system = 0, sysram = 0, nes_mapper = None,
             current_rom = None\<rparr>,
      cycle = 0, cycle_stop = 0, event_cycle = 0, code_segment_base = 0, ip_mask = 0, ip = 0,
      cpu_mode = 0, zero_flag = 0, negative_flag = 0, interrupts = 0, pending_interrupts = 0,
      carry = 0, other_flags = 0, regs_a = 0, regs_x = 0, regs_y = 0, regs_d = 0, regs_sp = 0,
      data_segment_base = 0, mode_native_6502 = False, mode_emulation = False,
      mode_long_a = False, mode_long_xy = False, supports_decimal = False,
      fast_block_moves = False, current_instruction_set = 0, num_emulated_instructions = 0,
      internal_cycle_timing = 0, trace_addrs = [], trace_write = 0\<rparr>"

lemma test_cartridge_ok: "nrom_ok test_cartridge"
  by (simp add: nrom_ok_def parts_ok_def test_cartridge_def)

lemma test_nes_ready: "ready_for test_cartridge 1 2 test_nes"
proof -
  have "holds (host test_nes) 1 (print_image test_cartridge @ [])"
    using holds_copy by (simp add: test_nes_def Nes_init_def WDC65C816_init_def Let_def)
  then have "\<exists>rest. holds (host test_nes) 1 (print_image test_cartridge @ rest)" by blast
  moreover have "sysram (dev test_nes) = 0" "blk_size (host test_nes) 0 = 0x800"
    by (simp_all add: test_nes_def Nes_init_def WDC65C816_init_def Let_def loads_copy_def)
  ultimately show ?thesis by (simp add: ready_for_def)
qed

theorem LoadRom_memory_map_witness:
  "\<exists>rom m'. Rom_LoadRom (host test_nes) 1 blank_rom = Some (Some rom) \<and> nes_LoadRom 2 rom test_nes = Some (True, m') \<and>
    ip m' = 0x8234 \<and> ram_ptr (ppu_of m') 0x2C05 = Some (2, 0x405)"
proof -
  obtain rom m' where "Rom_LoadRom (host test_nes) 1 blank_rom = Some (Some rom)" "nes_LoadRom 2 rom test_nes = Some (True, m')"
    "ip m' = le16 (part_prg test_cartridge ! (length (part_prg test_cartridge) - 4)) (part_prg test_cartridge ! (length (part_prg test_cartridge) - 3))"
    "ram_ptr (ppu_of m') 0x2C05 = Some (2, name_table_offset (part_mirroring test_cartridge) (unat (0x2C05 :: u32)))"
    using LoadRom_memory_map [OF test_cartridge_ok test_nes_ready, of blank_rom] by auto
  moreover have "le16 0x34 0x82 = 0x8234" by code_simp
  ultimately show ?thesis
    by (intro exI [of _ rom] exI [of _ m']) (simp add: test_cartridge_def name_table_offset_def)
qed

end
