(* ===== verification/Nes_Libretro.thy ===== *)
theory Nes_Libretro
  imports Nes
begin

text \<open>
  The NES behind the libretro front end (system/nes/nes_libretro.cc).  What the front end reports of
  the joypads is an argument; polling it has no effect on the machine.
\<close>

section \<open>Controllers\<close>

datatype joypad = JOYPAD_A | JOYPAD_B | JOYPAD_SELECT | JOYPAD_START | JOYPAD_UP | JOYPAD_DOWN | JOYPAD_LEFT | JOYPAD_RIGHT

definition buttons :: "joypad list" where
  "buttons = [JOYPAD_A, JOYPAD_B, JOYPAD_SELECT, JOYPAD_START, JOYPAD_UP, JOYPAD_DOWN, JOYPAD_LEFT, JOYPAD_RIGHT]"

definition joypad_byte :: "(joypad \<Rightarrow> bool) \<Rightarrow> u8" where
  "joypad_byte input = fold (\<lambda>j byte. if input (buttons ! j) then byte OR push_bit j 1 else byte) [0..<8] 0"

definition UpdateControllers :: "(nat \<Rightarrow> joypad \<Rightarrow> bool) \<Rightarrow> nes_input \<Rightarrow> nes_input" where
  "UpdateControllers GetInput input = map (\<lambda>i. ucast (joypad_byte (GetInput i)) # replicate 4 0) [0..<2]"

section \<open>Loading, running\<close>

text \<open>\<open>Load\<close> asks the ROM for its type without a test for the null pointer.\<close>

definition NesLibretro_Load ::
  "nat \<Rightarrow> u8 list \<Rightarrow> host_mem \<Rightarrow> rom_ines \<Rightarrow> (rom_ines option \<times> host_mem) option" where
  "NesLibretro_Load b data h storage = do {
     (rom, h) \<leftarrow> Rom_LoadRom_copy b data h storage;
     r \<leftarrow> rom;
     Some (if GetType r = ''nes'' then Some r else None, h)
   }"

definition NesLibretro_Initialize ::
  "(nat \<Rightarrow> joypad \<Rightarrow> bool) \<Rightarrow> nat \<Rightarrow> rom_ines \<Rightarrow> nes \<Rightarrow> (bool \<times> nes) option" where
  "NesLibretro_Initialize GetInput v rom m = do {
     (ok, m) \<leftarrow> nes_LoadRom v rom m;
     Some (if ok then (True, SetUpdateControllersFunc (Some (UpdateControllers GetInput)) m) else (False, m))
   }"

definition NesLibretro_IsNtsc :: "nes \<Rightarrow> bool" where
  "NesLibretro_IsNtsc m \<longleftrightarrow> nes_system (dev m) = 0"

definition NesLibretro_Reset :: "nes \<Rightarrow> (unit \<times> nes) option" where
  "NesLibretro_Reset m = nes_Reset m"

text \<open>\<open>Tick\<close>, given the height, width, pitch and memory of the frame buffer of the front end.\<close>

definition NesLibretro_Tick ::
  "u32 \<times> u32 \<times> u32 \<times> host_ptr \<Rightarrow> ('e, nes \<times> nes_dev breaks) callbacks \<Rightarrow> 'e event_queue \<Rightarrow> nes \<Rightarrow>
    nes_dev breaks \<Rightarrow> ('e event_queue \<times> nes \<times> nes_dev breaks) option" where
  "NesLibretro_Tick lfb call q m b =
     (let (height, width, pitch, data) = lfb
      in RunForOneFrame \<lparr>fb_width = width, fb_height = height, fb_stride = pitch, video_frame = data\<rparr> call q m b)"

end
