(* ===== verification/Nes_Io.thy ===== *)
theory Nes_Io
  imports Nes_Memory Nes_Libretro
begin

text \<open>
  The I/O addresses of the NES on its main bus, 0x2000 to 0x43FF: the controllers, and the addresses
  behind the registers, which lead to a null pointer.
\<close>

section \<open>Accesses of I/O pages\<close>

text \<open>Page tables and host memory do not depend on what the machine's other members hold.\<close>

lemma nes_mapped_cong:
  assumes "host m' = host m" and "memory (sysbus m') = memory (sysbus m)" and "mem_mask (sysbus m') = mem_mask (sysbus m)"
    and "sysbus (nes_ppu (dev m')) = sysbus (nes_ppu (dev m))" and "sysram (dev m') = sysram (dev m)"
  shows "nes_mapped c b v rom m' = nes_mapped c b v rom m"
  by (simp add: nes_mapped_def geometry_def assms Let_def)

lemma io_page:
  assumes "nes_mapped c b v rom m" and "0x2000 \<le> unat a" and "unat a < 0x4400"
  shows "a AND mem_mask (sysbus m) = a"
    and "page_at (page_index m a) m = Some \<lparr>ptr = None, flags = 0, io_mask = 0, io_eq = 0, cycles_per_access = 12\<rparr>"
proof -
  let ?j = "unat a div 0x400"
  have g: "geometry 10 (sysbus m)" "mem_mask (sysbus m) = mask 16" using assms(1) by (simp_all add: nes_mapped_def Let_def)
  have "unat (a AND mask 16) = unat a" using assms(3) by (simp only: unat_and_mask_mod) simp
  then show "a AND mem_mask (sysbus m) = a" by (simp add: g(2) word_unat_eq_iff)
  have j: "8 \<le> ?j" "?j < 17" using assms(2,3) by (simp_all add: less_mult_imp_div_less)
  have "page_index m a = ?j" using unat_page_index [OF g(1)] by simp
  with j assms(1) show "page_at (page_index m a) m = Some \<lparr>ptr = None, flags = 0, io_mask = 0, io_eq = 0, cycles_per_access = 12\<rparr>"
    by (simp add: page_at_def nes_mapped_def Let_def nes_main_page_def nes_page_def)
qed

lemma ReadByte_io:
  assumes "nes_mapped c b v rom m" and "0x2000 \<le> unat a" and "unat a < 0x4400"
    and "io_read io a (open_bus (sysbus m)) m = Some (x, m')" and "memory (sysbus m') = memory (sysbus m)"
    and "open_bus_is_data (sysbus m)"
  shows "ReadByte io a m = Some ((x, 12), set_open_bus x m')"
proof -
  have "page_at i m' = page_at i m" for i using assms(5) by (simp add: page_at_def)
  with io_page [OF assms(1-3)] assms(4,6) show ?thesis by (simp add: ReadByte_def Let_def)
qed

lemma WriteByte_io:
  assumes "nes_mapped c b v rom m" and "0x2000 \<le> unat a" and "unat a < 0x4400"
    and "io_write io a x m = Some ((), m')" and "memory (sysbus m') = memory (sysbus m)" and "open_bus_is_data (sysbus m')"
  shows "WriteByte io a x m = Some (12, set_open_bus x m')"
proof -
  have "page_at i m' = page_at i m" for i using assms(5) by (simp add: page_at_def)
  with io_page [OF assms(1-3)] assms(4,6) show ?thesis by (simp add: WriteByte_def Let_def)
qed

text \<open>
  The page of the CPU's registers traps every address, and those behind the registers, 0x4020 to
  0x43FF, lead to a null pointer: the page has no memory, and the mapper handles no access.
\<close>

theorem read_behind_registers:
  assumes "nes_mapped c b v rom m" and "0x4020 \<le> unat a" and "unat a < 0x4400"
  shows "ReadByte nes_io a m = None"
proof -
  have "0x2000 \<le> unat a" using assms(2) by simp
  note p = io_page [OF assms(1) this assms(3)]
  have big: "\<not> a \<le> 0x401F" using assms(2) by (simp add: word_le_nat_alt)
  have none: "ReadByteNoIo a m' = None" if "memory (sysbus m') = memory (sysbus m)" "mem_mask (sysbus m') = mem_mask (sysbus m)" for m' :: nes
    using p that by (simp add: ReadByteNoIo_def Let_def page_at_def page_index_def split: if_split_asm)
  have "nes_IoRead a x m = None" "nes_IoRead a x (set_open_bus y m) = None" for x y
    using big by (auto simp: nes_IoRead_def mapper_IoRead_def Let_def bind_eq_None_conv none set_open_bus_def)
  with p show ?thesis by (simp add: ReadByte_def Let_def nes_io_def)
qed

section \<open>Controllers\<close>

lemma low_bit: "bit (push_bit k (ucast (x AND 1 :: u32)) :: u8) i \<longleftrightarrow> i = k \<and> k < 8 \<and> bit x 0"
  by (auto simp: bit_simps)

lemma serial_fold_bit:
  "n \<le> 8 \<Longrightarrow> bit (fold (\<lambda>i ret. ret OR push_bit i (ucast (f i AND 1))) [0..<n] (0 :: u8)) j \<longleftrightarrow> j < n \<and> bit (f j :: u32) 0"
proof (induction n)
  case (Suc n)
  then show ?case by (simp add: bit_or_iff low_bit) (auto simp: less_Suc_eq)
qed simp

lemma Shift_bits:
  "\<exists>out. Shift sb = (out, map (drop_bit 1) sb) \<and> (\<forall>i < 5. bit out i = bit (sb ! i) 0)"
  using serial_fold_bit [of 5 "\<lambda>i. sb ! i"] by (simp add: Shift_def)

text \<open>\<open>n\<close> reads of a port through the bus.\<close>

fun controller_reads :: "nat \<Rightarrow> nat \<Rightarrow> nes \<Rightarrow> (u8 list \<times> nes) option" where
  "controller_reads 0 p m = Some ([], m)"
| "controller_reads (Suc n) p m = do {
     ((v, _), m) \<leftarrow> ReadByte nes_io (0x4016 + of_nat p) m;
     (vs, m) \<leftarrow> controller_reads n p m;
     Some (v # vs, m)
   }"

definition set_devices :: "nes_input \<Rightarrow> nes \<Rightarrow> nes" where
  "set_devices d m = m\<lparr>dev := (dev m)\<lparr>latched_input_data := d\<rparr>\<rparr>"

lemma port_address:
  assumes "p < 2"
  shows "unat (0x4016 + of_nat p :: u32) = 0x4016 + p" "(0x4016 + of_nat p :: u32) \<le> 0x401F"
    "\<not> (0x4016 + of_nat p :: u32) < 0x4000" "(0x4016 + of_nat p :: u32) AND 0x1F = 0x16 + of_nat p"
    "unat ((0x16 + of_nat p :: u32) AND 1) = p" "(0x16 + of_nat p :: u32) = 0x16 \<or> (0x16 + of_nat p :: u32) = 0x17"
proof -
  have "p = 0 \<or> p = 1" using assms by auto
  then show "unat (0x4016 + of_nat p :: u32) = 0x4016 + p" "(0x4016 + of_nat p :: u32) \<le> 0x401F"
    "\<not> (0x4016 + of_nat p :: u32) < 0x4000" "(0x4016 + of_nat p :: u32) AND 0x1F = 0x16 + of_nat p"
    "unat ((0x16 + of_nat p :: u32) AND 1) = p" "(0x16 + of_nat p :: u32) = 0x16 \<or> (0x16 + of_nat p :: u32) = 0x17"
    by auto
qed

lemma controller_read:
  assumes "nes_mapped c b v rom m" and "open_bus_is_data (sysbus m)" and "p < 2"
    and "length (latched_input_data (dev m)) = 2" and "length (latched_input_data (dev m) ! p) = 5"
  shows "\<exists>x. ReadByte nes_io (0x4016 + of_nat p) m =
      Some ((x, 12), set_open_bus x (set_devices ((latched_input_data (dev m))[p := map (drop_bit 1) (latched_input_data (dev m) ! p)]) m)) \<and>
    (\<forall>i < 5. bit x i = bit (latched_input_data (dev m) ! p ! i) 0)"
proof -
  let ?d = "latched_input_data (dev m)" and ?a = "0x4016 + of_nat p :: u32" and ?o = "open_bus (sysbus m)"
  obtain out where out: "Shift (?d ! p) = (out, map (drop_bit 1) (?d ! p))" "\<forall>i < 5. bit out i = bit (?d ! p ! i) 0"
    using Shift_bits by blast
  define m' where "m' = set_devices (?d[p := map (drop_bit 1) (?d ! p)]) m"
  define x where "x = (?o AND 0xE0) OR out"
  note pa = port_address [OF assms(3)]
  have "nes_IoRead ?a ?o m = ReadControllerData p ?o m"
    using pa by (auto simp: nes_IoRead_def ReadReg_def)
  also have "\<dots> = Some (x, m')"
    using assms(3,4) out(1) by (simp add: ReadControllerData_def x_def m'_def set_devices_def Let_def)
  finally have "io_read nes_io ?a ?o m = Some (x, m')" by (simp add: nes_io_def)
  moreover have "memory (sysbus m') = memory (sysbus m)" by (simp add: m'_def set_devices_def)
  ultimately have "ReadByte nes_io ?a m = Some ((x, 12), set_open_bus x m')"
    using assms(1,2,3) pa(1) by (intro ReadByte_io) simp_all
  moreover have "bit x i = bit (?d ! p ! i) 0" if "i < 5" for i
  proof -
    have "(0xE0 :: u8) = NOT (mask 5)" by (simp add: mask_eq_exp_minus_1)
    then have "\<not> bit (0xE0 :: u8) i" using that by (simp only: bit_not_iff bit_mask_iff) simp
    then show ?thesis using out(2) that unfolding x_def by (simp only: bit_or_iff bit_and_iff) simp
  qed
  ultimately show ?thesis unfolding m'_def by blast
qed

lemma controller_reads_bits:
  assumes "nes_mapped c b v rom m" and "open_bus_is_data (sysbus m)" and "p < 2"
    and "length (latched_input_data (dev m)) = 2" and "length (latched_input_data (dev m) ! p) = 5"
  shows "\<exists>vs m'. controller_reads n p m = Some (vs, m') \<and> length vs = n \<and>
    (\<forall>k < n. \<forall>i < 5. bit (vs ! k) i = bit (latched_input_data (dev m) ! p ! i) k)"
  using assms
proof (induction n arbitrary: m)
  case (Suc n)
  let ?d = "latched_input_data (dev m)"
  obtain x where x: "ReadByte nes_io (0x4016 + of_nat p) m =
      Some ((x, 12), set_open_bus x (set_devices (?d[p := map (drop_bit 1) (?d ! p)]) m))"
    "\<forall>i < 5. bit x i = bit (?d ! p ! i) 0"
    using controller_read [OF Suc.prems] by blast
  define m1 where "m1 = set_open_bus x (set_devices (?d[p := map (drop_bit 1) (?d ! p)]) m)"
  have d1: "latched_input_data (dev m1) = ?d[p := map (drop_bit 1) (?d ! p)]" by (simp add: m1_def set_devices_def)
  have "nes_mapped c b v rom m1"
    using Suc.prems(1) by (subst nes_mapped_cong [where m = m]) (simp_all add: m1_def set_devices_def set_open_bus_def)
  moreover have "open_bus_is_data (sysbus m1)" using Suc.prems(2) by (simp add: m1_def set_devices_def)
  ultimately obtain vs m' where vs: "controller_reads n p m1 = Some (vs, m')" "length vs = n"
    "\<forall>k < n. \<forall>i < 5. bit (vs ! k) i = bit (latched_input_data (dev m1) ! p ! i) k"
    using Suc.IH [of m1] Suc.prems(3,4,5) by (auto simp: d1)
  have "bit ((x # vs) ! k) i = bit (?d ! p ! i) k" if "k < Suc n" "i < 5" for k i
    using that x(2) vs(3) Suc.prems(3,4,5) by (cases k) (simp_all add: d1 bit_drop_bit_eq)
  moreover have "controller_reads (Suc n) p m = Some (x # vs, m')"
    using x(1) vs(1) by (simp add: m1_def)
  ultimately show ?case using vs(2) by (intro exI [of _ "x # vs"] exI [of _ m']) auto
qed simp

lemma joypad_fold_bit:
  "n \<le> 8 \<Longrightarrow> bit (fold (\<lambda>j byte. if f j then byte OR push_bit j 1 else byte) [0..<n] (0 :: u8)) k \<longleftrightarrow> k < n \<and> f k"
proof (induction n)
  case (Suc n)
  then show ?case by (auto simp: bit_or_iff bit_exp_iff less_Suc_eq)
qed simp

lemma joypad_byte_bit: "bit (joypad_byte inp) k \<longleftrightarrow> k < 8 \<and> inp (buttons ! k)"
  unfolding joypad_byte_def by (subst joypad_fold_bit) simp_all

lemma controller_write:
  assumes "nes_mapped c b v rom m" and "open_bus_is_data (sysbus m)"
  shows "WriteByte nes_io 0x4016 1 m = Some (12, set_open_bus 1 (m\<lparr>dev := (dev m)\<lparr>controller_latch := True\<rparr>\<rparr>))"
    "controller_latch (dev m) \<Longrightarrow> update_controllers (dev m) = Some f \<Longrightarrow> WriteByte nes_io 0x4016 0 m =
      Some (12, set_open_bus 0 (m\<lparr>dev := (dev m)\<lparr>controller_latch := False, latched_input_data := f (latched_input_data (dev m))\<rparr>\<rparr>))"
proof -
  have run: "io_write nes_io 0x4016 x m = WriteReg 0x16 x m" for x
    by (simp add: nes_io_def nes_IoWrite_def)
  show "WriteByte nes_io 0x4016 1 m = Some (12, set_open_bus 1 (m\<lparr>dev := (dev m)\<lparr>controller_latch := True\<rparr>\<rparr>))"
    using assms by (intro WriteByte_io) (simp_all add: run WriteReg_def nes_mapped_def)
  assume "controller_latch (dev m)" "update_controllers (dev m) = Some f"
  then show "WriteByte nes_io 0x4016 0 m =
      Some (12, set_open_bus 0 (m\<lparr>dev := (dev m)\<lparr>controller_latch := False, latched_input_data := f (latched_input_data (dev m))\<rparr>\<rparr>))"
    using assms by (intro WriteByte_io) (simp_all add: run WriteReg_def nes_mapped_def LatchControllerData_def)
qed

text \<open>
  C11: a program reads the joypads.  On a loaded machine whose controllers are those of the libretro front
  end, writing 1 and then 0 to 0x4016 succeeds and latches the buttons, and the \<open>n\<close> next reads of 0x4016 (player 1) or 0x4017
  (player 2) deliver them in bit 0 in the order A, B, Select, Start, Up, Down, Left, Right, then
  zeros; bits 1 to 4 are zero.
\<close>

theorem joypad_reads:
  assumes "nes_mapped c b v rom m" and "open_bus_is_data (sysbus m)" and "p < 2"
    and "update_controllers (dev m) = Some (UpdateControllers GetInput)"
  shows "\<exists>m1 m2 vs m3. WriteByte nes_io 0x4016 1 m = Some (12, m1) \<and> WriteByte nes_io 0x4016 0 m1 = Some (12, m2) \<and>
    controller_reads n p m2 = Some (vs, m3) \<and> length vs = n \<and>
    (\<forall>k < n. \<forall>i < 5. bit (vs ! k) i \<longleftrightarrow> i = 0 \<and> k < 8 \<and> GetInput p (buttons ! k))"
proof -
  define m1 where "m1 = set_open_bus 1 (m\<lparr>dev := (dev m)\<lparr>controller_latch := True\<rparr>\<rparr>)"
  have 1: "nes_mapped c b v rom m1" "open_bus_is_data (sysbus m1)"
    using assms(1,2) by (simp_all add: m1_def nes_mapped_def set_open_bus_def geometry_def Let_def)
  let ?d = "UpdateControllers GetInput (latched_input_data (dev m1))"
  define m2 where "m2 = set_open_bus 0 (m1\<lparr>dev := (dev m1)\<lparr>controller_latch := False, latched_input_data := ?d\<rparr>\<rparr>)"
  have 2: "nes_mapped c b v rom m2" "open_bus_is_data (sysbus m2)"
    using 1 by (simp_all add: m2_def nes_mapped_def set_open_bus_def geometry_def Let_def)
  have w: "WriteByte nes_io 0x4016 1 m = Some (12, m1)" "WriteByte nes_io 0x4016 0 m1 = Some (12, m2)"
    using controller_write(1) [OF assms(1,2)] controller_write(2) [OF 1, of "UpdateControllers GetInput"] assms(4)
    by (simp_all add: m1_def m2_def)
  have d: "latched_input_data (dev m2) = ?d" by (simp add: m2_def)
  have dp: "?d ! p = ucast (joypad_byte (GetInput p)) # replicate 4 0" "length ?d = 2"
    using assms(3) by (simp_all add: UpdateControllers_def)
  obtain vs m3 where r: "controller_reads n p m2 = Some (vs, m3)" "length vs = n"
    "\<forall>k < n. \<forall>i < 5. bit (vs ! k) i = bit (?d ! p ! i) k"
    using controller_reads_bits [OF 2 assms(3), of n] by (auto simp: d dp)
  have "bit (?d ! p ! i) k \<longleftrightarrow> i = 0 \<and> k < 8 \<and> GetInput p (buttons ! k)" if "i < 5" for i k
    using that by (cases i) (auto simp: dp(1) bit_ucast_iff joypad_byte_bit)
  with w r show ?thesis by blast
qed

section \<open>An example\<close>

lemma test_nes_mapped:
  obtains m where "nes_mapped test_cartridge 1 2 (parsed_rom test_cartridge 1 blank_rom) m" "open_bus_is_data (sysbus m)"
    "update_controllers (dev m) = Some (UpdateControllers (\<lambda>p j. j = JOYPAD_START))"
proof -
  obtain m where m: "nes_mapped test_cartridge 1 2 (parsed_rom test_cartridge 1 blank_rom) m"
    using nes_LoadRom_setup [OF test_cartridge_ok test_nes_ready] by blast
  let ?m = "m\<lparr>sysbus := (sysbus m)\<lparr>open_bus_is_data := True\<rparr>,
    dev := (dev m)\<lparr>update_controllers := Some (UpdateControllers (\<lambda>p j. j = JOYPAD_START))\<rparr>\<rparr>"
  have "nes_mapped test_cartridge 1 2 (parsed_rom test_cartridge 1 blank_rom) ?m"
    using m by (subst nes_mapped_cong [where m = m]) simp_all
  then show thesis using that [of ?m] by simp
qed

lemma joypad_reads_witness:
  "\<exists>m m1 m2 vs m3. WriteByte nes_io 0x4016 1 m = Some (12, m1) \<and> WriteByte nes_io 0x4016 0 m1 = Some (12, m2) \<and>
    controller_reads 4 0 m2 = Some (vs, m3) \<and> bit (vs ! 3) 0 \<and> \<not> bit (vs ! 2) 0"
proof -
  obtain m where m: "nes_mapped test_cartridge 1 2 (parsed_rom test_cartridge 1 blank_rom) m" "open_bus_is_data (sysbus m)"
    "update_controllers (dev m) = Some (UpdateControllers (\<lambda>p j. j = JOYPAD_START))"
    by (rule test_nes_mapped)
  obtain m1 m2 vs m3 where r: "WriteByte nes_io 0x4016 1 m = Some (12, m1)" "WriteByte nes_io 0x4016 0 m1 = Some (12, m2)"
    "controller_reads 4 0 m2 = Some (vs, m3)"
    "\<forall>k < 4. \<forall>i < 5. bit (vs ! k) i \<longleftrightarrow> i = 0 \<and> k < 8 \<and> buttons ! k = JOYPAD_START"
    using joypad_reads [OF m(1,2) _ m(3), of 0 4] by auto
  have "bit (vs ! 3) 0" "\<not> bit (vs ! 2) 0" using r(4) [rule_format, of 3 0] r(4) [rule_format, of 2 0] by (simp_all add: buttons_def)
  with r(1,2,3) show ?thesis by blast
qed

lemma read_behind_registers_witness:
  "\<exists>m. nes_mapped test_cartridge 1 2 (parsed_rom test_cartridge 1 blank_rom) m \<and> ReadByte nes_io 0x4123 m = None"
proof -
  obtain m where m: "nes_mapped test_cartridge 1 2 (parsed_rom test_cartridge 1 blank_rom) m" by (rule test_nes_mapped)
  have "ReadByte nes_io 0x4123 m = None" by (rule read_behind_registers [OF m]) simp_all
  with m show ?thesis by blast
qed

end
