(* ===== verification/Ppu_Frame.thy ===== *)
theory Ppu_Frame
  imports Ppu_Machine
begin

text \<open>
  What a step of the picture processor leaves alone, and the vertical blank: when its flag is set and
  cleared, and when the interrupt of the CPU is raised.
\<close>

section \<open>Quiet steps\<close>

text \<open>
  Nothing but the frame buffer is written; bus, OAM, control register, the flag of the vertical blank
  and whatever extends the state are kept.
\<close>

definition quiet :: "'m ppu_scheme \<Rightarrow> 'm ppu_scheme \<Rightarrow> bool" where
  "quiet s s' \<longleftrightarrow>
     blk_size (host s') = blk_size (host s) \<and>
     (\<forall>b. b \<noteq> fst (video_frame (fb s)) \<longrightarrow> blk_data (host s') b = blk_data (host s) b) \<and>
     fb s' = fb s \<and> memory (sysbus s') = memory (sysbus s) \<and> mem_mask (sysbus s') = mem_mask (sysbus s) \<and>
     oam s' = oam s \<and> control s' = control s \<and> bit (status s') 7 = bit (status s) 7 \<and> ppu.more s' = ppu.more s"

lemma quiet_refl [simp]: "quiet s s"
  by (simp add: quiet_def)

lemma quiet_trans: "quiet s s' \<Longrightarrow> quiet s' s'' \<Longrightarrow> quiet s s''"
  by (simp add: quiet_def)

text \<open>Updates of other members, on either side.\<close>

lemma quiet_updates [simp]:
  "quiet s (s'\<lparr>vram_addr := v\<rparr>) = quiet s s'" "quiet s (s'\<lparr>current_tile := t\<rparr>) = quiet s s'"
  "quiet s (s'\<lparr>next_tile := t\<rparr>) = quiet s s'" "quiet s (s'\<lparr>future_tile := t\<rparr>) = quiet s s'"
  "quiet s (s'\<lparr>ppu_state := st\<rparr>) = quiet s s'" "quiet s (s'\<lparr>current_pixel_clock := c\<rparr>) = quiet s s'"
  "quiet s (s'\<lparr>current_scanline := l\<rparr>) = quiet s s'" "quiet s (s'\<lparr>num_sprites := n\<rparr>) = quiet s s'"
  "quiet s (s'\<lparr>sprites := sp\<rparr>) = quiet s s'" "quiet s (s'\<lparr>frame_produced := fp\<rparr>) = quiet s s'"
  "quiet s (s'\<lparr>last_ppu_cycle := y\<rparr>) = quiet s s'" "quiet s (set_open_bus b s') = quiet s s'"
  "quiet s (next_clock s') = quiet s s'" "quiet s (IncrHoriz s') = quiet s s'" "quiet s (IncrVert s') = quiet s s'"
  "quiet s (reload_scroll s') = quiet s s'" "quiet s (s'\<lparr>frame_id := f\<rparr>) = quiet s s'"
  "quiet s (s'\<lparr>ppu_cycle_of_next_nmi := y\<rparr>) = quiet s s'" "quiet (s\<lparr>last_ppu_cycle := y\<rparr>) s' = quiet s s'"
  "quiet (next_clock s) s' = quiet s s'" "quiet (reload_scroll s) s' = quiet s s'"
  by (auto simp: quiet_def set_open_bus_def next_clock_def IncrHoriz_def IncrVert_def reload_scroll_def Let_def
      split: prod.splits)

lemma ReadByte_quiet: "ReadByte unset_io a s = Some (x, s') \<Longrightarrow> quiet s s'"
  by (auto simp: ReadByte_def unset_io_def Let_def bind_eq_Some_conv split: if_split_asm option.splits)

lemma ppu_Read_quiet: "ppu_Read a s = Some (x, s') \<Longrightarrow> quiet s s'"
  by (auto simp: ppu_Read_def Let_def bind_eq_Some_conv split: if_split_asm dest: ReadByte_quiet)

lemma fetches_quiet:
  "ReadNameTableByte s = Some (x, s') \<Longrightarrow> quiet s s'" "ReadAttribTableByte s = Some (x, s') \<Longrightarrow> quiet s s'"
  "ReadBackgroundBit0 nt s = Some (x, s') \<Longrightarrow> quiet s s'" "ReadBackgroundBit1 nt s = Some (x, s') \<Longrightarrow> quiet s s'"
  "ReadSpriteBit0 idx y s = Some (x, s') \<Longrightarrow> quiet s s'" "ReadSpriteBit1 idx y s = Some (x, s') \<Longrightarrow> quiet s s'"
  by (auto simp: ReadNameTableByte_def ReadAttribTableByte_def ReadBackgroundBit0_def ReadBackgroundBit1_def
      ReadSpriteBit0_def ReadSpriteBit1_def Let_def bind_eq_Some_conv split: if_split_asm dest: ppu_Read_quiet)

lemma sprite_loop_flag: "bit (snd (sprite_loop x color sps st)) 7 = bit st 7"
proof -
  have "\<not> bit (0x40 :: u8) 7" by simp
  then have "bit (st OR 0x40) 7 = bit st 7" for st :: u8 by (simp only: bit_or_iff) simp
  then show ?thesis
    by (induction x color sps st rule: sprite_loop.induct) (simp_all add: Let_def)
qed

lemma get_color_quiet: "get_color x s = Some (c, s') \<Longrightarrow> quiet s s'"
  using sprite_loop_flag
  by (auto simp: get_color_def Let_def quiet_def split: if_split_asm prod.splits) (metis snd_conv)+

lemma store_byte_quiet:
  assumes "store_byte p v (host s) = Some h" and "fst p = fst (video_frame (fb s))"
  shows "quiet s (s\<lparr>host := h\<rparr>)"
  using assms by (auto simp: store_byte_def quiet_def split: if_split_asm)

lemma put_pixel_quiet:
  assumes "put_pixel p c s = Some s'" and "fst p = fst (video_frame (fb s))"
  shows "quiet s s'"
  using assms
  by (auto simp: put_pixel_def Let_def bind_eq_Some_conv store_byte_def quiet_def ptr_add_def split: if_split_asm)

lemma draw_pixels_quiet:
  "draw_pixels k x p s = Some ((x', p'), s') \<Longrightarrow> fst p = fst (video_frame (fb s)) \<Longrightarrow> quiet s s' \<and> fst p' = fst p"
proof (induction k arbitrary: x p s)
  case (Suc k)
  from Suc.prems(1) obtain c s1 s2 where r: "get_color x s = Some (c, s1)" "put_pixel p c s1 = Some s2"
    "draw_pixels k (x + 1) (ptr_add p 4) s2 = Some ((x', p'), s')"
    by (auto simp: bind_eq_Some_conv)
  have q1: "quiet s s1" by (rule get_color_quiet [OF r(1)])
  then have "fb s1 = fb s" by (simp add: quiet_def)
  then have q2: "quiet s1 s2" using put_pixel_quiet [OF r(2)] Suc.prems(2) by simp
  then have "fb s2 = fb s" using \<open>fb s1 = fb s\<close> by (simp add: quiet_def)
  with Suc.IH [OF r(3)] Suc.prems(2) have "quiet s2 s'" "fst p' = fst p" by (simp_all add: ptr_add_def)
  with q1 q2 show ?case by (blast intro: quiet_trans)
qed simp

lemma DrawPixels_quiet: "DrawPixels s = Some s' \<Longrightarrow> quiet s s'"
proof -
  let ?p = "ptr_add (ptr_add (video_frame (fb s)) (unat (fb_stride (fb s) * (current_scanline s - 1))))
    (unat ((current_pixel_clock s - 8) * 4))"
  let ?n = "unat (8 - ucast (scroll_fine_x s) :: u32)"
  assume run: "DrawPixels s = Some s'"
  show "quiet s s'"
  proof (cases "current_pixel_clock s > 256")
    case True
    with run show ?thesis by (simp add: DrawPixels_def)
  next
    case False
    with run obtain x p s1 q s2 where r: "draw_pixels ?n (current_pixel_clock s - 8) ?p s = Some ((x, p), s1)"
      "draw_pixels (8 - ?n) x p (s1\<lparr>current_tile := next_tile s1\<rparr>) = Some (q, s2)" "s' = s2"
      by (auto simp: DrawPixels_def Let_def bind_eq_Some_conv simp del: draw_pixels.simps)
    obtain x' p' where q: "q = (x', p')" by (cases q)
    have 1: "quiet s s1" "fst p = fst (video_frame (fb s))"
      using draw_pixels_quiet [OF r(1)] by (simp_all add: ptr_add_def)
    then have "fb s1 = fb s" by (simp add: quiet_def)
    with draw_pixels_quiet [OF r(2) [unfolded q]] 1(2) have "quiet (s1\<lparr>current_tile := next_tile s1\<rparr>) s2" by simp
    moreover have "quiet s (s1\<lparr>current_tile := next_tile s1\<rparr>)" using 1(1) by simp
    ultimately show ?thesis unfolding r(3) by (blast intro: quiet_trans)
  qed
qed

lemma load_sprite_quiet:
  assumes run: "load_sprite y i s = Some s'"
  shows "quiet s s'"
proof -
  let ?idx = "ucast (oam s ! (i + 1))" and ?row = "sprite_row y (oam s ! i) (oam s ! (i + 2)) s"
  obtain lo s1 where r1: "ReadSpriteBit0 ?idx ?row s = Some (lo, s1)"
    using run by (cases "ReadSpriteBit0 ?idx ?row s") (auto simp: load_sprite_def Let_def split: if_split_asm)
  obtain hi s2 where r2: "ReadSpriteBit1 ?idx ?row s1 = Some (hi, s2)"
    using run r1 by (cases "ReadSpriteBit1 ?idx ?row s1") (auto simp: load_sprite_def Let_def split: if_split_asm)
  have "quiet s s2" using fetches_quiet(5) [OF r1] fetches_quiet(6) [OF r2] by (rule quiet_trans)
  then show ?thesis using run r1 r2 by (auto simp: load_sprite_def Let_def split: if_split_asm)
qed

lemma evaluate_loop_quiet: "evaluate_loop y i s = Some s' \<Longrightarrow> quiet s s'"
proof (induction y i s rule: evaluate_loop.induct)
  case (1 y i s)
  show ?case
    using 1 by (subst (asm) (4) evaluate_loop.simps)
      (auto simp: Let_def split: if_split_asm option.splits dest: load_sprite_quiet intro: quiet_trans)
qed

lemma EvaluateSprites_quiet: "EvaluateSprites s = Some s' \<Longrightarrow> quiet s s'"
  unfolding EvaluateSprites_def by (drule evaluate_loop_quiet) (simp add: quiet_def)

lemma sprite_fetch_step_quiet: "sprite_fetch_step s = Some s' \<Longrightarrow> quiet s s'"
  by (auto simp: sprite_fetch_step_def bind_eq_Some_conv split: if_split_asm PPUSTATE.splits dest: fetches_quiet)

lemma tail_step_quiet:
  assumes run: "tail_step s = Some s'"
  shows "quiet s s'"
proof (cases "even_clock s \<and> ppu_state s \<notin> {FETCH_TAIL_NT, FETCH_TAIL_AT, FETCH_TAIL_BG}")
  case False
  with run show ?thesis
    by (auto simp: tail_step_def bind_eq_Some_conv split: if_split_asm) (erule fetches_quiet)+
next
  case True
  let ?last = "\<lambda>s. if current_pixel_clock s = 336 then Some (s\<lparr>ppu_state := END_NT1\<rparr>)
    else Some (s\<lparr>ppu_state := FETCH_TAIL_NT, current_tile := next_tile s\<rparr>)"
  have step: "tail_step s = do {
      (v, s) \<leftarrow> ReadBackgroundBit1 (nametable (next_tile s)) s;
      s \<leftarrow> Some (IncrHoriz (s\<lparr>next_tile := (next_tile s)\<lparr>tile_high := v\<rparr>\<rparr>));
      ?last s
    }"
    using True by (auto simp: tail_step_def split: PPUSTATE.split)
  obtain v s1 where r1: "ReadBackgroundBit1 (nametable (next_tile s)) s = Some (v, s1)"
    using run unfolding step by (cases "ReadBackgroundBit1 (nametable (next_tile s)) s") auto
  let ?s2 = "IncrHoriz (s1\<lparr>next_tile := (next_tile s1)\<lparr>tile_high := v\<rparr>\<rparr>)"
  have "?last ?s2 = Some s'" using run unfolding step r1 by (simp only: Option.bind.simps prod.case)
  moreover have "quiet s ?s2" using fetches_quiet(4) [OF r1] by simp
  ultimately show ?thesis by (auto split: if_split_asm)
qed

lemma end_scanline_quiet: "end_scanline s = Some s' \<Longrightarrow> quiet s s'"
  by (auto simp: end_scanline_def Let_def split: if_split_asm)

lemma fetch_step_quiet: "fetch_step s = Some s' \<Longrightarrow> quiet s s'"
proof (cases "even_clock s \<and> ppu_state s \<notin> {FETCH_NT, FETCH_AT, FETCH_BG}")
  case False
  assume "fetch_step s = Some s'"
  with False show ?thesis
    by (auto simp: fetch_step_def bind_eq_Some_conv split: if_split_asm) (erule fetches_quiet)+
next
  case True
  let ?rest = "\<lambda>s. if current_pixel_clock s = 256 then
         (let s = s\<lparr>ppu_state := FETCH_BAD_NT\<rparr>
          in if current_scanline s > 0 then EvaluateSprites (IncrVert s) else Some s)
       else (let s = IncrHoriz s in Some (s\<lparr>ppu_state := FETCH_NT, next_tile := future_tile s\<rparr>))"
  assume run: "fetch_step s = Some s'"
  have step: "fetch_step s = do {
      (v, s) \<leftarrow> ReadBackgroundBit1 (nametable (future_tile s)) s;
      s \<leftarrow> Some (s\<lparr>future_tile := (future_tile s)\<lparr>tile_high := v\<rparr>\<rparr>);
      s \<leftarrow> (if current_scanline s \<noteq> 0 then DrawPixels s else Some s);
      ?rest s
    }"
    using True by (auto simp: fetch_step_def split: PPUSTATE.split)
  obtain v s1 where r1: "ReadBackgroundBit1 (nametable (future_tile s)) s = Some (v, s1)"
    using run unfolding step by (cases "ReadBackgroundBit1 (nametable (future_tile s)) s") auto
  let ?s1 = "s1\<lparr>future_tile := (future_tile s1)\<lparr>tile_high := v\<rparr>\<rparr>"
  let ?drawn = "if current_scanline ?s1 \<noteq> 0 then DrawPixels ?s1 else Some ?s1"
  have run1: "?drawn \<bind> ?rest = Some s'" using run unfolding step r1 by (simp only: Option.bind.simps prod.case)
  then obtain s2 where r2: "?drawn = Some s2" by (cases ?drawn) (simp_all only: Option.bind.simps option.simps)
  have r3: "?rest s2 = Some s'" using run1 unfolding r2 by (simp only: Option.bind.simps)
  have "quiet s ?s1" using fetches_quiet(4) [OF r1] by simp
  moreover have "quiet ?s1 s2" using r2 DrawPixels_quiet [of ?s1 s2] by (auto split: if_split_asm)
  ultimately have "quiet s s2" by (rule quiet_trans)
  moreover have "quiet s2 s'"
  proof -
    have "quiet s2 (IncrVert (s2\<lparr>ppu_state := FETCH_BAD_NT\<rparr>))" by simp
    moreover have "EvaluateSprites t = Some s' \<Longrightarrow> quiet s2 t \<Longrightarrow> quiet s2 s'" for t
      using EvaluateSprites_quiet quiet_trans by blast
    ultimately show ?thesis using r3 by (auto simp: Let_def split: if_split_asm)
  qed
  ultimately show ?thesis by (rule quiet_trans)
qed

section \<open>The vertical blank\<close>

definition flagged :: "'m ppu_scheme \<Rightarrow> 'm ppu_scheme" where
  "flagged s = s\<lparr>status := (if place s = (POSTRENDER_SCANLINE, 1, 241) then status s OR 0x80
     else if place s = (FETCH_SCANLINE_START, 0, 0) then 0 else status s)\<rparr>"

definition raises_nmi :: "'m ppu_scheme \<Rightarrow> bool" where
  "raises_nmi s \<longleftrightarrow> place s = (POSTRENDER_SCANLINE, 4, 241) \<and> bit (status s) 7 \<and> bit (control s) 7"

lemma flag_7: "a AND 0x80 \<noteq> 0 \<longleftrightarrow> bit (a :: u8) 7"
  using and_exp_eq_0_iff_not_bit [of a 7] by simp

lemma postrender_step_quiet:
  assumes "ppu_data_ok s" and "ppu_state s = POSTRENDER_SCANLINE" and "\<not> raises_nmi s" and "postrender_step nmi s = Some s'"
  shows "quiet (flagged s) s'"
proof -
  obtain s1 where 1: "vblank_event nmi s = Some s1" and rest: "s' = s1 \<or> quiet s1 s'"
    using assms(4) by (auto simp: postrender_step_def Let_def bind_eq_Some_conv split: if_split_asm)
  have l: "num_render_scanlines s + num_postrender_scanlines s = 241" using assms(1) by (simp add: ppu_data_ok_def)
  have p: "place s = (POSTRENDER_SCANLINE, unat (current_pixel_clock s), unat (current_scanline s))"
    using assms(2) by (simp add: place_def)
  have u: "current_scanline s = 241 \<longleftrightarrow> unat (current_scanline s) = 241" "current_pixel_clock s = 1 \<longleftrightarrow> unat (current_pixel_clock s) = 1"
    "current_pixel_clock s = 4 \<longleftrightarrow> unat (current_pixel_clock s) = 4"
    by (simp_all add: word_unat_eq_iff)
  have b: "status s AND control s AND 0x80 \<noteq> 0 \<longleftrightarrow> bit (status s) 7 \<and> bit (control s) 7"
    using flag_7 [of "status s AND control s"] by (simp add: and.assoc bit_and_iff)
  have "quiet (flagged s) s1"
    using 1 assms(3) unfolding vblank_event_def l u b
    by (auto simp: flagged_def raises_nmi_def p Let_def split: if_split_asm)
  with rest show ?thesis by (auto intro: quiet_trans)
qed

lemma flagged_other: "ppu_state s \<notin> {POSTRENDER_SCANLINE, FETCH_SCANLINE_START} \<Longrightarrow> flagged s = s"
  by (simp add: flagged_def place_def)

lemma start_scanline_quiet:
  assumes "place s = (FETCH_SCANLINE_START, 0, l)"
  shows "quiet (flagged s) (start_scanline s)"
proof -
  have "current_scanline s = 0 \<longleftrightarrow> l = 0" using place_fields [OF assms] by (simp add: word_unat_eq_iff)
  with assms show ?thesis by (simp add: flagged_def quiet_def start_scanline_def)
qed

text \<open>Without the interrupt, the callback is not used.\<close>

lemma PpuStep_quiet:
  assumes "ppu_ok s" and "\<not> raises_nmi s" and "PpuStep nmi s = Some s'"
  shows "quiet (flagged s) s'"
proof -
  have ok: "ppu_data_ok s" "place_ok (place s)" using assms(1) by (simp_all add: ppu_ok_def)
  show ?thesis
  proof (cases "ppu_state s = FETCH_SCANLINE_START")
    case True
    then obtain l where p: "place s = (FETCH_SCANLINE_START, 0, l)"
      using ok(2) by (auto simp: place_def place_ok_def clocks_of_def)
    note f = place_fields [OF p]
    have r: "reload_scroll s = s" using f by (auto simp: reload_scroll_def word_le_nat_alt)
    let ?t = "start_scanline s"
    have q: "quiet (flagged s) (next_clock ?t)" using start_scanline_quiet [OF p] by simp
    show ?thesis
    proof (cases "skips_clock ?t")
      case True
      then have "rendering_enabled s" by (simp add: skips_clock_def start_scanline_def)
      then have "place (next_clock ?t) = (FETCH_NT, 1, l)"
        using place_next_clock [of ?t FETCH_NT 0 l] p by (simp add: place_start_scanline)
      moreover have "ppu_data_ok (next_clock ?t)" using ok(1) by simp
      ultimately have "PpuStep nmi (next_clock ?t) = Some (next_clock (next_clock ?t))" by (rule PpuStep_skipped)
      moreover have "PpuStep nmi s = PpuStep nmi (next_clock ?t)" using f r True by (subst PpuStep.simps) simp
      ultimately have "s' = next_clock (next_clock ?t)" using assms(3) by simp
      with q show ?thesis by simp
    next
      case False
      with assms(3) f r q show ?thesis by (subst (asm) PpuStep.simps) simp
    qed
  next
    case False
    let ?s = "reload_scroll s"
    have st: "ppu_state ?s = ppu_state s" "ppu_data_ok ?s = ppu_data_ok s" "raises_nmi ?s = raises_nmi s"
      by (simp_all add: reload_scroll_def raises_nmi_def place_def)
    show ?thesis
    proof (cases "ppu_state s = POSTRENDER_SCANLINE")
      case True
      have "flagged ?s = reload_scroll (flagged s)" by (simp add: flagged_def reload_scroll_def place_def)
      moreover have "postrender_step nmi ?s = Some s'" using True st assms(3) by (subst (asm) PpuStep.simps) simp
      ultimately show ?thesis using postrender_step_quiet [of ?s nmi s'] st True assms(2) ok(1) by simp
    next
      case post: False
      have "quiet ?s s'"
        using assms(3) False post st(1)
        by (subst (asm) PpuStep.simps)
          (auto simp: Let_def split: if_split_asm dest!: fetch_step_quiet sprite_fetch_step_quiet tail_step_quiet end_scanline_quiet)
      then show ?thesis using False post by (simp add: flagged_other)
    qed
  qed
qed

end
