(* ===== verification/Nes_Laws.thy ===== *)
theory Nes_Laws
  imports Nes_Io Ppu_Frame
begin

text \<open>
  The NES at work: the interrupt of the vertical blank, DMA into the sprite memory, and what the
  picture processor may change of the machine.
\<close>

section \<open>The interrupt of the vertical blank\<close>

lemma AssertNMI_ok: "nmi_ok AssertNMI"
  by (simp add: nmi_ok_def AssertNMI_def ppu.defs)

lemma quiet_pending: "quiet s s' \<Longrightarrow> cpu_pending s' = cpu_pending s"
  by (cases s; cases s') (simp add: quiet_def)

lemma raises_nmi_step:
  assumes "ppu_ok s" and "raises_nmi s"
  shows "PpuStep AssertNMI s = Some (next_clock (s\<lparr>cpu_pending := cpu_pending s OR 4\<rparr>))"
proof -
  have p: "place s = (POSTRENDER_SCANLINE, 4, 241)" using assms(2) by (simp add: raises_nmi_def)
  note f = place_fields [OF p]
  have f': "current_pixel_clock s = 4" "current_scanline s = 241" using f by (simp_all add: word_unat_eq_iff)
  have l: "num_render_scanlines s + num_postrender_scanlines s = 241"
    using assms(1) by (simp add: ppu_ok_def ppu_data_ok_def)
  have "status s AND control s AND 0x80 \<noteq> 0"
    using assms(2) flag_7 [of "status s AND control s"] by (simp add: raises_nmi_def and.assoc bit_and_iff)
  then have "vblank_event AssertNMI s = Some (s\<lparr>cpu_pending := cpu_pending s OR 4\<rparr>)"
    using f' l by (simp add: vblank_event_def AssertNMI_def)
  moreover have "reload_scroll s = s" using f' by (simp add: reload_scroll_def)
  ultimately show ?thesis
    using f f' by (subst PpuStep.simps) (simp add: postrender_step_def next_clock_def Let_def)
qed

text \<open>
  C7: the vertical blank.  A step of a well-formed picture processor raises the interrupt line of the CPU
  exactly at clock 4 of scanline 241, if the flag of the vertical blank and the enable bit of the control
  register are set; the flag is set at clock 1 of that line and cleared at the start of a frame, and
  no other step changes it.  The step writes no memory but the frame buffer, and keeps the sprite memory and the bus.
\<close>

theorem PpuStep_vblank:
  assumes "ppu_ok s"
  shows "\<exists>s'. PpuStep AssertNMI s = Some s' \<and>
    cpu_pending s' = (if place s = (POSTRENDER_SCANLINE, 4, 241) \<and> bit (status s) 7 \<and> bit (control s) 7
                      then cpu_pending s OR 4 else cpu_pending s) \<and>
    bit (status s') 7 = (place s = (POSTRENDER_SCANLINE, 1, 241) \<or>
                         place s \<noteq> (FETCH_SCANLINE_START, 0, 0) \<and> bit (status s) 7) \<and>
    blk_size (host s') = blk_size (host s) \<and>
    (\<forall>b. b \<noteq> fst (video_frame (fb s)) \<longrightarrow> blk_data (host s') b = blk_data (host s) b) \<and>
    oam s' = oam s \<and> memory (sysbus s') = memory (sysbus s)"
proof (cases "raises_nmi s")
  case True
  with raises_nmi_step [OF assms True] show ?thesis
    by (auto simp: raises_nmi_def next_clock_def)
next
  case False
  obtain s' where s': "PpuStep AssertNMI s = Some s'" using PpuStep_ok [OF AssertNMI_ok assms] by blast
  have q: "quiet (flagged s) s'" by (rule PpuStep_quiet [OF assms False s'])
  have "bit (0x80 :: u8) 7" by simp
  then have "bit (status s OR 0x80) 7" by (simp only: bit_or_iff) simp
  then have "bit (status (flagged s)) 7 = (place s = (POSTRENDER_SCANLINE, 1, 241) \<or>
      place s \<noteq> (FETCH_SCANLINE_START, 0, 0) \<and> bit (status s) 7)"
    by (simp add: flagged_def)
  moreover have "host (flagged s) = host s" "fb (flagged s) = fb s" "oam (flagged s) = oam s" "sysbus (flagged s) = sysbus s"
    "cpu_pending (flagged s) = cpu_pending s"
    by (simp_all add: flagged_def)
  ultimately show ?thesis
    using False q s' quiet_pending [OF q] by (auto simp: raises_nmi_def quiet_def)
qed

section \<open>Catching up\<close>

definition same_memory :: "wired_ppu \<Rightarrow> wired_ppu \<Rightarrow> bool" where
  "same_memory s s' \<longleftrightarrow>
     blk_size (host s') = blk_size (host s) \<and> fb s' = fb s \<and>
     (\<forall>b. b \<noteq> fst (video_frame (fb s)) \<longrightarrow> blk_data (host s') b = blk_data (host s) b) \<and>
     oam s' = oam s \<and> memory (sysbus s') = memory (sysbus s) \<and> mem_mask (sysbus s') = mem_mask (sysbus s)"

lemma same_memory_trans: "same_memory s s' \<Longrightarrow> same_memory s' s'' \<Longrightarrow> same_memory s s''"
  by (simp add: same_memory_def)

lemma PpuStep_same_memory:
  assumes "ppu_ok s" and "PpuStep AssertNMI s = Some s'"
  shows "same_memory s s'"
proof (cases "raises_nmi s")
  case True
  with raises_nmi_step [OF assms(1) True] assms(2) show ?thesis
    by (auto simp: same_memory_def next_clock_def)
next
  case False
  with PpuStep_quiet [OF assms(1) False assms(2)] show ?thesis
    by (simp add: same_memory_def quiet_def flagged_def)
qed

lemma catch_up_same_memory:
  assumes "catch_up_loop AssertNMI c s = Some s'" and "ppu_ok s"
  shows "same_memory s s'"
proof -
  have "nmi = AssertNMI \<longrightarrow> ppu_ok s \<longrightarrow> same_memory s s'" if "catch_up_loop nmi c s = Some s'" for nmi c s s'
  proof (rule catch_up_loop.raw_induct [where P = "\<lambda>nmi c s s'. nmi = AssertNMI \<longrightarrow> ppu_ok s \<longrightarrow> same_memory s s'", OF _ that])
    fix loop :: "(wired_ppu \<Rightarrow> wired_ppu option) \<Rightarrow> u64 \<Rightarrow> wired_ppu \<Rightarrow> wired_ppu option"
      and nmi :: "wired_ppu \<Rightarrow> wired_ppu option" and c :: u64 and s s' :: wired_ppu
    assume IH: "\<And>nmi c s s'. loop nmi c s = Some s' \<Longrightarrow>
        nmi = AssertNMI \<longrightarrow> ppu_ok s \<longrightarrow> same_memory s s'"
    assume run: "(if last_ppu_cycle s < c
      then PpuStep nmi (s\<lparr>last_ppu_cycle := last_ppu_cycle s + ucast (ppu_clock_size s)\<rparr>) \<bind> loop nmi c
      else Some s) = Some s'"
    show "nmi = AssertNMI \<longrightarrow> ppu_ok s \<longrightarrow> same_memory s s'"
    proof (intro impI)
      assume nmi: "nmi = AssertNMI" and ok: "ppu_ok s"
      show "same_memory s s'"
      proof (cases "last_ppu_cycle s < c")
        case True
        let ?s = "s\<lparr>last_ppu_cycle := last_ppu_cycle s + ucast (ppu_clock_size s)\<rparr>"
        have ok': "ppu_ok ?s" using ok by (simp add: ppu_ok_def)
        obtain s1 where s1: "PpuStep AssertNMI ?s = Some s1" "loop nmi c s1 = Some s'"
          using run True by (auto simp: nmi bind_eq_Some_conv)
        have "ppu_ok s1" using PpuStep_ok [OF AssertNMI_ok ok'] s1(1) by auto
        then have "same_memory s1 s'" using IH [OF s1(2)] nmi by blast
        moreover have "same_memory s s1" using PpuStep_same_memory [OF ok' s1(1)] by (simp add: same_memory_def)
        ultimately show ?thesis by (blast intro: same_memory_trans)
      qed (use run in \<open>simp add: same_memory_def\<close>)
    qed
  qed
  then show ?thesis using assms by blast
qed

text \<open>The call of \<open>CatchUpToCpu\<close> by the machine.\<close>

lemma nes_CatchUpToCpu_runs:
  assumes "ppu_ok (ppu_of m)" and "0 < ppu_clock_size (ppu_of m)"
    and "unat (cycle m) + unat (ppu_clock_size (ppu_of m)) < 2 ^ 64"
  shows "\<exists>s. nes_CatchUpToCpu m = Some ((), with_ppu s m) \<and> ppu_ok s \<and> same_memory (ppu_of m) s"
proof -
  obtain s where "catch_up_loop AssertNMI (cycle m) (ppu_of m) = Some s" "ppu_ok s"
    using catch_up_loop_ends [OF AssertNMI_ok assms] by blast
  with catch_up_same_memory [OF this(1) assms(1)] show ?thesis
    by (intro exI [of _ s]) (simp add: nes_CatchUpToCpu_def on_ppu_def CatchUpToCpu_def)
qed

section \<open>DMA\<close>

lemma nes_ram_cong:
  assumes "blk_size (host m') = blk_size (host m)" and "memory (sysbus m') = memory (sysbus m)" and "mem_mask (sysbus m') = mem_mask (sysbus m)"
  shows "ram_ptr (m' :: nes) = ram_ptr m"
proof -
  have "ram_ptr m' = ram_ptr (m\<lparr>host := host m'\<rparr>)" using assms by (intro ram_cong) simp_all
  also have "\<dots> = ram_ptr m" using assms(1) by (rule ram_ptr_host)
  finally show ?thesis .
qed

lemma OamDma_loop_copies:
  assumes "\<And>j. i \<le> j \<Longrightarrow> j < i + n \<Longrightarrow> ram_ptr m (ucast base + of_nat j) = Some (q j)"
    and "i + n \<le> length (oam (nes_ppu (dev m)))"
  shows "\<exists>m'. OamDma_loop base i n m = Some m' \<and> cycle m' = cycle m \<and> cpu_clock_size (dev m') = cpu_clock_size (dev m) \<and>
    memory (sysbus m') = memory (sysbus m) \<and> open_bus_is_data (sysbus m') = open_bus_is_data (sysbus m) \<and>
    length (oam (nes_ppu (dev m'))) = length (oam (nes_ppu (dev m))) \<and>
    (\<forall>j. oam (nes_ppu (dev m')) ! j = (if i \<le> j \<and> j < i + n then ram_byte m (q j) else oam (nes_ppu (dev m)) ! j))"
  using assms
proof (induction n arbitrary: i m)
  case (Suc n)
  let ?v = "ram_byte m (q i)"
  have r: "ReadByte nes_read_io (ucast base + of_nat i) m = Some ((?v, page_cycles m (ucast base + of_nat i)), set_open_bus ?v m)"
    using Suc.prems(1) [of i] by (intro ReadByte_ram) simp
  define m1 where "m1 = (set_open_bus ?v m)\<lparr>dev := (dev m)\<lparr>nes_ppu := (nes_ppu (dev m))\<lparr>oam := (oam (nes_ppu (dev m)))[i := ?v]\<rparr>\<rparr>\<rparr>"
  have s: "set_oam i ?v (set_open_bus ?v m) = Some m1"
    using Suc.prems(2) by (simp add: set_oam_def m1_def)
  have h: "host m1 = host m" "memory (sysbus m1) = memory (sysbus m)" "mem_mask (sysbus m1) = mem_mask (sysbus m)"
    by (simp_all add: m1_def)
  note rc = ram_cong [OF h]
  have "i + 1 + n \<le> length (oam (nes_ppu (dev m1)))" using Suc.prems(2) by (simp add: m1_def)
  then obtain m' where m': "OamDma_loop base (i + 1) n m1 = Some m'" "cycle m' = cycle m1" "cpu_clock_size (dev m') = cpu_clock_size (dev m1)"
    "memory (sysbus m') = memory (sysbus m1)" "open_bus_is_data (sysbus m') = open_bus_is_data (sysbus m1)"
    "length (oam (nes_ppu (dev m'))) = length (oam (nes_ppu (dev m1)))"
    "\<forall>j. oam (nes_ppu (dev m')) ! j = (if i + 1 \<le> j \<and> j < i + 1 + n then ram_byte m1 (q j) else oam (nes_ppu (dev m1)) ! j)"
    using Suc.IH [of "i + 1" m1] Suc.prems(1) rc(1) by auto
  have "OamDma_loop base i (Suc n) m = Some m'" using r s m'(1) by simp
  moreover have "oam (nes_ppu (dev m')) ! j = (if i \<le> j \<and> j < i + Suc n then ram_byte m (q j) else oam (nes_ppu (dev m)) ! j)" for j
    using m'(7) Suc.prems(2) rc(2) by (cases "j = i") (auto simp: m1_def nth_list_update)
  ultimately show ?case using m'(2-6) by (intro exI [of _ m']) (simp add: m1_def set_open_bus_def)
qed auto

text \<open>The clock after a write to 0x4014.\<close>

definition dma_end :: "u64 \<Rightarrow> u64" where
  "dma_end c = c + (if even (unat c div 12) then 12 else 0) + 12 * 512"

lemma with_ppu_fields:
  "cycle (with_ppu s m) = cycle m" "sysbus (with_ppu s m) = sysbus m" "host (with_ppu s m) = host s"
  "cpu_clock_size (dev (with_ppu s m)) = cpu_clock_size (dev m)" "oam (nes_ppu (dev (with_ppu s m))) = oam s"
  by (simp_all add: with_ppu_def)

lemma OamDma_copies:
  assumes "ppu_ok (ppu_of m)" and "0 < ppu_clock_size (ppu_of m)"
    and "unat (cycle m) + unat (ppu_clock_size (ppu_of m)) < 2 ^ 64"
    and "\<And>i. i < 256 \<Longrightarrow> ram_ptr m (ucast base + of_nat i) = Some (q i)"
    and "\<And>i. i < 256 \<Longrightarrow> fst (q i) \<noteq> fst (video_frame (fb (nes_ppu (dev m))))"
  shows "\<exists>m'. OamDma base m = Some m' \<and> cycle m' = cycle m \<and> cpu_clock_size (dev m') = cpu_clock_size (dev m) \<and>
    memory (sysbus m') = memory (sysbus m) \<and> open_bus_is_data (sysbus m') = open_bus_is_data (sysbus m) \<and>
    oam (nes_ppu (dev m')) = map (\<lambda>i. ram_byte m (q i)) [0..<256]"
proof -
  obtain s where s: "nes_CatchUpToCpu m = Some ((), with_ppu s m)" "ppu_ok s" "same_memory (ppu_of m) s"
    using nes_CatchUpToCpu_runs [OF assms(1-3)] by blast
  let ?m = "with_ppu s m"
  have p: "host (ppu_of m) = host m" "fb (ppu_of m) = fb (nes_ppu (dev m))" by (simp_all add: ppu_of_def)
  have h: "blk_size (host ?m) = blk_size (host m)"
    "\<And>b. b \<noteq> fst (video_frame (fb (nes_ppu (dev m)))) \<Longrightarrow> blk_data (host ?m) b = blk_data (host m) b"
    using s(3) by (simp_all add: with_ppu_fields same_memory_def p)
  have rp: "ram_ptr ?m = ram_ptr m" by (rule nes_ram_cong [OF h(1)]) (simp_all add: with_ppu_fields)
  have l: "length (oam s) = 256" using s(2) by (simp add: ppu_ok_def ppu_data_ok_def)
  obtain m' where m': "OamDma_loop base 0 256 ?m = Some m'" "cycle m' = cycle ?m" "cpu_clock_size (dev m') = cpu_clock_size (dev ?m)"
    "memory (sysbus m') = memory (sysbus ?m)" "open_bus_is_data (sysbus m') = open_bus_is_data (sysbus ?m)"
    "length (oam (nes_ppu (dev m'))) = length (oam (nes_ppu (dev ?m)))"
    "\<forall>j. oam (nes_ppu (dev m')) ! j = (if 0 \<le> j \<and> j < 0 + 256 then ram_byte ?m (q j) else oam (nes_ppu (dev ?m)) ! j)"
    using OamDma_loop_copies [of 0 256 ?m base q] assms(4) l by (auto simp: rp with_ppu_fields)
  have "ram_byte ?m (q i) = ram_byte m (q i)" if "i < 256" for i
    using h(2) [OF assms(5) [OF that]] by (cases "q i") (simp add: ram_byte_def)
  then have "oam (nes_ppu (dev m')) = map (\<lambda>i. ram_byte m (q i)) [0..<256]"
    using m'(6,7) l by (intro nth_equalityI) (simp_all add: with_ppu_fields)
  with m'(1-5) s(1) show ?thesis
    by (intro exI [of _ m']) (simp add: OamDma_def with_ppu_fields)
qed

lemma dma_base: "ucast (push_bit 8 (ucast p :: u16)) = (0x100 * ucast (p :: u8) :: u32)"
proof -
  have "(ucast (push_bit 8 (ucast p :: u16)) :: u32) = push_bit 8 (ucast p)"
    by (rule bit_word_eqI) (auto simp: bit_simps dest: bit_imp_le_length)
  then show ?thesis by (simp add: push_bit_eq_mult)
qed

text \<open>The extra cycle, if the write begins on an even one.\<close>

definition align_cycle :: "nes \<Rightarrow> nes" where
  "align_cycle m = (if (cycle m div 12) AND 1 = 0 then m\<lparr>cycle := cycle m + 12\<rparr> else m)"

lemma cycle_parity: "(c div 12) AND 1 = (0 :: u64) \<longleftrightarrow> even (unat c div 12)"
  by (simp add: and_one_eq word_unat_eq_iff unat_mod unat_div even_iff_mod_2_eq_zero)

lemma align_cycle_fields:
  "host (align_cycle m) = host m" "sysbus (align_cycle m) = sysbus m" "dev (align_cycle m) = dev m"
  "ppu_of (align_cycle m) = ppu_of m" "cycle (align_cycle m) + 12 * 512 = dma_end (cycle m)"
  by (simp_all add: align_cycle_def ppu_of_def dma_end_def cycle_parity)

text \<open>
  C10: DMA into the sprite memory.  On a loaded machine a write of \<open>p\<close> to 0x4014 succeeds, copies the
  256 bytes of page \<open>p\<close> to the sprite memory, in order, and takes the clock 512 cycles further, 513 if
  it begins on an even one; it changes nothing else on the buses.  The page must be memory, away from the frame buffer.
\<close>

theorem oam_dma_copies:
  assumes "nes_mapped c b v rom m" and "open_bus_is_data (sysbus m)" and "cpu_clock_size (dev m) = 12"
    and "ppu_ok (ppu_of m)" and "0 < ppu_clock_size (ppu_of m)"
    and "unat (cycle m) + 12 + unat (ppu_clock_size (ppu_of m)) < 2 ^ 64"
    and "\<And>i. i < 256 \<Longrightarrow> ram_ptr m (0x100 * ucast p + of_nat i) = Some (q i)"
    and "\<And>i. i < 256 \<Longrightarrow> fst (q i) \<noteq> fst (video_frame (fb (nes_ppu (dev m))))"
  shows "\<exists>m'. WriteByte nes_io 0x4014 p m = Some (12, m') \<and> cycle m' = dma_end (cycle m) \<and>
    oam (nes_ppu (dev m')) = map (\<lambda>i. ram_byte m (q i)) [0..<256] \<and> memory (sysbus m') = memory (sysbus m)"
proof -
  let ?m = "align_cycle m"
  note f = align_cycle_fields [of m]
  have rp: "ram_ptr ?m = ram_ptr m" by (rule nes_ram_cong) (simp_all add: f)
  have clock: "unat (cycle ?m) + unat (ppu_clock_size (ppu_of ?m)) < 2 ^ 64"
    using assms(6) by (simp add: f) (auto simp: align_cycle_def unat_word_ariths)
  obtain m1 where m1: "OamDma (push_bit 8 (ucast p)) ?m = Some m1" "cycle m1 = cycle ?m" "cpu_clock_size (dev m1) = 12"
    "memory (sysbus m1) = memory (sysbus m)" "open_bus_is_data (sysbus m1)"
    "oam (nes_ppu (dev m1)) = map (\<lambda>i. ram_byte ?m (q i)) [0..<256]"
    using OamDma_copies [of ?m "push_bit 8 (ucast p)" q] assms clock by (auto simp: f rp dma_base)
  define m2 where "m2 = m1\<lparr>cycle := cycle m1 + 12 * 512\<rparr>"
  have "io_write nes_io 0x4014 p m = Some ((), m2)"
    using m1(1) assms(3)
    by (simp add: nes_io_def nes_IoWrite_def WriteReg_def m2_def align_cycle_def Let_def split: if_split_asm)
  then have "WriteByte nes_io 0x4014 p m = Some (12, set_open_bus p m2)"
    using assms(1) m1(4,5) by (intro WriteByte_io) (simp_all add: m2_def)
  moreover have "cycle (set_open_bus p m2) = dma_end (cycle m)"
    using m1(2) f(5) by (simp add: m2_def set_open_bus_def)
  moreover have "ram_byte ?m (q i) = ram_byte m (q i)" for i by (simp add: ram_byte_def f)
  ultimately show ?thesis using m1(4,6) by (simp add: m2_def)
qed

section \<open>The loaded machine's picture processor\<close>

text \<open>The bus a cartridge sets up is well-formed, whatever the mirroring.\<close>

lemma mapped_ppu_bus_ok:
  assumes "nrom_ok c" and "nes_mapped c b v (parsed_rom c b r0) m"
  shows "ppu_bus_ok (blk_size (host m)) (sysbus (nes_ppu (dev m)))"
proof -
  let ?p = "nes_ppu_page v (chr_rom (parsed_rom c b r0)) (part_mirroring c)"
  obtain rest where "holds (host m) b (print_image c @ rest)" using assms(2) by (auto simp: nes_mapped_def Let_def)
  then have "load_bytes (host m) (chr_rom (parsed_rom c b r0)) (length (part_chr c)) = Some (part_chr c)"
    using assms(1) by (intro parsed_regions) (simp_all add: nrom_ok_def)
  then have chr: "snd (chr_rom (parsed_rom c b r0)) + 0x2000 \<le> blk_size (host m) (fst (chr_rom (parsed_rom c b r0)))"
    using load_bytes_nth(1) assms(1) by (fastforce simp: nrom_ok_def)
  have v: "blk_size (host m) v = 0x1000" using assms(2) by (simp add: nes_mapped_def Let_def)
  have n: "name_table_page (part_mirroring c) j < 4" for j
    using mod_less_divisor [of 2 j] mod_less_divisor [of 2 "j div 2"]
    by (cases "part_mirroring c") (simp_all add: name_table_page_def del: mod_less_divisor)
  have "ppu_page_ok (blk_size (host m)) (?p j)" for j
    using chr n [of j] by (simp add: ppu_page_ok_def nes_ppu_page_def ptr_add_def v Let_def)
  with assms(2) show ?thesis
    by (auto simp: nes_mapped_def Let_def ppu_bus_ok_def geometry_def)
qed

text \<open>A loaded machine with a frame buffer and a picture processor as \<open>test_ppu\<close>.\<close>

lemma test_nes_running:
  obtains m where "nes_mapped test_cartridge 1 2 (parsed_rom test_cartridge 1 blank_rom) m" "open_bus_is_data (sysbus m)"
    "cpu_clock_size (dev m) = 12" "ppu_ok (ppu_of m)" "ppu_clock_size (ppu_of m) = 4" "cycle m = 24"
    "fst (video_frame (fb (nes_ppu (dev m)))) \<noteq> sysram (dev m)"
proof -
  let ?rom = "parsed_rom test_cartridge 1 blank_rom"
  obtain m0 where m0: "nes_mapped test_cartridge 1 2 ?rom m0"
    using nes_LoadRom_setup [OF test_cartridge_ok test_nes_ready] by blast
  define k where "k = sysram (dev m0) + 10"
  define s :: wired_ppu where "s = (ppu.extend test_ppu (wired_ppu.fields 0))
    \<lparr>sysbus := sysbus (nes_ppu (dev m0)), fb := (fb test_ppu)\<lparr>video_frame := (k, 0)\<rparr>\<rparr>"
  define m where "m = m0\<lparr>host := (host m0)\<lparr>blk_size := (blk_size (host m0))(k := 240 * 1024)\<rparr>, cycle := 24,
    sysbus := (sysbus m0)\<lparr>open_bus_is_data := True\<rparr>, dev := (dev m0)\<lparr>nes_ppu := s, cpu_clock_size := 12\<rparr>\<rparr>"
  have k: "k \<noteq> 1" "k \<noteq> 2" "k \<noteq> sysram (dev m0)" by (simp_all add: k_def)
  have 1: "nes_mapped test_cartridge 1 2 ?rom m"
    using m0 k by (simp add: nes_mapped_def m_def s_def Let_def holds_def geometry_def)
  have "ppu_bus_ok (blk_size (host (ppu_of m))) (sysbus (ppu_of m))"
    using mapped_ppu_bus_ok [OF test_cartridge_ok 1] by simp
  moreover have "frame_ok (blk_size (host (ppu_of m))) (fb (ppu_of m))"
    by (simp add: frame_ok_def ppu_of_def m_def s_def test_ppu_def ppu_Initialize_def Let_def)
  moreover have "place_ok (place (ppu_of m))"
    by (simp add: place_ok_def place_def clocks_of_def lines_of_def ppu_of_def m_def s_def ppu.defs test_ppu_def ppu_Initialize_def Let_def)
  ultimately have 2: "ppu_ok (ppu_of m)"
    by (simp add: ppu_ok_def ppu_data_ok_def) (simp add: ppu_of_def m_def s_def ppu.defs test_ppu_def ppu_Initialize_def Let_def)
  show thesis
    by (rule that [of m, OF 1 _ _ 2])
      (simp_all add: m_def s_def k_def ppu_of_def ppu.defs test_ppu_def ppu_Initialize_def Let_def)
qed

theorem oam_dma_copies_witness:
  "\<exists>m m'. WriteByte nes_io 0x4014 2 m = Some (12, m') \<and> cycle m = 24 \<and> cycle m' = 24 + 513 * 12 \<and>
    oam (nes_ppu (dev m')) ! 5 = blk_data (host m) (sysram (dev m)) 0x205"
proof -
  obtain m where m: "nes_mapped test_cartridge 1 2 (parsed_rom test_cartridge 1 blank_rom) m" "open_bus_is_data (sysbus m)"
    "cpu_clock_size (dev m) = 12" "ppu_ok (ppu_of m)" "ppu_clock_size (ppu_of m) = 4" "cycle m = 24"
    "fst (video_frame (fb (nes_ppu (dev m)))) \<noteq> sysram (dev m)"
    by (rule test_nes_running)
  let ?q = "\<lambda>i. (sysram (dev m), 0x200 + i)"
  have q: "ram_ptr m (0x100 * ucast (2 :: u8) + of_nat i) = Some (?q i)" if "i < 256" for i
  proof -
    have "unat (0x100 * ucast (2 :: u8) + of_nat i :: u32) = 0x200 + i"
      using that by (simp add: unat_word_ariths unat_of_nat)
    with mapped_ram(1) [OF m(1), of "0x100 * ucast (2 :: u8) + of_nat i"] that show ?thesis by simp
  qed
  have "\<exists>m'. WriteByte nes_io 0x4014 2 m = Some (12, m') \<and> cycle m' = dma_end (cycle m) \<and>
    oam (nes_ppu (dev m')) = map (\<lambda>i. ram_byte m (?q i)) [0..<256] \<and> memory (sysbus m') = memory (sysbus m)"
    by (rule oam_dma_copies [OF m(1-4), where q = "?q"]) (simp_all only: q m(5,6), use m(7) in simp_all)
  then obtain m' where "WriteByte nes_io 0x4014 2 m = Some (12, m')" "cycle m' = dma_end (cycle m)"
    "oam (nes_ppu (dev m')) = map (\<lambda>i. ram_byte m (?q i)) [0..<256]"
    by blast
  then show ?thesis
    using m(6) by (intro exI [of _ m] exI [of _ m']) (simp add: dma_end_def ram_byte_def)
qed

text \<open>The step that raises the interrupt, and the one before the flag is set.\<close>

theorem PpuStep_vblank_witness:
  "\<exists>s s'. place s = (POSTRENDER_SCANLINE, 4, 241) \<and> cpu_pending s = 1 \<and> PpuStep AssertNMI s = Some s' \<and> cpu_pending s' = 5"
proof -
  define s :: wired_ppu where "s = (ppu.extend test_ppu (wired_ppu.fields 1))
    \<lparr>ppu_state := POSTRENDER_SCANLINE, current_pixel_clock := 4, current_scanline := 241, status := 0x80, control := 0x80\<rparr>"
  have p: "place s = (POSTRENDER_SCANLINE, 4, 241)" by (simp add: place_def s_def ppu.defs)
  have "ppu_data_ok s" using test_ppu_ok by (simp add: s_def ppu.defs ppu_ok_def ppu_data_ok_def)
  then have ok: "ppu_ok s" by (simp add: ppu_ok_def p place_ok_def clocks_of_def lines_of_def)
  have f: "bit (status s) 7" "bit (control s) 7" "cpu_pending s = 1"
    by (simp_all add: s_def ppu.defs wired_ppu.defs)
  obtain s' where "PpuStep AssertNMI s = Some s'" "cpu_pending s' = 5"
    using PpuStep_vblank [OF ok] by (auto simp: p f)
  with p f(3) show ?thesis by blast
qed

end
