(* ===== verification/Libretro.thy ===== *)
theory Libretro
  imports Nes_Libretro Nes_Laws
begin

text \<open>
  The libretro front end (libretro_interface.cc) and the NES behind it.  The callbacks of the embedder
  are the list of calls an operation makes.  A system is a value \<open>'s\<close>; the operations of its class are arguments.
\<close>

section \<open>State\<close>

record libretro_framebuffer =
  lfb_data :: "host_ptr option"
  lfb_width :: u32
  lfb_height :: u32
  lfb_pitch :: u32

text \<open>The only constant of \<open>retro_pixel_format\<close>, and of \<open>PixelFormat\<close>, the sources name.\<close>

datatype retro_pixel_format = RETRO_PIXEL_FORMAT_XRGB8888

record libretro_interface =
  current_pf :: retro_pixel_format
  queried_input :: bool
  current_framebuffer :: libretro_framebuffer

text \<open>\<open>CoreInfo\<close>; a load function yields a system or the null pointer, \<open>None\<close> on undefined behaviour.\<close>

record 's core_info =
  ext_list :: string
  load_fns :: "(u8 list \<Rightarrow> 's option option) list"

record 's libretro =
  reg_info :: "'s core_info option"
  g_sys :: "'s option"
  g_itf :: "libretro_interface option"

datatype front_call = Poll | Refresh host_ptr u32 u32 u32

section \<open>Registration and loading\<close>

definition add_extension :: "string \<Rightarrow> string \<Rightarrow> string" where
  "add_extension e exts = (if exts \<noteq> [] then exts @ ''|'' else exts) @ e"

definition Register :: "string list \<Rightarrow> (u8 list \<Rightarrow> 's option option) \<Rightarrow> 's libretro \<Rightarrow> 's libretro" where
  "Register extensions load s =
     (let info = (case reg_info s of None \<Rightarrow> \<lparr>ext_list = [], load_fns = []\<rparr> | Some info \<Rightarrow> info);
          info = info\<lparr>ext_list := fold add_extension extensions (ext_list info)\<rparr>
      in s\<lparr>reg_info := Some (info\<lparr>load_fns := load_fns info @ [load]\<rparr>)\<rparr>)"

definition valid_extensions :: "'s libretro \<Rightarrow> string" where
  "valid_extensions s = (case reg_info s of None \<Rightarrow> [] | Some info \<Rightarrow> ext_list info)"

text \<open>The constructor: the size and pitch of the frame buffer keep what the storage holds.\<close>

definition LibretroInterface :: "libretro_framebuffer \<Rightarrow> libretro_interface" where
  "LibretroInterface storage = \<lparr>current_pf = RETRO_PIXEL_FORMAT_XRGB8888, queried_input = False, current_framebuffer = storage\<lparr>lfb_data := None\<rparr>\<rparr>"

definition retro_unload_game :: "'s libretro \<Rightarrow> 's libretro" where
  "retro_unload_game s = s\<lparr>g_sys := None, g_itf := None\<rparr>"

fun load_game_loop ::
  "('s \<Rightarrow> (bool \<times> 's) option) \<Rightarrow> libretro_framebuffer \<Rightarrow> (u8 list \<Rightarrow> 's option option) list \<Rightarrow> u8 list \<Rightarrow>
    's libretro \<Rightarrow> (bool \<times> 's libretro) option" where
  "load_game_loop init storage [] game s = Some (False, s)"
| "load_game_loop init storage (fn # fns) game s = do {
     sys \<leftarrow> fn game;
     (case sys of
        None \<Rightarrow> load_game_loop init storage fns game s
      | Some sys \<Rightarrow> do {
          (ok, sys) \<leftarrow> init sys;
          (if ok then Some (True, s\<lparr>g_sys := Some sys, g_itf := Some (LibretroInterface storage)\<rparr>)
           else load_game_loop init storage fns game (s\<lparr>g_sys := None, g_itf := None\<rparr>))
        })
   }"

text \<open>The game is the null pointer, \<open>None\<close>, when the embedder starts the core without one.\<close>

definition retro_load_game ::
  "('s \<Rightarrow> (bool \<times> 's) option) \<Rightarrow> libretro_framebuffer \<Rightarrow> u8 list option \<Rightarrow> 's libretro \<Rightarrow> (bool \<times> 's libretro) option" where
  "retro_load_game init storage game s =
     (case reg_info s of
        None \<Rightarrow> Some (False, s)
      | Some info \<Rightarrow>
          if load_fns info = [] then Some (False, s)
          else do {
            game \<leftarrow> game;
            load_game_loop init storage (load_fns info) game s
          })"

definition retro_get_region_ntsc :: "('s \<Rightarrow> bool) \<Rightarrow> 's libretro \<Rightarrow> bool" where
  "retro_get_region_ntsc ntsc s \<longleftrightarrow> (case g_sys s of None \<Rightarrow> True | Some sys \<Rightarrow> ntsc sys)"

definition retro_reset :: "('s \<Rightarrow> 's option) \<Rightarrow> 's libretro \<Rightarrow> 's libretro option" where
  "retro_reset reset s = do {
     sys \<leftarrow> g_sys s;
     sys \<leftarrow> reset sys;
     Some (s\<lparr>g_sys := Some sys\<rparr>)
   }"

section \<open>Frames\<close>

definition GetBytesPerPixel :: u32 where
  "GetBytesPerPixel = 4"

text \<open>The block \<open>b\<close> is the new memory; the product of \<open>Create\<close> has 32 bits.\<close>

definition AllocateFramebuffer :: "nat \<Rightarrow> libretro_interface \<Rightarrow> host_mem \<Rightarrow> libretro_interface \<times> host_mem" where
  "AllocateFramebuffer b itf h =
     (let f = current_framebuffer itf
      in (itf\<lparr>current_framebuffer := f\<lparr>lfb_data := Some (b, 0)\<rparr>\<rparr>, NativeMemory_Create b (unat (240 * lfb_pitch f)) h))"

text \<open>\<open>FillAvInfo\<close>, given the width and height of \<open>GetGeometry\<close>.\<close>

definition FillAvInfo :: "u32 \<times> u32 \<Rightarrow> nat \<Rightarrow> libretro_interface \<Rightarrow> host_mem \<Rightarrow> libretro_interface \<times> host_mem" where
  "FillAvInfo screen b itf h =
     (let (w, height) = screen;
          f = (current_framebuffer itf)\<lparr>lfb_width := w, lfb_height := height, lfb_pitch := w * GetBytesPerPixel\<rparr>
      in AllocateFramebuffer b (itf\<lparr>current_framebuffer := f\<rparr>) h)"

text \<open>\<open>Run\<close>; \<open>tick\<close> also tells whether the system polled the input.\<close>

definition Run ::
  "(libretro_framebuffer \<Rightarrow> 's \<Rightarrow> (bool \<times> 's) option) \<Rightarrow> libretro_interface \<Rightarrow> 's \<Rightarrow>
    (front_call list \<times> libretro_interface \<times> 's) option" where
  "Run tick itf sys = do {
     (polled, sys) \<leftarrow> tick (current_framebuffer itf) sys;
     (let itf = itf\<lparr>queried_input := polled\<rparr>; f = current_framebuffer itf in do {
        data \<leftarrow> lfb_data f;
        Some ((if queried_input itf then [] else [Poll]) @
              [Refresh (ptr_add data (unat (lfb_pitch f * 8))) (lfb_width f) (lfb_height f) (lfb_pitch f)], itf, sys)
      })
   }"

section \<open>The NES\<close>

definition NesLibretro_GetGeometry :: "u32 \<times> u32" where
  "NesLibretro_GetGeometry = (256, 224)"

definition NesLibretro_frame :: "libretro_framebuffer \<Rightarrow> host_ptr \<Rightarrow> framebuffer" where
  "NesLibretro_frame f data = \<lparr>fb_width = lfb_width f, fb_height = lfb_height f, fb_stride = lfb_pitch f, video_frame = data\<rparr>"

section \<open>Laws\<close>

text \<open>A system and its interface are set together.\<close>

definition front_ok :: "'s libretro \<Rightarrow> bool" where
  "front_ok s \<longleftrightarrow> (g_sys s = None \<longleftrightarrow> g_itf s = None)"

lemma load_game_loop_ok:
  assumes "load_game_loop init storage fns game s = Some (ok, s')" and "front_ok s"
  shows "front_ok s' \<and> (ok \<longrightarrow> g_sys s' \<noteq> None) \<and> reg_info s' = reg_info s"
  using assms
proof (induction fns arbitrary: s)
  case (Cons fn fns)
  have none: "front_ok (s\<lparr>g_sys := None, g_itf := None\<rparr>)" by (simp add: front_ok_def)
  show ?case
    using Cons.prems Cons.IH [OF _ none] Cons.IH [OF _ Cons.prems(2)]
    by (fastforce simp: front_ok_def bind_eq_Some_conv split: option.splits if_splits)
qed simp

lemma retro_load_game_ok:
  assumes "retro_load_game init storage game s = Some (ok, s')" and "front_ok s"
  shows "front_ok s' \<and> (ok \<longrightarrow> g_sys s' \<noteq> None)"
  using assms load_game_loop_ok
  by (fastforce simp: retro_load_game_def bind_eq_Some_conv split: option.splits if_splits)

text \<open>
  C30: the frame of the front end fits.  The memory \<open>FillAvInfo\<close> allocates for the NES holds the 240 lines the picture processor
  draws, whatever the cartridge; the bus of the picture processor stays well formed; and all bytes of
  the 224 lines the front end shows after a frame, from line 8, are in this memory.
\<close>

theorem front_end_frame_fits:
  assumes "nrom_ok c" and "nes_mapped c b v (parsed_rom c b r0) m" and "f \<notin> {b, v, sysram (dev m)}"
    and "FillAvInfo NesLibretro_GetGeometry f itf (host m) = (itf', h)"
    and "Run tick itf' sys = Some (calls, itf'', sys')"
    and "tick (current_framebuffer itf') sys = Some (polled, sys')"
  shows "lfb_data (current_framebuffer itf') = Some (f, 0) \<and>
    frame_ok (blk_size h) (NesLibretro_frame (current_framebuffer itf') (f, 0)) \<and>
    ppu_bus_ok (blk_size h) (sysbus (nes_ppu (dev m))) \<and>
    calls = (if polled then [] else [Poll]) @ [Refresh (f, 8 * 1024) 256 224 1024] \<and>
    8 * 1024 + 224 * 1024 \<le> blk_size h f"
proof -
  have itf': "current_framebuffer itf' = \<lparr>lfb_data = Some (f, 0), lfb_width = 256, lfb_height = 224, lfb_pitch = 1024\<rparr>"
    and h: "h = NativeMemory_Create f (240 * 1024) (host m)"
    using assms(4) by (auto simp: FillAvInfo_def AllocateFramebuffer_def NesLibretro_GetGeometry_def GetBytesPerPixel_def Let_def)
  have size: "blk_size h f = 240 * 1024" by (simp add: h NativeMemory_Create_def)
  have "nes_mapped c b v (parsed_rom c b r0) (m\<lparr>host := h\<rparr>)"
    using assms(2,3) by (simp add: nes_mapped_def Let_def holds_def h NativeMemory_Create_def geometry_def)
  from mapped_ppu_bus_ok [OF assms(1) this]
  have "ppu_bus_ok (blk_size h) (sysbus (nes_ppu (dev m)))" by simp
  moreover have "calls = (if polled then [] else [Poll]) @ [Refresh (f, 8 * 1024) 256 224 1024]"
    using assms(5,6) by (auto simp: Run_def itf' Let_def ptr_add_def)
  ultimately show ?thesis by (simp add: itf' frame_ok_def NesLibretro_frame_def size)
qed

theorem front_end_frame_fits_witness:
  "\<exists>m :: nes. \<exists>f itf' h. FillAvInfo NesLibretro_GetGeometry f (LibretroInterface (\<lparr>lfb_data = None, lfb_width = 0, lfb_height = 0, lfb_pitch = 0\<rparr>)) (host m) = (itf', h) \<and>
    Run (\<lambda>_ n. Some (True, n)) itf' (7 :: nat) = Some ([Refresh (f, 8192) 256 224 1024], itf'\<lparr>queried_input := True\<rparr>, 7) \<and>
    ppu_bus_ok (blk_size h) (sysbus (nes_ppu (dev m)))"
proof -
  obtain m where m: "nes_mapped test_cartridge 1 2 (parsed_rom test_cartridge 1 blank_rom) m"
    by (rule test_nes_running)
  let ?f = "sysram (dev m) + 10"
  let ?itf = "LibretroInterface (\<lparr>lfb_data = None, lfb_width = 0, lfb_height = 0, lfb_pitch = 0\<rparr>)"
  obtain itf' h where i: "FillAvInfo NesLibretro_GetGeometry ?f ?itf (host m) = (itf', h)"
    by (cases "FillAvInfo NesLibretro_GetGeometry ?f ?itf (host m)")
  then have "lfb_data (current_framebuffer itf') = Some (?f, 0)"
    by (auto simp: FillAvInfo_def AllocateFramebuffer_def Let_def split: prod.splits)
  then obtain calls where r: "Run (\<lambda>_ n. Some (True, n)) itf' (7 :: nat) = Some (calls, itf'\<lparr>queried_input := True\<rparr>, 7)"
    by (simp add: Run_def Let_def)
  have "?f \<notin> {1, 2, sysram (dev m)}" by simp
  from front_end_frame_fits [OF test_cartridge_ok m this i r refl] i r show ?thesis by (intro exI [of _ m] exI [of _ ?f] exI) auto
qed

end
