(* ===== verification/Assembler.thy ===== *)
theory Assembler
  imports Op_Tables
begin

text \<open>
  The assembler of the 65816 (cpu_65c816.cc, \<open>WDC65816Assembler\<close>).  The pointer into the source text is
  the rest of the text, \<open>[]\<close> where it points to the terminating zero.
\<close>

section \<open>Characters\<close>

text \<open>The classes of the C library in its default locale, where characters from 128 are in no class.\<close>

abbreviation code :: "char \<Rightarrow> nat" where
  "code c \<equiv> of_char c"

definition is_space :: "char \<Rightarrow> bool" where
  "is_space c \<longleftrightarrow> code c = 32 \<or> 9 \<le> code c \<and> code c \<le> 13"

definition is_digit :: "char \<Rightarrow> bool" where
  "is_digit c \<longleftrightarrow> 48 \<le> code c \<and> code c \<le> 57"

definition is_alpha :: "char \<Rightarrow> bool" where
  "is_alpha c \<longleftrightarrow> 65 \<le> code c \<and> code c \<le> 90 \<or> 97 \<le> code c \<and> code c \<le> 122"

definition is_alnum :: "char \<Rightarrow> bool" where
  "is_alnum c \<longleftrightarrow> is_alpha c \<or> is_digit c"

definition to_upper :: "char \<Rightarrow> char" where
  "to_upper c = (if 97 \<le> code c \<and> code c \<le> 122 then char_of (code c - 32) else c)"

section \<open>Scanning\<close>

definition SkipWhitespace :: "string \<Rightarrow> string" where
  "SkipWhitespace p = dropWhile is_space p"

definition SkipToEndOfLine :: "string \<Rightarrow> string" where
  "SkipToEndOfLine p = dropWhile (\<lambda>c. code c \<noteq> 10) p"

text \<open>The loop of \<open>SkipNumber\<close>: whether there was a digit, the number, and the rest.\<close>

fun digits_loop :: "bool \<Rightarrow> bool \<Rightarrow> u32 \<Rightarrow> string \<Rightarrow> bool \<times> u32 \<times> string" where
  "digits_loop hex ok number [] = (ok, number, [])"
| "digits_loop hex ok number (c # p) =
     (if 48 \<le> code c \<and> code c \<le> 57 then
        digits_loop hex True (number * (if hex then 16 else 10) + of_nat (code c - 48)) p
      else if hex \<and> 65 \<le> code c \<and> code c \<le> 70 then
        digits_loop hex True (number * 16 + of_nat (10 + code c - 65)) p
      else if hex \<and> 97 \<le> code c \<and> code c \<le> 102 then
        digits_loop hex True (number * 16 + of_nat (10 + code c - 97)) p
      else (ok, number, c # p))"

definition SkipNumber :: "string \<Rightarrow> u32 \<Rightarrow> bool \<times> u32 \<times> string" where
  "SkipNumber p number =
     (if take 1 p = ''$'' then digits_loop True False number (drop 1 p)
      else if take 2 p = ''0x'' then digits_loop True False number (drop 2 p)
      else digits_loop False False number p)"

text \<open>\<open>GetToken\<close> appends to an empty string; the token and the rest.\<close>

definition GetToken :: "string \<Rightarrow> string \<times> string" where
  "GetToken p =
     (let token_char = (\<lambda>c. is_alnum c \<or> c = CHR ''.'')
      in (map to_upper (takeWhile token_char p), dropWhile token_char p))"

text \<open>
  \<open>TryMatch\<close> of the text \<open>p\<close> with a format: success, the rest, and the number, \<open>n\<close> if the format reads
  none.  White space of the format is skipped; \<open>in\<close> one past the end of the text is \<open>[]\<close> too, it is not used.
\<close>

fun TryMatch :: "string \<Rightarrow> string \<Rightarrow> u32 \<Rightarrow> bool \<times> string \<times> u32" where
  "TryMatch p [] n = (p \<noteq> [] \<and> is_space (hd p), p, n)"
| "TryMatch p (f # format) n =
     (if is_space f then TryMatch p format n
      else
        (let p = SkipWhitespace p in
         if f = CHR ''%'' then
           (case format of
              [] \<Rightarrow> (False, p, n)
            | x # format \<Rightarrow>
                if x \<noteq> CHR ''X'' then (False, p, n)
                else (case SkipNumber p 0 of
                        (ok, v, p) \<Rightarrow> if ok then TryMatch p format v else (False, p, n)))
         else
           (case p of
              [] \<Rightarrow> (False, [], n)
            | c # p \<Rightarrow> if to_upper c = to_upper f then TryMatch p format n else (False, p, n))))"

section \<open>The instructions by mnemonic\<close>

record asm_instruction =
  asm_opcode :: u8
  asm_bytes :: nat
  asm_format :: string

type_synonym instruction_list = "string \<rightharpoonup> asm_instruction list"

definition add_instruction :: "nat \<Rightarrow> nat \<Rightarrow> instruction_list \<Rightarrow> instruction_list" where
  "add_instruction i j groups =
     (case (op_at i (of_nat j) :: unit op option) of
        None \<Rightarrow> groups
      | Some op \<Rightarrow>
          (let instrs = (case groups (kMnemonic op) of None \<Rightarrow> [] | Some instrs \<Rightarrow> instrs)
           in groups(kMnemonic op \<mapsto>
                instrs @ [\<lparr>asm_opcode = of_nat j, asm_bytes = kBytes op, asm_format = kParamFormat op\<rparr>])))"

definition instructions_for_mode :: "nat \<Rightarrow> instruction_list" where
  "instructions_for_mode i = fold (add_instruction i) [0..<256] Map.empty"

section \<open>The assembler\<close>

record assembler =
  long_a :: bool
  long_xy :: bool
  asm_mode :: nat

definition WDC65816Assembler :: assembler where
  "WDC65816Assembler = \<lparr>long_a = False, long_xy = False, asm_mode = 4\<rparr>"

subsection \<open>Directives\<close>

definition native_mode :: "assembler \<Rightarrow> nat" where
  "native_mode a = (if long_a a then 1 else 0) + (if long_xy a then 2 else 0)"

definition update_mode :: "assembler \<Rightarrow> assembler" where
  "update_mode a = (if asm_mode a \<noteq> 4 \<and> asm_mode a \<noteq> 5 then a\<lparr>asm_mode := native_mode a\<rparr> else a)"

text \<open>The operand of \<open>.LONGI\<close> and \<open>.LONGA\<close>; the token after them is read without skipping white space.\<close>

definition on_or_off :: "string \<Rightarrow> string \<Rightarrow> string + bool \<times> string" where
  "on_or_off name p =
     (let (token, p) = GetToken p in
      if token = ''ON'' then Inr (True, p)
      else if token = ''OFF'' then Inr (False, p)
      else Inl (name @ '' directive expected ON or OFF not '' @ token))"

definition directive :: "string \<Rightarrow> string \<Rightarrow> assembler \<Rightarrow> string + string \<times> assembler" where
  "directive token p a =
     (if token = ''.LONGI'' then
        (case on_or_off token p of
           Inl e \<Rightarrow> Inl e
         | Inr (v, p) \<Rightarrow> Inr (p, update_mode (a\<lparr>long_xy := v\<rparr>)))
      else if token = ''.LONGA'' then
        (case on_or_off token p of
           Inl e \<Rightarrow> Inl e
         | Inr (v, p) \<Rightarrow> Inr (p, update_mode (a\<lparr>long_a := v\<rparr>)))
      else if token = ''.6502'' then Inr (p, a\<lparr>asm_mode := 4\<rparr>)
      else if token = ''.NES'' then Inr (p, a\<lparr>asm_mode := 5\<rparr>)
      else if token = ''.65816'' then Inr (p, a\<lparr>asm_mode := native_mode a\<rparr>)
      else Inr (p, a))"

subsection \<open>Instructions\<close>

definition too_large :: "asm_instruction \<Rightarrow> u32 \<Rightarrow> bool" where
  "too_large i arg \<longleftrightarrow> asm_bytes i > 1 \<and> arg \<ge> push_bit (8 * (asm_bytes i - 1)) 1"

fun best_candidate :: "string \<Rightarrow> asm_instruction option \<Rightarrow> asm_instruction list \<Rightarrow> asm_instruction option" where
  "best_candidate p best [] = best"
| "best_candidate p best (c # cs) =
     (let (_, _, arg) = TryMatch p (asm_format c) 0 in
      if too_large c arg then best_candidate p best cs
      else best_candidate p
             (case best of None \<Rightarrow> Some c | Some b \<Rightarrow> if asm_bytes b > asm_bytes c then Some c else Some b) cs)"

fun operand_bytes :: "nat \<Rightarrow> u32 \<Rightarrow> u8 list \<times> u32" where
  "operand_bytes 0 v = ([], v)"
| "operand_bytes (Suc n) v =
     (let (bs, rest) = operand_bytes n (drop_bit 8 v) in (ucast (v AND 0xFF) # bs, rest))"

text \<open>An instruction: an error, or the rest of the text; and the bytes.\<close>

definition assemble_instruction :: "string \<Rightarrow> string \<Rightarrow> u8 list \<Rightarrow> nat \<Rightarrow> (string + unit) \<times> string \<times> u8 list" where
  "assemble_instruction token p bytes i =
     (case instructions_for_mode i token of
        None \<Rightarrow> (Inl (''Unexpected token '' @ token), p, bytes)
      | Some instrs \<Rightarrow>
          (let candidates = filter (\<lambda>e. fst (TryMatch p (asm_format e) 0)) instrs in
           case best_candidate p None candidates of
             None \<Rightarrow> (Inl (''Unknown instruction format for '' @ token), p, bytes)
           | Some best \<Rightarrow>
               (let (_, p, v) = TryMatch p (asm_format best) 0;
                    (bs, v) = operand_bytes (asm_bytes best - 1) v;
                    bytes = bytes @ asm_opcode best # bs
                in if v > 0 then (Inl ''Constant too large'', p, bytes) else (Inr (), p, bytes))))"

subsection \<open>The loop\<close>

text \<open>
  \<open>Assemble\<close>: the error of \<open>return false\<close>, or the unit value; the rest of the text, the bytes, and the state.
  A character that begins no token is not skipped, so the loop may not end.
\<close>

partial_function (option) Assemble ::
  "string \<Rightarrow> u8 list \<Rightarrow> assembler \<Rightarrow> ((string + unit) \<times> string \<times> u8 list \<times> assembler) option" where
  "Assemble p bytes a =
     (if p = [] then Some (Inr (), p, bytes, a)
      else
        let p = SkipWhitespace p in
        if take 1 p = '';'' then Assemble (SkipToEndOfLine p) bytes a
        else
          case GetToken p of
            (token, p) \<Rightarrow>
              if take 1 token = ''.'' then
                (case directive token p a of
                   Inl e \<Rightarrow> Some (Inl e, snd (GetToken p), bytes, a)
                 | Inr (p, a) \<Rightarrow> Assemble p bytes a)
              else if token \<noteq> [] \<and> is_alpha (hd token) then
                (case assemble_instruction token p bytes (asm_mode a) of
                   (Inl e, p, bytes) \<Rightarrow> Some (Inl e, p, bytes, a)
                 | (Inr _, p, bytes) \<Rightarrow> Assemble p bytes a)
              else Assemble p bytes a)"

end
