(* ===== verification/Assembler_Laws.thy ===== *)
theory Assembler_Laws
  imports Assembler Cpu_Disasm
begin

text \<open>
  The laws of the assembler: which bytes a printed program becomes, directives that cannot succeed, and
  mnemonics that assemble to another instruction.
\<close>

section \<open>Numbers\<close>

definition hex_char :: "char \<Rightarrow> bool" where
  "hex_char c \<longleftrightarrow> is_digit c \<or> 65 \<le> code c \<and> code c \<le> 70 \<or> 97 \<le> code c \<and> code c \<le> 102"

lemma digits_loop_end: "p = [] \<or> \<not> hex_char (hd p) \<Longrightarrow> digits_loop hex ok n p = (ok, n, p)"
  by (cases p) (auto simp: hex_char_def is_digit_def)

lemma decimal_loop_end: "p = [] \<or> \<not> is_digit (hd p) \<Longrightarrow> digits_loop False ok n p = (ok, n, p)"
  by (cases p) (auto simp: is_digit_def)

lemma digits_loop_hex_digit:
  assumes "d < 16"
  shows "digits_loop True ok n (hex_digit d # p) = digits_loop True True (n * 16 + of_nat d) p"
proof -
  have "d = 0 \<or> d = 1 \<or> d = 2 \<or> d = 3 \<or> d = 4 \<or> d = 5 \<or> d = 6 \<or> d = 7 \<or> d = 8 \<or> d = 9 \<or> d = 10 \<or> d = 11 \<or>
      d = 12 \<or> d = 13 \<or> d = 14 \<or> d = 15"
    using assms by presburger
  then show ?thesis by (elim disjE) (simp_all add: hex_digit_def)
qed

declare digits_loop.simps [simp del]

lemma digits_loop_hex_str:
  "\<exists>k. digits_loop True ok n (hex_str m @ p) = digits_loop True True (n * 16 ^ k + of_nat m) p"
proof (induction m arbitrary: p ok n rule: hex_str.induct)
  case (1 m)
  show ?case
  proof (cases "m < 16")
    case True
    then show ?thesis
      by (subst hex_str.simps) (auto simp: digits_loop_hex_digit intro!: exI [of _ 1])
  next
    case False
    obtain k where "digits_loop True ok n (hex_str (m div 16) @ [hex_digit (m mod 16)] @ p) =
        digits_loop True True (n * 16 ^ k + of_nat (m div 16)) ([hex_digit (m mod 16)] @ p)"
      using "1.IH" [OF False] by blast
    moreover have "(of_nat m :: u32) = of_nat (m div 16) * 16 + of_nat (m mod 16)"
      by (metis div_mult_mod_eq of_nat_add of_nat_mult of_nat_numeral)
    ultimately show ?thesis
      using False by (subst hex_str.simps) (auto simp: digits_loop_hex_digit algebra_simps intro!: exI [of _ "Suc k"])
  qed
qed

lemma SkipNumber_hex:
  assumes "p = [] \<or> \<not> hex_char (hd p)"
  shows "SkipNumber (CHR ''$'' # hex_str m @ p) 0 = (True, of_nat m, p)"
proof -
  obtain k where "digits_loop True False 0 (hex_str m @ p) = digits_loop True True (0 * 16 ^ k + of_nat m) p"
    using digits_loop_hex_str by blast
  with assms show ?thesis by (simp add: SkipNumber_def digits_loop_end)
qed

lemma SkipNumber_none:
  assumes "p = [] \<or> hd p \<noteq> CHR ''$'' \<and> \<not> is_digit (hd p)"
  shows "SkipNumber p n = (False, n, p)"
proof (cases p)
  case (Cons c q)
  then have "c \<noteq> CHR ''$''" "\<not> is_digit c" using assms by simp_all
  moreover from this have "c \<noteq> CHR ''0''" by (auto simp: is_digit_def)
  ultimately show ?thesis
    by (simp add: Cons SkipNumber_def decimal_loop_end)
qed (simp add: SkipNumber_def decimal_loop_end)

section \<open>Formats\<close>

text \<open>The characters of the formats: letters and punctuation.\<close>

definition letter :: "char \<Rightarrow> bool" where
  "letter c \<longleftrightarrow> 65 \<le> code c \<and> code c \<le> 90"

abbreviation punctuation :: string where
  "punctuation \<equiv> ''(),[]#''"

fun format_ok :: "string \<Rightarrow> bool" where
  "format_ok [] = True"
| "format_ok (c # f) =
     (if c = CHR ''%'' then
        (case f of [] \<Rightarrow> False | x # g \<Rightarrow> x = CHR ''X'' \<and> (g = [] \<or> hd g \<in> set '',)]'') \<and> format_ok g)
      else if letter c then (f = [] \<or> hd f \<in> set '',)]'') \<and> format_ok f
      else c \<in> set punctuation \<and> format_ok f)"

text \<open>The operand of a format, with the number in hexadecimal.\<close>

fun operand_text :: "string \<Rightarrow> u32 \<Rightarrow> string" where
  "operand_text [] v = []"
| "operand_text (c # f) v =
     (if c = CHR ''%'' then (case f of [] \<Rightarrow> [] | x # g \<Rightarrow> CHR ''$'' # hex_str (unat v) @ operand_text g v)
      else c # operand_text f v)"

text \<open>What follows the operand: the end of the line, and nothing or two letters.\<close>

definition tail_ok :: "string \<Rightarrow> bool" where
  "tail_ok t \<longleftrightarrow> (\<exists>r. t = CHR 0x0A # r \<and> (r = [] \<or> (\<exists>c d s. r = c # d # s \<and> letter c \<and> letter d)))"

lemma char_classes:
  "letter c \<Longrightarrow> \<not> is_space c" "letter c \<Longrightarrow> to_upper c = c" "letter c \<Longrightarrow> \<not> is_digit c" "letter c \<Longrightarrow> is_alnum c"
  "letter c \<Longrightarrow> c \<notin> set punctuation" "letter c \<Longrightarrow> c \<noteq> CHR ''$''" "letter c \<Longrightarrow> c \<noteq> CHR ''%''" "letter c \<Longrightarrow> is_alpha c"
  "c \<in> set punctuation \<Longrightarrow> \<not> is_space c" "c \<in> set punctuation \<Longrightarrow> to_upper c = c" "c \<in> set punctuation \<Longrightarrow> \<not> hex_char c"
  "c \<in> set punctuation \<Longrightarrow> c \<noteq> CHR ''$''" "c \<in> set punctuation \<Longrightarrow> \<not> is_digit c" "c \<in> set punctuation \<Longrightarrow> c \<noteq> CHR ''%''"
  by (auto simp: letter_def is_space_def to_upper_def is_digit_def hex_char_def is_alnum_def is_alpha_def)

lemma follow_ok:
  assumes "f = [] \<or> hd f \<in> set '',)]''" and "format_ok f" and "tail_ok t"
  shows "operand_text f v @ t \<noteq> [] \<and> \<not> hex_char (hd (operand_text f v @ t)) \<and>
    \<not> is_alnum (hd (operand_text f v @ t))"
proof (cases f)
  case Nil
  with assms(3) show ?thesis by (auto simp: tail_ok_def hex_char_def is_digit_def is_alnum_def is_alpha_def)
next
  case (Cons c g)
  with assms(1) have "c = CHR '','' \<or> c = CHR '')'' \<or> c = CHR '']''" by auto
  with Cons show ?thesis by (auto simp: hex_char_def is_digit_def is_alnum_def is_alpha_def)
qed

text \<open>A format does not match what comes after the end of the line.\<close>

lemma TryMatch_tail:
  assumes "format_ok g" and "g \<noteq> []" and "tail_ok t"
  shows "\<not> fst (TryMatch t g n)"
proof -
  obtain r where t: "t = CHR 0x0A # r" "r = [] \<or> (\<exists>c d s. r = c # d # s \<and> letter c \<and> letter d)"
    using assms(3) by (auto simp: tail_ok_def)
  have "is_space (CHR 0x0A)" by (simp add: is_space_def)
  then have skip: "SkipWhitespace t = r"
    using t(2) char_classes(1) by (auto simp: SkipWhitespace_def t(1))
  obtain x g' where g: "g = x # g'" using assms(2) by (cases g) auto
  show ?thesis
  proof (cases "x = CHR ''%''")
    case True
    have "SkipNumber r 0 = (False, 0, r)"
      using t(2) char_classes by (intro SkipNumber_none) auto
    then show ?thesis using assms(1) True by (auto simp: g skip is_space_def split: list.splits)
  next
    case x: False
    then have x': "\<not> is_space x" "to_upper x = x" using assms(1) char_classes by (auto simp: g split: if_splits)
    show ?thesis
    proof (cases r)
      case (Cons c r')
      then obtain d s where r: "r' = d # s" "letter c" "letter d" using t(2) by auto
      have "to_upper c = c" "\<not> is_space d" using r char_classes by auto
      moreover have "\<not> fst (TryMatch (d # s) g' n)" if "letter x"
      proof (cases g')
        case (Cons y g'')
        then have "y \<in> set '',)]''" using assms(1) that x by (auto simp: g)
        then have "\<not> is_space y" "to_upper y = y" "y \<noteq> CHR ''%''" "y \<noteq> d"
          using r(3) char_classes by (auto simp: letter_def)
        then show ?thesis
          using r(3) by (simp add: Cons SkipWhitespace_def char_classes)
      qed (use r(3) in \<open>simp add: char_classes\<close>)
      moreover have "x \<noteq> c" if "\<not> letter x" using that r(2) by auto
      ultimately show ?thesis
        using x x' by (auto simp: g skip Cons r(1))
    qed (simp add: g skip x x')
  qed
qed

text \<open>A printed operand matches its own format only, and gives its number.\<close>

lemma literal:
  assumes "format_ok (c # f)" and "c \<noteq> CHR ''%''"
  shows "\<not> is_space c" "to_upper c = c" "\<not> is_digit c" "c \<noteq> CHR ''$''" "format_ok f"
  using assms char_classes by (auto split: if_splits)

lemma TryMatch_literal:
  assumes "format_ok (x # g)" and "x \<noteq> CHR ''%''" and "\<not> is_space c" and "to_upper c = c"
  shows "TryMatch (c # p) (x # g) n = (if c = x then TryMatch p g n else (False, p, n))"
  using literal [OF assms(1,2)] assms(2-4) by (simp add: SkipWhitespace_def)

lemma TryMatch_operand:
  assumes "format_ok f" and "format_ok g" and "tail_ok t"
  shows "(fst (TryMatch (operand_text f v @ t) g n) \<longleftrightarrow> g = f) \<and>
    TryMatch (operand_text f v @ t) f n = (True, t, if CHR ''%'' \<in> set f then v else n)"
  using assms(1,2)
proof (induction f arbitrary: g n rule: format_ok.induct)
  case 1
  obtain r where "t = CHR 0x0A # r" using assms(3) unfolding tail_ok_def by blast
  then have "TryMatch t [] n = (True, t, n)" by (simp add: is_space_def)
  then show ?case using TryMatch_tail [OF 1(2) _ assms(3)] by (cases "g = []") simp_all
next
  case (2 c f)
  have percent: "\<not> is_space (CHR ''%'')" "\<not> is_space (CHR ''$'')" "to_upper (CHR ''$'') = CHR ''$''"
    by (simp_all add: is_space_def to_upper_def)
  show ?case
  proof (cases "c = CHR ''%''")
    case True
    then obtain f2 where f: "f = CHR ''X'' # f2" "f2 = [] \<or> hd f2 \<in> set '',)]''" "format_ok f2"
      using "2.prems"(1) by (auto split: list.splits)
    define p where "p = operand_text f2 v @ t"
    have src: "operand_text (c # f) v @ t = CHR ''$'' # hex_str (unat v) @ p" by (simp add: True f(1) p_def)
    have num: "SkipNumber (CHR ''$'' # hex_str (unat v) @ p) 0 = (True, v, p)"
      using follow_ok [OF f(2,3) assms(3), of v] SkipNumber_hex [of p "unat v"] by (simp add: p_def)
    have step: "TryMatch (CHR ''$'' # hex_str (unat v) @ p) (CHR ''%'' # CHR ''X'' # g2) n = TryMatch p g2 v" for g2 n
      using num by (simp add: percent SkipWhitespace_def)
    note IH = "2.IH"(1) [OF True f(1), of _ v, folded p_def]
    have "fst (TryMatch (CHR ''$'' # hex_str (unat v) @ p) g n) \<longleftrightarrow> g = c # f"
    proof (cases g)
      case (Cons x g')
      show ?thesis
      proof (cases "x = CHR ''%''")
        case x: True
        then obtain g2 where "g' = CHR ''X'' # g2" "format_ok g2"
          using "2.prems"(2) by (auto simp: Cons split: list.splits)
        then show ?thesis using IH [of g2] f(1,3) by (simp add: Cons x True step del: TryMatch.simps)
      next
        case x: False
        then show ?thesis
          using literal [of x g'] "2.prems"(2) percent
          by (auto simp: Cons True TryMatch_literal simp del: TryMatch.simps format_ok.simps)
      qed
    qed (simp add: percent)
    moreover have "TryMatch (CHR ''$'' # hex_str (unat v) @ p) (c # f) n = (True, t, v)"
      using IH [of f2] f(3) by (simp add: True f(1) step del: TryMatch.simps)
    ultimately show ?thesis using True src by simp
  next
    case False
    note lit = literal [OF "2.prems"(1) False]
    have IH: "format_ok g' \<Longrightarrow> (fst (TryMatch (operand_text f v @ t) g' n) \<longleftrightarrow> g' = f) \<and>
        TryMatch (operand_text f v @ t) f n = (True, t, if CHR ''%'' \<in> set f then v else n)" for g'
      using "2.IH"(2,3) lit(5) False by blast
    have src: "operand_text (c # f) v @ t = c # operand_text f v @ t" using False by simp
    have "fst (TryMatch (c # operand_text f v @ t) g n) \<longleftrightarrow> g = c # f"
    proof (cases g)
      case (Cons x g')
      show ?thesis
      proof (cases "x = CHR ''%''")
        case x: True
        have "SkipNumber (c # operand_text f v @ t) 0 = (False, 0, c # operand_text f v @ t)"
          using lit by (intro SkipNumber_none) simp
        then show ?thesis
          using x False lit(1) percent(1) by (auto simp: Cons SkipWhitespace_def Let_def split: list.splits)
      next
        case x: False
        then have "format_ok g'" using literal(5) "2.prems"(2) Cons by blast
        with x lit IH [of g'] "2.prems"(2) show ?thesis
          by (simp add: Cons TryMatch_literal del: TryMatch.simps format_ok.simps)
      qed
    qed (simp add: lit)
    moreover have "TryMatch (c # operand_text f v @ t) (c # f) n = TryMatch (operand_text f v @ t) f n"
      using TryMatch_literal [OF "2.prems"(1) False lit(1,2)] by simp
    ultimately show ?thesis using IH [OF lit(5)] src False by auto
  qed
qed

text \<open>With the blank before it, the empty format matches too.\<close>

lemma TryMatch_line:
  assumes "format_ok f" and "format_ok g" and "tail_ok t"
  shows "fst (TryMatch (CHR '' '' # operand_text f v @ t) g 0) \<longleftrightarrow> g = f \<or> g = []"
    and "f \<noteq> [] \<Longrightarrow> TryMatch (CHR '' '' # operand_text f v @ t) f 0 = (True, t, if CHR ''%'' \<in> set f then v else 0)"
proof -
  have sp: "is_space (CHR '' '')" by (simp add: is_space_def)
  have step: "TryMatch (CHR '' '' # p) h n = TryMatch p h n" if "h \<noteq> []" "format_ok h" for p h n
  proof -
    obtain x h' where h: "h = x # h'" using \<open>h \<noteq> []\<close> by (cases h) auto
    have "\<not> is_space x"
      using literal [of x h'] that(2) by (cases "x = CHR ''%''") (auto simp: h is_space_def simp del: format_ok.simps)
    then show ?thesis by (simp add: h SkipWhitespace_def sp)
  qed
  show "fst (TryMatch (CHR '' '' # operand_text f v @ t) g 0) \<longleftrightarrow> g = f \<or> g = []"
    using TryMatch_operand [OF assms, of v 0] step [OF _ assms(2)] sp by (cases "g = []") simp_all
  show "TryMatch (CHR '' '' # operand_text f v @ t) f 0 = (True, t, if CHR ''%'' \<in> set f then v else 0)" if "f \<noteq> []"
    using TryMatch_operand [OF assms(1,1,3), of v 0] step [OF that assms(1)] by simp
qed

section \<open>Tables\<close>

text \<open>What holds of every entry of the tables: two letters at least, and a known format.\<close>

definition mnemonic_ok :: "string \<Rightarrow> bool" where
  "mnemonic_ok mn \<longleftrightarrow> 2 \<le> length mn \<and> list_all letter mn"

definition operand_ok :: "string \<Rightarrow> nat \<Rightarrow> bool" where
  "operand_ok f n \<longleftrightarrow> format_ok f \<and> 1 \<le> n \<and> n \<le> 4 \<and> (CHR ''%'' \<in> set f \<longrightarrow> 1 < n)"

definition asm_ok :: "'d op \<Rightarrow> bool" where
  "asm_ok op \<longleftrightarrow> mnemonic_ok (kMnemonic op) \<and> operand_ok (kParamFormat op) (kBytes op)"

lemma letters:
  "letter (CHR ''A'')" "letter (CHR ''B'')" "letter (CHR ''C'')" "letter (CHR ''D'')" "letter (CHR ''E'')" "letter (CHR ''F'')"
  "letter (CHR ''G'')" "letter (CHR ''H'')" "letter (CHR ''I'')" "letter (CHR ''J'')" "letter (CHR ''K'')" "letter (CHR ''L'')"
  "letter (CHR ''M'')" "letter (CHR ''N'')" "letter (CHR ''O'')" "letter (CHR ''P'')" "letter (CHR ''Q'')" "letter (CHR ''R'')"
  "letter (CHR ''S'')" "letter (CHR ''T'')" "letter (CHR ''U'')" "letter (CHR ''V'')" "letter (CHR ''W'')" "letter (CHR ''X'')"
  "letter (CHR ''Y'')" "letter (CHR ''Z'')"
  by (simp_all add: letter_def)

lemma formats:
  "operand_ok [] n \<longleftrightarrow> 1 \<le> n \<and> n \<le> 4" "operand_ok ''A'' n \<longleftrightarrow> 1 \<le> n \<and> n \<le> 4"
  "operand_ok ''#%X'' n \<longleftrightarrow> 1 < n \<and> n \<le> 4"
  "operand_ok ''%X'' n \<longleftrightarrow> 1 < n \<and> n \<le> 4"
  "operand_ok ''%X,X'' n \<longleftrightarrow> 1 < n \<and> n \<le> 4"
  "operand_ok ''%X,Y'' n \<longleftrightarrow> 1 < n \<and> n \<le> 4"
  "operand_ok ''%X,S'' n \<longleftrightarrow> 1 < n \<and> n \<le> 4"
  "operand_ok ''(%X)'' n \<longleftrightarrow> 1 < n \<and> n \<le> 4"
  "operand_ok ''(%X),Y'' n \<longleftrightarrow> 1 < n \<and> n \<le> 4"
  "operand_ok ''(%X,X)'' n \<longleftrightarrow> 1 < n \<and> n \<le> 4"
  "operand_ok ''(%X,S),Y'' n \<longleftrightarrow> 1 < n \<and> n \<le> 4"
  "operand_ok ''[%X]'' n \<longleftrightarrow> 1 < n \<and> n \<le> 4"
  "operand_ok ''[%X],Y'' n \<longleftrightarrow> 1 < n \<and> n \<le> 4"
  "operand_ok ''%X,%X'' n \<longleftrightarrow> 1 < n \<and> n \<le> 4"
  by (auto simp: operand_ok_def letter_def)

lemma mnemonics: "mnemonic_ok [c, d] \<longleftrightarrow> letter c \<and> letter d" "mnemonic_ok [c, d, e] \<longleftrightarrow> letter c \<and> letter d \<and> letter e"
  by (simp_all add: mnemonic_ok_def)

lemmas asm_ok_simps = asm_ok_def letters formats mnemonics op_defs implied_op_defs jump_op_defs operand_op_defs mode_defs Let_def

lemma native_asm_ok: "list_all asm_ok (ops_native A XY)"
  using sizeof_bounds [of A] sizeof_bounds [of XY] by (simp add: ops_native_def asm_ok_simps)

lemma emulation_asm_ok: "list_all asm_ok ops_emulation"
  by (simp add: ops_emulation_def asm_ok_simps)

lemma nes_asm_ok: "list_all (pred_option asm_ok) ops_6502"
  by (simp add: ops_6502_def asm_ok_simps)

lemma exec_ops_asm_ok: "list_all (list_all (pred_option asm_ok)) (exec_ops :: 'd op option list list)"
  by (simp add: exec_ops_def list.pred_map o_def native_asm_ok emulation_asm_ok nes_asm_ok)

lemma op_at_asm_ok: "op_at mode opc = Some op \<Longrightarrow> asm_ok op"
  by (rule op_at_all [OF _ exec_ops_asm_ok])

text \<open>The instructions of a mode in the order of their opcodes, with their mnemonics.\<close>

definition asm_entry :: "nat \<Rightarrow> unit op \<Rightarrow> string \<times> asm_instruction" where
  "asm_entry j op = (kMnemonic op, \<lparr>asm_opcode = of_nat j, asm_bytes = kBytes op, asm_format = kParamFormat op\<rparr>)"

definition asm_table :: "nat \<Rightarrow> nat \<Rightarrow> (string \<times> asm_instruction) list" where
  "asm_table i n = List.map_filter (\<lambda>j. map_option (asm_entry j) (op_at i (of_nat j))) [0..<n]"

definition with_mnemonic :: "string \<Rightarrow> (string \<times> asm_instruction) list \<Rightarrow> asm_instruction list" where
  "with_mnemonic mn es = map snd (filter (\<lambda>e. fst e = mn) es)"

lemma asm_table_Suc:
  "asm_table i (Suc n) = asm_table i n @ (case op_at i (of_nat n) of None \<Rightarrow> [] | Some op \<Rightarrow> [asm_entry n op])"
  by (simp add: asm_table_def map_filter_def split: option.split)

lemma fold_add_instruction:
  "fold (add_instruction i) [0..<n] Map.empty mn =
     (let is = with_mnemonic mn (asm_table i n) in if is = [] then None else Some is)"
proof (induction n arbitrary: mn)
  case 0
  then show ?case by (simp add: asm_table_def map_filter_def with_mnemonic_def)
next
  case (Suc n)
  show ?case
    using Suc.IH by (cases "op_at i (of_nat n) :: unit op option")
      (auto simp: add_instruction_def asm_table_Suc with_mnemonic_def asm_entry_def Let_def split: if_splits)
qed

lemma instructions_for_mode_eq:
  "instructions_for_mode i mn = (let is = with_mnemonic mn (asm_table i 256) in if is = [] then None else Some is)"
  by (simp only: instructions_for_mode_def fold_add_instruction)

section \<open>The choice of the instruction\<close>

lemma best_candidate_append:
  "best_candidate p b (xs @ ys) = best_candidate p (best_candidate p b xs) ys"
  by (induction xs arbitrary: b) (simp_all split: prod.split)

lemma best_candidate_keeps:
  assumes "\<And>d. d \<in> set ds \<Longrightarrow> \<not> too_large d (snd (snd (TryMatch p (asm_format d) 0))) \<Longrightarrow> asm_bytes c \<le> asm_bytes d"
  shows "best_candidate p (Some c) ds = Some c"
  using assms by (induction ds) (force split: prod.split)+

lemma best_candidate_bigger:
  assumes "\<And>d. d \<in> set ds \<Longrightarrow> \<not> too_large d (snd (snd (TryMatch p (asm_format d) 0))) \<Longrightarrow> n < asm_bytes d"
    and "\<And>d. b = Some d \<Longrightarrow> n < asm_bytes d"
  shows "\<forall>d. best_candidate p b ds = Some d \<longrightarrow> n < asm_bytes d"
  using assms
proof (induction ds arbitrary: b)
  case (Cons a ds)
  define b' where "b' = (if too_large a (snd (snd (TryMatch p (asm_format a) 0))) then b
    else case b of None \<Rightarrow> Some a | Some e \<Rightarrow> if asm_bytes e > asm_bytes a then Some a else Some e)"
  have "n < asm_bytes d" if "b' = Some d" for d
    using that Cons.prems(1) [of a] Cons.prems(2) by (auto simp: b'_def split: if_splits option.splits)
  then have "\<forall>d. best_candidate p b' ds = Some d \<longrightarrow> n < asm_bytes d"
    using Cons.prems(1) by (intro Cons.IH) auto
  then show ?case by (auto simp: b'_def split_beta Let_def split: if_split_asm)
qed simp

lemma best_candidate_first:
  assumes "\<not> too_large c (snd (snd (TryMatch p (asm_format c) 0)))"
    and "\<And>d. d \<in> set xs \<Longrightarrow> \<not> too_large d (snd (snd (TryMatch p (asm_format d) 0))) \<Longrightarrow> asm_bytes c < asm_bytes d"
    and "\<And>d. d \<in> set ys \<Longrightarrow> \<not> too_large d (snd (snd (TryMatch p (asm_format d) 0))) \<Longrightarrow> asm_bytes c \<le> asm_bytes d"
  shows "best_candidate p None (xs @ c # ys) = Some c"
proof -
  have "\<forall>d. best_candidate p None xs = Some d \<longrightarrow> asm_bytes c < asm_bytes d"
    using assms(2) by (intro best_candidate_bigger) auto
  then have "best_candidate p (best_candidate p None xs) (c # ys) = best_candidate p (Some c) ys"
    using assms(1) by (auto simp: split_beta Let_def split: option.split)
  with best_candidate_keeps [OF assms(3)] show ?thesis by (simp add: best_candidate_append)
qed

lemma operand_bytes_eq: "operand_bytes n v = (map (\<lambda>i. ucast (drop_bit (8 * i) v)) [0..<n], drop_bit (8 * n) v)"
proof (induction n arbitrary: v)
  case (Suc n)
  have "(ucast (v AND 0xFF) :: u8) = ucast v" by (rule bit_word_eqI) (auto simp: bit_simps less_Suc_eq numeral_eq_Suc)
  then show ?case
    using Suc.IH [of "drop_bit 8 v"] by (simp add: map_upt_Suc add.commute del: upt_Suc)
qed simp

section \<open>Printed programs\<close>

definition asm_arg :: "unit op \<Rightarrow> u32 \<Rightarrow> u32" where
  "asm_arg op v = (if CHR ''%'' \<in> set (kParamFormat op) then v else 0)"

text \<open>An instruction as a line of source text, and as bytes.\<close>

definition asm_line :: "unit op \<Rightarrow> u32 \<Rightarrow> string" where
  "asm_line op v = kMnemonic op @ CHR '' '' # operand_text (kParamFormat op) v @ [CHR 0x0A]"

definition asm_code :: "nat \<Rightarrow> unit op \<Rightarrow> u32 \<Rightarrow> u8 list" where
  "asm_code j op v = of_nat j # map (\<lambda>i. ucast (drop_bit (8 * i) (asm_arg op v))) [0..<kBytes op - 1]"

definition arg_fits :: "nat \<Rightarrow> u32 \<Rightarrow> bool" where
  "arg_fits n v \<longleftrightarrow> (1 < n \<longrightarrow> v < push_bit (8 * (n - 1)) 1)"

text \<open>
  The line of an instruction stands for another one too, if that has the same mnemonic, can take the operand and has the
  same format or none.  An instruction comes first, if it is the shortest of these, and of several the first.
\<close>

definition stands_for :: "unit op \<Rightarrow> u32 \<Rightarrow> unit op \<Rightarrow> bool" where
  "stands_for op v op' \<longleftrightarrow> kMnemonic op' = kMnemonic op \<and> kParamFormat op' \<in> {kParamFormat op, []} \<and>
     arg_fits (kBytes op') (asm_arg op' v)"

definition comes_first :: "nat \<Rightarrow> nat \<Rightarrow> unit op \<Rightarrow> u32 \<Rightarrow> bool" where
  "comes_first i j op v \<longleftrightarrow> list_all (\<lambda>k. case op_at i (of_nat k) of
     None \<Rightarrow> True
   | Some op' \<Rightarrow> (stands_for op v op' \<longrightarrow> kBytes op < kBytes op' \<or> kBytes op = kBytes op' \<and> j \<le> k)) [0..<256]"

definition assemblable :: "nat \<Rightarrow> nat \<times> u32 \<Rightarrow> bool" where
  "assemblable i = (\<lambda>(j, v). j < 256 \<and> (case op_at i (of_nat j) of
     None \<Rightarrow> False
   | Some op \<Rightarrow> arg_fits (kBytes op) (asm_arg op v) \<and> comes_first i j op v))"

definition asm_source :: "nat \<Rightarrow> (nat \<times> u32) list \<Rightarrow> string" where
  "asm_source i prog = concat (map (\<lambda>(j, v). asm_line (the (op_at i (of_nat j))) v) prog)"

definition asm_object :: "nat \<Rightarrow> (nat \<times> u32) list \<Rightarrow> u8 list" where
  "asm_object i prog = concat (map (\<lambda>(j, v). asm_code j (the (op_at i (of_nat j))) v) prog)"

text \<open>Tokens, and white space between lines.\<close>

lemma GetToken_mnemonic:
  assumes "list_all letter mn"
  shows "GetToken (mn @ CHR '' '' # p) = (mn, CHR '' '' # p)"
proof -
  have "\<not> is_alnum (CHR '' '')" by (simp add: is_alnum_def is_alpha_def is_digit_def)
  moreover have "map to_upper mn = mn" using assms char_classes(2) by (simp add: list_all_iff map_idI)
  ultimately show ?thesis
    using assms char_classes(4) by (simp add: GetToken_def Let_def list_all_iff takeWhile_append dropWhile_append)
qed

lemma Assemble_white:
  assumes "list_all is_space w" and "r = [] \<or> letter (hd r)"
  shows "Assemble (w @ r) bytes a = Assemble r bytes a"
proof (cases "w @ r = []")
  case False
  have 1: "SkipWhitespace (w @ r) = r" "SkipWhitespace r = r"
    using assms char_classes(1) by (cases r; simp add: SkipWhitespace_def list_all_iff dropWhile_append)+
  show ?thesis
  proof (cases r)
    case Nil
    then have "w \<noteq> []" using False by simp
    then show ?thesis
      using 1(1) by (subst Assemble.simps) (simp add: Nil GetToken_def)
  next
    case (Cons c q)
    then show ?thesis using 1 False by (subst (1 2) Assemble.simps) simp
  qed
qed simp

text \<open>The instructions of one mnemonic, around one of them.\<close>

definition pick :: "nat \<Rightarrow> string \<Rightarrow> nat \<Rightarrow> asm_instruction list" where
  "pick i mn k = (case op_at i (of_nat k) of
     None \<Rightarrow> []
   | Some op \<Rightarrow> if kMnemonic op = mn then [snd (asm_entry k op)] else [])"

lemma with_mnemonic_picks: "with_mnemonic mn (asm_table i n) = concat (map (pick i mn) [0..<n])"
proof (induction n)
  case 0
  then show ?case by (simp add: asm_table_def map_filter_def with_mnemonic_def)
next
  case (Suc n)
  then show ?case
    by (auto simp: asm_table_Suc with_mnemonic_def pick_def asm_entry_def split: option.split)
qed

lemma group_split:
  assumes "op_at i (of_nat j) = Some op" and "j < 256"
  shows "with_mnemonic (kMnemonic op) (asm_table i 256) =
    concat (map (pick i (kMnemonic op)) [0..<j]) @ snd (asm_entry j op) # concat (map (pick i (kMnemonic op)) [Suc j..<256])"
proof -
  have "[0..<256] = [0..<j] @ j # [Suc j..<256]"
    using assms(2) upt_add_eq_append [of 0 j "256 - j"] by (simp add: upt_conv_Cons)
  moreover have "pick i (kMnemonic op) j = [snd (asm_entry j op)]" using assms(1) by (simp add: pick_def)
  ultimately show ?thesis by (simp add: with_mnemonic_picks)
qed

lemma pick_elem:
  "e \<in> set (pick i mn k) \<longleftrightarrow> (\<exists>op. op_at i (of_nat k) = Some op \<and> kMnemonic op = mn \<and> e = snd (asm_entry k op))"
  by (cases "op_at i (of_nat k) :: unit op option") (auto simp: pick_def)

lemma asm_entry_fields:
  "asm_format (snd (asm_entry k op)) = kParamFormat op" "asm_bytes (snd (asm_entry k op)) = kBytes op"
  "asm_opcode (snd (asm_entry k op)) = of_nat k" "too_large (snd (asm_entry k op)) x \<longleftrightarrow> \<not> arg_fits (kBytes op) x"
  by (auto simp: asm_entry_def too_large_def arg_fits_def not_le)

text \<open>The candidates of a line are the instructions it stands for; the code takes the one that comes first.\<close>

definition operand_part :: "unit op \<Rightarrow> u32 \<Rightarrow> string \<Rightarrow> string" where
  "operand_part op v t = CHR '' '' # operand_text (kParamFormat op) v @ t"

lemma operand_match:
  assumes "format_ok (kParamFormat op)" and "tail_ok t"
  shows "format_ok g \<Longrightarrow> fst (TryMatch (operand_part op v t) g 0) \<longleftrightarrow> g = kParamFormat op \<or> g = []"
    and "kParamFormat op' \<in> {kParamFormat op, []} \<Longrightarrow>
      snd (snd (TryMatch (operand_part op v t) (kParamFormat op') 0)) = asm_arg op' v"
  using TryMatch_line(1) [OF assms(1) _ assms(2)] TryMatch_line(2) [OF assms(1) assms(1,2), of v]
  by (cases "kParamFormat op' = []"; simp add: operand_part_def asm_arg_def)+

lemma candidate_stands:
  assumes "format_ok (kParamFormat op)" and "tail_ok t" and "p = operand_part op v t"
    and "e \<in> set (filter (\<lambda>e. fst (TryMatch p (asm_format e) 0)) (concat (map (pick i (kMnemonic op)) ks)))"
    and "\<not> too_large e (snd (snd (TryMatch p (asm_format e) 0)))"
  shows "\<exists>k \<in> set ks. \<exists>op'. kBytes op' = asm_bytes e \<and> op_at i (of_nat k) = Some op' \<and> stands_for op v op'"
proof -
  obtain k op' where k: "k \<in> set ks" "op_at i (of_nat k) = Some op'" "kMnemonic op' = kMnemonic op" "e = snd (asm_entry k op')"
    using assms(4) by (auto simp: pick_elem)
  have "format_ok (kParamFormat op')" using op_at_asm_ok [OF k(2)] by (simp add: asm_ok_def operand_ok_def)
  then have f: "kParamFormat op' \<in> {kParamFormat op, []}"
    using assms(4) operand_match(1) [OF assms(1,2)] by (simp add: k(4) asm_entry_fields assms(3))
  then have "arg_fits (kBytes op') (asm_arg op' v)"
    using assms(5) operand_match(2) [OF assms(1,2) f] by (simp add: k(4) asm_entry_fields assms(3))
  with f k show ?thesis
    by (intro bexI [of _ k] exI [of _ op']) (simp_all add: asm_entry_fields stands_for_def)
qed

lemma best_of_line:
  assumes op: "op_at i (of_nat j) = Some op" and ok: "assemblable i (j, v)" and t: "tail_ok t" and p: "p = operand_part op v t"
  shows "best_candidate p None (filter (\<lambda>e. fst (TryMatch p (asm_format e) 0)) (with_mnemonic (kMnemonic op) (asm_table i 256))) =
    Some (snd (asm_entry j op))"
proof -
  let ?P = "\<lambda>e. fst (TryMatch p (asm_format e) 0)" and ?c = "snd (asm_entry j op)"
  let ?part = "\<lambda>ks. concat (map (pick i (kMnemonic op)) ks)"
  have fit: "j < 256" "arg_fits (kBytes op) (asm_arg op v)" "comes_first i j op v"
    using ok op by (simp_all add: assemblable_def)
  have f: "format_ok (kParamFormat op)" using op_at_asm_ok [OF op] by (simp add: asm_ok_def operand_ok_def)
  have first: "kBytes op < kBytes op' \<or> kBytes op = kBytes op' \<and> j \<le> k"
    if "k < 256" "op_at i (of_nat k) = Some op'" "stands_for op v op'" for k op'
    using bspec [OF fit(3) [unfolded comes_first_def list_all_iff], of k] that by simp
  have "best_candidate p None (filter ?P (?part [0..<j]) @ ?c # filter ?P (?part [Suc j..<256])) = Some ?c"
  proof (rule best_candidate_first)
    show "\<not> too_large ?c (snd (snd (TryMatch p (asm_format ?c) 0)))"
      using fit(2) operand_match(2) [OF f t, of op v] by (simp add: asm_entry_fields p)
    fix e
    assume "\<not> too_large e (snd (snd (TryMatch p (asm_format e) 0)))"
    note cand = candidate_stands [OF f t p _ this]
    show "asm_bytes ?c < asm_bytes e" if e: "e \<in> set (filter ?P (?part [0..<j]))"
    proof -
      obtain k op' where "k < j" "kBytes op' = asm_bytes e" "op_at i (of_nat k) = Some op'" "stands_for op v op'"
        using cand [OF e] by auto
      with first [of k op'] fit(1) show ?thesis by (simp add: asm_entry_fields)
    qed
    show "asm_bytes ?c \<le> asm_bytes e" if e: "e \<in> set (filter ?P (?part [Suc j..<256]))"
    proof -
      obtain k op' where "k < 256" "kBytes op' = asm_bytes e" "op_at i (of_nat k) = Some op'" "stands_for op v op'"
        using cand [OF e] by auto
      with first [of k op'] show ?thesis by (auto simp: asm_entry_fields)
    qed
  qed
  moreover have "?P ?c" using operand_match(1) [OF f t f] by (simp add: asm_entry_fields p)
  ultimately show ?thesis by (simp add: group_split [OF op fit(1)])
qed

lemma arg_fits_drop:
  assumes "operand_ok (kParamFormat op) (kBytes op)" and "arg_fits (kBytes op) (asm_arg op v)"
  shows "drop_bit (8 * (kBytes op - 1)) (asm_arg op v) = 0"
proof (cases "1 < kBytes op")
  case True
  have "kBytes op = 2 \<or> kBytes op = 3 \<or> kBytes op = 4" using True assms(1) by (auto simp: operand_ok_def)
  then show ?thesis
    using assms(2) by (elim disjE) (simp_all add: arg_fits_def word_unat_eq_iff unat_drop_bit_div word_less_nat_alt push_bit_eq_mult)
qed (use assms(1) in \<open>simp add: operand_ok_def asm_arg_def\<close>)

text \<open>The text after the operand that the code used up.\<close>

lemma operand_rest:
  assumes "format_ok (kParamFormat op)" and "tail_ok (CHR 0x0A # rest)"
  shows "\<exists>w. TryMatch (operand_part op v (CHR 0x0A # rest)) (kParamFormat op) 0 = (True, w @ rest, asm_arg op v) \<and> list_all is_space w"
proof (cases "kParamFormat op = []")
  case True
  then show ?thesis by (auto simp: operand_part_def asm_arg_def is_space_def intro!: exI [of _ "[CHR '' '', CHR 0x0A]"])
next
  case False
  then show ?thesis
    using TryMatch_line(2) [OF assms(1,1,2) False, of v]
    by (auto simp: operand_part_def asm_arg_def is_space_def intro!: exI [of _ "[CHR 0x0A]"])
qed

lemma assemble_line:
  assumes op: "op_at i (of_nat j) = Some op" and ok: "assemblable i (j, v)"
    and rest: "rest = [] \<or> (\<exists>c d s. rest = c # d # s \<and> letter c \<and> letter d)"
    and mode: "asm_mode a = i"
  shows "Assemble (asm_line op v @ rest) bytes a = Assemble rest (bytes @ asm_code j op v) a"
proof -
  let ?mn = "kMnemonic op" and ?p = "operand_part op v (CHR 0x0A # rest)"
  have fit: "j < 256" "arg_fits (kBytes op) (asm_arg op v)" using ok op by (simp_all add: assemblable_def)
  have aok: "mnemonic_ok ?mn" "operand_ok (kParamFormat op) (kBytes op)"
    using op_at_asm_ok [OF op] by (simp_all add: asm_ok_def)
  then have f: "format_ok (kParamFormat op)" by (simp add: operand_ok_def)
  obtain c mn' where mn: "?mn = c # mn'" "letter c" "list_all letter ?mn"
    using aok(1) by (cases ?mn) (auto simp: mnemonic_ok_def)
  have t: "tail_ok (CHR 0x0A # rest)" using rest by (simp add: tail_ok_def)
  obtain w where w: "TryMatch ?p (kParamFormat op) 0 = (True, w @ rest, asm_arg op v)" "list_all is_space w"
    using operand_rest [OF f t] by blast
  have group: "instructions_for_mode i ?mn = Some (with_mnemonic ?mn (asm_table i 256))"
    by (simp add: instructions_for_mode_eq group_split [OF op fit(1)])
  have ins: "assemble_instruction ?mn ?p bytes i = (Inr (), w @ rest, bytes @ asm_code j op v)"
    using best_of_line [OF op ok t refl] arg_fits_drop [OF aok(2) fit(2)]
    by (simp add: assemble_instruction_def group asm_entry_fields w(1) operand_bytes_eq asm_code_def Let_def)
  have line: "asm_line op v @ rest = ?mn @ ?p" by (simp add: asm_line_def operand_part_def)
  have tok: "GetToken (?mn @ ?p) = (?mn, ?p)" using GetToken_mnemonic [OF mn(3)] by (simp add: operand_part_def)
  have "SkipWhitespace (?mn @ ?p) = ?mn @ ?p" using mn(1,2) char_classes(1) by (simp add: SkipWhitespace_def)
  moreover have "take 1 (?mn @ ?p) \<noteq> '';''" "take 1 ?mn \<noteq> ''.''" "?mn \<noteq> []" "is_alpha (hd ?mn)"
    using mn(1,2) char_classes(8) by (auto simp: letter_def)
  ultimately have "Assemble (?mn @ ?p) bytes a = Assemble (w @ rest) (bytes @ asm_code j op v) a"
    using ins tok mode by (subst Assemble.simps) simp
  also have "\<dots> = Assemble rest (bytes @ asm_code j op v) a"
    using w(2) rest by (intro Assemble_white) auto
  finally show ?thesis by (simp add: line)
qed

lemma asm_source_start:
  assumes "list_all (assemblable i) prog"
  shows "asm_source i prog = [] \<or> (\<exists>c d s. asm_source i prog = c # d # s \<and> letter c \<and> letter d)"
proof (cases prog)
  case (Cons q ps)
  obtain j v where q: "q = (j, v)" by (cases q)
  obtain op :: "unit op" where op: "op_at i (of_nat j) = Some op"
    using assms by (auto simp: Cons q assemblable_def split: option.splits)
  obtain c d mn where "kMnemonic op = c # d # mn" "letter c" "letter d"
    using op_at_asm_ok [OF op] by (cases "kMnemonic op" rule: remdups_adj.cases) (auto simp: asm_ok_def mnemonic_ok_def)
  then show ?thesis by (simp add: asm_source_def Cons q op asm_line_def)
qed (simp add: asm_source_def)

text \<open>
  C13: the assembler of printed programs.  The lines of any instructions, each the first of those its line stands
  for, assemble without error to their opcodes, each with its operand in little-endian order.
\<close>

theorem assemble_printed:
  assumes "list_all (assemblable i) prog" and "asm_mode a = i"
  shows "Assemble (asm_source i prog) bytes a = Some (Inr (), [], bytes @ asm_object i prog, a)"
  using assms(1)
proof (induction prog arbitrary: bytes)
  case Nil
  show ?case by (subst Assemble.simps) (simp add: asm_source_def asm_object_def)
next
  case (Cons q prog)
  obtain j v where q: "q = (j, v)" by (cases q)
  have ok: "assemblable i (j, v)" "list_all (assemblable i) prog" using Cons.prems by (simp_all add: q)
  obtain op :: "unit op" where op: "op_at i (of_nat j) = Some op"
    using ok(1) by (auto simp: assemblable_def split: option.splits)
  have "Assemble (asm_line op v @ asm_source i prog) bytes a = Assemble (asm_source i prog) (bytes @ asm_code j op v) a"
    by (rule assemble_line [OF op ok(1) asm_source_start [OF ok(2)] assms(2)])
  with Cons.IH [OF ok(2)] show ?case by (simp add: asm_source_def asm_object_def q op)
qed

section \<open>What cannot be assembled\<close>

text \<open>After the name of \<open>.LONGA\<close> or \<open>.LONGI\<close> no token can follow, so they always fail.\<close>

lemma GetToken_rest:
  assumes "GetToken p = (token, q)"
  shows "GetToken q = ([], q)"
proof -
  let ?P = "\<lambda>c. is_alnum c \<or> c = CHR ''.''"
  have "q = dropWhile ?P p" using assms by (simp add: GetToken_def Let_def)
  then have "q = [] \<or> \<not> ?P (hd q)" using hd_dropWhile [of ?P p] by blast
  then show ?thesis by (cases q) (auto simp: GetToken_def)
qed

definition wide_directive :: "string \<Rightarrow> bool" where
  "wide_directive token \<longleftrightarrow> token = ''.LONGI'' \<or> token = ''.LONGA''"

lemma wide_directive_fails:
  assumes "GetToken p = (token, q)" and "wide_directive token"
  shows "\<exists>e. directive token q a = Inl e"
  using assms(2) GetToken_rest [OF assms(1)] by (auto simp: wide_directive_def directive_def on_or_off_def)

lemma directive_stays_narrow:
  assumes "GetToken p = (token, q)" and "directive token q a = Inr (p', a')"
    and "\<not> long_a a \<and> \<not> long_xy a \<and> asm_mode a \<in> {0, 4, 5}"
  shows "\<not> long_a a' \<and> \<not> long_xy a' \<and> asm_mode a' \<in> {0, 4, 5}"
  using assms wide_directive_fails [OF assms(1), of a]
  by (auto simp: wide_directive_def directive_def native_mode_def split: if_splits)


text \<open>A character that begins no token is never passed: the call does not return.\<close>

definition stuck :: "string \<Rightarrow> bool" where
  "stuck p \<longleftrightarrow> p \<noteq> [] \<and> \<not> is_space (hd p) \<and> \<not> is_alnum (hd p) \<and> hd p \<noteq> CHR ''.'' \<and> hd p \<noteq> CHR '';''"

lemma Assemble_stuck:
  assumes "stuck p"
  shows "Assemble p bytes a = None"
proof (rule ccontr)
  assume "Assemble p bytes a \<noteq> None"
  then obtain y where y: "Assemble p bytes a = Some y" by blast
  have "\<not> stuck p"
  proof (rule Assemble.raw_induct [where P = "\<lambda>p bytes a y. \<not> stuck p", OF _ y], rule notI)
    fix loop :: "string \<Rightarrow> u8 list \<Rightarrow> assembler \<Rightarrow> ((string + unit) \<times> string \<times> u8 list \<times> assembler) option"
      and p bytes a y
    assume IH: "\<And>p bytes a y. loop p bytes a = Some y \<Longrightarrow> \<not> stuck p" and st: "stuck p"
    from st have "SkipWhitespace p = p" "GetToken p = ([], p)" "take 1 p \<noteq> '';''"
      by (cases p; simp add: stuck_def SkipWhitespace_def GetToken_def)+
    moreover assume "(if p = [] then Some (Inr (), p, bytes, a)
      else
        let p = SkipWhitespace p in
        if take 1 p = '';'' then loop (SkipToEndOfLine p) bytes a
        else
          case GetToken p of
            (token, p) \<Rightarrow>
              if take 1 token = ''.'' then
                (case directive token p a of
                   Inl e \<Rightarrow> Some (Inl e, snd (GetToken p), bytes, a)
                 | Inr (p, a) \<Rightarrow> loop p bytes a)
              else if token \<noteq> [] \<and> is_alpha (hd token) then
                (case assemble_instruction token p bytes (asm_mode a) of
                   (Inl e, p, bytes) \<Rightarrow> Some (Inl e, p, bytes, a)
                 | (Inr _, p, bytes) \<Rightarrow> loop p bytes a)
              else loop p bytes a) = Some y"
    ultimately have "loop p bytes a = Some y" using st by (simp add: stuck_def)
    with IH st show False by blast
  qed
  with assms show False by simp
qed

section \<open>Examples\<close>

lemma list_all_enumerate: "list_all (\<lambda>k. Q k (xs ! k)) [0..<length xs] \<longleftrightarrow> list_all (\<lambda>(k, x). Q k x) (List.enumerate 0 xs)"
  by (auto simp: list_all_iff in_set_enumerate_eq)

lemma comes_first_enumerate:
  assumes "i < 6"
  shows "comes_first i j op v \<longleftrightarrow> list_all (\<lambda>(k, x). case x of
     None \<Rightarrow> True
   | Some op' \<Rightarrow> (stands_for op v op' \<longrightarrow> kBytes op < kBytes op' \<or> kBytes op = kBytes op' \<and> j \<le> k))
     (List.enumerate 0 (exec_ops ! i))"
proof -
  define Q where "Q = (\<lambda>k x. case x of
     None \<Rightarrow> True
   | Some op' \<Rightarrow> (stands_for op v op' \<longrightarrow> kBytes op < kBytes op' \<or> kBytes op = kBytes op' \<and> j \<le> k))"
  have l: "length (exec_ops ! i :: unit op option list) = 256"
    using assms by (simp add: exec_ops_def nth_Cons split: nat.split)
  have "op_at i (of_nat k) = (exec_ops ! i ! k :: unit op option)" if "k < 256" for k
    using that assms by (simp add: op_at_def unat_of_nat)
  then have "comes_first i j op v \<longleftrightarrow> list_all (\<lambda>k. Q k (exec_ops ! i ! k)) [0..<256]"
    unfolding comes_first_def Q_def by (intro list.pred_cong refl) simp
  also have "\<dots> \<longleftrightarrow> list_all (\<lambda>(k, x). Q k x) (List.enumerate 0 (exec_ops ! i))"
    using list_all_enumerate [of Q "exec_ops ! i"] by (simp add: l)
  finally show ?thesis by (simp add: Q_def)
qed

lemma emulation_ops:
  "op_at 4 0x2A = Some (OpRol (AddrA W8 W8))" "op_at 4 0x6A = Some (OpRor (AddrA W8 W8))"
  "op_at 4 0xA9 = Some (LDA (AddrImm W8 W8 W8))"
  by (simp_all add: op_at_def exec_ops_def ops_emulation_def)

lemmas asm_eval = stands_for_def asm_arg_def arg_fits_def op_defs implied_op_defs jump_op_defs operand_op_defs mode_defs Let_def

lemma emulation_first:
  "comes_first 4 0x2A (OpRol (AddrA W8 W8)) 0"
  "comes_first 4 0xA9 (LDA (AddrImm W8 W8 W8)) 0x12"
  by (simp_all add: comes_first_enumerate exec_ops_def ops_emulation_def asm_eval)

lemma emulation_assemblable: "assemblable 4 (0x2A, 0)" "assemblable 4 (0xA9, 0x12)"
  by (simp_all add: assemblable_def emulation_ops emulation_first) (simp_all add: asm_eval)

text \<open>
  \<open>ROR\<close> assembles to \<open>ROL\<close>.  The mnemonic of \<open>OpRol\<close> is that of \<open>OpRor\<close>, whose opcodes are larger: a line with
  opcode 0x6A, printed, assembles to 0x2A.
\<close>

theorem ror_assembles_to_rol:
  "asm_source 4 [(0x6A, 0)] = ''ROR A'' @ [CHR 0x0A] \<and>
   Assemble (''ROR A'' @ [CHR 0x0A]) [] WDC65816Assembler = Some (Inr (), [], [0x2A], WDC65816Assembler)"
proof -
  have src: "asm_source 4 [(0x6A, 0)] = ''ROR A'' @ [CHR 0x0A]" "asm_source 4 [(0x2A, 0)] = ''ROR A'' @ [CHR 0x0A]"
    by (simp_all add: asm_source_def emulation_ops asm_line_def asm_eval)
  have ok: "list_all (assemblable 4) [(0x2A, 0)]" by (simp add: emulation_assemblable)
  have "asm_object 4 [(0x2A, 0)] = [0x2A]"
    by (simp add: asm_object_def emulation_ops asm_code_def asm_eval)
  moreover have "asm_mode WDC65816Assembler = 4" by (simp add: WDC65816Assembler_def)
  moreover have "Assemble (asm_line (OpRol (AddrA W8 W8)) 0 @ []) [] WDC65816Assembler =
      Assemble [] ([] @ asm_code 0x2A (OpRol (AddrA W8 W8)) 0) WDC65816Assembler"
    using emulation_assemblable(1) \<open>asm_mode _ = _\<close> by (intro assemble_line [where i = 4]) (simp_all add: emulation_ops)
  moreover have "Assemble [] bs a = Some (Inr (), [], bs, a)" for bs a by (subst Assemble.simps) simp
  ultimately show ?thesis
    using src by (simp add: asm_source_def asm_object_def emulation_ops)
qed

theorem assemble_printed_witness:
  "Assemble (asm_source 4 [(0xA9, 0x12), (0x2A, 0), (0xA9, 0x12)]) [] WDC65816Assembler =
    Some (Inr (), [], [0xA9, 0x12, 0x2A, 0xA9, 0x12], WDC65816Assembler)"
proof -
  have "asm_object 4 [(0xA9, 0x12), (0x2A, 0), (0xA9, 0x12)] = [0xA9, 0x12, 0x2A, 0xA9, 0x12]"
    by (simp add: asm_object_def emulation_ops asm_code_def asm_eval)
  moreover have "list_all (assemblable 4) [(0xA9, 0x12), (0x2A, 0), (0xA9, 0x12)]" by (simp add: emulation_assemblable)
  moreover have "asm_mode WDC65816Assembler = 4" by (simp add: WDC65816Assembler_def)
  ultimately show ?thesis using assemble_printed [of 4 _ WDC65816Assembler "[]"] by simp
qed


end
