(* ===== verification/Debugger.thy ===== *)
theory Debugger
  imports Prelude
begin

text \<open>
  The pause protocol between the thread that runs the machine and a client (debug_interface.cc).  A block under the mutex
  \<open>pause_lock\<close> that does not wait is one step.  The client holds it over a step only while \<open>Pause\<close> calls
  \<open>Schedule\<close>, which waits for the mutex of the event queue; the run thread holds that one while \<open>Expire\<close> calls the events.
  A wait on a condition variable ends when its condition holds: after each assignment that can end it
  the code notifies the variable.
\<close>

section \<open>State\<close>

text \<open>The callbacks the interface puts into the event queue; a breakpoint has an address and \<open>pause_on_hit\<close>.\<close>

datatype debug_event = PausedFunc_event | SingleStepFunc_event | Add_event u32 bool | Remove_event u32

text \<open>
  Where the run thread is: emulating; in \<open>Expire\<close>; before the block of \<open>SingleStepFunc\<close>; before the
  lock of \<open>PausedFunc\<close>; in its wait; in the breakpoint function after its first block (whether it pauses on a hit, \<open>was_stepping\<close>).  The flag of \<open>Entering\<close> and \<open>Parked\<close>
  tells that \<open>Expire\<close> called \<open>PausedFunc\<close>.
\<close>

datatype run_point = Running | Expiring | Stepping | Entering bool | Parked bool | At_breakpoint bool bool

text \<open>
  Where the client is: outside; in \<open>Pause\<close>, in the call of \<open>Schedule\<close>, or in its wait; in the wait of
  \<open>Resume\<close> (the flag: called by \<open>SingleStep\<close>); in \<open>SingleStep\<close> before \<open>Resume\<close>, or in its own wait.
\<close>

datatype client_point = Outside | Scheduling | Pausing | Resuming bool | Step_scheduled | Step_waiting

record debugger =
  pause :: int
  pause_response :: bool
  step_pending :: bool
  breakpoints_pause :: bool
  breakpoints :: "u32 \<rightharpoonup> bool"
  queue :: "debug_event list"
  run_at :: run_point
  client_at :: client_point

definition DebugInterface :: "bool \<Rightarrow> debugger" where
  "DebugInterface cross_thread =
     \<lparr>pause = (if cross_thread then 0 else 1), pause_response = False, step_pending = False,
      breakpoints_pause = cross_thread, breakpoints = Map.empty, queue = [], run_at = Running, client_at = Outside\<rparr>"

section \<open>Blocks of the run thread\<close>

text \<open>\<open>PausedFunc\<close> up to its wait, if it waits, and after it; \<open>e\<close> tells where it returns to.\<close>

definition PausedFunc_leave :: "bool \<Rightarrow> debugger \<Rightarrow> debugger" where
  "PausedFunc_leave e s = s\<lparr>pause_response := False, run_at := (if e then Expiring else Running)\<rparr>"

definition PausedFunc_enter :: "bool \<Rightarrow> debugger \<Rightarrow> debugger" where
  "PausedFunc_enter e s =
     (let s = s\<lparr>pause_response := True\<rparr>
      in if pause s \<noteq> 0 then s\<lparr>run_at := Parked e\<rparr> else PausedFunc_leave e s)"

definition SingleStepFunc_block :: "debugger \<Rightarrow> debugger" where
  "SingleStepFunc_block s = s\<lparr>step_pending := False, pause := pause s + 1, run_at := Entering True\<rparr>"

text \<open>The function of a breakpoint, before and after the call of the client's function.\<close>

definition breakpoint_hit :: "bool \<Rightarrow> debugger \<Rightarrow> debugger" where
  "breakpoint_hit pause_on_hit s =
     (let was_stepping = step_pending s;
          s = (if breakpoints_pause s \<and> \<not> was_stepping then s\<lparr>pause := pause s + 1\<rparr> else s)
      in s\<lparr>run_at := At_breakpoint pause_on_hit was_stepping\<rparr>)"

definition breakpoint_end :: "bool \<Rightarrow> bool \<Rightarrow> debugger \<Rightarrow> debugger" where
  "breakpoint_end pause_on_hit was_stepping s =
     (if pause_on_hit \<and> breakpoints_pause s \<and> \<not> was_stepping then s\<lparr>run_at := Entering False\<rparr>
      else s\<lparr>pause := pause s - 1, run_at := Running\<rparr>)"

definition run_event :: "debug_event \<Rightarrow> debugger \<Rightarrow> debugger" where
  "run_event e s = (case e of
     PausedFunc_event \<Rightarrow> s\<lparr>run_at := Entering True\<rparr>
   | SingleStepFunc_event \<Rightarrow> s\<lparr>run_at := Stepping\<rparr>
   | Add_event a p \<Rightarrow> s\<lparr>breakpoints := (breakpoints s)(a \<mapsto> p)\<rparr>
   | Remove_event a \<Rightarrow> s\<lparr>breakpoints := (breakpoints s)(a := None)\<rparr>)"

section \<open>Blocks of the client\<close>

text \<open>The loop of \<open>Pause\<close> that waits for the response.\<close>

definition Pause_wait :: "debugger \<Rightarrow> debugger" where
  "Pause_wait s = s\<lparr>client_at := (if pause_response s then Outside else Pausing)\<rparr>"

definition Pause_block :: "bool \<Rightarrow> debugger \<Rightarrow> debugger" where
  "Pause_block schedule_event s =
     (let was = pause s; s = s\<lparr>pause := was + 1\<rparr>
      in if was \<noteq> 0 then s
         else if schedule_event then s\<lparr>client_at := Scheduling\<rparr>
         else Pause_wait s)"

definition Pause_schedule :: "debugger \<Rightarrow> debugger" where
  "Pause_schedule s = Pause_wait (s\<lparr>queue := queue s @ [PausedFunc_event]\<rparr>)"

definition Resume_return :: "bool \<Rightarrow> client_point" where
  "Resume_return stepping = (if stepping then Step_waiting else Outside)"

definition Resume_block :: "bool \<Rightarrow> debugger \<Rightarrow> debugger" where
  "Resume_block stepping s =
     (let s = s\<lparr>pause := pause s - 1\<rparr>
      in if pause s \<noteq> 0 then s\<lparr>client_at := Resume_return stepping\<rparr>
         else if pause_response s then s\<lparr>client_at := Resuming stepping\<rparr>
         else s\<lparr>client_at := Resume_return stepping\<rparr>)"

definition SingleStep_schedule :: "debugger \<Rightarrow> debugger" where
  "SingleStep_schedule s =
     (let s = (if step_pending s then s
               else s\<lparr>step_pending := True, queue := queue s @ [SingleStepFunc_event]\<rparr>)
      in s\<lparr>client_at := Step_scheduled\<rparr>)"

text \<open>A breakpoint is changed at once during a pause, else by an event.\<close>

definition change_breakpoint :: "debug_event \<Rightarrow> debugger \<Rightarrow> debugger" where
  "change_breakpoint e s = (if pause s \<noteq> 0 then run_event e s else s\<lparr>queue := queue s @ [e]\<rparr>)"

definition SetBreakpoint :: "u32 \<Rightarrow> bool \<Rightarrow> debugger \<Rightarrow> debugger" where
  "SetBreakpoint a pause_on_hit s = change_breakpoint (Add_event a pause_on_hit) s"

definition ClearBreakpoint :: "u32 \<Rightarrow> debugger \<Rightarrow> debugger" where
  "ClearBreakpoint a s = change_breakpoint (Remove_event a) s"

section \<open>Steps\<close>

definition pause_locked :: "debugger \<Rightarrow> bool" where
  "pause_locked s \<longleftrightarrow> client_at s = Scheduling"

definition queue_locked :: "debugger \<Rightarrow> bool" where
  "queue_locked s \<longleftrightarrow> (case run_at s of
     Expiring \<Rightarrow> True | Stepping \<Rightarrow> True | Entering e \<Rightarrow> e | Parked e \<Rightarrow> e | _ \<Rightarrow> False)"

text \<open>
  The run thread.  Which events are due depends on the clock, so any event may be next; a breakpoint may be
  hit at any time.
\<close>

inductive run_step :: "debugger \<Rightarrow> debugger \<Rightarrow> bool" where
  expire: "run_at s = Running \<Longrightarrow> run_step s (s\<lparr>run_at := Expiring\<rparr>)"
| event: "run_at s = Expiring \<Longrightarrow> queue s = xs @ e # ys \<Longrightarrow> run_step s (run_event e (s\<lparr>queue := xs @ ys\<rparr>))"
| expired: "run_at s = Expiring \<Longrightarrow> run_step s (s\<lparr>run_at := Running\<rparr>)"
| step_event: "run_at s = Stepping \<Longrightarrow> \<not> pause_locked s \<Longrightarrow> run_step s (SingleStepFunc_block s)"
| enter: "run_at s = Entering e \<Longrightarrow> \<not> pause_locked s \<Longrightarrow> run_step s (PausedFunc_enter e s)"
| leave: "run_at s = Parked e \<Longrightarrow> \<not> pause_locked s \<Longrightarrow> pause s = 0 \<Longrightarrow> run_step s (PausedFunc_leave e s)"
| hit: "run_at s = Running \<Longrightarrow> breakpoints s a = Some p \<Longrightarrow> \<not> pause_locked s \<Longrightarrow> run_step s (breakpoint_hit p s)"
| hit_end: "run_at s = At_breakpoint p w \<Longrightarrow> \<not> pause_locked s \<Longrightarrow> run_step s (breakpoint_end p w s)"

text \<open>The client calls \<open>Resume\<close> and \<open>SingleStep\<close> only while \<open>paused()\<close>, the latter with the machine parked.\<close>

inductive client_step :: "debugger \<Rightarrow> debugger \<Rightarrow> bool" where
  pauses: "client_at s = Outside \<Longrightarrow> client_step s (Pause_block sched s)"
| schedules: "client_at s = Scheduling \<Longrightarrow> \<not> queue_locked s \<Longrightarrow> client_step s (Pause_schedule s)"
| paused: "client_at s = Pausing \<Longrightarrow> pause_response s \<Longrightarrow> client_step s (s\<lparr>client_at := Outside\<rparr>)"
| resumes: "client_at s = Outside \<Longrightarrow> pause s > 0 \<Longrightarrow> client_step s (Resume_block False s)"
| resumed: "client_at s = Resuming st \<Longrightarrow> \<not> (pause_response s \<and> pause s = 0) \<Longrightarrow>
    client_step s (s\<lparr>client_at := Resume_return st\<rparr>)"
| steps: "client_at s = Outside \<Longrightarrow> pause s > 0 \<Longrightarrow> run_at s = Parked e \<Longrightarrow> client_step s (SingleStep_schedule s)"
| step_resumes: "client_at s = Step_scheduled \<Longrightarrow> client_step s (Resume_block True s)"
| sets: "client_at s = Outside \<Longrightarrow> pause s \<noteq> 0 \<or> \<not> queue_locked s \<Longrightarrow> client_step s (SetBreakpoint a p s)"
| clears: "client_at s = Outside \<Longrightarrow> pause s \<noteq> 0 \<or> \<not> queue_locked s \<Longrightarrow> client_step s (ClearBreakpoint a s)"
| stepped: "client_at s = Step_waiting \<Longrightarrow> pause_response s \<Longrightarrow> client_step s (s\<lparr>client_at := Outside\<rparr>)"

definition debug_step :: "debugger \<Rightarrow> debugger \<Rightarrow> bool" where
  "debug_step s s' \<longleftrightarrow> run_step s s' \<or> client_step s s'"

inductive_cases run_stepE: "run_step s s'"
inductive_cases client_stepE: "client_step s s'"

inductive debug_reachable :: "bool \<Rightarrow> debugger \<Rightarrow> bool" for cross_thread where
  start: "debug_reachable cross_thread (DebugInterface cross_thread)"
| more: "debug_reachable cross_thread s \<Longrightarrow> debug_step s s' \<Longrightarrow> debug_reachable cross_thread s'"

end
