(* ===== verification/Debugger_Laws.thy ===== *)
theory Debugger_Laws
  imports Debugger
begin

text \<open>
  The laws of the pause protocol: a machine that has answered stays where it is; two runs of the protocol that go wrong.
\<close>

section \<open>The machine is parked\<close>

definition parked :: "debugger \<Rightarrow> bool" where
  "parked s \<longleftrightarrow> (case run_at s of Parked _ \<Rightarrow> True | _ \<Rightarrow> False)"

lemmas run_blocks = PausedFunc_enter_def PausedFunc_leave_def SingleStepFunc_block_def breakpoint_hit_def breakpoint_end_def
  run_event_def Let_def

lemmas client_blocks = Pause_block_def Pause_schedule_def Pause_wait_def Resume_block_def SingleStep_schedule_def SetBreakpoint_def ClearBreakpoint_def
  change_breakpoint_def run_event_def Let_def

lemma run_step_response:
  assumes "run_step s s'" and "pause_response s \<longleftrightarrow> parked s"
  shows "pause_response s' \<longleftrightarrow> parked s'"
  using assms by (auto elim!: run_stepE simp: parked_def run_blocks split: if_splits debug_event.splits)

lemma client_step_fields:
  assumes "client_step s s'"
  shows "run_at s' = run_at s" "pause_response s' = pause_response s"
  using assms by (auto elim!: client_stepE simp: client_blocks split: if_splits)

text \<open>The response tells where the run thread is.\<close>

lemma response_parked: "debug_reachable x s \<Longrightarrow> pause_response s \<longleftrightarrow> parked s"
proof (induction rule: debug_reachable.induct)
  case start
  show ?case by (simp add: DebugInterface_def parked_def)
next
  case (more s s')
  from more.hyps(2) show ?case
    unfolding debug_step_def
  proof
    assume "run_step s s'"
    then show ?thesis using more.IH by (rule run_step_response)
  next
    assume "client_step s s'"
    then show ?thesis using more.IH by (simp add: client_step_fields parked_def)
  qed
qed


section \<open>Runs\<close>

lemma runs: "debug_reachable x s \<Longrightarrow> run_step s s' \<Longrightarrow> debug_reachable x s'"
  by (erule more) (simp add: debug_step_def)

lemma acts: "debug_reachable x s \<Longrightarrow> client_step s s' \<Longrightarrow> debug_reachable x s'"
  by (erule more) (simp add: debug_step_def)

abbreviation at :: "int \<Rightarrow> bool \<Rightarrow> bool \<Rightarrow> debug_event list \<Rightarrow> run_point \<Rightarrow> client_point \<Rightarrow> debugger" where
  "at p r st q ra ca \<equiv> \<lparr>pause = p, pause_response = r, step_pending = st, breakpoints_pause = True,
     breakpoints = [0 \<mapsto> True], queue = q,
     run_at = ra, client_at = ca\<rparr>"

lemma event_step: "run_at s = Expiring \<Longrightarrow> queue s = [e] \<Longrightarrow> run_step s (run_event e (s\<lparr>queue := []\<rparr>))"
  using event [of s "[]" e "[]"] by simp

lemmas runs_simps = run_blocks pause_locked_def queue_locked_def

text \<open>A machine with a breakpoint.\<close>

lemma ready_state: "debug_reachable True (at 0 False False [] Running Outside)"
proof -
  let ?s = "DebugInterface True" and ?q = "[Add_event 0 True]"
  have "debug_reachable True (?s\<lparr>queue := ?q\<rparr>)"
    by (rule acts [OF start]) (use sets [of ?s 0 True] in \<open>simp add: client_blocks runs_simps DebugInterface_def\<close>)
  then have "debug_reachable True (?s\<lparr>queue := ?q, run_at := Expiring\<rparr>)"
    by (rule runs) (use expire [of "?s\<lparr>queue := ?q\<rparr>"] in \<open>simp add: DebugInterface_def\<close>)
  then have "debug_reachable True (at 0 False False [] Expiring Outside)"
    by (rule runs) (use event_step [of "?s\<lparr>queue := ?q, run_at := Expiring\<rparr>"] in \<open>simp add: runs_simps DebugInterface_def\<close>)
  then show ?thesis
    by (rule runs) (use expired [of "at 0 False False [] Expiring Outside"] in simp)
qed

text \<open>A pause, and its end: the state in which the run thread is parked in \<open>Expire\<close>.\<close>

lemma paused_state: "debug_reachable True (at 1 True False [] (Parked True) Outside)"
proof -
  have "debug_reachable True (at 1 False False [] Running Scheduling)"
    by (rule acts [OF ready_state]) (use pauses [of "at 0 False False [] Running Outside" True] in \<open>simp add: client_blocks\<close>)
  then have "debug_reachable True (at 1 False False [PausedFunc_event] Running Pausing)"
    by (rule acts) (use schedules [of "at 1 False False [] Running Scheduling"] in \<open>simp add: client_blocks runs_simps\<close>)
  then have "debug_reachable True (at 1 False False [PausedFunc_event] Expiring Pausing)"
    by (rule runs) (use expire [of "at 1 False False [PausedFunc_event] Running Pausing"] in simp)
  then have "debug_reachable True (at 1 False False [] (Entering True) Pausing)"
    by (rule runs) (use event_step [of "at 1 False False [PausedFunc_event] Expiring Pausing"] in \<open>simp add: runs_simps\<close>)
  then have "debug_reachable True (at 1 True False [] (Parked True) Pausing)"
    by (rule runs) (use enter [of "at 1 False False [] (Entering True) Pausing" True] in \<open>simp add: runs_simps\<close>)
  then show ?thesis
    by (rule acts) (use paused [of "at 1 True False [] (Parked True) Pausing"] in simp)
qed

text \<open>
  C15: a deadlock.  With one client, a breakpoint hit while \<open>Pause\<close> waits parks the machine outside \<open>Expire\<close> and leaves
  the event behind.  After two calls of \<open>Resume\<close> the event is run, and if the client calls \<open>Pause\<close> then,
  each thread holds one of the two mutexes and waits for the other: no step is left.
\<close>

theorem pause_can_deadlock:
  "\<exists>s. debug_reachable True s \<and> client_at s = Scheduling \<and> run_at s = Entering True \<and> \<not> (\<exists>s'. debug_step s s')"
proof -
  let ?q = "[PausedFunc_event]" and ?b = "At_breakpoint True False"
  have "debug_reachable True (at 1 False False [] Running Scheduling)"
    by (rule acts [OF ready_state]) (use pauses [of "at 0 False False [] Running Outside" True] in \<open>simp add: client_blocks\<close>)
  then have "debug_reachable True (at 1 False False ?q Running Pausing)"
    by (rule acts) (use schedules [of "at 1 False False [] Running Scheduling"] in \<open>simp add: client_blocks runs_simps\<close>)
  then have "debug_reachable True (at 2 False False ?q ?b Pausing)"
    by (rule runs) (use hit [of "at 1 False False ?q Running Pausing" 0 True] in \<open>simp add: runs_simps\<close>)
  then have "debug_reachable True (at 2 False False ?q (Entering False) Pausing)"
    by (rule runs) (use hit_end [of "at 2 False False ?q ?b Pausing" True False] in \<open>simp add: runs_simps\<close>)
  then have "debug_reachable True (at 2 True False ?q (Parked False) Pausing)"
    by (rule runs) (use enter [of "at 2 False False ?q (Entering False) Pausing" False] in \<open>simp add: runs_simps\<close>)
  then have "debug_reachable True (at 2 True False ?q (Parked False) Outside)"
    by (rule acts) (use paused [of "at 2 True False ?q (Parked False) Pausing"] in simp)
  then have "debug_reachable True (at 1 True False ?q (Parked False) Outside)"
    by (rule acts) (use resumes [of "at 2 True False ?q (Parked False) Outside"] in \<open>simp add: client_blocks Resume_return_def\<close>)
  then have "debug_reachable True (at 0 True False ?q (Parked False) (Resuming False))"
    by (rule acts) (use resumes [of "at 1 True False ?q (Parked False) Outside"] in \<open>simp add: client_blocks\<close>)
  then have "debug_reachable True (at 0 False False ?q Running (Resuming False))"
    by (rule runs) (use leave [of "at 0 True False ?q (Parked False) (Resuming False)" False] in \<open>simp add: runs_simps\<close>)
  then have "debug_reachable True (at 0 False False ?q Running Outside)"
    by (rule acts) (use resumed [of "at 0 False False ?q Running (Resuming False)" False] in \<open>simp add: Resume_return_def\<close>)
  then have "debug_reachable True (at 0 False False ?q Expiring Outside)"
    by (rule runs) (use expire [of "at 0 False False ?q Running Outside"] in simp)
  then have "debug_reachable True (at 0 False False [] (Entering True) Outside)"
    by (rule runs) (use event_step [of "at 0 False False ?q Expiring Outside"] in \<open>simp add: runs_simps\<close>)
  then have "debug_reachable True (at 1 False False [] (Entering True) Scheduling)"
    by (rule acts) (use pauses [of "at 0 False False [] (Entering True) Outside" True] in \<open>simp add: client_blocks\<close>)
  moreover have "\<not> debug_step (at 1 False False [] (Entering True) Scheduling) s'" for s'
    by (auto simp: debug_step_def runs_simps elim!: run_stepE client_stepE)
  ultimately show ?thesis by fastforce
qed

text \<open>
  A breakpoint hit during \<open>SingleStep\<close> takes back a pause nobody asked for: the event of the step does not
  park the machine, it runs on, and the client waits.
\<close>

lemma breakpoint_loses_step: "debug_reachable True (at 0 False False [] Running Step_waiting)"
proof -
  let ?q = "[SingleStepFunc_event]" and ?b = "At_breakpoint True True"
  have "debug_reachable True (at 1 True True ?q (Parked True) Step_scheduled)"
    by (rule acts [OF paused_state])
      (use steps [of "at 1 True False [] (Parked True) Outside"] in \<open>simp add: client_blocks\<close>)
  then have "debug_reachable True (at 0 True True ?q (Parked True) (Resuming True))"
    by (rule acts) (use step_resumes [of "at 1 True True ?q (Parked True) Step_scheduled"] in \<open>simp add: client_blocks\<close>)
  then have "debug_reachable True (at 0 False True ?q Expiring (Resuming True))"
    by (rule runs) (use leave [of "at 0 True True ?q (Parked True) (Resuming True)" True] in \<open>simp add: runs_simps\<close>)
  then have "debug_reachable True (at 0 False True ?q Expiring Step_waiting)"
    by (rule acts) (use resumed [of "at 0 False True ?q Expiring (Resuming True)" True] in \<open>simp add: Resume_return_def\<close>)
  then have "debug_reachable True (at 0 False True ?q Running Step_waiting)"
    by (rule runs) (use expired [of "at 0 False True ?q Expiring Step_waiting"] in simp)
  then have "debug_reachable True (at 0 False True ?q ?b Step_waiting)"
    by (rule runs) (use hit [of "at 0 False True ?q Running Step_waiting" 0 True] in \<open>simp add: runs_simps\<close>)
  then have "debug_reachable True (at (- 1) False True ?q Running Step_waiting)"
    by (rule runs) (use hit_end [of "at 0 False True ?q ?b Step_waiting" True True] in \<open>simp add: runs_simps\<close>)
  then have "debug_reachable True (at (- 1) False True ?q Expiring Step_waiting)"
    by (rule runs) (use expire [of "at (- 1) False True ?q Running Step_waiting"] in simp)
  then have "debug_reachable True (at (- 1) False True [] Stepping Step_waiting)"
    by (rule runs) (use event_step [of "at (- 1) False True ?q Expiring Step_waiting"] in \<open>simp add: runs_simps\<close>)
  then have "debug_reachable True (at 0 False False [] (Entering True) Step_waiting)"
    by (rule runs) (use step_event [of "at (- 1) False True [] Stepping Step_waiting"] in \<open>simp add: runs_simps\<close>)
  then have "debug_reachable True (at 0 False False [] Expiring Step_waiting)"
    by (rule runs) (use enter [of "at 0 False False [] (Entering True) Step_waiting" True] in \<open>simp add: runs_simps\<close>)
  then show ?thesis
    by (rule runs) (use expired [of "at 0 False False [] Expiring Step_waiting"] in simp)
qed


end
