(* ===== verification/Host_Memory.thy ===== *)
theory Host_Memory
  imports Rom_Ines
begin

text \<open>
  The host layer (host_system.h, host_linux.cc, host_win32.cc): regions of virtual memory whose
  protection changes, files, and \<open>Rom::ReadRom\<close>, which maps a file.  The calls of the operating
  system are arguments: what \<open>mprotect\<close> or \<open>VirtualProtect\<close> makes of the current protection when another
  one is asked for, and what \<open>mmap\<close>, \<open>fstat\<close>, \<open>read\<close> yield.  The code ignores the
  result of \<open>mprotect\<close>; what it relies on is \<open>always_protects\<close>.
\<close>

section \<open>Regions\<close>

text \<open>\<open>Mmap\<close> of both files, with the protection the operating system holds for the region.\<close>

record 'p mmap_region =
  mm_ptr :: host_ptr
  mm_size :: nat
  mm_writable :: bool
  mm_executable :: bool
  mm_prot :: 'p

definition Mmap :: "host_ptr \<Rightarrow> nat \<Rightarrow> 'p \<Rightarrow> 'p mmap_region" where
  "Mmap p n prot = \<lparr>mm_ptr = p, mm_size = n, mm_writable = True, mm_executable = False, mm_prot = prot\<rparr>"

type_synonym 'p os_protect = "'p \<Rightarrow> 'p \<Rightarrow> 'p"

definition always_protects :: "'p os_protect \<Rightarrow> bool" where
  "always_protects mp \<longleftrightarrow> (\<forall>old new. mp old new = new)"

section \<open>Linux\<close>

datatype prot = PROT_READ | PROT_WRITE | PROT_EXEC

definition mprotect :: "prot set os_protect \<Rightarrow> prot set \<Rightarrow> prot set mmap_region \<Rightarrow> prot set mmap_region" where
  "mprotect mp new m = m\<lparr>mm_prot := mp (mm_prot m) new\<rparr>"

definition Mmap_MakeReadonly :: "prot set os_protect \<Rightarrow> prot set mmap_region \<Rightarrow> prot set mmap_region" where
  "Mmap_MakeReadonly mp m =
     (if \<not> mm_writable m then m
      else let m = m\<lparr>mm_writable := False\<rparr>;
               m = m\<lparr>mm_executable := False\<rparr>
           in mprotect mp {PROT_READ} m)"

definition Mmap_MapForWrite :: "prot set os_protect \<Rightarrow> prot set mmap_region \<Rightarrow> prot set mmap_region" where
  "Mmap_MapForWrite mp m =
     (if mm_writable m then m
      else let m = mprotect mp {PROT_READ, PROT_WRITE} m;
               m = m\<lparr>mm_writable := True\<rparr>
           in m\<lparr>mm_executable := False\<rparr>)"

definition Mmap_MapForExecute :: "prot set os_protect \<Rightarrow> prot set mmap_region \<Rightarrow> prot set mmap_region" where
  "Mmap_MapForExecute mp m =
     (if mm_executable m then m
      else let m = m\<lparr>mm_executable := True\<rparr>;
               m = m\<lparr>mm_writable := False\<rparr>
           in mprotect mp {PROT_READ, PROT_EXEC} m)"

text \<open>
  \<open>NativeMemory::Create\<close> of a size, and of a part of a file: \<open>mmap n\<close> is the address of the new
  mapping of \<open>n\<close> bytes, \<open>None\<close> when the call fails; for a file it also gets the offset.
\<close>

definition Create_anonymous :: "(nat \<Rightarrow> host_ptr option) \<Rightarrow> nat \<Rightarrow> prot set mmap_region option" where
  "Create_anonymous mmap n =
     (case mmap n of None \<Rightarrow> None | Some mem \<Rightarrow> Some (Mmap mem n {PROT_WRITE, PROT_READ}))"

definition Create_file :: "(nat \<Rightarrow> nat \<Rightarrow> host_ptr option) \<Rightarrow> nat \<Rightarrow> nat \<Rightarrow> prot set mmap_region option" where
  "Create_file mmap offset n =
     (case mmap offset n of None \<Rightarrow> None | Some mem \<Rightarrow> Some (Mmap mem n {PROT_WRITE, PROT_READ}))"

definition GetNativeSize :: nat where
  "GetNativeSize = 0x1000"

text \<open>
  \<open>File::ReadToVector\<close>: \<open>fstat\<close> is the size of the file (or a failure), \<open>readfd n\<close> the bytes that a
  read of \<open>n\<close> bytes delivers; the vector keeps zeros behind them.
\<close>

definition File_ReadToVector :: "nat option \<Rightarrow> (nat \<Rightarrow> u8 list) \<Rightarrow> u8 list" where
  "File_ReadToVector fstat readfd =
     (case fstat of None \<Rightarrow> []
      | Some n \<Rightarrow> let got = take n (readfd n) in got @ replicate (n - length got) 0)"

section \<open>Windows\<close>

datatype page_prot = PAGE_READONLY | PAGE_READWRITE | PAGE_EXECUTE_READ

definition VirtualProtect :: "page_prot os_protect \<Rightarrow> page_prot \<Rightarrow> page_prot mmap_region \<Rightarrow> page_prot mmap_region" where
  "VirtualProtect vp new m = m\<lparr>mm_prot := vp (mm_prot m) new\<rparr>"

definition Win_MakeReadonly :: "page_prot os_protect \<Rightarrow> page_prot mmap_region \<Rightarrow> page_prot mmap_region" where
  "Win_MakeReadonly vp m =
     (if \<not> mm_writable m then m
      else let m = m\<lparr>mm_writable := False\<rparr>;
               m = m\<lparr>mm_executable := False\<rparr>
           in VirtualProtect vp PAGE_READONLY m)"

definition Win_MapForWrite :: "page_prot os_protect \<Rightarrow> page_prot mmap_region \<Rightarrow> page_prot mmap_region" where
  "Win_MapForWrite vp m =
     (if mm_writable m then m
      else let m = m\<lparr>mm_writable := True\<rparr>;
               m = m\<lparr>mm_executable := False\<rparr>
           in VirtualProtect vp PAGE_READWRITE m)"

definition Win_MapForExecute :: "page_prot os_protect \<Rightarrow> page_prot mmap_region \<Rightarrow> page_prot mmap_region" where
  "Win_MapForExecute vp m =
     (if mm_executable m then m
      else let m = m\<lparr>mm_executable := True\<rparr>;
               m = m\<lparr>mm_writable := False\<rparr>
           in VirtualProtect vp PAGE_EXECUTE_READ m)"

definition Win_Create_anonymous :: "(nat \<Rightarrow> host_ptr option) \<Rightarrow> nat \<Rightarrow> page_prot mmap_region option" where
  "Win_Create_anonymous VirtualAlloc n =
     (case VirtualAlloc n of None \<Rightarrow> None | Some mem \<Rightarrow> Some (Mmap mem n PAGE_READWRITE))"

text \<open>
  \<open>FileMap\<close>, a mapped view of a file: the high half of the offset is a variable that is never
  assigned.  \<open>view high low n\<close> is \<open>MapViewOfFile\<close> of the mapping, null when it fails.
\<close>

record file_map =
  fm_ptr :: "host_ptr option"
  fm_size :: nat

definition FileMap :: "(u32 \<Rightarrow> u64 \<Rightarrow> nat \<Rightarrow> host_ptr option) \<Rightarrow> u64 \<Rightarrow> nat \<Rightarrow> file_map" where
  "FileMap view offset n = (let high = 0 in \<lparr>fm_ptr = view high (offset AND 0xFFFFFFFF) n, fm_size = n\<rparr>)"

text \<open>\<open>file_size\<close> is what \<open>GetFileSizeEx\<close> tells; \<open>mapping\<close> says whether \<open>CreateFileMapping\<close> succeeds.\<close>

definition Win_Create_file ::
    "nat \<Rightarrow> bool \<Rightarrow> (u32 \<Rightarrow> u64 \<Rightarrow> nat \<Rightarrow> host_ptr option) \<Rightarrow> u64 \<Rightarrow> nat \<Rightarrow> file_map option" where
  "Win_Create_file file_size mapping view offset n =
     (let n = (if n = 0 then file_size else n)
      in if \<not> mapping then None else Some (FileMap view offset n))"

definition Win_GetNativeSize :: nat where
  "Win_GetNativeSize = 0x10000"

definition Win_ReadToVector :: "nat \<Rightarrow> (nat \<Rightarrow> u8 list) \<Rightarrow> u8 list" where
  "Win_ReadToVector file_size ReadFile =
     (let n = file_size mod 2 ^ 32;
          got = take n (ReadFile n)
      in got @ replicate (file_size - length got) 0)"

section \<open>Native memory\<close>

text \<open>The classes behind \<open>NativeMemory\<close>; \<open>UnownedMemory\<close> is memory of somebody else.\<close>

datatype native_memory =
    Mmap_memory "prot set mmap_region"
  | FileMap_memory file_map
  | UnownedMemory host_ptr nat

primrec Pointer :: "native_memory \<Rightarrow> host_ptr option" where
  "Pointer (Mmap_memory m) = Some (mm_ptr m)"
| "Pointer (FileMap_memory f) = fm_ptr f"
| "Pointer (UnownedMemory p n) = Some p"

primrec GetSize :: "native_memory \<Rightarrow> nat" where
  "GetSize (Mmap_memory m) = mm_size m"
| "GetSize (FileMap_memory f) = fm_size f"
| "GetSize (UnownedMemory p n) = n"

primrec MakeReadonly :: "prot set os_protect \<Rightarrow> native_memory \<Rightarrow> native_memory" where
  "MakeReadonly mp (Mmap_memory m) = Mmap_memory (Mmap_MakeReadonly mp m)"
| "MakeReadonly mp (FileMap_memory f) = FileMap_memory f"
| "MakeReadonly mp (UnownedMemory p n) = UnownedMemory p n"

primrec MapForWrite :: "prot set os_protect \<Rightarrow> native_memory \<Rightarrow> native_memory" where
  "MapForWrite mp (Mmap_memory m) = Mmap_memory (Mmap_MapForWrite mp m)"
| "MapForWrite mp (FileMap_memory f) = FileMap_memory f"
| "MapForWrite mp (UnownedMemory p n) = UnownedMemory p n"

primrec MapForExecute :: "prot set os_protect \<Rightarrow> native_memory \<Rightarrow> native_memory" where
  "MapForExecute mp (Mmap_memory m) = Mmap_memory (Mmap_MapForExecute mp m)"
| "MapForExecute mp (FileMap_memory f) = FileMap_memory f"
| "MapForExecute mp (UnownedMemory p n) = UnownedMemory p n"

section \<open>ROM images from files\<close>

text \<open>
  \<open>Rom::ReadRom\<close>: \<open>create\<close> is \<open>NativeMemory::Create\<close> of the file, of which offset and size are given.  The
  result of \<open>Create\<close> is used without a test; a mapping starts a block of host memory.
\<close>

definition Rom_ReadRom ::
    "prot set os_protect \<Rightarrow> (nat \<Rightarrow> nat \<Rightarrow> native_memory option) \<Rightarrow> host_mem \<Rightarrow> rom_ines \<Rightarrow>
     rom_ines option option" where
  "Rom_ReadRom mp create h storage = do {
     mmap \<leftarrow> create 0 0;
     mmap \<leftarrow> Some (MakeReadonly mp mmap);
     data \<leftarrow> Pointer mmap;
     Rom_LoadRom h (fst data) storage
   }"

section \<open>Laws of the regions\<close>

text \<open>The three requests of the interface, and a sequence of them.\<close>

datatype map_request = Make_readonly | Map_for_write | Map_for_execute

primrec serve :: "prot set os_protect \<Rightarrow> map_request \<Rightarrow> prot set mmap_region \<Rightarrow> prot set mmap_region" where
  "serve mp Make_readonly = Mmap_MakeReadonly mp"
| "serve mp Map_for_write = Mmap_MapForWrite mp"
| "serve mp Map_for_execute = Mmap_MapForExecute mp"

primrec win_serve :: "page_prot os_protect \<Rightarrow> map_request \<Rightarrow> page_prot mmap_region \<Rightarrow> page_prot mmap_region" where
  "win_serve vp Make_readonly = Win_MakeReadonly vp"
| "win_serve vp Map_for_write = Win_MapForWrite vp"
| "win_serve vp Map_for_execute = Win_MapForExecute vp"

lemmas region_defs =
  Mmap_MakeReadonly_def Mmap_MapForWrite_def Mmap_MapForExecute_def mprotect_def
  Win_MakeReadonly_def Win_MapForWrite_def Win_MapForExecute_def VirtualProtect_def Let_def

text \<open>The members of a region tell the protection the system holds, which is never both writable and executable.\<close>

definition region_wf :: "prot set mmap_region \<Rightarrow> bool" where
  "region_wf m \<longleftrightarrow>
     mm_prot m = {PROT_READ} \<union> (if mm_writable m then {PROT_WRITE} else {}) \<union>
                 (if mm_executable m then {PROT_EXEC} else {}) \<and>
     \<not> (mm_writable m \<and> mm_executable m)"

lemma region_wf_new: "Create_anonymous mmap n = Some m \<Longrightarrow> region_wf m"
  by (auto simp: Create_anonymous_def Mmap_def region_wf_def split: option.splits)

lemma region_wf_serve: "always_protects mp \<Longrightarrow> region_wf m \<Longrightarrow> region_wf (serve mp r m)"
  by (cases r) (auto simp: always_protects_def region_wf_def region_defs)

lemma region_wf_serves: "always_protects mp \<Longrightarrow> region_wf m \<Longrightarrow> region_wf (fold (serve mp) rs m)"
  by (induction rs arbitrary: m) (simp_all add: region_wf_serve)

lemma region_place_serves:
  "mm_ptr (fold (serve mp) rs m) = mm_ptr m" "mm_size (fold (serve mp) rs m) = mm_size m"
proof -
  have one: "mm_ptr (serve mp r m) = mm_ptr m \<and> mm_size (serve mp r m) = mm_size m" for r m
    by (cases r) (simp_all add: region_defs)
  show "mm_ptr (fold (serve mp) rs m) = mm_ptr m" "mm_size (fold (serve mp) rs m) = mm_size m"
    by (induction rs arbitrary: m) (simp_all add: one)
qed

lemma serve_write: "always_protects mp \<Longrightarrow> region_wf m \<Longrightarrow> PROT_WRITE \<in> mm_prot (Mmap_MapForWrite mp m)"
  by (auto simp: always_protects_def region_wf_def region_defs)

lemma serve_execute: "always_protects mp \<Longrightarrow> region_wf m \<Longrightarrow> PROT_EXEC \<in> mm_prot (Mmap_MapForExecute mp m)"
  by (auto simp: always_protects_def region_wf_def region_defs)



text \<open>Executable memory is not made read-only by the request: it stays executable.\<close>

lemma MakeReadonly_keeps_executable: "\<not> mm_writable m \<Longrightarrow> Mmap_MakeReadonly mp m = m"
  by (simp add: region_defs)

text \<open>The two hosts: a Windows region as a Linux one.\<close>

primrec prot_bits :: "page_prot \<Rightarrow> prot set" where
  "prot_bits PAGE_READONLY = {PROT_READ}"
| "prot_bits PAGE_READWRITE = {PROT_READ, PROT_WRITE}"
| "prot_bits PAGE_EXECUTE_READ = {PROT_READ, PROT_EXEC}"

definition on_linux :: "page_prot mmap_region \<Rightarrow> prot set mmap_region" where
  "on_linux m = \<lparr>mm_ptr = mm_ptr m, mm_size = mm_size m, mm_writable = mm_writable m,
                mm_executable = mm_executable m, mm_prot = prot_bits (mm_prot m)\<rparr>"

lemma on_linux_serve:
  assumes "\<And>old new. prot_bits (vp old new) = mp (prot_bits old) (prot_bits new)"
  shows "on_linux (win_serve vp r m) = serve mp r (on_linux m)"
  using assms [of "mm_prot m" PAGE_READONLY] assms [of "mm_prot m" PAGE_READWRITE]
    assms [of "mm_prot m" PAGE_EXECUTE_READ]
  by (cases r) (simp_all add: region_defs on_linux_def)

text \<open>The memory of the two hosts is the same machine: where the two systems treat protections alike (and
  hand out the same addresses), every sequence of requests to a new Windows region gives what it gives on Linux.\<close>

theorem hosts_agree:
  assumes os: "\<And>old new. prot_bits (vp old new) = mp (prot_bits old) (prot_bits new)"
  shows "map_option (\<lambda>m. on_linux (fold (win_serve vp) rs m)) (Win_Create_anonymous alloc n) =
    map_option (fold (serve mp) rs) (Create_anonymous alloc n)"
proof -
  have "on_linux (fold (win_serve vp) rs m) = fold (serve mp) rs (on_linux m)" for m
    by (induction rs arbitrary: m) (simp_all add: on_linux_serve [of vp mp, OF os])
  moreover have "on_linux (Mmap p n PAGE_READWRITE) = Mmap p n {PROT_WRITE, PROT_READ}" for p
    by (auto simp: on_linux_def Mmap_def)
  ultimately show ?thesis
    by (simp add: Win_Create_anonymous_def Create_anonymous_def split: option.split)
qed

lemma hosts_agree_witness:
  "on_linux (win_serve (\<lambda>old new. new) Map_for_execute (Mmap (3, 0) 16 PAGE_READWRITE)) =
    serve (\<lambda>old new. new) Map_for_execute (Mmap (3, 0) 16 {PROT_WRITE, PROT_READ})"
  using hosts_agree [of "\<lambda>old new. new" "\<lambda>old new. new" "[Map_for_execute]" "\<lambda>n. Some (3, 0)" 16]
  by (simp add: Win_Create_anonymous_def Create_anonymous_def)

section \<open>Laws of the files\<close>

lemma length_ReadToVector: "length (File_ReadToVector (Some n) readfd) = n"
  by (simp add: File_ReadToVector_def Let_def)

text \<open>A vector of the whole file where the read delivers it.\<close>

lemma ReadToVector_whole: "readfd (length bytes) = bytes \<Longrightarrow> File_ReadToVector (Some (length bytes)) readfd = bytes"
  by (simp add: File_ReadToVector_def)

text \<open>\<open>mmap\<close> refuses mappings of no bytes (POSIX), and \<open>ReadRom\<close> asks Linux for one.\<close>

lemma ReadRom_linux:
  assumes "\<And>offset. mmap offset 0 = None"
  shows "Rom_ReadRom mp (\<lambda>offset n. map_option Mmap_memory (Create_file mmap offset n)) h storage = None"
  using assms by (simp add: Rom_ReadRom_def Create_file_def)

text \<open>On Windows the mapping has the size of the file, and \<open>ReadRom\<close> is \<open>LoadRom\<close> of the view.\<close>

lemma ReadRom_windows:
  assumes "view 0 0 n = Some (b, 0)"
  shows "Rom_ReadRom mp
      (\<lambda>offset m. map_option FileMap_memory (Win_Create_file n True view (of_nat offset) m)) h storage =
    Rom_LoadRom h b storage"
  using assms by (simp add: Rom_ReadRom_def Win_Create_file_def FileMap_def Let_def)

text \<open>The high half of an offset is lost.\<close>

lemma FileMap_ignores_high: "FileMap view offset n = FileMap view (offset AND 0xFFFFFFFF) n"
  by (simp add: FileMap_def and.assoc)

end
