(* ===== verification/Jit_X64.thy ===== *)
theory Jit_X64
  imports Cpu65816 Host_Memory
begin

text \<open>
  The x64 translator (jit.cc, jit_x64.h, jit_x64.cc, x64_emitter.h): the pages of entry points, the
  code buffers, the flattening of an instruction's operation list, and the emitter of x64 machine code.
  A code buffer is a block of the host memory of the machine under a region of Host_Memory; a store to a
  region that is not writable has no outcome.  Arguments stand for what is outside: \<open>mmap\<close> and \<open>mprotect\<close>
  of the system, the offsets of two members of \<open>CpuState\<close> (the compiler's layout), and \<open>enter\<close>, the
  assembly routine that jumps to an entry point.
\<close>

section \<open>The emitter\<close>

text \<open>The register number of x64_emitter.h the translator uses, for the state of the CPU.\<close>

definition RBX :: u32 where
  "RBX = 3"

definition REG_CPUSTATE :: u32 where
  "REG_CPUSTATE = RBX"

definition MODRM :: "u32 \<Rightarrow> u32 \<Rightarrow> u32 \<Rightarrow> u8" where
  "MODRM md rg rm = ucast (push_bit 6 md OR push_bit 3 rg OR rm)"

text \<open>
  The emitter writes bytes at its pointer; the end it is given is never looked at.  \<open>prot\<close> is the
  protection of the region.
\<close>

fun emit :: "prot set \<Rightarrow> u8 list \<Rightarrow> host_ptr \<Rightarrow> host_mem \<Rightarrow> (host_ptr \<times> host_mem) option" where
  "emit prot [] p h = Some (p, h)"
| "emit prot (b # bs) p h =
     (if PROT_WRITE \<in> prot then do {
        h \<leftarrow> store_byte p b h;
        emit prot bs (ptr_add p 1) h
      }
      else None)"

definition cmp_m_8_bytes :: "u32 \<Rightarrow> u32 \<Rightarrow> u8 \<Rightarrow> u8 list" where
  "cmp_m_8_bytes rs offset imm = [0x80, MODRM 1 7 (rs AND 7)] @ le_bytes 4 offset @ [imm]"

definition cmp_m_8 :: "prot set \<Rightarrow> u32 \<Rightarrow> u32 \<Rightarrow> u8 \<Rightarrow> host_ptr \<Rightarrow> host_mem \<Rightarrow> (host_ptr \<times> host_mem) option" where
  "cmp_m_8 prot rs offset imm = emit prot (cmp_m_8_bytes rs offset imm)"

definition mov_m_imm_8_bytes :: "u32 \<Rightarrow> u32 \<Rightarrow> u8 \<Rightarrow> u8 list" where
  "mov_m_imm_8_bytes rs offset imm =
     (let md = (if offset = 0 then 0 else if offset \<le> 0xFF then 1 else 2)
      in [0xC6, MODRM md 0 (rs AND 7)] @
         (if offset = 0 then [] else if offset \<le> 0xFF then [ucast offset] else le_bytes 4 offset) @ [imm])"

definition mov_m_imm_8 :: "prot set \<Rightarrow> u32 \<Rightarrow> u32 \<Rightarrow> u8 \<Rightarrow> host_ptr \<Rightarrow> host_mem \<Rightarrow> (host_ptr \<times> host_mem) option" where
  "mov_m_imm_8 prot rs offset imm = emit prot (mov_m_imm_8_bytes rs offset imm)"

section \<open>State\<close>

text \<open>\<open>JitPage::Memory\<close> with its constructor, \<open>JitPage\<close>, and \<open>JitX64\<close> with the members of \<open>JitCoreImpl\<close>.\<close>

record jit_memory =
  jm_buffer :: "prot set mmap_region"
  jm_size :: u32
  jm_write_ptr :: u32
  jm_bytes :: host_ptr

definition JitMemory :: "prot set mmap_region \<Rightarrow> jit_memory" where
  "JitMemory buffer =
     \<lparr>jm_buffer = buffer, jm_size = of_nat (mm_size buffer), jm_write_ptr = 0, jm_bytes = mm_ptr buffer\<rparr>"

definition write_bytes_left :: "jit_memory \<Rightarrow> u32" where
  "write_bytes_left m = jm_size m - jm_write_ptr m"

datatype code_addr = x64Unjitted | Code host_ptr

record jit_page =
  entrypoints :: "code_addr list"
  memory_list :: "jit_memory list"

definition JitPage :: jit_page where
  "JitPage = \<lparr>entrypoints = [], memory_list = []\<rparr>"

record jit_x64 =
  jit_page_size :: u32
  jit_page_mask :: u32
  jit_inv_page_mask :: u32
  jit_pages :: "cpuaddr \<Rightarrow> jit_page option"
  maximum_trace_length :: u32

text \<open>The constructors; the pointers to the CPU, to its state and to the pages of the bus are the machine.\<close>

definition JitX64 :: "'d machine \<Rightarrow> jit_x64" where
  "JitX64 s =
     (let size = page_size (memory (sysbus s))
      in \<lparr>jit_page_size = size, jit_page_mask = size - 1, jit_inv_page_mask = NOT (size - 1),
          jit_pages = (\<lambda>_. None), maximum_trace_length = 32\<rparr>)"

text \<open>The two members of \<open>CpuState\<close> whose offsets the translator takes.\<close>

record cpu_layout =
  offset_interrupts :: u32
  offset_carry :: u32

section \<open>Operation lists\<close>

text \<open>
  \<open>BuildOpsList\<close>: a position in a list is what remains of it from there.  \<open>same\<close> is the equality of the
  pointers to two lists; \<open>subs\<close> (\<open>lists\<close>) holds the sublists of this call.  A list without its end is read past it.
\<close>

fun BuildOpsList ::
    "(jit_op list \<Rightarrow> jit_op list \<Rightarrow> bool) \<Rightarrow> jit_op list list \<Rightarrow> jit_op list \<Rightarrow> jit_op list \<Rightarrow> jit_op list option" where
  "BuildOpsList same subs resolved [] = None"
| "BuildOpsList same subs resolved (JitOperation opr dst src sub # ops) =
     (if opr = kEnd then Some resolved
      else if opr = kExecuteSublist then
        (if src AND kNoDuplicateList \<noteq> 0 \<and> (\<exists>l \<in> set subs. same l (JitOperation opr dst src sub # ops))
         then BuildOpsList same subs resolved ops
         else do {
           resolved \<leftarrow> BuildOpsList same [] resolved sub;
           BuildOpsList same (subs @ [sub]) resolved ops
         })
      else BuildOpsList same subs (resolved @ [JitOperation opr dst src sub]) ops)"

definition EmitInstructionPrologue ::
    "cpu_layout \<Rightarrow> prot set \<Rightarrow> host_ptr \<Rightarrow> host_mem \<Rightarrow> (host_ptr \<times> host_mem) option" where
  "EmitInstructionPrologue lay prot = cmp_m_8 prot REG_CPUSTATE (offset_interrupts lay) 3"

text \<open>The switch of \<open>JitFor\<close>; \<open>panic\<close> prints a message and goes on.\<close>

definition emit_op :: "cpu_layout \<Rightarrow> prot set \<Rightarrow> jit_op \<Rightarrow> host_ptr \<Rightarrow> host_mem \<Rightarrow> (host_ptr \<times> host_mem) option" where
  "emit_op lay prot opn p h =
     (case jit_oper_of opn of
        kClearFlag \<Rightarrow>
          if jit_destination opn = kFlagCarry then mov_m_imm_8 prot REG_CPUSTATE (offset_carry lay) 0 p h
          else Some (p, h)
      | kIncrementIP \<Rightarrow> Some (p, h)
      | _ \<Rightarrow> Some (p, h))"

fun emit_ops :: "cpu_layout \<Rightarrow> prot set \<Rightarrow> jit_op list \<Rightarrow> host_ptr \<Rightarrow> host_mem \<Rightarrow> (host_ptr \<times> host_mem) option" where
  "emit_ops lay prot [] p h = Some (p, h)"
| "emit_ops lay prot (opn # ops) p h = do {
     (p, h) \<leftarrow> emit_op lay prot opn p h;
     emit_ops lay prot ops p h
   }"

definition JitFor ::
    "cpu_layout \<Rightarrow> (jit_op list \<Rightarrow> jit_op list \<Rightarrow> bool) \<Rightarrow> prot set \<Rightarrow> jit_op list \<Rightarrow> host_ptr \<Rightarrow> host_mem \<Rightarrow>
     (int \<times> host_mem) option" where
  "JitFor lay same prot ops into h = do {
     resolved_ops \<leftarrow> BuildOpsList same [] [] ops;
     (p, h) \<leftarrow> EmitInstructionPrologue lay prot into h;
     (p, h) \<leftarrow> emit_ops lay prot resolved_ops p h;
     Some (0, h)
   }"

section \<open>Pages\<close>

definition page_key :: "u32 \<Rightarrow> cpuaddr \<Rightarrow> jit_x64 \<Rightarrow> cpuaddr" where
  "page_key mode addr j = mode OR (addr AND jit_inv_page_mask j)"

definition FindPage :: "u32 \<Rightarrow> cpuaddr \<Rightarrow> bool \<Rightarrow> jit_x64 \<Rightarrow> jit_page option \<times> jit_x64" where
  "FindPage mode addr create j =
     (let key = page_key mode addr j in
      case jit_pages j key of
        None \<Rightarrow> if \<not> create then (None, j)
                else (Some JitPage, j\<lparr>jit_pages := (jit_pages j)(key := Some JitPage)\<rparr>)
      | Some page \<Rightarrow> (Some page, j))"

text \<open>\<open>page->entrypoints[i] = e\<close>.\<close>

definition set_entry :: "nat \<Rightarrow> code_addr \<Rightarrow> jit_page \<Rightarrow> jit_page option" where
  "set_entry i e page =
     (if i < length (entrypoints page) then Some (page\<lparr>entrypoints := (entrypoints page)[i := e]\<rparr>) else None)"

text \<open>The loop of \<open>JitDoJitAt\<close>, with the number of rounds left before \<open>maximum_trace_length\<close>.\<close>

fun JitDoJitAt_loop ::
    "cpu_layout \<Rightarrow> (jit_op list \<Rightarrow> jit_op list \<Rightarrow> bool) \<Rightarrow> 'd io \<Rightarrow> prot set \<Rightarrow> nat \<Rightarrow> cpuaddr \<Rightarrow> nat \<Rightarrow> host_ptr \<Rightarrow> u32 \<Rightarrow>
     jit_page \<Rightarrow> 'd machine \<Rightarrow> ('d, jit_page) result" where
  "JitDoJitAt_loop lay same io prot i addr 0 p room page s = Some (page, s)"
| "JitDoJitAt_loop lay same io prot i addr (Suc n) p room page s =
     (if 32 < room then do {
        (ops, s) \<leftarrow> GetJit io addr s;
        (r, h) \<leftarrow> JitFor lay same prot ops p (host s);
        s \<leftarrow> Some (s\<lparr>host := h\<rparr>);
        page \<leftarrow> set_entry i (Code p) page;
        JitDoJitAt_loop lay same io prot i addr n (ptr_add p (nat r)) (room - of_int r) page s
      }
      else Some (page, s))"

text \<open>
  \<open>JitDoJitAt\<close>: \<open>alloc\<close> is \<open>mmap\<close>, the address of a fresh block of the size asked for.  A failure to get the
  buffer is dereferenced.  The pages hold their buffers by pointer, so the changes of protection are changes of
  the page.
\<close>

definition new_buffer ::
    "(nat \<Rightarrow> 'd machine \<Rightarrow> host_ptr option) \<Rightarrow> jit_page \<Rightarrow> 'd machine \<Rightarrow> ('d, jit_page) result" where
  "new_buffer alloc page s =
     (if memory_list page = [] \<or> write_bytes_left (last (memory_list page)) < 256 then do {
        region \<leftarrow> Create_anonymous (\<lambda>n. alloc n s) GetNativeSize;
        (let s = s\<lparr>host := NativeMemory_Create (fst (mm_ptr region)) (mm_size region) (host s)\<rparr>
         in Some (page\<lparr>memory_list := memory_list page @ [JitMemory region]\<rparr>, s))
      }
      else Some (page, s))"

definition on_last :: "(prot set mmap_region \<Rightarrow> prot set mmap_region) \<Rightarrow> jit_page \<Rightarrow> jit_page" where
  "on_last f page =
     page\<lparr>memory_list := butlast (memory_list page) @
       [(last (memory_list page))\<lparr>jm_buffer := f (jm_buffer (last (memory_list page)))\<rparr>]\<rparr>"

record 'd jit_env =
  env_layout :: cpu_layout
  env_same :: "jit_op list \<Rightarrow> jit_op list \<Rightarrow> bool"
  env_io :: "'d io"
  env_protect :: "prot set os_protect"
  env_alloc :: "nat \<Rightarrow> 'd machine \<Rightarrow> host_ptr option"

definition JitDoJitAt :: "'d jit_env \<Rightarrow> jit_page \<Rightarrow> cpuaddr \<Rightarrow> jit_x64 \<Rightarrow> 'd machine \<Rightarrow> ('d, jit_page) result" where
  "JitDoJitAt E page addr j s = do {
     (page, s) \<leftarrow> new_buffer (env_alloc E) page s;
     page \<leftarrow> Some (on_last (Mmap_MapForWrite (env_protect E)) page);
     (let write = last (memory_list page);
          p = ptr_add (jm_bytes write) (unat (jm_write_ptr write))
      in do {
        (page, s) \<leftarrow> JitDoJitAt_loop (env_layout E) (env_same E) (env_io E) (mm_prot (jm_buffer write))
          (unat (addr AND jit_page_mask j)) addr (unat (maximum_trace_length j)) p (write_bytes_left write) page s;
        Some (on_last (Mmap_MapForExecute (env_protect E)) page, s)
      })
   }"

definition jit_ip :: "'d machine \<Rightarrow> cpuaddr" where
  "jit_ip s = (ip s AND ip_mask s) + code_segment_base s"

definition jit_page_at :: "'d jit_env \<Rightarrow> jit_page \<Rightarrow> cpuaddr \<Rightarrow> jit_x64 \<Rightarrow> 'd machine \<Rightarrow> ('d, jit_x64) result" where
  "jit_page_at E page addr j s =
     (let key = page_key (cpu_mode s) addr j in do {
        (page, s) \<leftarrow> JitDoJitAt E page addr j s;
        Some (j\<lparr>jit_pages := (jit_pages j)(key := Some page)\<rparr>, s)
      })"

definition JitNewPageAt :: "'d jit_env \<Rightarrow> cpuaddr \<Rightarrow> jit_x64 \<Rightarrow> 'd machine \<Rightarrow> ('d, jit_x64) result" where
  "JitNewPageAt E addr j s =
     (let (found, j) = FindPage (cpu_mode s) addr True j in do {
        page \<leftarrow> found;
        page \<leftarrow> (let n = unat (jit_page_size j); old = entrypoints page
                in Some (page\<lparr>entrypoints := take n old @ replicate (n - length old) x64Unjitted\<rparr>));
        jit_page_at E page addr j s
      })"

definition JitUnjitted :: "'d jit_env \<Rightarrow> jit_x64 \<Rightarrow> 'd machine \<Rightarrow> ('d, jit_x64) result" where
  "JitUnjitted E j s =
     (let addr = jit_ip s; (found, j) = FindPage (cpu_mode s) addr True j in do {
        page \<leftarrow> found;
        jit_page_at E page addr j s
      })"

section \<open>Execution\<close>

text \<open>The outcome of \<open>enter\<close> is whatever the entered code leaves; \<open>Execute\<close> calls itself after the translation.\<close>

type_synonym 'd enter = "code_addr \<Rightarrow> jit_x64 \<Rightarrow> 'd machine \<Rightarrow> ('d, jit_x64) result"

partial_function (option) Execute :: "'d jit_env \<Rightarrow> 'd enter \<Rightarrow> jit_x64 \<Rightarrow> 'd machine \<Rightarrow> ('d, jit_x64) result" where
  "Execute E enter j s =
     (let addr = jit_ip s; (found, j) = FindPage (cpu_mode s) addr False j in
      case found of
        Some page \<Rightarrow>
          let i = unat (addr AND jit_page_mask j) in
          if i < length (entrypoints page) then enter (entrypoints page ! i) j s else None
      | None \<Rightarrow> do {
          (j, s) \<leftarrow> JitNewPageAt E addr j s;
          Execute E enter j s
        })"

text \<open>\<open>InvalidateJit\<close> and \<open>JitInvalidateForWrite\<close> are empty.\<close>

definition InvalidateJit :: "u32 \<Rightarrow> jit_x64 \<Rightarrow> jit_x64" where
  "InvalidateJit page j = j"

definition JitInvalidateForWrite :: "u32 \<Rightarrow> jit_x64 \<Rightarrow> jit_x64" where
  "JitInvalidateForWrite addr j = j"

end
