(* ===== verification/Jit_Laws.thy ===== *)
theory Jit_Laws
  imports Jit_X64 Cpu_Disasm Cpu_Save
begin

text \<open>
  Laws of the translator: a reference decoder for the two instruction forms the emitter produces, what
  the emitter writes, and the flattening of the operation lists of every instruction of the CPU.
\<close>

section \<open>Encoding\<close>

text \<open>
  The forms \<open>CMP r/m8, imm8\<close> and \<open>MOV r/m8, imm8\<close> of the x86 manuals with an operand in memory at a
  base register and a displacement (no SIB byte, not relative to the instruction pointer).
\<close>

datatype x64_insn = Cmp8 u32 int u8 | Mov8 u32 int u8

definition decode_mem :: "u8 \<Rightarrow> u8 list \<Rightarrow> (int \<times> u8 list) option" where
  "decode_mem m bs =
     (let md = drop_bit 6 m; rm = m AND 7 in
      if rm = 4 \<or> md = 3 \<or> (md = 0 \<and> rm = 5) then None
      else if md = 0 then Some (0, bs)
      else if md = 1 then (case bs of [] \<Rightarrow> None | d # bs \<Rightarrow> Some (sint d, bs))
      else if length bs < 4 then None
      else Some (sint (of_le_bytes (take 4 bs) :: u32), drop 4 bs))"

definition decode_x64 :: "u8 list \<Rightarrow> (x64_insn \<times> u8 list) option" where
  "decode_x64 bs =
     (case bs of
        opc # m # bs \<Rightarrow> do {
          (disp, bs) \<leftarrow> decode_mem m bs;
          (case bs of
             [] \<Rightarrow> None
           | imm # bs \<Rightarrow>
               let rg = drop_bit 3 m AND 7; base = ucast (m AND 7) in
               if opc = 0x80 \<and> rg = 7 then Some (Cmp8 base disp imm, bs)
               else if opc = 0xC6 \<and> rg = 0 then Some (Mov8 base disp imm, bs)
               else None)
        }
      | _ \<Rightarrow> None)"

lemma base_cases:
  assumes "(rs :: u32) < 8"
  shows "rs = 0 \<or> rs = 1 \<or> rs = 2 \<or> rs = 3 \<or> rs = 4 \<or> rs = 5 \<or> rs = 6 \<or> rs = 7"
proof -
  have "unat rs < 8" using assms by (simp add: word_less_nat_alt)
  then have "unat rs \<in> {0, 1, 2, 3, 4, 5, 6, 7}" by auto
  then show ?thesis by (auto simp: word_unat_eq_iff)
qed

lemma MODRM_fields:
  assumes "rs < 8" and "rs \<noteq> 4" and "md = 0 \<longrightarrow> rs \<noteq> 5" and "md \<in> {0, 1, 2}" and "rg \<in> {0, 7}"
  shows "drop_bit 6 (MODRM md rg (rs AND 7)) = ucast md" "drop_bit 3 (MODRM md rg (rs AND 7)) AND 7 = ucast rg"
    "MODRM md rg (rs AND 7) AND 7 = ucast rs"
  using base_cases [OF assms(1)] assms(2-) by (auto simp: MODRM_def)

lemma byte_offset: "offset \<le> 0xFF \<Longrightarrow> take_bit 8 (uint (offset :: u32)) = uint offset"
  by (rule take_bit_int_eq_self) (simp_all add: word_le_def)

lemma sint_byte: "offset \<le> 0xFF \<Longrightarrow> sint (ucast (offset :: u32) :: u8) = signed_take_bit 7 (uint offset)"
  by (simp add: sint_uint unsigned_ucast_eq byte_offset)

lemma sint_small: "offset \<le> 0x7F \<Longrightarrow> sint (ucast (offset :: u32) :: u8) = int (unat offset)"
proof -
  assume o: "offset \<le> 0x7F"
  then have "offset \<le> 0xFF" "uint offset < 2 ^ 7" by (simp_all add: word_le_def)
  moreover have "- (2 ^ 7) \<le> uint offset" by (rule order_trans [OF _ uint_nonnegative]) simp
  ultimately show ?thesis
    by (simp only: sint_byte signed_take_bit_int_eq_self) simp
qed

lemma sint_high:
  assumes "0x7F < offset" and "offset \<le> 0xFF"
  shows "sint (ucast (offset :: u32) :: u8) = int (unat offset) - 256"
proof -
  have "128 \<le> uint offset" "uint offset < 256"
    using assms by (simp_all add: word_le_def word_less_def)
  then have "uint offset div 128 = 1" by presburger
  then have "bit (uint offset) 7" by (simp add: bit_iff_odd)
  then show ?thesis
    using byte_offset [OF assms(2)]
    by (simp only: sint_byte [OF assms(2)] signed_take_bit_eq_take_bit_minus) simp
qed

lemma sint_pos32: "offset < 0x80000000 \<Longrightarrow> sint (offset :: u32) = int (unat offset)"
proof -
  assume "offset < 0x80000000"
  then have "uint offset < 2 ^ 31" by (simp add: word_less_def)
  moreover have "- (2 ^ 31) \<le> uint offset" by (rule order_trans [OF _ uint_nonnegative]) simp
  ultimately have "signed_take_bit 31 (uint offset) = uint offset"
    by (simp only: signed_take_bit_int_eq_self)
  then show ?thesis by (simp add: sint_uint)
qed

lemma le_bytes_4:
  "le_bytes 4 v = [ucast v, ucast (drop_bit 8 v), ucast (drop_bit 8 (drop_bit 8 v)),
     ucast (drop_bit 8 (drop_bit 8 (drop_bit 8 v)))]"
proof -
  have "(4 :: nat) = Suc (Suc (Suc (Suc 0)))" by simp
  then show ?thesis by (simp only: le_bytes.simps)
qed

lemma decode_mov:
  assumes "rs < 8" and "rs \<noteq> 4" and "offset = 0 \<longrightarrow> rs \<noteq> 5"
  shows "decode_x64 (mov_m_imm_8_bytes rs offset imm @ bs) =
    Some (Mov8 rs (if offset = 0 then 0 else if offset \<le> 0xFF then sint (ucast offset :: u8) else sint offset) imm, bs)"
proof -
  have "ucast (ucast rs :: u8) = rs" "ucast rs \<noteq> (4 :: u8)" "rs \<noteq> 5 \<Longrightarrow> ucast rs \<noteq> (5 :: u8)"
    using base_cases [OF assms(1)] assms(2) by auto
  then show ?thesis
    using assms
    by (simp add: mov_m_imm_8_bytes_def Let_def decode_x64_def decode_mem_def MODRM_fields of_le_bytes_le_bytes)
qed



text \<open>From \<open>0x80\<close> to \<open>0xFF\<close> the one-byte displacement is negative: the store goes 256 bytes below the member.\<close>

lemma mov_encoding_wraps:
  assumes "rs < 8" and "rs \<noteq> 4" and "0x7F < offset" and "offset \<le> 0xFF"
  shows "decode_x64 (mov_m_imm_8_bytes rs offset imm @ bs) = Some (Mov8 rs (int (unat offset) - 256) imm, bs)"
proof -
  have "offset \<noteq> 0" using assms(3) by (auto simp: word_less_nat_alt)
  then show ?thesis
    using assms(4) sint_high [OF assms(3,4)] by (simp add: decode_mov [OF assms(1,2)])
qed

text \<open>
  The comparison announces a one-byte displacement and writes four bytes: the processor compares with the
  second of them, and the other two and the constant are left as the next instruction.
\<close>

lemma cmp_encoding_off:
  assumes "rs < 8" and "rs \<noteq> 4" and "offset \<le> 0x7F"
  shows "decode_x64 (cmp_m_8_bytes rs offset imm @ bs) = Some (Cmp8 rs (int (unat offset)) 0, [0, 0, imm] @ bs)"
proof -
  have b: "ucast (ucast rs :: u8) = rs" "ucast rs \<noteq> (4 :: u8)" "rs \<noteq> 5 \<Longrightarrow> ucast rs \<noteq> (5 :: u8)"
    using base_cases [OF assms(1)] assms(2) by auto
  have "drop_bit 8 offset = 0"
    using assms(3) by (simp add: word_unat_eq_iff unat_drop_bit_div word_le_nat_alt)
  then have "le_bytes 4 offset = [ucast offset, 0, 0, 0]"
    by (simp add: le_bytes_4)
  then show ?thesis
    using b assms sint_small [OF assms(3)]
    by (simp add: cmp_m_8_bytes_def decode_x64_def decode_mem_def MODRM_fields)
qed

section \<open>What the emitter writes\<close>

definition holds :: "host_mem \<Rightarrow> host_ptr \<Rightarrow> u8 list \<Rightarrow> bool" where
  "holds h p bs \<longleftrightarrow> (\<forall>i < length bs. load_byte h (ptr_add p i) = Some (bs ! i))"

lemma emit_append: "emit prot (as @ bs) p h = do { (p, h) \<leftarrow> emit prot as p h; emit prot bs p h }"
proof (induction as arbitrary: p h)
  case (Cons a as)
  then show ?case by (cases "store_byte p a h") simp_all
qed simp

lemma emit_frame:
  "emit prot bs p h = Some (q, h') \<Longrightarrow> fst r \<noteq> fst p \<or> snd r < snd p \<Longrightarrow> load_byte h' r = load_byte h r"
proof (induction bs arbitrary: p h)
  case Nil
  then show ?case by simp
next
  case (Cons b bs)
  then obtain h1 where 1: "store_byte p b h = Some h1" "emit prot bs (ptr_add p 1) h1 = Some (q, h')"
    by (auto simp: bind_eq_Some_conv split: if_splits)
  have "load_byte h' r = load_byte h1 r"
    using Cons.IH [OF 1(2)] Cons.prems(2) by (auto simp: ptr_add_def)
  then show ?case
    using load_store_byte [OF 1(1), of r] Cons.prems(2) by auto
qed

lemma emit_writes:
  assumes "PROT_WRITE \<in> prot" and "snd p + length bs \<le> blk_size h (fst p)"
  shows "\<exists>h'. emit prot bs p h = Some (ptr_add p (length bs), h') \<and> blk_size h' = blk_size h \<and> holds h' p bs"
  using assms(2)
proof (induction bs arbitrary: p h)
  case Nil
  then show ?case by (simp add: ptr_add_def holds_def)
next
  case (Cons b bs)
  then have "valid_ptr h p" by (simp add: valid_ptr_def)
  then obtain h1 where 1: "store_byte p b h = Some h1" "blk_size h1 = blk_size h"
    using store_byte_valid by blast
  obtain h2 where 2: "emit prot bs (ptr_add p 1) h1 = Some (ptr_add (ptr_add p 1) (length bs), h2)"
      "blk_size h2 = blk_size h1" "holds h2 (ptr_add p 1) bs"
    using Cons.IH [of "ptr_add p 1" h1] Cons.prems 1(2) by (auto simp: ptr_add_def)
  have "load_byte h2 p = Some b"
    using emit_frame [OF 2(1), of p] load_store_byte [OF 1(1), of p] by (simp add: ptr_add_def)
  then have "holds h2 p (b # bs)"
    using 2(3) by (auto simp: holds_def nth_Cons ptr_add_def split: nat.splits)
  with 1 2 assms(1) show ?case by (simp add: ptr_add_def)
qed

section \<open>One instruction\<close>

text \<open>The code of one operation, and the code of an instruction.\<close>

definition op_code :: "cpu_layout \<Rightarrow> jit_op \<Rightarrow> u8 list" where
  "op_code lay opn =
     (if jit_oper_of opn = kClearFlag \<and> jit_destination opn = kFlagCarry
      then mov_m_imm_8_bytes REG_CPUSTATE (offset_carry lay) 0 else [])"

definition insn_code :: "cpu_layout \<Rightarrow> jit_op list \<Rightarrow> u8 list" where
  "insn_code lay ops = cmp_m_8_bytes REG_CPUSTATE (offset_interrupts lay) 3 @ concat (map (op_code lay) ops)"

lemma emit_op_code: "emit_op lay prot opn = emit prot (op_code lay opn)"
  by (intro ext) (auto simp: emit_op_def op_code_def mov_m_imm_8_def split: jit_oper.splits)

lemma emit_ops_code: "emit_ops lay prot ops p h = emit prot (concat (map (op_code lay) ops)) p h"
  by (induction ops arbitrary: p h) (simp_all add: emit_append emit_op_code split_def)

lemma JitFor_code:
  "JitFor lay same prot ops p h =
     do { resolved \<leftarrow> BuildOpsList same [] [] ops; (q, h) \<leftarrow> emit prot (insn_code lay resolved) p h; Some (0, h) }"
  by (simp add: JitFor_def EmitInstructionPrologue_def cmp_m_8_def insn_code_def emit_append emit_ops_code
      split_def)

lemma length_op_code: "length (op_code lay opn) \<le> 7"
  by (simp add: op_code_def mov_m_imm_8_bytes_def Let_def)

text \<open>One instruction is translated into the comparison of the interrupt flags and the code of each of its operations
  in order, wherever the buffer has room for them and can be written: these bytes lie at the place given, and the
  number of bytes that \<open>JitFor\<close> reports is 0 (so its caller never advances).\<close>

theorem JitFor_writes:
  assumes ops: "BuildOpsList same [] [] ops = Some resolved" and w: "PROT_WRITE \<in> prot"
    and room: "snd p + length (insn_code lay resolved) \<le> blk_size h (fst p)"
  shows "\<exists>h'. JitFor lay same prot ops p h = Some (0, h') \<and> blk_size h' = blk_size h \<and>
    holds h' p (insn_code lay resolved) \<and>
    (\<forall>r. fst r \<noteq> fst p \<or> snd r < snd p \<longrightarrow> load_byte h' r = load_byte h r)"
proof -
  obtain h' where e: "emit prot (insn_code lay resolved) p h = Some (ptr_add p (length (insn_code lay resolved)), h')"
      "blk_size h' = blk_size h" "holds h' p (insn_code lay resolved)"
    using emit_writes [OF w room] by blast
  then show ?thesis
    using emit_frame [OF e(1)] by (simp add: JitFor_code ops)
qed

lemma JitFor_writes_witness:
  "\<exists>h'. JitFor \<lparr>offset_interrupts = 64, offset_carry = 68\<rparr> (=) {PROT_WRITE} (op_jit CLC) (0, 0)
      \<lparr>blk_size = (\<lambda>_. 11), blk_data = (\<lambda>_ _. 0)\<rparr> = Some (0, h') \<and>
    holds h' (0, 0) [0x80, 0x7B, 64, 0, 0, 0, 3, 0xC6, 0x43, 68, 0]"
proof -
  have code: "insn_code \<lparr>offset_interrupts = 64, offset_carry = 68\<rparr>
      [JitOperation kClearFlag kFlagCarry 0 [], JitOperation kIncrementIP 0 1 []] =
    [0x80, 0x7B, 64, 0, 0, 0, 3, 0xC6, 0x43, 68, 0]"
    by (simp add: insn_code_def cmp_m_8_bytes_def mov_m_imm_8_bytes_def op_code_def REG_CPUSTATE_def RBX_def
        MODRM_def le_bytes_4)
  show ?thesis
    using JitFor_writes [of "(=)" "op_jit CLC"
        "[JitOperation kClearFlag kFlagCarry 0 [], JitOperation kIncrementIP 0 1 []]" "{PROT_WRITE}" "(0, 0)"
        "\<lparr>offset_interrupts = 64, offset_carry = 68\<rparr>" "\<lparr>blk_size = (\<lambda>_. 11), blk_data = (\<lambda>_ _. 0)\<rparr>"]
    unfolding code by (auto simp: CLC_def)
qed

section \<open>The operation lists of the CPU\<close>

text \<open>The list with every sublist put in its place.\<close>

fun flat_ops :: "jit_op list \<Rightarrow> jit_op list" where
  "flat_ops [] = []"
| "flat_ops (JitOperation opr dst src sub # ops) =
     (if opr = kEnd then []
      else if opr = kExecuteSublist then flat_ops sub @ flat_ops ops
      else JitOperation opr dst src sub # flat_ops ops)"

text \<open>
  Lists that end, and in which an operation marked \<open>kNoDuplicateList\<close> is the first of its list: it is
  never left out, because no sublist came before it.
\<close>

fun plain_ops :: "bool \<Rightarrow> jit_op list \<Rightarrow> bool" where
  "plain_ops first [] \<longleftrightarrow> False"
| "plain_ops first (JitOperation opr dst src sub # ops) \<longleftrightarrow>
     (if opr = kEnd then True
      else if opr = kExecuteSublist then
        (first \<or> src AND kNoDuplicateList = 0) \<and> plain_ops True sub \<and> plain_ops False ops
      else plain_ops False ops)"

lemma BuildOpsList_plain:
  "plain_ops first ops \<Longrightarrow> (first \<Longrightarrow> subs = []) \<Longrightarrow>
   BuildOpsList same subs resolved ops = Some (resolved @ flat_ops ops)"
proof (induction same subs resolved ops arbitrary: first rule: BuildOpsList.induct)
  case (1 same subs resolved)
  then show ?case by simp
next
  case (2 same subs resolved opr dst src sub ops)
  then show ?case by (cases first) auto
qed

text \<open>A list that is plain and clears the carry at most \<open>n\<close> times.\<close>

definition clears :: "jit_op list \<Rightarrow> nat" where
  "clears ops = length (filter (\<lambda>opn. jit_oper_of opn = kClearFlag) (flat_ops ops))"

definition mode_read_ok :: "'d addr_mode \<Rightarrow> bool" where
  "mode_read_ok m \<longleftrightarrow> (\<forall>r. plain_ops True (am_ReadOp m r) \<and> clears (am_ReadOp m r) = 0)"

definition mode_write_ok :: "'d addr_mode \<Rightarrow> bool" where
  "mode_write_ok m \<longleftrightarrow> (\<forall>r. plain_ops True (am_WriteOp m r) \<and> clears (am_WriteOp m r) = 0)"

definition jit_ok :: "'d op \<Rightarrow> bool" where
  "jit_ok op \<longleftrightarrow> plain_ops True (op_jit op) \<and> clears (op_jit op) \<le> 1"

lemma clears_sublists [simp]:
  "clears [] = 0"
  "clears (JitOperation opr dst src sub # ops) =
     (if opr = kEnd then 0 else if opr = kExecuteSublist then clears sub + clears ops
      else (if opr = kClearFlag then 1 else 0) + clears ops)"
  by (simp_all add: clears_def)

lemmas jit_list_defs = op24_ReadOp_def op24_WriteOp_def op16zero_ReadOp_def op16zero_WriteOp_def abs_x_EffAddr_def

lemma modes_read_jit [simp]:
  "mode_read_ok (AddrA A XY)" "mode_read_ok (AddrAbs A XY)" "mode_read_ok (AddrAbsX A XY c)"
  "mode_read_ok (AddrAbsY A XY c)" "mode_read_ok (AddrAbsLong A XY)" "mode_read_ok (AddrAbsLongX A XY)"
  "mode_read_ok (AddrDirect A XY e)" "mode_read_ok (AddrDirectX A XY e)" "mode_read_ok (AddrDirectY A XY e)"
  "mode_read_ok (AddrDirectIndirect A XY)" "mode_read_ok (AddrDirectIndirectX A XY e)" "mode_read_ok (AddrDirectIndirectY A XY c e)"
  "mode_read_ok (AddrDirectIndirectLong A XY)" "mode_read_ok (AddrDirectIndirectLongY A XY)" "mode_read_ok (AddrStack A XY)"
  "mode_read_ok (AddrStackY A XY)" "mode_read_ok (AddrImm A XY E)"
  by (simp_all add: mode_read_ok_def mode_defs jit_list_defs Let_def)

lemma modes_write_jit [simp]:
  "mode_write_ok (AddrA A XY)" "mode_write_ok (AddrAbs A XY)" "mode_write_ok (AddrAbsX A XY c)"
  "mode_write_ok (AddrAbsY A XY c)" "mode_write_ok (AddrAbsLong A XY)" "mode_write_ok (AddrAbsLongX A XY)"
  "mode_write_ok (AddrDirect A XY e)" "mode_write_ok (AddrDirectX A XY e)" "mode_write_ok (AddrDirectY A XY e)"
  "mode_write_ok (AddrDirectIndirect A XY)" "mode_write_ok (AddrDirectIndirectX A XY e)" "mode_write_ok (AddrDirectIndirectY A XY c e)"
  "mode_write_ok (AddrDirectIndirectLong A XY)" "mode_write_ok (AddrDirectIndirectLongY A XY)" "mode_write_ok (AddrStack A XY)"
  "mode_write_ok (AddrStackY A XY)"
  by (simp_all add: mode_write_ok_def mode_defs jit_list_defs Let_def)

lemma operand_ops_jit [simp]:
  assumes "mode_read_ok m"
  shows "jit_ok (OpTsb m)" "jit_ok (OpTrb m)" "jit_ok (OpBit m)"
    "jit_ok (OpBitImm m)" "jit_ok (OpOr m)" "jit_ok (OpAnd m)" "jit_ok (OpXor m)"
    "mode_write_ok m \<Longrightarrow> jit_ok (OpAsl m)" "jit_ok (OpLsr m)" "jit_ok (OpRor m)" "jit_ok (OpRol m)"
    "jit_ok (OpIncMem m)" "jit_ok (OpDecMem m)" "jit_ok (LDA m)" "jit_ok (LDX m)"
    "jit_ok (LDY m)" "jit_ok (STA m)" "jit_ok (STX m)" "jit_ok (STY m)"
    "jit_ok (STZ m)" "jit_ok (OpAdc m)" "jit_ok (OpSbc m)" "jit_ok (OpCmp m)"
    "jit_ok (OpCpx m)" "jit_ok (OpCpy m)" "jit_ok (LAX m)" "jit_ok (SAX m)"
  using assms by (simp_all add: jit_ok_def mode_read_ok_def mode_write_ok_def op_defs)

lemma other_ops_jit [simp]:
  "jit_ok CLC" "jit_ok SEC" "jit_ok CLI" "jit_ok SEI" "jit_ok CLD"
  "jit_ok SED" "jit_ok CLV" "jit_ok XBA" "jit_ok XCE" "jit_ok OpNOP"
  "jit_ok (n6502_NOP n m)" "jit_ok OpWDM" "jit_ok WAI" "jit_ok STP" "jit_ok BRK"
  "jit_ok COP" "jit_ok ALR" "jit_ok ANC" "jit_ok (INX A XY)" "jit_ok (INY A XY)"
  "jit_ok (INA A XY)" "jit_ok (DEX A XY)" "jit_ok (DEY A XY)" "jit_ok (DEA A XY)" "jit_ok (TAX A XY)"
  "jit_ok (TAY A XY)" "jit_ok (TSX A XY)" "jit_ok (TXA A XY)" "jit_ok (TXY A XY)" "jit_ok (TYA A XY)"
  "jit_ok (TYX A XY)" "jit_ok (TCD A XY)" "jit_ok (TDC A XY)" "jit_ok (TSC A XY)" "jit_ok (TXS e)"
  "jit_ok (TCS e)" "jit_ok (PHA w)" "jit_ok PHD" "jit_ok (PHX w)" "jit_ok (PHY w)"
  "jit_ok (PLA w)" "jit_ok PLD" "jit_ok (PLX w)" "jit_ok (PLY w)" "jit_ok PHP"
  "jit_ok PLP" "jit_ok PHK" "jit_ok PHB" "jit_ok PLB" "jit_ok RTS"
  "jit_ok RTL" "jit_ok RTI" "jit_ok JMP_ABS" "jit_ok JMP_LONG" "jit_ok JMP_INDABS"
  "jit_ok JMP_INDABS_LEGACY" "jit_ok JMP_INDABSX" "jit_ok JMP_INDLONG" "jit_ok JSR_ABS" "jit_ok JSR_LONG"
  "jit_ok JSR_INDABSX" "jit_ok REP" "jit_ok SEP" "jit_ok PEA" "jit_ok PEI"
  "jit_ok PER" "jit_ok BRL" "jit_ok MVN" "jit_ok MVP" "jit_ok BCC"
  "jit_ok BCS" "jit_ok BEQ" "jit_ok BMI" "jit_ok BNE" "jit_ok BPL"
  "jit_ok BRA" "jit_ok BVC" "jit_ok BVS"
  by (simp_all add: jit_ok_def implied_op_defs jump_op_defs operand_op_defs Let_def)

lemma tables_jit:
  "list_all jit_ok (ops_native A XY)"
  "list_all jit_ok ops_emulation"
  "list_all (pred_option jit_ok) ops_6502"
  by (simp_all add: ops_native_def ops_emulation_def ops_6502_def)

lemma exec_ops_jit: "list_all (list_all (pred_option jit_ok)) (exec_ops :: 'd op option list list)"
  by (simp add: exec_ops_def list.pred_map o_def tables_jit)

lemma op_at_jit: "op_at mode opc = Some op \<Longrightarrow> jit_ok op"
  by (rule op_at_all [OF _ exec_ops_jit])

lemma length_op_codes:
  "length (concat (map (op_code lay) ops)) \<le> 7 * length (filter (\<lambda>opn. jit_oper_of opn = kClearFlag) ops)"
proof (induction ops)
  case Nil
  then show ?case by simp
next
  case (Cons a ops)
  have "jit_oper_of a \<noteq> kClearFlag \<Longrightarrow> op_code lay a = []" by (simp add: op_code_def)
  with Cons length_op_code [of lay a] show ?case by auto
qed

lemma op_at_code:
  assumes "op_at mode opc = Some op"
  shows "BuildOpsList same [] [] (op_jit op) = Some (flat_ops (op_jit op))"
    and "length (insn_code lay (flat_ops (op_jit op))) \<le> 14"
proof -
  have ok: "plain_ops True (op_jit op)" "clears (op_jit op) \<le> 1"
    using op_at_jit [OF assms] by (simp_all add: jit_ok_def)
  then show "BuildOpsList same [] [] (op_jit op) = Some (flat_ops (op_jit op))"
    using BuildOpsList_plain by fastforce
  have "7 * clears (op_jit op) \<le> 7" using ok(2) by simp
  with length_op_codes [of lay "flat_ops (op_jit op)"]
  have "length (concat (map (op_code lay) (flat_ops (op_jit op)))) \<le> 7"
    unfolding clears_def by linarith
  then show "length (insn_code lay (flat_ops (op_jit op))) \<le> 14"
    by (simp add: insn_code_def cmp_m_8_bytes_def)
qed

text \<open>C34: The translator accepts every instruction of the CPU: for each entry of the six tables the flattening of
  its operation list ends without leaving anything out, whatever lists share an address, and the code of the
  instruction is at most 14 bytes, so that it fits wherever the loop of \<open>JitDoJitAt\<close> goes on (32 bytes left).\<close>

theorem every_instruction_flattens:
  assumes "op_at mode opc = Some op"
  shows "BuildOpsList same [] [] (op_jit op) = Some (flat_ops (op_jit op)) \<and>
    length (insn_code lay (flat_ops (op_jit op))) \<le> 14"
  using op_at_code [OF assms] by simp

lemma every_instruction_flattens_witness:
  "BuildOpsList (=) [] [] (op_jit (OpOr (AddrImm W8 W8 W8) :: unit op)) =
    Some (flat_ops (op_jit (OpOr (AddrImm W8 W8 W8) :: unit op)))"
proof -
  have "op_at 0 9 = Some (OpOr (AddrImm W8 W8 W8) :: unit op)"
    by (simp add: op_at_def exec_ops_def ops_native_def)
  from every_instruction_flattens [OF this] show ?thesis by simp
qed

end
