(* ===== verification/Jit_Pages.thy ===== *)
theory Jit_Pages
  imports Jit_Laws Cpu_Stack
begin

text \<open>
  The pages of the translator: the typing of entry points and code buffers, which every translation
  keeps, and \<open>Execute\<close>, which reaches translated code.
\<close>

section \<open>Pages\<close>

text \<open>
  The typing of the translator: masks that belong to the page size, and pages with an entry for every byte,
  each either the address of \<open>x64Unjitted\<close> or an address in one of the page's buffers; the buffers are
  executable and cannot be written.
\<close>

definition memory_wf :: "jit_memory \<Rightarrow> bool" where
  "memory_wf m \<longleftrightarrow> region_wf (jm_buffer m) \<and> jm_bytes m = mm_ptr (jm_buffer m) \<and>
     mm_size (jm_buffer m) < 2 ^ 32 \<and> jm_size m = of_nat (mm_size (jm_buffer m)) \<and> jm_write_ptr m < jm_size m"

definition in_memory :: "code_addr \<Rightarrow> jit_memory \<Rightarrow> bool" where
  "in_memory e m \<longleftrightarrow> (\<exists>k < mm_size (jm_buffer m). e = Code (ptr_add (mm_ptr (jm_buffer m)) k))"

definition entries_wf :: "jit_x64 \<Rightarrow> jit_page \<Rightarrow> bool" where
  "entries_wf j page \<longleftrightarrow> length (entrypoints page) = unat (jit_page_size j) \<and>
     (\<forall>m \<in> set (memory_list page). memory_wf m) \<and>
     (\<forall>e \<in> set (entrypoints page). e = x64Unjitted \<or> (\<exists>m \<in> set (memory_list page). in_memory e m))"

definition executable :: "jit_page \<Rightarrow> bool" where
  "executable page \<longleftrightarrow> (\<forall>m \<in> set (memory_list page). mm_executable (jm_buffer m))"

definition page_wf :: "jit_x64 \<Rightarrow> jit_page \<Rightarrow> bool" where
  "page_wf j page \<longleftrightarrow> entries_wf j page \<and> executable page"

definition jit_wf :: "jit_x64 \<Rightarrow> bool" where
  "jit_wf j \<longleftrightarrow> jit_page_size j \<noteq> 0 \<and> jit_page_mask j = jit_page_size j - 1 \<and>
     jit_inv_page_mask j = NOT (jit_page_mask j) \<and> (\<forall>key page. jit_pages j key = Some page \<longrightarrow> page_wf j page)"

lemma jit_wf_JitX64: "page_size (memory (sysbus s)) \<noteq> 0 \<Longrightarrow> jit_wf (JitX64 s)"
  by (simp add: jit_wf_def JitX64_def Let_def)

lemma page_index_in: "jit_wf j \<Longrightarrow> unat (a AND jit_page_mask j) < unat (jit_page_size j)"
proof -
  assume "jit_wf j"
  then have m: "jit_page_mask j = jit_page_size j - 1" and n: "jit_page_size j \<noteq> 0" by (simp_all add: jit_wf_def)
  have "unat (jit_page_size j - 1) < unat (jit_page_size j)"
    using n by (simp add: unat_minus_one unat_gt_0)
  with unat_and_mask_le [of a "jit_page_mask j"] show ?thesis by (simp add: m)
qed

text \<open>What the loop does to the page: its entry at the index, if anything.\<close>

lemma loop_entries:
  "JitDoJitAt_loop lay same io prot i a n p room page s = Some (page', s') \<Longrightarrow>
   memory_list page' = memory_list page \<and> length (entrypoints page') = length (entrypoints page) \<and>
   set (entrypoints page') \<subseteq> insert (Code p) (set (entrypoints page))"
proof (induction n arbitrary: p room page s)
  case 0
  then show ?case by auto
next
  case (Suc n)
  show ?case
  proof (cases "32 < room")
    case False
    then show ?thesis using Suc.prems by auto
  next
    case True
    with Suc.prems obtain ops s1 r h page1 where
      1: "JitFor lay same prot ops p (host s1) = Some (r, h)" "set_entry i (Code p) page = Some page1"
        "JitDoJitAt_loop lay same io prot i a n (ptr_add p (nat r)) (room - of_int r) page1 (s1\<lparr>host := h\<rparr>) = Some (page', s')"
      by (auto simp: bind_eq_Some_conv)
    have "r = 0" using 1(1) by (auto simp: JitFor_def bind_eq_Some_conv)
    then have "ptr_add p (nat r) = p" by (simp add: ptr_add_def)
    with Suc.IH [OF 1(3)] 1(2) show ?thesis
      by (auto simp: set_entry_def split: if_splits dest!: set_update_subset_insert [THEN subsetD])
  qed
qed

lemma region_frame [simp]:
  "mm_ptr (Mmap_MapForWrite mp m) = mm_ptr m" "mm_size (Mmap_MapForWrite mp m) = mm_size m"
  "mm_ptr (Mmap_MapForExecute mp m) = mm_ptr m" "mm_size (Mmap_MapForExecute mp m) = mm_size m"
  by (simp_all add: region_defs)

lemma in_memory_buffer [simp]:
  "mm_ptr r = mm_ptr (jm_buffer m) \<Longrightarrow> mm_size r = mm_size (jm_buffer m) \<Longrightarrow>
   in_memory e (m\<lparr>jm_buffer := r\<rparr>) = in_memory e m"
  by (simp add: in_memory_def)

lemma memory_wf_buffer:
  "memory_wf m \<Longrightarrow> mm_ptr r = mm_ptr (jm_buffer m) \<Longrightarrow> mm_size r = mm_size (jm_buffer m) \<Longrightarrow> region_wf r \<Longrightarrow>
   memory_wf (m\<lparr>jm_buffer := r\<rparr>)"
  unfolding memory_wf_def by auto

lemma memory_list_split: "memory_list page \<noteq> [] \<Longrightarrow>
    set (memory_list page) = insert (last (memory_list page)) (set (butlast (memory_list page)))"
  by (metis append_butlast_last_id list.simps(15) rotate1.simps(2) set_rotate1)

lemma entries_wf_on_last:
  assumes "entries_wf j page" and "memory_list page \<noteq> []"
    and "\<And>m. mm_ptr (f m) = mm_ptr m" and "\<And>m. mm_size (f m) = mm_size m" and "\<And>m. region_wf m \<Longrightarrow> region_wf (f m)"
  shows "entries_wf j (on_last f page)"
proof -
  let ?l = "last (memory_list page)"
  have l: "memory_wf ?l" using assms(1,2) by (simp add: entries_wf_def)
  then have "region_wf (f (jm_buffer ?l))" using assms(5) by (simp add: memory_wf_def)
  then have "memory_wf (?l\<lparr>jm_buffer := f (jm_buffer ?l)\<rparr>)"
    by (rule memory_wf_buffer [OF l assms(3,4)])
  then show ?thesis
    using assms by (auto simp: entries_wf_def on_last_def memory_list_split [OF assms(2)])
qed

lemma new_buffer_wf:
  assumes "new_buffer alloc page s = Some (page', s')" and "entries_wf j page"
  shows "entries_wf j page'" "memory_list page' \<noteq> []"
    "executable page \<Longrightarrow> m \<in> set (butlast (memory_list page')) \<Longrightarrow> mm_executable (jm_buffer m)"
proof -
  have cases: "page' = page \<and> memory_list page \<noteq> [] \<or>
      (\<exists>mem. page' = page\<lparr>memory_list := memory_list page @ [JitMemory (Mmap mem 4096 {PROT_WRITE, PROT_READ})]\<rparr>)"
    using assms(1)
    by (auto simp: new_buffer_def Create_anonymous_def GetNativeSize_def Let_def bind_eq_Some_conv
        split: if_splits option.splits)
  have new: "memory_wf (JitMemory (Mmap mem 4096 {PROT_WRITE, PROT_READ}))" for mem
    by (auto simp: memory_wf_def JitMemory_def Mmap_def region_wf_def)
  show "entries_wf j page'"
    using cases assms(2) new by (auto simp: entries_wf_def)
  show "memory_list page' \<noteq> []"
    using cases by auto
  show "executable page \<Longrightarrow> m \<in> set (butlast (memory_list page')) \<Longrightarrow> mm_executable (jm_buffer m)"
    using cases by (auto simp: executable_def dest: in_set_butlastD)
qed

lemma JitDoJitAt_wf:
  assumes run: "JitDoJitAt E page a j s = Some (page', s')" and mp: "always_protects (env_protect E)"
    and page: "entries_wf j page" "executable page"
  shows "page_wf j page'"
proof -
  let ?w = "Mmap_MapForWrite (env_protect E)" and ?x = "Mmap_MapForExecute (env_protect E)"
  obtain page1 s1 where 1: "new_buffer (env_alloc E) page s = Some (page1, s1)"
    using run by (auto simp: JitDoJitAt_def bind_eq_Some_conv)
  define page2 where "page2 = on_last ?w page1"
  define m where "m = last (memory_list page2)"
  have ne: "memory_list page1 \<noteq> []" "memory_list page2 \<noteq> []"
    using new_buffer_wf(2) [OF 1 page(1)] by (simp_all add: page2_def on_last_def)
  obtain page3 where 3: "JitDoJitAt_loop (env_layout E) (env_same E) (env_io E) (mm_prot (jm_buffer m))
      (unat (a AND jit_page_mask j)) a (unat (maximum_trace_length j)) (ptr_add (jm_bytes m) (unat (jm_write_ptr m)))
      (write_bytes_left m) page2 s1 = Some (page3, s')" "page' = on_last ?x page3"
    using run 1 by (auto simp: JitDoJitAt_def bind_eq_Some_conv Let_def page2_def m_def)
  have wf2: "entries_wf j page2"
    unfolding page2_def using region_wf_serve [OF mp, of _ Map_for_write]
    by (intro entries_wf_on_last new_buffer_wf(1) [OF 1 page(1)] ne) simp_all
  have m: "m \<in> set (memory_list page2)" using ne(2) by (simp add: m_def)
  then have "memory_wf m" using wf2 by (simp add: entries_wf_def)
  then have "in_memory (Code (ptr_add (jm_bytes m) (unat (jm_write_ptr m)))) m"
    by (auto simp: memory_wf_def in_memory_def word_less_nat_alt take_bit_nat_eq_self unat_of_nat)
  with loop_entries [OF 3(1)] wf2 m have wf3: "entries_wf j page3"
    by (auto simp: entries_wf_def)
  have ml: "memory_list page3 = memory_list page2" using loop_entries [OF 3(1)] by simp
  have "entries_wf j page'"
    unfolding 3(2) using region_wf_serve [OF mp, of _ Map_for_execute] ne(2) ml
    by (intro entries_wf_on_last wf3) simp_all
  moreover have "executable page'"
    using new_buffer_wf(3) [OF 1 page]
    by (auto simp: executable_def 3(2) ml on_last_def page2_def region_defs)
  ultimately show ?thesis by (simp add: page_wf_def)
qed

lemma page_wf_cong:
  "jit_page_size j' = jit_page_size j \<Longrightarrow> page_wf j' = page_wf j"
  by (simp add: page_wf_def entries_wf_def fun_eq_iff)

lemma jit_wf_page: "jit_wf j \<Longrightarrow> page_wf j page \<Longrightarrow> jit_wf (j\<lparr>jit_pages := (jit_pages j)(key := Some page)\<rparr>)"
  by (auto simp: jit_wf_def page_wf_def entries_wf_def)

lemma JitNewPageAt_wf:
  assumes run: "JitNewPageAt E a j s = Some (j', s')" and mp: "always_protects (env_protect E)" and wf: "jit_wf j"
  shows "jit_wf j'"
proof -
  let ?key = "page_key (cpu_mode s) a j" and ?n = "unat (jit_page_size j)"
  define old where "old = (case jit_pages j ?key of None \<Rightarrow> JitPage | Some page \<Rightarrow> page)"
  define page where "page = old\<lparr>entrypoints := take ?n (entrypoints old) @ replicate (?n - length (entrypoints old)) x64Unjitted\<rparr>"
  have old: "(\<forall>m \<in> set (memory_list old). memory_wf m) \<and> executable old \<and>
      (\<forall>e \<in> set (entrypoints old). e = x64Unjitted \<or> (\<exists>m \<in> set (memory_list old). in_memory e m))"
    using wf by (auto simp: old_def JitPage_def executable_def jit_wf_def page_wf_def entries_wf_def split: option.splits)
  have "entries_wf j page" "executable page"
    using old by (auto simp: page_def entries_wf_def executable_def dest: in_set_takeD)
  moreover obtain page' where 1: "JitDoJitAt E page a (snd (FindPage (cpu_mode s) a True j)) s = Some (page', s')"
      "j' = (snd (FindPage (cpu_mode s) a True j))\<lparr>jit_pages :=
        (jit_pages (snd (FindPage (cpu_mode s) a True j)))(?key := Some page')\<rparr>"
    using run
    by (auto simp: JitNewPageAt_def FindPage_def jit_page_at_def page_def old_def Let_def page_key_def bind_eq_Some_conv
        split: option.splits)
  moreover have j: "jit_page_size (snd (FindPage (cpu_mode s) a True j)) = jit_page_size j"
      "entries_wf (snd (FindPage (cpu_mode s) a True j)) = entries_wf j"
    by (auto simp: FindPage_def Let_def entries_wf_def fun_eq_iff split: option.split)
  ultimately have "page_wf j page'"
    using JitDoJitAt_wf [OF 1(1) mp] page_wf_cong [OF j(1)] by simp
  moreover have "j' = j\<lparr>jit_pages := (jit_pages j)(?key := Some page')\<rparr>"
    by (simp add: 1(2) FindPage_def Let_def split: option.split)
  ultimately show ?thesis by (simp add: jit_wf_page [OF wf])
qed

text \<open>On a page that exists the request for an untranslated byte is typed as well; on one that does not, its
  vector of entry points is empty and there is no entry to set.\<close>

lemma JitUnjitted_wf:
  assumes run: "JitUnjitted E j s = Some (j', s')" and mp: "always_protects (env_protect E)" and wf: "jit_wf j"
    and page: "jit_pages j (page_key (cpu_mode s) (jit_ip s) j) = Some page"
  shows "jit_wf j'"
proof -
  obtain page' where 1: "JitDoJitAt E page (jit_ip s) j s = Some (page', s')"
      "j' = j\<lparr>jit_pages := (jit_pages j)(page_key (cpu_mode s) (jit_ip s) j := Some page')\<rparr>"
    using run page by (auto simp: JitUnjitted_def FindPage_def jit_page_at_def Let_def bind_eq_Some_conv)
  have "page_wf j page" using wf page by (simp add: jit_wf_def)
  then have "page_wf j page'" using JitDoJitAt_wf [OF 1(1) mp] by (simp add: page_wf_def)
  then show ?thesis by (simp add: 1(2) jit_wf_page [OF wf])
qed

text \<open>C32: The translator keeps its typing.  \<open>jit_wf\<close>: every page has one entry per byte, each the address of
  \<open>x64Unjitted\<close> or one inside a buffer of that page, and every buffer is mapped executable and not writable.  It holds
  of a new \<open>JitX64\<close> and is kept by the translation of a new page and by that of an untranslated byte of a page.\<close>

theorem jit_typing:
  assumes mp: "always_protects (env_protect E)"
  shows "(page_size (memory (sysbus s)) \<noteq> 0 \<longrightarrow> jit_wf (JitX64 s)) \<and>
    (jit_wf j \<longrightarrow>
      (case JitNewPageAt E a j s of None \<Rightarrow> True | Some (j', _) \<Rightarrow> jit_wf j') \<and>
      (case (jit_pages j (page_key (cpu_mode s) (jit_ip s) j), JitUnjitted E j s) of
         (Some _, Some (j', _)) \<Rightarrow> jit_wf j' | _ \<Rightarrow> True))"
  using jit_wf_JitX64 [of s] JitNewPageAt_wf [OF _ mp, of a j s] JitUnjitted_wf [OF _ mp, of j s]
  by (auto split: option.split)

section \<open>Execution\<close>

lemma GetJit_ram:
  assumes "ram_ptr s a = Some q" and "op_at (unat (cpu_mode s)) (ram_byte s q) = Some (op :: 'd op)"
  shows "GetJit io a (s :: 'd machine) = Some (op_jit op, set_open_bus (ram_byte s q) s)"
  using assms by (simp add: GetJit_def PeekU8_def ReadByte_ram set_open_bus_def)

lemma open_bus_twice [simp]:
  "set_open_bus v ((set_open_bus v s)\<lparr>host := h\<rparr>) = (set_open_bus v s)\<lparr>host := h\<rparr>"
  "(set_open_bus v s)\<lparr>host := h\<rparr> = set_open_bus v (s\<lparr>host := h\<rparr>)"
  "set_open_bus v (set_open_bus v s) = set_open_bus v s"
  by (simp_all add: set_open_bus_def)

lemma load_byte_same:
  "blk_size h = blk_size k \<Longrightarrow> load_byte h q = load_byte k q \<Longrightarrow> valid_ptr k q \<Longrightarrow> blk_data h (fst q) (snd q) = blk_data k (fst q) (snd q)"
  by (simp add: load_byte_def valid_ptr_def)

lemma ram_ptr_valid: "ram_ptr s a = Some q \<Longrightarrow> valid_ptr (host s) q"
  by (auto simp: ram_ptr_def Let_def split: option.splits if_splits)

lemma JitFor_step:
  assumes op: "op_at mode opc = Some op" and w: "PROT_WRITE \<in> prot" and room: "snd p + 14 \<le> blk_size h (fst p)"
  obtains h' where "JitFor lay same prot (op_jit op) p h = Some (0, h')" "blk_size h' = blk_size h"
    "holds h' p (insn_code lay (flat_ops (op_jit op)))" "\<And>r. fst r \<noteq> fst p \<Longrightarrow> load_byte h' r = load_byte h r"
proof -
  note code = op_at_code [OF op]
  have fits: "snd p + length (insn_code lay (flat_ops (op_jit op))) \<le> blk_size h (fst p)"
    using code(2) [of lay] room by linarith
  obtain h' where h: "emit prot (insn_code lay (flat_ops (op_jit op))) p h =
        Some (ptr_add p (length (insn_code lay (flat_ops (op_jit op)))), h')"
      "blk_size h' = blk_size h" "holds h' p (insn_code lay (flat_ops (op_jit op)))"
    using emit_writes [OF w fits] by blast
  show thesis
    by (rule that [of h']) (use h emit_frame [OF h(1)] in \<open>simp_all add: JitFor_code code(1)\<close>)
qed

lemma JitDoJitAt_loop_ram:
  fixes s :: "'d machine"
  assumes "ram_ptr s a = Some q" and "ram_byte s q = v" and "op_at (unat (cpu_mode s)) v = Some (op :: 'd op)"
    and w: "PROT_WRITE \<in> prot" and room: "32 < room" and p: "snd p + 14 \<le> blk_size (host s) (fst p)"
    and other: "fst q \<noteq> fst p" and "i < length (entrypoints page)"
  shows "\<exists>h. JitDoJitAt_loop lay same io prot i a (Suc n) p room page s =
      Some (page\<lparr>entrypoints := (entrypoints page)[i := Code p]\<rparr>, set_open_bus v (s\<lparr>host := h\<rparr>)) \<and>
    blk_size h = blk_size (host s) \<and> holds h p (insn_code lay (flat_ops (op_jit op)))"
  using assms
proof (induction n arbitrary: s page)
  case (0 s page)
  obtain h where "JitFor lay same prot (op_jit op) p (host s) = Some (0, h)" "blk_size h = blk_size (host s)"
      "holds h p (insn_code lay (flat_ops (op_jit op)))"
    by (rule JitFor_step [OF 0(3) w 0(6)])
  with 0 have "JitDoJitAt_loop lay same io prot i a (Suc 0) p room page s =
      Some (page\<lparr>entrypoints := (entrypoints page)[i := Code p]\<rparr>, set_open_bus v (s\<lparr>host := h\<rparr>))"
    by (simp add: GetJit_ram set_entry_def)
  with \<open>blk_size h = _\<close> \<open>holds h p _\<close> show ?case by blast
next
  case (Suc n s page)
  obtain h where h: "JitFor lay same prot (op_jit op) p (host s) = Some (0, h)" "blk_size h = blk_size (host s)"
      "holds h p (insn_code lay (flat_ops (op_jit op)))" "\<And>r. fst r \<noteq> fst p \<Longrightarrow> load_byte h r = load_byte (host s) r"
    using JitFor_step [OF Suc.prems(3) w Suc.prems(6), where lay = lay and same = same] by blast
  define t where "t = set_open_bus v (s\<lparr>host := h\<rparr>)"
  define page1 where "page1 = page\<lparr>entrypoints := (entrypoints page)[i := Code p]\<rparr>"
  have step: "JitDoJitAt_loop lay same io prot i a (Suc (Suc n)) p room page s =
      JitDoJitAt_loop lay same io prot i a (Suc n) p room page1 t"
    using Suc.prems h(1) by (simp add: GetJit_ram set_entry_def t_def page1_def ptr_add_def del: JitDoJitAt_loop.simps(2)
        add: JitDoJitAt_loop.simps(2) [where n = "Suc n"])
  have "ram_ptr t a = Some q"
    using Suc.prems(1) h(2) by (simp add: t_def ram_ptr_host)
  moreover have "ram_byte t q = v"
    using Suc.prems(2) load_byte_same [OF h(2) h(4) [OF Suc.prems(7)] ram_ptr_valid [OF Suc.prems(1)]]
    by (simp add: t_def ram_byte_def)
  moreover have "cpu_mode t = cpu_mode s" "host t = h"
    by (simp_all add: t_def set_open_bus_def)
  ultimately obtain k where "JitDoJitAt_loop lay same io prot i a (Suc n) p room page1 t =
      Some (page1\<lparr>entrypoints := (entrypoints page1)[i := Code p]\<rparr>, set_open_bus v (t\<lparr>host := k\<rparr>)) \<and>
    blk_size k = blk_size (host t) \<and> holds k p (insn_code lay (flat_ops (op_jit op)))"
    using Suc.IH [of t page1] Suc.prems h(2) by (auto simp: page1_def)
  with step h(2) \<open>host t = h\<close> show ?case
    by (auto simp: page1_def t_def)
qed

lemma ram_ptr_new_block:
  assumes "ram_ptr s a = Some q" and "fst q \<noteq> b"
  shows "ram_ptr (s\<lparr>host := NativeMemory_Create b n (host s)\<rparr>) a = Some q"
    "ram_byte (s\<lparr>host := NativeMemory_Create b n (host s)\<rparr>) q = ram_byte s q"
  using assms
  by (auto simp: ram_ptr_def ram_byte_def NativeMemory_Create_def valid_ptr_def ptr_add_def Let_def
      split: option.splits if_splits)

text \<open>The translation of code in plain memory, in a page that has no translation yet.\<close>

lemma JitNewPageAt_ram:
  fixes s :: "'d machine"
  assumes code: "ram_ptr s a = Some q" "op_at (unat (cpu_mode s)) (ram_byte s q) = Some (op :: 'd op)"
    and mp: "always_protects (env_protect E)" and wf: "jit_wf j" and trace: "maximum_trace_length j \<noteq> 0"
    and new: "jit_pages j (page_key (cpu_mode s) a j) = None"
    and alloc: "env_alloc E GetNativeSize s = Some (b, 0)" "fst q \<noteq> b"
  shows "\<exists>j' h page. JitNewPageAt E a j s = Some (j', set_open_bus (ram_byte s q) (s\<lparr>host := h\<rparr>)) \<and>
    j' = j\<lparr>jit_pages := (jit_pages j)(page_key (cpu_mode s) a j := Some page)\<rparr> \<and>
    length (entrypoints page) = unat (jit_page_size j) \<and>
    entrypoints page ! unat (a AND jit_page_mask j) = Code (b, 0) \<and>
    holds h (b, 0) (insn_code (env_layout E) (flat_ops (op_jit op)))"
proof -
  define i where "i = unat (a AND jit_page_mask j)"
  define region where "region = Mmap (b, 0) 4096 {PROT_WRITE, PROT_READ}"
  define page where "page = \<lparr>entrypoints = replicate (unat (jit_page_size j)) x64Unjitted, memory_list = [JitMemory region]\<rparr>"
  define t where "t = s\<lparr>host := NativeMemory_Create b 4096 (host s)\<rparr>"
  obtain n where n: "unat (maximum_trace_length j) = Suc n"
    using trace by (metis not0_implies_Suc unat_eq_zero)
  have i: "i < unat (jit_page_size j)" unfolding i_def by (rule page_index_in [OF wf])
  have "ram_ptr t a = Some q" "ram_byte t q = ram_byte s q"
    unfolding t_def by (rule ram_ptr_new_block [OF code(1) alloc(2)])+
  moreover have "cpu_mode t = cpu_mode s" "4096 = blk_size (host t) b"
    by (simp_all add: t_def NativeMemory_Create_def)
  ultimately obtain h where h: "JitDoJitAt_loop (env_layout E) (env_same E) (env_io E) {PROT_WRITE, PROT_READ} i a (Suc n)
      (b, 0) 4096 page t = Some (page\<lparr>entrypoints := (entrypoints page)[i := Code (b, 0)]\<rparr>,
        set_open_bus (ram_byte s q) (t\<lparr>host := h\<rparr>))"
      "holds h (b, 0) (insn_code (env_layout E) (flat_ops (op_jit op)))"
    using JitDoJitAt_loop_ram [of t a q "ram_byte s q" op "{PROT_WRITE, PROT_READ}" 4096 "(b, 0)" i page
        "env_layout E" "env_same E" "env_io E" n] code(2) alloc(2) i
    by (auto simp: page_def)
  define page' where "page' = on_last (Mmap_MapForExecute (env_protect E)) (page\<lparr>entrypoints := (entrypoints page)[i := Code (b, 0)]\<rparr>)"
  have "JitNewPageAt E a j s = Some (j\<lparr>jit_pages := (jit_pages j)(page_key (cpu_mode s) a j := Some page')\<rparr>,
      set_open_bus (ram_byte s q) (t\<lparr>host := h\<rparr>))"
    using h(1) new alloc(1)
    by (simp add: JitNewPageAt_def FindPage_def jit_page_at_def JitDoJitAt_def new_buffer_def Create_anonymous_def
        GetNativeSize_def JitPage_def page_def region_def Mmap_def JitMemory_def on_last_def Mmap_MapForWrite_def
        write_bytes_left_def ptr_add_def t_def i_def n page'_def page_key_def Let_def)
  moreover have "length (entrypoints page') = unat (jit_page_size j)" "entrypoints page' ! i = Code (b, 0)"
    using i by (simp_all add: page'_def page_def on_last_def)
  ultimately show ?thesis
    using h(2) unfolding i_def t_def by auto
qed

text \<open>C33: \<open>Execute\<close> returns into translated code.  Where the CPU is about to run an instruction in plain memory whose page has no
  translation, and the system gives a buffer, \<open>Execute\<close> translates, calls itself once and enters the buffer;
  there lies the code of exactly that instruction's operations, the state of the CPU is the old one, and the typing of
  the translator is kept.\<close>

theorem Execute_translates_and_enters:
  fixes s :: "'d machine"
  assumes code: "ram_ptr s (jit_ip s) = Some q" "op_at (unat (cpu_mode s)) (ram_byte s q) = Some (op :: 'd op)"
    and mp: "always_protects (env_protect E)" and wf: "jit_wf j" and trace: "maximum_trace_length j \<noteq> 0"
    and new: "jit_pages j (page_key (cpu_mode s) (jit_ip s) j) = None"
    and alloc: "env_alloc E GetNativeSize s = Some (b, 0)" "fst q \<noteq> b"
  shows "\<exists>j' h. Execute E enter j s = enter (Code (b, 0)) j' (set_open_bus (ram_byte s q) (s\<lparr>host := h\<rparr>)) \<and>
    jit_wf j' \<and> holds h (b, 0) (insn_code (env_layout E) (flat_ops (op_jit op)))"
proof -
  obtain j' h page where t: "JitNewPageAt E (jit_ip s) j s = Some (j', set_open_bus (ram_byte s q) (s\<lparr>host := h\<rparr>))"
      "j' = j\<lparr>jit_pages := (jit_pages j)(page_key (cpu_mode s) (jit_ip s) j := Some page)\<rparr>"
      "length (entrypoints page) = unat (jit_page_size j)"
      "entrypoints page ! unat (jit_ip s AND jit_page_mask j) = Code (b, 0)"
      "holds h (b, 0) (insn_code (env_layout E) (flat_ops (op_jit op)))"
    using JitNewPageAt_ram [OF code mp wf trace new alloc] by blast
  let ?s = "set_open_bus (ram_byte s q) (s\<lparr>host := h\<rparr>)"
  have s': "jit_ip ?s = jit_ip s" "cpu_mode ?s = cpu_mode s"
    by (simp_all add: jit_ip_def set_open_bus_def)
  have "Execute E enter j s = Execute E enter j' ?s"
    using t(1) new by (subst Execute.simps) (simp add: FindPage_def Let_def)
  also have "\<dots> = enter (Code (b, 0)) j' ?s"
    using t(2-4) page_index_in [OF wf, of "jit_ip s"]
    by (subst Execute.simps) (simp add: FindPage_def Let_def s' page_key_def)
  finally show ?thesis
    using t(5) JitNewPageAt_wf [OF t(1) mp wf] by blast
qed

definition example_env :: "unit jit_env" where
  "example_env = \<lparr>env_layout = \<lparr>offset_interrupts = 64, offset_carry = 68\<rparr>, env_same = (\<lambda>_ _. False), env_io = no_io,
     env_protect = (\<lambda>old new. new), env_alloc = (\<lambda>n s. Some (1, 0))\<rparr>"

lemma Execute_translates_and_enters_witness:
  "\<exists>j' h. Execute example_env (\<lambda>e j s. if e = Code (1, 0) then Some (j, s) else None) (JitX64 (linear_machine [0x18]))
      (linear_machine [0x18]) = Some (j', set_open_bus 0x18 (linear_machine [0x18]\<lparr>host := h\<rparr>)) \<and>
    holds h (1, 0) (insn_code (env_layout example_env) (flat_ops (op_jit (CLC :: unit op))))"
proof -
  have ip: "jit_ip (linear_machine [0x18]) = 0"
    by (simp add: jit_ip_def linear_machine_def WDC65C816_init_def OnUpdateMode_def Let_def)
  then have code: "ram_ptr (linear_machine [0x18]) (jit_ip (linear_machine [0x18])) = Some (0, 0)"
    by simp
  have byte: "ram_byte (linear_machine [0x18]) (0, 0) = 0x18"
    by (simp add: ram_byte_def linear_machine_def WDC65C816_init_def OnUpdateMode_def Let_def)
  have op: "op_at (unat (cpu_mode (linear_machine [0x18]))) 0x18 = Some (CLC :: unit op)"
    by (simp add: linear_machine_def WDC65C816_init_def OnUpdateMode_def Let_def kEmulation_def op_at_def exec_ops_def
        ops_emulation_def)
  have wf: "jit_wf (JitX64 (linear_machine [0x18]))"
    by (rule jit_wf_JitX64)
      (simp add: linear_machine_def WDC65C816_init_def OnUpdateMode_def Let_def linear_system_def SimpleSystemBus_def bus_Init_def)
  show ?thesis
    using Execute_translates_and_enters [OF code, unfolded byte, OF op _ wf, of example_env 1
        "\<lambda>e j s. if e = Code (1, 0) then Some (j, s) else None"]
    by (auto simp: example_env_def always_protects_def JitX64_def Let_def)
qed

lemma jit_typing_witness:
  "\<exists>j' s'. JitNewPageAt example_env 0 (JitX64 (linear_machine [0x18])) (linear_machine [0x18]) = Some (j', s') \<and> jit_wf j'"
proof -
  have code: "ram_ptr (linear_machine [0x18]) 0 = Some (0, 0)"
    by simp
  have byte: "ram_byte (linear_machine [0x18]) (0, 0) = 0x18"
    by (simp add: ram_byte_def linear_machine_def WDC65C816_init_def OnUpdateMode_def Let_def)
  have op: "op_at (unat (cpu_mode (linear_machine [0x18]))) 0x18 = Some (CLC :: unit op)"
    by (simp add: linear_machine_def WDC65C816_init_def OnUpdateMode_def Let_def kEmulation_def op_at_def exec_ops_def
        ops_emulation_def)
  have mp: "always_protects (env_protect example_env)"
    by (simp add: example_env_def always_protects_def)
  have "page_size (memory (sysbus (linear_machine [0x18]))) \<noteq> 0"
    by (simp add: linear_machine_def WDC65C816_init_def OnUpdateMode_def Let_def linear_system_def SimpleSystemBus_def bus_Init_def)
  then have wf: "jit_wf (JitX64 (linear_machine [0x18]))"
    by (rule jit_wf_JitX64)
  obtain j' s' where "JitNewPageAt example_env 0 (JitX64 (linear_machine [0x18])) (linear_machine [0x18]) = Some (j', s')"
    using JitNewPageAt_ram [OF code, unfolded byte, OF op mp wf, of 1]
    by (auto simp: example_env_def JitX64_def Let_def)
  then show ?thesis
    using jit_typing [OF mp, of "linear_machine [0x18]" "JitX64 (linear_machine [0x18])" 0] wf by auto
qed

text \<open>
  The list of sublists does not keep an effective address from being computed twice: in a shift of memory the
  sublists marked \<open>kNoDuplicateList\<close> are in two inner lists, each flattened by its own call.
\<close>

lemma address_computed_twice:
  "length (filter (\<lambda>opn. jit_oper_of opn = kReadImm) (flat_ops (op_jit (OpAsl (AddrAbs A XY))))) = 2"
  by (simp add: op_defs mode_defs jit_list_defs Let_def)

text \<open>\<open>JitUnjitted\<close> of a page that does not exist makes one without entry points, and writes to the first of them.\<close>

lemma JitUnjitted_missing_page:
  assumes "jit_pages j (page_key (cpu_mode s) (jit_ip s) j) = None" and "maximum_trace_length j \<noteq> 0"
  shows "JitUnjitted E j s = None"
proof -
  obtain n where n: "unat (maximum_trace_length j) = Suc n"
    using assms(2) by (metis not0_implies_Suc unat_eq_zero)
  have loop: "entrypoints page = [] \<Longrightarrow> 32 < room \<Longrightarrow> JitDoJitAt_loop lay same io prot i a (Suc n) p room page t = None"
    for lay same io prot i a p room page t
    by (cases "GetJit io a t") (auto simp: set_entry_def bind_eq_None_conv split: prod.splits)
  show ?thesis
    using assms(1)
    by (auto simp: JitUnjitted_def FindPage_def jit_page_at_def JitDoJitAt_def new_buffer_def Create_anonymous_def
        GetNativeSize_def JitPage_def Mmap_def JitMemory_def on_last_def Let_def n loop write_bytes_left_def
        bind_eq_None_conv simp del: JitDoJitAt_loop.simps split: option.splits)
qed

end
