(* ===== verification/Lua_Cpu.thy ===== *)
theory Lua_Cpu
  imports Debugger Assembler Cpu65816
begin

text \<open>
  The functions a Lua script calls on the CPU (lua_cpu.cc).  The Lua library is outside the sources: a
  value of a script has the type \<open>'v\<close>, an argument that was not passed is \<open>None\<close>, and the record \<open>lua_api\<close> holds the
  functions of the library the code calls on its arguments.  A function returns what it pushes, or raises an error of
  the script.  The machine and the state of the debugger are the world; while a function waits, the run
  thread goes on, which is the argument \<open>env_run\<close>.
\<close>

section \<open>The library\<close>

record 'v lua_api =
  lua_isuserdata :: "'v option \<Rightarrow> bool"
  lua_isfunction :: "'v option \<Rightarrow> bool"
  lua_isnumber :: "'v option \<Rightarrow> bool"
  lua_isstring :: "'v option \<Rightarrow> bool"
  lua_toboolean :: "'v option \<Rightarrow> bool"
  lua_tointeger :: "'v option \<Rightarrow> int"
  lua_tonumber_u8 :: "'v option \<Rightarrow> u8 option"
  lua_tolstring :: "'v option \<Rightarrow> u8 list"
  lua_tostring :: "'v option \<Rightarrow> string option"
  luaL_checkint :: "nat \<Rightarrow> 'v option \<Rightarrow> string + int"
  luaL_checkstring :: "nat \<Rightarrow> 'v option \<Rightarrow> string + string"
  luaL_checkinteger :: "nat \<Rightarrow> 'v option \<Rightarrow> string + int"
  luaL_ref :: "'v list \<Rightarrow> nat \<Rightarrow> int option"

text \<open>
  \<open>lua_tonumber_u8\<close> is \<open>(uint8_t)lua_tonumber\<close>, undefined for a number that does not fit; \<open>luaL_ref\<close> is given the stack and
  the index of the table.
\<close>

definition lua_arg :: "nat \<Rightarrow> 'v list \<Rightarrow> 'v option" where
  "lua_arg i args = (if 0 < i \<and> i \<le> length args then Some (args ! (i - 1)) else None)"

text \<open>What the functions push.\<close>

datatype lua_out =
    Lua_nil | Lua_boolean bool | Lua_integer int | Lua_string string | Lua_function string
  | Lua_table "(string \<times> lua_out) list" | Lua_array "lua_out list"

section \<open>State\<close>

record 'd lua_world =
  lw_debug :: debugger
  lw_machine :: "'d machine"
  lw_assembler :: assembler
  lw_bound :: "(u32 \<times> int) list"

text \<open>\<open>lw_bound\<close>: the addresses and references of the functions handed to \<open>DebugInterface::SetBreakpoint\<close>, in order.\<close>

record ('d, 'v) lua_env =
  env_api :: "'v lua_api"
  env_dev :: "'d io"
  env_run :: "'d lua_world \<Rightarrow> 'd lua_world option"

type_synonym ('d, 'a) lua_result = "('a \<times> 'd lua_world) option"
type_synonym 'd lua_call = "((string + lua_out list) \<times> 'd lua_world) option"

section \<open>The debugger\<close>

text \<open>A block of the client; when it has to wait, the run thread goes on until the wait ends.\<close>

definition client_block :: "('d, 'v) lua_env \<Rightarrow> (debugger \<Rightarrow> debugger) \<Rightarrow> 'd lua_world \<Rightarrow> 'd lua_world option" where
  "client_block E blk w =
     (let d = blk (lw_debug w); w = w\<lparr>lw_debug := d\<rparr>
      in if client_at d = Outside then Some w else env_run E w)"

definition lua_PauseImpl :: "('d, 'v) lua_env \<Rightarrow> bool \<Rightarrow> 'd lua_world \<Rightarrow> 'd lua_world option" where
  "lua_PauseImpl E schedule_event = client_block E (Pause_block schedule_event)"

definition lua_ResumeImpl :: "('d, 'v) lua_env \<Rightarrow> 'd lua_world \<Rightarrow> 'd lua_world option" where
  "lua_ResumeImpl E = client_block E (Resume_block False)"

definition debug_SingleStep :: "('d, 'v) lua_env \<Rightarrow> 'd lua_world \<Rightarrow> 'd lua_world option" where
  "debug_SingleStep E = client_block E (\<lambda>d. Resume_block True (SingleStep_schedule d))"

definition debug_paused :: "'d lua_world \<Rightarrow> bool" where
  "debug_paused w \<longleftrightarrow> pause (lw_debug w) \<noteq> 0"

definition recursively_paused :: "'d lua_world \<Rightarrow> bool" where
  "recursively_paused w \<longleftrightarrow> pause (lw_debug w) > 1"

definition SetBreakpointImpl :: "int \<Rightarrow> int \<Rightarrow> 'd lua_world \<Rightarrow> 'd lua_world" where
  "SetBreakpointImpl addr r w =
     w\<lparr>lw_debug := SetBreakpoint (of_int addr) True (lw_debug w), lw_bound := lw_bound w @ [(of_int addr, r)]\<rparr>"

definition ClearBreakpointImpl :: "int \<Rightarrow> 'd lua_world \<Rightarrow> 'd lua_world" where
  "ClearBreakpointImpl addr w = w\<lparr>lw_debug := ClearBreakpoint (of_int addr) (lw_debug w)\<rparr>"

section \<open>Memory\<close>

text \<open>The guard of both accesses; the I/O is not asked when access to it is allowed.\<close>

definition may_access :: "('d, 'v) lua_env \<Rightarrow> cpuaddr \<Rightarrow> bool \<Rightarrow> 'd lua_world \<Rightarrow> bool option" where
  "may_access E addr access_io w =
     (if access_io then Some True
      else do {
        q \<leftarrow> QueryIo (env_dev E) addr (lw_machine w);
        Some (\<not> q)
      })"

definition PeekImpl :: "('d, 'v) lua_env \<Rightarrow> int \<Rightarrow> bool \<Rightarrow> 'd lua_world \<Rightarrow> ('d, u8 option) lua_result" where
  "PeekImpl E addr access_io w = do {
     w \<leftarrow> lua_PauseImpl E True w;
     ok \<leftarrow> may_access E (of_int addr) access_io w;
     (v, w) \<leftarrow> (if ok then do {
         ((v, n), m) \<leftarrow> ReadByte (env_dev E) (of_int addr) (lw_machine w);
         Some (Some v, w\<lparr>lw_machine := m\<rparr>)
       }
       else Some (None, w));
     w \<leftarrow> lua_ResumeImpl E w;
     Some (v, w)
   }"

definition PokeImpl :: "('d, 'v) lua_env \<Rightarrow> int \<Rightarrow> bool \<Rightarrow> u8 \<Rightarrow> 'd lua_world \<Rightarrow> ('d, bool) lua_result" where
  "PokeImpl E addr access_io v w = do {
     w \<leftarrow> lua_PauseImpl E True w;
     ok \<leftarrow> may_access E (of_int addr) access_io w;
     w \<leftarrow> (if ok then do {
         (n, m) \<leftarrow> WriteByte (env_dev E) (of_int addr) v (lw_machine w);
         Some (w\<lparr>lw_machine := m\<rparr>)
       }
       else Some w);
     w \<leftarrow> lua_ResumeImpl E w;
     Some (ok, w)
   }"

section \<open>The functions of a script\<close>

definition lua_error :: "string \<Rightarrow> 'd lua_world \<Rightarrow> 'd lua_call" where
  "lua_error msg w = Some (Inl msg, w)"

definition pushed :: "lua_out list \<Rightarrow> 'd lua_world \<Rightarrow> 'd lua_call" where
  "pushed outs w = Some (Inr outs, w)"

definition with_self :: "('d, 'v) lua_env \<Rightarrow> 'v list \<Rightarrow> ('d lua_world \<Rightarrow> 'd lua_call) \<Rightarrow> 'd lua_world \<Rightarrow> 'd lua_call" where
  "with_self E args f w =
     (if \<not> lua_isuserdata (env_api E) (lua_arg 1 args)
      then lua_error ''LuaCpu: must pass userdata pointer as arg #1'' w else f w)"

text \<open>The table of registers and the table of the state.\<close>

definition lua_regs :: "debug_reg list \<Rightarrow> (string \<times> lua_out) list" where
  "lua_regs regs =
     map (\<lambda>r. let mask = ucast ((push_bit (unat (dr_size r * 8)) 1 :: u32) - 1)
              in (dr_name r, Lua_integer (sint (dr_value r AND mask)))) regs"

definition lua_PushState :: "('d, 'v) lua_env \<Rightarrow> 'd lua_world \<Rightarrow> ('d, lua_out) lua_result" where
  "lua_PushState E w =
     (let m = lw_machine w; addr = GetCanonicalAddress m in do {
        ((insns, _), m') \<leftarrow> Disassembler_Disassemble (env_dev E)
          \<lparr>max_instruction_count = 1, include_addr = True, include_bytes = True\<rparr> addr m;
        text_line \<leftarrow> (case insns of [] \<Rightarrow> None | i # _ \<Rightarrow> Some (ci_asm_string i));
        Some (Lua_table
           [(''ip'', Lua_integer (uint addr)), (''cycle'', Lua_integer (sint (cycle m))),
            (''mode'', Lua_integer (uint (cpu_mode m))), (''asm'', Lua_string text_line),
            (''regs'', Lua_table (lua_regs (GetDebugRegState m')))], w\<lparr>lw_machine := m'\<rparr>)
      })"

definition Lua_ClearBreakpoint :: "('d, 'v) lua_env \<Rightarrow> 'v list \<Rightarrow> 'd lua_world \<Rightarrow> 'd lua_call" where
  "Lua_ClearBreakpoint E args = with_self E args (\<lambda>w.
     case luaL_checkint (env_api E) 2 (lua_arg 2 args) of
       Inl e \<Rightarrow> lua_error e w
     | Inr _ \<Rightarrow> pushed [] (ClearBreakpointImpl (lua_tointeger (env_api E) (lua_arg 2 args)) w))"

definition Lua_SetBreakpoint :: "('d, 'v) lua_env \<Rightarrow> 'v list \<Rightarrow> 'd lua_world \<Rightarrow> 'd lua_call" where
  "Lua_SetBreakpoint E args = with_self E args (\<lambda>w.
     case luaL_checkint (env_api E) 2 (lua_arg 2 args) of
       Inl e \<Rightarrow> lua_error e w
     | Inr _ \<Rightarrow>
         let addr = lua_tointeger (env_api E) (lua_arg 2 args) in
         if lua_isfunction (env_api E) (lua_arg 3 args) then do {
           r \<leftarrow> luaL_ref (env_api E) args 3;
           pushed [] (SetBreakpointImpl addr r w)
         }
         else pushed [] (SetBreakpointImpl addr 0 w))"

definition Lua_Peek :: "('d, 'v) lua_env \<Rightarrow> 'v list \<Rightarrow> 'd lua_world \<Rightarrow> 'd lua_call" where
  "Lua_Peek E args = with_self E args (\<lambda>w.
     let addr = lua_tointeger (env_api E) (lua_arg 2 args);
         access_io = lua_toboolean (env_api E) (lua_arg 3 args)
     in do {
       (r, w) \<leftarrow> PeekImpl E addr access_io w;
       (case r of
          None \<Rightarrow> pushed [Lua_nil, Lua_string ''LuaCpu: Would access I/O''] w
        | Some v \<Rightarrow> pushed [Lua_integer (uint v)] w)
     })"

text \<open>The loop of \<open>Poke\<close>; the sum of address and index is computed in 64 bits, of which the bus uses 32.\<close>

fun poke_loop :: "('d, 'v) lua_env \<Rightarrow> int \<Rightarrow> bool \<Rightarrow> nat \<Rightarrow> u8 list \<Rightarrow> 'd lua_world \<Rightarrow> 'd lua_call" where
  "poke_loop E addr access_io i [] w = pushed [Lua_boolean True] w"
| "poke_loop E addr access_io i (b # bs) w = do {
     (ok, w) \<leftarrow> PokeImpl E (addr + int i) access_io b w;
     (if \<not> ok then pushed [Lua_nil, Lua_string ''LuaCpu: Would access I/O''] w
      else poke_loop E addr access_io (Suc i) bs w)
   }"

text \<open>Where the value is neither a number nor a string, pointer and length are read uninitialised.\<close>

definition Lua_Poke :: "('d, 'v) lua_env \<Rightarrow> 'v list \<Rightarrow> 'd lua_world \<Rightarrow> 'd lua_call" where
  "Lua_Poke E args = with_self E args (\<lambda>w.
     let api = env_api E;
         addr = lua_tointeger api (lua_arg 2 args)
     in do {
       data \<leftarrow> (if lua_isnumber api (lua_arg 3 args) then do {
                 v \<leftarrow> lua_tonumber_u8 api (lua_arg 3 args);
                 Some [v]
               }
               else if lua_isstring api (lua_arg 3 args) then Some (lua_tolstring api (lua_arg 3 args))
               else None);
       poke_loop E addr (lua_toboolean api (lua_arg 4 args)) 0 data w
     })"

definition Lua_Pause :: "('d, 'v) lua_env \<Rightarrow> 'v list \<Rightarrow> 'd lua_world \<Rightarrow> 'd lua_call" where
  "Lua_Pause E args = with_self E args (\<lambda>w. do {
     w \<leftarrow> lua_PauseImpl E True w;
     (t, w) \<leftarrow> lua_PushState E w;
     pushed [t] w
   })"

definition Lua_Resume :: "('d, 'v) lua_env \<Rightarrow> 'v list \<Rightarrow> 'd lua_world \<Rightarrow> 'd lua_call" where
  "Lua_Resume E args = with_self E args (\<lambda>w. do {
     w \<leftarrow> lua_ResumeImpl E w;
     pushed [] w
   })"

definition Lua_GetState :: "('d, 'v) lua_env \<Rightarrow> 'v list \<Rightarrow> 'd lua_world \<Rightarrow> 'd lua_call" where
  "Lua_GetState E args = with_self E args (\<lambda>w.
     if \<not> debug_paused w then lua_error ''LuaCpu: cannot get state unless paused'' w
     else do {
       (t, w) \<leftarrow> lua_PushState E w;
       pushed [t] w
     })"

definition Lua_SingleStep :: "('d, 'v) lua_env \<Rightarrow> 'v list \<Rightarrow> 'd lua_world \<Rightarrow> 'd lua_call" where
  "Lua_SingleStep E args = with_self E args (\<lambda>w.
     if \<not> debug_paused w then lua_error ''LuaCpu: cannot singlestep unless paused'' w
     else if recursively_paused w then lua_error ''LuaCpu: recursively paused'' w
     else do {
       w \<leftarrow> debug_SingleStep E w;
       (t, w) \<leftarrow> lua_PushState E w;
       pushed [t] w
     })"

definition Lua_Disassemble :: "('d, 'v) lua_env \<Rightarrow> 'v list \<Rightarrow> 'd lua_world \<Rightarrow> 'd lua_call" where
  "Lua_Disassemble E args = with_self E args (\<lambda>w.
     let api = env_api E;
         count = (if lua_isnumber api (lua_arg 3 args)
                  then unat (of_int (lua_tointeger api (lua_arg 3 args)) :: u32) else 32);
         listing = (\<lambda>addr. do {
           ((insns, _), m) \<leftarrow> Disassembler_Disassemble (env_dev E)
             \<lparr>max_instruction_count = count, include_addr = True, include_bytes = True\<rparr> addr (lw_machine w);
           pushed [Lua_array (map (\<lambda>i. Lua_string (ci_asm_string i)) insns)] (w\<lparr>lw_machine := m\<rparr>)
         })
     in if lua_isnumber api (lua_arg 2 args) then listing (of_int (lua_tointeger api (lua_arg 2 args)))
        else if \<not> debug_paused w then lua_error ''LuaCpu: cannot disassembe from current while paused'' w
        else listing (GetCanonicalAddress (lw_machine w)))"

text \<open>\<open>Assemble\<close>: the vector of bytes is tested before the assembler is called.\<close>

definition Lua_Assemble :: "('d, 'v) lua_env \<Rightarrow> 'v list \<Rightarrow> 'd lua_world \<Rightarrow> 'd lua_call" where
  "Lua_Assemble E args = with_self E args (\<lambda>w.
     let bytes = [] in
     case lua_tostring (env_api E) (lua_arg 2 args) of
       None \<Rightarrow> lua_error ''LuaCpu: need string to assemble'' w
     | Some str \<Rightarrow>
         if bytes = [] then pushed [Lua_nil, Lua_string ''LuaCpu: didn't assemble to any bytes''] w
         else do {
           (r, _, bytes, a) \<leftarrow> Assemble str bytes (lw_assembler w);
           (let w = w\<lparr>lw_assembler := a\<rparr> in
            case r of
              Inl e \<Rightarrow> pushed [Lua_nil, Lua_string e] w
            | Inr _ \<Rightarrow> pushed [Lua_string (map (\<lambda>b. char_of (unat b)) bytes)] w)
         })"

definition Lua_SetRegister :: "('d, 'v) lua_env \<Rightarrow> 'v list \<Rightarrow> 'd lua_world \<Rightarrow> 'd lua_call" where
  "Lua_SetRegister E args = with_self E args (\<lambda>w.
     if \<not> debug_paused w then lua_error ''LuaCpu: cannot modify registers unless paused'' w
     else
       case luaL_checkstring (env_api E) 2 (lua_arg 2 args) of
         Inl e \<Rightarrow> lua_error e w
       | Inr reg \<Rightarrow>
           (case luaL_checkinteger (env_api E) 3 (lua_arg 3 args) of
              Inl e \<Rightarrow> lua_error e w
            | Inr v \<Rightarrow>
                case SetRegister reg (of_int v) (lw_machine w) of
                  (ok, m) \<Rightarrow> pushed [Lua_boolean ok] (w\<lparr>lw_machine := m\<rparr>)))"

section \<open>Registration and breakpoints\<close>

text \<open>\<open>Push\<close>: the object's userdata gets a metatable with the functions above.\<close>

definition lua_methods :: "(string \<times> (('d, 'v) lua_env \<Rightarrow> 'v list \<Rightarrow> 'd lua_world \<Rightarrow> 'd lua_call)) list" where
  "lua_methods =
     [(''set_breakpoint'', Lua_SetBreakpoint), (''clear_breakpoint'', Lua_ClearBreakpoint), (''peek'', Lua_Peek),
      (''poke'', Lua_Poke), (''pause'', Lua_Pause), (''resume'', Lua_Resume), (''get_state'', Lua_GetState),
      (''step'', Lua_SingleStep), (''disassemble'', Lua_Disassemble), (''assemble'', Lua_Assemble),
      (''set_reg'', Lua_SetRegister)]"

text \<open>\<open>OnBreakpoint\<close> calls the referenced function of the script, or prints.\<close>

datatype breakpoint_action = Call_reference int | Print_line string

definition OnBreakpoint :: "int \<Rightarrow> 'd machine \<Rightarrow> breakpoint_action" where
  "OnBreakpoint refid m =
     (if refid > 0 then Call_reference refid
      else Print_line (''Breakpoint hit at '' @ hex_str (unat (GetCanonicalAddress m)) @ [CHR 0x0A]))"

end
