(* ===== verification/Lua_Laws.thy ===== *)
theory Lua_Laws
  imports Lua_Cpu Cpu_Stack
begin

text \<open>
  Laws of the script interface: in a pause a script's accesses see the memory of the bus, the guard keeps them
  from the I/O, registers are read as they were set, and \<open>assemble\<close> never assembles.
\<close>

section \<open>Accesses in a pause\<close>

text \<open>The client holds a pause, and is in no call of the debugger.\<close>

definition holds_pause :: "'d lua_world \<Rightarrow> bool" where
  "holds_pause w \<longleftrightarrow> pause (lw_debug w) > 0 \<and> client_at (lw_debug w) = Outside"

text \<open>A nested pause and its end do not wait and change nothing.\<close>

lemma nested_pause:
  assumes "holds_pause w"
  shows "lua_PauseImpl E sched w = Some (w\<lparr>lw_debug := (lw_debug w)\<lparr>pause := pause (lw_debug w) + 1\<rparr>\<rparr>)"
  using assms by (simp add: lua_PauseImpl_def client_block_def Pause_block_def Let_def holds_pause_def)

lemma nested_resume:
  assumes "holds_pause w"
  shows "lua_ResumeImpl E (w\<lparr>lw_debug := (lw_debug w)\<lparr>pause := pause (lw_debug w) + 1\<rparr>, lw_machine := m\<rparr>) =
    Some (w\<lparr>lw_machine := m\<rparr>)"
proof -
  have "(lw_debug w)\<lparr>client_at := Outside\<rparr> = lw_debug w"
    using assms by (simp add: holds_pause_def)
  then show ?thesis
    using assms
    by (simp add: lua_ResumeImpl_def client_block_def Resume_block_def Resume_return_def Let_def holds_pause_def)
qed

lemma nested_resume_same:
  "holds_pause w \<Longrightarrow> lua_ResumeImpl E (w\<lparr>lw_debug := (lw_debug w)\<lparr>pause := pause (lw_debug w) + 1\<rparr>\<rparr>) = Some w"
  using nested_resume [of w E "lw_machine w"] by simp

lemma QueryIo_ram: "ram_ptr s a = Some q \<Longrightarrow> QueryIo io a s = Some False"
  by (auto simp: ram_ptr_def QueryIo_def Let_def split: option.splits if_splits)

lemma may_access_ram: "ram_ptr (lw_machine w) a = Some q \<Longrightarrow> may_access E a access_io w = Some True"
  by (simp add: may_access_def QueryIo_ram)

lemma PeekImpl_ram:
  assumes w: "holds_pause w" and q: "ram_ptr (lw_machine w) (of_int addr) = Some q"
  shows "PeekImpl E addr access_io w =
    Some (Some (ram_byte (lw_machine w) q), w\<lparr>lw_machine := set_open_bus (ram_byte (lw_machine w) q) (lw_machine w)\<rparr>)"
  using q
  by (simp add: PeekImpl_def nested_pause [OF w] may_access_ram ReadByte_ram [OF q] nested_resume [OF w])

lemma PokeImpl_ram:
  assumes w: "holds_pause w" and q: "ram_ptr (lw_machine w) (of_int addr) = Some q"
    and rw: "page_flags (lw_machine w) (of_int addr) AND kReadOnly = 0"
  shows "PokeImpl E addr access_io v w = Some (True, w\<lparr>lw_machine :=
    set_open_bus (bus_latch (lw_machine w) (of_int addr) v) (ram_store q v (lw_machine w))\<rparr>)"
  using q
  by (simp add: PokeImpl_def nested_pause [OF w] may_access_ram WriteByte_ram [OF q rw] nested_resume [OF w])

text \<open>Where the addresses from \<open>addr\<close> on are \<open>n\<close> writable bytes of memory behind \<open>q\<close>.\<close>

definition ram_range :: "'d machine \<Rightarrow> int \<Rightarrow> host_ptr \<Rightarrow> nat \<Rightarrow> bool" where
  "ram_range m addr q n \<longleftrightarrow>
     (\<forall>i < n. ram_ptr m (of_int (addr + int i)) = Some (ptr_add q i) \<and>
              page_flags m (of_int (addr + int i)) AND kReadOnly = 0)"

lemma poke_loop_ram:
  assumes "holds_pause w" and "ram_range (lw_machine w) addr q n" and "i + length bs \<le> n"
  shows "\<exists>m. poke_loop E addr access_io i bs w = Some (Inr [Lua_boolean True], w\<lparr>lw_machine := m\<rparr>) \<and>
    ram_ptr m = ram_ptr (lw_machine w) \<and>
    (\<forall>r. ram_byte m r = (if fst r = fst q \<and> snd q + i \<le> snd r \<and> snd r < snd q + i + length bs
                         then bs ! (snd r - snd q - i) else ram_byte (lw_machine w) r))"
  using assms
proof (induction bs arbitrary: i w)
  case Nil
  have "w\<lparr>lw_machine := lw_machine w\<rparr> = w" by simp
  then show ?case by (auto simp: pushed_def intro!: exI [of _ "lw_machine w"])
next
  case (Cons b bs)
  let ?a = "addr + int i"
  define m1 where "m1 = set_open_bus (bus_latch (lw_machine w) (of_int ?a) b) (ram_store (ptr_add q i) b (lw_machine w))"
  have r: "ram_ptr (lw_machine w) (of_int ?a) = Some (ptr_add q i)"
      "page_flags (lw_machine w) (of_int ?a) AND kReadOnly = 0"
    using Cons.prems by (simp_all add: ram_range_def)
  have m1: "ram_ptr m1 = ram_ptr (lw_machine w)" "page_flags m1 = page_flags (lw_machine w)"
      "ram_byte m1 r = (if r = ptr_add q i then b else ram_byte (lw_machine w) r)" for r
    by (simp_all add: m1_def)
  then have "ram_range m1 addr q n"
    using Cons.prems(2) by (simp add: ram_range_def)
  then obtain m where m: "poke_loop E addr access_io (Suc i) bs (w\<lparr>lw_machine := m1\<rparr>) =
        Some (Inr [Lua_boolean True], w\<lparr>lw_machine := m\<rparr>)" "ram_ptr m = ram_ptr m1"
      "\<And>r. ram_byte m r = (if fst r = fst q \<and> snd q + Suc i \<le> snd r \<and> snd r < snd q + Suc i + length bs
                         then bs ! (snd r - snd q - Suc i) else ram_byte m1 r)"
    using Cons.IH [of "w\<lparr>lw_machine := m1\<rparr>" "Suc i"] Cons.prems by (auto simp: holds_pause_def)
  have byte: "ram_byte m r = (if fst r = fst q \<and> snd q + i \<le> snd r \<and> snd r < snd q + i + length (b # bs)
                         then (b # bs) ! (snd r - snd q - i) else ram_byte (lw_machine w) r)" for r
  proof (cases "r = ptr_add q i")
    case True
    then show ?thesis by (simp add: m(3) m1(3)) (simp add: ptr_add_def)
  next
    case False
    then have ne: "fst r = fst q \<Longrightarrow> snd r \<noteq> snd q + i" by (cases r) (auto simp: ptr_add_def)
    show ?thesis
    proof (cases "fst r = fst q \<and> snd q + Suc i \<le> snd r")
      case True
      then have "snd r - snd q - i = Suc (snd r - snd q - Suc i)" by auto
      with True show ?thesis by (simp add: m(3) m1(3) False)
    next
      case f: False
      with ne have "\<not> (fst r = fst q \<and> snd q + i \<le> snd r)" by auto
      with f show ?thesis by (auto simp: m(3) m1(3) False)
    qed
  qed
  have "PokeImpl E ?a access_io b w = Some (True, w\<lparr>lw_machine := m1\<rparr>)"
    unfolding m1_def by (rule PokeImpl_ram [OF Cons.prems(1) r])
  then have "poke_loop E addr access_io i (b # bs) w = Some (Inr [Lua_boolean True], w\<lparr>lw_machine := m\<rparr>)"
    using m(1) by simp
  moreover have "ram_ptr m = ram_ptr (lw_machine w)"
    by (simp only: m(2) m1(1))
  ultimately show ?case
    using byte by (intro exI [of _ m] conjI allI)
qed


section \<open>Errors\<close>

text \<open>Without access to I/O an address of a device is refused, and the machine is as it was.\<close>

lemma lua_peek_refused:
  assumes w: "holds_pause w" and io: "QueryIo (env_dev E) (of_int addr) (lw_machine w) = Some True"
  shows "PeekImpl E addr False w = Some (None, w)" "PokeImpl E addr False v w = Some (False, w)"
  by (simp_all add: PeekImpl_def PokeImpl_def nested_pause [OF w] may_access_def io nested_resume_same [OF w])

text \<open>A value that is neither a number nor a string leaves the pointer and the length undefined.\<close>

lemma lua_poke_undefined:
  assumes "lua_isuserdata (env_api E) (lua_arg 1 args)" and "\<not> lua_isnumber (env_api E) (lua_arg 3 args)"
    and "\<not> lua_isstring (env_api E) (lua_arg 3 args)"
  shows "Lua_Poke E args w = None"
  using assms by (simp add: Lua_Poke_def with_self_def)

text \<open>\<open>assemble\<close> never assembles: whatever the script passes, the function returns and gives an error of the script or the
  pair of nil and a message; it never gives bytes, and never runs the assembler (whose state is the old one).\<close>

theorem lua_assemble_never:
  "\<exists>r. Lua_Assemble E args w = Some (r, w) \<and>
    (r = Inl ''LuaCpu: must pass userdata pointer as arg #1'' \<or> r = Inl ''LuaCpu: need string to assemble'' \<or>
     r = Inr [Lua_nil, Lua_string ''LuaCpu: didn't assemble to any bytes''])"
  by (simp add: Lua_Assemble_def with_self_def lua_error_def pushed_def split: option.split)

section \<open>Registers\<close>

text \<open>The registers a script reads and sets under the same name, up to case; each has one or two bytes.\<close>

definition plain_register :: "string \<Rightarrow> bool" where
  "plain_register name \<longleftrightarrow> name \<in> {''A'', ''X'', ''Y'', ''SP'', ''D'', ''PB'', ''DB''}"

definition register_size :: "string \<Rightarrow> 'd machine \<Rightarrow> nat" where
  "register_size name m =
     (if name = ''A'' then (if mode_long_a m then 2 else 1)
      else if name = ''X'' \<or> name = ''Y'' then (if mode_long_xy m then 2 else 1)
      else if name = ''SP'' then (if mode_emulation m then 1 else 2)
      else if name = ''D'' then 2 else 1)"

lemma sint_masked:
  assumes "k < 64" and "w AND mask k = v AND mask k"
  shows "sint (w AND mask k :: u64) = uint v mod 2 ^ k"
proof -
  have u: "uint (v AND mask k) = uint v mod 2 ^ k"
    by (simp add: take_bit_eq_mask [symmetric] unsigned_take_bit_eq) (simp add: take_bit_eq_mod)
  have "(2 :: int) ^ k \<le> 2 ^ 63"
    using assms(1) by (intro power_increasing) simp_all
  moreover have "uint v mod 2 ^ k < 2 ^ k" by simp
  ultimately have "uint v mod 2 ^ k < 2 ^ 63" by linarith
  moreover have "- (2 ^ 63) \<le> uint v mod 2 ^ k"
    by (rule order_trans [of _ 0]) simp_all
  ultimately have "signed_take_bit 63 (uint v mod 2 ^ k) = uint v mod 2 ^ k"
    by (simp only: signed_take_bit_int_eq_self)
  then show ?thesis
    by (simp add: assms(2) sint_uint u)
qed

lemma masked_byte: "w AND mask 8 = v AND mask 8 \<Longrightarrow> sint (w AND 0xFF :: u64) = uint v mod 2 ^ 8"
  using sint_masked [of 8 w v] by (simp add: mask_eq_exp_minus_1)

lemma masked_short: "w AND mask 16 = v AND mask 16 \<Longrightarrow> sint (w AND 0xFFFF :: u64) = uint v mod 2 ^ 16"
  using sint_masked [of 16 w v] by (simp add: mask_eq_exp_minus_1)

lemma bit_0x100: "bit (0x100 :: int) n \<longleftrightarrow> n = 8"
  using bit_exp_iff [of 8 n, where 'a = int] by simp

lemma reg_views:
  "ucast (ucast (v :: u64) :: u16) AND mask 16 = v AND mask 16"
  "ucast (ucast (v :: u64) :: u16) AND mask 8 = v AND mask 8"
  "ucast (set_lo8 (ucast (v :: u64)) r) AND mask 8 = v AND mask 8"
  "ucast ((0x100 :: u16) OR ucast ((v :: u64) AND 0xFF)) AND mask 8 = v AND mask 8"
  "ucast (drop_bit 16 (ucast (push_bit 16 (v :: u64)) :: u32)) AND mask 8 = v AND mask 8"
  by (rule bit_word_eqI; auto simp: bit_simps mask_bits set_lo8_def bit_0x100)+

lemma uint_of_int_mod: "uint (of_int v :: u64) mod 2 ^ 8 = v mod 2 ^ 8" "uint (of_int v :: u64) mod 2 ^ 16 = v mod 2 ^ 16"
  by (simp_all add: unsigned_of_int take_bit_eq_mod mod_mod_cancel)

lemma lower_names:
  "map to_lower ''A'' = ''a''" "map to_lower ''X'' = ''x''" "map to_lower ''Y'' = ''y''" "map to_lower ''SP'' = ''sp''"
  "map to_lower ''D'' = ''d''" "map to_lower ''PB'' = ''pb''" "map to_lower ''DB'' = ''db''" "map to_lower ''a'' = ''a''"
  "map to_lower ''x'' = ''x''" "map to_lower ''y'' = ''y''" "map to_lower ''sp'' = ''sp''" "map to_lower ''d'' = ''d''"
  "map to_lower ''pb'' = ''pb''" "map to_lower ''db'' = ''db''" "map to_lower ''ip'' = ''ip''" "map to_lower ''pc'' = ''pc''"
  "map to_lower ''c'' = ''c''" "map to_lower ''p'' = ''p''"
  by (simp_all add: to_lower_def Let_def) code_simp+

lemma SetRegister_reads_back:
  assumes name: "plain_register name" and reg: "stricmp_eq reg name" and "\<not> mode_native_6502 m"
  shows "\<exists>m'. SetRegister reg (of_int v) m = (True, m') \<and>
    map_of (lua_regs (GetDebugRegState m')) name = Some (Lua_integer (v mod 2 ^ (8 * register_size name m)))"
proof -
  have r: "map to_lower reg = map to_lower name" using reg by (simp add: stricmp_eq_def)
  have same: "stricmp_eq reg x \<longleftrightarrow> map to_lower name = map to_lower x" for x
    by (simp only: stricmp_eq_def r)
  from name consider "name = ''A''" | "name = ''X''" | "name = ''Y''" | "name = ''SP''" | "name = ''D''" | "name = ''PB''" | "name = ''DB''"
    by (auto simp: plain_register_def)
  then show ?thesis
    by cases (use assms(3) in \<open>simp_all add: SetRegister_def same lower_names GetDebugRegState_def lua_regs_def register_size_def
        Let_def masked_byte [OF reg_views(2)] masked_byte [OF reg_views(3)] masked_byte [OF reg_views(4)] masked_byte [OF reg_views(5)]
        masked_short [OF reg_views(1)] uint_of_int_mod [simplified] lower_names [simplified]\<close>)
qed

text \<open>What a script sets with \<open>set_reg\<close> it reads with \<open>get_state\<close>: in a pause, for the accumulator, the index registers, the stack
  pointer, the direct page register and the two banks, under their names in any case, \<open>set_reg\<close> returns true and the
  table of registers then holds the value modulo the size of the register.\<close>

theorem lua_set_then_get_register:
  assumes name: "plain_register name" "stricmp_eq reg name"
    and w: "debug_paused w" "\<not> mode_native_6502 (lw_machine w)"
    and args: "lua_isuserdata (env_api E) (lua_arg 1 args)"
      "luaL_checkstring (env_api E) 2 (lua_arg 2 args) = Inr reg" "luaL_checkinteger (env_api E) 3 (lua_arg 3 args) = Inr v"
  shows "\<exists>m. Lua_SetRegister E args w = Some (Inr [Lua_boolean True], w\<lparr>lw_machine := m\<rparr>) \<and>
    map_of (lua_regs (GetDebugRegState m)) name =
      Some (Lua_integer (v mod 2 ^ (8 * register_size name (lw_machine w))))"
proof -
  obtain m where "SetRegister reg (of_int v) (lw_machine w) = (True, m)"
      "map_of (lua_regs (GetDebugRegState m)) name = Some (Lua_integer (v mod 2 ^ (8 * register_size name (lw_machine w))))"
    using SetRegister_reads_back [OF name w(2)] by blast
  then show ?thesis
    using w(1) args by (intro exI [of _ m]) (simp add: Lua_SetRegister_def with_self_def pushed_def)
qed

section \<open>Examples\<close>

text \<open>A script whose values are numbers, texts and byte strings.\<close>

datatype script_value = Number int | Text string | Bytes "u8 list"

definition script_api :: "script_value lua_api" where
  "script_api =
     \<lparr>lua_isuserdata = (\<lambda>v. v \<noteq> None), lua_isfunction = (\<lambda>_. False),
      lua_isnumber = (\<lambda>v. case v of Some (Number _) \<Rightarrow> True | _ \<Rightarrow> False),
      lua_isstring = (\<lambda>v. case v of Some (Bytes _) \<Rightarrow> True | _ \<Rightarrow> False), lua_toboolean = (\<lambda>_. False),
      lua_tointeger = (\<lambda>v. case v of Some (Number n) \<Rightarrow> n | _ \<Rightarrow> 0), lua_tonumber_u8 = (\<lambda>_. Some 0),
      lua_tolstring = (\<lambda>v. case v of Some (Bytes bs) \<Rightarrow> bs | _ \<Rightarrow> []), lua_tostring = (\<lambda>_. None),
      luaL_checkint = (\<lambda>_ v. case v of Some (Number n) \<Rightarrow> Inr n | _ \<Rightarrow> Inl ''bad argument''),
      luaL_checkstring = (\<lambda>_ v. case v of Some (Text t) \<Rightarrow> Inr t | _ \<Rightarrow> Inl ''bad argument''),
      luaL_checkinteger = (\<lambda>_ v. case v of Some (Number n) \<Rightarrow> Inr n | _ \<Rightarrow> Inl ''bad argument''),
      luaL_ref = (\<lambda>_ _. None)\<rparr>"

definition script_env :: "(unit, script_value) lua_env" where
  "script_env = \<lparr>env_api = script_api, env_dev = no_io, env_run = (\<lambda>w. None)\<rparr>"

definition script_world :: "unit lua_world" where
  "script_world = \<lparr>lw_debug = DebugInterface False, lw_machine = linear_machine [], lw_assembler = WDC65816Assembler, lw_bound = []\<rparr>"

lemma script_world_pause: "holds_pause script_world" "debug_paused script_world"
  by (simp_all add: holds_pause_def debug_paused_def script_world_def DebugInterface_def)


theorem lua_set_then_get_register_witness:
  "\<exists>m. Lua_SetRegister script_env [Number 0, Text ''Sp'', Number 0x1234] script_world =
      Some (Inr [Lua_boolean True], script_world\<lparr>lw_machine := m\<rparr>) \<and>
    map_of (lua_regs (GetDebugRegState m)) ''SP'' = Some (Lua_integer 0x34)"
proof -
  have "stricmp_eq ''Sp'' ''SP''" by code_simp
  moreover have "register_size ''SP'' (lw_machine script_world) = 1" "\<not> mode_native_6502 (lw_machine script_world)"
    by (simp_all add: register_size_def script_world_def)
  ultimately show ?thesis
    using lua_set_then_get_register [where name = "''SP''" and reg = "''Sp''" and w = script_world
        and E = script_env and args = "[Number 0, Text ''Sp'', Number 0x1234]" and v = "0x1234"]
    by (simp add: plain_register_def script_world_pause script_env_def script_api_def lua_arg_def)
qed

end
