(* ===== verification/Lua_State.thy ===== *)
theory Lua_State
  imports Prelude
begin

text \<open>
  The owner of the Lua state (\<open>LuaState\<close> in lua_state.cc): which thread may run Lua code, and the interactive console
  with its lines.  The interpreter itself is outside the sources: what a chunk compiles to and what running it does
  are arguments.
\<close>

section \<open>Ownership\<close>

text \<open>
  Where a thread is: outside; in \<open>GainOwnership\<close> before the lock, or between the lock and the assignments; running Lua
  code under \<open>Suc n\<close> nested calls of \<open>ExecFile\<close>, \<open>CallRefFunction\<close> or the console; in \<open>ReleaseOwnership\<close> between its two
  statements; in \<open>fgets\<close> while it reads, before it locks again, and before the assignment (with the depth of
  calls).
\<close>

datatype lua_point =
    Outside_lua | Gaining | Gained | Owning nat | Releasing | Reading nat | Relocked nat

record lua_state =
  owning_thread :: "nat option"
  exec_lock :: "nat option"
  current_set :: "nat set"
  lua_at :: "nat \<Rightarrow> lua_point"

text \<open>
  \<open>owning_thread\<close> is \<open>None\<close> for the id of no thread; \<open>exec_lock\<close> is the holder of the mutex; \<open>current_set\<close> are the threads
  whose \<open>current_state\<close> is this object.
\<close>

definition LuaState_init :: lua_state where
  "LuaState_init = \<lparr>owning_thread = None, exec_lock = None, current_set = {}, lua_at = (\<lambda>_. Outside_lua)\<rparr>"

definition move :: "nat \<Rightarrow> lua_point \<Rightarrow> lua_state \<Rightarrow> lua_state" where
  "move t p s = s\<lparr>lua_at := (lua_at s)(t := p)\<rparr>"

text \<open>\<open>GainOwnership\<close> up to the lock: an owner goes on one level deeper.\<close>

definition Gain_enter :: "nat \<Rightarrow> lua_state \<Rightarrow> lua_state" where
  "Gain_enter t s =
     (if owning_thread s = Some t
      then move t (case lua_at s t of Owning n \<Rightarrow> Owning (Suc n) | _ \<Rightarrow> Owning 0) s
      else move t Gaining s)"

definition Gain_lock :: "nat \<Rightarrow> lua_state \<Rightarrow> lua_state" where
  "Gain_lock t s = move t Gained (s\<lparr>exec_lock := Some t\<rparr>)"

definition Gain_assign :: "nat \<Rightarrow> lua_state \<Rightarrow> lua_state" where
  "Gain_assign t s = move t (Owning 0) (s\<lparr>owning_thread := Some t, current_set := insert t (current_set s)\<rparr>)"

text \<open>The end of a call: only the outermost one, which was not the owner, releases.\<close>

definition Call_end :: "nat \<Rightarrow> nat \<Rightarrow> lua_state \<Rightarrow> lua_state" where
  "Call_end t n s =
     (case n of Suc m \<Rightarrow> move t (Owning m) s | 0 \<Rightarrow> move t Releasing (s\<lparr>owning_thread := None\<rparr>))"

definition Release_unlock :: "nat \<Rightarrow> lua_state \<Rightarrow> lua_state" where
  "Release_unlock t s = move t Outside_lua (s\<lparr>exec_lock := None\<rparr>)"

text \<open>\<open>fgets\<close>: unlock, read, lock, assign.\<close>

definition fgets_unlock :: "nat \<Rightarrow> nat \<Rightarrow> lua_state \<Rightarrow> lua_state" where
  "fgets_unlock t n s = move t (Reading n) (s\<lparr>exec_lock := None\<rparr>)"

definition fgets_lock :: "nat \<Rightarrow> nat \<Rightarrow> lua_state \<Rightarrow> lua_state" where
  "fgets_lock t n s = move t (Relocked n) (s\<lparr>exec_lock := Some t\<rparr>)"

definition fgets_assign :: "nat \<Rightarrow> nat \<Rightarrow> lua_state \<Rightarrow> lua_state" where
  "fgets_assign t n s = move t (Owning n) (s\<lparr>owning_thread := Some t\<rparr>)"

text \<open>
  The steps of the thread \<open>t\<close>.  A call comes from outside or, on a thread that runs Lua code, from a function of the
  program that the script called.
\<close>

inductive lua_step :: "nat \<Rightarrow> lua_state \<Rightarrow> lua_state \<Rightarrow> bool" for t where
  call: "lua_at s t = Outside_lua \<Longrightarrow> lua_step t s (Gain_enter t s)"
| nested_call: "lua_at s t = Owning n \<Longrightarrow> lua_step t s (Gain_enter t s)"
| lock: "lua_at s t = Gaining \<Longrightarrow> exec_lock s = None \<Longrightarrow> lua_step t s (Gain_lock t s)"
| assign: "lua_at s t = Gained \<Longrightarrow> lua_step t s (Gain_assign t s)"
| call_end: "lua_at s t = Owning n \<Longrightarrow> lua_step t s (Call_end t n s)"
| unlock: "lua_at s t = Releasing \<Longrightarrow> lua_step t s (Release_unlock t s)"
| read_begin: "lua_at s t = Owning n \<Longrightarrow> lua_step t s (fgets_unlock t n s)"
| read_end: "lua_at s t = Reading n \<Longrightarrow> exec_lock s = None \<Longrightarrow> lua_step t s (fgets_lock t n s)"
| read_assign: "lua_at s t = Relocked n \<Longrightarrow> lua_step t s (fgets_assign t n s)"

inductive_cases lua_stepE: "lua_step t s s'"

inductive lua_reachable :: "lua_state \<Rightarrow> bool" where
  start: "lua_reachable LuaState_init"
| more: "lua_reachable s \<Longrightarrow> lua_step t s s' \<Longrightarrow> lua_reachable s'"

section \<open>The console\<close>

definition LUA_MAXINPUT :: nat where
  "LUA_MAXINPUT = 512"

definition LUA_ERRSYNTAX :: int where
  "LUA_ERRSYNTAX = 3"

text \<open>
  The standard input is the text not yet read.  \<open>fgets\<close> of C reads up to a newline or \<open>max - 1\<close> characters, and nothing at the
  end of the text; \<open>LuaState::fgets\<close> ignores that, so that the buffer is used as it was, uninitialised.
\<close>

fun c_fgets :: "nat \<Rightarrow> string \<Rightarrow> string \<times> string" where
  "c_fgets 0 inp = ([], inp)"
| "c_fgets (Suc n) [] = ([], [])"
| "c_fgets (Suc n) (c # inp) =
     (if c = CHR 0x0A then ([c], inp) else (case c_fgets n inp of (b, inp) \<Rightarrow> (c # b, inp)))"

definition lua_readline :: "string \<Rightarrow> (string \<times> string) option" where
  "lua_readline inp = (if inp = [] then None else Some (c_fgets (LUA_MAXINPUT - 1) inp))"

text \<open>The line pushed: \<open>b\<close> is the C string in the buffer.\<close>

definition pushline :: "bool \<Rightarrow> string \<Rightarrow> (string \<times> string) option" where
  "pushline firstline inp = do {
     (b, inp) \<leftarrow> lua_readline inp;
     (let b = takeWhile (\<lambda>c. c \<noteq> CHR 0x00) b;
          b = (if b \<noteq> [] \<and> last b = CHR 0x0A then butlast b else b)
      in Some (if firstline \<and> take 1 b = ''='' then ''return '' @ tl b else b, inp))
   }"

fun strstr :: "string \<Rightarrow> string \<Rightarrow> nat option" where
  "strstr [] pat = (if pat = [] then Some 0 else None)"
| "strstr (c # cs) pat =
     (if take (length pat) (c # cs) = pat then Some 0 else map_option Suc (strstr cs pat))"

definition eof_mark :: string where
  "eof_mark = [CHR 0x27] @ ''<eof>'' @ [CHR 0x27]"

text \<open>\<open>incomplete\<close>: a syntax error whose message has the mark of the end of the text at its end, and nowhere before.\<close>

definition incomplete :: "int \<Rightarrow> string \<Rightarrow> bool" where
  "incomplete status msg \<longleftrightarrow>
     status = LUA_ERRSYNTAX \<and> length eof_mark \<le> length msg \<and> strstr msg eof_mark = Some (length msg - length eof_mark)"

text \<open>
  The loop of \<open>loadline\<close>: \<open>load\<close> is \<open>luaL_loadbuffer\<close>, the status and the message (or chunk) of a text.  Its result is the
  status with the text; \<open>pushline\<close> never reports the end of the input.
\<close>

partial_function (option) loadline_loop ::
    "(string \<Rightarrow> int \<times> string) \<Rightarrow> string \<Rightarrow> string \<Rightarrow> ((int \<times> string) \<times> string) option" where
  "loadline_loop load line inp =
     (case load line of (status, msg) \<Rightarrow>
        if \<not> incomplete status msg then Some ((status, line), inp)
        else do {
          (next_line, inp) \<leftarrow> pushline False inp;
          loadline_loop load (line @ [CHR 0x0A] @ next_line) inp
        })"

definition loadline :: "(string \<Rightarrow> int \<times> string) \<Rightarrow> string \<Rightarrow> ((int \<times> string) \<times> string) option" where
  "loadline load inp = do {
     (line, inp) \<leftarrow> pushline True inp;
     loadline_loop load line inp
   }"

text \<open>
  \<open>dotty\<close>: \<open>run\<close> is \<open>docall\<close> with the report and the printing of the results, on the world outside.
\<close>

partial_function (option) dotty ::
    "(string \<Rightarrow> int \<times> string) \<Rightarrow> (int \<Rightarrow> string \<Rightarrow> 'w \<Rightarrow> 'w option) \<Rightarrow> string \<Rightarrow> 'w \<Rightarrow> 'w option" where
  "dotty load run inp w = do {
     ((status, line), inp) \<leftarrow> loadline load inp;
     (if status = -1 then Some w
      else do {
        w \<leftarrow> run status line w;
        dotty load run inp w
      })
   }"

end
