(* ===== verification/Lua_State_Laws.thy ===== *)
theory Lua_State_Laws
  imports Lua_State
begin

text \<open>
  Laws of the owner of the Lua state: mutual exclusion of the threads that run Lua code, nested calls that never wait, and
  freedom from deadlock; and of the console: the lines it joins, and the end of its input.
\<close>

section \<open>The invariant of the owner\<close>

definition in_lock :: "lua_point \<Rightarrow> bool" where
  "in_lock p \<longleftrightarrow> (case p of Outside_lua \<Rightarrow> False | Gaining \<Rightarrow> False | Reading _ \<Rightarrow> False | _ \<Rightarrow> True)"

definition inside :: "lua_point \<Rightarrow> bool" where
  "inside p \<longleftrightarrow> (case p of Owning _ \<Rightarrow> True | Reading _ \<Rightarrow> True | Relocked _ \<Rightarrow> True | _ \<Rightarrow> False)"

lemma points [simp]:
  "\<not> in_lock Outside_lua" "\<not> in_lock Gaining" "in_lock Gained" "in_lock (Owning n)" "in_lock Releasing"
  "\<not> in_lock (Reading n)" "in_lock (Relocked n)"
  "\<not> inside Outside_lua" "\<not> inside Gaining" "\<not> inside Gained" "inside (Owning n)" "\<not> inside Releasing"
  "inside (Reading n)" "inside (Relocked n)"
  by (simp_all add: in_lock_def inside_def)

definition owner_inv :: "lua_state \<Rightarrow> bool" where
  "owner_inv s \<longleftrightarrow>
     (\<forall>t. in_lock (lua_at s t) \<longleftrightarrow> exec_lock s = Some t) \<and>
     (\<forall>t n. lua_at s t = Owning n \<longrightarrow> owning_thread s = Some t) \<and>
     (\<forall>t. owning_thread s = Some t \<longrightarrow> inside (lua_at s t)) \<and>
     (\<forall>t. inside (lua_at s t) \<longrightarrow> t \<in> current_set s)"

lemmas lua_state_defs = Gain_enter_def Gain_lock_def Gain_assign_def Call_end_def Release_unlock_def
  fgets_unlock_def fgets_lock_def fgets_assign_def move_def

lemma owner_inv_init: "owner_inv LuaState_init"
  by (simp add: owner_inv_def LuaState_init_def)

lemma owner_inv_step:
  assumes "lua_step t s s'" and "owner_inv s"
  shows "owner_inv s'"
proof -
  have here: "in_lock (lua_at s t) \<longleftrightarrow> exec_lock s = Some t"
    using assms(2) by (simp add: owner_inv_def)
  show ?thesis
    using assms(1)
  proof (cases rule: lua_step.cases)
    case call
    then show ?thesis using assms(2) here by (auto simp: owner_inv_def lua_state_defs)
  next
    case (nested_call n)
    then show ?thesis using assms(2) here by (auto simp: owner_inv_def lua_state_defs)
  next
    case lock
    then show ?thesis using assms(2) here by (auto simp: owner_inv_def lua_state_defs)
  next
    case assign
    then show ?thesis using assms(2) here by (auto simp: owner_inv_def lua_state_defs)
  next
    case (call_end n)
    then show ?thesis using assms(2) here by (cases n) (auto simp: owner_inv_def lua_state_defs)
  next
    case unlock
    then show ?thesis using assms(2) here by (auto simp: owner_inv_def lua_state_defs)
  next
    case (read_begin n)
    then show ?thesis using assms(2) here by (auto simp: owner_inv_def lua_state_defs)
  next
    case (read_end n)
    then show ?thesis using assms(2) here by (auto simp: owner_inv_def lua_state_defs)
  next
    case (read_assign n)
    then show ?thesis using assms(2) here by (auto simp: owner_inv_def lua_state_defs)
  qed
qed

lemma owner_inv_reachable: "lua_reachable s \<Longrightarrow> owner_inv s"
  by (induction rule: lua_reachable.induct) (auto intro: owner_inv_init owner_inv_step)

lemma owner_alone:
  assumes "owner_inv s" and "lua_at s t = Owning n" and "in_lock (lua_at s u)"
  shows "u = t"
proof -
  have "exec_lock s = Some t" "exec_lock s = Some u"
    using assms unfolding owner_inv_def by (metis points(4))+
  then show ?thesis by simp
qed

text \<open>C36: At most one thread runs Lua code, in every state the threads reach by calls, nested calls, reads of the
  console and releases: it is the one the state names as owner, it holds the mutex, and no other thread holds it or is about to run.
  A call that Lua code makes back into the program on the same thread does not wait: it goes one level deeper, and its end
  comes back without releasing.\<close>

theorem lua_mutual_exclusion:
  assumes "lua_reachable s" and "lua_at s t = Owning n"
  shows "owning_thread s = Some t \<and> exec_lock s = Some t \<and> t \<in> current_set s \<and>
    (\<forall>u m. lua_at s u = Owning m \<longrightarrow> u = t) \<and>
    Gain_enter t s = move t (Owning (Suc n)) s \<and> Call_end t (Suc n) (Gain_enter t s) = s"
proof -
  note inv = owner_inv_reachable [OF assms(1)]
  have o: "owning_thread s = Some t" using inv assms(2) by (simp add: owner_inv_def)
  have "exec_lock s = Some t" "t \<in> current_set s"
    using inv assms(2) unfolding owner_inv_def by (metis points(4), metis points(11))
  moreover have "\<forall>u m. lua_at s u = Owning m \<longrightarrow> u = t"
    using owner_alone [OF inv assms(2)] by (metis points(4))
  moreover have "Gain_enter t s = move t (Owning (Suc n)) s"
    by (simp add: Gain_enter_def o assms(2))
  moreover have "(lua_at s)(t := Owning n) = lua_at s" using assms(2) by auto
  then have "Call_end t (Suc n) (move t (Owning (Suc n)) s) = s"
    by (simp add: Call_end_def move_def)
  ultimately show ?thesis using o by simp
qed

text \<open>A run in which thread 1 gives the lock away for a line of the console, and thread 2 calls a function meanwhile.\<close>

definition example_lua :: lua_state where
  "example_lua = Gain_assign 2 (Gain_lock 2 (Gain_enter 2 (fgets_unlock 1 0 (Gain_assign 1 (Gain_lock 1 (Gain_enter 1 LuaState_init))))))"

lemma example_lua_reachable: "lua_reachable example_lua"
proof -
  note defs = lua_state_defs LuaState_init_def
  have "lua_reachable (Gain_enter 1 LuaState_init)"
    by (rule lua_reachable.more [OF lua_reachable.start lua_step.call]) (simp add: defs)
  then have "lua_reachable (Gain_lock 1 (Gain_enter 1 LuaState_init))"
    by (rule lua_reachable.more [OF _ lua_step.lock]) (simp_all add: defs)
  then have "lua_reachable (Gain_assign 1 (Gain_lock 1 (Gain_enter 1 LuaState_init)))"
    by (rule lua_reachable.more [OF _ lua_step.assign]) (simp_all add: defs)
  then have "lua_reachable (fgets_unlock 1 0 (Gain_assign 1 (Gain_lock 1 (Gain_enter 1 LuaState_init))))"
    by (rule lua_reachable.more [OF _ lua_step.read_begin]) (simp_all add: defs)
  then have "lua_reachable (Gain_enter 2 (fgets_unlock 1 0 (Gain_assign 1 (Gain_lock 1 (Gain_enter 1 LuaState_init)))))"
    by (rule lua_reachable.more [OF _ lua_step.call]) (simp_all add: defs)
  then have "lua_reachable (Gain_lock 2 (Gain_enter 2 (fgets_unlock 1 0 (Gain_assign 1 (Gain_lock 1 (Gain_enter 1 LuaState_init))))))"
    by (rule lua_reachable.more [OF _ lua_step.lock]) (simp_all add: defs)
  then show ?thesis
    unfolding example_lua_def by (rule lua_reachable.more [OF _ lua_step.assign]) (simp_all add: defs)
qed

theorem lua_mutual_exclusion_witness:
  "lua_at example_lua 1 = Reading 0 \<and> lua_at example_lua 2 = Owning 0 \<and> owning_thread example_lua = Some 2 \<and>
   Gain_enter 2 example_lua = move 2 (Owning 1) example_lua"
proof -
  have "lua_at example_lua 1 = Reading 0" "lua_at example_lua 2 = Owning 0"
    by (simp_all add: example_lua_def lua_state_defs LuaState_init_def)
  then show ?thesis
    using lua_mutual_exclusion [OF example_lua_reachable, of 2 0] by simp
qed

section \<open>No deadlock\<close>

text \<open>The holder of the mutex always has a step, and without a holder every waiting thread has one.\<close>

lemma lua_no_deadlock:
  assumes "lua_reachable s" and "lua_at s t \<noteq> Outside_lua"
  shows "\<exists>u s'. lua_at s u \<noteq> Outside_lua \<and> lua_step u s s'"
proof (cases "exec_lock s")
  case None
  have "\<not> in_lock (lua_at s t)"
    using owner_inv_reachable [OF assms(1)] None by (simp add: owner_inv_def)
  then have "(lua_at s t = Gaining) \<or> (\<exists>n. lua_at s t = Reading n)"
    using assms(2) by (cases "lua_at s t") simp_all
  then show ?thesis using None lua_step.lock lua_step.read_end by (metis assms(2))
next
  case (Some u)
  then have u: "in_lock (lua_at s u)"
    using owner_inv_reachable [OF assms(1)] by (simp add: owner_inv_def)
  then have "lua_at s u \<noteq> Outside_lua" by auto
  moreover have "\<exists>s'. lua_step u s s'"
    using u by (cases "lua_at s u") (auto intro: lua_step.assign lua_step.call_end lua_step.unlock lua_step.read_assign)
  ultimately show ?thesis by blast
qed

section \<open>The console\<close>

text \<open>A line the console can hold: no newline or zero in it, and short enough for the buffer.\<close>

definition console_line :: "string \<Rightarrow> bool" where
  "console_line l \<longleftrightarrow> CHR 0x0A \<notin> set l \<and> CHR 0x00 \<notin> set l \<and> length l < 511"

definition typed :: "string list \<Rightarrow> string" where
  "typed ls = concat (map (\<lambda>l. l @ [CHR 0x0A]) ls)"

definition joined :: "string \<Rightarrow> string list \<Rightarrow> string" where
  "joined l ls = foldl (\<lambda>a l. a @ [CHR 0x0A] @ l) l ls"

lemma typed_simps [simp]: "typed [] = []" "typed (l # ls) = l @ CHR 0x0A # typed ls"
  by (simp_all add: typed_def)

lemma c_fgets_line:
  "CHR 0x0A \<notin> set l \<Longrightarrow> length l < n \<Longrightarrow> c_fgets n (l @ CHR 0x0A # inp) = (l @ [CHR 0x0A], inp)"
proof (induction l arbitrary: n)
  case Nil
  then show ?case by (cases n) simp_all
next
  case (Cons c l)
  then show ?case by (cases n) auto
qed

lemma pushline_line:
  assumes "console_line l"
  shows "pushline first (l @ CHR 0x0A # inp) =
    Some (if first \<and> take 1 l = ''='' then ''return '' @ tl l else l, inp)"
proof -
  have "lua_readline (l @ CHR 0x0A # inp) = Some (l @ [CHR 0x0A], inp)"
    using assms by (simp add: lua_readline_def console_line_def LUA_MAXINPUT_def c_fgets_line)
  moreover have "takeWhile (\<lambda>c. c \<noteq> CHR 0x00) (l @ [CHR 0x0A]) = l @ [CHR 0x0A]"
    using assms by (subst takeWhile_eq_all_conv) (auto simp: console_line_def)
  ultimately show ?thesis
    by (simp add: pushline_def Let_def)
qed

lemma loadline_loop_joins:
  assumes "\<forall>l \<in> set ls. console_line l"
    and "\<forall>k < length ls. incomplete (fst (load (joined l (take k ls)))) (snd (load (joined l (take k ls))))"
    and "\<not> incomplete (fst (load (joined l ls))) (snd (load (joined l ls)))"
  shows "loadline_loop load l (typed ls @ rest) = Some ((fst (load (joined l ls)), joined l ls), rest)"
  using assms
proof (induction ls arbitrary: l)
  case Nil
  then show ?case by (subst loadline_loop.simps) (simp add: joined_def split_def)
next
  case (Cons m ls)
  have j: "joined l (m # xs) = joined (l @ [CHR 0x0A] @ m) xs" for xs
    by (simp add: joined_def)
  have "incomplete (fst (load l)) (snd (load l))"
    using Cons.prems(2) by (auto simp: joined_def dest: spec [of _ 0])
  moreover have "loadline_loop load (l @ [CHR 0x0A] @ m) (typed ls @ rest) =
      Some ((fst (load (joined l (m # ls))), joined l (m # ls)), rest)"
    unfolding j
  proof (rule Cons.IH)
    show "\<forall>k < length ls. incomplete (fst (load (joined (l @ [CHR 0x0A] @ m) (take k ls))))
        (snd (load (joined (l @ [CHR 0x0A] @ m) (take k ls))))"
    proof (intro allI impI)
      fix k assume "k < length ls"
      then show "incomplete (fst (load (joined (l @ [CHR 0x0A] @ m) (take k ls))))
          (snd (load (joined (l @ [CHR 0x0A] @ m) (take k ls))))"
        using Cons.prems(2) [rule_format, of "Suc k"] by (simp add: j)
    qed
  qed (use Cons.prems in \<open>simp_all add: j\<close>)
  ultimately show ?case
    using Cons.prems(1) by (subst loadline_loop.simps) (simp add: split_def pushline_line)
qed

text \<open>C40: The console reads a complete chunk: from typed lines of which every proper beginning is an unfinished text for the
  interpreter and the whole is not, \<open>loadline\<close> returns the lines joined by newlines with the status of the whole, an equals sign at
  the start of the first line having become \<open>return\<close>, and leaves the rest of the input.\<close>

theorem loadline_joins_lines:
  assumes lines: "console_line first" "\<And>l. l \<in> set ls \<Longrightarrow> console_line l"
    and l: "l = (if take 1 first = ''='' then ''return '' @ tl first else first)"
    and unfinished: "\<And>k. k < length ls \<Longrightarrow>
      incomplete (fst (load (joined l (take k ls)))) (snd (load (joined l (take k ls))))"
    and whole: "\<not> incomplete (fst (load (joined l ls))) (snd (load (joined l ls)))"
  shows "loadline load (typed (first # ls) @ rest) = Some ((fst (load (joined l ls)), joined l ls), rest)"
proof -
  have "loadline_loop load l (typed ls @ rest) = Some ((fst (load (joined l ls)), joined l ls), rest)"
    using lines(2) unfinished whole by (intro loadline_loop_joins) auto
  then show ?thesis
    by (simp add: loadline_def pushline_line [OF lines(1)] l)
qed

text \<open>At the end of the input the console uses a buffer nothing was read into: it never ends by itself.\<close>

lemma pushline_at_end: "pushline first [] = None"
  by (simp add: pushline_def lua_readline_def)

lemma loadline_at_end: "loadline load [] = None"
  by (simp add: loadline_def pushline_at_end)

definition example_load :: "string \<Rightarrow> int \<times> string" where
  "example_load line = (if last line = CHR ''('' then (LUA_ERRSYNTAX, ''unexpected near '' @ eof_mark) else (0, []))"

theorem loadline_joins_lines_witness:
  "loadline example_load (typed [''=f('', ''1)''] @ ''x'') = Some ((0, ''return f('' @ [CHR 0x0A] @ ''1)''), ''x'')"
proof -
  have "incomplete LUA_ERRSYNTAX (''unexpected near '' @ eof_mark)"
    by code_simp
  then have "incomplete (fst (example_load (joined ''return f('' (take k [''1)'']))))
      (snd (example_load (joined ''return f('' (take k [''1)'']))))" if "k < length [''1)'']" for k
    using that by (simp add: joined_def example_load_def)
  moreover have "\<not> incomplete (fst (example_load (joined ''return f('' [''1)'']))) (snd (example_load (joined ''return f('' [''1)''])))"
    by (simp add: joined_def example_load_def incomplete_def LUA_ERRSYNTAX_def)
  ultimately show ?thesis
    using loadline_joins_lines [of "''=f(''" "[''1)'']" "''return f(''" example_load "''x''"]
    by (simp add: console_line_def joined_def example_load_def)
qed

lemma loadline_loop_status:
  assumes "loadline_loop load l inp = Some r" and "\<And>text. fst (load text) \<noteq> -1"
  shows "fst (fst r) \<noteq> -1"
proof -
  have "(\<forall>text. fst (load text) \<noteq> -1) \<longrightarrow> fst (fst r) \<noteq> -1"
  proof (rule loadline_loop.raw_induct [where P = "\<lambda>load l inp r. (\<forall>text. fst (load text) \<noteq> -1) \<longrightarrow> fst (fst r) \<noteq> -1",
        OF _ assms(1)], rule impI)
    fix loop :: "(string \<Rightarrow> int \<times> string) \<Rightarrow> string \<Rightarrow> string \<Rightarrow> ((int \<times> string) \<times> string) option"
      and load l inp r
    assume IH: "\<And>load l inp r. loop load l inp = Some r \<Longrightarrow> (\<forall>text. fst (load text) \<noteq> -1) \<longrightarrow> fst (fst r) \<noteq> -1"
      and body: "(case load l of (status, msg) \<Rightarrow>
        if \<not> incomplete status msg then Some ((status, l), inp)
        else do {
          (next_line, inp) \<leftarrow> pushline False inp;
          loop load (l @ [CHR 0x0A] @ next_line) inp
        }) = Some r" and ok: "\<forall>text. fst (load text) \<noteq> -1"
    obtain st msg where st: "load l = (st, msg)" by (cases "load l")
    with ok have "st \<noteq> -1" by (metis fst_conv)
    show "fst (fst r) \<noteq> -1"
    proof (cases "incomplete st msg")
      case False
      with body st \<open>st \<noteq> -1\<close> show ?thesis by auto
    next
      case True
      with body st obtain l' inp' where "loop load l' inp' = Some r"
        by (auto simp: bind_eq_Some_conv)
      with IH ok show ?thesis by blast
    qed
  qed
  with assms(2) show ?thesis by blast
qed

text \<open>
  The console has no end: whatever is typed and whatever the chunks do, \<open>dotty\<close> does not return.  It would return on the
  status that stands for the end of the input, but \<open>fgets\<close> never reports the end; on an exhausted input the line is taken from a
  buffer nothing was read into.
\<close>

theorem console_never_ends:
  assumes load: "\<And>text. fst (load text) \<noteq> -1"
  shows "dotty load run inp w = None \<and> loadline load [] = None"
proof -
  have "False" if "dotty load run inp w = Some v" for v
  proof -
    have "load = load \<longrightarrow> False"
    proof (rule dotty.raw_induct [where P = "\<lambda>l run inp w v. l = load \<longrightarrow> False", OF _ that], rule impI)
      fix loop :: "(string \<Rightarrow> int \<times> string) \<Rightarrow> (int \<Rightarrow> string \<Rightarrow> 'a \<Rightarrow> 'a option) \<Rightarrow> string \<Rightarrow> 'a \<Rightarrow> 'a option"
        and l run inp w v
      assume IH: "\<And>l run inp w v. loop l run inp w = Some v \<Longrightarrow> l = load \<longrightarrow> False"
        and body: "(do {
           ((status, line), inp) \<leftarrow> loadline l inp;
           (if status = -1 then Some w
            else do {
              w \<leftarrow> run status line w;
              loop l run inp w
            })
         }) = Some v" and l: "l = load"
      then obtain status line inp' where r: "loadline load inp = Some ((status, line), inp')"
        and rest: "(if status = -1 then Some w else do { w \<leftarrow> run status line w; loop l run inp' w }) = Some v"
        by (auto simp: bind_eq_Some_conv)
      obtain first inp1 where "loadline_loop load first inp1 = Some ((status, line), inp')"
        using r by (auto simp: loadline_def bind_eq_Some_conv)
      then have "status \<noteq> -1" using loadline_loop_status [OF _ load] by fastforce
      with rest obtain w' where "loop l run inp' w' = Some v" by (auto simp: bind_eq_Some_conv)
      with IH l show False by blast
    qed
    then show False by simp
  qed
  then show ?thesis
    by (cases "dotty load run inp w") (simp_all add: loadline_at_end)
qed

theorem console_never_ends_witness:
  "dotty example_load (\<lambda>status line w. Some (w @ [line])) (typed [''x = 1'', ''print(x)'']) [] = None"
proof -
  have "fst (example_load line) \<noteq> -1" for line
    by (simp add: example_load_def LUA_ERRSYNTAX_def)
  from console_never_ends [OF this, of _ "\<lambda>status line w. Some (w @ [line])" "typed [''x = 1'', ''print(x)'']" "[]"]
  show ?thesis by simp
qed

end
