(* ===== verification/Cpu_Clock.thy ===== *)
theory Cpu_Clock
  imports Cpu_Safety
begin

text \<open>
  The clock of the CPU.  Every instruction and every interrupt moves it on, by at least one cycle and by at
  most \<open>32 * M\<close>, where \<open>M\<close> bounds the cycles of an access to a page and of eight internal operations.  The proof follows
  Cpu_Safety: primitive operations, addressing modes, instruction templates, tables; what a
  piece of code may spend is counted in units of \<open>M\<close>.
\<close>

section \<open>What has been spent\<close>

text \<open>
  \<open>b\<close> is the clock to count from and the stop cycle.  Fast block moves copy up to 64 KiB in one instruction; they are off.
\<close>

definition spent :: "((nat \<Rightarrow> nat) \<Rightarrow> memory_map \<Rightarrow> bool \<Rightarrow> 'd \<Rightarrow> bool) \<Rightarrow> nat \<Rightarrow> u64 \<times> u64 \<Rightarrow> nat \<Rightarrow> 'd machine \<Rightarrow> bool" where
  "spent K M b n s \<longleftrightarrow> sys_ok K s \<and> \<not> fast_block_moves s \<and> 8 * unat (internal_cycle_timing s) \<le> M \<and>
     cycle_stop s = snd b \<and> (\<exists>j \<le> n * M. cycle s = fst b + of_nat j)"

lemma spent_sys_ok: "spent K M b n s \<Longrightarrow> sys_ok K s"
  by (simp add: spent_def)

lemma spent_fast: "spent K M b n s \<Longrightarrow> \<not> fast_block_moves s"
  by (simp add: spent_def)

lemma spent_mono: "spent K M b n s \<Longrightarrow> n \<le> m \<Longrightarrow> spent K M b m s"
  by (auto simp: spent_def intro: order_trans mult_le_mono1)

lemma spent_cong:
  assumes "sys_ok K t = sys_ok K s" and "fast_block_moves t = fast_block_moves s"
    and "internal_cycle_timing t = internal_cycle_timing s" and "cycle_stop t = cycle_stop s" and "cycle t = cycle s"
  shows "spent K M b n t = spent K M b n s"
  using assms by (simp add: spent_def)

lemma spent_updates [simp]:
  "spent K M b n (s\<lparr>event_cycle := v1\<rparr>) = spent K M b n s"
  "spent K M b n (s\<lparr>ip := v2\<rparr>) = spent K M b n s"
  "spent K M b n (s\<lparr>zero_flag := v2\<rparr>) = spent K M b n s"
  "spent K M b n (s\<lparr>negative_flag := v2\<rparr>) = spent K M b n s"
  "spent K M b n (s\<lparr>interrupts := v2\<rparr>) = spent K M b n s"
  "spent K M b n (s\<lparr>carry := v2\<rparr>) = spent K M b n s"
  "spent K M b n (s\<lparr>other_flags := v2\<rparr>) = spent K M b n s"
  "spent K M b n (s\<lparr>regs_a := v3\<rparr>) = spent K M b n s"
  "spent K M b n (s\<lparr>regs_x := v3\<rparr>) = spent K M b n s"
  "spent K M b n (s\<lparr>regs_y := v3\<rparr>) = spent K M b n s"
  "spent K M b n (s\<lparr>regs_d := v3\<rparr>) = spent K M b n s"
  "spent K M b n (s\<lparr>regs_sp := v3\<rparr>) = spent K M b n s"
  "spent K M b n (s\<lparr>num_emulated_instructions := v1\<rparr>) = spent K M b n s"
  by (rule spent_cong; simp)+

lemma spent_if [simp]: "spent K M b n (if c then s else t) = (if c then spent K M b n s else spent K M b n t)"
  by simp

lemma spent_segments [simp]:
  "bank_ok v \<Longrightarrow> spent K M b n s \<Longrightarrow> spent K M b n (s\<lparr>code_segment_base := v\<rparr>)"
  "bank_ok v \<Longrightarrow> spent K M b n s \<Longrightarrow> spent K M b n (s\<lparr>data_segment_base := v\<rparr>)"
  by (simp_all add: spent_def)

lemma spent_set_reg16 [simp]: "spent K M b n (set_reg16 r v s) = spent K M b n s"
  by (cases r) simp_all

lemma spent_reg_set [simp]: "spent K M b n (reg_set r w v s) = spent K M b n s"
  by (cases w) simp_all

lemma spent_parts [simp]:
  "spent K M b n (SetNZ w v s) = spent K M b n s"
  "spent K M b n (sp_inc s) = spent K M b n s" "spent K M b n (sp_dec s) = spent K M b n s"
  "spent K M b n (advance_ip k s) = spent K M b n s"
  "spent K M b n (Lsr_SetFlags v s) = spent K M b n s"
  by (simp_all add: SetNZ_def sp_inc_def sp_dec_def advance_ip_def Lsr_SetFlags_def)

lemma spent_arith [simp]:
  "spent K M b n (AddDec w v s) = spent K M b n s" "spent K M b n (AddBin w v s) = spent K M b n s"
  "spent K M b n (SubDec w v s) = spent K M b n s" "spent K M b n (SubBin w v s) = spent K M b n s"
  "spent K M b n (DoCmp w r v s) = spent K M b n s"
  by (simp_all add: AddDec_def AddBin_def SubDec_def SubBin_def DoCmp_def Let_def)

lemma OnUpdateMode_clock [simp]:
  "fast_block_moves (OnUpdateMode s) = fast_block_moves s" "internal_cycle_timing (OnUpdateMode s) = internal_cycle_timing s"
  "cycle_stop (OnUpdateMode s) = cycle_stop s"
  by (simp_all add: OnUpdateMode_def Let_def)

lemma spent_OnUpdateMode:
  assumes "spent K M b n s"
  shows "spent K M b n (OnUpdateMode s)"
    and "spent K M b n (OnUpdateMode (s\<lparr>mode_long_a := a\<rparr>))"
    and "spent K M b n (OnUpdateMode (s\<lparr>mode_long_xy := x\<rparr>))"
    and "spent K M b n (OnUpdateMode (s\<lparr>mode_long_xy := x, mode_long_a := a\<rparr>))"
    and "spent K M b n (OnUpdateMode (s\<lparr>mode_emulation := e\<rparr>))"
    and "spent K M b n (OnUpdateMode (s\<lparr>mode_long_a := a, mode_long_xy := x\<rparr>))"
    and "spent K M b n (OnUpdateMode (s\<lparr>mode_emulation := e, mode_long_a := a, mode_long_xy := x\<rparr>))"
  using assms by (simp_all add: spent_def sys_ok_OnUpdateMode_flags)

lemma spent_SetStatusRegister [simp]:
  "spent K M b n s \<Longrightarrow> spent K M b n (SetStatusRegister v s)"
  by (auto simp: SetStatusRegister_def Let_def spent_OnUpdateMode)

lemma spent_add:
  assumes "spent K M b n s" and "unat (k :: u32) \<le> M"
  shows "spent K M b (n + 1) (s\<lparr>cycle := cycle s + ucast k\<rparr>)"
proof -
  obtain j where j: "j \<le> n * M" "cycle s = fst b + of_nat j" using assms(1) by (auto simp: spent_def)
  have "cycle s + ucast k = fst b + of_nat (j + unat k)"
    by (simp add: j(2) of_nat_unat add.assoc)
  moreover have "j + unat k \<le> (n + 1) * M" using j(1) assms(2) by simp
  ultimately show ?thesis using assms(1) unfolding spent_def by (auto intro!: exI [of _ "j + unat k"])
qed

lemma timing_times: "8 * unat (t :: u32) \<le> M \<Longrightarrow> unat k \<le> 8 \<Longrightarrow> unat (t * k) \<le> M"
proof -
  assume a: "8 * unat t \<le> M" "unat k \<le> 8"
  have "unat (t * k) \<le> unat t * unat k" by (simp add: unat_word_ariths)
  also have "\<dots> \<le> unat t * 8" using a(2) by (rule mult_le_mono2)
  finally show ?thesis using a(1) by simp
qed

lemma spent_InternalOp:
  assumes "spent K M b n s"
  shows "spent K M b (n + 1) (InternalOp s)"
    and "unat k \<le> 8 \<Longrightarrow> spent K M b (n + 1) (InternalOp_n k s)"
    and "spent K M b (n + 1) (if c then InternalOp s else s)"
    and "spent K M b (n + 1) (conditional_cycle m s)"
proof -
  have t: "8 * unat (internal_cycle_timing s) \<le> M" using assms by (simp add: spent_def)
  show i: "spent K M b (n + 1) (InternalOp s)"
    unfolding InternalOp_def by (rule spent_add [OF assms]) (use t in simp)
  show "spent K M b (n + 1) (InternalOp_n k s)" if "unat k \<le> 8"
    unfolding InternalOp_n_def by (rule spent_add [OF assms timing_times [OF t that]])
  show "spent K M b (n + 1) (if c then InternalOp s else s)" "spent K M b (n + 1) (conditional_cycle m s)"
    using i spent_mono [OF assms, of "n + 1"] by (simp_all add: conditional_cycle_def)
qed


named_theorems spent_intros \<open>what the operations of the model spend\<close>

text \<open>
  Rules for code: the goal \<open>within K M b n m\<close> has a known bound \<open>n\<close>, the premises \<open>runs (spent K M b k) m\<close> find theirs.
\<close>

definition within :: "((nat \<Rightarrow> nat) \<Rightarrow> memory_map \<Rightarrow> bool \<Rightarrow> 'd \<Rightarrow> bool) \<Rightarrow> nat \<Rightarrow> u64 \<times> u64 \<Rightarrow> nat \<Rightarrow> ('d, 'a) result \<Rightarrow> bool" where
  "within K M b n m \<longleftrightarrow> runs (spent K M b n) m"

lemma within_runs: "within K M b n m \<Longrightarrow> runs (spent K M b n) m"
  by (simp add: within_def)

lemma within_bind:
  "runs (spent K M b k) m \<Longrightarrow> (\<And>x s. spent K M b k s \<Longrightarrow> within K M b n (g x s)) \<Longrightarrow>
    within K M b n (m \<bind> (\<lambda>(x, s). g x s))"
  by (auto simp: within_def runs_iff)

lemma within_tail: "runs (spent K M b k) m \<Longrightarrow> k \<le> n \<Longrightarrow> within K M b n m"
  by (auto simp: within_def intro: runs_weaken spent_mono)

lemma within_ret: "spent K M b n s \<Longrightarrow> within K M b n (Some (x, s))"
  by (simp add: within_def)

lemma within_if: "(c \<Longrightarrow> within K M b n x) \<Longrightarrow> (\<not> c \<Longrightarrow> within K M b n y) \<Longrightarrow> within K M b n (if c then x else y)"
  by simp

lemma within_option:
  "(r = None \<Longrightarrow> within K M b n x) \<Longrightarrow> (\<And>v. r = Some v \<Longrightarrow> within K M b n (f v)) \<Longrightarrow>
    within K M b n (case r of None \<Rightarrow> x | Some v \<Rightarrow> f v)"
  by (cases r) auto

lemma within_assign: "within K M b n (g x) \<Longrightarrow> within K M b n (Some x \<bind> g)"
  by simp

lemmas [spent_intros] = within_bind within_assign within_ret within_if within_option conjI impI

text \<open>Where the bound is known.\<close>

lemma spent_ops:
  "spent K M b k s \<Longrightarrow> k + 1 \<le> n \<Longrightarrow> spent K M b n (InternalOp s)"
  "spent K M b k s \<Longrightarrow> k + 1 \<le> n \<Longrightarrow> unat i \<le> 8 \<Longrightarrow> spent K M b n (InternalOp_n i s)"
  "spent K M b k s \<Longrightarrow> k + 1 \<le> n \<Longrightarrow> spent K M b n (conditional_cycle m s)"
  "spent K M b k s \<Longrightarrow> k \<le> n \<Longrightarrow> spent K M b n s"
  by (rule spent_mono [OF spent_InternalOp(1)] spent_mono [OF spent_InternalOp(2)] spent_mono [OF spent_InternalOp(4)] spent_mono;
      assumption)+


section \<open>The contract with a clock\<close>

text \<open>
  Beyond \<open>io_contract\<close>: the callbacks leave the clock, its stop and the timing alone, the
  processor is a 65816, and an access to a page takes at least one cycle and at most \<open>M\<close>.
\<close>

definition cpu_timing :: "'d machine \<Rightarrow> u64 \<times> u64 \<times> bool \<times> u32" where
  "cpu_timing s = (cycle s, cycle_stop s, fast_block_moves s, internal_cycle_timing s)"

definition io_calm :: "((nat \<Rightarrow> nat) \<Rightarrow> memory_map \<Rightarrow> bool \<Rightarrow> 'd \<Rightarrow> bool) \<Rightarrow> 'd io \<Rightarrow> bool" where
  "io_calm K io \<longleftrightarrow>
     (\<forall>s a v t x y s'. sys_ok K s \<longrightarrow>
        (io_read io a v s = Some (x, s') \<or> io_write io a v s = Some (y, s') \<or> irq_taken io t s = Some (y, s') \<longrightarrow>
          cpu_timing s' = cpu_timing s))"

definition pages_timed :: "((nat \<Rightarrow> nat) \<Rightarrow> memory_map \<Rightarrow> bool \<Rightarrow> 'd \<Rightarrow> bool) \<Rightarrow> nat \<Rightarrow> bool" where
  "pages_timed K M \<longleftrightarrow>
     (\<forall>sizes m nat d. K sizes m nat d \<longrightarrow> \<not> nat \<and> (\<forall>p \<in> set (pages m). cycles_per_access p \<noteq> 0 \<and> unat (cycles_per_access p) \<le> M))"

lemma cpu_timing_open_bus [simp]: "cpu_timing (set_open_bus v s) = cpu_timing s"
  by (simp add: cpu_timing_def set_open_bus_def)

lemma cpu_timing_host [simp]: "cpu_timing (s\<lparr>host := h\<rparr>) = cpu_timing s"
  by (simp add: cpu_timing_def)

lemma spent_start:
  assumes "sys_ok K s" and "\<not> fast_block_moves s" and "8 * unat (internal_cycle_timing s) \<le> M"
  shows "spent K M (cycle s, cycle_stop s) 0 s"
  using assms by (simp add: spent_def)

lemma spent_timing:
  assumes "cpu_timing t = cpu_timing s" and "sys_ok K t" and "spent K M b n s"
  shows "spent K M b n t"
  using assms by (simp add: spent_def cpu_timing_def)

section \<open>What modes and instructions may spend\<close>

definition timed_read :: "((nat \<Rightarrow> nat) \<Rightarrow> memory_map \<Rightarrow> bool \<Rightarrow> 'd \<Rightarrow> bool) \<Rightarrow> nat \<Rightarrow> 'd io \<Rightarrow> 'd addr_mode \<Rightarrow> bool" where
  "timed_read K M io m \<longleftrightarrow> (\<forall>w b n s. spent K M b n s \<longrightarrow> runs (spent K M b (n + 18)) (am_Read m io w s))"

definition timed_write :: "((nat \<Rightarrow> nat) \<Rightarrow> memory_map \<Rightarrow> bool \<Rightarrow> 'd \<Rightarrow> bool) \<Rightarrow> nat \<Rightarrow> 'd io \<Rightarrow> 'd addr_mode \<Rightarrow> bool" where
  "timed_write K M io m \<longleftrightarrow> (\<forall>w v b n s. spent K M b n s \<longrightarrow> runs (spent K M b (n + 18)) (am_Write m io w v s))"

text \<open>The function a modifying access is given may spend two units.\<close>

definition timed_modify :: "((nat \<Rightarrow> nat) \<Rightarrow> memory_map \<Rightarrow> bool \<Rightarrow> 'd \<Rightarrow> bool) \<Rightarrow> nat \<Rightarrow> 'd io \<Rightarrow> 'd addr_mode \<Rightarrow> bool" where
  "timed_modify K M io m \<longleftrightarrow>
     (\<forall>f b n s. (\<forall>v k t. spent K M b k t \<longrightarrow> spent K M b (k + 2) (snd (f v t))) \<longrightarrow> spent K M b n s \<longrightarrow>
        runs (spent K M b (n + 18)) (am_Modify m io f s))"

definition timed_address :: "((nat \<Rightarrow> nat) \<Rightarrow> memory_map \<Rightarrow> bool \<Rightarrow> 'd \<Rightarrow> bool) \<Rightarrow> nat \<Rightarrow> 'd io \<Rightarrow> 'd addr_mode \<Rightarrow> bool" where
  "timed_address K M io m \<longleftrightarrow> (\<forall>b n s. spent K M b n s \<longrightarrow> runs (spent K M b (n + 18)) (CalcEffectiveAddress m io s))"

text \<open>The two forms of a memory operand, over the effective address of its mode.\<close>

definition operand24 :: "'d addr_mode \<Rightarrow> bool" where
  "operand24 m \<longleftrightarrow> am_Read m = op24_Read (CalcEffectiveAddress m) \<and> am_Write m = op24_Write (CalcEffectiveAddress m) \<and>
     (\<exists>w. am_Modify m = op24_Modify w (CalcEffectiveAddress m))"

definition operand16 :: "'d addr_mode \<Rightarrow> bool" where
  "operand16 m \<longleftrightarrow> (\<exists>e. am_Read m = op16zero_Read e (CalcEffectiveAddress m)) \<and> am_Write m = op16zero_Write (CalcEffectiveAddress m) \<and>
     (\<exists>w. am_Modify m = op16zero_Modify w (CalcEffectiveAddress m))"

lemma operand_modes:
  "operand24 (AddrAbs A XY)" "operand24 (AddrAbsX A XY c)" "operand24 (AddrAbsY A XY c)" "operand24 (AddrAbsLong A XY)"
  "operand24 (AddrAbsLongX A XY)" "operand24 (AddrDirectIndirect A XY)" "operand24 (AddrDirectIndirectX A XY em)"
  "operand24 (AddrDirectIndirectY A XY c em)" "operand24 (AddrDirectIndirectLong A XY)" "operand24 (AddrDirectIndirectLongY A XY)"
  "operand24 (AddrStackY A XY)"
  "operand16 (AddrDirect A XY em)" "operand16 (AddrDirectX A XY em)" "operand16 (AddrDirectY A XY em)" "operand16 (AddrStack A XY)"
  by (auto simp: operand24_def operand16_def mode_defs Let_def)

definition timed_op :: "((nat \<Rightarrow> nat) \<Rightarrow> memory_map \<Rightarrow> bool \<Rightarrow> 'd \<Rightarrow> bool) \<Rightarrow> nat \<Rightarrow> 'd io \<Rightarrow> 'd op \<Rightarrow> bool" where
  "timed_op K M io op \<longleftrightarrow> (\<forall>b n s. spent K M b n s \<longrightarrow> runs (spent K M b (n + 26)) (Exec op io s))"

section \<open>Machines whose clock runs\<close>

text \<open>The states from which the clock is followed, and one step of it: at least a cycle, at most \<open>32 * M\<close>.\<close>

definition clock_ok :: "((nat \<Rightarrow> nat) \<Rightarrow> memory_map \<Rightarrow> bool \<Rightarrow> 'd \<Rightarrow> bool) \<Rightarrow> nat \<Rightarrow> 'd machine \<Rightarrow> bool" where
  "clock_ok K M s \<longleftrightarrow> sys_ok K s \<and> \<not> fast_block_moves s \<and> 8 * unat (internal_cycle_timing s) \<le> M"

definition ticks :: "nat \<Rightarrow> 'd machine \<Rightarrow> 'd machine \<Rightarrow> bool" where
  "ticks M s s' \<longleftrightarrow> cycle_stop s' = cycle_stop s \<and>
     (unat (cycle s) + 32 * M < 2 ^ 64 \<longrightarrow> cycle s < cycle s' \<and> unat (cycle s') \<le> unat (cycle s) + 32 * M)"

lemma spent_clock_ok: "spent K M b n s \<Longrightarrow> clock_ok K M s"
  by (simp add: spent_def clock_ok_def)

lemma clock_ok_spent: "clock_ok K M s \<Longrightarrow> spent K M (cycle s, cycle_stop s) 0 s"
  by (simp add: spent_def clock_ok_def)

lemma ticksI:
  assumes "k \<noteq> 0" and "unat (k :: u32) \<le> M" and "spent K M (cycle s + ucast k, cycle_stop s) n t" and "n \<le> 31"
  shows "ticks M s t"
proof -
  obtain j where j: "j \<le> n * M" "cycle t = cycle s + ucast k + of_nat j" "cycle_stop t = cycle_stop s"
    using assms(3) by (auto simp: spent_def)
  have "n * M \<le> 31 * M" using assms(4) by (rule mult_le_mono1)
  with j(1) assms(2) have le: "unat k + j \<le> 32 * M" by linarith
  have "0 < unat k" using assms(1) by (simp add: unat_gt_0)
  show ?thesis
    unfolding ticks_def
  proof (intro conjI impI)
    show "cycle_stop t = cycle_stop s" by (rule j(3))
    assume small: "unat (cycle s) + 32 * M < 2 ^ 64"
    have "cycle t = of_nat (unat (cycle s) + (unat k + j))" by (simp add: j(2) add.assoc)
    with small le have "unat (cycle t) = unat (cycle s) + (unat k + j)"
      by (simp add: unat_of_nat del: of_nat_add)
    with le \<open>0 < unat k\<close> show "cycle s < cycle t" "unat (cycle t) \<le> unat (cycle s) + 32 * M"
      by (simp_all add: word_less_nat_alt)
  qed
qed

text \<open>The end of an interrupt: after the return address.\<close>

definition interrupt_tail :: "'d io \<Rightarrow> InterruptType \<Rightarrow> 'd machine \<Rightarrow> ('d, unit) result" where
  "interrupt_tail io type s = do {
     (_, s) \<leftarrow> Push8 io (interrupt_status type s) s;
     (pc, s) \<leftarrow> ReadRaw io W16 (interrupt_vector (mode_emulation s) type) s;
     s \<leftarrow> Some (s\<lparr>ip := pc, code_segment_base := 0, interrupts := 0\<rparr>);
     s \<leftarrow> Some (if \<not> mode_native_6502 s then s\<lparr>other_flags := other_flags s AND 0xFFF7\<rparr> else s);
     (if type = INT_IRQ \<or> type = INT_NMI then irq_taken io (if type = INT_IRQ then 1 else 2) s else Some ((), s))
   }"

locale io_clock = io_contract io K for io :: "'d io" and K +
  fixes M :: nat
  assumes calm: "io_calm K io" and timed: "pages_timed K M"
begin

lemma read_calm: "sys_ok K s \<Longrightarrow> io_read io a v s = Some (x, s') \<Longrightarrow> cpu_timing s' = cpu_timing s"
  and write_calm: "sys_ok K s \<Longrightarrow> io_write io a v s = Some (y, s') \<Longrightarrow> cpu_timing s' = cpu_timing s"
  and irq_calm: "sys_ok K s \<Longrightarrow> irq_taken io t s = Some (y, s') \<Longrightarrow> cpu_timing s' = cpu_timing s"
  using calm unfolding io_calm_def by blast+

lemma page_timed:
  assumes "sys_ok K s" and "page_at i s = Some p"
  shows "cycles_per_access p \<noteq> 0 \<and> unat (cycles_per_access p) \<le> M"
proof -
  have "p \<in> set (pages (memory (sysbus s)))"
    using assms(2) by (auto simp: page_at_def Let_def split: if_splits)
  moreover have "K (blk_size (host s)) (memory (sysbus s)) (mode_native_6502 s) (dev s)"
    using assms(1) by (simp add: sys_ok_def)
  ultimately show ?thesis using timed unfolding pages_timed_def by blast
qed

lemma not_native: "sys_ok K s \<Longrightarrow> \<not> mode_native_6502 s"
  using timed unfolding pages_timed_def sys_ok_def by blast

lemma ReadByte_clock:
  assumes "sys_ok K s"
  obtains v n s' where "ReadByte io a s = Some ((v, n), s')" and "sys_ok K s'"
    and "cpu_timing s' = cpu_timing s" and "n \<noteq> 0" and "unat n \<le> M"
proof -
  define t where "t = (if open_bus_is_data (sysbus s) then s else set_open_bus (ucast (a AND 0xFF)) s)"
  have t: "sys_ok K t" "cpu_timing t = cpu_timing s" using assms by (simp_all add: t_def)
  obtain v n s' where r: "ReadByte io a s = Some ((v, n), s')" "sys_ok K s'"
    using ReadByte_runs [OF assms, of a] by (auto simp: runs_iff)
  define i where "i = page_index t (a AND mem_mask (sysbus t))"
  obtain p where p: "page_at i s' = Some p" "n = cycles_per_access p"
    using r(1) unfolding ReadByte_def Let_def t_def [symmetric] i_def [symmetric]
    by (auto simp: bind_eq_Some_conv)
  have "cpu_timing s' = cpu_timing t"
  proof -
    obtain q where q: "page_at i t = Some q"
      using r(1) unfolding ReadByte_def Let_def t_def [symmetric] i_def [symmetric] by (auto simp: bind_eq_Some_conv)
    show ?thesis
    proof (cases "io_mask q AND (a AND mem_mask (sysbus t)) = io_eq q")
      case True
      then obtain x u where "io_read io (a AND mem_mask (sysbus t)) (open_bus (sysbus t)) t = Some (x, u)" "s' = set_open_bus x u"
        using r(1) q unfolding ReadByte_def Let_def t_def [symmetric] i_def [symmetric]
        by (auto simp: bind_eq_Some_conv)
      with read_calm [OF t(1)] show ?thesis by simp
    next
      case False
      then show ?thesis
        using r(1) q unfolding ReadByte_def Let_def t_def [symmetric] i_def [symmetric]
        by (cases "ptr q") (auto simp: bind_eq_Some_conv)
    qed
  qed
  with page_timed [OF r(2) p(1)] p(2) r t(2) show ?thesis using that by simp
qed

lemma WriteByte_clock:
  assumes "sys_ok K s"
  obtains n s' where "WriteByte io a v s = Some (n, s')" and "sys_ok K s'"
    and "cpu_timing s' = cpu_timing s" and "n \<noteq> 0" and "unat n \<le> M"
proof -
  obtain n s' where r: "WriteByte io a v s = Some (n, s')" "sys_ok K s'"
    using WriteByte_keeps [OF assms, of a v] by (auto simp: runs_iff io_keeps_def)
  define i where "i = page_index s (a AND mem_mask (sysbus s))"
  obtain p where p: "page_at i s' = Some p" "n = cycles_per_access p"
    using r(1) unfolding WriteByte_def Let_def i_def [symmetric]
    by (auto simp: bind_eq_Some_conv)
  have "cpu_timing s' = cpu_timing s"
  proof -
    obtain q where q: "page_at i s = Some q"
      using r(1) unfolding WriteByte_def Let_def i_def [symmetric] by (auto simp: bind_eq_Some_conv)
    show ?thesis
    proof (cases "io_mask q AND (a AND mem_mask (sysbus s)) = io_eq q")
      case True
      then obtain x u w where "io_write io (a AND mem_mask (sysbus s)) v s = Some (x, u)" "s' = set_open_bus w u"
        using r(1) q unfolding WriteByte_def Let_def i_def [symmetric]
        by (auto simp: bind_eq_Some_conv)
      with write_calm [OF assms] show ?thesis by simp
    next
      case False
      then show ?thesis
        using r(1) q unfolding WriteByte_def Let_def i_def [symmetric]
        by (cases "ptr q"; cases "flags q AND kReadOnly = 0") (auto simp: bind_eq_Some_conv)
    qed
  qed
  with page_timed [OF r(2) p(1)] p(2) r show ?thesis using that by simp
qed

lemma ReadU8_spent [spent_intros]: "spent K M b n s \<Longrightarrow> runs (spent K M b (n + 1)) (ReadU8 io a s)"
proof -
  assume s: "spent K M b n s"
  obtain v k s' where r: "ReadByte io a s = Some ((v, k), s')" "sys_ok K s'" "cpu_timing s' = cpu_timing s" "unat k \<le> M"
    by (rule ReadByte_clock [OF spent_sys_ok [OF s]])
  from spent_add [OF spent_timing [OF r(3,2) s] r(4)] r(1) show ?thesis
    by (simp add: ReadU8_def)
qed

lemma WriteU8_spent [spent_intros]: "spent K M b n s \<Longrightarrow> runs (spent K M b (n + 1)) (WriteU8 io a v s)"
proof -
  assume s: "spent K M b n s"
  obtain k s' where r: "WriteByte io a v s = Some (k, s')" "sys_ok K s'" "cpu_timing s' = cpu_timing s" "unat k \<le> M"
    by (rule WriteByte_clock [OF spent_sys_ok [OF s]])
  from spent_add [OF spent_timing [OF r(3,2) s] r(4)] r(1) show ?thesis
    by (simp add: WriteU8_def)
qed

lemma irq_taken_spent [spent_intros]: "spent K M b n s \<Longrightarrow> runs (spent K M b n) (irq_taken io t s)"
  using irq_taken_runs [OF spent_sys_ok, of M b n s t] irq_calm [OF spent_sys_ok, of M b n s t]
  by (auto simp: runs_iff intro: spent_timing)



section \<open>Accesses\<close>

lemma spent_segment [spent_intros]:
  "spent K M b n s \<Longrightarrow> bank_ok v \<Longrightarrow> spent K M b n (s\<lparr>code_segment_base := v\<rparr>)"
  "spent K M b n s \<Longrightarrow> bank_ok v \<Longrightarrow> spent K M b n (s\<lparr>data_segment_base := v\<rparr>)"
  by simp_all

lemmas [spent_intros] = spent_InternalOp spent_SetStatusRegister

lemma Read_spent [spent_intros]:
  "spent K M b n s \<Longrightarrow> runs (spent K M b (n + 2)) (ReadRaw io w a s)"
  "spent K M b n s \<Longrightarrow> runs (spent K M b (n + 2)) (ReadPBR io w a s)"
  "spent K M b n s \<Longrightarrow> runs (spent K M b (n + 2)) (ReadDBR io w a s)"
  "spent K M b n s \<Longrightarrow> runs (spent K M b (n + 2)) (ReadZero io w a s)"
  by (cases w; hypsubst; rule within_runs; unfold ReadPBR_def ReadU16NoCrossBank_def ReadRaw.simps ReadDBR.simps ReadZero.simps; (assumption | rule spent_intros | (rule within_tail, rule spent_intros) | simp | rule spent_ops)+)+

lemma Write_spent [spent_intros]:
  "spent K M b n s \<Longrightarrow> runs (spent K M b (n + 2)) (WriteRaw io w a v s)"
  "spent K M b n s \<Longrightarrow> runs (spent K M b (n + 2)) (WriteDBR io w a v s)"
  "spent K M b n s \<Longrightarrow> runs (spent K M b (n + 2)) (WriteZero io w a v s)"
  by (cases w; hypsubst; rule within_runs; unfold WriteDBR8_def WriteZero8_def WriteRaw.simps WriteDBR.simps WriteZero.simps; (assumption | rule spent_intros | (rule within_tail, rule spent_intros) | simp | rule spent_ops)+)+

lemma byte_stack_spent [spent_intros]:
  "spent K M b n s \<Longrightarrow> runs (spent K M b (n + 2)) (Push8 io v8 s)"
  "spent K M b n s \<Longrightarrow> runs (spent K M b (n + 2)) (Pop8 io s)"
  "spent K M b n s \<Longrightarrow> runs (spent K M b (n + 2)) (PopOld8 io s)"
  by (rule within_runs; unfold Push8_def WriteZero8_def Pop8_def PopOld8_def Let_def; (assumption | rule spent_intros | (rule within_tail, rule spent_intros) | simp | rule spent_ops)+)+

lemma word_stack_spent [spent_intros]:
  "spent K M b n s \<Longrightarrow> runs (spent K M b (n + 4)) (Push16 io v s)"
  "spent K M b n s \<Longrightarrow> runs (spent K M b (n + 4)) (Pop16 io s)"
  by (rule within_runs; unfold Push16_def Pop16_def; (assumption | rule spent_intros | (rule within_tail, rule spent_intros) | simp | rule spent_ops)+)+

lemma stack_spent [spent_intros]:
  "spent K M b n s \<Longrightarrow> runs (spent K M b (n + 4)) (Push io w v s)"
  "spent K M b n s \<Longrightarrow> runs (spent K M b (n + 4)) (Pop io w s)"
  "spent K M b n s \<Longrightarrow> runs (spent K M b (n + 4)) (PopOld io w s)"
  by (cases w; hypsubst; rule within_runs; unfold PopOld16_def Push.simps Pop.simps PopOld.simps; (assumption | rule spent_intros | (rule within_tail, rule spent_intros) | simp | rule spent_ops)+)+

lemma block_move_spent [spent_intros]:
  "spent K M b n s \<Longrightarrow> runs (spent K M b (n + 2)) (block_move_byte io sb db inc s)"
  by (rule within_runs; unfold block_move_byte_def Let_def; (assumption | rule spent_intros | (rule within_tail, rule spent_intros) | simp | rule spent_ops)+)

lemma BlockMove_spent [spent_intros]:
  "spent K M b n s \<Longrightarrow> bank_ok (push_bit 16 db) \<Longrightarrow> runs (spent K M b (n + 2)) (BlockMove io sb db inc s)"
  by (frule spent_fast; rule within_runs; unfold BlockMove_def; (assumption | rule spent_intros | (rule within_tail, rule spent_intros) | simp | rule spent_ops)+)

section \<open>Addressing modes\<close>

lemma address_spent [spent_intros]:
  "spent K M b n s \<Longrightarrow> runs (spent K M b (n + 3)) (abs_address r c io s)"
  "spent K M b n s \<Longrightarrow> runs (spent K M b (n + 4)) (abs_long_address io s)"
  "spent K M b n s \<Longrightarrow> runs (spent K M b (n + 4)) (abs_long_x_address io s)"
  "spent K M b n s \<Longrightarrow> runs (spent K M b (n + 6)) (indirect_long_pointer io s)"
  by (rule within_runs; unfold abs_address_def abs_long_address_def abs_long_x_address_def indirect_long_pointer_def Let_def; (assumption | rule spent_intros | (rule within_tail, rule spent_intros) | simp | rule spent_ops)+)+


lemma direct_address_spent [spent_intros]:
  "spent K M b n s \<Longrightarrow> runs (spent K M b (n + 5)) (direct_address r e io s)"
  by (rule within_runs; unfold direct_address_def Let_def; (assumption | rule spent_intros | (rule within_tail, rule spent_intros) | simp | rule spent_ops)+)

lemma op24_spent:
  assumes ea: "\<And>n s. spent K M b n s \<Longrightarrow> runs (spent K M b (n + e)) (ea io s)" and s: "spent K M b n s"
  shows "runs (spent K M b (n + e + 6)) (op24_Read ea io w s)" "runs (spent K M b (n + e + 6)) (op24_Write ea io w v s)"
    "runs (spent K M b (n + e + 6)) (op16zero_Read em ea io w s)" "runs (spent K M b (n + e + 6)) (op16zero_Write ea io w v s)"
proof -
  note [spent_intros] = ea
  show "runs (spent K M b (n + e + 6)) (op24_Read ea io w s)" "runs (spent K M b (n + e + 6)) (op24_Write ea io w v s)"
    "runs (spent K M b (n + e + 6)) (op16zero_Read em ea io w s)" "runs (spent K M b (n + e + 6)) (op16zero_Write ea io w v s)"
    by (cases w; hypsubst; rule within_runs; insert s; unfold op24_Read_def op24_Write_def op16zero_Read_def op16zero_Write_def width.case; (assumption | rule spent_intros | (rule within_tail, rule spent_intros) | simp | rule spent_ops)+)+
qed

lemma modify_spent:
  assumes ea: "\<And>n s. spent K M b n s \<Longrightarrow> runs (spent K M b (n + e)) (ea io s)" and s: "spent K M b n s"
    and f: "\<And>v k t. spent K M b k t \<Longrightarrow> spent K M b (k + 2) (snd (f v t))"
  shows "runs (spent K M b (n + e + 6)) (op24_Modify w ea io f s)" "runs (spent K M b (n + e + 6)) (op16zero_Modify w ea io f s)"
proof -
  note [spent_intros] = ea
  have [spent_intros]: "spent K M b k t \<Longrightarrow> runs (spent K M b (k + 2)) (Some (f v t))" for v k t
    using f [of k t v] by (cases "f v t") simp
  show "runs (spent K M b (n + e + 6)) (op24_Modify w ea io f s)" "runs (spent K M b (n + e + 6)) (op16zero_Modify w ea io f s)"
    by (rule within_runs; insert s; unfold op24_Modify_def op16zero_Modify_def; (assumption | rule spent_intros | (rule within_tail, rule spent_intros) | simp | rule spent_ops)+)+
qed

lemma direct_Read_spent [spent_intros]:
  "spent K M b n s \<Longrightarrow> runs (spent K M b (n + 5 + 6)) (am_Read (AddrDirect A XY em) io w s)"
  "spent K M b n s \<Longrightarrow> runs (spent K M b (n + 5 + 6)) (am_Read (AddrDirectX A XY em) io w s)"
  unfolding AddrDirect_def AddrDirectX_def AddrDirectBase_def addr_mode.select_convs
  by (rule op24_spent(3), erule direct_address_spent, assumption)+

lemma modes_address_spent [spent_intros]:
  assumes s: "spent K M b n s"
  shows "runs (spent K M b (n + 12)) (CalcEffectiveAddress (AddrAbs A XY) io s)"
    "runs (spent K M b (n + 12)) (CalcEffectiveAddress (AddrAbsX A XY c) io s)"
    "runs (spent K M b (n + 12)) (CalcEffectiveAddress (AddrAbsY A XY c) io s)"
    "runs (spent K M b (n + 12)) (CalcEffectiveAddress (AddrAbsLong A XY) io s)"
    "runs (spent K M b (n + 12)) (CalcEffectiveAddress (AddrAbsLongX A XY) io s)"
    "runs (spent K M b (n + 12)) (CalcEffectiveAddress (AddrDirect A XY em) io s)"
    "runs (spent K M b (n + 12)) (CalcEffectiveAddress (AddrDirectX A XY em) io s)"
    "runs (spent K M b (n + 12)) (CalcEffectiveAddress (AddrDirectY A XY em) io s)"
    "runs (spent K M b (n + 12)) (CalcEffectiveAddress (AddrDirectIndirect A XY) io s)"
    "runs (spent K M b (n + 12)) (CalcEffectiveAddress (AddrDirectIndirectLong A XY) io s)"
    "runs (spent K M b (n + 12)) (CalcEffectiveAddress (AddrDirectIndirectLongY A XY) io s)"
    "runs (spent K M b (n + 12)) (CalcEffectiveAddress (AddrStack A XY) io s)"
    "runs (spent K M b (n + 12)) (CalcEffectiveAddress (AddrStackY A XY) io s)"
  by (rule within_runs; insert s; unfold mode_defs Let_def addr_mode.simps; (assumption | rule spent_intros | (rule within_tail, rule spent_intros) | simp | rule spent_ops)+)+

lemma indexed_indirect_spent [spent_intros]:
  assumes s: "spent K M b n s"
  shows "runs (spent K M b (n + 12)) (CalcEffectiveAddress (AddrDirectIndirectX A XY em) io s)"
    "runs (spent K M b (n + 12)) (CalcEffectiveAddress (AddrDirectIndirectY A XY c em) io s)"
  by (rule within_runs; insert s; unfold AddrDirectIndirectX_def AddrDirectIndirectY_def Let_def addr_mode.simps; (assumption | rule spent_intros | (rule within_tail, rule spent_intros) | simp | rule spent_ops)+)+

lemma wrapped_pointer_spent [spent_intros]:
  "spent K M b n s \<Longrightarrow> runs (spent K M b (n + 4))
     (if c then do {
        (lo, s) \<leftarrow> ReadZero io W8 a1 s;
        (hi, s) \<leftarrow> ReadZero io W8 a2 s;
        Some (le16 (ucast lo) (ucast hi), s)
      }
      else ReadZero io W16 a3 s)"
  by (rule within_runs; (assumption | rule spent_intros | (rule within_tail, rule spent_intros) | simp | rule spent_ops)+)

lemma jump_address_spent [spent_intros]:
  assumes s: "spent K M b n s"
  shows "runs (spent K M b (n + 12)) (CalcEffectiveAddress (JmpAddrModeInd l c) io s)"
    "runs (spent K M b (n + 12)) (CalcEffectiveAddress JmpAddrModeIndAbsX io s)"
  by (rule within_runs; insert s; unfold mode_defs addr_mode.simps; (assumption | rule spent_intros | (rule within_tail, rule spent_intros) | simp | rule spent_ops)+)+

lemma operands_timed:
  assumes "operand24 m \<or> operand16 m" and "\<And>b n s. spent K M b n s \<Longrightarrow> runs (spent K M b (n + 12)) (CalcEffectiveAddress m io s)"
  shows "timed_read K M io m" "timed_write K M io m" "timed_modify K M io m"
proof -
  note r = op24_spent [where e = 12 and ea = "CalcEffectiveAddress m", OF assms(2)]
    modify_spent [where e = 12 and ea = "CalcEffectiveAddress m", OF assms(2)]
  show "timed_read K M io m" "timed_write K M io m" "timed_modify K M io m"
    using assms(1) r by (auto simp: timed_read_def timed_write_def timed_modify_def operand24_def operand16_def add.commute)
qed

lemma modes_timed [simp]:
  "timed_read K M io (AddrA A XY)" "timed_read K M io (AddrImm A XY E)"
  "timed_modify K M io (AddrA A XY)"
proof -
  show "timed_read K M io (AddrA A XY)" "timed_read K M io (AddrImm A XY E)"
    by (unfold timed_read_def, intro allI impI, rule within_runs, unfold mode_defs addr_mode.simps; (assumption | rule spent_intros | (rule within_tail, rule spent_intros) | simp | rule spent_ops)+)+
  show "timed_modify K M io (AddrA A XY)"
    unfolding timed_modify_def
  proof (intro allI impI)
    fix f :: "u32 \<Rightarrow> 'd machine \<Rightarrow> u32 \<times> 'd machine" and b n s
    assume f: "\<forall>v k t. spent K M b k t \<longrightarrow> spent K M b (k + 2) (snd (f v t))" and s: "spent K M b n s"
    obtain r t where t: "f (reg_get RA A s) s = (r, t)" by (cases "f (reg_get RA A s) s")
    have "spent K M b (n + 2) t" using f s t by (metis snd_conv)
    then show "runs (spent K M b (n + 18)) (am_Modify (AddrA A XY) io f s)"
      by (simp add: AddrA_def t spent_mono)
  qed
qed

lemma memory_modes_timed [simp]:
  "timed_read K M io (AddrAbs A XY)" "timed_read K M io (AddrAbsX A XY c)" "timed_read K M io (AddrAbsY A XY c)"
  "timed_read K M io (AddrAbsLong A XY)" "timed_read K M io (AddrAbsLongX A XY)"
  "timed_read K M io (AddrDirect A XY e)" "timed_read K M io (AddrDirectX A XY e)" "timed_read K M io (AddrDirectY A XY e)"
  "timed_read K M io (AddrDirectIndirect A XY)" "timed_read K M io (AddrDirectIndirectX A XY e)"
  "timed_read K M io (AddrDirectIndirectY A XY c e)" "timed_read K M io (AddrDirectIndirectLong A XY)"
  "timed_read K M io (AddrDirectIndirectLongY A XY)" "timed_read K M io (AddrStack A XY)" "timed_read K M io (AddrStackY A XY)"
  "timed_write K M io (AddrAbs A XY)" "timed_write K M io (AddrAbsX A XY c)" "timed_write K M io (AddrAbsY A XY c)"
  "timed_write K M io (AddrAbsLong A XY)" "timed_write K M io (AddrAbsLongX A XY)"
  "timed_write K M io (AddrDirect A XY e)" "timed_write K M io (AddrDirectX A XY e)" "timed_write K M io (AddrDirectY A XY e)"
  "timed_write K M io (AddrDirectIndirect A XY)" "timed_write K M io (AddrDirectIndirectX A XY e)"
  "timed_write K M io (AddrDirectIndirectY A XY c e)" "timed_write K M io (AddrDirectIndirectLong A XY)"
  "timed_write K M io (AddrDirectIndirectLongY A XY)" "timed_write K M io (AddrStack A XY)" "timed_write K M io (AddrStackY A XY)"
  "timed_modify K M io (AddrAbs A XY)" "timed_modify K M io (AddrAbsX A XY c)"
  "timed_modify K M io (AddrDirect A XY e)" "timed_modify K M io (AddrDirectX A XY e)"
  by (rule operands_timed; simp add: operand_modes modes_address_spent indexed_indirect_spent)+

section \<open>Instructions\<close>

lemma timed_modeD [spent_intros]:
  "timed_read K M io m \<Longrightarrow> spent K M b n s \<Longrightarrow> runs (spent K M b (n + 18)) (am_Read m io w s)"
  "timed_write K M io m \<Longrightarrow> spent K M b n s \<Longrightarrow> runs (spent K M b (n + 18)) (am_Write m io w v s)"
  "timed_modify K M io m \<Longrightarrow> spent K M b n s \<Longrightarrow> (\<And>v k t. spent K M b k t \<Longrightarrow> spent K M b (k + 2) (snd (f v t))) \<Longrightarrow>
    runs (spent K M b (n + 18)) (am_Modify m io f s)"
  by (cases b; simp add: timed_read_def timed_write_def timed_modify_def)+

lemma timed_opI: "(\<And>b n s. spent K M b n s \<Longrightarrow> within K M b (n + 26) (Exec op io s)) \<Longrightarrow> timed_op K M io op"
  by (simp add: timed_op_def within_def)

lemma reading_ops_timed [simp]:
  assumes "timed_read K M io m"
  shows "timed_op K M io (OpBit m)" "timed_op K M io (OpBitImm m)" "timed_op K M io (OpOr m)"
    "timed_op K M io (OpAnd m)" "timed_op K M io (OpXor m)" "timed_op K M io (LDA m)" "timed_op K M io (LDX m)"
    "timed_op K M io (LDY m)" "timed_op K M io (OpAdc m)" "timed_op K M io (OpSbc m)" "timed_op K M io (OpCmp m)"
    "timed_op K M io (OpCpx m)" "timed_op K M io (OpCpy m)"
  by (rule timed_opI; insert assms; unfold OpBit_def OpBitImm_def OpAlu_def OpOr_def OpAnd_def OpXor_def
      OpLoad_def LDA_def LDX_def LDY_def OpAdc_def OpSbc_def OpCmp_def OpCpx_def OpCpy_def Let_def op.simps; (assumption | rule spent_intros | (rule within_tail, rule spent_intros) | simp | rule spent_ops)+)+

lemma writing_ops_timed [simp]:
  assumes "timed_write K M io m"
  shows "timed_op K M io (STA m)" "timed_op K M io (STX m)" "timed_op K M io (STY m)" "timed_op K M io (STZ m)"
  by (rule timed_opI; insert assms; unfold OpStore_def STA_def STX_def STY_def STZ_def op.simps; (assumption | rule spent_intros | (rule within_tail, rule spent_intros) | simp | rule spent_ops)+)+

lemma modifying_ops_timed [simp]:
  assumes "timed_modify K M io m"
  shows "timed_op K M io (OpTsb m)" "timed_op K M io (OpTrb m)" "timed_op K M io (OpAsl m)"
    "timed_op K M io (OpLsr m)" "timed_op K M io (OpRor m)" "timed_op K M io (OpRol m)"
    "timed_op K M io (OpIncMem m)" "timed_op K M io (OpDecMem m)"
  by (rule timed_opI; insert assms; unfold OpTsb_def OpTrb_def OpAsl_def OpLsr_def OpRor_def OpRol_def
      OpIncMem_def OpDecMem_def Let_def op.simps; (assumption | rule spent_intros | (rule within_tail, rule spent_intros) | simp | rule spent_ops)+)+

lemma timed_opD [spent_intros]: "timed_op K M io op \<Longrightarrow> spent K M b n s \<Longrightarrow> runs (spent K M b (n + 26)) (Exec op io s)"
  by (cases b) (simp add: timed_op_def)

lemma nmos_ops_timed [simp]:
  "timed_read K M io m \<Longrightarrow> timed_op K M io (LAX m)" "timed_write K M io m \<Longrightarrow> timed_op K M io (SAX m)"
  "timed_op K M io ALR" "timed_op K M io ANC" "unat k \<le> 8 \<Longrightarrow> timed_op K M io (n6502_NOP k l)"
  by (rule timed_opI; unfold LAX_def SAX_def ALR_def ANC_def n6502_NOP_def OpNOPImpl_def Let_def op.simps; (assumption | rule spent_intros | (rule within_tail, rule spent_intros) | simp | rule spent_ops)+)+

lemma flag_ops_timed [simp]:
  "timed_op K M io CLC" "timed_op K M io SEC" "timed_op K M io CLI" "timed_op K M io SEI" "timed_op K M io CLD"
  "timed_op K M io SED" "timed_op K M io CLV" "timed_op K M io XBA" "timed_op K M io OpNOP" "timed_op K M io OpWDM"
  "timed_op K M io WAI" "timed_op K M io STP"
  by (rule timed_opI; unfold CLC_def SEC_def CLI_def SEI_def CLD_def SED_def CLV_def XBA_def
      OpNOP_def OpNOPImpl_def OpWDM_def WAI_def STP_def cpu_WAI_def cpu_STP_def Let_def op.simps; (assumption | rule spent_intros | (rule within_tail, rule spent_intros) | simp | rule spent_ops)+)+

lemma register_ops_timed [simp]:
  "timed_op K M io (INX A XY)" "timed_op K M io (INY A XY)" "timed_op K M io (INA A XY)"
  "timed_op K M io (DEX A XY)" "timed_op K M io (DEY A XY)" "timed_op K M io (DEA A XY)"
  "timed_op K M io (TAX A XY)" "timed_op K M io (TAY A XY)" "timed_op K M io (TSX A XY)"
  "timed_op K M io (TXA A XY)" "timed_op K M io (TXY A XY)" "timed_op K M io (TYA A XY)"
  "timed_op K M io (TYX A XY)" "timed_op K M io (TCD A XY)" "timed_op K M io (TDC A XY)"
  "timed_op K M io (TSC A XY)" "timed_op K M io (TXS e)" "timed_op K M io (TCS e)"
  by (rule timed_opI; unfold IncDecReg_def INX_def INY_def INA_def DEX_def DEY_def DEA_def
      MoveReg_def TAX_def TAY_def TSX_def TXA_def TXY_def TYA_def TYX_def TCD_def TDC_def TSC_def
      TXS_def TCS_def Let_def op.simps; (assumption | rule spent_intros | (rule within_tail, rule spent_intros) | simp | rule spent_ops)+)+

lemma mode_ops_timed [simp]: "timed_op K M io REP" "timed_op K M io SEP" "timed_op K M io XCE"
proof -
  have r: "runs (spent K M b (n + 26)) (ReadPBR io W8 a s)" if "spent K M b n s" for b n a s
    using Read_spent(2) [OF that] by (rule runs_weaken) (erule spent_mono, simp)
  show "timed_op K M io REP" "timed_op K M io SEP"
    by (rule timed_opI; unfold REP_def SEP_def op.simps; rule within_bind, erule r;
        auto simp: Let_def within_def spent_OnUpdateMode cong: if_cong)+
  show "timed_op K M io XCE"
  proof (rule timed_opI)
    fix b n s
    assume "spent K M b n s"
    then have "spent K M b (n + 26) s" by (rule spent_mono) simp
    then show "within K M b (n + 26) (Exec XCE io s)"
      by (simp add: XCE_def within_def Let_def spent_OnUpdateMode)
  qed
qed

lemma stack_ops_timed [simp]:
  "timed_op K M io (PHA w)" "timed_op K M io PHD" "timed_op K M io (PHX w)" "timed_op K M io (PHY w)"
  "timed_op K M io (PLA w)" "timed_op K M io PLD" "timed_op K M io (PLX w)" "timed_op K M io (PLY w)"
  "timed_op K M io PHP" "timed_op K M io PLP" "timed_op K M io PHK" "timed_op K M io PHB" "timed_op K M io PLB"
  by (rule timed_opI; unfold OpPush_def PHA_def PHD_def PHX_def PHY_def OpPop_def PLA_def PLD_def
      PLX_def PLY_def PHP_def PLP_def PHK_def PHB_def PLB_def Let_def op.simps reg.simps if_True if_False; (assumption | rule spent_intros | (rule within_tail, rule spent_intros) | simp | rule spent_ops)+)+

lemma branch_ops_timed [simp]:
  "timed_op K M io BCC" "timed_op K M io BCS" "timed_op K M io BEQ" "timed_op K M io BMI" "timed_op K M io BNE"
  "timed_op K M io BPL" "timed_op K M io BRA" "timed_op K M io BVC" "timed_op K M io BVS" "timed_op K M io BRL"
  by (rule timed_opI; unfold CondBranch_def BCC_def BCS_def BEQ_def BMI_def BNE_def BPL_def BRA_def
      BVC_def BVS_def BRL_def Let_def op.simps; (assumption | rule spent_intros | (rule within_tail, rule spent_intros) | simp | rule spent_ops)+)+

section \<open>Jumps, calls and interrupts\<close>

lemma optional_spent [spent_intros]:
  "spent K M b n s \<Longrightarrow> runs (spent K M b (n + 2)) (if c then Push8 io v s else Some ((), s))"
  "spent K M b n s \<Longrightarrow> runs (spent K M b (n + 2))
     (if c then do { (p, s) \<leftarrow> Pop8 io s; ret (s\<lparr>code_segment_base := push_bit 16 (ucast p)\<rparr>) } else ret s)"
  by (rule within_runs; (assumption | rule spent_intros | (rule within_tail, rule spent_intros) | simp | rule spent_ops)+)+

lemma call_push_spent [spent_intros]:
  "spent K M b n s \<Longrightarrow> runs (spent K M b (n + 6))
     (if c then do {
        (_, s) \<leftarrow> (if l then Push8 io (ucast (drop_bit 16 (code_segment_base s))) s else ret s);
        Push16 io (cast W16 (ip s + k - 1)) s
      }
      else ret s)"
  by (rule within_runs; (assumption | rule spent_intros | (rule within_tail, rule spent_intros) | simp | rule spent_ops)+)

lemma DoInterrupt_spent [spent_intros]:
  "spent K M b n s \<Longrightarrow> runs (spent K M b (n + 10)) (DoInterrupt io type s)"
  by (rule within_runs; unfold DoInterrupt_def; (assumption | rule spent_intros | (rule within_tail, rule spent_intros) | simp | rule spent_ops)+)

lemma jump_ops_timed [simp]:
  "timed_op K M io JMP_ABS" "timed_op K M io JMP_LONG" "timed_op K M io JMP_INDABS"
  "timed_op K M io JMP_INDABS_LEGACY" "timed_op K M io JMP_INDABSX" "timed_op K M io JMP_INDLONG"
  "timed_op K M io JSR_ABS" "timed_op K M io JSR_LONG" "timed_op K M io JSR_INDABSX"
  by (rule timed_opI; unfold OpJmp_def JMP_ABS_def JMP_LONG_def JMP_INDABS_def JMP_INDABS_LEGACY_def
      JMP_INDABSX_def JMP_INDLONG_def JSR_ABS_def JSR_LONG_def JSR_INDABSX_def Let_def op.simps; (assumption | rule spent_intros | (rule within_tail, rule spent_intros) | simp | rule spent_ops)+)+

lemma OpRts_timed: "unat k \<le> 8 \<Longrightarrow> timed_op K M io (OpRts opc mn l k)"
  by (rule timed_opI; unfold OpRts_def op.simps; (assumption | rule spent_intros | (rule within_tail, rule spent_intros) | simp | rule spent_ops)+)

lemma return_ops_timed [simp]: "timed_op K M io RTS" "timed_op K M io RTL" "timed_op K M io RTI"
proof -
  show "timed_op K M io RTS" "timed_op K M io RTL" by (simp_all add: RTS_def RTL_def OpRts_timed)
  show "timed_op K M io RTI" by (rule timed_opI; unfold RTI_def op.simps; (assumption | rule spent_intros | (rule within_tail, rule spent_intros) | simp | rule spent_ops)+)
qed

lemma control_ops_timed [simp]:
  "timed_op K M io MVN" "timed_op K M io MVP" "timed_op K M io BRK" "timed_op K M io COP" "timed_op K M io PEA"
  "timed_op K M io PEI" "timed_op K M io PER"
  by (rule timed_opI; unfold MVN_def MVP_def BRK_def COP_def PEA_def PEI_def PER_def Let_def op.simps; (assumption | rule spent_intros | (rule within_tail, rule spent_intros) | simp | rule spent_ops)+)+

section \<open>The tables\<close>

lemma exec_ops_timed: "list_all (list_all (pred_option (timed_op K M io))) exec_ops"
proof -
  have "list_all (timed_op K M io) (ops_native A XY)" "list_all (timed_op K M io) ops_emulation"
    "list_all (pred_option (timed_op K M io)) ops_6502" for A XY
    by (simp_all add: ops_native_def ops_emulation_def ops_6502_def)
  then show ?thesis by (simp add: exec_ops_def list.pred_map o_def)
qed


section \<open>One step\<close>

lemma access_start:
  assumes "clock_ok K M s" and "sys_ok K t" and "cpu_timing t = cpu_timing s"
  shows "spent K M (cycle s + ucast (k :: u32), cycle_stop s) 0 (t\<lparr>cycle := cycle t + ucast k\<rparr>)"
  using assms by (simp add: spent_def clock_ok_def cpu_timing_def)

lemma trace_clock:
  assumes "clock_ok K M s"
  obtains t where "trace_address a s = Some t" and "sys_ok K t" and "cpu_timing t = cpu_timing s"
proof -
  have "sys_ok K s" using assms by (simp add: clock_ok_def)
  then obtain t where t: "trace_address a s = Some t" "sys_ok K t"
    using trace_address_runs by blast
  then have "cpu_timing t = cpu_timing s"
    by (auto simp: trace_address_def cpu_timing_def Let_def split: if_splits)
  with t show ?thesis by (rule that)
qed

lemma ReadU8_first:
  assumes "clock_ok K M s" and "sys_ok K t" and "cpu_timing t = cpu_timing s"
  obtains v u and k :: u32 where "ReadU8 io a t = Some (v, u)" and "k \<noteq> 0" and "unat k \<le> M"
    and "spent K M (cycle s + ucast k, cycle_stop s) 0 u"
proof -
  obtain v k u where r: "ReadByte io a t = Some ((v, k), u)" "sys_ok K u" "cpu_timing u = cpu_timing t" "k \<noteq> 0" "unat k \<le> M"
    by (rule ReadByte_clock [OF assms(2)])
  have "spent K M (cycle s + ucast k, cycle_stop s) 0 (u\<lparr>cycle := cycle u + ucast k\<rparr>)"
    using access_start [OF assms(1) r(2)] r(3) assms(3) by simp
  then show ?thesis using that [of v "u\<lparr>cycle := cycle u + ucast k\<rparr>" k] r by (simp add: ReadU8_def)
qed

lemma EmulateInstruction_ticks:
  assumes "clock_ok K M s"
  shows "\<exists>s'. EmulateInstruction io s = Some ((), s') \<and> clock_ok K M s' \<and> ticks M s s'"
proof -
  obtain t where t: "trace_address (GetCanonicalAddress s) s = Some t" "sys_ok K t" "cpu_timing t = cpu_timing s"
    by (rule trace_clock [OF assms])
  obtain v u and k :: u32 where u: "ReadU8 io (GetCanonicalAddress s) t = Some (v, u)" "k \<noteq> 0" "unat k \<le> M"
    "spent K M (cycle s + ucast k, cycle_stop s) 0 u"
    by (rule ReadU8_first [OF assms t(2,3), where a = "GetCanonicalAddress s"])
  have "current_instruction_set u < 5"
    using spent_sys_ok [OF u(4)] not_native sys_ok_65816 by blast
  then obtain op :: "'d op" where op: "op_at (current_instruction_set u) v = Some op"
    using op_at_65816 by blast
  obtain s' where s': "Exec op io u = Some ((), s')" "spent K M (cycle s + ucast k, cycle_stop s) (0 + 26) s'"
    using timed_opD [OF op_at_all [OF op exec_ops_timed] u(4)] by (auto simp: runs_iff)
  let ?s = "s'\<lparr>num_emulated_instructions := num_emulated_instructions s' + 1\<rparr>"
  have e: "spent K M (cycle s + ucast k, cycle_stop s) 26 ?s" using s'(2) by simp
  have "EmulateInstruction io s = Some ((), ?s)"
    by (simp add: EmulateInstruction_def Let_def t u(1) op s'(1))
  with ticksI [OF u(2,3) e] spent_clock_ok [OF e] show ?thesis by simp
qed

lemma Push8_first:
  assumes "clock_ok K M s"
  obtains u and k :: u32 where "Push8 io v s = Some ((), u)" and "k \<noteq> 0" and "unat k \<le> M"
    and "spent K M (cycle s + ucast k, cycle_stop s) 0 u"
proof -
  have "sys_ok K s" using assms by (simp add: clock_ok_def)
  then obtain k u where r: "WriteByte io (ucast (regs_sp s) AND 0xFFFF) v s = Some (k, u)" "sys_ok K u" "cpu_timing u = cpu_timing s"
      "k \<noteq> 0" "unat k \<le> M"
    by (rule WriteByte_clock)
  have "spent K M (cycle s + ucast k, cycle_stop s) 0 (sp_dec (u\<lparr>cycle := cycle u + ucast k\<rparr>))"
    using access_start [OF assms r(2,3)] by simp
  then show ?thesis
    using that [of "sp_dec (u\<lparr>cycle := cycle u + ucast k\<rparr>)" k] r by (simp add: Push8_def WriteZero8_def WriteU8_def)
qed

lemma interrupt_tail_spent [spent_intros]:
  "spent K M b n s \<Longrightarrow> runs (spent K M b (n + 4)) (interrupt_tail io type s)"
  by (rule within_runs; unfold interrupt_tail_def; (assumption | rule spent_intros | (rule within_tail, rule spent_intros) | simp | rule spent_ops)+)

lemma Interrupt_ticks:
  assumes "clock_ok K M s"
  shows "\<exists>s'. Interrupt io param s = Some ((), s') \<and> clock_ok K M s' \<and> ticks M s s'"
proof -
  define type where "type = (if param = 0 then INT_IRQ else INT_NMI)"
  define push where "push = (if mode_emulation s then ucast (drop_bit 8 (cast W16 (ip s)))
    else ucast (drop_bit 16 (code_segment_base s)) :: u8)"
  obtain u and k :: u32 where u: "Push8 io push s = Some ((), u)" "k \<noteq> 0" "unat k \<le> M" "spent K M (cycle s + ucast k, cycle_stop s) 0 u"
    by (rule Push8_first [OF assms, of push])
  define rest where "rest = (if mode_emulation s
    then do { (_, t) \<leftarrow> Push8 io (ucast (cast W16 (ip s) AND 0xFF)) u; interrupt_tail io type t }
    else do { (_, t) \<leftarrow> Push16 io (cast W16 (ip u)) u; interrupt_tail io type t })"
  have "runs (spent K M (cycle s + ucast k, cycle_stop s) 8) rest"
    by (rule within_runs; insert u(4); unfold rest_def; (assumption | rule spent_intros | (rule within_tail, rule spent_intros) | simp | rule spent_ops)+)
  then obtain t where t: "rest = Some ((), t)" "spent K M (cycle s + ucast k, cycle_stop s) 8 t"
    by (auto simp: runs_iff)
  have "Interrupt io param s = rest"
    using u(1) by (simp add: Interrupt_def DoInterrupt_def type_def [symmetric] rest_def push_def Push16_def interrupt_tail_def split: if_splits)
  with ticksI [OF u(2,3) t(2)] spent_clock_ok [OF t(2)] t(1) show ?thesis by simp
qed

text \<open>A reset keeps the clock running too.\<close>

lemma Reset_InternalOp:
  "Reset io s =
     (let s = s\<lparr>data_segment_base := 0, code_segment_base := 0, regs_sp := set_lo8 (lo8 (regs_sp s) - 3) (regs_sp s)\<rparr>
      in do {
        (ip_low, s) \<leftarrow> ReadU8 io 0xFFFC s;
        (ip_high, s) \<leftarrow> ReadU8 io 0xFFFD s;
        s \<leftarrow> Some (InternalOp_n 4 s);
        s \<leftarrow> Some (s\<lparr>ip := le16 ip_low ip_high, data_segment_base := 0, code_segment_base := 0, interrupts := 0\<rparr>);
        Some ((), OnUpdateMode (s\<lparr>mode_emulation := True, mode_long_a := False, mode_long_xy := False\<rparr>))
      })"
  by (simp add: Reset_def InternalOp_n_def)

lemma Reset_clock_ok:
  assumes "clock_ok K M s"
  shows "runs (clock_ok K M) (Reset io s)" and "runs (clock_ok K M) (PowerOn io s)"
proof -
  have r: "runs (clock_ok K M) (Reset io t)" if "clock_ok K M t" for t
  proof -
    have "within K M (cycle t, cycle_stop t) (0 + 3) (Reset io t)"
      using clock_ok_spent [OF that] unfolding Reset_InternalOp Let_def
      by - (assumption | rule spent_OnUpdateMode(7) spent_intros | simp | rule spent_ops)+
    then show ?thesis unfolding within_def by (rule runs_weaken) (rule spent_clock_ok)
  qed
  show "runs (clock_ok K M) (Reset io s)" by (rule r [OF assms])
  show "runs (clock_ok K M) (PowerOn io s)"
    unfolding PowerOn_def using assms by (intro r) (simp add: clock_ok_def)
qed

end

end
