(* ===== verification/Cpu_Time.thy ===== *)
theory Cpu_Time
  imports Cpu_Clock Emulator_Laws
begin

text \<open>
  The emulator loop on the real processor.  The laws of Emulator_Laws ask that a step makes progress; Cpu_Clock shows that
  the 65816 does, so \<open>Emulate\<close> returns, and not later than one step after the stop cycle.
\<close>

section \<open>Steps\<close>

text \<open>Breakpoint functions that leave the clock alone.\<close>

definition harmless :: "((nat \<Rightarrow> nat) \<Rightarrow> memory_map \<Rightarrow> bool \<Rightarrow> 'd \<Rightarrow> bool) \<Rightarrow> nat \<Rightarrow> ('d machine \<Rightarrow> 'd machine option) \<Rightarrow> bool" where
  "harmless K M before \<longleftrightarrow>
     (\<forall>m. clock_ok K M m \<longrightarrow> (\<exists>m'. before m = Some m' \<and> clock_ok K M m' \<and> cycle m' = cycle m \<and> cycle_stop m' = cycle_stop m))"

lemma harmless_none: "\<not> has_breakpoints b \<Longrightarrow> harmless K M (Emulate_before b)"
  by (simp add: harmless_def Emulate_before_def)

lemma clock_ok_updates [simp]:
  "clock_ok K M (s\<lparr>ip := v\<rparr>) = clock_ok K M s" "clock_ok K M (s\<lparr>event_cycle := c\<rparr>) = clock_ok K M s"
  "clock_ok K M (s\<lparr>cycle_stop := c\<rparr>) = clock_ok K M s" "clock_ok K M (s\<lparr>cycle := c\<rparr>) = clock_ok K M s"
  by (simp_all add: clock_ok_def)

lemma cycle_ip: "cycle (m\<lparr>ip := v\<rparr>) = cycle m" "cycle_stop (m\<lparr>ip := v\<rparr>) = cycle_stop m"
  by simp_all

lemma ticks_cong: "cycle t = cycle s \<Longrightarrow> cycle_stop t = cycle_stop s \<Longrightarrow> ticks M t s' = ticks M s s'"
  by (simp add: ticks_def)

context io_clock
begin

lemma cpu_step_ticks:
  assumes "clock_ok K M m" and "harmless K M before"
  shows "\<exists>m'. cpu_step (WDC65C816_exec io) before Some m = Some m' \<and> clock_ok K M m' \<and> ticks M m m'"
proof -
  let ?m = "m\<lparr>ip := ip m AND ip_mask m\<rparr>"
  have ok: "clock_ok K M ?m" using assms(1) by simp
  show ?thesis
  proof (cases "interrupt_pending ?m")
    case True
    then show ?thesis
      using Interrupt_ticks [OF ok, of "interrupt_param ?m"]
      by (auto simp: cpu_step_def WDC65C816_exec_def Let_def ticks_cong [of ?m m])
  next
    case False
    obtain m1 where m1: "before ?m = Some m1" "clock_ok K M m1" "cycle m1 = cycle m" "cycle_stop m1 = cycle_stop m"
      using assms(2) ok unfolding harmless_def by (metis cycle_ip)
    with False EmulateInstruction_ticks [OF m1(2)] show ?thesis
      by (auto simp: cpu_step_def WDC65C816_exec_def Let_def ticks_cong [of m1 m])
  qed
qed

end

section \<open>The loop\<close>

text \<open>The clock is at most one step behind the stop cycle, and 64 bits hold it.\<close>

definition on_time :: "((nat \<Rightarrow> nat) \<Rightarrow> memory_map \<Rightarrow> bool \<Rightarrow> 'd \<Rightarrow> bool) \<Rightarrow> nat \<Rightarrow> 'd machine \<Rightarrow> bool" where
  "on_time K M m \<longleftrightarrow> clock_ok K M m \<and> unat (cycle m) < unat (cycle_stop m) + 32 * M \<and> unat (cycle_stop m) + 32 * M < 2 ^ 64"

lemma on_time_event_cycle [simp]: "on_time K M (m\<lparr>event_cycle := c\<rparr>) = on_time K M m"
  by (simp add: on_time_def)

lemma cpu_progress:
  assumes "io_clock io K M" and "harmless K M before"
  shows "progress (on_time K M) (cpu_step (WDC65C816_exec io) before Some)"
  unfolding progress_def
proof (intro allI impI)
  fix m
  assume m: "on_time K M m \<and> cycle m < cycle_stop m"
  then obtain m' where m': "cpu_step (WDC65C816_exec io) before Some m = Some m'" "clock_ok K M m'" "ticks M m m'"
    using io_clock.cpu_step_ticks [OF assms(1) _ assms(2)] by (auto simp: on_time_def)
  have "unat (cycle m) < unat (cycle_stop m)" using m by (simp add: word_less_nat_alt)
  moreover from this have "unat (cycle m) + 32 * M < 2 ^ 64" using m by (simp add: on_time_def)
  ultimately show "\<exists>m'. cpu_step (WDC65C816_exec io) before Some m = Some m' \<and> on_time K M m' \<and> cycle m < cycle m' \<and>
      cycle_stop m' = cycle_stop m"
    using m m' by (auto simp: on_time_def ticks_def)
qed

lemma emulator_on_time:
  assumes "io_ok K io" and "io_calm K io" and "pages_timed K M"
    and "clock_ok K M m" and "cycle m \<le> cycle_stop m" and "unat (cycle_stop m) + 32 * M < 2 ^ 64" and "0 < M"
    and "harmless K M (Emulate_before b)"
    and "quiet call run" and "clock_kept (on_time K M) run" and "time_heap (entries q)" and "\<not> locked q"
  shows "\<exists>q' m'. Emulate (WDC65C816_exec io) call (Some q) m b = Some (q', m', b) \<and> sys_ok K m' \<and>
    cycle_stop m \<le> cycle m' \<and> unat (cycle m') < unat (cycle_stop m) + 32 * M \<and>
    mset (entries q') = filter_mset (\<lambda>e. cycle m' < fst e) (mset (entries q))"
proof -
  have "io_clock io K M"
    using assms(1-3) by (simp add: io_clock_def io_clock_axioms_def io_contract_def)
  then have p: "progress (on_time K M) (cpu_step (WDC65C816_exec io) (Emulate_before b) Some)"
    using assms(8) by (rule cpu_progress)
  have "on_time K M m" using assms(4-7) by (simp add: on_time_def word_le_nat_alt)
  then obtain q' m' where "Emulate (WDC65C816_exec io) call (Some q) m b = Some (q', m', b)" "on_time K M m'"
      "cycle_stop m \<le> cycle m'" "mset (entries q') = filter_mset (\<lambda>e. cycle m' < fst e) (mset (entries q))"
    "cycle_stop m' = cycle_stop m"
    using Emulate_queue_returns [OF p _ assms(9-12)] on_time_event_cycle by blast
  then show ?thesis by (auto simp: on_time_def clock_ok_def)
qed

text \<open>
  C5: the emulator returns, on time.  On any 65816 whose callbacks meet their contract and whose pages take
  between one and \<open>M\<close> cycles, \<open>Emulate\<close> with a queue returns, whatever the program and whatever
  interrupts are pending: every instruction and every interrupt moves the clock on.  The clock then is at or past the stop cycle,
  by less than \<open>32 * M\<close> cycles, and the queue holds the events that are later than the clock, and no other.
\<close>

theorem emulator_returns_on_time:
  assumes "io_ok K io" and "io_calm K io" and "pages_timed K M"
    and "clock_ok K M m" and "cycle m \<le> cycle_stop m" and "unat (cycle_stop m) + 32 * M < 2 ^ 64" and "0 < M"
    and "harmless K M (Emulate_before b)"
    and "quiet call run" and "clock_kept (on_time K M) run" and "time_heap (entries q)" and "\<not> locked q"
  shows "\<exists>q' m'. Emulate (WDC65C816_exec io) call (Some q) m b = Some (q', m', b) \<and> sys_ok K m' \<and>
    cycle_stop m \<le> cycle m' \<and> unat (cycle m') < unat (cycle_stop m) + 32 * M \<and>
    mset (entries q') = filter_mset (\<lambda>e. cycle m' < fst e) (mset (entries q))"
  by (rule emulator_on_time [OF assms])

text \<open>Pages of one cycle each.\<close>

definition one_cycle :: "(nat \<Rightarrow> nat) \<Rightarrow> memory_map \<Rightarrow> bool \<Rightarrow> 'd \<Rightarrow> bool" where
  "one_cycle sizes m native d \<longleftrightarrow> \<not> native \<and> (\<forall>p \<in> set (pages m). cycles_per_access p = 1)"

lemma one_cycle_timed: "pages_timed one_cycle 8"
  by (simp add: pages_timed_def one_cycle_def)

lemma no_io_one_cycle: "io_ok one_cycle no_io" "io_calm K no_io"
  by (simp_all add: io_ok_def io_keeps_def io_calm_def no_io_def)

lemma linear_machine_clock_ok: "clock_ok one_cycle 8 (linear_machine program)"
  using linear_machine_ok [of program]
  by (simp add: clock_ok_def sys_ok_def one_cycle_def)
    (simp add: linear_machine_def WDC65C816_init_def linear_system_def SimpleSystemBus_def bus_Init_def simple_page_def)

theorem emulator_returns_on_time_witness:
  "\<exists>q' m'. Emulate (WDC65C816_exec no_io) (\<lambda>f s. Some s) (Some (EventQueue_init 0 :: unit event_queue))
      ((linear_machine [0x18, 0x80, 0xFD])\<lparr>cycle_stop := 1000\<rparr>) breaks_init = Some (q', m', breaks_init) \<and>
    sys_ok one_cycle m' \<and> 1000 \<le> cycle m' \<and> unat (cycle m') < 1256 \<and> mset (entries q') = {#}"
  using emulator_returns_on_time [where io = no_io and K = one_cycle and M = 8 and b = breaks_init and run = "\<lambda>f w. w"
      and call = "\<lambda>f s. Some s" and q = "EventQueue_init 0 :: unit event_queue"
      and m = "(linear_machine [0x18, 0x80, 0xFD])\<lparr>cycle_stop := 1000\<rparr>"]
  by (simp add: no_io_one_cycle one_cycle_timed linear_machine_clock_ok harmless_none breaks_init_def quiet_def
      clock_kept_def EventQueue_init_def time_heap_def)
    (simp add: linear_machine_def WDC65C816_init_def)

end
