(* ===== verification/C256_Clock.thy ===== *)
theory C256_Clock
  imports C256_Laws Cpu_Time
begin

text \<open>
  The clock of the C256: its callbacks meet \<open>io_clock\<close>, so from every state the machine reaches the emulator loop returns
  on time.
\<close>

section \<open>The contract\<close>

lemma c256_calm: "io_calm K (c256_io mul)"
proof -
  have r: "cpu_timing t = cpu_timing s" if "IoRead a v s = Some (x, t)" for a v s x t
    using that by (auto simp: IoRead_def AfIoRead_def GavinIoRead_def cpu_timing_def bind_eq_Some_conv split: if_split_asm)
  have w: "cpu_timing t = cpu_timing s" if "IoWrite mul a v s = Some (y, t)" for a v s y t
    using that by (auto simp: IoWrite_def AfIoWrite_def GavinIoWrite_def cpu_timing_def bind_eq_Some_conv split: if_split_asm)
  show ?thesis
    unfolding io_calm_def c256_io_def using r w by auto
qed

lemma c256_timed: "pages_timed C256_K 8"
proof -
  have "cycles_per_access p = 1" if "C256_K sizes m native d" "p \<in> set (pages m)" for sizes m native d p
    using that by (auto simp: C256_K_def c256_match_def in_set_conv_nth simp del: length_greater_0_conv)
  moreover have "\<not> native" if "C256_K sizes m native d" for sizes m native d
    using that by (simp add: C256_K_def)
  ultimately show ?thesis by (fastforce simp: pages_timed_def)
qed

interpretation c256_clock: io_clock "c256_io wrap_mul" C256_K 8
  by unfold_locales (rule c256_calm c256_timed)+

section \<open>The states the machine reaches\<close>

lemma c256_init_clock:
  assumes "unat ram_size \<le> 0x1000000" and "C256_init ram_size s = Some s1"
  shows "\<not> fast_block_moves s1 \<and> internal_cycle_timing s1 = 1"
  using C256_init_runs [OF assms(1), of s] assms(2)
  by (auto simp: WDC65C816_init_def)

lemma c256_run_clock:
  assumes "0x190000 \<le> unat ram_size" "unat ram_size \<le> 0x1000000"
  shows "c256_run wrap_mul ram_size t \<Longrightarrow> clock_ok C256_K 8 t"
proof (induction rule: c256_run.induct)
  case (power_on s s1 h s2)
  obtain h2 where p: "C256_PowerOn wrap_mul (s1\<lparr>host := h\<rparr>) =
      PowerOn (c256_io wrap_mul) (s1\<lparr>host := h2, code_segment_base := 0, data_segment_base := 0\<rparr>)"
    and ok: "sys_ok C256_K (s1\<lparr>host := h2, code_segment_base := 0, data_segment_base := 0\<rparr>)"
    by (rule C256_PowerOn_state [OF assms power_on(1-3)])
  have "clock_ok C256_K 8 (s1\<lparr>host := h2, code_segment_base := 0, data_segment_base := 0\<rparr>)"
    using ok c256_init_clock [OF assms(2) power_on(1)] by (simp add: clock_ok_def)
  from c256_clock.Reset_clock_ok(2) [OF this] power_on(4) show ?case by (simp add: p runs_iff)
next
  case (step s s')
  have "harmless C256_K 8 Some" by (simp add: harmless_def)
  from c256_clock.cpu_step_ticks [OF step.IH this] step.hyps(2) show ?case by auto
next
  case (reset s s')
  from c256_clock.Reset_clock_ok(1) [OF reset.IH] reset.hyps(2) show ?case
    by (simp add: C256_Reset_def runs_iff)
next
  case (request s n)
  then show ?case by (simp add: SetInterruptSource_def clock_ok_def)
qed

text \<open>
  The C256 runs to its stop cycle.  From every state it reaches, whatever the program and without breakpoints, \<open>Emulate\<close> with a
  queue returns, less than 256 cycles behind the stop cycle it is given, with the invariant of the machine and the later
  events in the queue.
\<close>

lemma c256_emulate_returns:
  assumes "0x190000 \<le> unat ram_size" "unat ram_size \<le> 0x1000000" and "c256_run wrap_mul ram_size t"
    and "cycle t \<le> until" and "unat until + 256 < 2 ^ 64" and "\<not> has_breakpoints b"
    and "quiet call run" and "clock_kept (on_time C256_K 8) run" and "time_heap (entries q)" and "\<not> locked q"
  shows "\<exists>q' t'. Emulate (WDC65C816_exec (c256_io wrap_mul)) call (Some q) (t\<lparr>cycle_stop := until\<rparr>) b = Some (q', t', b) \<and>
    sys_ok C256_K t' \<and> until \<le> cycle t' \<and> unat (cycle t') < unat until + 256 \<and>
    mset (entries q') = filter_mset (\<lambda>e. cycle t' < fst e) (mset (entries q))"
proof -
  have "clock_ok C256_K 8 (t\<lparr>cycle_stop := until\<rparr>)"
    using c256_run_clock [OF assms(1,2,3)] by simp
  from emulator_on_time [OF c256_io_ok [OF wrap_mul_total] c256_calm c256_timed this _ _ _ harmless_none [OF assms(6)] assms(7-10)]
    assms(4,5) show ?thesis by simp
qed

end
