(* ===== verification/C256_Main.thy ===== *)
theory C256_Main
  imports C256_Laws Hex_Laws Emulator_Laws
begin

text \<open>
  \<open>main\<close> (main.cc): a C256 with 4 MiB of RAM, the hex file \<open>kernel.hex\<close> loaded into it, power on and emulation.  The
  file is its bytes, or \<open>None\<close> when it does not open; \<open>execute\<close> stands for the translator that follows.
\<close>

section \<open>The program\<close>

text \<open>\<open>main\<close> up to \<open>PowerOn\<close>: \<open>Inl\<close> is the exit code, \<open>Inr\<close> the running machine.\<close>

definition main_load :: "int_mul \<Rightarrow> c256 \<Rightarrow> u8 list option \<Rightarrow> (nat + c256) option" where
  "main_load mul storage file = do {
     bytes \<leftarrow> file;
     sys \<leftarrow> C256_init 0x400000 storage;
     (ok, h) \<leftarrow> WriteHexToMem (ram (dev sys), 0) 0x400000 bytes (host sys);
     (if \<not> ok then Some (Inl 1)
      else do {
        (_, sys) \<leftarrow> C256_PowerOn mul (sys\<lparr>host := h\<rparr>);
        Some (Inr sys)
      })
   }"

definition main_c256 ::
  "int_mul \<Rightarrow> ('e, c256 \<times> c256_dev breaks) callbacks \<Rightarrow> c256_dev breaks \<Rightarrow> (c256 \<Rightarrow> c256 option) \<Rightarrow>
    c256 \<Rightarrow> u8 list option \<Rightarrow> nat option" where
  "main_c256 mul call b execute storage file = do {
     r \<leftarrow> main_load mul storage file;
     (case r of
        Inl code \<Rightarrow> Some code
      | Inr sys \<Rightarrow> do {
          (q, sys, b) \<leftarrow> C256_Emulate mul call sys b;
          sys \<leftarrow> execute sys;
          Some 0
        })
   }"

section \<open>The loader keeps the blocks\<close>

lemma hex_record_keeps:
  "hex_record mem memsize base data h = Some (Inl (ok, h')) \<Longrightarrow> blk_size h' = blk_size h"
  "hex_record mem memsize base data h = Some (Inr (base', h')) \<Longrightarrow> blk_size h' = blk_size h"
  by (auto simp: hex_record_def Let_def bind_eq_Some_conv copy_bytes_def put_bytes_def split: if_split_asm)

lemma hex_loop_keeps: "hex_loop mem memsize base data p h = Some (ok, h') \<Longrightarrow> blk_size h' = blk_size h"
proof (induction mem memsize base data p h rule: hex_loop.induct)
  case (2 mem memsize base data c p h)
  from "2.prems" show ?case
    by (auto split: if_split_asm option.split_asm sum.split_asm prod.split_asm
        dest: hex_record_keeps dest!: "2.IH")
qed simp

lemma WriteHexToMem_keeps: "WriteHexToMem mem memsize hex h = Some (ok, h') \<Longrightarrow> blk_size h' = blk_size h"
  unfolding WriteHexToMem_def by (rule hex_loop_keeps)

section \<open>What \<open>main\<close> does\<close>

text \<open>Every file that is accepted, whatever its bytes, leads to a machine \<open>c256_never_undefined\<close> speaks of.\<close>

lemma main_powers_on:
  assumes "length (gavin_low_regs (dev storage)) = 256" and "total_mul mul" and "C256_init 0x400000 storage = Some sys"
    and "WriteHexToMem (ram (dev sys), 0) 0x400000 bytes (host sys) = Some (True, h)"
  shows "\<exists>s. main_load mul storage (Some bytes) = Some (Inr s) \<and> c256_run mul 0x400000 s"
proof -
  obtain s where "C256_PowerOn mul (sys\<lparr>host := h\<rparr>) = Some ((), s)"
    using C256_PowerOn_ok [OF _ _ assms(3,1) WriteHexToMem_keeps [OF assms(4)] assms(2)] by auto
  with c256_run.power_on [OF assms(3,1) WriteHexToMem_keeps [OF assms(4)] this] assms(3,4) show ?thesis
    by (simp add: main_load_def)
qed

text \<open>A printed image of chunks below 4 MiB is accepted.\<close>

lemma main_loads_image:
  assumes "length (gavin_low_regs (dev storage)) = 256" and "total_mul mul" and "image_ok 0x400000 0 cs"
  shows "\<exists>s. main_load mul storage (Some (hex_image cs @ p)) = Some (Inr s) \<and> c256_run mul 0x400000 s"
proof -
  obtain sys where init: "C256_init 0x400000 storage = Some sys" "blk_size (host sys) (ram (dev sys)) = 0x400000"
    using C256_init_runs [of "0x400000" storage] by (auto simp: c256_host_def)
  have "hex_loop (ram (dev sys), 0) 0x400000 0 (Some 0 # replicate 299 None) (hex_image cs @ p) (host sys) =
      Some (True, store_chunks (ram (dev sys), 0) 0 cs (host sys))"
    by (rule hex_loop_image [OF _ _ assms(3)]) (simp_all add: init)
  from main_powers_on [OF assms(1,2) init(1) this [folded WriteHexToMem_def]] show ?thesis .
qed

text \<open>
  \<open>main\<close> passes no queue to \<open>Emulate\<close>, so it returns properly only with exit code 1, when the loader refuses the file: the
  translator behind it is never reached.
\<close>

lemma main_exit_codes: "main_c256 mul call b execute storage file = Some code \<longleftrightarrow> main_load mul storage file = Some (Inl code)"
proof (cases "main_load mul storage file")
  case (Some r)
  then show ?thesis by (cases r) (simp_all add: main_c256_def C256_Emulate_def Emulate_def Let_def)
qed (simp add: main_c256_def)

lemma main_returns_refused: "main_c256 mul call b execute storage file = Some code \<Longrightarrow> code = 1"
  unfolding main_exit_codes by (auto simp: main_load_def bind_eq_Some_conv split: if_split_asm)

lemma main_image_runs_on:
  assumes "length (gavin_low_regs (dev storage)) = 256" and "total_mul mul" and "image_ok 0x400000 0 cs"
  shows "main_c256 mul call b execute storage (Some (hex_image cs @ p)) = None"
  using main_loads_image [OF assms, of p] main_exit_codes [of mul call b execute storage "Some (hex_image cs @ p)"]
  by (metis not_Some_eq option.inject sum.simps(4))

end
