(* ===== verification/Libretro_Front.thy ===== *)
theory Libretro_Front
  imports Libretro
begin

text \<open>
  The plugin interface of libretro (libretro_interface.cc): the callbacks the embedder sets, what it asks for, a frame from
  \<open>retro_run\<close> to the screen, and the controllers of the NES read through it.  The embedder is a world \<open>'w\<close> its
  callbacks act on; a callback that was not set is the null pointer, \<open>None\<close>.
\<close>

section \<open>Callbacks\<close>

datatype environment_call = SET_SUPPORT_NO_GAME bool | SET_PIXEL_FORMAT retro_pixel_format

datatype retro_device = RETRO_DEVICE_JOYPAD

record 'w front_callbacks =
  g_env :: "(environment_call \<Rightarrow> 'w \<Rightarrow> 'w) option"
  g_refresh :: "(host_ptr \<Rightarrow> u32 \<Rightarrow> u32 \<Rightarrow> u32 \<Rightarrow> 'w \<Rightarrow> 'w) option"
  g_sample :: "(u16 \<Rightarrow> u16 \<Rightarrow> 'w \<Rightarrow> 'w) option"
  g_sample_batch :: "(u16 list \<Rightarrow> 'w \<Rightarrow> 'w) option"
  g_input_poll :: "('w \<Rightarrow> 'w) option"
  g_input_state :: "(u32 \<Rightarrow> retro_device \<Rightarrow> u32 \<Rightarrow> joypad \<Rightarrow> 'w \<Rightarrow> u16 \<times> 'w) option"

definition no_callbacks :: "'w front_callbacks" where
  "no_callbacks = \<lparr>g_env = None, g_refresh = None, g_sample = None, g_sample_batch = None, g_input_poll = None, g_input_state = None\<rparr>"

definition retro_set_environment ::
  "(environment_call \<Rightarrow> 'w \<Rightarrow> 'w) \<Rightarrow> 'w front_callbacks \<Rightarrow> 'w \<Rightarrow> 'w front_callbacks \<times> 'w" where
  "retro_set_environment e c w = (let v = True; c = c\<lparr>g_env := Some e\<rparr> in (c, e (SET_SUPPORT_NO_GAME v) w))"

definition retro_set_video_refresh :: "(host_ptr \<Rightarrow> u32 \<Rightarrow> u32 \<Rightarrow> u32 \<Rightarrow> 'w \<Rightarrow> 'w) \<Rightarrow> 'w front_callbacks \<Rightarrow> 'w front_callbacks" where
  "retro_set_video_refresh e c = c\<lparr>g_refresh := Some e\<rparr>"

definition retro_set_audio_sample :: "(u16 \<Rightarrow> u16 \<Rightarrow> 'w \<Rightarrow> 'w) \<Rightarrow> 'w front_callbacks \<Rightarrow> 'w front_callbacks" where
  "retro_set_audio_sample e c = c\<lparr>g_sample := Some e\<rparr>"

definition retro_set_audio_sample_batch :: "(u16 list \<Rightarrow> 'w \<Rightarrow> 'w) \<Rightarrow> 'w front_callbacks \<Rightarrow> 'w front_callbacks" where
  "retro_set_audio_sample_batch e c = c\<lparr>g_sample_batch := Some e\<rparr>"

definition retro_set_input_poll :: "('w \<Rightarrow> 'w) \<Rightarrow> 'w front_callbacks \<Rightarrow> 'w front_callbacks" where
  "retro_set_input_poll e c = c\<lparr>g_input_poll := Some e\<rparr>"

definition retro_set_input_state ::
  "(u32 \<Rightarrow> retro_device \<Rightarrow> u32 \<Rightarrow> joypad \<Rightarrow> 'w \<Rightarrow> u16 \<times> 'w) \<Rightarrow> 'w front_callbacks \<Rightarrow> 'w front_callbacks" where
  "retro_set_input_state e c = c\<lparr>g_input_state := Some e\<rparr>"

section \<open>What the embedder asks for\<close>

record system_info =
  library_name :: string
  library_version :: string
  info_extensions :: string
  need_fullpath :: bool
  block_extract :: bool

definition retro_get_system_info :: "'s libretro \<Rightarrow> system_info" where
  "retro_get_system_info s =
     \<lparr>library_name = ''MultiCoreEmulator'', library_version = ''0.1'', info_extensions = valid_extensions s,
      need_fullpath = False, block_extract = False\<rparr>"

text \<open>A floating-point number that is \<open>m * 2 ^ e\<close>, as the pair of \<open>m\<close> and \<open>e\<close>.\<close>

type_synonym c_float = "int \<times> int"

record av_info =
  timing_fps :: c_float
  timing_sample_rate :: c_float
  base_width :: u32
  base_height :: u32
  max_width :: u32
  max_height :: u32
  aspect_ratio :: c_float

text \<open>The virtual functions of \<open>LibRetroSystem\<close> that the front end calls outside frames.\<close>

record 's system_ops =
  GetFramerate :: "'s \<Rightarrow> c_float"
  GetAudioFrequency :: "'s \<Rightarrow> c_float"
  GetGeometry :: "'s \<Rightarrow> u32 \<times> u32 \<times> u32 \<times> u32"
  UpdateController :: "u32 \<Rightarrow> u32 \<Rightarrow> 's \<Rightarrow> 's"

text \<open>\<open>GetGeometry\<close> yields width, greatest width, height and greatest height.\<close>

definition FillAvInfo_report ::
  "'s system_ops \<Rightarrow> 's \<Rightarrow> nat \<Rightarrow> libretro_interface \<Rightarrow> host_mem \<Rightarrow> av_info \<times> libretro_interface \<times> host_mem" where
  "FillAvInfo_report ops sys b itf h =
     (let (w, mw, height, mh) = GetGeometry ops sys;
          av = \<lparr>timing_fps = GetFramerate ops sys, timing_sample_rate = GetAudioFrequency ops sys,
                base_width = w, base_height = height, max_width = mw, max_height = mh, aspect_ratio = (0, 0)\<rparr>
      in (av, FillAvInfo (w, height) b itf h))"

definition SetPixelFormat :: "retro_pixel_format \<Rightarrow> libretro_interface \<Rightarrow> libretro_interface" where
  "SetPixelFormat pf itf = (case pf of RETRO_PIXEL_FORMAT_XRGB8888 \<Rightarrow> itf\<lparr>current_pf := RETRO_PIXEL_FORMAT_XRGB8888\<rparr>)"

text \<open>\<open>info\<close> is what the embedder's structure holds before the call.\<close>

definition retro_get_system_av_info ::
  "'s system_ops \<Rightarrow> 'w front_callbacks \<Rightarrow> nat \<Rightarrow> av_info \<Rightarrow> 's libretro \<Rightarrow> host_mem \<Rightarrow> 'w \<Rightarrow>
    (av_info \<times> 's libretro \<times> host_mem \<times> 'w) option" where
  "retro_get_system_av_info ops c b info s h w =
     (case g_itf s of
        None \<Rightarrow> Some (info, s, h, w)
      | Some itf \<Rightarrow> do {
          env \<leftarrow> g_env c;
          sys \<leftarrow> g_sys s;
          (let w = env (SET_PIXEL_FORMAT (current_pf itf)) w;
               (info, itf, h) = FillAvInfo_report ops sys b itf h
           in Some (info, s\<lparr>g_itf := Some itf\<rparr>, h, w))
        })"

definition retro_set_controller_port_device :: "'s system_ops \<Rightarrow> u32 \<Rightarrow> u32 \<Rightarrow> 's libretro \<Rightarrow> 's libretro option" where
  "retro_set_controller_port_device ops port device s = do {
     sys \<leftarrow> g_sys s;
     Some (s\<lparr>g_sys := Some (UpdateController ops port device sys)\<rparr>)
   }"

text \<open>Saved states, special games and memory maps are refused.\<close>

definition retro_serialize_size :: nat where
  "retro_serialize_size = 0"

definition retro_serialize :: "u8 list \<Rightarrow> bool" where
  "retro_serialize data \<longleftrightarrow> False"

definition retro_unserialize :: "u8 list \<Rightarrow> bool" where
  "retro_unserialize data \<longleftrightarrow> False"

definition retro_load_game_special :: "u32 \<Rightarrow> u8 list list \<Rightarrow> bool" where
  "retro_load_game_special game_type info \<longleftrightarrow> False"

definition retro_get_memory_data :: "u32 \<Rightarrow> host_ptr option" where
  "retro_get_memory_data memory_id = None"

definition retro_get_memory_size :: "u32 \<Rightarrow> nat" where
  "retro_get_memory_size memory_id = 0"

section \<open>A frame\<close>

fun front_call_run :: "'w front_callbacks \<Rightarrow> front_call \<Rightarrow> 'w \<Rightarrow> 'w option" where
  "front_call_run c Poll w = do {
     poll \<leftarrow> g_input_poll c;
     Some (poll w)
   }"
| "front_call_run c (Refresh data width height pitch) w = do {
     refresh \<leftarrow> g_refresh c;
     Some (refresh data width height pitch w)
   }"

fun front_calls_run :: "'w front_callbacks \<Rightarrow> front_call list \<Rightarrow> 'w \<Rightarrow> 'w option" where
  "front_calls_run c [] w = Some w"
| "front_calls_run c (x # xs) w = do {
     w \<leftarrow> front_call_run c x w;
     front_calls_run c xs w
   }"

text \<open>\<open>retro_run\<close>: \<open>tick\<close> also acts on the world, as a system may poll and read the controllers; the calls of \<open>Run\<close> follow.\<close>

definition retro_run ::
  "(libretro_framebuffer \<Rightarrow> 's \<times> 'w \<Rightarrow> (bool \<times> 's \<times> 'w) option) \<Rightarrow> 'w front_callbacks \<Rightarrow> 's libretro \<Rightarrow> 'w \<Rightarrow>
    ('s libretro \<times> 'w) option" where
  "retro_run tick c s w = do {
     itf \<leftarrow> g_itf s;
     sys \<leftarrow> g_sys s;
     (calls, itf, sys, w) \<leftarrow> Run tick itf (sys, w);
     w \<leftarrow> front_calls_run c calls w;
     Some (s\<lparr>g_itf := Some itf, g_sys := Some sys\<rparr>, w)
   }"

section \<open>The controllers of the NES\<close>

definition PollInput :: "'w front_callbacks \<Rightarrow> libretro_interface \<Rightarrow> 'w \<Rightarrow> (libretro_interface \<times> 'w) option" where
  "PollInput c itf w = do {
     poll \<leftarrow> g_input_poll c;
     Some (itf\<lparr>queried_input := True\<rparr>, poll w)
   }"

definition GetInput :: "'w front_callbacks \<Rightarrow> u32 \<Rightarrow> retro_device \<Rightarrow> u32 \<Rightarrow> joypad \<Rightarrow> 'w \<Rightarrow> (u16 \<times> 'w) option" where
  "GetInput c port device index button w = do {
     state \<leftarrow> g_input_state c;
     Some (state port device index button w)
   }"

text \<open>The loop over the buttons, and the loop over the two ports.\<close>

fun button_loop :: "'w front_callbacks \<Rightarrow> nat \<Rightarrow> nat list \<Rightarrow> u8 \<Rightarrow> 'w \<Rightarrow> (u8 \<times> 'w) option" where
  "button_loop c i [] byte w = Some (byte, w)"
| "button_loop c i (j # js) byte w = do {
     (v, w) \<leftarrow> GetInput c (of_nat i) RETRO_DEVICE_JOYPAD 0 (buttons ! j) w;
     button_loop c i js (if v \<noteq> 0 then byte OR push_bit j 1 else byte) w
   }"

fun port_loop :: "'w front_callbacks \<Rightarrow> nat list \<Rightarrow> nes_input \<Rightarrow> 'w \<Rightarrow> (nes_input \<times> 'w) option" where
  "port_loop c [] input w = Some (input, w)"
| "port_loop c (i # is) input w = do {
     (byte, w) \<leftarrow> button_loop c i [0..<8] 0 w;
     port_loop c is (input[i := ucast byte # replicate 4 0]) w
   }"

definition UpdateControllers_front ::
  "'w front_callbacks \<Rightarrow> nes_input \<Rightarrow> libretro_interface \<Rightarrow> 'w \<Rightarrow> (nes_input \<times> libretro_interface \<times> 'w) option" where
  "UpdateControllers_front c input itf w = do {
     (itf, w) \<leftarrow> PollInput c itf w;
     (input, w) \<leftarrow> port_loop c [0..<2] input w;
     Some (input, itf, w)
   }"

text \<open>60.0988f is 15754540 * 2 ^ -18 in the single format.\<close>

definition nes_ops :: "'s system_ops" where
  "nes_ops = \<lparr>GetFramerate = (\<lambda>_. (15754540, -18)), GetAudioFrequency = (\<lambda>_. (0, 0)),
     GetGeometry = (\<lambda>_. let (w, h) = NesLibretro_GetGeometry in (w, w, h, h)), UpdateController = (\<lambda>_ _ s. s)\<rparr>"

section \<open>Laws\<close>

text \<open>A state callback that does not change the world; reading the controllers through it is \<open>UpdateControllers\<close>.\<close>

definition pure_state :: "(u32 \<Rightarrow> retro_device \<Rightarrow> u32 \<Rightarrow> joypad \<Rightarrow> 'w \<Rightarrow> u16) \<Rightarrow> 'w front_callbacks \<Rightarrow> bool" where
  "pure_state st c \<longleftrightarrow> g_input_state c = Some (\<lambda>p d i b w. (st p d i b w, w))"

lemma button_loop_pure:
  assumes "pure_state st c"
  shows "button_loop c i js byte w =
    Some (fold (\<lambda>j byte. if st (of_nat i) RETRO_DEVICE_JOYPAD 0 (buttons ! j) w \<noteq> 0 then byte OR push_bit j 1 else byte) js byte, w)"
  using assms by (induction js arbitrary: byte) (simp_all add: GetInput_def pure_state_def)

lemma update_controllers_refines:
  assumes "pure_state st c" and "g_input_poll c = Some poll" and "length input = 2"
  shows "UpdateControllers_front c input itf w =
    Some (UpdateControllers (\<lambda>i b. st (of_nat i) RETRO_DEVICE_JOYPAD 0 b (poll w) \<noteq> 0) input, itf\<lparr>queried_input := True\<rparr>, poll w)"
proof -
  obtain x y where "input = [x, y]" using assms(3) by (auto simp: length_Suc_conv numeral_2_eq_2)
  moreover have "[0..<2] = [0, Suc 0]" by (simp add: upt_rec)
  ultimately show ?thesis
    using assms(2) button_loop_pure [OF assms(1)]
    by (simp add: UpdateControllers_front_def PollInput_def UpdateControllers_def joypad_byte_def)
qed

text \<open>
  A frame of a loaded system.  After \<open>retro_get_system_av_info\<close> has allocated the frame buffer, in the block \<open>b\<close>, the frame the system draws is
  shown from its line 8, with the reported geometry, and the input is polled by the system or, else, once by the front end.
\<close>

lemma frame_after_av_info:
  assumes "g_itf s = Some itf" and "g_sys s = Some sys" and "g_env c = Some env"
    and "g_input_poll c = Some poll" and "g_refresh c = Some refresh"
    and "retro_get_system_av_info ops c b info s h w = Some (info', s', h', w')"
    and "tick (\<lparr>lfb_data = Some (b, 0), lfb_width = base_width info', lfb_height = base_height info', lfb_pitch = 4 * base_width info'\<rparr>)
      (sys, w') = Some (polled, sys', w'')"
  shows "\<exists>s''. retro_run tick c s' w' = Some (s'', refresh (b, unat (4 * base_width info' * 8)) (base_width info') (base_height info')
      (4 * base_width info') (if polled then w'' else poll w'')) \<and> g_sys s'' = Some sys' \<and> front_ok s'' \<and>
    blk_size h' b = unat (240 * (4 * base_width info'))"
proof -
  obtain wd mw ht mh where g: "GetGeometry ops sys = (wd, mw, ht, mh)" by (cases "GetGeometry ops sys")
  have eqs: "base_width info' = wd" "base_height info' = ht" "g_sys s' = Some sys"
      "\<exists>itf'. g_itf s' = Some itf' \<and> current_framebuffer itf' = \<lparr>lfb_data = Some (b, 0), lfb_width = wd, lfb_height = ht, lfb_pitch = 4 * wd\<rparr>"
      "blk_size h' b = unat (240 * (4 * wd))"
    using assms(1-3,6)
    by (auto simp: retro_get_system_av_info_def FillAvInfo_report_def FillAvInfo_def AllocateFramebuffer_def GetBytesPerPixel_def
        NativeMemory_Create_def g Let_def mult.commute)
  then obtain itf' where i: "g_itf s' = Some itf'"
      "current_framebuffer itf' = \<lparr>lfb_data = Some (b, 0), lfb_width = wd, lfb_height = ht, lfb_pitch = 4 * wd\<rparr>" by blast
  show ?thesis
    using assms(4,5,7) eqs i
    by (auto simp: retro_run_def Run_def ptr_add_def front_ok_def Let_def)
qed

text \<open>A frame before it computes an address from the null pointer of the frame buffer.\<close>

lemma frame_needs_av_info:
  assumes "g_itf s = Some (LibretroInterface storage)"
  shows "retro_run tick c s w = None"
  using assms by (auto simp: retro_run_def Run_def LibretroInterface_def Let_def bind_eq_None_conv split: option.splits)

end
