(* ===== verification/Spec2Isabelle.thy ===== *)
theory Spec2Isabelle
  imports Cpu_Save Cpu_Disasm Emulator_Laws C256_Copro Hex_Laws Ppu_Sprites Ppu_Access Ppu_Scroll Nes_Laws Libretro
    Assembler_Laws Debugger_Laws Jit_Pages Lua_Laws Lua_State_Laws C256_Clock C256_Main Libretro_Front
begin

text \<open>
  A verification library for retro_cpu, an emulator of the WDC 65C816 and of two machines built on it or
  on its 6502 mode, the C256 Foenix and the NES.

  \<^bold>\<open>The program and its parts.\<close>  A machine is a \<open>SystemBus\<close> (cpu.h, cpu.cc), a table of pages over
  host memory with I/O callbacks, and a processor, \<open>WDC65C816\<close> (cpu/65816), whose instructions are C++ templates over
  addressing modes, selected by six tables of 256 entries.  \<open>EmulatedCpu\<close> runs the processor up to
  a stop cycle, takes interrupts, tests breakpoints and lets an \<open>EventQueue\<close> run timed callbacks.  The C256
  (system/c256) adds a maths coprocessor; the NES (system/nes) a picture processor that catches up with
  the CPU, controllers, DMA and cartridges.  Around them are the disassembler, the assembler, saved states, the
  loaders of Intel hex files and of iNES images, the interface of a debugger thread, the functions and the console of Lua scripts
  that use it, a translator to x64 code, the memory of the host, and the front end of libretro.

  \<^bold>\<open>How it is modelled.\<close>  Integers keep their width (\<open>u8\<close> to \<open>u64\<close> are words); an expression
  C++ promotes to \<open>int\<close> is written out where it matters.  A pointer is a block of host memory and an offset;
  a null pointer is \<open>None\<close>.  Every operation that can meet undefined behaviour, or not return, has a result of type
  \<open>option\<close>, and \<open>None\<close> is that outcome; a loop that may not end is a \<open>partial_function (option)\<close>, so no fuel is used anywhere,
  and theorems that a loop returns are proved as such.  State is a record that an operation is given and
  returns.  Callbacks of a machine are the record \<open>io\<close>, an argument of the bus and of the processor; a machine's own members are its
  field \<open>dev\<close>.  C++ members without initialiser hold what the storage holds, an argument of the constructor.

  \<^bold>\<open>Theories.\<close>

  \<^item> \<open>Prelude\<close>: words and the shared facts about them.  \<open>Text_Format\<close>: the conversions of sprintf.
  \<^item> \<open>Bus\<close>, \<open>Bus_Laws\<close> (cpu.h, cpu.cc): host memory, pages, I/O matching, byte accesses, \<open>Map\<close>, the
    little-endian accessors, \<open>SimpleSystemBus\<close>.  Laws: a well-formed table makes no access undefined; a write is read back at all
    its aliases and nowhere else; read-only pages; what \<open>Map\<close> leaves.
  \<^item> \<open>Cpu_State\<close>, \<open>Jit_Ops\<close>, \<open>Addr_Modes\<close>, \<open>Instr_Alu\<close>, \<open>Instr_Arith\<close>, \<open>Instr_Flow\<close>, \<open>Op_Tables\<close>, \<open>Cpu65816\<close>
    (cpu/65816): registers, modes, flags, accesses, interrupts and block moves; the operation
    lists for the JIT, as data; one record of functions per addressing mode and per instruction, with length, mnemonic, format
    and disassembly; the tables; the public operations, saved states included.
  \<^item> \<open>Cpu_Contract\<close>, \<open>Cpu_Safety\<close>: the locale \<open>io_contract\<close> states what the callbacks of a machine promise the processor; under
    it every instruction of every table is defined, returns and keeps the invariant.  \<open>Cpu_Arith\<close>: addition, subtraction and
    comparison over the integers.  \<open>Cpu_Stack\<close>: the locale \<open>byte_stack\<close>, calls and returns.  \<open>Cpu_Status\<close>: the status
    register and software interrupts.  \<open>Cpu_Clock\<close>: the locale \<open>io_clock\<close> extends \<open>io_contract\<close>; under it every
    instruction and interrupt moves the clock on by 1 to \<open>32 * M\<close> cycles.  \<open>Cpu_Save\<close>: saved states.  \<open>Cpu_Disasm\<close>: listings tile the code.
  \<^item> \<open>Assembler\<close>, \<open>Assembler_Laws\<close> (cpu_65c816.cc): scanner, tables by mnemonic, directives, the choice of the
    instruction.  Laws: printed programs assemble to their bytes; directives that always fail; characters that make it loop.
  \<^item> \<open>Event_Queue\<close>, \<open>Event_Laws\<close> (cpu.h, cpu.cc): the binary heap, \<open>Schedule\<close>, \<open>Expire\<close>.  The locale \<open>timed_queue\<close> is the interface
    the laws of \<open>Expire\<close> rest on; the heap interprets it.
  \<^item> \<open>Emulator\<close>, \<open>Emulator_Laws\<close> (cpu.h, cpu.cc): breakpoints, the interrupt check, the loops; a loop returns
    at its stop cycle if the processor makes progress.  \<open>Cpu_Time\<close>: the 65816 does, so \<open>Emulate\<close> returns, on time.
  \<^item> \<open>Debugger\<close>, \<open>Debugger_Laws\<close> (debug_interface.cc): the pause protocol as an interleaving of a run thread and a client,
    each block under the mutex a step.  Laws: an answered pause holds the machine; two runs that go wrong.
  \<^item> \<open>Lua_Cpu\<close>, \<open>Lua_Laws\<close> (lua_interface/lua_cpu.cc): what a script does to the CPU, memory, registers and debugger, over a record of the
    functions of the Lua library.  Laws: bytes and registers are read as they were written, refused accesses, the function that
    never assembles.  \<open>Lua_State\<close>, \<open>Lua_State_Laws\<close> (lua_state.cc): the threads that share a Lua state as a step relation, with mutual
    exclusion and no deadlock; the lines of the console.
  \<^item> \<open>Host_Memory\<close> (host_system.h, host_linux.cc, host_win32.cc, rom.cc): memory regions and their protection on both
    hosts, which do the same; mapped files, and \<open>ReadRom\<close>.
  \<^item> \<open>Jit_X64\<close> (jit.cc, jit_x64): pages of entry points, code buffers, the emitter, the flattening of operation lists, \<open>Execute\<close>.
    \<open>Jit_Laws\<close>: a reference decoder for the emitted instructions, what the emitter writes, the lists of all instructions.
    \<open>Jit_Pages\<close>: the typing of pages and buffers, and \<open>Execute\<close>, which reaches translated code.
  \<^item> \<open>C256\<close>, \<open>C256_Laws\<close>, \<open>C256_Copro\<close> (system/c256): the machine, its interpretation of \<open>io_contract\<close>, the states it reaches from
    power on, and the results of the coprocessor.  \<open>C256_Clock\<close>: its interpretation of \<open>io_clock\<close>; it runs to its stop cycle.
  \<^item> \<open>Hex_Loader\<close>, \<open>Hex_Laws\<close> (main.cc): the loader of hex files undoes a printer; its bounds check wraps.
    \<open>C256_Main\<close>: \<open>main\<close>, which powers the C256 on with any file the loader accepts.
  \<^item> \<open>Ppu\<close>, \<open>Ppu_Step\<close>, \<open>Ppu_Regs\<close> (system/nes/2c02.h, 2c02.cc): the picture processor, its state machine, drawing, sprites, registers.
    \<open>Ppu_Laws\<close>: the invariant \<open>ppu_ok\<close>, and the abstract machine of places on the screen, of which \<open>Ppu_Machine\<close> shows the
    state machine to be a refinement; catching up with the CPU ends.  \<open>Ppu_Sprites\<close>, \<open>Ppu_Scroll\<close>, \<open>Ppu_Access\<close>,
    \<open>Ppu_Frame\<close>: the first eight sprites, the scroll counters, palette and video memory, what a step leaves alone.
  \<^item> \<open>Rom_Ines\<close>, \<open>Rom_Laws\<close> (rom_ines.h, rom.cc): the parser of iNES images undoes a printer.
  \<^item> \<open>Nes_Mapper\<close>, \<open>Nes\<close>, \<open>Nes_Libretro\<close>, \<open>Libretro\<close> (system/nes, libretro): cartridges, the machine, its controllers, the front
    end.  \<open>Libretro_Front\<close>: what the embedder sets, asks for and sees of a frame; the controllers read through it are those of the
    machine's model.  \<open>Nes_Memory\<close>: the memory map after loading.  \<open>Nes_Io\<close>: controllers, and the addresses that lead to a null pointer.
    \<open>Nes_Laws\<close>: the interrupt of the vertical blank, DMA, the well-formed picture processor of a loaded machine.

  \<^bold>\<open>How the parts interact.\<close>  The processor calls the bus, the bus the callbacks, the callbacks the machine: in the model
  the callbacks are functions on the whole machine state, so they see the processor's cycle and change its interrupts.  The picture processor
  is given the host memory and the interrupt line for the time it runs (\<open>ppu_of\<close>, \<open>with_ppu\<close>).  The C256 meets
  \<open>io_contract\<close>, so all its instructions are safe; the NES does not, as a read behind its registers follows a null pointer
  (\<open>read_behind_registers\<close>), and its theorems speak of the operations one by one.

  The translator gets the operation list of the instruction at an address from the processor (\<open>GetJit\<close>), and its buffers are
  blocks of the same host memory under the regions of \<open>Host_Memory\<close>.  A function of a script pauses the machine through the
  blocks of \<open>Debugger\<close> before it uses bus or processor.

  \<^bold>\<open>Interfaces taken as arguments.\<close>  Callbacks of events and breakpoints; what a joypad reports and what a system
  of libretro does in a frame; the number of the block a host allocation returns, and that it is filled with zeros; the
  event that is due next and the time a breakpoint is hit, which any interleaving may choose.  Characters from 128 are
  in no class of the C library, as in its default locale.  The system's \<open>mmap\<close> and \<open>mprotect\<close> (a protection asked for is
  granted: \<open>always_protects\<close>), and what \<open>fstat\<close> and \<open>read\<close> deliver.  For the translator the offsets of two members of \<open>CpuState\<close>,
  which lists share an address, and the assembly routine that enters code.  For scripts the functions of the Lua
  library (\<open>lua_api\<close>, and \<open>load\<close> and \<open>run\<close> of the console), and what the run thread does while a script waits (\<open>env_run\<close>).

  \<^bold>\<open>Not modelled.\<close>  The three routines of jit_x86_entrypoints.asm, and what the processor does with emitted code beyond
  the decoder of two instruction forms.  The signal hook, traceback, prompts and messages of the Lua console, and the opening of
  files: calls of libraries and of the operating system.  The benchmark
  program holds no state of its own.
\<close>

end
